(* ===== verification/Prelude.thy ===== *)
theory Prelude imports Complex_Main "HOL-Library.Sublist"
begin

text \<open>
  What the components share: the lemma collections of the development, the operations on
  JavaScript strings the code calls (\<open>startsWith\<close>, \<open>includes\<close>, \<open>indexOf\<close>,
  \<open>lastIndexOf\<close>, \<open>slice\<close>, \<open>split\<close>, \<open>trim\<close>, \<open>toLowerCase\<close>), truthiness, and
  generic lemmas on lists and options.

  A JavaScript string is the list of the bytes of its UTF-8 encoding. The code searches
  and cuts its strings only at ASCII characters, so positions found and cut in the byte
  list are those found and cut in the UTF-16 string.
\<close>

named_theorems view_simps \<open>unfolding rules of the screens and hooks\<close>
named_theorems effect_simps \<open>running rules of the effect monad\<close>
named_theorems js_simps \<open>evaluation rules of the JavaScript string and number operations\<close>

section \<open>Truthiness\<close>

text \<open>\<open>!!s\<close> of a string that may be undefined: undefined and the empty string are falsy.\<close>

definition truthy_str :: "string option \<Rightarrow> bool" where
  "truthy_str s = (case s of None \<Rightarrow> False | Some t \<Rightarrow> t \<noteq> [])"

text \<open>\<open>!!n\<close> of a number that may be undefined: undefined and 0 are falsy.\<close>

definition truthy_int :: "int option \<Rightarrow> bool" where
  "truthy_int n = (case n of None \<Rightarrow> False | Some i \<Rightarrow> i \<noteq> 0)"

text \<open>\<open>s || d\<close> on strings, and \<open>n ?? d\<close>.\<close>

definition or_str :: "string option \<Rightarrow> string \<Rightarrow> string" where
  "or_str s d = (case s of None \<Rightarrow> d | Some t \<Rightarrow> if t = [] then d else t)"

definition nullish :: "'a option \<Rightarrow> 'a \<Rightarrow> 'a" where
  "nullish x d = (case x of None \<Rightarrow> d | Some y \<Rightarrow> y)"

lemma truthy_str_simps [simp]:
  "truthy_str None = False" "truthy_str (Some t) = (t \<noteq> [])"
  by (simp_all add: truthy_str_def)

lemma truthy_int_simps [simp]:
  "truthy_int None = False" "truthy_int (Some i) = (i \<noteq> 0)"
  by (simp_all add: truthy_int_def)

lemma or_str_simps [simp]:
  "or_str None d = d" "or_str (Some []) d = d" "or_str (Some (c # t)) d = c # t"
  by (simp_all add: or_str_def)

lemma nullish_simps [simp]: "nullish None d = d" "nullish (Some y) d = y"
  by (simp_all add: nullish_def)

section \<open>Strings\<close>

definition starts_with :: "string \<Rightarrow> string \<Rightarrow> bool" where
  "starts_with p s = (take (length p) s = p)"

fun includes_str :: "string \<Rightarrow> string \<Rightarrow> bool" where
  "includes_str p [] = (p = [])"
| "includes_str p (c # s) = (starts_with p (c # s) \<or> includes_str p s)"

text \<open>\<open>s.indexOf(c)\<close> and \<open>s.lastIndexOf(c)\<close> for one character: \<open>None\<close> is the result -1.\<close>

fun index_of :: "char \<Rightarrow> string \<Rightarrow> nat option" where
  "index_of c [] = None"
| "index_of c (d # s) = (if c = d then Some 0 else map_option Suc (index_of c s))"

fun last_index_of :: "char \<Rightarrow> string \<Rightarrow> nat option" where
  "last_index_of c [] = None"
| "last_index_of c (d # s) =
     (case last_index_of c s of
        Some i \<Rightarrow> Some (Suc i)
      | None \<Rightarrow> if c = d then Some 0 else None)"

text \<open>\<open>s.slice(i, j)\<close> for in-range indices.\<close>

definition slice :: "nat \<Rightarrow> nat \<Rightarrow> 'a list \<Rightarrow> 'a list" where
  "slice i j xs = take (j - i) (drop i xs)"

text \<open>\<open>s.split(c)\<close> for one character: never the empty list.\<close>

fun split_on :: "char \<Rightarrow> string \<Rightarrow> string list" where
  "split_on c [] = [[]]"
| "split_on c (d # s) =
     (if c = d then [] # split_on c s
      else (case split_on c s of [] \<Rightarrow> [[d]] | w # ws \<Rightarrow> (d # w) # ws))"

definition lower_char :: "char \<Rightarrow> char" where
  "lower_char c =
     (let n = (of_char c :: nat) in if 65 \<le> n \<and> n \<le> 90 then char_of (n + 32) else c)"

definition to_lower :: "string \<Rightarrow> string" where
  "to_lower = map lower_char"

definition is_space :: "char \<Rightarrow> bool" where
  "is_space c = (c \<in> {CHR '' '', CHR 0x09, CHR 0x0A, CHR 0x0B, CHR 0x0C, CHR 0x0D})"

definition trim_start :: "string \<Rightarrow> string" where
  "trim_start = dropWhile is_space"

definition trim :: "string \<Rightarrow> string" where
  "trim s = rev (dropWhile is_space (rev (trim_start s)))"

lemma starts_with_append [simp]: "starts_with p (p @ s)"
  by (simp add: starts_with_def)

lemma starts_with_iff: "starts_with p s \<longleftrightarrow> (\<exists>t. s = p @ t)"
  unfolding starts_with_def by (metis append_take_drop_id append_eq_conv_conj)

lemma index_of_None: "index_of c s = None \<longleftrightarrow> c \<notin> set s"
  by (induction s) auto

lemma index_of_append: "c \<notin> set s \<Longrightarrow> index_of c (s @ c # t) = Some (length s)"
  by (induction s) auto

lemma index_of_bound: "index_of c s = Some i \<Longrightarrow> i < length s \<and> s ! i = c"
  by (induction s arbitrary: i) (auto split: if_splits)

lemma last_index_of_None: "last_index_of c s = None \<longleftrightarrow> c \<notin> set s"
  by (induction s) (auto split: option.splits)

lemma last_index_of_append:
  "c \<notin> set t \<Longrightarrow> last_index_of c (s @ c # t) = Some (length s)"
proof (induction s)
  case Nil
  then show ?case using last_index_of_None [of c t] by simp
qed simp

lemma last_index_of_Some:
  "last_index_of c s = Some i \<Longrightarrow> \<exists>a t. s = a @ c # t \<and> length a = i \<and> c \<notin> set t"
proof (induction s arbitrary: i)
  case (Cons d s)
  show ?case
  proof (cases "last_index_of c s")
    case None
    with Cons.prems have "c = d" "i = 0" "c \<notin> set s"
      by (auto simp: last_index_of_None split: if_splits)
    then show ?thesis by (intro exI [of _ "[]"] exI [of _ s]) simp
  next
    case (Some j)
    with Cons obtain a t where "s = a @ c # t" "length a = j" "c \<notin> set t" by blast
    with Some Cons.prems show ?thesis by (intro exI [of _ "d # a"] exI [of _ t]) auto
  qed
qed simp

lemma slice_0_append [simp]: "slice 0 (length a) (a @ b) = a"
  by (simp add: slice_def)

lemma slice_length: "length (slice i j xs) = min (j - i) (length xs - i)"
  by (simp add: slice_def)

lemma split_on_nonempty [simp]: "split_on c s \<noteq> []"
  by (cases s) (auto split: list.splits)

lemma split_on_absent: "c \<notin> set s \<Longrightarrow> split_on c s = [s]"
  by (induction s) auto

lemma split_on_append: "c \<notin> set s \<Longrightarrow> split_on c (s @ c # t) = s # split_on c t"
  by (induction s) auto

lemma split_on_parts: "w \<in> set (split_on c s) \<Longrightarrow> c \<notin> set w"
  by (induction s arbitrary: w) (auto split: if_splits list.splits)

lemma to_lower_append [simp]: "to_lower (a @ b) = to_lower a @ to_lower b"
  by (simp add: to_lower_def)

section \<open>Lists and options\<close>

lemma find_Some_iff: "List.find P xs = Some x \<Longrightarrow> x \<in> set xs \<and> P x"
  by (induction xs) (auto split: if_splits)

lemma find_None: "List.find P xs = None \<longleftrightarrow> (\<forall>x \<in> set xs. \<not> P x)"
  by (induction xs) auto

end
