(* ===== verification/JsNumber.thy ===== *)
theory JsNumber imports Prelude
begin

text \<open>
  JavaScript numbers as the code uses them. Amounts are integers and stay below
  \<open>Number.MAX_SAFE_INTEGER\<close>, where the double arithmetic of \<open>+\<close>, \<open>-\<close> and \<open>*\<close> is
  exact: they are \<open>int\<close>. Quotients (a rate, an amount in BTC) are rationals, and the
  results the conversion functions can have besides a finite number are
  constructors of \<open>jsnum\<close>. The conversions are those of ECMA-262: \<open>Number(s)\<close>
  (\<open>StringNumericLiteral\<close>), \<open>parseFloat\<close> and \<open>parseInt\<close> (the longest numeric prefix),
  \<open>Math.floor/ceil/round/max/min\<close>, \<open>toString\<close> of an integer and \<open>toFixed\<close>.
\<close>

datatype jsnum = NaN | PosInf | NegInf | Fin rat

definition js_is_finite :: "jsnum \<Rightarrow> bool" where
  "js_is_finite x = (case x of Fin _ \<Rightarrow> True | _ \<Rightarrow> False)"

definition fin_or :: "rat \<Rightarrow> jsnum \<Rightarrow> rat" where
  "fin_or d x = (case x of Fin r \<Rightarrow> r | _ \<Rightarrow> d)"

text \<open>\<open>Math.round\<close> rounds half up, also below zero.\<close>

definition js_round :: "rat \<Rightarrow> int" where
  "js_round x = \<lfloor>x + 1 / 2\<rfloor>"

section \<open>Printing integers: \<open>toString\<close>, \<open>String(n)\<close> and template literals\<close>

definition digit_char :: "nat \<Rightarrow> char" where
  "digit_char d = char_of (48 + d)"

definition digit_val :: "char \<Rightarrow> nat" where
  "digit_val c = of_char c - 48"

definition is_digit :: "char \<Rightarrow> bool" where
  "is_digit c = (let n = (of_char c :: nat) in 48 \<le> n \<and> n \<le> 57)"

fun show_nat :: "nat \<Rightarrow> string" where
  "show_nat n = (if n < 10 then [digit_char n] else show_nat (n div 10) @ [digit_char (n mod 10)])"

declare show_nat.simps [simp del]

definition show_int :: "int \<Rightarrow> string" where
  "show_int i = (if i < 0 then CHR ''-'' # show_nat (nat (- i)) else show_nat (nat i))"

definition digits_val :: "string \<Rightarrow> nat" where
  "digits_val s = foldl (\<lambda>a c. 10 * a + digit_val c) 0 s"

lemma digit_chars [js_simps]:
  "digit_char 0 = CHR ''0''" "digit_char (Suc 0) = CHR ''1''" "digit_char 1 = CHR ''1''"
  "digit_char 2 = CHR ''2''" "digit_char 3 = CHR ''3''" "digit_char 4 = CHR ''4''"
  "digit_char 5 = CHR ''5''" "digit_char 6 = CHR ''6''" "digit_char 7 = CHR ''7''"
  "digit_char 8 = CHR ''8''" "digit_char 9 = CHR ''9''"
  by code_simp+

lemma digit_char_digit [simp]: "d < 10 \<Longrightarrow> is_digit (digit_char d)"
  by (simp add: is_digit_def digit_char_def)

lemma digit_val_char [simp]: "d < 10 \<Longrightarrow> digit_val (digit_char d) = d"
  by (simp add: digit_val_def digit_char_def)

lemma digits_val_snoc: "digits_val (s @ [c]) = 10 * digits_val s + digit_val c"
  by (simp add: digits_val_def)

lemma digits_val_Nil [simp]: "digits_val [] = 0"
  by (simp add: digits_val_def)

lemma digits_val_append: "digits_val (s @ t) = digits_val s * 10 ^ length t + digits_val t"
proof (induction t rule: rev_induct)
  case (snoc c t)
  have "digits_val (s @ t @ [c]) = 10 * digits_val (s @ t) + digit_val c"
    by (metis append_assoc digits_val_snoc)
  with snoc show ?case by (simp add: digits_val_snoc algebra_simps)
qed simp

lemma show_nat_nonempty [simp]: "show_nat n \<noteq> []"
  by (subst show_nat.simps) simp

lemma show_nat_digits: "c \<in> set (show_nat n) \<Longrightarrow> is_digit c"
proof (induction n rule: show_nat.induct)
  case (1 n)
  then show ?case
    by (cases "n < 10") (auto simp: show_nat.simps [of n])
qed

lemma digits_val_show_nat [simp]: "digits_val (show_nat n) = n"
proof (induction n rule: show_nat.induct)
  case (1 n)
  show ?case
  proof (cases "n < 10")
    case True
    then show ?thesis by (simp add: show_nat.simps [of n] digits_val_def)
  next
    case False
    with 1 show ?thesis
      by (simp add: show_nat.simps [of n] digits_val_snoc)
  qed
qed

lemma length_show_nat_le: "n < 10 ^ Suc k \<Longrightarrow> length (show_nat n) \<le> Suc k"
proof (induction k arbitrary: n)
  case 0
  then show ?case by (simp add: show_nat.simps [of n])
next
  case (Suc k)
  show ?case
  proof (cases "n < 10")
    case False
    from Suc.prems have "n div 10 < 10 ^ Suc k" by (simp add: less_mult_imp_div_less)
    with Suc.IH False show ?thesis by (simp add: show_nat.simps [of n])
  qed (simp add: show_nat.simps [of n])
qed

section \<open>Reading numbers\<close>

text \<open>
  \<open>scan_decimal\<close> reads the longest unsigned decimal literal (digits, an optional
  fraction, an optional exponent) and returns its value and what follows it; \<open>None\<close>
  when the text does not start with one. An exponent mark with no digits is left
  unread, as \<open>parseFloat("1e")\<close> is 1.
\<close>

definition span_digits :: "string \<Rightarrow> string \<times> string" where
  "span_digits s = (takeWhile is_digit s, dropWhile is_digit s)"

definition scan_sign :: "string \<Rightarrow> bool \<times> string" where
  "scan_sign s =
     (case s of c # r \<Rightarrow> if c = CHR ''-'' then (True, r) else if c = CHR ''+'' then (False, r)
                        else (False, s)
      | [] \<Rightarrow> (False, s))"

definition scan_exponent :: "rat \<Rightarrow> string \<Rightarrow> rat \<times> string" where
  "scan_exponent m s =
     (case s of
        c # r \<Rightarrow>
          if c = CHR ''e'' \<or> c = CHR ''E'' then
            (let (neg, r1) = scan_sign r; (ds, r2) = span_digits r1
             in if ds = [] then (m, s)
                else if neg then (m / 10 ^ digits_val ds, r2) else (m * 10 ^ digits_val ds, r2))
          else (m, s)
      | [] \<Rightarrow> (m, s))"

definition scan_decimal :: "string \<Rightarrow> (rat \<times> string) option" where
  "scan_decimal s =
     (let (ip, r1) = span_digits s in
      case r1 of
        c # r2 \<Rightarrow>
          if c = CHR ''.'' then
            (let (fp, r3) = span_digits r2
             in if ip = [] \<and> fp = [] then None
                else Some (scan_exponent (of_nat (digits_val (ip @ fp)) / 10 ^ length fp) r3))
          else if ip = [] then None else Some (scan_exponent (of_nat (digits_val ip)) r1)
      | [] \<Rightarrow> if ip = [] then None else Some (of_nat (digits_val ip), []))"

definition radix_digit :: "char \<Rightarrow> nat" where
  "radix_digit c =
     (let n = (of_char c :: nat)
      in if 48 \<le> n \<and> n \<le> 57 then n - 48
         else if 97 \<le> n \<and> n \<le> 122 then n - 87
         else if 65 \<le> n \<and> n \<le> 90 then n - 55 else 99)"

definition radix_val :: "nat \<Rightarrow> string \<Rightarrow> nat" where
  "radix_val b s = foldl (\<lambda>a c. b * a + radix_digit c) 0 s"

definition parse_radix :: "nat \<Rightarrow> string \<Rightarrow> jsnum" where
  "parse_radix b s =
     (if s \<noteq> [] \<and> list_all (\<lambda>c. radix_digit c < b) s then Fin (of_nat (radix_val b s)) else NaN)"

definition signed :: "bool \<Rightarrow> rat \<Rightarrow> jsnum" where
  "signed neg r = Fin (if neg then - r else r)"

text \<open>\<open>Number(s)\<close>, also \<open>+s\<close>: the whole trimmed text is a literal, and the empty text is 0.\<close>

definition js_Number :: "string \<Rightarrow> jsnum" where
  "js_Number s =
     (let t = trim s in
      if t = [] then Fin 0
      else if starts_with ''0x'' t \<or> starts_with ''0X'' t then parse_radix 16 (drop 2 t)
      else if starts_with ''0o'' t \<or> starts_with ''0O'' t then parse_radix 8 (drop 2 t)
      else if starts_with ''0b'' t \<or> starts_with ''0B'' t then parse_radix 2 (drop 2 t)
      else (let (neg, u) = scan_sign t in
            if u = ''Infinity'' then (if neg then NegInf else PosInf)
            else case scan_decimal u of
                   Some (r, []) \<Rightarrow> signed neg r
                 | _ \<Rightarrow> NaN))"

text \<open>\<open>parseFloat(s)\<close>: the longest prefix that is a literal.\<close>

definition js_parseFloat :: "string \<Rightarrow> jsnum" where
  "js_parseFloat s =
     (let (neg, u) = scan_sign (trim_start s) in
      if starts_with ''Infinity'' u then (if neg then NegInf else PosInf)
      else case scan_decimal u of None \<Rightarrow> NaN | Some (r, _) \<Rightarrow> signed neg r)"

text \<open>\<open>parseInt(s)\<close> with no radix: sign, an optional \<open>0x\<close>, then the longest run of digits.\<close>

definition js_parseInt :: "string \<Rightarrow> int option" where
  "js_parseInt s =
     (let (neg, u) = scan_sign (trim_start s);
          hex = starts_with ''0x'' u \<or> starts_with ''0X'' u;
          b = (if hex then 16 else 10);
          ds = takeWhile (\<lambda>c. radix_digit c < b) (if hex then drop 2 u else u)
      in if ds = [] then None
         else Some (if neg then - int (radix_val b ds) else int (radix_val b ds)))"

section \<open>\<open>toFixed\<close>\<close>

definition pad0 :: "nat \<Rightarrow> string \<Rightarrow> string" where
  "pad0 k s = replicate (k - length s) CHR ''0'' @ s"

text \<open>\<open>x.toFixed(f)\<close> below 1e21: the nearest multiple of \<open>10^-f\<close>, the larger of two.\<close>

definition to_fixed_abs :: "nat \<Rightarrow> nat \<Rightarrow> string" where
  "to_fixed_abs f n =
     (if f = 0 then show_nat n
      else (let z = pad0 (Suc f) (show_nat n); k = length z - f
            in take k z @ CHR ''.'' # drop k z))"

definition to_fixed :: "nat \<Rightarrow> rat \<Rightarrow> string" where
  "to_fixed f x =
     (if x < 0 then CHR ''-'' # to_fixed_abs f (nat (js_round (- x * 10 ^ f)))
      else to_fixed_abs f (nat (js_round (x * 10 ^ f))))"

section \<open>Printed numbers read back\<close>

lemma digits_val_zeros: "digits_val (replicate k CHR ''0'' @ s) = digits_val s"
proof -
  have "digits_val (replicate k CHR ''0'') = 0"
    by (induction k) (simp_all add: digits_val_def digit_val_def)
  then show ?thesis by (simp add: digits_val_append)
qed

lemma digits_val_pad0 [simp]: "digits_val (pad0 k s) = digits_val s"
  by (simp add: pad0_def digits_val_zeros)

lemma zero_digit [simp]: "is_digit CHR ''0''" and not_digit_dot [simp]: "\<not> is_digit CHR ''.''"
  by (simp_all add: is_digit_def)

lemma pad0_digits: "list_all is_digit s \<Longrightarrow> list_all is_digit (pad0 k s)"
  by (auto simp: pad0_def list_all_iff)

lemma length_pad0: "length (pad0 k s) = max k (length s)"
  by (simp add: pad0_def)

lemma show_nat_all_digits [simp]: "list_all is_digit (show_nat n)"
  by (simp add: list_all_iff show_nat_digits)

lemma span_digits_all: "list_all is_digit s \<Longrightarrow> span_digits s = (s, [])"
  by (simp add: span_digits_def list_all_iff)

lemma span_digits_stop:
  "list_all is_digit s \<Longrightarrow> \<not> is_digit c \<Longrightarrow> span_digits (s @ c # t) = (s, c # t)"
  by (simp add: span_digits_def list_all_iff takeWhile_append dropWhile_append)

lemma scan_decimal_int:
  "list_all is_digit s \<Longrightarrow> s \<noteq> [] \<Longrightarrow> scan_decimal s = Some (of_nat (digits_val s), [])"
  by (simp add: scan_decimal_def span_digits_all)

lemma scan_decimal_frac:
  "list_all is_digit a \<Longrightarrow> list_all is_digit b \<Longrightarrow> a \<noteq> [] \<Longrightarrow>
   scan_decimal (a @ CHR ''.'' # b) = Some (of_nat (digits_val (a @ b)) / 10 ^ length b, [])"
  by (simp add: scan_decimal_def span_digits_all span_digits_stop scan_exponent_def)

lemma digit_not_space: "is_digit c \<Longrightarrow> \<not> is_space c"
  by (auto simp: is_digit_def is_space_def)

lemma dropWhile_hd: "s \<noteq> [] \<Longrightarrow> \<not> P (hd s) \<Longrightarrow> dropWhile P s = s"
  by (cases s) auto

lemma trim_id: "s \<noteq> [] \<Longrightarrow> \<not> is_space (hd s) \<Longrightarrow> \<not> is_space (last s) \<Longrightarrow> trim s = s"
  by (simp add: trim_def trim_start_def dropWhile_hd hd_rev)

lemma scan_sign_digit: "s \<noteq> [] \<Longrightarrow> is_digit (hd s) \<Longrightarrow> scan_sign s = (False, s)"
  by (cases s) (auto simp: scan_sign_def is_digit_def)

lemma starts_with_subset: "starts_with p s \<Longrightarrow> set p \<subseteq> set s"
  unfolding starts_with_def by (metis set_take_subset)

text \<open>A text of digits and points that starts and ends with a digit is read by its decimal value.\<close>

lemma decimal_text_no_prefix:
  assumes "list_all (\<lambda>c. is_digit c \<or> c = CHR ''.'') t" and "c \<in> set p"
    and "\<not> is_digit c" and "c \<noteq> CHR ''.''"
  shows "\<not> starts_with p t"
  using assms starts_with_subset [of p t] by (auto simp: list_all_iff)

lemma js_Number_decimal_text:
  assumes ds: "list_all (\<lambda>c. is_digit c \<or> c = CHR ''.'') t" and ne: "t \<noteq> []"
    and h: "is_digit (hd t)" and l: "is_digit (last t)"
    and sc: "scan_decimal t = Some (r, [])"
  shows "js_Number t = Fin r"
proof -
  have tr: "trim t = t" using ne h l by (simp add: trim_id digit_not_space)
  have np: "\<not> starts_with p t" if "c \<in> set p" "\<not> is_digit c" "c \<noteq> CHR ''.''" for p c
    using decimal_text_no_prefix [OF ds] that by blast
  have "\<not> starts_with ''0x'' t" "\<not> starts_with ''0X'' t" "\<not> starts_with ''0o'' t"
    "\<not> starts_with ''0O'' t" "\<not> starts_with ''0b'' t" "\<not> starts_with ''0B'' t"
    by (rule np [of "CHR ''x''"] np [of "CHR ''X''"] np [of "CHR ''o''"] np [of "CHR ''O''"]
        np [of "CHR ''b''"] np [of "CHR ''B''"]; simp add: is_digit_def)+
  moreover have "t \<noteq> ''Infinity''"
  proof
    assume "t = ''Infinity''"
    then have "starts_with ''Infinity'' t" by (simp add: starts_with_def)
    with np [of "CHR ''I''" "''Infinity''"] show False by (simp add: is_digit_def)
  qed
  ultimately show ?thesis
    using ne h sc by (simp add: js_Number_def tr scan_sign_digit signed_def)
qed

lemma js_Number_show_nat [simp]: "js_Number (show_nat n) = Fin (of_nat n)"
proof (rule js_Number_decimal_text)
  show "list_all (\<lambda>c. is_digit c \<or> c = CHR ''.'') (show_nat n)"
    using show_nat_all_digits [of n] by (auto simp: list_all_iff)
  show "is_digit (hd (show_nat n))" "is_digit (last (show_nat n))"
    by (simp_all add: show_nat_digits [of _ n])
  show "scan_decimal (show_nat n) = Some (of_nat n, [])"
    by (simp add: scan_decimal_int)
qed simp

lemma js_parseFloat_decimal_text:
  assumes ds: "list_all (\<lambda>c. is_digit c \<or> c = CHR ''.'') t" and ne: "t \<noteq> []"
    and h: "is_digit (hd t)" and sc: "scan_decimal t = Some (r, [])"
  shows "js_parseFloat t = Fin r"
proof -
  have "\<not> starts_with ''Infinity'' t"
    using decimal_text_no_prefix [OF ds, of "CHR ''I''" "''Infinity''"] by (simp add: is_digit_def)
  moreover have "trim_start t = t" using ne h by (simp add: trim_start_def dropWhile_hd digit_not_space)
  ultimately show ?thesis
    using ne h sc by (simp add: js_parseFloat_def scan_sign_digit signed_def)
qed

lemma to_fixed_abs_shape:
  "list_all (\<lambda>c. is_digit c \<or> c = CHR ''.'') (to_fixed_abs f n) \<and> to_fixed_abs f n \<noteq> [] \<and>
   is_digit (hd (to_fixed_abs f n)) \<and> is_digit (last (to_fixed_abs f n)) \<and>
   scan_decimal (to_fixed_abs f n) = Some (of_nat n / 10 ^ f, [])"
proof (cases "f = 0")
  case False
  let ?z = "pad0 (Suc f) (show_nat n)"
  let ?k = "length ?z - f"
  have len: "Suc f \<le> length ?z" by (simp add: length_pad0)
  then have k: "0 < ?k" and lz: "length (drop ?k ?z) = f" by auto
  have dz: "list_all is_digit ?z" by (simp add: pad0_digits)
  then have dt: "list_all is_digit (take ?k ?z)" "list_all is_digit (drop ?k ?z)"
    by (auto simp: list_all_iff dest: in_set_takeD in_set_dropD)
  have ne: "take ?k ?z \<noteq> []" "drop ?k ?z \<noteq> []"
    using k len lz False by auto
  let ?t = "take ?k ?z @ CHR ''.'' # drop ?k ?z"
  have t: "to_fixed_abs f n = ?t" using False by (simp add: to_fixed_abs_def Let_def)
  have "list_all (\<lambda>c. is_digit c \<or> c = CHR ''.'') ?t"
    using dt by (auto simp: list_all_iff)
  moreover have "is_digit (hd ?t)"
    using ne dt by (simp add: hd_append list_all_iff del: hd_take)
  moreover have "is_digit (last ?t)"
    using ne dt by (simp add: list_all_iff del: last_drop)
  moreover have "scan_decimal ?t = Some (of_nat n / 10 ^ f, [])"
    using scan_decimal_frac [OF dt ne(1)] lz by (simp del: length_drop)
  ultimately show ?thesis unfolding t by simp
next
  case True
  have "list_all (\<lambda>c. is_digit c \<or> c = CHR ''.'') (show_nat n)"
    using show_nat_all_digits [of n] by (auto simp: list_all_iff)
  with True show ?thesis by (simp add: to_fixed_abs_def scan_decimal_int show_nat_digits [of _ n])
qed

lemma to_fixed_abs_Number: "js_Number (to_fixed_abs f n) = Fin (of_nat n / 10 ^ f)"
  using to_fixed_abs_shape [of f n] by (blast intro: js_Number_decimal_text)

lemma to_fixed_abs_parseFloat: "js_parseFloat (to_fixed_abs f n) = Fin (of_nat n / 10 ^ f)"
  using to_fixed_abs_shape [of f n] by (blast intro: js_parseFloat_decimal_text)

lemma js_round_of_int [simp]: "js_round (of_int i) = i"
  unfolding js_round_def by linarith

lemma js_round_of_nat [simp]: "js_round (of_nat n) = int n"
  using js_round_of_int [of "int n"] by simp

lemma to_fixed_nonneg: "0 \<le> i \<Longrightarrow> to_fixed f (of_int i / 10 ^ f) = to_fixed_abs f (nat i)"
  by (simp add: to_fixed_def divide_less_0_iff)

lemma to_fixed_Number:
  "0 \<le> i \<Longrightarrow> js_Number (to_fixed f (of_int i / 10 ^ f)) = Fin (of_int i / 10 ^ f)"
  by (simp add: to_fixed_nonneg to_fixed_abs_Number)

lemma to_fixed_parseFloat:
  "0 \<le> i \<Longrightarrow> js_parseFloat (to_fixed f (of_int i / 10 ^ f)) = Fin (of_int i / 10 ^ f)"
  by (simp add: to_fixed_nonneg to_fixed_abs_parseFloat)

lemma to_fixed_nonempty: "0 \<le> i \<Longrightarrow> to_fixed f (of_int i / 10 ^ f) \<noteq> []"
  using to_fixed_abs_shape [of f "nat i"] by (simp add: to_fixed_nonneg)

lemma show_int_nonneg: "0 \<le> i \<Longrightarrow> show_int i = show_nat (nat i)"
  by (simp add: show_int_def)

lemma js_Number_show_int: "0 \<le> i \<Longrightarrow> js_Number (show_int i) = Fin (of_int i)"
  by (simp add: show_int_nonneg)

lemma radix_digit_digit: "is_digit c \<Longrightarrow> radix_digit c = digit_val c \<and> digit_val c < 10"
  by (auto simp: radix_digit_def is_digit_def digit_val_def Let_def)

lemma radix_val_digits: "list_all is_digit s \<Longrightarrow> radix_val 10 s = digits_val s"
proof (induction s rule: rev_induct)
  case (snoc c s)
  then show ?case by (simp add: radix_val_def digits_val_snoc radix_digit_digit)
qed (simp add: radix_val_def)

lemma js_parseInt_digits:
  assumes "s \<noteq> []" and "list_all is_digit s"
  shows "js_parseInt s = Some (int (digits_val s))"
proof -
  have sp: "trim_start s = s" "scan_sign s = (False, s)"
    using assms by (cases s; simp add: trim_start_def digit_not_space scan_sign_digit)+
  have "\<not> is_digit CHR ''x''" "\<not> is_digit CHR ''X''" by code_simp+
  then have x: "\<not> starts_with ''0x'' s" "\<not> starts_with ''0X'' s"
    using assms(2) by (auto dest!: starts_with_subset simp: list_all_iff)
  have ds: "takeWhile (\<lambda>c. radix_digit c < 10) s = s"
    using assms(2) by (simp add: takeWhile_eq_all_conv list_all_iff radix_digit_digit)
  show ?thesis
    using assms by (simp add: js_parseInt_def sp x ds radix_val_digits)
qed

lemma js_parseInt_show_nat [simp]: "js_parseInt (show_nat n) = Some (int n)"
  by (simp add: js_parseInt_digits)

end
