(* ===== verification/JsJson.thy ===== *)
theory JsJson imports JsNumber
begin

text \<open>
  JSON as the code uses it: request bodies are built with \<open>JSON.stringify\<close>, responses read
  with \<open>fetchResponse.json()\<close>, and the stores keep their state in \<open>localStorage\<close> as JSON
  text. \<open>json_stringify\<close> prints without white space and escapes as ECMA-262 does;
  \<open>json_parse\<close> is a recursive descent parser whose \<open>None\<close> is a \<open>SyntaxError\<close>.
  The numbers the code stores and posts are integers, so numbers with a fraction or an
  exponent are outside the model (the parser rejects them).
\<close>

datatype json = JNull | JBool bool | JNum int | JStr string
  | JArr "json list" | JObj "(string \<times> json) list"

section \<open>Printing\<close>

definition hex_digit :: "nat \<Rightarrow> char" where
  "hex_digit n = (if n < 10 then char_of (48 + n) else char_of (87 + n))"

definition escape_char :: "char \<Rightarrow> string" where
  "escape_char c =
     (if c = CHR 0x22 then [CHR 0x5C, CHR 0x22]
      else if c = CHR 0x5C then [CHR 0x5C, CHR 0x5C]
      else if c = CHR 0x08 then [CHR 0x5C, CHR ''b'']
      else if c = CHR 0x0C then [CHR 0x5C, CHR ''f'']
      else if c = CHR 0x0A then [CHR 0x5C, CHR ''n'']
      else if c = CHR 0x0D then [CHR 0x5C, CHR ''r'']
      else if c = CHR 0x09 then [CHR 0x5C, CHR ''t'']
      else if (of_char c :: nat) < 32
        then [CHR 0x5C, CHR ''u'', CHR ''0'', CHR ''0'',
              hex_digit (of_char c div 16), hex_digit (of_char c mod 16)]
      else [c])"

definition quote :: "string \<Rightarrow> string" where
  "quote s = CHR 0x22 # concat (map escape_char s) @ [CHR 0x22]"

fun json_stringify :: "json \<Rightarrow> string"
  and show_items :: "json list \<Rightarrow> string"
  and show_members :: "(string \<times> json) list \<Rightarrow> string" where
  "json_stringify JNull = ''null''"
| "json_stringify (JBool b) = (if b then ''true'' else ''false'')"
| "json_stringify (JNum i) = show_int i"
| "json_stringify (JStr s) = quote s"
| "json_stringify (JArr xs) = CHR ''['' # show_items xs @ '']''"
| "json_stringify (JObj ms) = CHR 0x7B # show_members ms @ [CHR 0x7D]"
| "show_items [] = []"
| "show_items [x] = json_stringify x"
| "show_items (x # y # ys) = json_stringify x @ CHR '','' # show_items (y # ys)"
| "show_members [] = []"
| "show_members [(k, v)] = quote k @ CHR '':'' # json_stringify v"
| "show_members ((k, v) # m # ms) =
     quote k @ CHR '':'' # json_stringify v @ CHR '','' # show_members (m # ms)"

section \<open>Reading\<close>

definition json_space :: "char \<Rightarrow> bool" where
  "json_space c = (c \<in> {CHR '' '', CHR 0x09, CHR 0x0A, CHR 0x0D})"

definition skip_ws :: "string \<Rightarrow> string" where
  "skip_ws = dropWhile json_space"

text \<open>A code unit of an escape as UTF-8 bytes.\<close>

definition utf8 :: "nat \<Rightarrow> string" where
  "utf8 n =
     (if n < 128 then [char_of n]
      else if n < 2048 then [char_of (192 + n div 64), char_of (128 + n mod 64)]
      else [char_of (224 + n div 4096), char_of (128 + n div 64 mod 64), char_of (128 + n mod 64)])"

definition simple_escape :: "char \<Rightarrow> char option" where
  "simple_escape e =
     (if e = CHR 0x22 \<or> e = CHR 0x5C \<or> e = CHR ''/'' then Some e
      else if e = CHR ''b'' then Some CHR 0x08
      else if e = CHR ''f'' then Some CHR 0x0C
      else if e = CHR ''n'' then Some CHR 0x0A
      else if e = CHR ''r'' then Some CHR 0x0D
      else if e = CHR ''t'' then Some CHR 0x09
      else None)"

text \<open>The text after an opening quote up to the closing one, and what follows it.\<close>

fun unquote :: "string \<Rightarrow> (string \<times> string) option" where
  "unquote [] = None"
| "unquote (c # cs) =
     (if c = CHR 0x22 then Some ([], cs)
      else if c = CHR 0x5C then
        (case cs of
           [] \<Rightarrow> None
         | e # es \<Rightarrow>
             if e = CHR ''u'' then
               (case es of
                  h1 # h2 # h3 # h4 # r \<Rightarrow>
                    if list_all (\<lambda>h. radix_digit h < 16) [h1, h2, h3, h4]
                    then map_option (\<lambda>(t, r'). (utf8 (radix_val 16 [h1, h2, h3, h4]) @ t, r')) (unquote r)
                    else None
                | _ \<Rightarrow> None)
             else (case simple_escape e of
                     None \<Rightarrow> None
                   | Some d \<Rightarrow> map_option (\<lambda>(t, r'). (d # t, r')) (unquote es)))
      else if (of_char c :: nat) < 32 then None
      else map_option (\<lambda>(t, r'). (c # t, r')) (unquote cs))"

definition parse_number :: "string \<Rightarrow> (json \<times> string) option" where
  "parse_number s =
     (let neg = (s \<noteq> [] \<and> hd s = CHR ''-'');
          (ds, r) = span_digits (if neg then tl s else s)
      in if ds = [] \<or> (r \<noteq> [] \<and> hd r \<in> {CHR ''.'', CHR ''e'', CHR ''E''}) then None
         else Some (JNum (if neg then - int (digits_val ds) else int (digits_val ds)), r))"

fun p_value :: "nat \<Rightarrow> string \<Rightarrow> (json \<times> string) option"
  and p_items :: "nat \<Rightarrow> string \<Rightarrow> (json list \<times> string) option"
  and p_members :: "nat \<Rightarrow> string \<Rightarrow> ((string \<times> json) list \<times> string) option" where
  "p_value 0 s = None"
| "p_value (Suc n) s =
     (case skip_ws s of
        [] \<Rightarrow> None
      | c # r \<Rightarrow>
          if c = CHR 0x22 then map_option (\<lambda>(t, r'). (JStr t, r')) (unquote r)
          else if c = CHR ''['' then
            (if skip_ws r \<noteq> [] \<and> hd (skip_ws r) = CHR '']'' then Some (JArr [], tl (skip_ws r))
             else map_option (\<lambda>(xs, r'). (JArr xs, r')) (p_items n r))
          else if c = CHR 0x7B then
            (if skip_ws r \<noteq> [] \<and> hd (skip_ws r) = CHR 0x7D then Some (JObj [], tl (skip_ws r))
             else map_option (\<lambda>(ms, r'). (JObj ms, r')) (p_members n r))
          else if starts_with ''null'' (c # r) then Some (JNull, drop 3 r)
          else if starts_with ''true'' (c # r) then Some (JBool True, drop 3 r)
          else if starts_with ''false'' (c # r) then Some (JBool False, drop 4 r)
          else parse_number (c # r))"
| "p_items 0 s = None"
| "p_items (Suc n) s =
     (case p_value n s of
        None \<Rightarrow> None
      | Some (x, r) \<Rightarrow>
          (case skip_ws r of
             [] \<Rightarrow> None
           | c # r' \<Rightarrow>
               if c = CHR '','' then map_option (\<lambda>(xs, r''). (x # xs, r'')) (p_items n r')
               else if c = CHR '']'' then Some ([x], r') else None))"
| "p_members 0 s = None"
| "p_members (Suc n) s =
     (case skip_ws s of
        [] \<Rightarrow> None
      | q # s1 \<Rightarrow>
          if q \<noteq> CHR 0x22 then None else
          (case unquote s1 of
             None \<Rightarrow> None
           | Some (k, s2) \<Rightarrow>
               (case skip_ws s2 of
                  [] \<Rightarrow> None
                | c # s3 \<Rightarrow>
                    if c \<noteq> CHR '':'' then None else
                    (case p_value n s3 of
                       None \<Rightarrow> None
                     | Some (v, r) \<Rightarrow>
                         (case skip_ws r of
                            [] \<Rightarrow> None
                          | d # r' \<Rightarrow>
                              if d = CHR '','' then
                                map_option (\<lambda>(ms, r''). ((k, v) # ms, r'')) (p_members n r')
                              else if d = CHR 0x7D then Some ([(k, v)], r') else None)))))"

definition json_parse :: "string \<Rightarrow> json option" where
  "json_parse s =
     (case p_value (2 * length s + 1) s of
        None \<Rightarrow> None
      | Some (j, r) \<Rightarrow> if skip_ws r = [] then Some j else None)"

section \<open>Reading a property of an object\<close>

text \<open>\<open>o.k\<close>: undefined (\<open>None\<close>) when absent or when \<open>o\<close> is no object; the last duplicate wins.\<close>

definition jget :: "string \<Rightarrow> json \<Rightarrow> json option" where
  "jget k j = (case j of JObj ms \<Rightarrow> map_of (rev ms) k | _ \<Rightarrow> None)"

definition jget_str :: "string \<Rightarrow> json \<Rightarrow> string option" where
  "jget_str k j = (case jget k j of Some (JStr s) \<Rightarrow> Some s | _ \<Rightarrow> None)"

definition jget_int :: "string \<Rightarrow> json \<Rightarrow> int option" where
  "jget_int k j = (case jget k j of Some (JNum i) \<Rightarrow> Some i | _ \<Rightarrow> None)"

definition jget_bool :: "string \<Rightarrow> json \<Rightarrow> bool option" where
  "jget_bool k j = (case jget k j of Some (JBool b) \<Rightarrow> Some b | _ \<Rightarrow> None)"

text \<open>\<open>JSON.stringify\<close> leaves out properties whose value is undefined.\<close>

definition opt_member :: "string \<Rightarrow> json option \<Rightarrow> (string \<times> json) list" where
  "opt_member k v = (case v of None \<Rightarrow> [] | Some j \<Rightarrow> [(k, j)])"

section \<open>The round trip\<close>

lemma hex_ok: "n < 16 \<Longrightarrow> radix_digit (hex_digit n) = n"
  by (auto simp: radix_digit_def hex_digit_def)

lemma unquote_escape:
  "unquote (escape_char c @ s) = map_option (\<lambda>(t, r). (c # t, r)) (unquote s)"
proof -
  have "(of_char c :: nat) < 32 \<Longrightarrow> (of_char c :: nat) div 16 < 16" by simp
  then show ?thesis
    by (auto simp: escape_char_def simple_escape_def hex_ok radix_val_def utf8_def
        radix_digit_def [of "CHR ''0''"] split: prod.splits)
qed

lemma unquote_quote: "unquote (concat (map escape_char s) @ CHR 0x22 # r) = Some (s, r)"
  by (induction s) (simp_all add: unquote_escape)

lemma skip_ws_id: "s \<noteq> [] \<Longrightarrow> \<not> json_space (hd s) \<Longrightarrow> skip_ws s = s"
  by (simp add: skip_ws_def dropWhile_hd)

lemma skip_ws_Nil [simp]: "skip_ws [] = []"
  by (simp add: skip_ws_def)

text \<open>Every printed value starts with a character that is neither white space nor a closing bracket.\<close>

definition value_start :: "char \<Rightarrow> bool" where
  "value_start c = (c \<in> {CHR 0x22, CHR ''['', CHR 0x7B, CHR ''n'', CHR ''t'', CHR ''f'', CHR ''-''} \<or> is_digit c)"

lemma value_start_simps [simp]:
  "value_start CHR 0x22" "value_start CHR ''[''" "value_start CHR 0x7B" "value_start CHR ''n''"
  "value_start CHR ''t''" "value_start CHR ''f''" "value_start CHR ''-''"
  "is_digit c \<Longrightarrow> value_start c"
  by (simp_all add: value_start_def)

lemma value_start_plain:
  "value_start c \<Longrightarrow> \<not> json_space c \<and> c \<noteq> CHR '']'' \<and> c \<noteq> CHR 0x7D"
  by (auto simp: value_start_def json_space_def is_digit_def)

lemma show_int_shape:
  "\<exists>c t. show_int i = c # t \<and> value_start c"
proof (cases "i < 0")
  case False
  obtain c t where ct: "show_nat (nat i) = c # t" by (cases "show_nat (nat i)") auto
  then have "is_digit c" using show_nat_digits [of c "nat i"] by simp
  with False ct show ?thesis by (simp add: show_int_def)
qed (simp add: show_int_def)

lemma stringify_shape: "\<exists>c t. json_stringify j = c # t \<and> value_start c"
  using show_int_shape by (cases j) (auto simp: quote_def)

lemma stringify_nonempty [simp]: "json_stringify j \<noteq> []"
  using stringify_shape [of j] by auto

lemma skip_ws_stringify: "skip_ws (json_stringify j @ r) = json_stringify j @ r"
  using stringify_shape [of j] value_start_plain by (fastforce intro: skip_ws_id)

definition closes :: "string \<Rightarrow> bool" where
  "closes r = (r = [] \<or> hd r \<in> {CHR '','', CHR '']'', CHR 0x7D, CHR 0x0A})"

lemma closes_simps [simp]:
  "closes []" "closes (CHR '','' # r)" "closes (CHR '']'' # r)" "closes (CHR 0x7D # r)"
  "closes (CHR 0x0A # r)"
  by (simp_all add: closes_def)

lemma closes_no_digit: "closes r \<Longrightarrow> takeWhile is_digit r = [] \<and> dropWhile is_digit r = r"
  by (cases r) (auto simp: closes_def is_digit_def)

lemma span_show_nat: "closes r \<Longrightarrow> span_digits (show_nat n @ r) = (show_nat n, r)"
  using show_nat_all_digits [of n]
  by (simp add: span_digits_def list_all_iff takeWhile_append dropWhile_append closes_no_digit)

lemma hd_show_nat_append: "is_digit (hd (show_nat n @ r))"
  by (simp add: show_nat_digits [of _ n])

lemma parse_show_int: "closes r \<Longrightarrow> parse_number (show_int i @ r) = Some (JNum i, r)"
proof -
  assume r: "closes r"
  then have nr: "\<not> (r \<noteq> [] \<and> hd r \<in> {CHR ''.'', CHR ''e'', CHR ''E''})"
    by (auto simp: closes_def)
  have nm: "hd (show_nat n @ r) \<noteq> CHR ''-''" for n
    using hd_show_nat_append [of n r] by (auto simp: is_digit_def)
  show ?thesis
    using r nr nm [of "nat i"]
    by (cases "i < 0") (auto simp: parse_number_def show_int_def Let_def span_show_nat)
qed

lemma p_value_number:
  assumes "closes r"
  shows "p_value (Suc n) (show_int i @ r) = Some (JNum i, r)"
proof -
  obtain c t where ct: "show_int i = c # t" and vs: "value_start c"
    using show_int_shape by blast
  have cd: "c = CHR ''-'' \<or> is_digit c"
    using ct show_nat_digits [of c "nat i"] by (auto simp: show_int_def split: if_splits)
  have ws: "skip_ws (c # t @ r) = c # t @ r"
    using vs value_start_plain by (simp add: skip_ws_id)
  have "parse_number (c # t @ r) = Some (JNum i, r)"
    using parse_show_int [OF assms, of i] ct by simp
  moreover have "c \<noteq> CHR 0x22" "c \<noteq> CHR ''[''" "c \<noteq> CHR 0x7B" "c \<noteq> CHR ''n''"
    "c \<noteq> CHR ''t''" "c \<noteq> CHR ''f''"
    using cd by (auto simp: is_digit_def)
  ultimately show ?thesis
    by (simp add: ct ws starts_with_def)
qed

lemma p_value_array:
  "p_items n (show_items (x # xs) @ CHR '']'' # r) = Some (x # xs, r) \<Longrightarrow>
   p_value (Suc n) (json_stringify (JArr (x # xs)) @ r) = Some (JArr (x # xs), r)"
proof -
  assume a: "p_items n (show_items (x # xs) @ CHR '']'' # r) = Some (x # xs, r)"
  obtain c t where ct: "json_stringify x = c # t" and vs: "value_start c"
    using stringify_shape by blast
  obtain u where u: "show_items (x # xs) @ CHR '']'' # r = c # u"
    using ct by (cases xs) auto
  have "skip_ws (c # u) = c # u" and "c \<noteq> CHR '']''"
    using vs value_start_plain by (auto intro: skip_ws_id)
  with a u show ?thesis
    by (simp add: skip_ws_id [of "CHR ''['' # _"] json_space_def del: show_items.simps)
qed

lemma p_value_object:
  "p_members n (show_members (m # ms) @ CHR 0x7D # r) = Some (m # ms, r) \<Longrightarrow>
   p_value (Suc n) (json_stringify (JObj (m # ms)) @ r) = Some (JObj (m # ms), r)"
proof -
  assume a: "p_members n (show_members (m # ms) @ CHR 0x7D # r) = Some (m # ms, r)"
  obtain u where u: "show_members (m # ms) @ CHR 0x7D # r = CHR 0x22 # u"
    by (cases m; cases ms) (auto simp: quote_def)
  have "skip_ws (CHR 0x22 # u) = CHR 0x22 # u" by (simp add: skip_ws_id json_space_def)
  with a u show ?thesis
    by (simp add: skip_ws_id [of "CHR 0x7B # _"] json_space_def del: show_members.simps)
qed

lemma length_quote: "2 \<le> length (quote s)"
  by (simp add: quote_def)

lemma p_members_step:
  assumes "p_value n (json_stringify v @ CHR '','' # s) = Some (v, CHR '','' # s)"
  shows "p_members (Suc n) (quote k @ CHR '':'' # json_stringify v @ CHR '','' # s) =
         map_option (\<lambda>(ms, r). ((k, v) # ms, r)) (p_members n s)"
  using assms
  by (simp add: quote_def skip_ws_id [of "CHR 0x22 # _"] skip_ws_id [of "CHR '':'' # _"]
      skip_ws_id [of "CHR '','' # _"] json_space_def unquote_quote)

lemma p_members_last:
  assumes "p_value n (json_stringify v @ CHR 0x7D # r) = Some (v, CHR 0x7D # r)"
  shows "p_members (Suc n) (quote k @ CHR '':'' # json_stringify v @ CHR 0x7D # r) =
         Some ([(k, v)], r)"
  using assms
  by (simp add: quote_def skip_ws_id [of "CHR 0x22 # _"] skip_ws_id [of "CHR '':'' # _"]
      skip_ws_id [of "CHR 0x7D # _"] json_space_def unquote_quote)

lemma parse_stringify_aux:
  "length (json_stringify j) \<le> n \<Longrightarrow> closes r \<Longrightarrow>
     p_value n (json_stringify j @ r) = Some (j, r)"
  "xs \<noteq> [] \<Longrightarrow> length (show_items xs) < n \<Longrightarrow>
     p_items n (show_items xs @ CHR '']'' # r) = Some (xs, r)"
  "ms \<noteq> [] \<Longrightarrow> length (show_members ms) < n \<Longrightarrow>
     p_members n (show_members ms @ CHR 0x7D # r) = Some (ms, r)"
proof (induction j and xs and ms arbitrary: n r and n r and n r
    rule: json_stringify_show_items_show_members.induct)
  case (3 i)
  obtain c t where "show_int i = c # t" using show_int_shape by blast
  with 3 obtain m where "n = Suc m" by (cases n) auto
  with 3 show ?case by (simp only: json_stringify.simps p_value_number)
next
  case (4 s)
  then show ?case
    by (cases n) (auto simp: quote_def skip_ws_id [of "CHR 0x22 # _"] json_space_def unquote_quote)
next
  case (5 xs)
  then obtain m where m: "n = Suc m" and len: "length (show_items xs) + 2 \<le> Suc m"
    by (cases n) auto
  show ?case
  proof (cases xs)
    case Nil
    then show ?thesis using m
      by (simp add: skip_ws_id [of "CHR ''['' # _"] skip_ws_id [of "CHR '']'' # _"] json_space_def)
  next
    case (Cons y ys)
    with "5.IH" len have "p_items m (show_items (y # ys) @ CHR '']'' # r) = Some (y # ys, r)"
      by auto
    then show ?thesis using m Cons p_value_array by blast
  qed
next
  case (6 ms)
  then obtain m where m: "n = Suc m" and len: "length (show_members ms) + 2 \<le> Suc m"
    by (cases n) auto
  show ?case
  proof (cases ms)
    case Nil
    then show ?thesis using m
      by (simp add: skip_ws_id [of "CHR 0x7B # _"] skip_ws_id [of "CHR 0x7D # _"] json_space_def)
  next
    case (Cons y ys)
    with "6.IH" len have "p_members m (show_members (y # ys) @ CHR 0x7D # r) = Some (y # ys, r)"
      by auto
    then show ?thesis using m Cons p_value_object by blast
  qed
next
  case (8 x)
  then show ?case
    by (cases n) (auto simp: skip_ws_id [of "CHR '']'' # _"] json_space_def)
next
  case (9 x y ys)
  then obtain m where m: "n = Suc m" by (cases n) auto
  have "p_value m (json_stringify x @ CHR '','' # show_items (y # ys) @ CHR '']'' # r) =
      Some (x, CHR '','' # show_items (y # ys) @ CHR '']'' # r)"
    using 9 m by simp
  moreover have "p_items m (show_items (y # ys) @ CHR '']'' # r) = Some (y # ys, r)"
    using 9 m by simp
  ultimately show ?case
    using m by (simp add: skip_ws_id [of "CHR '','' # _"] json_space_def)
next
  case (11 k v)
  then obtain m where m: "n = Suc m" by (cases n) auto
  have "p_value m (json_stringify v @ CHR 0x7D # r) = Some (v, CHR 0x7D # r)"
    using 11 m by simp
  then show ?case using m p_members_last by simp
next
  case (12 k v m' ms)
  then obtain m where m: "n = Suc m" by (cases n) auto
  have "p_value m (json_stringify v @ CHR '','' # show_members (m' # ms) @ CHR 0x7D # r) =
      Some (v, CHR '','' # show_members (m' # ms) @ CHR 0x7D # r)"
    using 12 m by simp
  moreover have "p_members m (show_members (m' # ms) @ CHR 0x7D # r) = Some (m' # ms, r)"
    using 12 m by simp
  ultimately show ?case using m p_members_step by simp
qed (case_tac n; auto simp: skip_ws_id json_space_def starts_with_def split: if_splits)+

lemma json_parse_stringify [simp]: "json_parse (json_stringify j) = Some j"
proof -
  have "p_value (2 * length (json_stringify j) + 1) (json_stringify j @ []) = Some (j, [])"
    by (rule parse_stringify_aux(1)) auto
  then show ?thesis by (simp add: json_parse_def)
qed

lemma json_stringify_inj: "json_stringify a = json_stringify b \<Longrightarrow> a = b"
  by (metis json_parse_stringify option.inject)

section \<open>The fuel of the parser is enough\<close>

text \<open>
  Every call of the parser consumes input, so with fuel beyond twice the length of the
  text the result no longer depends on it: \<open>json_parse\<close> fails on malformed text only.
\<close>

lemma unquote_shorter: "unquote s = Some (t, r) \<Longrightarrow> length r < length s"
proof (induction s arbitrary: t r rule: unquote.induct)
  case (2 c cs)
  then show ?case
    by (fastforce split: if_splits list.splits option.splits)
qed simp

lemma skip_ws_le: "length (skip_ws s) \<le> length s"
  by (simp add: skip_ws_def length_dropWhile_le)

lemma skip_ws_Cons_le: "skip_ws s = c # r \<Longrightarrow> Suc (length r) \<le> length s"
  using skip_ws_le [of s] by simp

lemma skip_ws_tl_less: "skip_ws s \<noteq> [] \<Longrightarrow> length (tl (skip_ws s)) < length s"
  using skip_ws_le [of s] by (cases "skip_ws s") auto

lemma parse_number_shorter: "parse_number s = Some (j, r) \<Longrightarrow> length r < length s"
proof -
  have "takeWhile is_digit u \<noteq> [] \<Longrightarrow> length (dropWhile is_digit u) < length u" for u
    by (metis length_greater_0_conv append.simps(1) length_append less_add_same_cancel2
        takeWhile_dropWhile_id)
  moreover have "length (tl s) \<le> length s" by simp
  moreover assume "parse_number s = Some (j, r)"
  ultimately show ?thesis
    by (fastforce simp: parse_number_def span_digits_def Let_def split: if_splits)
qed

lemma p_shorter:
  "p_value n s = Some (j, r) \<Longrightarrow> length r < length s"
  "p_items n s = Some (js, r) \<Longrightarrow> length r < length s"
  "p_members n s = Some (ms, r) \<Longrightarrow> length r < length s"
proof (induction n s and n s and n s arbitrary: j r and js r and ms r
    rule: p_value_p_items_p_members.induct)
  case (2 n s)
  then show ?case
    by (auto split: list.splits if_splits
        dest!: unquote_shorter parse_number_shorter skip_ws_Cons_le skip_ws_tl_less; force)
next
  case (4 n s)
  then show ?case
    by (fastforce split: list.splits if_splits option.splits prod.splits dest!: skip_ws_Cons_le)
next
  case (6 n s)
  from "6.prems" obtain q s1 k s2 c s3 v r0 d r' where
    a: "skip_ws s = q # s1" "unquote s1 = Some (k, s2)" "skip_ws s2 = c # s3"
       "p_value n s3 = Some (v, r0)" "skip_ws r0 = d # r'"
    and q: "q = CHR 0x22" "c = CHR '':''"
    and b: "r = r' \<or> d = CHR '','' \<and> (\<exists>ms'. p_members n r' = Some (ms', r))" 
    by (auto split: list.splits if_splits option.splits prod.splits)
  have "length r0 < length s3" using "6.IH"(1) a q by simp
  moreover have "length r \<le> length r'"
  proof (cases "r = r'")
    case False
    with b obtain ms' where d: "d = CHR '',''" "p_members n r' = Some (ms', r)" by blast
    with "6.IH"(2) a q have "length r < length r'" by simp
    then show ?thesis by simp
  qed simp
  ultimately show ?case
    using a(1,3,5) [THEN skip_ws_Cons_le] unquote_shorter [OF a(2)] by linarith
qed simp_all

lemma p_fuel:
  "2 * length s < n \<Longrightarrow> p_value (Suc n) s = p_value n s"
  "2 * length s + 1 < n \<Longrightarrow> p_items (Suc n) s = p_items n s"
  "2 * length s + 1 < n \<Longrightarrow> p_members (Suc n) s = p_members n s"
proof (induction n s and n s and n s rule: p_value_p_items_p_members.induct)
  case (2 n s)
  have i: "p_items (Suc n) r = p_items n r" if "skip_ws s = CHR ''['' # r" "\<not> (skip_ws r \<noteq> [] \<and> hd (skip_ws r) = CHR '']'')" for r
    using "2.IH"(1) [OF that(1)] that "2.prems" skip_ws_Cons_le [OF that(1)] by fastforce
  have m: "p_members (Suc n) r = p_members n r" if "skip_ws s = CHR 0x7B # r" "\<not> (skip_ws r \<noteq> [] \<and> hd (skip_ws r) = CHR 0x7D)" for r
    using "2.IH"(2) [OF that(1)] that "2.prems" skip_ws_Cons_le [OF that(1)] by fastforce
  show ?case
    unfolding p_value.simps(2) [of n s] p_value.simps(2) [of "Suc n" s]
    by (intro list.case_cong if_cong refl; use i m in fastforce)
next
  case (4 n s)
  have v: "p_value (Suc n) s = p_value n s" using 4 by simp
  have i: "p_items (Suc n) r' = p_items n r'"
    if "p_value n s = Some (x, r)" "skip_ws r = CHR '','' # r'" for x r r'
    using "4.IH"(2) that "4.prems" p_shorter(1) [OF that(1)] skip_ws_Cons_le [OF that(2)] by simp
  show ?case
    unfolding p_items.simps(2) [of n s] p_items.simps(2) [of "Suc n" s] v
    by (intro option.case_cong prod.case_cong list.case_cong if_cong refl; use i in fastforce)
next
  case (6 n s)
  have v: "p_value (Suc n) s3 = p_value n s3"
    if "skip_ws s = CHR 0x22 # s1" "unquote s1 = Some (k, s2)" "skip_ws s2 = CHR '':'' # s3" for s1 k s2 s3
    using "6.IH"(1) that "6.prems" unquote_shorter [OF that(2)]
      that(1,3) [THEN skip_ws_Cons_le] by simp
  have i: "p_members (Suc n) r' = p_members n r'"
    if "skip_ws s = CHR 0x22 # s1" "unquote s1 = Some (k, s2)" "skip_ws s2 = CHR '':'' # s3"
      "p_value n s3 = Some (x, r)" "skip_ws r = CHR '','' # r'" for s1 k s2 s3 x r r'
    using "6.IH"(2) that "6.prems" unquote_shorter [OF that(2)] p_shorter(1) [OF that(4)]
      that(1,3,5) [THEN skip_ws_Cons_le] by simp
  show ?case
    unfolding p_members.simps(2) [of n s] p_members.simps(2) [of "Suc n" s]
    by (intro option.case_cong prod.case_cong list.case_cong if_cong refl;
        use v i in \<open>auto simp del: p_value.simps p_members.simps split: if_splits\<close>)
qed simp_all

lemma p_value_enough: "2 * length s + 1 \<le> n \<Longrightarrow> p_value n s = p_value (2 * length s + 1) s"
  by (induction n rule: dec_induct) (use p_fuel(1) in simp_all)
end
