(* ===== verification/UrlParams.thy ===== *)
theory UrlParams imports JsNumber
begin

text \<open>
  The URL operations of the web platform that the code calls, on the bytes of a UTF-8
  text: \<open>encodeURIComponent\<close>, and \<open>URLSearchParams\<close> (its constructor from text, its
  \<open>toString\<close>, \<open>get\<close> and \<open>set\<close>), as an ordered list of name/value pairs. Percent escapes
  that do not decode to valid UTF-8 keep their bytes here, where a browser puts U+FFFD.
\<close>

section \<open>Percent encoding\<close>

definition hex_upper :: "nat \<Rightarrow> char" where
  "hex_upper n = (if n < 10 then char_of (48 + n) else char_of (55 + n))"

definition percent :: "char \<Rightarrow> string" where
  "percent c = [CHR ''%'', hex_upper (of_char c div 16), hex_upper (of_char c mod 16)]"

definition is_alnum :: "char \<Rightarrow> bool" where
  "is_alnum c =
     (let n = (of_char c :: nat)
      in 48 \<le> n \<and> n \<le> 57 \<or> 65 \<le> n \<and> n \<le> 90 \<or> 97 \<le> n \<and> n \<le> 122)"

definition encode_component_char :: "char \<Rightarrow> string" where
  "encode_component_char c =
     (if is_alnum c \<or> c \<in> set [CHR ''-'', CHR ''_'', CHR ''.'', CHR ''!'', CHR ''~'',
                               CHR ''*'', CHR 0x27, CHR ''('', CHR '')'']
      then [c] else percent c)"

definition encodeURIComponent :: "string \<Rightarrow> string" where
  "encodeURIComponent s = concat (map encode_component_char s)"

definition form_char :: "char \<Rightarrow> string" where
  "form_char c =
     (if is_alnum c \<or> c \<in> set [CHR ''*'', CHR ''-'', CHR ''.'', CHR ''_''] then [c]
      else if c = CHR '' '' then ''+'' else percent c)"

definition form_encode :: "string \<Rightarrow> string" where
  "form_encode s = concat (map form_char s)"

fun percent_decode :: "string \<Rightarrow> string" where
  "percent_decode [] = []"
| "percent_decode (c # s) =
     (if c = CHR ''%'' then
        (case s of
           h # l # r \<Rightarrow>
             if radix_digit h < 16 \<and> radix_digit l < 16
             then char_of (16 * radix_digit h + radix_digit l) # percent_decode r
             else c # percent_decode s
         | _ \<Rightarrow> c # percent_decode s)
      else c # percent_decode s)"

definition form_decode :: "string \<Rightarrow> string" where
  "form_decode s = percent_decode (map (\<lambda>c. if c = CHR ''+'' then CHR '' '' else c) s)"

section \<open>\<open>URLSearchParams\<close>\<close>

type_synonym params = "(string \<times> string) list"

fun join_with :: "char \<Rightarrow> string list \<Rightarrow> string" where
  "join_with c [] = []"
| "join_with c [w] = w"
| "join_with c (w # v # ws) = w @ c # join_with c (v # ws)"

definition params_to_string :: "params \<Rightarrow> string" where
  "params_to_string ps =
     join_with CHR ''&'' (map (\<lambda>(k, v). form_encode k @ CHR ''='' # form_encode v) ps)"

definition parse_pair :: "string \<Rightarrow> string \<times> string" where
  "parse_pair w =
     (case index_of CHR ''='' w of
        None \<Rightarrow> (form_decode w, [])
      | Some i \<Rightarrow> (form_decode (take i w), form_decode (drop (Suc i) w)))"

definition parse_params :: "string \<Rightarrow> params" where
  "parse_params s =
     map parse_pair
       (filter (\<lambda>w. w \<noteq> []) (split_on CHR ''&'' (if starts_with ''?'' s then tl s else s)))"

definition params_get :: "params \<Rightarrow> string \<Rightarrow> string option" where
  "params_get ps k = map_of ps k"

fun params_set :: "params \<Rightarrow> string \<Rightarrow> string \<Rightarrow> params" where
  "params_set [] k v = [(k, v)]"
| "params_set ((k', v') # ps) k v =
     (if k' = k then (k, v) # filter (\<lambda>p. fst p \<noteq> k) ps else (k', v') # params_set ps k v)"

section \<open>Decoding an encoded text\<close>

lemma hex_upper_ok: "n < 16 \<Longrightarrow> radix_digit (hex_upper n) = n"
  by (auto simp: radix_digit_def hex_upper_def)

lemma hex_upper_alnum: "n < 16 \<Longrightarrow> is_alnum (hex_upper n)"
  by (auto simp: is_alnum_def hex_upper_def)

lemma char_div_less: "(of_char c :: nat) div 16 < 16"
proof -
  have "(of_char c :: nat) < 16 * 16" by simp
  then show ?thesis by (rule less_mult_imp_div_less)
qed

lemma percent_decode_percent [simp]: "percent_decode (percent c @ s) = c # percent_decode s"
  by (simp add: percent_def hex_upper_ok char_div_less)

definition form_safe :: "char \<Rightarrow> bool" where
  "form_safe c = (is_alnum c \<or> c \<in> set [CHR ''*'', CHR ''-'', CHR ''.'', CHR ''_'', CHR ''%'', CHR ''+''])"

lemma form_safe_delims:
  "\<not> form_safe CHR ''&''" "\<not> form_safe CHR ''=''" "\<not> form_safe CHR ''?''"
  by (simp_all add: form_safe_def is_alnum_def)

lemma form_char_safe: "d \<in> set (form_char c) \<Longrightarrow> form_safe d"
  by (auto simp: form_char_def percent_def form_safe_def char_div_less hex_upper_alnum
      split: if_splits)

lemma form_encode_safe: "d \<in> set (form_encode s) \<Longrightarrow> form_safe d"
  by (auto simp: form_encode_def form_char_safe)

lemma form_encode_no_delims:
  "CHR ''&'' \<notin> set (form_encode s)" "CHR ''='' \<notin> set (form_encode s)"
  "CHR ''?'' \<notin> set (form_encode s)"
  using form_encode_safe form_safe_delims by blast+

lemma form_decode_char: "form_decode (form_char c @ s) = c # form_decode s"
proof -
  let ?f = "\<lambda>c. if c = CHR ''+'' then CHR '' '' else c"
  have plus: "hex_upper n \<noteq> CHR ''+''" if "n < 16" for n
    using hex_upper_alnum [OF that] by (auto simp: is_alnum_def)
  have "map ?f (percent c) = percent c"
    by (simp add: percent_def plus char_div_less)
  then have p: "percent_decode (map ?f (percent c) @ u) = c # percent_decode u" for u
    by simp
  show ?thesis
    using p by (auto simp: form_char_def form_decode_def is_alnum_def)
qed

lemma form_decode_encode [simp]: "form_decode (form_encode s) = s"
  by (induction s) (simp_all add: form_encode_def form_decode_char, simp add: form_decode_def)

lemma parse_pair_encoded:
  "parse_pair (form_encode k @ CHR ''='' # form_encode v) = (k, v)"
  by (simp add: parse_pair_def index_of_append form_encode_no_delims)

lemma split_on_join:
  "\<forall>w \<in> set ws. c \<notin> set w \<Longrightarrow> ws \<noteq> [] \<Longrightarrow> split_on c (join_with c ws) = ws"
  by (induction c ws rule: join_with.induct) (auto simp: split_on_absent split_on_append)

lemma join_with_set: "d \<in> set (join_with c ws) \<Longrightarrow> d = c \<or> (\<exists>w \<in> set ws. d \<in> set w)"
  by (induction c ws rule: join_with.induct) auto

lemma parse_params_to_string [simp]: "parse_params (params_to_string ps) = ps"
proof (cases "ps = []")
  case False
  let ?ws = "map (\<lambda>(k, v). form_encode k @ CHR ''='' # form_encode v) ps"
  have amp: "\<forall>w \<in> set ?ws. CHR ''&'' \<notin> set w"
    by (auto simp: form_encode_no_delims)
  have "CHR ''?'' \<notin> set (params_to_string ps)"
    unfolding params_to_string_def
    by (auto dest!: join_with_set simp: form_encode_no_delims)
  then have q: "\<not> starts_with ''?'' (params_to_string ps)"
    using starts_with_subset by fastforce
  have "filter (\<lambda>w. w \<noteq> []) ?ws = ?ws"
    by (auto simp: filter_id_conv)
  then have "parse_params (params_to_string ps) = map parse_pair ?ws"
    using q amp False by (simp add: parse_params_def params_to_string_def split_on_join)
  also have "\<dots> = ps" by (auto simp: parse_pair_encoded o_def intro!: map_idI)
  finally show ?thesis .
qed (simp add: params_to_string_def parse_params_def starts_with_def)

text \<open>\<open>get\<close> after \<open>set\<close>.\<close>

lemma map_of_filter_neq: "k \<noteq> j \<Longrightarrow> map_of (filter (\<lambda>p. fst p \<noteq> k) ps) j = map_of ps j"
  by (induction ps) auto

lemma params_get_set:
  "params_get (params_set ps k v) j = (if j = k then Some v else params_get ps j)"
  by (induction ps k v rule: params_set.induct) (auto simp: params_get_def map_of_filter_neq)

end
