(* ===== verification/ApiTypes.thy ===== *)
theory ApiTypes imports JsJson
begin

text \<open>
  The data of the frontend, \<open>src/frontend/src/types.ts\<close>, \<open>constants.ts\<close> and
  \<open>lib/backendType.tsx\<close>: a string-literal union is a datatype with one constructor per
  literal, an object type a record (fields prefixed by the type, optional properties
  \<open>option\<close>), a \<open>number\<close> that counts (satoshis, identifiers, blocks) an \<open>int\<close>, and one that
  is a rate or a percentage a \<open>rat\<close>. Dates sent as text are strings, \<open>Date\<close> values
  milliseconds. \<open>Record<string, unknown>\<close> is the list of an object's members.
\<close>

section \<open>Unions of literals\<close>

datatype BackendType = LND | LDK | PHOENIX | CASHU | CLN | BARK

datatype Nip47RequestMethod =
    M_get_info | M_get_balance | M_get_budget | M_make_invoice | M_pay_invoice | M_pay_keysend
  | M_lookup_invoice | M_list_transactions | M_sign_message | M_multi_pay_invoice
  | M_multi_pay_keysend | M_make_hold_invoice | M_settle_hold_invoice | M_cancel_hold_invoice

datatype BudgetRenewalType = Daily | Weekly | Monthly | Yearly | Never | NoRenewal

datatype Scope =
    pay_invoice | get_balance | get_info | make_invoice | lookup_invoice | list_transactions
  | sign_message | notifications | superuser

datatype Nip47NotificationType = payment_received | payment_sent

datatype LucideIcon =
    BellIcon | CirclePlusIcon | CrownIcon | HandCoinsIcon | InfoIcon | NotebookTabsIcon
  | PenLineIcon | SearchIcon | WalletMinimalIcon
  | ArrowDownUpIcon | MoveDownIcon | BrickWallIcon | SquarePenIcon

fun scopeIconMap :: "Scope \<Rightarrow> LucideIcon" where
  "scopeIconMap get_balance = WalletMinimalIcon"
| "scopeIconMap get_info = InfoIcon"
| "scopeIconMap list_transactions = NotebookTabsIcon"
| "scopeIconMap lookup_invoice = SearchIcon"
| "scopeIconMap make_invoice = CirclePlusIcon"
| "scopeIconMap pay_invoice = HandCoinsIcon"
| "scopeIconMap sign_message = PenLineIcon"
| "scopeIconMap notifications = BellIcon"
| "scopeIconMap superuser = CrownIcon"

record WalletCapabilities =
  cap_methods :: "Nip47RequestMethod list"
  cap_scopes :: "Scope list"
  cap_notificationTypes :: "Nip47NotificationType list"

definition validBudgetRenewals :: "BudgetRenewalType list" where
  "validBudgetRenewals = [Daily, Weekly, Monthly, Yearly, Never]"

definition READ_ONLY_SCOPES :: "Scope list" where
  "READ_ONLY_SCOPES =
     [get_balance, get_info, make_invoice, lookup_invoice, list_transactions, notifications]"

fun scopeDescriptions :: "Scope \<Rightarrow> string" where
  "scopeDescriptions get_balance = ''Read your balance''"
| "scopeDescriptions get_info = ''Read your node info''"
| "scopeDescriptions list_transactions = ''Read transaction history''"
| "scopeDescriptions lookup_invoice = ''Lookup status of invoices''"
| "scopeDescriptions make_invoice = ''Create invoices''"
| "scopeDescriptions pay_invoice = ''Send payments''"
| "scopeDescriptions sign_message = ''Sign messages''"
| "scopeDescriptions notifications = ''Receive wallet notifications''"
| "scopeDescriptions superuser = ''Create other app connections''"

definition expiryOptions :: "(string \<times> int) list" where
  "expiryOptions = [(''1 week'', 7), (''1 month'', 30), (''1 year'', 365)]"

definition budgetOptionsSat :: "(string \<times> int) list" where
  "budgetOptionsSat = [(''10k'', 10000), (''100k'', 100000), (''1M'', 1000000)]"

text \<open>The literals themselves, as they travel in URLs and request bodies.\<close>

fun scope_str :: "Scope \<Rightarrow> string" where
  "scope_str pay_invoice = ''pay_invoice''"
| "scope_str get_balance = ''get_balance''"
| "scope_str get_info = ''get_info''"
| "scope_str make_invoice = ''make_invoice''"
| "scope_str lookup_invoice = ''lookup_invoice''"
| "scope_str list_transactions = ''list_transactions''"
| "scope_str sign_message = ''sign_message''"
| "scope_str notifications = ''notifications''"
| "scope_str superuser = ''superuser''"

fun renewal_str :: "BudgetRenewalType \<Rightarrow> string" where
  "renewal_str Daily = ''daily''"
| "renewal_str Weekly = ''weekly''"
| "renewal_str Monthly = ''monthly''"
| "renewal_str Yearly = ''yearly''"
| "renewal_str Never = ''never''"
| "renewal_str NoRenewal = []"

fun method_str :: "Nip47RequestMethod \<Rightarrow> string" where
  "method_str M_get_info = ''get_info''"
| "method_str M_get_balance = ''get_balance''"
| "method_str M_get_budget = ''get_budget''"
| "method_str M_make_invoice = ''make_invoice''"
| "method_str M_pay_invoice = ''pay_invoice''"
| "method_str M_pay_keysend = ''pay_keysend''"
| "method_str M_lookup_invoice = ''lookup_invoice''"
| "method_str M_list_transactions = ''list_transactions''"
| "method_str M_sign_message = ''sign_message''"
| "method_str M_multi_pay_invoice = ''multi_pay_invoice''"
| "method_str M_multi_pay_keysend = ''multi_pay_keysend''"
| "method_str M_make_hold_invoice = ''make_hold_invoice''"
| "method_str M_settle_hold_invoice = ''settle_hold_invoice''"
| "method_str M_cancel_hold_invoice = ''cancel_hold_invoice''"

lemma scope_str_inj [simp]: "scope_str a = scope_str b \<longleftrightarrow> a = b"
  by (cases a; cases b) simp_all

lemma renewal_str_inj [simp]: "renewal_str a = renewal_str b \<longleftrightarrow> a = b"
  by (cases a; cases b) simp_all

section \<open>Apps and permissions\<close>

record ErrorResponse =
  err_message :: string

record AppMetadata =
  meta_app_store_app_id :: "string option"
  meta_lud16 :: "string option"
  meta_rest :: "(string \<times> json) list"

record App =
  app_id :: int
  app_name :: string
  app_description :: string
  app_appPubkey :: string
  app_uniqueWalletPubkey :: bool
  app_walletPubkey :: string
  app_createdAt :: string
  app_updatedAt :: string
  app_lastUsedAt :: "string option"
  app_lastSettledTransactionAt :: "string option"
  app_expiresAt :: "string option"
  app_isolated :: bool
  app_balanceSat :: int
  app_balanceMsat :: int
  app_scopes :: "Scope list"
  app_maxAmountSat :: int
  app_maxAmountMsat :: int
  app_budgetUsageSat :: int
  app_budgetUsageMsat :: int
  app_budgetRenewal :: BudgetRenewalType
  app_metadata :: "AppMetadata option"

record AppPermissions =
  perm_scopes :: "Scope list"
  perm_maxAmountSat :: int
  perm_budgetRenewal :: BudgetRenewalType
  perm_expiresAt :: "int option"
  perm_isolated :: bool

datatype Network = NetBitcoin | NetTestnet | NetSignet

datatype BitcoinDisplayFormat = Sats | Bip177

record InfoResponse =
  info_backendType :: BackendType
  info_setupCompleted :: bool
  info_oauthRedirect :: bool
  info_albyAccountConnected :: bool
  info_ldkVssEnabled :: bool
  info_ldkVssUrl :: string
  info_vssSupported :: bool
  info_databaseType :: string
  info_running :: bool
  info_albyAuthUrl :: string
  info_nextBackupReminder :: string
  info_albyUserIdentifier :: string
  info_network :: "Network option"
  info_version :: string
  info_relays :: "(string \<times> bool) list"
  info_unlocked :: bool
  info_enableAdvancedSetup :: bool
  info_startupState :: string
  info_startupError :: string
  info_startupErrorTime :: string
  info_autoUnlockPasswordSupported :: bool
  info_autoUnlockPasswordEnabled :: bool
  info_currency :: string
  info_nodeAlias :: string
  info_mempoolUrl :: string
  info_bitcoinDisplayFormat :: BitcoinDisplayFormat
  info_chainDataSourceType :: "string option"
  info_chainDataSourceAddress :: "string option"
  info_jitChannelsLiquiditySource :: "string option"
  info_jitChannelsMinPaymentSizeMsat :: "int option"
  info_jitChannelsMaxPaymentSizeMsat :: "int option"
  info_jitChannelsEnabled :: bool
  info_hideUpdateBanner :: bool
  info_supportsBolt12 :: bool
  info_nodeMigrationFileCreated :: bool

datatype HealthAlarmKind =
  alby_service | node_not_ready | channels_offline | nostr_relay_offline | vss_no_subscription

record HealthAlarm =
  alarm_kind :: HealthAlarmKind
  alarm_rawDetails :: "json option"

record AlbyInfoIncident =
  incident_name :: string
  incident_started :: string
  incident_status :: string
  incident_impact :: string
  incident_url :: string

record HealthResponse =
  health_alarms :: "HealthAlarm list"

section \<open>Swaps\<close>

text \<open>The property \<open>type\<close> of an auto swap has the one value \<open>"out"\<close> and is left out.\<close>

record AutoSwapConfig =
  asc_enabled :: bool
  asc_balanceThresholdSat :: int
  asc_swapAmountSat :: int
  asc_destination :: string

record SwapInfo =
  si_albyServiceFee :: rat
  si_boltzServiceFee :: rat
  si_boltzNetworkFeeSat :: int
  si_minAmountSat :: int
  si_maxAmountSat :: int

record BaseSwap =
  sw_id :: string
  sw_sendAmountSat :: int
  sw_lockupAddress :: string
  sw_paymentHash :: string
  sw_invoice :: string
  sw_autoSwap :: bool
  sw_usedXpub :: bool
  sw_boltzPubkey :: string
  sw_createdAt :: string
  sw_updatedAt :: string
  sw_lockupTxId :: "string option"
  sw_claimTxId :: "string option"
  sw_receiveAmountSat :: "int option"

datatype SwapState = SwapPending | SwapSuccess | SwapFailed | SwapRefunded

record SwapIn = BaseSwap +
  swi_state :: SwapState
  swi_refundAddress :: "string option"

record SwapOut = BaseSwap +
  swo_state :: SwapState
  swo_destinationAddress :: string

datatype Swap = InSwap SwapIn | OutSwap SwapOut

record SwapResponse =
  sr_swapId :: string
  sr_paymentHash :: string

section \<open>Requests that create and change apps\<close>

record MnemonicResponse =
  mnr_mnemonic :: string

record CreateAppRequest =
  car_name :: string
  car_pubkey :: "string option"
  car_maxAmountSat :: "int option"
  car_maxAmountMsat :: "int option"
  car_budgetRenewal :: "BudgetRenewalType option"
  car_expiresAt :: "string option"
  car_scopes :: "Scope list"
  car_returnTo :: "string option"
  car_isolated :: "bool option"
  car_metadata :: "AppMetadata option"
  car_unlockPassword :: "string option"

record CreateAppResponse =
  cap_id :: int
  cap_name :: string
  cap_pairingUri :: string
  cap_pairingPublicKey :: string
  cap_pairingSecretKey :: string
  cap_relayUrls :: "string list"
  cap_walletPubkey :: string
  cap_lud16 :: string
  cap_returnTo :: string

record UpdateAppRequest =
  uar_name :: "string option"
  uar_maxAmountSat :: "int option"
  uar_maxAmountMsat :: "int option"
  uar_budgetRenewal :: "string option"
  uar_expiresAt :: "string option"
  uar_updateExpiresAt :: "bool option"
  uar_scopes :: "Scope list option"
  uar_metadata :: "AppMetadata option"
  uar_isolated :: "bool option"

section \<open>Channels and peers\<close>

datatype ChannelStatus = ChOnline | ChOpening | ChOffline

record Channel =
  ch_localBalanceSat :: int
  ch_localBalanceMsat :: int
  ch_localSpendableBalanceSat :: int
  ch_localSpendableBalanceMsat :: int
  ch_remoteBalanceSat :: int
  ch_remoteBalanceMsat :: int
  ch_remotePubkey :: string
  ch_id :: string
  ch_fundingTxId :: string
  ch_fundingTxVout :: int
  ch_active :: bool
  ch_public :: bool
  ch_confirmations :: "int option"
  ch_confirmationsRequired :: "int option"
  ch_forwardingFeeBaseMsat :: int
  ch_forwardingFeeProportionalMillionths :: int
  ch_unspendablePunishmentReserveSat :: int
  ch_counterpartyUnspendablePunishmentReserveSat :: int
  ch_error :: "string option"
  ch_status :: ChannelStatus
  ch_isOutbound :: bool

record UpdateChannelRequest =
  ucr_forwardingFeeBaseMsat :: int

record Peer =
  peer_nodeId :: string
  peer_address :: string
  peer_isPersisted :: bool
  peer_isConnected :: bool

record NodeConnectionInfo =
  nci_pubkey :: string
  nci_address :: string
  nci_port :: int

record ConnectPeerRequest =
  cpr_pubkey :: string
  cpr_address :: string
  cpr_port :: int

record SignMessageRequest =
  smr_message :: string

record SignMessageResponse =
  smp_message :: string
  smp_signature :: string

record CreateOfferRequest =
  cor_description :: string

record CreateInvoiceRequest =
  cir_amountSat :: "int option"
  cir_amountMsat :: "int option"
  cir_description :: string
  cir_toAppId :: "int option"

record PayInvoiceRequest =
  pir_amountSat :: "int option"
  pir_amountMsat :: "int option"
  pir_metadata :: "(string \<times> json) list option"
  pir_fromAppId :: "int option"

record OpenChannelRequest =
  ocr_pubkey :: string
  ocr_amountSats :: int
  ocr_public :: bool

record OpenChannelResponse =
  ocp_fundingTxId :: string

section \<open>Balances and mempool data\<close>

record PendingBalancesDetails =
  pbd_channelId :: string
  pbd_nodeId :: string
  pbd_amountSat :: int
  pbd_fundingTxId :: string
  pbd_fundingTxVout :: int

record OnchainBalanceResponse =
  ob_spendableSat :: int
  ob_totalSat :: int
  ob_reservedSat :: int
  ob_pendingBalancesFromChannelClosuresSat :: int
  ob_pendingBalancesDetails :: "PendingBalancesDetails list"
  ob_pendingSweepBalancesDetails :: "PendingBalancesDetails list"

record MempoolUtxoStatus =
  mus_confirmed :: bool
  mus_block_height :: "int option"
  mus_block_hash :: "string option"
  mus_block_time :: "int option"

record MempoolUtxo =
  mu_txid :: string
  mu_vout :: int
  mu_status :: MempoolUtxoStatus
  mu_value :: int

record MempoolNode =
  mn_alias :: string
  mn_public_key :: string
  mn_color :: string
  mn_active_channel_count :: int
  mn_sockets :: string

datatype MempoolTxStatus =
    TxConfirmed (mts_block_height: int) (mts_block_hash: string) (mts_block_time: int)
  | TxUnconfirmed

record MempoolTransaction =
  mt_txid :: string
  mt_size :: int
  mt_weight :: int
  mt_fee :: int
  mt_status :: MempoolTxStatus

record LongUnconfirmedZeroConfChannel =
  luz_id :: string
  luz_message :: string

text \<open>Every property of \<open>SetupNodeInfo\<close> is optional.\<close>

record SetupNodeInfo =
  sni_backendType :: "BackendType option"
  sni_mnemonic :: "string option"
  sni_nextBackupReminder :: "string option"
  sni_lndAddress :: "string option"
  sni_lndCertFile :: "string option"
  sni_lndMacaroonFile :: "string option"
  sni_phoenixdAddress :: "string option"
  sni_phoenixdAuthorization :: "string option"
  sni_clnAddress :: "string option"
  sni_clnLightningDir :: "string option"
  sni_clnAddressHold :: "string option"

section \<open>Channel offers\<close>

datatype LSPType = LSPS1 | LSPS2

datatype LSPChannelOfferPaymentMethod = Card | Wallet | Prepaid | Included

record LSPChannelOffer =
  lco_lspName :: string
  lco_lspDescription :: string
  lco_lspContactUrl :: string
  lco_lspBalanceSat :: int
  lco_feeTotalSat :: int
  lco_feeTotalUsd :: rat
  lco_currentPaymentMethod :: LSPChannelOfferPaymentMethod
  lco_terms :: string

text \<open>
  The part of \<open>RecommendedChannelPeer\<close> that depends on the payment method is the field
  \<open>rcp_method\<close>; \<open>rcp_pubkey\<close> below reads \<open>peer.pubkey\<close> on either variant.
\<close>

record LightningPeer =
  lp_identifier :: string
  lp_contactUrl :: string
  lp_terms :: "string option"
  lp_pubkey :: "string option"
  lp_maximumChannelExpiryBlocks :: "int option"
  lp_feeTotalSat1m :: "int option"
  lp_feeTotalSat2m :: "int option"
  lp_feeTotalSat3m :: "int option"
  lp_type :: LSPType
  lp_nodeAddress :: "string option"

datatype PeerMethod = OnchainPeer (op_pubkey: string) (op_host: string) | ViaLightning LightningPeer

record RecommendedChannelPeer =
  rcp_network :: Network
  rcp_image :: string
  rcp_name :: string
  rcp_minimumChannelSizeSat :: int
  rcp_maximumChannelSizeSat :: int
  rcp_note :: string
  rcp_publicChannelsAllowed :: bool
  rcp_description :: string
  rcp_method :: PeerMethod

definition rcp_pubkey :: "RecommendedChannelPeer \<Rightarrow> string option" where
  "rcp_pubkey p = (case rcp_method p of OnchainPeer k _ \<Rightarrow> Some k | ViaLightning l \<Rightarrow> lp_pubkey l)"

record AlbyInfo =
  ai_latestVersion :: string
  ai_latestReleaseNotes :: string

record BitcoinRate =
  br_code :: string
  br_symbol :: string
  br_rate :: string
  br_rate_float :: rat
  br_rate_cents :: int

record Currency =
  cur_iso_code :: string
  cur_symbol :: string
  cur_name :: string
  cur_priority :: int

record AlbyMe =
  me_identifier :: string
  me_nostr_pubkey :: string
  me_lightning_address :: string
  me_email :: string
  me_name :: string
  me_avatar :: string
  me_keysend_pubkey :: string
  me_shared_node :: bool
  me_hub_name :: "string option"
  me_hub_config_region :: "string option"
  me_plan_code :: string

record LSPOrderRequest =
  lor_amountSat :: "int option"
  lor_lspType :: LSPType
  lor_lspIdentifier :: string
  lor_public :: bool

record RedeemOnchainFundsRequest =
  rofr_toAddress :: string
  rofr_amountSat :: "int option"
  rofr_feeRate :: "int option"
  rofr_sendAll :: "bool option"

record AutoSwapRequest =
  asr_balanceThresholdSat :: "int option"
  asr_swapAmountSat :: "int option"
  asr_destination :: string
  asr_destinationType :: "string option"
  asr_unlockPassword :: "string option"

record InitiateSwapRequest =
  isr_swapAmountSat :: "int option"
  isr_destination :: "string option"

record LSPOrderResponse =
  lop_invoice :: "string option"
  lop_feeSat :: int
  lop_invoiceAmountSat :: int
  lop_incomingLiquiditySat :: int
  lop_outgoingLiquiditySat :: int

record AutoChannelRequest =
  acr_isPublic :: bool

record AutoChannelResponse =
  acp_invoice :: "string option"
  acp_feeSat :: "int option"
  acp_channelSizeSat :: int

record RedeemOnchainFundsResponse =
  rofp_txId :: string

record LightningBalanceResponse =
  lb_totalSpendableSat :: int
  lb_totalSpendableMsat :: int
  lb_totalReceivableSat :: int
  lb_totalReceivableMsat :: int
  lb_nextMaxSpendableSat :: int
  lb_nextMaxSpendableMsat :: int
  lb_nextMaxReceivableSat :: int
  lb_nextMaxReceivableMsat :: int
  lb_nextMaxSpendableMPPSat :: int
  lb_nextMaxSpendableMPPMsat :: int
  lb_nextMaxReceivableMPPSat :: int
  lb_nextMaxReceivableMPPMsat :: int

record BalancesResponse =
  bal_onchain :: OnchainBalanceResponse
  bal_lightning :: LightningBalanceResponse

section \<open>Transactions\<close>

datatype TxType = Incoming | Outgoing
datatype TxState = Settled | Pending | Failed

record Boostagram =
  boost_appName :: string
  boost_name :: string
  boost_podcast :: string
  boost_url :: string
  boost_episode :: "string option"
  boost_feedId :: "string option"
  boost_itemId :: "string option"
  boost_ts :: "int option"
  boost_message :: "string option"
  boost_senderId :: string
  boost_senderName :: string
  boost_time :: string
  boost_valueSatTotal :: int
  boost_valueMsatTotal :: int

record PayerData =
  pd_email :: "string option"
  pd_name :: "string option"
  pd_pubkey :: "string option"

record TransactionMetadata =
  tm_comment :: "string option"
  tm_payer_data :: "PayerData option"
  tm_recipient_identifier :: "string option option"
  tm_nostr :: "(string \<times> string list list) option"
  tm_offer :: "(string \<times> string) option"
  tm_swap_id :: "string option"
  tm_user_labels :: "(string \<times> string) list option"
  tm_rest :: "(string \<times> json) list"

record Transaction =
  tx_id :: int
  tx_type :: TxType
  tx_state :: TxState
  tx_appId :: "int option"
  tx_invoice :: string
  tx_description :: string
  tx_descriptionHash :: string
  tx_preimage :: "string option"
  tx_paymentHash :: string
  tx_amountSat :: int
  tx_amountMsat :: int
  tx_feesPaidSat :: int
  tx_feesPaidMsat :: int
  tx_updatedAt :: string
  tx_createdAt :: string
  tx_settledAt :: "string option"
  tx_metadata :: "TransactionMetadata option"
  tx_boostagram :: "Boostagram option"
  tx_failureReason :: string

datatype OnchainTxState = Confirmed | Unconfirmed

record OnchainTransaction =
  otx_amountSat :: int
  otx_amountMsat :: int
  otx_createdAt :: int
  otx_type :: TxType
  otx_state :: OnchainTxState
  otx_numConfirmations :: int
  otx_txId :: string

record ListAppsResponse =
  lar_apps :: "App list"
  lar_totalCount :: int
  lar_totalBalanceSat :: "int option"
  lar_totalBalanceMsat :: "int option"

record ListTransactionsResponse =
  ltr_transactions :: "Transaction list"
  ltr_totalCount :: int

section \<open>Channel orders\<close>

datatype NewChannelOrderStatus = OPay | OPaid | OSuccess | OOpening

datatype PaymentMethod = PMOnchain | PMLightning

text \<open>
  \<open>OnchainOrder\<close> and \<open>LightningOrder\<close> are built as \<open>Partial\<close> values and cast when they are
  stored, so at run time any property may be absent: every field is optional.
\<close>

record NewChannelOrder =
  ord_paymentMethod :: "PaymentMethod option"
  ord_pubkey :: "string option"
  ord_host :: "string option"
  ord_lspType :: "LSPType option"
  ord_lspIdentifier :: "string option"
  ord_amountSat :: "string option"
  ord_isPublic :: "bool option"
  ord_status :: "NewChannelOrderStatus option"
  ord_fundingTxId :: "string option"
  ord_prevChannelIds :: "string list option"

record AuthTokenResponse =
  atr_token :: string

record GetForwardsResponse =
  gfr_outboundAmountForwardedSat :: int
  gfr_outboundAmountForwardedMsat :: int
  gfr_totalFeeEarnedSat :: int
  gfr_totalFeeEarnedMsat :: int
  gfr_numForwards :: int

section \<open>\<open>constants.ts\<close>\<close>

datatype storageKey =
    K_returnTo | K_setupReturnTo | K_channelOrder | K_authToken
  | K_supportAlbySidebarHintHiddenUntil | K_aiHeroDismissed | K_cardsHeroDismissed
  | K_homeStoriesViewed

fun localStorageKeys :: "storageKey \<Rightarrow> string" where
  "localStorageKeys K_returnTo = ''returnTo''"
| "localStorageKeys K_setupReturnTo = ''setupReturnTo''"
| "localStorageKeys K_channelOrder = ''channelOrder''"
| "localStorageKeys K_authToken = ''authToken''"
| "localStorageKeys K_supportAlbySidebarHintHiddenUntil = ''supportAlbySidebarHintHiddenUntil''"
| "localStorageKeys K_aiHeroDismissed = ''aiHeroDismissed''"
| "localStorageKeys K_cardsHeroDismissed = ''cardsHeroDismissed''"
| "localStorageKeys K_homeStoriesViewed = ''homeStoriesViewed''"

lemma localStorageKeys_inj [simp]: "localStorageKeys a = localStorageKeys b \<longleftrightarrow> a = b"
  by (cases a; cases b) simp_all

definition ONCHAIN_DUST_SATS :: int where "ONCHAIN_DUST_SATS = 1000"
definition ALBY_HIDE_HOSTED_BALANCE_BELOW :: int where "ALBY_HIDE_HOSTED_BALANCE_BELOW = 100"
definition ALBY_MIN_HOSTED_BALANCE_FOR_FIRST_CHANNEL :: int where
  "ALBY_MIN_HOSTED_BALANCE_FOR_FIRST_CHANNEL = 10000"
definition LIST_TRANSACTIONS_LIMIT :: int where "LIST_TRANSACTIONS_LIMIT = 20"
definition LIST_APPS_LIMIT :: int where "LIST_APPS_LIMIT = 20"
definition MAX_FREE_SUBWALLETS :: int where "MAX_FREE_SUBWALLETS = 3"
definition APP_SELECT_APPS_LIMIT :: int where "APP_SELECT_APPS_LIMIT = 100"
definition PAY_FROM_SELECT_APPS_LIMIT :: int where "PAY_FROM_SELECT_APPS_LIMIT = 100"
definition SUPPORT_ALBY_CONNECTION_NAME :: string where
  "SUPPORT_ALBY_CONNECTION_NAME = ''ZapPlanner - Alby Hub''"
definition SUPPORT_ALBY_LIGHTNING_ADDRESS :: string where
  "SUPPORT_ALBY_LIGHTNING_ADDRESS = ''hub@getalby.com''"
definition SUBWALLET_APPSTORE_APP_ID :: string where "SUBWALLET_APPSTORE_APP_ID = ''uncle-jim''"
definition ALBY_ACCOUNT_APP_NAME :: string where "ALBY_ACCOUNT_APP_NAME = ''getalby.com''"
definition DEFAULT_APP_BUDGET_SATS :: int where "DEFAULT_APP_BUDGET_SATS = 100000"
definition DEFAULT_APP_BUDGET_RENEWAL :: BudgetRenewalType where
  "DEFAULT_APP_BUDGET_RENEWAL = Monthly"
definition BITCOIN_DISPLAY_FORMAT_BIP177 :: BitcoinDisplayFormat where
  "BITCOIN_DISPLAY_FORMAT_BIP177 = Bip177"
definition BITCOIN_DISPLAY_FORMAT_SATS :: BitcoinDisplayFormat where
  "BITCOIN_DISPLAY_FORMAT_SATS = Sats"

section \<open>\<open>lib/backendType.tsx\<close>\<close>

datatype BackendIcon = LDKIcon | PhoenixdIcon | Img string | LightDark string string

record BackendTypeConfig =
  btc_title :: string
  btc_icon :: BackendIcon
  btc_hasMnemonic :: bool
  btc_hasChannelManagement :: bool
  btc_hasNodeBackup :: bool

fun backendTypeConfigs :: "BackendType \<Rightarrow> BackendTypeConfig" where
  "backendTypeConfigs LDK =
     \<lparr>btc_title = ''LDK'', btc_icon = LDKIcon, btc_hasMnemonic = True,
      btc_hasChannelManagement = True, btc_hasNodeBackup = True\<rparr>"
| "backendTypeConfigs PHOENIX =
     \<lparr>btc_title = ''phoenixd'', btc_icon = PhoenixdIcon, btc_hasMnemonic = False,
      btc_hasChannelManagement = False, btc_hasNodeBackup = False\<rparr>"
| "backendTypeConfigs LND =
     \<lparr>btc_title = ''LND'', btc_icon = Img ''lnd.png'', btc_hasMnemonic = False,
      btc_hasChannelManagement = True, btc_hasNodeBackup = False\<rparr>"
| "backendTypeConfigs CASHU =
     \<lparr>btc_title = ''Cashu Mint'', btc_icon = Img ''cashu.png'', btc_hasMnemonic = True,
      btc_hasChannelManagement = False, btc_hasNodeBackup = False\<rparr>"
| "backendTypeConfigs CLN =
     \<lparr>btc_title = ''CLN'', btc_icon = Img ''cln.png'', btc_hasMnemonic = False,
      btc_hasChannelManagement = True, btc_hasNodeBackup = False\<rparr>"
| "backendTypeConfigs BARK =
     \<lparr>btc_title = ''Bark'', btc_icon = LightDark ''bark-light.svg'' ''bark-dark.svg'',
      btc_hasMnemonic = True, btc_hasChannelManagement = False, btc_hasNodeBackup = False\<rparr>"

end
