(* ===== verification/LibUtils.thy ===== *)
theory LibUtils imports ApiTypes UrlParams
begin

text \<open>
  The utilities of \<open>src/frontend/src/lib/utils.ts\<close> and \<open>src/frontend/src/utils/\<close>:
  amounts as text, socket addresses, page numbers, BIP-21 payment URIs, return URLs and
  the description of a request error. \<open>Intl.NumberFormat().format\<close> depends on the
  locale of the browser and the WHATWG \<open>URL\<close> parser is not under \<open>src/\<close>: both are
  arguments. \<open>group_en\<close> is the formatter of an English locale, for the examples.
\<close>

section \<open>\<open>formatAmount\<close>\<close>

lemma floor_div_1000_less: "1000 \<le> (a::rat) \<Longrightarrow> nat \<lfloor>a / 1000\<rfloor> < nat \<lfloor>a\<rfloor>"
proof -
  assume a: "1000 \<le> a"
  then have "a / 1000 \<le> a - 1" by (simp add: field_simps)
  then have "\<lfloor>a / 1000\<rfloor> \<le> \<lfloor>a - 1\<rfloor>" by (rule floor_mono)
  then have "\<lfloor>a / 1000\<rfloor> < \<lfloor>a\<rfloor>" by simp
  moreover have "0 \<le> \<lfloor>a / 1000\<rfloor>" using a by simp
  ultimately show ?thesis by linarith
qed

text \<open>The loop \<open>for (i; amountMsat >= 1000; i++) amountMsat /= 1000\<close>.\<close>

function scale_amount :: "rat \<Rightarrow> nat \<Rightarrow> rat \<times> nat" where
  "scale_amount a i = (if 1000 \<le> a then scale_amount (a / 1000) (Suc i) else (a, i))"
  by pat_completeness auto
termination
  by (relation "measure (\<lambda>(a, i). nat \<lfloor>a\<rfloor>)") (auto dest: floor_div_1000_less)

declare scale_amount.simps [simp del]

text \<open>\<open>["", "k", "M", "G"][i]\<close>: past the end the index reads \<open>undefined\<close>, which prints so.\<close>

definition amount_suffix :: "nat \<Rightarrow> string" where
  "amount_suffix i =
     (if i = 0 then [] else if i = 1 then ''k'' else if i = 2 then ''M''
      else if i = 3 then ''G'' else ''undefined'')"

definition formatAmount :: "int \<Rightarrow> nat \<Rightarrow> string" where
  "formatAmount amountMsat decimals =
     (let (a, i) = scale_amount (of_int amountMsat / 1000) 0
      in to_fixed (if 0 < i then decimals else 0) a @ amount_suffix i)"

section \<open>\<open>splitSocketAddress\<close>\<close>

definition splitSocketAddress :: "string option \<Rightarrow> string \<times> string" where
  "splitSocketAddress socketAddress =
     (case socketAddress of
        None \<Rightarrow> ([], [])
      | Some s \<Rightarrow>
          if s = [] then ([], [])
          else (case last_index_of CHR '':'' s of
                  None \<Rightarrow> ([], [])
                | Some i \<Rightarrow>
                    if i = 0 then ([], [])
                    else (slice 0 i s, drop (Suc i) s)))"

section \<open>\<open>generatePageNumbers\<close>\<close>

datatype page_item = Page int | Ellipsis

definition MAX_PAGES_TO_SHOW :: int where "MAX_PAGES_TO_SHOW = 3"

definition page_start :: "int \<Rightarrow> int \<Rightarrow> int" where
  "page_start currentPage totalPages =
     (let half = MAX_PAGES_TO_SHOW div 2 in
      if currentPage + half > totalPages then max 1 (totalPages - MAX_PAGES_TO_SHOW + 1)
      else max 1 (currentPage - half))"

definition page_end :: "int \<Rightarrow> int \<Rightarrow> int" where
  "page_end currentPage totalPages =
     (let half = MAX_PAGES_TO_SHOW div 2 in
      if currentPage - half \<le> 0 then min totalPages MAX_PAGES_TO_SHOW
      else min totalPages (currentPage + half))"

definition generatePageNumbers :: "int \<Rightarrow> int \<Rightarrow> page_item list" where
  "generatePageNumbers currentPage totalPages =
     (let start = page_start currentPage totalPages;
          end' = page_end currentPage totalPages;
          pageNumbers = map Page [start..end'];
          front = (if start > 1 then (if start > 2 then [Page 1, Ellipsis] else [Page 1]) else []);
          back = (if end' < totalPages - 1 then [Ellipsis, Page totalPages]
                  else if end' = totalPages - 1 then [Page totalPages] else [])
      in front @ pageNumbers @ back)"

section \<open>Labels\<close>

fun getBudgetRenewalLabel :: "BudgetRenewalType \<Rightarrow> string" where
  "getBudgetRenewalLabel Daily = ''day''"
| "getBudgetRenewalLabel Weekly = ''week''"
| "getBudgetRenewalLabel Monthly = ''month''"
| "getBudgetRenewalLabel Yearly = ''year''"
| "getBudgetRenewalLabel Never = ''never''"
| "getBudgetRenewalLabel NoRenewal = []"

definition getAppDisplayName :: "string \<Rightarrow> string" where
  "getAppDisplayName name = (if name = ALBY_ACCOUNT_APP_NAME then ''Alby Account'' else name)"

section \<open>\<open>formatBitcoinAmount\<close>\<close>

text \<open>The sign U+20BF is three bytes of UTF-8.\<close>

definition btc_sign :: string where
  "btc_sign = [CHR 0xE2, CHR 0x82, CHR 0xBF]"

definition formatBitcoinAmount ::
    "(int \<Rightarrow> string) \<Rightarrow> int \<Rightarrow> BitcoinDisplayFormat \<Rightarrow> bool \<Rightarrow> string" where
  "formatBitcoinAmount numberFormat amountMsat displayFormat showSymbol =
     (let sats = amountMsat div 1000; formattedNumber = numberFormat sats in
      if \<not> showSymbol then formattedNumber
      else if displayFormat = BITCOIN_DISPLAY_FORMAT_BIP177 then btc_sign @ formattedNumber
      else formattedNumber @ '' sats'')"

fun group_digits :: "string \<Rightarrow> string" where
  "group_digits (a # b # c # d # s) = a # b # c # CHR '','' # group_digits (d # s)"
| "group_digits s = s"

definition group_en :: "int \<Rightarrow> string" where
  "group_en n =
     (if n < 0 then ''-'' else []) @ rev (group_digits (rev (show_nat (nat \<bar>n\<bar>))))"

section \<open>\<open>parseBip21\<close>\<close>

text \<open>\<open>amountSat\<close> is a number that can be NaN, when the amount does not parse.\<close>

record Bip21Data =
  bip_address :: string
  bip_amountSat :: "jsnum option"
  bip_label :: "string option"
  bip_message :: "string option"
  bip_lightning :: "string option"

text \<open>\<open>uri.replace(/^bitcoin:\/?\/?/i, "")\<close>.\<close>

definition strip_slash :: "string \<Rightarrow> string" where
  "strip_slash s = (if s \<noteq> [] \<and> hd s = CHR ''/'' then tl s else s)"

definition strip_scheme :: "string \<Rightarrow> string" where
  "strip_scheme uri =
     (if starts_with ''bitcoin:'' (to_lower uri) then strip_slash (strip_slash (drop 8 uri))
      else uri)"

text \<open>The first value of each key, keys in lower case: the loop that fills \<open>params\<close>.\<close>

fun bip21_params :: "params \<Rightarrow> params \<Rightarrow> params" where
  "bip21_params acc [] = acc"
| "bip21_params acc ((key, value) # rest) =
     (let lower = to_lower key in
      if params_get acc lower = None then bip21_params (acc @ [(lower, value)]) rest
      else bip21_params acc rest)"

definition round_num :: "jsnum \<Rightarrow> jsnum" where
  "round_num x = (case x of Fin r \<Rightarrow> Fin (of_int (js_round r)) | y \<Rightarrow> y)"

definition scale_num :: "rat \<Rightarrow> jsnum \<Rightarrow> jsnum" where
  "scale_num k x = (case x of Fin r \<Rightarrow> Fin (r * k) | y \<Rightarrow> y)"

definition nonempty :: "string option \<Rightarrow> string option" where
  "nonempty s = (if truthy_str s then s else None)"

definition parseBip21 :: "string \<Rightarrow> string + Bip21Data" where
  "parseBip21 uri =
     (let withoutScheme = strip_scheme uri in
      if withoutScheme = [] then Inl ''Invalid BIP21 URI: missing address''
      else
        (case index_of CHR ''?'' withoutScheme of
           None \<Rightarrow>
             Inr \<lparr>bip_address = withoutScheme, bip_amountSat = None, bip_label = None,
                  bip_message = None, bip_lightning = None\<rparr>
         | Some separatorIndex \<Rightarrow>
             (let rawParams = parse_params (drop (Suc separatorIndex) withoutScheme);
                  params = bip21_params [] rawParams
              in Inr \<lparr>bip_address = slice 0 separatorIndex withoutScheme,
                      bip_amountSat =
                        map_option (\<lambda>a. round_num (scale_num 100000000 (js_parseFloat a)))
                          (nonempty (params_get params ''amount'')),
                      bip_label = nonempty (params_get params ''label''),
                      bip_message = nonempty (params_get params ''message''),
                      bip_lightning = nonempty (params_get params ''lightning'')\<rparr>)))"

section \<open>\<open>safeReturnToUrl\<close>\<close>

text \<open>
  \<open>parse_url\<close> is \<open>new URL(returnTo, window.location.origin)\<close>: the protocol and the
  serialised URL, \<open>None\<close> when it throws.
\<close>

definition safeReturnToUrl ::
    "(string \<Rightarrow> (string \<times> string) option) \<Rightarrow> string option \<Rightarrow> string option" where
  "safeReturnToUrl parse_url returnTo =
     (if \<not> truthy_str returnTo then None
      else (case parse_url (the returnTo) of
              None \<Rightarrow> None
            | Some (protocol, href) \<Rightarrow>
                if protocol = ''http:'' \<or> protocol = ''https:'' then Some href else None))"

section \<open>\<open>handleRequestError\<close>\<close>

text \<open>What a \<open>catch\<close> can receive: an object with its properties, or a value that is none.\<close>

definition isErrorWithMessage :: "json \<Rightarrow> bool" where
  "isErrorWithMessage error =
     (case error of
        JObj ms \<Rightarrow> (case jget ''message'' error of Some (JStr _) \<Rightarrow> True | _ \<Rightarrow> False)
      | _ \<Rightarrow> False)"

text \<open>The title and the description of the error toast.\<close>

definition handleRequestError :: "string \<Rightarrow> json \<Rightarrow> string \<times> string option" where
  "handleRequestError message error =
     (message, if isErrorWithMessage error then jget_str ''message'' error else None)"

section \<open>What the utilities promise\<close>

lemma scale_amount_value: "scale_amount a i = (m, k) \<Longrightarrow> i \<le> k \<and> a = m * 1000 ^ (k - i) \<and> m < 1000"
proof (induction a i arbitrary: m k rule: scale_amount.induct)
  case (1 a i)
  show ?case
  proof (cases "1000 \<le> a")
    case True
    with 1 have "Suc i \<le> k \<and> a / 1000 = m * 1000 ^ (k - Suc i) \<and> m < 1000"
      by (simp add: scale_amount.simps [of a i])
    moreover from this have "(1000::rat) ^ (k - i) = 1000 * 1000 ^ (k - Suc i)"
      by (metis Suc_diff_le diff_Suc_Suc power_Suc)
    ultimately show ?thesis by (simp add: field_simps)
  next
    case False
    with 1 show ?thesis by (simp add: scale_amount.simps [of a i])
  qed
qed

lemma scale_amount_lower: "scale_amount a i = (m, k) \<Longrightarrow> i < k \<Longrightarrow> 1 \<le> m"
proof (induction a i arbitrary: m k rule: scale_amount.induct)
  case (1 a i)
  show ?case
  proof (cases "1000 \<le> a")
    case True
    then have r: "scale_amount (a / 1000) (Suc i) = (m, k)"
      using "1.prems" by (simp add: scale_amount.simps [of a i])
    show ?thesis
    proof (cases "Suc i < k")
      case False
      then have "k = Suc i" using "1.prems" by simp
      then have "m = a / 1000" using scale_amount_value [OF r] by simp
      then show ?thesis using True by simp
    qed (use "1.IH" r True in simp)
  qed (use "1.prems" in \<open>simp add: scale_amount.simps [of a i]\<close>)
qed

lemma splitSocketAddress_spec:
  assumes "splitSocketAddress (Some s) = (a, p)" and "a \<noteq> []"
  shows "s = a @ CHR '':'' # p \<and> CHR '':'' \<notin> set p"
proof -
  from assms obtain i where i: "last_index_of CHR '':'' s = Some i" "a = slice 0 i s" "p = drop (Suc i) s"
    by (auto simp: splitSocketAddress_def split: if_splits option.splits)
  then obtain u t where "s = u @ CHR '':'' # t" "length u = i" "CHR '':'' \<notin> set t"
    using last_index_of_Some by blast
  with i show ?thesis by (auto simp: slice_def)
qed

lemma splitSocketAddress_append:
  "a \<noteq> [] \<Longrightarrow> CHR '':'' \<notin> set p \<Longrightarrow> splitSocketAddress (Some (a @ CHR '':'' # p)) = (a, p)"
  by (simp add: splitSocketAddress_def last_index_of_append)

text \<open>A list of page items in order, with an ellipsis exactly where pages are left out.\<close>

fun page_list_ok :: "page_item list \<Rightarrow> bool" where
  "page_list_ok [Page a] = True"
| "page_list_ok (Page a # Page b # r) = (b = a + 1 \<and> page_list_ok (Page b # r))"
| "page_list_ok (Page a # Ellipsis # Page b # r) = (a + 1 < b \<and> page_list_ok (Page b # r))"
| "page_list_ok _ = False"

lemma upto_three: "[i - 1..i + 1] = [i - 1, i, i + (1::int)]" "[i - 2..i] = [i - 2, i - 1, i]"
  by (simp_all add: upto.simps)

lemma upto_small: "[1..3] = [1, 2, 3 :: int]" "[1..2] = [1, 2 :: int]"
  by (simp_all add: upto.simps)

lemmas page_defs =
  generatePageNumbers_def page_start_def page_end_def MAX_PAGES_TO_SHOW_def Let_def

lemma pages_first:
  "3 < t \<Longrightarrow> generatePageNumbers 1 t = [Page 1, Page 2, Page 3] @
     (if t = 4 then [Page 4] else [Ellipsis, Page t])"
  by (simp add: page_defs upto_small)

lemma pages_last:
  "3 < t \<Longrightarrow> generatePageNumbers t t =
     (if t = 4 then [Page 1] else [Page 1, Ellipsis]) @ [Page (t - 2), Page (t - 1), Page t]"
  by (simp add: page_defs upto_three)

lemma pages_middle:
  "1 < c \<Longrightarrow> c < t \<Longrightarrow> 3 < t \<Longrightarrow> generatePageNumbers c t =
     (if c = 2 then [] else if c = 3 then [Page 1] else [Page 1, Ellipsis]) @
     [Page (c - 1), Page c, Page (c + 1)] @
     (if c + 1 = t then [] else if c + 2 = t then [Page t] else [Ellipsis, Page t])"
  by (auto simp: page_defs upto_three)

lemma pages_few:
  "c \<in> {1..t} \<Longrightarrow> t \<le> 3 \<Longrightarrow> generatePageNumbers c t = map Page [1..t]"
  by (auto simp: page_defs)

lemma bip21_params_first:
  "params_get (bip21_params acc ps) k =
     (case params_get acc k of
        Some v \<Rightarrow> Some v
      | None \<Rightarrow> map_option snd (List.find (\<lambda>(key, v). to_lower key = k) ps))"
  by (induction acc ps rule: bip21_params.induct)
     (auto simp: params_get_def Let_def map_add_def split: option.splits)

lemma formatAmount_parts:
  "\<exists>m k. formatAmount amt d = to_fixed (if 0 < k then d else 0) m @ amount_suffix k \<and>
     of_int amt / 1000 = m * 1000 ^ k \<and> m < 1000 \<and> (0 < k \<longrightarrow> 1 \<le> m) \<and>
     (k = 0 \<longleftrightarrow> amt < 1000000)"
proof -
  obtain m k where mk: "scale_amount (of_int amt / 1000) 0 = (m, k)" by (metis surj_pair)
  have v: "of_int amt / 1000 = m * 1000 ^ k" "m < 1000" and l: "0 < k \<longrightarrow> 1 \<le> m"
    using scale_amount_value [OF mk] scale_amount_lower [OF mk] by auto
  have "k = 0 \<longleftrightarrow> amt < 1000000"
  proof
    assume "k = 0"
    with v have "(of_int amt :: rat) < 1000000" by (simp add: field_simps)
    then show "amt < 1000000" by linarith
  next
    assume a: "amt < 1000000"
    then have "\<not> (1000 \<le> (of_int amt :: rat) / 1000)" by linarith
    with mk show "k = 0" by (simp add: scale_amount.simps [of "of_int amt / 1000"])
  qed
  with v l mk show ?thesis
    by (intro exI [of _ m] exI [of _ k]) (simp add: formatAmount_def)
qed

section \<open>Properties\<close>

text \<open>The page list is right for every page of every list. It starts at page 1 and ends at the
  last page, is in ascending order with an ellipsis exactly where pages are left out, holds only
  existing pages, always shows the current page and its neighbours, and has at most seven items.\<close>

lemma generatePageNumbers_correct:
  assumes "1 \<le> c" and "c \<le> t"
  shows "page_list_ok (generatePageNumbers c t) \<and> hd (generatePageNumbers c t) = Page 1 \<and>
         last (generatePageNumbers c t) = Page t \<and> length (generatePageNumbers c t) \<le> 7 \<and>
         (\<forall>k. 1 \<le> k \<and> k \<le> t \<and> \<bar>k - c\<bar> \<le> 1 \<longrightarrow> Page k \<in> set (generatePageNumbers c t)) \<and>
         (\<forall>k. Page k \<in> set (generatePageNumbers c t) \<longrightarrow> 1 \<le> k \<and> k \<le> t)"
proof -
  consider "t \<le> 3" | "3 < t" "c = 1" | "3 < t" "c = t" | "1 < c" "c < t" "3 < t" using assms by linarith
  then show ?thesis
  proof cases
    case 1
    then have g: "generatePageNumbers c t = map Page [1..t]" using assms by (simp add: pages_few)
    have "t = 1 \<or> t = 2 \<or> t = 3" using 1 assms by auto
    then show ?thesis unfolding g by (auto simp: upto_small)
  next
    case 2
    then show ?thesis by (auto simp: pages_first)
  next
    case 3
    then show ?thesis by (auto simp: pages_last)
  next
    case 4
    then show ?thesis by (auto simp: pages_middle)
  qed
qed

lemma generatePageNumbers_correct_witness:
  "generatePageNumbers 5 10 = [Page 1, Ellipsis, Page 4, Page 5, Page 6, Ellipsis, Page 10] \<and>
   page_list_ok (generatePageNumbers 5 10)"
  using generatePageNumbers_correct [of 5 10] by (simp add: pages_middle)

text \<open>A formatted amount is the amount. The loop of \<open>formatAmount\<close> ends for every amount and
  leaves a mantissa below 1000 (at least 1 if it was divided at all) and a power of 1000 whose
  product is the amount in satoshis; the printed text is the mantissa, to the asked decimals,
  with the suffix of the power, and no suffix below 1000 satoshis.\<close>

lemma formatAmount_value:
  "\<exists>m k. formatAmount amt d = to_fixed (if 0 < k then d else 0) m @ amount_suffix k \<and>
     of_int amt / 1000 = m * 1000 ^ k \<and> m < 1000 \<and> (0 < k \<longrightarrow> 1 \<le> m) \<and>
     (k = 0 \<longleftrightarrow> amt < 1000000)"
  by (rule formatAmount_parts)

lemma formatAmount_value_witness:
  "\<exists>m k. formatAmount 2500000 1 = to_fixed (if 0 < k then 1 else 0) m @ amount_suffix k \<and>
     2500 = m * 1000 ^ k \<and> 0 < k"
proof -
  obtain m k where "formatAmount 2500000 1 = to_fixed (if 0 < k then 1 else 0) m @ amount_suffix k"
    "of_int 2500000 / 1000 = m * 1000 ^ k" "k = 0 \<longleftrightarrow> (2500000::int) < 1000000"
    using formatAmount_value [of 2500000 1] by blast
  then show ?thesis by (intro exI [of _ m] exI [of _ k]) simp
qed

text \<open>There is no suffix past \<open>G\<close>. An amount of 10^12 satoshis or more is printed with the text
  \<open>undefined\<close>.\<close>

lemma formatAmount_undefined:
  assumes "1000000000000000 \<le> amt"
  shows "\<exists>t. formatAmount amt d = t @ ''undefined''"
proof -
  obtain m k where mk: "formatAmount amt d = to_fixed (if 0 < k then d else 0) m @ amount_suffix k"
    "of_int amt / 1000 = m * 1000 ^ k" "m < 1000"
    using formatAmount_parts [of amt d] by blast
  have "4 \<le> k"
  proof (rule ccontr)
    assume "\<not> 4 \<le> k"
    then have "(1000::rat) ^ k \<le> 1000 ^ 3" by (intro power_increasing) auto
    moreover have "0 \<le> m * 1000 ^ k" unfolding mk(2) [symmetric] using assms by simp
    then have "0 \<le> m" by (rule contrapos_pp) (simp add: not_le mult_neg_pos)
    ultimately have "m * 1000 ^ k \<le> m * 1000 ^ 3" by (intro mult_left_mono) auto
    moreover have "m * 1000 ^ 3 < 1000 * 1000 ^ 3" using mk(3) by simp
    ultimately have "m * 1000 ^ k < 1000 * 1000 ^ 3" by (rule order.strict_trans1)
    with mk(2) have "(of_int amt :: rat) < 1000000000000000" by simp
    with assms show False by linarith
  qed
  with mk(1) show ?thesis by (simp add: amount_suffix_def)
qed

lemma formatAmount_undefined_witness:
  "\<exists>t. formatAmount 1000000000000000 1 = t @ ''undefined''"
  using formatAmount_undefined [of 1000000000000000 1] by simp

text \<open>A socket address is split at its last colon. For a nonempty host, brackets and colons of
  an IPv6 host included, and a port without a colon, splitting \<open>host:port\<close> gives both back; and
  whatever is split, either both parts are empty or they make up the text again.\<close>

lemma splitSocketAddress_roundtrip:
  "(h \<noteq> [] \<and> CHR '':'' \<notin> set p \<longrightarrow> splitSocketAddress (Some (h @ CHR '':'' # p)) = (h, p)) \<and>
   (splitSocketAddress (Some s) = ([], []) \<or>
    (\<exists>a q. splitSocketAddress (Some s) = (a, q) \<and> a \<noteq> [] \<and> s = a @ CHR '':'' # q \<and> CHR '':'' \<notin> set q))"
proof (intro conjI impI)
  obtain a q where aq: "splitSocketAddress (Some s) = (a, q)" by (metis surj_pair)
  show "splitSocketAddress (Some s) = ([], []) \<or>
    (\<exists>a q. splitSocketAddress (Some s) = (a, q) \<and> a \<noteq> [] \<and> s = a @ CHR '':'' # q \<and> CHR '':'' \<notin> set q)"
  proof (cases "a = []")
    case True
    with aq show ?thesis by (auto simp: splitSocketAddress_def slice_def split: if_splits option.splits)
  next
    case False
    with aq splitSocketAddress_spec [OF aq False] show ?thesis by auto
  qed
qed (simp add: splitSocketAddress_append)

lemma splitSocketAddress_roundtrip_witness:
  "splitSocketAddress (Some ''[2600::]:9735'') = (''[2600::]'', ''9735'')"
  using splitSocketAddress_roundtrip [of "''[2600::]''" "''9735''" "[]"] by simp

text \<open>The first parameter whose key is \<open>k\<close> when its letters are lowered.\<close>

definition first_param :: "params \<Rightarrow> string \<Rightarrow> string option" where
  "first_param ps k = map_option snd (List.find (\<lambda>(key, v). to_lower key = k) ps)"

lemma first_param_read: "params_get (bip21_params [] ps) k = first_param ps k"
  using bip21_params_first [of "[]" ps k] by (simp add: first_param_def params_get_def)

lemma scheme_length: "to_lower scheme = ''bitcoin:'' \<Longrightarrow> length scheme = 8"
proof -
  assume "to_lower scheme = ''bitcoin:''"
  then have "length (to_lower scheme) = length ''bitcoin:''" by simp
  then show ?thesis by (simp add: to_lower_def)
qed

lemma strip_scheme_uri:
  "to_lower scheme = ''bitcoin:'' \<Longrightarrow> s = [] \<or> hd s \<noteq> CHR ''/'' \<Longrightarrow> strip_scheme (scheme @ s) = s"
proof -
  assume a: "to_lower scheme = ''bitcoin:''" "s = [] \<or> hd s \<noteq> CHR ''/''"
  have "starts_with ''bitcoin:'' (to_lower (scheme @ s))"
    unfolding to_lower_append a(1) by (rule starts_with_append)
  with a(2) show ?thesis
    by (auto simp: strip_scheme_def strip_slash_def scheme_length [OF a(1)] simp del: to_lower_append)
qed



text \<open>Only web addresses are followed. Whatever the URL parser answers, \<open>safeReturnToUrl\<close> gives
  a URL only if the parser read an \<open>http:\<close> or \<open>https:\<close> URL from a nonempty text, gives exactly
  that URL then, and nothing for \<open>javascript:\<close>, other protocols or a text that does not parse.\<close>

lemma safeReturnToUrl_http_only:
  "safeReturnToUrl parse_url returnTo = Some href \<longleftrightarrow>
     (\<exists>t. returnTo = Some t \<and> t \<noteq> [] \<and>
        (parse_url t = Some (''http:'', href) \<or> parse_url t = Some (''https:'', href)))"
  by (cases returnTo) (auto simp: safeReturnToUrl_def split: option.splits)

end
