(* ===== verification/Effects.thy ===== *)
theory Effects imports ApiTypes UrlParams
begin

text \<open>
  The effects of the frontend and the interfaces between its parts. An event handler or
  an async function is a function from the state of its component and the log of what it
  has done so far to an outcome (\<open>Inl\<close> a thrown error's message, \<open>Inr\<close> a value), the new
  state and the longer log. The server is an argument: its answer to a request may depend
  on everything that was done before, so every theorem holds for every server.

  The interfaces are locales: a key/value store (the browser's \<open>localStorage\<close>), an
  encoding that can be read back (JSON, URL parameters), a store whose content survives
  a page load (both together), and a machine whose steps keep an invariant.
\<close>

section \<open>Interfaces\<close>

locale key_value_store =
  fixes getItem :: "'s \<Rightarrow> 'k \<Rightarrow> 'v option"
    and setItem :: "'s \<Rightarrow> 'k \<Rightarrow> 'v \<Rightarrow> 's"
    and removeItem :: "'s \<Rightarrow> 'k \<Rightarrow> 's"
  assumes get_set: "getItem (setItem s k v) j = (if j = k then Some v else getItem s j)"
    and get_remove: "getItem (removeItem s k) j = (if j = k then None else getItem s j)"
begin

lemma get_set_same [simp]: "getItem (setItem s k v) k = Some v"
  by (simp add: get_set)

lemma get_set_other: "j \<noteq> k \<Longrightarrow> getItem (setItem s k v) j = getItem s j"
  by (simp add: get_set)

lemma get_remove_same [simp]: "getItem (removeItem s k) k = None"
  by (simp add: get_remove)

lemma get_remove_other: "j \<noteq> k \<Longrightarrow> getItem (removeItem s k) j = getItem s j"
  by (simp add: get_remove)

lemma get_after_writes:
  "getItem (foldl (\<lambda>t (k, v). setItem t k v) s ws) j =
     (case map_of (rev ws) j of Some v \<Rightarrow> Some v | None \<Rightarrow> getItem s j)"
proof (induction ws rule: rev_induct)
  case (snoc w ws)
  then show ?case by (cases w) (simp add: get_set)
qed simp

end

locale codec =
  fixes encode :: "'a \<Rightarrow> 'b" and decode :: "'b \<Rightarrow> 'a option"
  assumes decode_encode [simp]: "decode (encode x) = Some x"
begin

lemma encode_inj: "encode x = encode y \<Longrightarrow> x = y"
  by (metis decode_encode option.inject)

lemma decode_encode_list: "map decode (map encode xs) = map Some xs"
  by simp

end

text \<open>A value kept in a key/value store under one key, in encoded form.\<close>

locale persisted_value = key_value_store getItem setItem removeItem + codec encode decode
  for getItem :: "'s \<Rightarrow> 'k \<Rightarrow> 'b option"
    and setItem :: "'s \<Rightarrow> 'k \<Rightarrow> 'b \<Rightarrow> 's"
    and removeItem :: "'s \<Rightarrow> 'k \<Rightarrow> 's"
    and encode :: "'a \<Rightarrow> 'b" and decode :: "'b \<Rightarrow> 'a option" +
  fixes key :: "'k"
begin

lemma load_saved: "Option.bind (getItem (setItem s key (encode x)) key) decode = Some x"
  by simp

lemma load_after_other_writes:
  "key \<notin> fst ` set ws \<Longrightarrow>
   Option.bind (getItem (foldl (\<lambda>t (k, v). setItem t k v) (setItem s key (encode x)) ws) key) decode
     = Some x"
proof -
  assume "key \<notin> fst ` set ws"
  then have "map_of (rev ws) key = None" by (simp add: map_of_eq_None_iff)
  then show ?thesis by (simp add: get_after_writes)
qed

lemma load_removed: "Option.bind (getItem (removeItem s key) key) decode = None"
  by simp

end

text \<open>A machine whose steps keep an invariant.\<close>

locale invariant_machine =
  fixes step :: "'s \<Rightarrow> 'e \<Rightarrow> 's" and inv :: "'s \<Rightarrow> bool"
  assumes step_inv: "inv s \<Longrightarrow> inv (step s e)"
begin

lemma run_inv: "inv s \<Longrightarrow> inv (foldl step s es)"
  by (induction es arbitrary: s) (simp_all add: step_inv)

lemma every_prefix_inv: "inv s \<Longrightarrow> prefix ds es \<Longrightarrow> inv (foldl step s ds)"
  by (simp add: run_inv)

end

section \<open>\<open>localStorage\<close>\<close>

type_synonym storage = "string \<rightharpoonup> string"

definition storage_getItem :: "storage \<Rightarrow> string \<Rightarrow> string option" where
  "storage_getItem s k = s k"

definition storage_setItem :: "storage \<Rightarrow> string \<Rightarrow> string \<Rightarrow> storage" where
  "storage_setItem s k v = s(k \<mapsto> v)"

definition storage_removeItem :: "storage \<Rightarrow> string \<Rightarrow> storage" where
  "storage_removeItem s k = s(k := None)"

interpretation local: key_value_store storage_getItem storage_setItem storage_removeItem
  by unfold_locales
     (simp_all add: storage_getItem_def storage_setItem_def storage_removeItem_def)

interpretation json_text: codec json_stringify json_parse
  by unfold_locales simp

interpretation query_text: codec params_to_string "\<lambda>s. Some (parse_params s)"
  by unfold_locales simp

section \<open>The effect monad\<close>

datatype effect =
    EFetch (ef_method: string) (ef_url: string) (ef_body: "json option")
  | EToast string "string option"
  | EToastError string "string option"
  | ENavigate string
  | EMutate string
  | EOpen string
  | EMessage json
  | ELocation string

text \<open>The answer of the server to method, URL and body, after the logged effects.\<close>

type_synonym server = "effect list \<Rightarrow> string \<Rightarrow> string \<Rightarrow> json option \<Rightarrow> string + json option"

text \<open>The server that answers every request with an empty success, used in examples.\<close>

definition no_answer :: server where
  "no_answer sofar m u b = Inr None"

record 's ui =
  ui_st :: 's
  ui_log :: "effect list"

type_synonym ('s, 'a) act = "'s ui \<Rightarrow> (string + 'a) \<times> 's ui"

definition ret :: "'a \<Rightarrow> ('s, 'a) act" where
  "ret x w = (Inr x, w)"

definition throw :: "string \<Rightarrow> ('s, 'a) act" where
  "throw e w = (Inl e, w)"

definition andThen :: "('s, 'a) act \<Rightarrow> ('a \<Rightarrow> ('s, 'b) act) \<Rightarrow> ('s, 'b) act" where
  "andThen m f w = (case m w of (Inl e, w') \<Rightarrow> (Inl e, w') | (Inr x, w') \<Rightarrow> f x w')"

definition andDo :: "('s, 'a) act \<Rightarrow> ('s, 'b) act \<Rightarrow> ('s, 'b) act" where
  "andDo m n = andThen m (\<lambda>_. n)"

definition setS :: "('s \<Rightarrow> 's) \<Rightarrow> ('s, unit) act" where
  "setS f w = (Inr (), w\<lparr>ui_st := f (ui_st w)\<rparr>)"

definition getS :: "('s \<Rightarrow> 'a) \<Rightarrow> ('s, 'a) act" where
  "getS f w = (Inr (f (ui_st w)), w)"

definition emit :: "effect \<Rightarrow> ('s, unit) act" where
  "emit e w = (Inr (), w\<lparr>ui_log := ui_log w @ [e]\<rparr>)"

definition toast :: "string \<Rightarrow> ('s, unit) act" where
  "toast m = emit (EToast m None)"

text \<open>\<open>await request(url, { method, body })\<close>: the request is logged, then answered.\<close>

definition api :: "server \<Rightarrow> string \<Rightarrow> string \<Rightarrow> json option \<Rightarrow> ('s, json option) act" where
  "api srv m u b w = (srv (ui_log w) m u b, w\<lparr>ui_log := ui_log w @ [EFetch m u b]\<rparr>)"

definition tryCatch :: "('s, 'a) act \<Rightarrow> (string \<Rightarrow> ('s, 'a) act) \<Rightarrow> ('s, 'a) act" where
  "tryCatch m h w = (case m w of (Inl e, w') \<Rightarrow> h e w' | (Inr x, w') \<Rightarrow> (Inr x, w'))"

definition finally_do :: "('s, 'a) act \<Rightarrow> ('s, unit) act \<Rightarrow> ('s, 'a) act" where
  "finally_do m f w =
     (case m w of (r, w') \<Rightarrow> (case f w' of (Inl e, w'') \<Rightarrow> (Inl e, w'') | (Inr _, w'') \<Rightarrow> (r, w'')))"

definition whenD :: "bool \<Rightarrow> ('s, unit) act \<Rightarrow> ('s, unit) act" where
  "whenD c m = (if c then m else ret ())"

text \<open>\<open>if (!c) throw new Error(e)\<close>.\<close>

definition require :: "bool \<Rightarrow> string \<Rightarrow> ('s, unit) act" where
  "require c e = (if c then ret () else throw e)"

text \<open>\<open>"" + error\<close> of an \<open>Error\<close>.\<close>

definition error_text :: "string \<Rightarrow> string" where
  "error_text e = ''Error: '' @ e"

lemmas effect_defs [effect_simps] =
  ret_def throw_def andThen_def andDo_def setS_def getS_def emit_def toast_def api_def
  tryCatch_def finally_do_def whenD_def require_def

lemma getS_then: "andThen (getS f) k w = k (f (ui_st w)) w"
  by (simp add: andThen_def getS_def)

text \<open>The requests of a log, and the log's projections the theorems speak about.\<close>

definition fetches :: "effect list \<Rightarrow> effect list" where
  "fetches l = filter (\<lambda>e. case e of EFetch _ _ _ \<Rightarrow> True | _ \<Rightarrow> False) l"

definition posts_to :: "string \<Rightarrow> effect list \<Rightarrow> nat" where
  "posts_to u l =
     length (filter (\<lambda>e. case e of EFetch m v _ \<Rightarrow> m = ''POST'' \<and> v = u | _ \<Rightarrow> False) l)"

lemma posts_to_append [simp]: "posts_to u (k @ l) = posts_to u k + posts_to u l"
  by (simp add: posts_to_def)

lemma posts_to_simps [simp]:
  "posts_to u [] = 0"
  "posts_to u (EFetch m v b # l) = (if m = ''POST'' \<and> v = u then Suc (posts_to u l) else posts_to u l)"
  "posts_to u (EToast a d # l) = posts_to u l"
  "posts_to u (EToastError a d # l) = posts_to u l"
  "posts_to u (ENavigate p # l) = posts_to u l"
  "posts_to u (EMutate k # l) = posts_to u l"
  "posts_to u (EOpen k # l) = posts_to u l"
  "posts_to u (EMessage j # l) = posts_to u l"
  "posts_to u (ELocation k # l) = posts_to u l"
  by (simp_all add: posts_to_def)

lemma fetches_simps [simp]:
  "fetches [] = []"
  "fetches (k @ l) = fetches k @ fetches l"
  "fetches (EFetch m v b # l) = EFetch m v b # fetches l"
  "fetches (EToast a d # l) = fetches l"
  "fetches (EToastError a d # l) = fetches l"
  "fetches (ENavigate p # l) = fetches l"
  "fetches (EMutate c # l) = fetches l"
  "fetches (EOpen c # l) = fetches l"
  "fetches (EMessage j # l) = fetches l"
  "fetches (ELocation c # l) = fetches l"
  by (simp_all add: fetches_def)

section \<open>Reasoning about actions\<close>

text \<open>
  \<open>costs u n m\<close>: the action posts to \<open>u\<close> at most \<open>n\<close> times, whatever the server answers.
  \<open>moves R m\<close>: the action relates the state before to the state after by \<open>R\<close>. Both are
  proved by following the structure of the action.
\<close>

definition costs :: "string \<Rightarrow> nat \<Rightarrow> ('s, 'a) act \<Rightarrow> bool" where
  "costs u n m = (\<forall>w. posts_to u (ui_log (snd (m w))) \<le> posts_to u (ui_log w) + n)"

definition moves :: "('s \<Rightarrow> 's \<Rightarrow> bool) \<Rightarrow> ('s, 'a) act \<Rightarrow> bool" where
  "moves R m = (\<forall>w. R (ui_st w) (ui_st (snd (m w))))"

lemma costsD: "costs u n m \<Longrightarrow> posts_to u (ui_log (snd (m w))) \<le> posts_to u (ui_log w) + n"
  by (simp add: costs_def)

lemma movesD: "moves R m \<Longrightarrow> R (ui_st w) (ui_st (snd (m w)))"
  by (simp add: moves_def)

lemma costs_le: "costs u k m \<Longrightarrow> k \<le> n \<Longrightarrow> costs u n m"
  by (fastforce simp: costs_def intro: order_trans)

lemma costs_basic:
  "costs u 0 (ret x)" "costs u 0 (throw e)" "costs u 0 (setS f)" "costs u 0 (getS g)"
  "costs u 0 (toast m)" "costs u 0 (require c e)"
  "costs u 0 (emit (EToast a d))" "costs u 0 (emit (EToastError a d))" "costs u 0 (emit (ENavigate a))"
  "costs u 0 (emit (EMutate a))" "costs u 0 (emit (EOpen a))"
  "costs u 0 (emit (EMessage j))" "costs u 0 (emit (ELocation a))"
  "costs u (of_bool (v = u)) (emit (EFetch ''POST'' v b))"
  "costs u (of_bool (v = u)) (api srv ''POST'' v b)"
  "costs u (of_bool (k = ''POST'')) (emit (EFetch k v b))"
  "costs u (of_bool (k = ''POST'')) (api srv k v b)"
  by (simp_all add: costs_def effect_simps)

lemma costs_andThen:
  assumes "costs u a m" and "\<And>x. costs u b (f x)"
  shows "costs u (a + b) (andThen m f)"
  unfolding costs_def
proof
  fix w
  show "posts_to u (ui_log (snd (andThen m f w))) \<le> posts_to u (ui_log w) + (a + b)"
    using costsD [OF assms(1), of w] costsD [OF assms(2), of _ "snd (m w)"]
    by (auto simp: andThen_def split: sum.splits prod.splits) (metis add.assoc add_le_mono1 order_trans)
qed

lemma costs_andDo: "costs u a m \<Longrightarrow> costs u b n \<Longrightarrow> costs u (a + b) (andDo m n)"
  unfolding andDo_def by (rule costs_andThen)

lemma costs_tryCatch:
  assumes "costs u a m" and "\<And>e. costs u b (h e)"
  shows "costs u (a + b) (tryCatch m h)"
  unfolding costs_def
proof
  fix w
  show "posts_to u (ui_log (snd (tryCatch m h w))) \<le> posts_to u (ui_log w) + (a + b)"
    using costsD [OF assms(1), of w] costsD [OF assms(2), of _ "snd (m w)"]
    by (auto simp: tryCatch_def split: sum.splits prod.splits) (metis add.assoc add_le_mono1 order_trans)
qed

lemma costs_finally:
  assumes "costs u a m" and "costs u b n"
  shows "costs u (a + b) (finally_do m n)"
  unfolding costs_def
proof
  fix w
  show "posts_to u (ui_log (snd (finally_do m n w))) \<le> posts_to u (ui_log w) + (a + b)"
    using costsD [OF assms(1), of w] costsD [OF assms(2), of "snd (m w)"]
    by (auto simp: finally_do_def split: sum.splits prod.splits)
qed

lemma costs_branch:
  "costs u a m \<Longrightarrow> costs u a (whenD c m)"
  "costs u a m \<Longrightarrow> costs u b n \<Longrightarrow> costs u (max a b) (if c then m else n)"
  "costs u a m \<Longrightarrow> (\<And>x. costs u b (f x)) \<Longrightarrow> costs u (max a b) (case y of None \<Rightarrow> m | Some x \<Rightarrow> f x)"
  "(\<And>x. costs u a (g x)) \<Longrightarrow> (\<And>x. costs u b (f x)) \<Longrightarrow>
     costs u (max a b) (case z of Inl x \<Rightarrow> g x | Inr x \<Rightarrow> f x)"
  "(\<And>x y. costs u a (k x y)) \<Longrightarrow> costs u a (case p of (x, y) \<Rightarrow> k x y)"
  subgoal by (auto simp: whenD_def costs_basic intro: costs_le [OF costs_basic(1)])
  subgoal by (auto intro: costs_le)
  subgoal by (cases y) (auto intro: costs_le [of u a] costs_le [of u b])
  subgoal by (cases z) (auto intro: costs_le [of u a] costs_le [of u b])
  subgoal by (cases p) auto
  done

lemmas costs_intros = costs_basic costs_andThen costs_andDo costs_tryCatch costs_finally costs_branch

lemma moves_basic:
  "reflp R \<Longrightarrow> moves R (ret x)" "reflp R \<Longrightarrow> moves R (throw e)" "reflp R \<Longrightarrow> moves R (getS g)"
  "reflp R \<Longrightarrow> moves R (toast m)" "reflp R \<Longrightarrow> moves R (require c e)" "reflp R \<Longrightarrow> moves R (emit ef)"
  "reflp R \<Longrightarrow> moves R (api srv m v b)"
  "(\<And>s. R s (f s)) \<Longrightarrow> moves R (setS f)"
  by (simp_all add: moves_def effect_simps reflpD)

lemma moves_andThen:
  "transp R \<Longrightarrow> moves R m \<Longrightarrow> (\<And>x. moves R (f x)) \<Longrightarrow> moves R (andThen m f)"
  unfolding moves_def andThen_def
  by (clarsimp split: sum.splits prod.splits) (metis snd_conv transpE)

lemma moves_andDo: "transp R \<Longrightarrow> moves R m \<Longrightarrow> moves R n \<Longrightarrow> moves R (andDo m n)"
  unfolding andDo_def by (rule moves_andThen)

lemma moves_tryCatch:
  "transp R \<Longrightarrow> moves R m \<Longrightarrow> (\<And>e. moves R (h e)) \<Longrightarrow> moves R (tryCatch m h)"
  unfolding moves_def tryCatch_def
  by (clarsimp split: sum.splits prod.splits) (metis snd_conv transpE)

lemma moves_finally:
  "transp R \<Longrightarrow> moves R m \<Longrightarrow> moves R n \<Longrightarrow> moves R (finally_do m n)"
  unfolding moves_def finally_do_def
  by (clarsimp split: sum.splits prod.splits) (metis snd_conv transpE)

lemma moves_branch:
  "reflp R \<Longrightarrow> moves R m \<Longrightarrow> moves R (whenD c m)"
  "moves R m \<Longrightarrow> moves R n \<Longrightarrow> moves R (if c then m else n)"
  "moves R m \<Longrightarrow> (\<And>x. moves R (f x)) \<Longrightarrow> moves R (case y of None \<Rightarrow> m | Some x \<Rightarrow> f x)"
  "(\<And>x. moves R (g x)) \<Longrightarrow> (\<And>x. moves R (f x)) \<Longrightarrow> moves R (case z of Inl x \<Rightarrow> g x | Inr x \<Rightarrow> f x)"
  "(\<And>x y. moves R (k x y)) \<Longrightarrow> moves R (case p of (x, y) \<Rightarrow> k x y)"
  by (auto simp: moves_def whenD_def ret_def reflpD split: option.splits sum.splits prod.splits)

text \<open>Around an action that leaves the state alone any relation is kept.\<close>

lemma moves_still:
  "reflp R \<Longrightarrow> moves (=) m \<Longrightarrow> (\<And>x. moves R (f x)) \<Longrightarrow> moves R (andThen m f)"
  "reflp R \<Longrightarrow> moves (=) m \<Longrightarrow> moves R n \<Longrightarrow> moves R (andDo m n)"
  "reflp R \<Longrightarrow> moves R m \<Longrightarrow> (\<And>e. moves (=) (h e)) \<Longrightarrow> moves R (tryCatch m h)"
  "reflp R \<Longrightarrow> moves R m \<Longrightarrow> moves (=) n \<Longrightarrow> moves R (andDo m n)"
  unfolding moves_def andDo_def andThen_def tryCatch_def
  by (clarsimp split: sum.splits prod.splits, metis snd_conv reflpD)+

lemma still_basic [simp]:
  "moves (=) (ret x)" "moves (=) (throw e)" "moves (=) (getS g)" "moves (=) (toast m)"
  "moves (=) (require c e)" "moves (=) (emit ef)" "moves (=) (api srv k v b)"
  by (simp_all add: moves_def effect_simps)

lemma still_whenD [simp]: "moves (=) m \<Longrightarrow> moves (=) (whenD c m)"
  by (simp add: moves_def whenD_def ret_def)

lemmas moves_intros = moves_basic moves_andThen moves_andDo moves_tryCatch moves_finally moves_branch

subsection \<open>Actions that return, and what holds when they do\<close>

text \<open>
  \<open>quiet m\<close>: the action never throws. \<open>ends P m\<close>: when the action is over, by a value or by
  an exception, its state satisfies \<open>P\<close>. \<open>sends Q m\<close>: every effect it adds to the log satisfies
  \<open>Q\<close>.
\<close>

definition quiet :: "('s, 'a) act \<Rightarrow> bool" where
  "quiet m = (\<forall>w. \<exists>x. fst (m w) = Inr x)"

definition ends :: "('s \<Rightarrow> bool) \<Rightarrow> ('s, 'a) act \<Rightarrow> bool" where
  "ends P m = (\<forall>w. P (ui_st (snd (m w))))"

definition sends :: "(effect \<Rightarrow> bool) \<Rightarrow> ('s, 'a) act \<Rightarrow> bool" where
  "sends Q m = (\<forall>w. \<exists>l. ui_log (snd (m w)) = ui_log w @ l \<and> list_all Q l)"

lemma quietD: "quiet m \<Longrightarrow> \<exists>x. fst (m w) = Inr x"
  by (simp add: quiet_def)

lemma quietE:
  assumes "quiet m"
  obtains x w' where "m w = (Inr x, w')"
  using quietD [OF assms, of w] by (metis prod.collapse)

lemma endsD: "ends P m \<Longrightarrow> P (ui_st (snd (m w)))"
  by (simp add: ends_def)

lemma sendsD: "sends Q m \<Longrightarrow> \<exists>l. ui_log (snd (m w)) = ui_log w @ l \<and> list_all Q l"
  by (simp add: sends_def)

lemma quiet_basic [simp]:
  "quiet (ret x)" "quiet (setS f)" "quiet (getS g)" "quiet (emit e)" "quiet (toast t)"
  by (simp_all add: quiet_def effect_defs)

lemma quiet_andThen:
  assumes "quiet m" and "\<And>x. quiet (f x)"
  shows "quiet (andThen m f)"
  unfolding quiet_def
proof
  fix w
  obtain x w' where "m w = (Inr x, w')" using assms(1) by (rule quietE)
  then show "\<exists>y. fst (andThen m f w) = Inr y" using quietD [OF assms(2)] by (simp add: andThen_def)
qed

lemma quiet_andDo: "quiet m \<Longrightarrow> quiet n \<Longrightarrow> quiet (andDo m n)"
  by (simp add: andDo_def quiet_andThen)

lemma quiet_tryCatch: "(\<And>e. quiet (h e)) \<Longrightarrow> quiet (tryCatch m h)"
  unfolding quiet_def tryCatch_def by (auto split: prod.splits sum.splits)

lemma quiet_finally:
  assumes "quiet m" and "quiet f"
  shows "quiet (finally_do m f)"
  unfolding quiet_def
proof
  fix w
  obtain x w' where "m w = (Inr x, w')" using assms(1) by (rule quietE)
  moreover obtain y w'' where "f w' = (Inr y, w'')" using assms(2) by (rule quietE)
  ultimately show "\<exists>z. fst (finally_do m f w) = Inr z" by (simp add: finally_do_def)
qed

lemma quiet_branch:
  "(c \<Longrightarrow> quiet m) \<Longrightarrow> (\<not> c \<Longrightarrow> quiet n) \<Longrightarrow> quiet (if c then m else n)"
  "(x = None \<Longrightarrow> quiet m) \<Longrightarrow> (\<And>y. x = Some y \<Longrightarrow> quiet (f y)) \<Longrightarrow> quiet (case x of None \<Rightarrow> m | Some y \<Rightarrow> f y)"
  "(c \<Longrightarrow> quiet m') \<Longrightarrow> quiet (whenD c m')"
  by (auto simp: whenD_def split: option.splits)

lemmas quiet_intros = quiet_andThen quiet_andDo quiet_tryCatch quiet_finally quiet_branch

lemma ends_setS: "(\<And>s. P (f s)) \<Longrightarrow> ends P (setS f)"
  by (simp add: ends_def effect_defs)

lemma ends_andThen: "quiet m \<Longrightarrow> (\<And>x. ends P (f x)) \<Longrightarrow> ends P (andThen m f)"
  unfolding quiet_def ends_def andThen_def
  by (auto split: prod.splits sum.splits) (metis Inl_Inr_False fst_conv)

lemma ends_andDo: "quiet m \<Longrightarrow> ends P n \<Longrightarrow> ends P (andDo m n)"
  by (simp add: andDo_def ends_andThen)

lemma ends_finally: "ends P f \<Longrightarrow> ends P (finally_do m f)"
  unfolding ends_def finally_do_def
  by (auto split: prod.splits sum.splits) (metis snd_conv)+

lemma ends_branch:
  "(c \<Longrightarrow> ends P m) \<Longrightarrow> (\<not> c \<Longrightarrow> ends P n) \<Longrightarrow> ends P (if c then m else n)"
  by simp

lemma sends_basic [simp]:
  "sends Q (ret x)" "sends Q (throw e)" "sends Q (setS f)" "sends Q (getS g)"
  "sends Q (emit e') = Q e'" "sends Q (toast t) = Q (EToast t None)"
  "sends Q (api srv mt u b) = Q (EFetch mt u b)" "sends Q (require c e)"
  by (auto simp: sends_def effect_defs)

lemma sends_andThen: "sends Q m \<Longrightarrow> (\<And>x. sends Q (f x)) \<Longrightarrow> sends Q (andThen m f)"
  unfolding sends_def andThen_def
  by (auto split: prod.splits sum.splits) (metis append.assoc list_all_append snd_conv)+

lemma sends_andDo: "sends Q m \<Longrightarrow> sends Q n \<Longrightarrow> sends Q (andDo m n)"
  by (simp add: andDo_def sends_andThen)

lemma sends_tryCatch: "sends Q m \<Longrightarrow> (\<And>e. sends Q (h e)) \<Longrightarrow> sends Q (tryCatch m h)"
  unfolding sends_def tryCatch_def
  by (auto split: prod.splits sum.splits) (metis append.assoc list_all_append snd_conv)+

lemma sends_finally: "sends Q m \<Longrightarrow> sends Q f \<Longrightarrow> sends Q (finally_do m f)"
  unfolding sends_def finally_do_def
  by (auto split: prod.splits sum.splits) (metis append.assoc list_all_append snd_conv)+

lemma sends_branch:
  "(c \<Longrightarrow> sends Q m) \<Longrightarrow> (\<not> c \<Longrightarrow> sends Q n) \<Longrightarrow> sends Q (if c then m else n)"
  "(x = None \<Longrightarrow> sends Q m) \<Longrightarrow> (\<And>y. x = Some y \<Longrightarrow> sends Q (f y)) \<Longrightarrow> sends Q (case x of None \<Rightarrow> m | Some y \<Rightarrow> f y)"
  "(c \<Longrightarrow> sends Q m') \<Longrightarrow> sends Q (whenD c m')"
  by (auto simp: whenD_def split: option.splits)

lemmas sends_intros = sends_andThen sends_andDo sends_tryCatch sends_finally sends_branch

text \<open>An action that sends nothing to \<open>u\<close> costs nothing; around it the cost stays what it is.\<close>

lemma sends_costs: "sends (\<lambda>e. posts_to u [e] = 0) m \<Longrightarrow> costs u 0 m"
proof -
  have "posts_to u l = 0" if "list_all (\<lambda>e. posts_to u [e] = 0) l" for l
    using that
  proof (induction l)
    case (Cons e l)
    then show ?case using posts_to_append [of u "[e]" l] by simp
  qed simp
  then show "sends (\<lambda>e. posts_to u [e] = 0) m \<Longrightarrow> costs u 0 m"
    unfolding sends_def costs_def by (metis add.right_neutral le_refl posts_to_append)
qed

lemma costs_around:
  "costs u 0 m \<Longrightarrow> (\<And>x. costs u n (f x)) \<Longrightarrow> costs u n (andThen m f)"
  "costs u n m \<Longrightarrow> (\<And>x. costs u 0 (f x)) \<Longrightarrow> costs u n (andThen m f)"
  "costs u 0 m \<Longrightarrow> costs u n k \<Longrightarrow> costs u n (andDo m k)"
  "costs u n m \<Longrightarrow> costs u 0 k \<Longrightarrow> costs u n (andDo m k)"
  "costs u n m \<Longrightarrow> (\<And>e. costs u 0 (h e)) \<Longrightarrow> costs u n (tryCatch m h)"
  "costs u n m \<Longrightarrow> costs u 0 k \<Longrightarrow> costs u n (finally_do m k)"
  using costs_andThen [of u 0 m n f] costs_andThen [of u n m 0 f] costs_andDo [of u 0 m n k]
    costs_andDo [of u n m 0 k] costs_tryCatch [of u n m 0 h] costs_finally [of u n m 0 k]
  by auto

text \<open>\<open>keeps f m\<close>: the action leaves the part \<open>f\<close> of the state as it is.\<close>

definition keeps :: "('s \<Rightarrow> 'b) \<Rightarrow> ('s, 'a) act \<Rightarrow> bool" where
  "keeps f m = (\<forall>w. f (ui_st (snd (m w))) = f (ui_st w))"

lemma keepsD: "keeps f m \<Longrightarrow> f (ui_st (snd (m w))) = f (ui_st w)"
  by (simp add: keeps_def)

lemma keeps_basic [simp]:
  "keeps f (ret x)" "keeps f (throw e)" "keeps f (getS g)" "keeps f (toast t)" "keeps f (require c e)"
  "keeps f (emit ef)" "keeps f (api srv k v b)"
  by (simp_all add: keeps_def effect_defs)

lemma keeps_setS: "(\<And>s. f (g s) = f s) \<Longrightarrow> keeps f (setS g)"
  by (simp add: keeps_def effect_defs)

lemma keeps_andThen: "keeps f m \<Longrightarrow> (\<And>x. keeps f (k x)) \<Longrightarrow> keeps f (andThen m k)"
  unfolding keeps_def andThen_def by (auto split: prod.splits sum.splits) (metis snd_conv)+

lemma keeps_andDo: "keeps f m \<Longrightarrow> keeps f n \<Longrightarrow> keeps f (andDo m n)"
  by (simp add: andDo_def keeps_andThen)

lemma keeps_tryCatch: "keeps f m \<Longrightarrow> (\<And>e. keeps f (h e)) \<Longrightarrow> keeps f (tryCatch m h)"
  unfolding keeps_def tryCatch_def by (auto split: prod.splits sum.splits) (metis snd_conv)+

lemma keeps_finally: "keeps f m \<Longrightarrow> keeps f n \<Longrightarrow> keeps f (finally_do m n)"
  unfolding keeps_def finally_do_def by (auto split: prod.splits sum.splits) (metis snd_conv)+

lemma keeps_branch:
  "(c \<Longrightarrow> keeps f m) \<Longrightarrow> (\<not> c \<Longrightarrow> keeps f n) \<Longrightarrow> keeps f (if c then m else n)"
  "(c \<Longrightarrow> keeps f m') \<Longrightarrow> keeps f (whenD c m')"
  by (auto simp: whenD_def)

lemmas keeps_intros = keeps_setS keeps_andThen keeps_andDo keeps_tryCatch keeps_finally keeps_branch

end
