(* ===== verification/RequestLayer.thy ===== *)
theory RequestLayer imports Effects LibUtils
begin

text \<open>
  The request layer: \<open>lib/auth.ts\<close>, the two implementations of \<open>utils/request.ts\<close>
  (HTTP and Wails), \<open>utils/swr.ts\<close>, \<open>utils/sendEvent.ts\<close>, \<open>utils/isHttpMode.ts\<close>,
  \<open>requests/createApp.ts\<close> and the fallbacks of \<open>lib/clipboard.ts\<close>. The browser's \<open>fetch\<close>
  and the generated Wails router are arguments.
\<close>

section \<open>The auth token\<close>

definition getAuthToken :: "storage \<Rightarrow> string option" where
  "getAuthToken s = storage_getItem s (localStorageKeys K_authToken)"

definition saveAuthToken :: "storage \<Rightarrow> string \<Rightarrow> storage" where
  "saveAuthToken s token = storage_setItem s (localStorageKeys K_authToken) token"

definition deleteAuthToken :: "storage \<Rightarrow> storage" where
  "deleteAuthToken s = storage_removeItem s (localStorageKeys K_authToken)"

section \<open>\<open>request\<close> over HTTP\<close>

type_synonym headers = "(string \<times> string) list"

record fetch_init =
  fi_method :: "string option"
  fi_headers :: headers
  fi_body :: "string option"

text \<open>\<open>fr_json\<close> is \<open>None\<close> when \<open>response.json()\<close> throws.\<close>

record fetch_response =
  fr_status :: int
  fr_json :: "json option"

type_synonym fetch = "string \<Rightarrow> fetch_init option \<Rightarrow> string + fetch_response"

definition fr_ok :: "fetch_response \<Rightarrow> bool" where
  "fr_ok r = (200 \<le> fr_status r \<and> fr_status r \<le> 299)"

text \<open>\<open>{ ...headers, k: v }\<close>: the new value replaces an old one.\<close>

definition set_header :: "headers \<Rightarrow> string \<Rightarrow> string \<Rightarrow> headers" where
  "set_header hs k v = filter (\<lambda>h. fst h \<noteq> k) hs @ [(k, v)]"

definition empty_init :: fetch_init where
  "empty_init = \<lparr>fi_method = None, fi_headers = [], fi_body = None\<rparr>"

definition with_auth :: "string option \<Rightarrow> fetch_init option \<Rightarrow> fetch_init option" where
  "with_auth token init =
     (if truthy_str token then
        (let i = nullish init empty_init
         in Some (i\<lparr>fi_headers :=
                      set_header (fi_headers i) ''Authorization'' (''Bearer '' @ the token)\<rparr>))
      else init)"

definition prefix_base :: "string \<Rightarrow> string \<Rightarrow> string" where
  "prefix_base base_url url = (if base_url \<noteq> ''/'' then base_url @ url else url)"

text \<open>A JSON value in a string concatenation.\<close>

fun json_text :: "json \<Rightarrow> string" where
  "json_text JNull = ''null''"
| "json_text (JBool b) = (if b then ''true'' else ''false'')"
| "json_text (JNum i) = show_int i"
| "json_text (JStr s) = s"
| "json_text (JArr xs) =
     join_with CHR '','' (map (\<lambda>x. if x = JNull then [] else json_text x) xs)"
| "json_text (JObj ms) = ''[object Object]''"

definition json_truthy :: "json \<Rightarrow> bool" where
  "json_truthy j =
     (case j of JNull \<Rightarrow> False | JBool b \<Rightarrow> b | JNum i \<Rightarrow> i \<noteq> 0 | JStr s \<Rightarrow> s \<noteq> [] | _ \<Rightarrow> True)"

definition error_message :: "json option \<Rightarrow> string" where
  "error_message body =
     (case Option.bind body (jget ''message'') of
        Some m \<Rightarrow> if json_truthy m then json_text m else ''Unknown error''
      | None \<Rightarrow> ''Unknown error'')"

definition http_request ::
    "string \<Rightarrow> storage \<Rightarrow> fetch \<Rightarrow> string \<Rightarrow> fetch_init option \<Rightarrow> string + json option" where
  "http_request base_url s fetch url init =
     (case fetch (prefix_base base_url url) (with_auth (getAuthToken s) init) of
        Inl e \<Rightarrow> Inl e
      | Inr r \<Rightarrow>
          (let body = (if fr_status r \<noteq> 204 then fr_json r else None)
           in if \<not> fr_ok r then Inl (show_int (fr_status r) @ '' '' @ error_message body)
              else Inr body))"

section \<open>\<open>request\<close> in the desktop app\<close>

record wails_result =
  wr_error :: string
  wr_body :: "json option"

type_synonym wails_router = "string \<Rightarrow> string \<Rightarrow> string \<Rightarrow> string + wails_result"

definition wails_request ::
    "wails_router \<Rightarrow> string \<Rightarrow> fetch_init option \<Rightarrow> string + json option" where
  "wails_request router url init =
     (case router url (or_str (Option.bind init fi_method) ''GET'')
                      (or_str (Option.bind init fi_body) []) of
        Inl e \<Rightarrow> Inl e
      | Inr res \<Rightarrow> if wr_error res \<noteq> [] then Inl (wr_error res) else Inr (wr_body res))"

section \<open>Mode, events, creating an app\<close>

definition isHttpMode :: "string \<Rightarrow> string \<Rightarrow> bool" where
  "isHttpMode protocol hostname =
     (starts_with ''http'' protocol \<and> \<not> starts_with ''wails'' hostname)"

definition swrFetcher ::
    "(string \<Rightarrow> fetch_init option \<Rightarrow> string + json option) \<Rightarrow> string \<Rightarrow> fetch_init option
      \<Rightarrow> string + json option" where
  "swrFetcher request url init = request url init"

text \<open>\<open>sendEvent\<close> never throws: an error is only logged on the console.\<close>

definition sendEvent :: "server \<Rightarrow> string \<Rightarrow> json option \<Rightarrow> ('s, unit) act" where
  "sendEvent srv name properties =
     tryCatch
       (andDo (api srv ''POST'' ''/api/event''
                 (Some (JObj ((''event'', JStr name) # opt_member ''properties'' properties))))
              (ret ()))
       (\<lambda>e. ret ())"

definition scopes_json :: "Scope list \<Rightarrow> json" where
  "scopes_json scopes = JArr (map (\<lambda>s. JStr (scope_str s)) scopes)"

definition metadata_json :: "AppMetadata \<Rightarrow> json" where
  "metadata_json m =
     JObj (opt_member ''app_store_app_id'' (map_option JStr (meta_app_store_app_id m)) @
           opt_member ''lud16'' (map_option JStr (meta_lud16 m)) @ meta_rest m)"

definition create_app_json :: "CreateAppRequest \<Rightarrow> json" where
  "create_app_json r =
     JObj ([(''name'', JStr (car_name r))] @
           opt_member ''pubkey'' (map_option JStr (car_pubkey r)) @
           opt_member ''maxAmountSat'' (map_option JNum (car_maxAmountSat r)) @
           opt_member ''maxAmountMsat'' (map_option JNum (car_maxAmountMsat r)) @
           opt_member ''budgetRenewal'' (map_option (JStr \<circ> renewal_str) (car_budgetRenewal r)) @
           opt_member ''expiresAt'' (map_option JStr (car_expiresAt r)) @
           [(''scopes'', scopes_json (car_scopes r))] @
           opt_member ''returnTo'' (map_option JStr (car_returnTo r)) @
           opt_member ''isolated'' (map_option JBool (car_isolated r)) @
           opt_member ''metadata'' (map_option metadata_json (car_metadata r)) @
           opt_member ''unlockPassword'' (map_option JStr (car_unlockPassword r)))"

definition createApp :: "server \<Rightarrow> CreateAppRequest \<Rightarrow> ('s, json) act" where
  "createApp srv req =
     andThen (api srv ''POST'' ''/api/apps'' (Some (create_app_json req)))
       (\<lambda>res. case res of
          Some j \<Rightarrow> if json_truthy j then ret j else throw ''no create app response received''
        | None \<Rightarrow> throw ''no create app response received'')"

text \<open>
  A number in a request body: \<open>NaN\<close> and the infinities are sent as \<open>null\<close>. The bodies carry whole
  numbers, which is what number inputs with the default step submit.
\<close>

definition num_json :: "jsnum \<Rightarrow> json" where
  "num_json x = (case x of Fin r \<Rightarrow> JNum \<lfloor>r\<rfloor> | _ \<Rightarrow> JNull)"

section \<open>Copying to the clipboard\<close>

text \<open>
  \<open>write\<close> tells whether the asynchronous clipboard accepts the text, \<open>exec_copy\<close> whether
  the fallback command does; the toast follows.
\<close>

definition copyToClipboard :: "bool \<Rightarrow> bool \<Rightarrow> bool \<Rightarrow> bool \<Rightarrow> ('s, unit) act" where
  "copyToClipboard has_clipboard is_secure write exec_copy =
     (if (if has_clipboard \<and> is_secure then write else exec_copy)
      then emit (EToast ''Copied to clipboard'' None)
      else emit (EToastError ''Failed to copy to clipboard'' None))"

definition openLink :: "string \<Rightarrow> ('s, unit) act" where
  "openLink url = emit (EOpen url)"

section \<open>What the layer promises\<close>

lemma auth_token_save [simp]: "getAuthToken (saveAuthToken s t) = Some t"
  by (simp add: getAuthToken_def saveAuthToken_def)

lemma auth_token_delete [simp]: "getAuthToken (deleteAuthToken s) = None"
  by (simp add: getAuthToken_def deleteAuthToken_def)

lemma auth_token_other:
  "k \<noteq> K_authToken \<Longrightarrow> getAuthToken (storage_setItem s (localStorageKeys k) v) = getAuthToken s"
  unfolding getAuthToken_def by (rule local.get_set_other) (metis localStorageKeys_inj)

lemma map_of_filter_other: "map_of (filter (\<lambda>h. fst h \<noteq> k) hs) j = (if j = k then None else map_of hs j)"
  by (induction hs) auto

lemma set_header_get [simp]:
  "map_of (set_header hs k v) j = (if j = k then Some v else map_of hs j)"
  by (simp add: set_header_def map_add_def map_of_filter_other split: option.splits)

lemma set_header_once: "length (filter (\<lambda>h. fst h = k) (set_header hs k v)) = 1"
  by (simp add: set_header_def)

lemma http_request_cong:
  assumes "\<And>u i. fetch u i = fetch' u i"
  shows "http_request b s fetch url init = http_request b s fetch' url init"
  by (simp add: http_request_def assms)

section \<open>Properties\<close>

text \<open>Every request of a logged-in user carries the token, and nothing else changes. With a
  stored token the request goes to the prefixed URL with exactly one \<open>Authorization\<close> header, the
  bearer token, every other header, the method and the body as given; the outcome is the body on
  success (nothing for status 204), and otherwise an error made of the status and the message
  of the response, or \<open>Unknown error\<close> when it has none.\<close>

lemma http_request_authorized:
  assumes "getAuthToken s = Some t" and "t \<noteq> []"
  shows "\<exists>i. http_request base_url s fetch url (Some init) =
           (case fetch (prefix_base base_url url) (Some i) of
              Inl e \<Rightarrow> Inl e
            | Inr r \<Rightarrow>
                if 200 \<le> fr_status r \<and> fr_status r \<le> 299
                then Inr (if fr_status r = 204 then None else fr_json r)
                else Inl (show_int (fr_status r) @ '' '' @ error_message (fr_json r))) \<and>
           map_of (fi_headers i) ''Authorization'' = Some (''Bearer '' @ t) \<and>
           length (filter (\<lambda>h. fst h = ''Authorization'') (fi_headers i)) = 1 \<and>
           (\<forall>k. k \<noteq> ''Authorization'' \<longrightarrow> map_of (fi_headers i) k = map_of (fi_headers init) k) \<and>
           fi_method i = fi_method init \<and> fi_body i = fi_body init"
proof -
  let ?i = "init\<lparr>fi_headers := set_header (fi_headers init) ''Authorization'' (''Bearer '' @ t)\<rparr>"
  have auth: "with_auth (getAuthToken s) (Some init) = Some ?i"
    using assms by (simp add: with_auth_def)
  show ?thesis
    unfolding http_request_def auth
    by (intro exI [of _ ?i]) (simp add: set_header_once fr_ok_def Let_def split: sum.split)
qed

lemma http_request_authorized_witness:
  "http_request ''/hub'' (saveAuthToken Map.empty ''tok'')
     (\<lambda>u i. if u = ''/hub/api/info'' \<and> map_of (fi_headers (the i)) ''Authorization'' = Some ''Bearer tok''
            then Inr \<lparr>fr_status = 204, fr_json = None\<rparr> else Inl ''refused'')
     ''/api/info'' (Some empty_init) = Inr None"
proof -
  have tok: "getAuthToken (saveAuthToken Map.empty ''tok'') = Some ''tok''" by simp
  have ne: "''tok'' \<noteq> []" by simp
  show ?thesis
    using http_request_authorized [OF tok ne, of "''/hub''"
        "\<lambda>u i. if u = ''/hub/api/info'' \<and> map_of (fi_headers (the i)) ''Authorization'' = Some ''Bearer tok''
            then Inr \<lparr>fr_status = 204, fr_json = None\<rparr> else Inl ''refused''" "''/api/info''" empty_init]
    by (auto simp: prefix_base_def)
qed

text \<open>Reporting an event never fails the caller. For every server, \<open>sendEvent\<close> makes exactly one
  request, to \<open>/api/event\<close>, and returns normally whatever the answer, with the caller's state
  unchanged.\<close>

lemma sendEvent_total:
  "fst (sendEvent srv name props w) = Inr () \<and> ui_st (snd (sendEvent srv name props w)) = ui_st w \<and>
   (\<exists>b. ui_log (snd (sendEvent srv name props w)) = ui_log w @ [EFetch ''POST'' ''/api/event'' (Some b)] \<and>
      jget ''event'' b = Some (JStr name))"
  by (cases props) (simp_all add: sendEvent_def effect_simps jget_def opt_member_def split: sum.split)

end
