(* ===== verification/Stores.thy ===== *)
theory Stores imports RequestLayer
begin

text \<open>
  The zustand stores of \<open>state/\<close>: the pending channel order, which is written through to
  \<open>localStorage\<close> as JSON and read back when the page loads, the setup wizard's data and the
  transaction filters, and the hook that drops an order once it is finished
  (\<open>hooks/useRemoveSuccessfulChannelOrder.ts\<close>).
\<close>

section \<open>The order as JSON\<close>

fun status_str :: "NewChannelOrderStatus \<Rightarrow> string" where
  "status_str OPay = ''pay''"
| "status_str OPaid = ''paid''"
| "status_str OSuccess = ''success''"
| "status_str OOpening = ''opening''"

fun payment_method_str :: "PaymentMethod \<Rightarrow> string" where
  "payment_method_str PMOnchain = ''onchain''"
| "payment_method_str PMLightning = ''lightning''"

fun lsp_str :: "LSPType \<Rightarrow> string" where
  "lsp_str LSPS1 = ''LSPS1''"
| "lsp_str LSPS2 = ''LSPS2''"

text \<open>Reading a literal back: any other text matches no case of the code's switches.\<close>

definition read_literal :: "('a \<Rightarrow> string) \<Rightarrow> 'a list \<Rightarrow> string \<Rightarrow> 'a option" where
  "read_literal show_it all s = List.find (\<lambda>x. show_it x = s) all"

definition read_status :: "string \<Rightarrow> NewChannelOrderStatus option" where
  "read_status = read_literal status_str [OPay, OPaid, OSuccess, OOpening]"

definition read_payment_method :: "string \<Rightarrow> PaymentMethod option" where
  "read_payment_method = read_literal payment_method_str [PMOnchain, PMLightning]"

definition read_lsp :: "string \<Rightarrow> LSPType option" where
  "read_lsp = read_literal lsp_str [LSPS1, LSPS2]"

definition jget_strs :: "string \<Rightarrow> json \<Rightarrow> string list option" where
  "jget_strs k j =
     (case jget k j of
        Some (JArr xs) \<Rightarrow> Some (map (\<lambda>x. case x of JStr s \<Rightarrow> s | _ \<Rightarrow> json_text x) xs)
      | _ \<Rightarrow> None)"

text \<open>
  \<open>JSON.stringify(order)\<close> leaves out what is undefined. The members are printed here in the
  order of the type's declaration; the code reads them by name only.
\<close>

definition order_json :: "NewChannelOrder \<Rightarrow> json" where
  "order_json ord =
     JObj (opt_member ''paymentMethod'' (map_option (JStr \<circ> payment_method_str) (ord_paymentMethod ord)) @
           opt_member ''pubkey'' (map_option JStr (ord_pubkey ord)) @
           opt_member ''host'' (map_option JStr (ord_host ord)) @
           opt_member ''lspType'' (map_option (JStr \<circ> lsp_str) (ord_lspType ord)) @
           opt_member ''lspIdentifier'' (map_option JStr (ord_lspIdentifier ord)) @
           opt_member ''amountSat'' (map_option JStr (ord_amountSat ord)) @
           opt_member ''isPublic'' (map_option JBool (ord_isPublic ord)) @
           opt_member ''status'' (map_option (JStr \<circ> status_str) (ord_status ord)) @
           opt_member ''fundingTxId'' (map_option JStr (ord_fundingTxId ord)) @
           opt_member ''prevChannelIds'' (map_option (JArr \<circ> map JStr) (ord_prevChannelIds ord)))"

definition order_of_json :: "json \<Rightarrow> NewChannelOrder" where
  "order_of_json j =
     \<lparr>ord_paymentMethod = Option.bind (jget_str ''paymentMethod'' j) read_payment_method,
      ord_pubkey = jget_str ''pubkey'' j,
      ord_host = jget_str ''host'' j,
      ord_lspType = Option.bind (jget_str ''lspType'' j) read_lsp,
      ord_lspIdentifier = jget_str ''lspIdentifier'' j,
      ord_amountSat = jget_str ''amountSat'' j,
      ord_isPublic = jget_bool ''isPublic'' j,
      ord_status = Option.bind (jget_str ''status'' j) read_status,
      ord_fundingTxId = jget_str ''fundingTxId'' j,
      ord_prevChannelIds = jget_strs ''prevChannelIds'' j\<rparr>"

definition encode_order :: "NewChannelOrder \<Rightarrow> string" where
  "encode_order ord = json_stringify (order_json ord)"

definition decode_order :: "string \<Rightarrow> NewChannelOrder option" where
  "decode_order t = map_option order_of_json (json_parse t)"

text \<open>
  The module's initial value \<open>savedOrderJSON && JSON.parse(savedOrderJSON)\<close>: the error is
  the exception that \<open>JSON.parse\<close> throws while the module loads.
\<close>

definition initial_order :: "storage \<Rightarrow> string + NewChannelOrder option" where
  "initial_order s =
     (let saved = storage_getItem s (localStorageKeys K_channelOrder)
      in if \<not> truthy_str saved then Inr None
         else (case json_parse (the saved) of
                 None \<Rightarrow> Inl ''SyntaxError''
               | Some j \<Rightarrow> Inr (if json_truthy j then Some (order_of_json j) else None)))"

section \<open>\<open>ChannelOrderStore\<close>\<close>

record ChannelOrderStore =
  cos_order :: "NewChannelOrder option"
  cos_storage :: storage

definition load_store :: "storage \<Rightarrow> string + ChannelOrderStore" where
  "load_store s =
     (case initial_order s of
        Inl e \<Rightarrow> Inl e
      | Inr x \<Rightarrow> Inr \<lparr>cos_order = x, cos_storage = s\<rparr>)"

definition setOrder :: "NewChannelOrder \<Rightarrow> ChannelOrderStore \<Rightarrow> ChannelOrderStore" where
  "setOrder ord st =
     st\<lparr>cos_order := Some ord,
        cos_storage := storage_setItem (cos_storage st) (localStorageKeys K_channelOrder)
                         (encode_order ord)\<rparr>"

definition removeOrder :: "ChannelOrderStore \<Rightarrow> ChannelOrderStore" where
  "removeOrder st =
     st\<lparr>cos_order := None,
        cos_storage := storage_removeItem (cos_storage st) (localStorageKeys K_channelOrder)\<rparr>"

text \<open>\<open>{ ...old, ...new }\<close>, where the new object has the properties that are not \<open>None\<close>.\<close>

definition over :: "'a option \<Rightarrow> 'a option \<Rightarrow> 'a option" where
  "over new old = (case new of None \<Rightarrow> old | Some x \<Rightarrow> Some x)"

definition empty_order :: NewChannelOrder where
  "empty_order =
     \<lparr>ord_paymentMethod = None, ord_pubkey = None, ord_host = None, ord_lspType = None,
      ord_lspIdentifier = None, ord_amountSat = None, ord_isPublic = None, ord_status = None,
      ord_fundingTxId = None, ord_prevChannelIds = None\<rparr>"

definition merge_order :: "NewChannelOrder \<Rightarrow> NewChannelOrder \<Rightarrow> NewChannelOrder" where
  "merge_order new old =
     \<lparr>ord_paymentMethod = over (ord_paymentMethod new) (ord_paymentMethod old),
      ord_pubkey = over (ord_pubkey new) (ord_pubkey old),
      ord_host = over (ord_host new) (ord_host old),
      ord_lspType = over (ord_lspType new) (ord_lspType old),
      ord_lspIdentifier = over (ord_lspIdentifier new) (ord_lspIdentifier old),
      ord_amountSat = over (ord_amountSat new) (ord_amountSat old),
      ord_isPublic = over (ord_isPublic new) (ord_isPublic old),
      ord_status = over (ord_status new) (ord_status old),
      ord_fundingTxId = over (ord_fundingTxId new) (ord_fundingTxId old),
      ord_prevChannelIds = over (ord_prevChannelIds new) (ord_prevChannelIds old)\<rparr>"

definition updateOrder :: "NewChannelOrder \<Rightarrow> ChannelOrderStore \<Rightarrow> ChannelOrderStore" where
  "updateOrder new st = setOrder (merge_order new (nullish (cos_order st) empty_order)) st"

datatype order_op = SetOrder NewChannelOrder | UpdateOrder NewChannelOrder | RemoveOrder

fun order_step :: "ChannelOrderStore \<Rightarrow> order_op \<Rightarrow> ChannelOrderStore" where
  "order_step st (SetOrder ord) = setOrder ord st"
| "order_step st (UpdateOrder new) = updateOrder new st"
| "order_step st RemoveOrder = removeOrder st"

section \<open>Dropping a finished order\<close>

record order_watch =
  ow_store :: ChannelOrderStore
  ow_prev :: string

definition useRemoveSuccessfulChannelOrder :: "string \<Rightarrow> order_watch \<Rightarrow> order_watch" where
  "useRemoveSuccessfulChannelOrder pathname w =
     (let w' = (if pathname \<noteq> ''/channels/order'' \<and> ow_prev w = ''/channels/order'' \<and>
                   Option.bind (cos_order (ow_store w)) ord_status = Some OSuccess
                then w\<lparr>ow_store := removeOrder (ow_store w)\<rparr> else w)
      in w'\<lparr>ow_prev := pathname\<rparr>)"

section \<open>The setup store and the transaction filters\<close>

record SetupStore =
  ss_nodeInfo :: SetupNodeInfo
  ss_unlockPassword :: string
  ss_hasImportedMnemonic :: bool

definition empty_node_info :: SetupNodeInfo where
  "empty_node_info =
     \<lparr>sni_backendType = None, sni_mnemonic = None, sni_nextBackupReminder = None,
      sni_lndAddress = None, sni_lndCertFile = None, sni_lndMacaroonFile = None,
      sni_phoenixdAddress = None, sni_phoenixdAuthorization = None, sni_clnAddress = None,
      sni_clnLightningDir = None, sni_clnAddressHold = None\<rparr>"

definition useSetupStore :: SetupStore where
  "useSetupStore =
     \<lparr>ss_nodeInfo = empty_node_info, ss_unlockPassword = [], ss_hasImportedMnemonic = False\<rparr>"

definition merge_node_info :: "SetupNodeInfo \<Rightarrow> SetupNodeInfo \<Rightarrow> SetupNodeInfo" where
  "merge_node_info new old =
     \<lparr>sni_backendType = over (sni_backendType new) (sni_backendType old),
      sni_mnemonic = over (sni_mnemonic new) (sni_mnemonic old),
      sni_nextBackupReminder = over (sni_nextBackupReminder new) (sni_nextBackupReminder old),
      sni_lndAddress = over (sni_lndAddress new) (sni_lndAddress old),
      sni_lndCertFile = over (sni_lndCertFile new) (sni_lndCertFile old),
      sni_lndMacaroonFile = over (sni_lndMacaroonFile new) (sni_lndMacaroonFile old),
      sni_phoenixdAddress = over (sni_phoenixdAddress new) (sni_phoenixdAddress old),
      sni_phoenixdAuthorization =
        over (sni_phoenixdAuthorization new) (sni_phoenixdAuthorization old),
      sni_clnAddress = over (sni_clnAddress new) (sni_clnAddress old),
      sni_clnLightningDir = over (sni_clnLightningDir new) (sni_clnLightningDir old),
      sni_clnAddressHold = over (sni_clnAddressHold new) (sni_clnAddressHold old)\<rparr>"

definition updateNodeInfo :: "SetupNodeInfo \<Rightarrow> SetupStore \<Rightarrow> SetupStore" where
  "updateNodeInfo new st = st\<lparr>ss_nodeInfo := merge_node_info new (ss_nodeInfo st)\<rparr>"

definition setUnlockPassword :: "string \<Rightarrow> SetupStore \<Rightarrow> SetupStore" where
  "setUnlockPassword p st = st\<lparr>ss_unlockPassword := p\<rparr>"

definition setHasImportedMnemonic :: "bool \<Rightarrow> SetupStore \<Rightarrow> SetupStore" where
  "setHasImportedMnemonic b st = st\<lparr>ss_hasImportedMnemonic := b\<rparr>"

record TransactionFilters =
  tf_searchTerm :: "string option"
  tf_type :: "TxType option"
  tf_minAmountSat :: "int option"
  tf_hideFailed :: "bool option"

definition defaultTransactionFilters :: TransactionFilters where
  "defaultTransactionFilters =
     \<lparr>tf_searchTerm = None, tf_type = None, tf_minAmountSat = None, tf_hideFailed = None\<rparr>"

record TransactionFiltersStore =
  tfs_filters :: TransactionFilters

definition useTransactionFiltersStore :: TransactionFiltersStore where
  "useTransactionFiltersStore = \<lparr>tfs_filters = defaultTransactionFilters\<rparr>"

definition setFilters :: "TransactionFilters \<Rightarrow> TransactionFiltersStore \<Rightarrow> TransactionFiltersStore" where
  "setFilters f st = st\<lparr>tfs_filters := f\<rparr>"

section \<open>What is saved can be loaded\<close>

lemma read_status_str [simp]: "read_status (status_str s) = Some s"
  by (cases s) (simp_all add: read_status_def read_literal_def)

lemma read_payment_method_str [simp]: "read_payment_method (payment_method_str s) = Some s"
  by (cases s) (simp_all add: read_payment_method_def read_literal_def)

lemma read_lsp_str [simp]: "read_lsp (lsp_str s) = Some s"
  by (cases s) (simp_all add: read_lsp_def read_literal_def)

lemma map_of_rev_opt_member:
  "map_of (rev (opt_member k v @ ms)) j =
     (case map_of (rev ms) j of Some x \<Rightarrow> Some x | None \<Rightarrow> if j = k then v else None)"
  by (cases v) (auto simp: opt_member_def map_add_def split: option.splits)

lemma map_of_rev_opt_member1: "map_of (rev (opt_member k v)) j = (if j = k then v else None)"
  using map_of_rev_opt_member [of k v "[]" j] by simp

lemma case_option_same [simp]: "(case v of None \<Rightarrow> None | Some x \<Rightarrow> Some x) = v"
  by (cases v) simp_all

lemmas member_simps = jget_def map_of_rev_opt_member map_of_rev_opt_member1

lemma order_members:
  "jget ''paymentMethod'' (order_json ord) = map_option (JStr \<circ> payment_method_str) (ord_paymentMethod ord)"
  "jget ''pubkey'' (order_json ord) = map_option JStr (ord_pubkey ord)"
  "jget ''host'' (order_json ord) = map_option JStr (ord_host ord)"
  "jget ''lspType'' (order_json ord) = map_option (JStr \<circ> lsp_str) (ord_lspType ord)"
  "jget ''lspIdentifier'' (order_json ord) = map_option JStr (ord_lspIdentifier ord)"
  "jget ''amountSat'' (order_json ord) = map_option JStr (ord_amountSat ord)"
  "jget ''isPublic'' (order_json ord) = map_option JBool (ord_isPublic ord)"
  "jget ''status'' (order_json ord) = map_option (JStr \<circ> status_str) (ord_status ord)"
  "jget ''fundingTxId'' (order_json ord) = map_option JStr (ord_fundingTxId ord)"
  "jget ''prevChannelIds'' (order_json ord) = map_option (JArr \<circ> map JStr) (ord_prevChannelIds ord)"
  by (simp_all add: order_json_def member_simps del: rev_append map_of_append)
     (simp_all split: option.split)

lemma jget_typed:
  "jget k j = map_option (JStr \<circ> f) v \<Longrightarrow> jget_str k j = map_option f v"
  "jget k j = map_option JStr w \<Longrightarrow> jget_str k j = w"
  "jget k j = map_option JBool b \<Longrightarrow> jget_bool k j = b"
  "jget k j = map_option (JArr \<circ> map JStr) l \<Longrightarrow> jget_strs k j = l"
  by (cases v; cases w; cases b; cases l; simp add: jget_str_def jget_bool_def jget_strs_def comp_def)+

lemma bind_map_read: "(\<And>x. g (f x) = Some x) \<Longrightarrow> Option.bind (map_option f v) g = v"
  by (cases v) simp_all

lemma order_of_order_json [simp]: "order_of_json (order_json ord) = ord"
  by (simp add: order_of_json_def bind_map_read jget_typed(1) [OF order_members(1)] jget_typed(2) [OF order_members(2)]
          jget_typed(2) [OF order_members(3)] jget_typed(1) [OF order_members(4)]
          jget_typed(2) [OF order_members(5)] jget_typed(2) [OF order_members(6)]
          jget_typed(3) [OF order_members(7)] jget_typed(1) [OF order_members(8)]
          jget_typed(2) [OF order_members(9)] jget_typed(4) [OF order_members(10)])

lemma decode_encode_order [simp]: "decode_order (encode_order ord) = Some ord"
  by (simp add: decode_order_def encode_order_def)

interpretation saved_order:
  persisted_value storage_getItem storage_setItem storage_removeItem encode_order decode_order
    "localStorageKeys K_channelOrder"
  by unfold_locales simp

lemma over_simps [simp]: "over None old = old" "over (Some y) old = Some y" "over x None = x"
  by (simp_all add: over_def split: option.splits)

lemma merge_empty [simp]: "merge_order empty_order old = old" "merge_order new empty_order = new"
  by (cases old; simp add: merge_order_def empty_order_def)
     (cases new; simp add: merge_order_def empty_order_def)

lemma encode_order_nonempty [simp]: "encode_order ord \<noteq> []"
proof
  assume "encode_order ord = []"
  moreover have "json_parse (encode_order ord) = Some (order_json ord)" by (simp add: encode_order_def)
  moreover have "json_parse [] = None" by code_simp
  ultimately show False by simp
qed

lemma order_json_truthy [simp]: "json_truthy (order_json ord)"
  by (simp add: order_json_def json_truthy_def)

text \<open>The store and the saved copy agree.\<close>

definition synced :: "ChannelOrderStore \<Rightarrow> bool" where
  "synced st = (initial_order (cos_storage st) = Inr (cos_order st))"

lemma initial_order_saved [simp]:
  "initial_order (storage_setItem s (localStorageKeys K_channelOrder) (encode_order ord)) = Inr (Some ord)"
  unfolding initial_order_def by (simp del: localStorageKeys.simps) (simp add: encode_order_def)

lemma initial_order_removed [simp]:
  "initial_order (storage_removeItem s (localStorageKeys K_channelOrder)) = Inr None"
  unfolding initial_order_def by (simp del: localStorageKeys.simps)

lemma synced_step: "synced st \<Longrightarrow> synced (order_step st e)"
  by (cases e)
     (simp_all add: synced_def setOrder_def updateOrder_def removeOrder_def del: localStorageKeys.simps)

interpretation order_machine: invariant_machine order_step synced
  by unfold_locales (rule synced_step)

lemma load_synced: "load_store s = Inr st \<Longrightarrow> synced st"
  by (auto simp: load_store_def synced_def split: sum.splits)

lemma initial_order_cong:
  "storage_getItem s (localStorageKeys K_channelOrder) = storage_getItem t (localStorageKeys K_channelOrder) \<Longrightarrow>
   initial_order s = initial_order t"
  by (simp add: initial_order_def)

lemma initial_order_other_writes:
  assumes "localStorageKeys K_channelOrder \<notin> fst ` set ws"
  shows "initial_order (foldl (\<lambda>t (k, v). storage_setItem t k v) s ws) = initial_order s"
proof (rule initial_order_cong)
  have "map_of (rev ws) (localStorageKeys K_channelOrder) = None"
    using assms by (simp add: map_of_eq_None_iff)
  then show "storage_getItem (foldl (\<lambda>t (k, v). storage_setItem t k v) s ws) (localStorageKeys K_channelOrder)
      = storage_getItem s (localStorageKeys K_channelOrder)"
    by (simp add: local.get_after_writes del: localStorageKeys.simps)
qed

lemma order_watch_keeps:
  "Option.bind (cos_order (ow_store w)) ord_status \<noteq> Some OSuccess \<Longrightarrow>
   ow_store (useRemoveSuccessfulChannelOrder p w) = ow_store w"
  by (simp add: useRemoveSuccessfulChannelOrder_def)

lemma order_watch_prev [simp]: "ow_prev (useRemoveSuccessfulChannelOrder p w) = p"
  by (simp add: useRemoveSuccessfulChannelOrder_def Let_def)

section \<open>Properties\<close>

text \<open>C19: An order survives page loads. Starting from any storage the page can load, after any
  sequence of \<open>setOrder\<close>, \<open>updateOrder\<close> and \<open>removeOrder\<close>, and any writes of other parts
  to other keys of \<open>localStorage\<close>, loading the page again gives exactly the order that the
  store holds in memory; in particular the second load never throws.\<close>

theorem order_survives_reload:
  assumes "load_store s = Inr st"
    and "localStorageKeys K_channelOrder \<notin> fst ` set ws"
  shows "initial_order (foldl (\<lambda>t (k, v). storage_setItem t k v) (cos_storage (foldl order_step st ops)) ws)
           = Inr (cos_order (foldl order_step st ops))"
  using order_machine.run_inv [OF load_synced [OF assms(1)], of ops]
  by (simp only: synced_def initial_order_other_writes [OF assms(2)])

definition sample_order :: NewChannelOrder where
  "sample_order =
     empty_order\<lparr>ord_paymentMethod := Some PMOnchain, ord_pubkey := Some ''02ab'',
       ord_amountSat := Some ''250000'', ord_isPublic := Some False, ord_status := Some OPay\<rparr>"

theorem order_survives_reload_witness:
  "initial_order (foldl (\<lambda>t (k, v). storage_setItem t k v)
     (cos_storage (foldl order_step \<lparr>cos_order = None, cos_storage = Map.empty\<rparr>
        [SetOrder sample_order, UpdateOrder (empty_order\<lparr>ord_status := Some OOpening\<rparr>)]))
     [(''authToken'', ''t'')]) = Inr (Some (sample_order\<lparr>ord_status := Some OOpening\<rparr>))"
proof -
  have load: "load_store Map.empty = Inr \<lparr>cos_order = None, cos_storage = Map.empty\<rparr>"
    by (simp add: load_store_def initial_order_def storage_getItem_def)
  have "cos_order (foldl order_step \<lparr>cos_order = None, cos_storage = Map.empty\<rparr>
      [SetOrder sample_order, UpdateOrder (empty_order\<lparr>ord_status := Some OOpening\<rparr>)])
      = Some (sample_order\<lparr>ord_status := Some OOpening\<rparr>)"
    by (simp add: setOrder_def updateOrder_def merge_order_def sample_order_def empty_order_def)
  then show ?thesis
    using order_survives_reload [OF load, of "[(''authToken'', ''t'')]"
      "[SetOrder sample_order, UpdateOrder (empty_order\<lparr>ord_status := Some OOpening\<rparr>)]"] by simp
qed

text \<open>A finished order is dropped when, and only when, the user leaves the order page. An
  order that is not in status success is kept by every sequence of navigations; one in
  status success is kept while the user stays on the order page, and is gone from the store
  and from \<open>localStorage\<close> after the first navigation from there to any other page.\<close>

lemma finished_order_dropped:
  assumes "cos_order (ow_store w) = Some ord"
  shows "(ord_status ord \<noteq> Some OSuccess \<longrightarrow>
            ow_store (foldl (\<lambda>v p. useRemoveSuccessfulChannelOrder p v) w paths) = ow_store w) \<and>
         (ow_store (useRemoveSuccessfulChannelOrder ''/channels/order'' w) = ow_store w) \<and>
         (ord_status ord = Some OSuccess \<and> ow_prev w = ''/channels/order'' \<and> p \<noteq> ''/channels/order'' \<longrightarrow>
            initial_order (cos_storage (ow_store (useRemoveSuccessfulChannelOrder p w))) = Inr None \<and>
            cos_order (ow_store (useRemoveSuccessfulChannelOrder p w)) = None)"
proof (intro conjI impI)
  assume "ord_status ord \<noteq> Some OSuccess"
  with assms show "ow_store (foldl (\<lambda>v p. useRemoveSuccessfulChannelOrder p v) w paths) = ow_store w"
    by (induction paths arbitrary: w) (simp_all add: order_watch_keeps)
qed (simp_all add: useRemoveSuccessfulChannelOrder_def removeOrder_def assms del: localStorageKeys.simps)

lemma finished_order_dropped_witness:
  "cos_order (ow_store (useRemoveSuccessfulChannelOrder ''/home''
     \<lparr>ow_store = \<lparr>cos_order = Some (sample_order\<lparr>ord_status := Some OSuccess\<rparr>), cos_storage = Map.empty\<rparr>,
      ow_prev = ''/channels/order''\<rparr>)) = None"
  using finished_order_dropped [of "\<lparr>ow_store = \<lparr>cos_order = Some (sample_order\<lparr>ord_status := Some OSuccess\<rparr>),
      cos_storage = Map.empty\<rparr>, ow_prev = ''/channels/order''\<rparr>" _ "[]" "''/home''"]
  by simp

end
