(* ===== verification/ChannelOrder.thy ===== *)
theory ChannelOrder imports Stores
begin

text \<open>
  \<open>screens/channels/CurrentChannelOrder.tsx\<close>: the screen that carries a pending channel
  order from status \<open>pay\<close> to \<open>success\<close>. What it shows is a function of the stored order and
  of the polled data; what it does are its effects and handlers, each one a step of
  \<open>screen_step\<close>. A handler that awaits a response is split at the await when another part
  of the screen can act in between: a step starts the request and a later one receives the
  answer.
\<close>

section \<open>What is shown\<close>

datatype order_screen =
    NoPendingOrder | PayBitcoin NewChannelOrder | PayLightning NewChannelOrder
  | PaidLightning | Opening "string option" | SuccessScreen
  | Todo "NewChannelOrderStatus option" "PaymentMethod option"

fun ChannelOrderInternal :: "NewChannelOrder \<Rightarrow> order_screen" where
  "ChannelOrderInternal ord =
     (case ord_status ord of
        Some OPay \<Rightarrow>
          (case ord_paymentMethod ord of
             Some PMOnchain \<Rightarrow> PayBitcoin ord
           | Some PMLightning \<Rightarrow> PayLightning ord
           | None \<Rightarrow> Todo (ord_status ord) (ord_paymentMethod ord))
      | Some OPaid \<Rightarrow> PaidLightning
      | Some OOpening \<Rightarrow> Opening (ord_fundingTxId ord)
      | Some OSuccess \<Rightarrow> SuccessScreen
      | None \<Rightarrow> Todo (ord_status ord) (ord_paymentMethod ord))"

definition CurrentChannelOrder :: "NewChannelOrder option \<Rightarrow> order_screen" where
  "CurrentChannelOrder x = (case x of None \<Rightarrow> NoPendingOrder | Some ord \<Rightarrow> ChannelOrderInternal ord)"

text \<open>\<open>i > x\<close> for a number read from text.\<close>

fun int_gt :: "int \<Rightarrow> jsnum \<Rightarrow> bool" where
  "int_gt i (Fin r) = (r < of_int i)"
| "int_gt i NegInf = True"
| "int_gt i PosInf = False"
| "int_gt i NaN = False"

definition num_amount :: "NewChannelOrder \<Rightarrow> jsnum" where
  "num_amount ord = (case ord_amountSat ord of None \<Rightarrow> NaN | Some t \<Rightarrow> js_Number t)"

text \<open>\<open>200 * fastestFee\<close>, undefined when the fee is missing or 0.\<close>

definition useEstimatedTransactionFeeSat :: "int option \<Rightarrow> int option" where
  "useEstimatedTransactionFeeSat fastestFee =
     (if truthy_int fastestFee then Some (200 * the fastestFee) else None)"

datatype bitcoin_screen = BitcoinLoading | SpendableFunds | WaitingDeposit | Topup

definition PayBitcoinChannelOrder :: "BalancesResponse option \<Rightarrow> NewChannelOrder \<Rightarrow> string + bitcoin_screen" where
  "PayBitcoinChannelOrder balances ord =
     (if ord_paymentMethod ord \<noteq> Some PMOnchain then Inl ''incorrect payment method''
      else (case balances of
              None \<Rightarrow> Inr BitcoinLoading
            | Some b \<Rightarrow>
                if int_gt (ob_spendableSat (bal_onchain b)) (num_amount ord) then Inr SpendableFunds
                else if int_gt (ob_totalSat (bal_onchain b)) (num_amount ord) then Inr WaitingDeposit
                else Inr Topup))"

section \<open>The deposit that is asked for\<close>

datatype topup_screen =
    TopupLoading | TopupDeposited
  | TopupAsk (ask_unspent: int) (ask_recommended: jsnum) (ask_link: string)

text \<open>\<open>Math.ceil(x / 10000) * 10000\<close>.\<close>

definition ceil_10000 :: "jsnum \<Rightarrow> jsnum" where
  "ceil_10000 x = (case x of Fin r \<Rightarrow> Fin (of_int (\<lceil>r / 10000\<rceil> * 10000)) | y \<Rightarrow> y)"

definition add_num :: "jsnum \<Rightarrow> int \<Rightarrow> jsnum" where
  "add_num x i = (case x of Fin r \<Rightarrow> Fin (r + of_int i) | y \<Rightarrow> y)"

text \<open>A number in a template literal; the code only prints whole ones here.\<close>

fun num_str :: "jsnum \<Rightarrow> string" where
  "num_str (Fin r) = show_int \<lfloor>r\<rfloor>"
| "num_str NaN = ''NaN''"
| "num_str PosInf = ''Infinity''"
| "num_str NegInf = ''-Infinity''"

definition anchor_reserve :: "Channel list option \<Rightarrow> int \<Rightarrow> int" where
  "anchor_reserve channels reserved =
     (let num0ConfChannels =
            (case channels of None \<Rightarrow> 0
             | Some cs \<Rightarrow> int (length (filter (\<lambda>c. ch_confirmationsRequired c = Some 0) cs)))
      in max (num0ConfChannels * 25000 - reserved) 0)"

definition PayBitcoinChannelOrderTopup ::
    "Channel list option \<Rightarrow> BalancesResponse option \<Rightarrow> string option \<Rightarrow> MempoolUtxo list option \<Rightarrow>
     int option \<Rightarrow> NewChannelOrder \<Rightarrow> string + topup_screen" where
  "PayBitcoinChannelOrderTopup channels balances onchainAddress utxos fastestFee ord =
     (if ord_paymentMethod ord \<noteq> Some PMOnchain then Inl ''incorrect payment method''
      else
        (let fee = useEstimatedTransactionFeeSat fastestFee
         in if \<not> truthy_str onchainAddress \<or> balances = None \<or> \<not> truthy_int fee then Inr TopupLoading
            else
              (let onchain = bal_onchain (the balances);
                   unspentAmountSat = (case utxos of None \<Rightarrow> 0 | Some us \<Rightarrow> sum_list (map mu_value us))
               in if int_gt unspentAmountSat (num_amount ord) then Inr TopupDeposited
                  else
                    (let missingAmountSat =
                           add_num (num_amount ord)
                             (the fee + anchor_reserve channels (ob_reservedSat onchain)
                               - ob_totalSat onchain);
                         recommendedAmountSat = ceil_10000 missingAmountSat
                     in Inr (TopupAsk unspentAmountSat recommendedAmountSat
                          (''https://getalby.com/topup?address='' @ the onchainAddress @
                           ''&receive_amount='' @ num_str recommendedAmountSat))))))"

section \<open>The screen's state\<close>

text \<open>
  \<open>oui_started\<close> is the module variable \<open>hasStartedOpenedChannel\<close>, which lives as long as
  the page; the fields after it are the component state of \<open>PayLightningChannelOrder\<close>.
  \<open>oui_inflight\<close> counts the payments whose answer has not arrived, \<open>oui_ordering\<close> the LSP
  orders whose answer has not arrived.
\<close>

record order_ui =
  oui_store :: ChannelOrderStore
  oui_started :: bool
  oui_requestedInvoice :: bool
  oui_lspOrderResponse :: "LSPOrderResponse option"
  oui_isPaying :: bool
  oui_payExternally :: bool
  oui_inflight :: nat
  oui_ordering :: nat

definition update_order :: "NewChannelOrder \<Rightarrow> order_ui \<Rightarrow> order_ui" where
  "update_order new u = u\<lparr>oui_store := updateOrder new (oui_store u)\<rparr>"

definition status_update :: "NewChannelOrderStatus \<Rightarrow> NewChannelOrder" where
  "status_update x = empty_order\<lparr>ord_status := Some x\<rparr>"

definition opening_update :: "string \<Rightarrow> NewChannelOrder" where
  "opening_update txid = empty_order\<lparr>ord_status := Some OOpening, ord_fundingTxId := Some txid\<rparr>"

section \<open>Waiting for the channel\<close>

definition opening_channel :: "string option \<Rightarrow> Channel list option \<Rightarrow> Channel option" where
  "opening_channel fundingTxId channels =
     (if truthy_str fundingTxId
      then Option.bind channels (List.find (\<lambda>c. ch_fundingTxId c = the fundingTxId))
      else None)"

text \<open>The effect of \<open>ChannelOpening\<close>.\<close>

definition ChannelOpening :: "Channel list option \<Rightarrow> string option \<Rightarrow> order_ui \<Rightarrow> order_ui" where
  "ChannelOpening channels fundingTxId u =
     (case opening_channel fundingTxId channels of
        Some c \<Rightarrow> if ch_active c then update_order (status_update OSuccess) u else u
      | None \<Rightarrow> u)"

definition new_channel :: "Channel list option \<Rightarrow> NewChannelOrder option \<Rightarrow> Channel option" where
  "new_channel channels ord =
     (case (channels, Option.bind ord ord_prevChannelIds) of
        (Some cs, Some prev) \<Rightarrow>
          List.find (\<lambda>c. \<not> list_ex (\<lambda>current. ch_id c = current) prev \<and> ch_fundingTxId c \<noteq> []) cs
      | _ \<Rightarrow> None)"

definition useWaitForNewChannel :: "Channel list option \<Rightarrow> order_ui \<Rightarrow> order_ui" where
  "useWaitForNewChannel channels u =
     (case new_channel channels (cos_order (oui_store u)) of
        Some c \<Rightarrow> update_order (opening_update (ch_fundingTxId c)) u
      | None \<Rightarrow> u)"

section \<open>Opening the channel with on-chain funds\<close>

definition json_post :: "server \<Rightarrow> string \<Rightarrow> json \<Rightarrow> ('s, json option) act" where
  "json_post srv url body = api srv ''POST'' url (Some body)"

definition peer_address_of :: "MempoolNode option \<Rightarrow> string option \<Rightarrow> string option" where
  "peer_address_of nodeDetails host =
     (case nodeDetails of
        Some d \<Rightarrow> if mn_sockets d \<noteq> [] then Some (hd (split_on CHR '','' (mn_sockets d))) else host
      | None \<Rightarrow> host)"

definition connectPeer ::
    "server \<Rightarrow> MempoolNode option \<Rightarrow> string option \<Rightarrow> string option \<Rightarrow> ('s, unit) act" where
  "connectPeer srv nodeDetails pubkey host =
     andDo (require (nodeDetails \<noteq> None \<or> truthy_str host) ''node details not found'')
       (let (address, port) = splitSocketAddress (peer_address_of nodeDetails host)
        in andDo (require (address \<noteq> [] \<and> port \<noteq> []) ''host not found'')
             (andDo (json_post srv ''/api/peers''
                (JObj (opt_member ''pubkey'' (map_option JStr pubkey) @
                       [(''address'', JStr address), (''port'', num_json (js_Number port))])))
              (ret ())))"

definition open_channel_json :: "NewChannelOrder \<Rightarrow> json" where
  "open_channel_json ord =
     JObj (opt_member ''pubkey'' (map_option JStr (ord_pubkey ord)) @
           [(''amountSats'', num_json (num_amount ord))] @
           opt_member ''public'' (map_option JBool (ord_isPublic ord)))"

text \<open>The part of \<open>openChannel\<close> that follows peering.\<close>

definition publish_channel :: "server \<Rightarrow> NewChannelOrder \<Rightarrow> (order_ui, unit) act" where
  "publish_channel srv ord =
     andThen (json_post srv ''/api/channels'' (open_channel_json ord))
       (\<lambda>res.
          (let txid = Option.bind res (jget_str ''fundingTxId'')
           in andDo (require (truthy_str txid) ''No funding txid in response'')
              (andDo (toast ''Successfully published channel opening transaction'')
                     (setS (update_order (opening_update (the txid)))))))"

definition openChannel ::
    "server \<Rightarrow> Peer list option \<Rightarrow> MempoolNode option \<Rightarrow> NewChannelOrder \<Rightarrow> (order_ui, unit) act" where
  "openChannel srv peers nodeDetails ord =
     tryCatch
       (andDo (require (ord_paymentMethod ord = Some PMOnchain) ''incorrect payment method'')
       (andDo (require (peers \<noteq> None) ''peers not loaded'')
       (andDo (whenD (\<not> list_ex (\<lambda>p. Some (peer_nodeId p) = ord_pubkey ord) (the peers))
                 (connectPeer srv nodeDetails (ord_pubkey ord) (ord_host ord)))
              (publish_channel srv ord))))
       (\<lambda>e. emit (EToastError ''Something went wrong'' (Some (error_text e))))"

text \<open>The effect of \<open>PayBitcoinChannelOrderWithSpendableFunds\<close>.\<close>

definition spendable_effect ::
    "server \<Rightarrow> Peer list option \<Rightarrow> MempoolNode option \<Rightarrow> NewChannelOrder \<Rightarrow> (order_ui, unit) act" where
  "spendable_effect srv peers nodeDetails ord w =
     (if peers = None \<or> oui_started (ui_st w) then ret () w
      else andDo (setS (\<lambda>u. u\<lparr>oui_started := True\<rparr>)) (openChannel srv peers nodeDetails ord) w)"

section \<open>Buying a channel over Lightning\<close>

definition lsp_order_request :: "NewChannelOrder \<Rightarrow> LSPOrderRequest" where
  "lsp_order_request ord =
     \<lparr>lor_amountSat = Option.bind (ord_amountSat ord) js_parseInt,
      lor_lspType = the (ord_lspType ord),
      lor_lspIdentifier = the (ord_lspIdentifier ord),
      lor_public = (ord_isPublic ord = Some True)\<rparr>"

definition lsp_order_json :: "LSPOrderRequest \<Rightarrow> json" where
  "lsp_order_json r =
     JObj [(''lspType'', JStr (lsp_str (lor_lspType r))),
           (''lspIdentifier'', JStr (lor_lspIdentifier r)),
           (''amountSat'', (case lor_amountSat r of None \<Rightarrow> JNull | Some i \<Rightarrow> JNum i)),
           (''public'', JBool (lor_public r))]"

definition lsp_order_response :: "json \<Rightarrow> LSPOrderResponse" where
  "lsp_order_response j =
     \<lparr>lop_invoice = jget_str ''invoice'' j,
      lop_feeSat = nullish (jget_int ''feeSat'' j) 0,
      lop_invoiceAmountSat = nullish (jget_int ''invoiceAmountSat'' j) 0,
      lop_incomingLiquiditySat = nullish (jget_int ''incomingLiquiditySat'' j) 0,
      lop_outgoingLiquiditySat = nullish (jget_int ''outgoingLiquiditySat'' j) 0\<rparr>"

definition something_wrong :: "string \<Rightarrow> ('s, unit) act" where
  "something_wrong e = emit (EToastError ''Something went wrong'' (Some (error_text e)))"

text \<open>The effect up to its await, and what follows the answer.\<close>

definition request_invoice :: "Channel list option \<Rightarrow> NewChannelOrder \<Rightarrow> (order_ui, unit) act" where
  "request_invoice channels ord w =
     (if channels = None \<or> oui_requestedInvoice (ui_st w) then ret () w
      else andDo (setS (\<lambda>u. u\<lparr>oui_requestedInvoice := True\<rparr>))
             (if ord_lspType ord = None \<or> \<not> truthy_str (ord_lspIdentifier ord)
              then something_wrong ''missing lsp info in order''
              else andDo (emit (EFetch ''POST'' ''/api/lsp-orders''
                                  (Some (lsp_order_json (lsp_order_request ord)))))
                         (setS (\<lambda>u. u\<lparr>oui_ordering := Suc (oui_ordering u)\<rparr>))) w)"

definition lsp_answer :: "string + json option \<Rightarrow> (order_ui, unit) act" where
  "lsp_answer answer =
     andDo (setS (\<lambda>u. u\<lparr>oui_ordering := oui_ordering u - 1\<rparr>))
       (case answer of
          Inl e \<Rightarrow> something_wrong e
        | Inr res \<Rightarrow>
            (case res of
               None \<Rightarrow> something_wrong ''no LSP order response''
             | Some j \<Rightarrow>
                 if \<not> json_truthy j then something_wrong ''no LSP order response''
                 else
                   (let response = lsp_order_response j
                    in andDo (whenD (\<not> truthy_str (lop_invoice response))
                                (setS (update_order (status_update OPaid))))
                             (setS (\<lambda>u. u\<lparr>oui_lspOrderResponse := Some response\<rparr>)))))"

definition canPayInternally :: "BalancesResponse option \<Rightarrow> LSPOrderResponse option \<Rightarrow> bool" where
  "canPayInternally balances lsp =
     (case (balances, lsp) of
        (Some b, Some r) \<Rightarrow>
          (of_int (lop_invoiceAmountSat r) :: rat)
            < of_int (lb_nextMaxSpendableMPPMsat (bal_lightning b)) / 1000
      | _ \<Rightarrow> False)"

definition shows_pay_button :: "BalancesResponse option \<Rightarrow> order_ui \<Rightarrow> bool" where
  "shows_pay_button balances u =
     (truthy_str (Option.bind (oui_lspOrderResponse u) lop_invoice) \<and>
      canPayInternally balances (oui_lspOrderResponse u))"

definition shows_invoice :: "BalancesResponse option \<Rightarrow> order_ui \<Rightarrow> bool" where
  "shows_invoice balances u =
     (truthy_str (Option.bind (oui_lspOrderResponse u) lop_invoice) \<and>
      (oui_payExternally u \<or> \<not> canPayInternally balances (oui_lspOrderResponse u)))"

definition pay_click :: "(order_ui, unit) act" where
  "pay_click w =
     andDo (setS (\<lambda>u. u\<lparr>oui_isPaying := True, oui_inflight := Suc (oui_inflight u)\<rparr>))
       (emit (EFetch ''POST''
          (''/api/payments/'' @ or_str (Option.bind (oui_lspOrderResponse (ui_st w)) lop_invoice) [])
          None)) w"

definition pay_answer :: "string + json option \<Rightarrow> (order_ui, unit) act" where
  "pay_answer answer =
     andDo (setS (\<lambda>u. u\<lparr>oui_inflight := oui_inflight u - 1\<rparr>))
     (andDo
        (case answer of
           Inr res \<Rightarrow> andDo (setS (update_order (status_update OPaid)))
                            (toast ''Channel successfully requested'')
         | Inl e \<Rightarrow> emit (EToastError ''Failed to send: '' (Some (error_text e))))
        (setS (\<lambda>u. u\<lparr>oui_isPaying := False\<rparr>)))"

section \<open>The screen as a machine\<close>

text \<open>A freshly mounted screen; the store and the module variable outlive it.\<close>

definition mount_order_screen :: "ChannelOrderStore \<Rightarrow> bool \<Rightarrow> order_ui" where
  "mount_order_screen st started =
     \<lparr>oui_store = st, oui_started = started, oui_requestedInvoice = False,
      oui_lspOrderResponse = None, oui_isPaying = False, oui_payExternally = False,
      oui_inflight = 0, oui_ordering = 0\<rparr>"

datatype order_event =
    EvSpendable "Peer list option" "MempoolNode option" "BalancesResponse option"
  | EvOpening "Channel list option"
  | EvWaitNew "Channel list option"
  | EvRequestInvoice "Channel list option"
  | EvLspAnswer "string + json option"
  | EvPayClick "BalancesResponse option"
  | EvPayAnswer "string + json option"
  | EvPayExternally

definition current_screen :: "order_ui ui \<Rightarrow> order_screen" where
  "current_screen w = CurrentChannelOrder (cos_order (oui_store (ui_st w)))"

text \<open>
  An effect or handler only runs on the screen that has it; an answer arrives whatever is
  shown by then.
\<close>

fun screen_step :: "server \<Rightarrow> order_ui ui \<Rightarrow> order_event \<Rightarrow> order_ui ui" where
  "screen_step srv w (EvSpendable peers node balances) =
     (case current_screen w of
        PayBitcoin ord \<Rightarrow>
          if PayBitcoinChannelOrder balances ord = Inr SpendableFunds
          then snd (spendable_effect srv peers node ord w) else w
      | _ \<Rightarrow> w)"
| "screen_step srv w (EvOpening channels) =
     (case current_screen w of
        Opening txid \<Rightarrow> w\<lparr>ui_st := ChannelOpening channels txid (ui_st w)\<rparr>
      | _ \<Rightarrow> w)"
| "screen_step srv w (EvWaitNew channels) =
     (case current_screen w of
        PayLightning ord \<Rightarrow> w\<lparr>ui_st := useWaitForNewChannel channels (ui_st w)\<rparr>
      | PaidLightning \<Rightarrow> w\<lparr>ui_st := useWaitForNewChannel channels (ui_st w)\<rparr>
      | _ \<Rightarrow> w)"
| "screen_step srv w (EvRequestInvoice channels) =
     (case current_screen w of
        PayLightning ord \<Rightarrow> snd (request_invoice channels ord w)
      | _ \<Rightarrow> w)"
| "screen_step srv w (EvLspAnswer answer) =
     (if oui_ordering (ui_st w) > 0 then snd (lsp_answer answer w) else w)"
| "screen_step srv w (EvPayClick balances) =
     (case current_screen w of
        PayLightning ord \<Rightarrow>
          if shows_pay_button balances (ui_st w) \<and> \<not> oui_isPaying (ui_st w)
          then snd (pay_click w) else w
      | _ \<Rightarrow> w)"
| "screen_step srv w (EvPayAnswer answer) =
     (if oui_inflight (ui_st w) > 0 then snd (pay_answer answer w) else w)"
| "screen_step srv w EvPayExternally =
     (case current_screen w of
        PayLightning ord \<Rightarrow> w\<lparr>ui_st := (ui_st w)\<lparr>oui_payExternally := True\<rparr>\<rparr>
      | _ \<Rightarrow> w)"

section \<open>Lemmas\<close>

lemma cos_order_update [simp]:
  "cos_order (updateOrder new st) = Some (merge_order new (nullish (cos_order st) empty_order))"
  by (simp add: updateOrder_def setOrder_def)

lemma update_order_simps [simp]:
  "oui_store (update_order new u) = updateOrder new (oui_store u)"
  "oui_started (update_order new u) = oui_started u"
  "oui_requestedInvoice (update_order new u) = oui_requestedInvoice u"
  "oui_inflight (update_order new u) = oui_inflight u"
  "oui_ordering (update_order new u) = oui_ordering u"
  by (simp_all add: update_order_def)

lemma merge_status [simp]:
  "merge_order (status_update x) old = old\<lparr>ord_status := Some x\<rparr>"
  "merge_order (opening_update t) old = old\<lparr>ord_status := Some OOpening, ord_fundingTxId := Some t\<rparr>"
  by (cases old; simp add: status_update_def opening_update_def merge_order_def empty_order_def)+

text \<open>
  The contract of the screen: the transitions an order may make, with the data that justify
  each. An answer to an LSP order or to a payment sets \<open>paid\<close> whatever the status is when
  it arrives.
\<close>

inductive order_flow :: "order_event \<Rightarrow> NewChannelOrder \<Rightarrow> NewChannelOrder \<Rightarrow> bool" where
  stay: "order_flow e a a"
| opened: "ord_status a = Some OPay \<Longrightarrow> ord_paymentMethod a = Some PMOnchain \<Longrightarrow> t \<noteq> [] \<Longrightarrow>
    order_flow (EvSpendable (Some peers) nd b) a (a\<lparr>ord_status := Some OOpening, ord_fundingTxId := Some t\<rparr>)"
| appeared: "ord_status a = Some OPaid \<or> ord_status a = Some OPay \<and> ord_paymentMethod a = Some PMLightning \<Longrightarrow>
    ord_prevChannelIds a = Some prev \<Longrightarrow> c \<in> set cs \<Longrightarrow> ch_id c \<notin> set prev \<Longrightarrow> ch_fundingTxId c \<noteq> [] \<Longrightarrow>
    order_flow (EvWaitNew (Some cs)) a
      (a\<lparr>ord_status := Some OOpening, ord_fundingTxId := Some (ch_fundingTxId c)\<rparr>)"
| active: "ord_status a = Some OOpening \<Longrightarrow> c \<in> set cs \<Longrightarrow> ord_fundingTxId a = Some (ch_fundingTxId c) \<Longrightarrow>
    ch_active c \<Longrightarrow> order_flow (EvOpening (Some cs)) a (a\<lparr>ord_status := Some OSuccess\<rparr>)"
| covered: "\<not> truthy_str (jget_str ''invoice'' j) \<Longrightarrow>
    order_flow (EvLspAnswer (Inr (Some j))) a (a\<lparr>ord_status := Some OPaid\<rparr>)"
| paid: "order_flow (EvPayAnswer (Inr r)) a (a\<lparr>ord_status := Some OPaid\<rparr>)"

inductive_cases order_flowE: "order_flow e a b"

definition flows :: "order_event \<Rightarrow> order_ui \<Rightarrow> order_ui \<Rightarrow> bool" where
  "flows e u v =
     (\<forall>a. cos_order (oui_store u) = Some a \<longrightarrow>
        (\<exists>b. cos_order (oui_store v) = Some b \<and> order_flow e a b))"

lemma flows_same: "oui_store v = oui_store u \<Longrightarrow> flows e u v"
  by (auto simp: flows_def intro: stay)

lemma connectPeer_costs:
  assumes "u \<noteq> ''/api/peers''"
  shows "costs u 0 (connectPeer srv nd pk h)"
  unfolding connectPeer_def json_post_def Let_def
  by (rule costs_le, (rule costs_intros)+) (use assms in simp)

lemma openChannel_costs:
  assumes "u \<noteq> ''/api/peers''"
  shows "costs u (of_bool (''/api/channels'' = u)) (openChannel srv peers nd ord)"
  unfolding openChannel_def publish_channel_def json_post_def Let_def
  by (rule costs_le, (rule costs_intros connectPeer_costs [OF assms])+) simp

text \<open>Opening the channel leaves the state alone or records the funding transaction, once.\<close>

definition records_tx :: "order_ui \<Rightarrow> order_ui \<Rightarrow> bool" where
  "records_tx u v = (v = u \<or> (\<exists>t. t \<noteq> [] \<and> v = update_order (opening_update t) u))"

lemma records_tx_refl: "reflp records_tx"
  by (simp add: reflp_def records_tx_def)

lemma connectPeer_state: "moves (=) (connectPeer srv nd pk h)"
  unfolding connectPeer_def json_post_def Let_def
  by (intro moves_intros) (simp_all add: reflp_def transp_def)

lemma publish_channel_state: "moves records_tx (publish_channel srv ord)"
  by (auto simp: moves_def publish_channel_def json_post_def effect_simps Let_def records_tx_def
           truthy_str_def split: sum.splits option.splits)

lemma openChannel_state: "moves records_tx (openChannel srv peers nd ord)"
  unfolding openChannel_def
  by (intro moves_still records_tx_refl publish_channel_state still_basic still_whenD connectPeer_state)

lemma spendable_effect_state:
  "oui_store (ui_st (snd (spendable_effect srv peers nd ord w))) = oui_store (ui_st w) \<or>
   (\<exists>t. t \<noteq> [] \<and> peers \<noteq> None \<and> oui_store (ui_st (snd (spendable_effect srv peers nd ord w)))
            = updateOrder (opening_update t) (oui_store (ui_st w)))"
proof (cases "peers = None \<or> oui_started (ui_st w)")
  case False
  let ?w = "w\<lparr>ui_st := (ui_st w)\<lparr>oui_started := True\<rparr>\<rparr>"
  from False show ?thesis
    using movesD [OF openChannel_state [of srv peers nd ord], of ?w]
    by (auto simp: spendable_effect_def effect_simps records_tx_def)
qed (simp add: spendable_effect_def ret_def)

lemma new_channel_Some:
  "new_channel channels (Some a) = Some c \<Longrightarrow>
   \<exists>cs prev. channels = Some cs \<and> ord_prevChannelIds a = Some prev \<and> c \<in> set cs \<and>
     ch_id c \<notin> set prev \<and> ch_fundingTxId c \<noteq> []"
  by (auto simp: new_channel_def list_ex_iff split: option.splits dest: find_Some_iff)

lemma opening_channel_Some:
  "opening_channel txid channels = Some c \<Longrightarrow>
   \<exists>cs. channels = Some cs \<and> c \<in> set cs \<and> txid = Some (ch_fundingTxId c)"
  by (cases txid; cases channels)
     (auto simp: opening_channel_def split: if_splits dest: find_Some_iff)

text \<open>The screens, by the order that shows them.\<close>

lemma screen_of_order [view_simps]:
  "ord_status a = Some OPay \<Longrightarrow> ord_paymentMethod a = Some PMOnchain \<Longrightarrow> ChannelOrderInternal a = PayBitcoin a"
  "ord_status a = Some OPay \<Longrightarrow> ord_paymentMethod a = Some PMLightning \<Longrightarrow> ChannelOrderInternal a = PayLightning a"
  "ord_status a = Some OPaid \<Longrightarrow> ChannelOrderInternal a = PaidLightning"
  "ord_status a = Some OOpening \<Longrightarrow> ChannelOrderInternal a = Opening (ord_fundingTxId a)"
  "ord_status a = Some OSuccess \<Longrightarrow> ChannelOrderInternal a = SuccessScreen"
  by simp_all

lemma screen_cases:
  "ChannelOrderInternal a = PayBitcoin b \<longleftrightarrow>
     b = a \<and> ord_status a = Some OPay \<and> ord_paymentMethod a = Some PMOnchain"
  "ChannelOrderInternal a = PayLightning b \<longleftrightarrow>
     b = a \<and> ord_status a = Some OPay \<and> ord_paymentMethod a = Some PMLightning"
  "ChannelOrderInternal a = PaidLightning \<longleftrightarrow> ord_status a = Some OPaid"
  "ChannelOrderInternal a = Opening t \<longleftrightarrow> ord_status a = Some OOpening \<and> t = ord_fundingTxId a"
  by (auto split: option.splits NewChannelOrderStatus.splits PaymentMethod.splits)

lemma current_screen_Some [simp]:
  "cos_order (oui_store (ui_st w)) = Some a \<Longrightarrow> current_screen w = ChannelOrderInternal a"
  by (simp add: current_screen_def CurrentChannelOrder_def)

lemmas screen_splits = order_screen.splits option.splits if_splits

lemma flow_spendable: "flows (EvSpendable p n b) (ui_st w) (ui_st (screen_step srv w (EvSpendable p n b)))"
proof (cases "\<exists>a. current_screen w = PayBitcoin a \<and> PayBitcoinChannelOrder b a = Inr SpendableFunds")
  case True
  then obtain a where "current_screen w = PayBitcoin a" "PayBitcoinChannelOrder b a = Inr SpendableFunds"
    by blast
  then have step: "screen_step srv w (EvSpendable p n b) = snd (spendable_effect srv p n a w)" by simp
  show ?thesis
    unfolding flows_def step
  proof (intro allI impI)
    fix c
    assume c: "cos_order (oui_store (ui_st w)) = Some c"
    with \<open>current_screen w = PayBitcoin a\<close> have "a = c" "ord_status c = Some OPay" "ord_paymentMethod c = Some PMOnchain"
      by (simp_all add: screen_cases del: ChannelOrderInternal.simps)
    then show "\<exists>d. cos_order (oui_store (ui_st (snd (spendable_effect srv p n a w)))) = Some d \<and>
        order_flow (EvSpendable p n b) c d"
      using spendable_effect_state [of srv p n a w] c by (auto intro: order_flow.intros)
  qed
next
  case False
  then have "screen_step srv w (EvSpendable p n b) = w" by (auto split: order_screen.splits)
  then show ?thesis by (simp add: flows_same)
qed

lemma flow_opening: "flows (EvOpening cs) (ui_st w) (ui_st (screen_step srv w (EvOpening cs)))"
  by (fastforce simp: flows_def screen_cases ChannelOpening_def simp del: ChannelOrderInternal.simps
                split: order_screen.splits option.splits dest: opening_channel_Some intro: order_flow.intros)

lemma flow_wait: "flows (EvWaitNew cs) (ui_st w) (ui_st (screen_step srv w (EvWaitNew cs)))"
  by (fastforce simp: flows_def screen_cases useWaitForNewChannel_def simp del: ChannelOrderInternal.simps
                split: order_screen.splits option.splits dest: new_channel_Some intro: order_flow.intros)

lemma request_invoice_state: "moves (\<lambda>u v. oui_store v = oui_store u) (request_invoice channels ord)"
  by (simp add: moves_def request_invoice_def something_wrong_def effect_simps)

lemma pay_click_state: "moves (\<lambda>u v. oui_store v = oui_store u) pay_click"
  by (simp add: moves_def pay_click_def effect_simps)

lemma lsp_answer_state:
  "oui_store (ui_st (snd (lsp_answer answer w))) =
     (case answer of
        Inr (Some j) \<Rightarrow>
          if json_truthy j \<and> \<not> truthy_str (jget_str ''invoice'' j)
          then updateOrder (status_update OPaid) (oui_store (ui_st w)) else oui_store (ui_st w)
      | _ \<Rightarrow> oui_store (ui_st w))"
  by (auto simp: lsp_answer_def something_wrong_def lsp_order_response_def Let_def effect_simps
           split: sum.splits option.splits)

lemma pay_answer_state:
  "oui_store (ui_st (snd (pay_answer answer w))) =
     (case answer of Inr r \<Rightarrow> updateOrder (status_update OPaid) (oui_store (ui_st w))
      | Inl e \<Rightarrow> oui_store (ui_st w))"
  by (simp add: pay_answer_def effect_simps split: sum.splits)

lemma flow_others:
  "flows (EvRequestInvoice cs) (ui_st w) (ui_st (screen_step srv w (EvRequestInvoice cs)))"
  "flows (EvPayClick b) (ui_st w) (ui_st (screen_step srv w (EvPayClick b)))"
  "flows EvPayExternally (ui_st w) (ui_st (screen_step srv w EvPayExternally))"
  using movesD [OF request_invoice_state] movesD [OF pay_click_state]
  by (auto intro!: flows_same simp: split: order_screen.splits)

lemma flow_answers:
  "flows (EvLspAnswer a) (ui_st w) (ui_st (screen_step srv w (EvLspAnswer a)))"
  "flows (EvPayAnswer a) (ui_st w) (ui_st (screen_step srv w (EvPayAnswer a)))"
  by (auto simp: flows_def lsp_answer_state pay_answer_state split: sum.splits option.splits
           intro: order_flow.intros)

lemma screen_step_flows: "flows e (ui_st w) (ui_st (screen_step srv w e))"
  by (cases e) (simp_all add: flow_spendable flow_opening flow_wait flow_others flow_answers
                  del: screen_step.simps)

text \<open>What two orders share when only the status and the funding transaction differ.\<close>

definition same_terms :: "NewChannelOrder \<Rightarrow> NewChannelOrder \<Rightarrow> bool" where
  "same_terms a b =
     (a\<lparr>ord_status := None, ord_fundingTxId := None\<rparr> = b\<lparr>ord_status := None, ord_fundingTxId := None\<rparr>)"

lemma same_terms_simps [simp]:
  "same_terms a a"
  "same_terms a (a\<lparr>ord_status := x\<rparr>)"
  "same_terms a (a\<lparr>ord_status := x, ord_fundingTxId := y\<rparr>)"
  by (simp_all add: same_terms_def)

lemma same_terms_trans: "same_terms a b \<Longrightarrow> same_terms b c \<Longrightarrow> same_terms a c"
  by (simp add: same_terms_def)

lemma flow_terms: "order_flow e a b \<Longrightarrow> same_terms a b"
  by (induction rule: order_flow.induct) simp_all

text \<open>An opening order knows its funding transaction.\<close>

definition opening_has_tx :: "NewChannelOrder \<Rightarrow> bool" where
  "opening_has_tx a = (ord_status a = Some OOpening \<longrightarrow> truthy_str (ord_fundingTxId a))"

lemma flow_opening_has_tx: "order_flow e a b \<Longrightarrow> opening_has_tx a \<Longrightarrow> opening_has_tx b"
  by (induction rule: order_flow.induct) (simp_all add: opening_has_tx_def)

text \<open>What the screen has posted never exceeds what its two guards allow.\<close>

definition order_screen_inv :: "order_ui ui \<Rightarrow> bool" where
  "order_screen_inv w =
     (posts_to ''/api/channels'' (ui_log w) \<le> of_bool (oui_started (ui_st w)) \<and>
      posts_to ''/api/lsp-orders'' (ui_log w) \<le> of_bool (oui_requestedInvoice (ui_st w)))"

lemma openChannel_guards:
  "oui_started (ui_st (snd (openChannel srv p n ord w))) = oui_started (ui_st w) \<and>
   oui_requestedInvoice (ui_st (snd (openChannel srv p n ord w))) = oui_requestedInvoice (ui_st w)"
  using movesD [OF openChannel_state [of srv p n ord], of w] by (auto simp: records_tx_def)

lemma spendable_effect_inv: "order_screen_inv w \<Longrightarrow> order_screen_inv (snd (spendable_effect srv p n ord w))"
proof (cases "p = None \<or> oui_started (ui_st w)")
  case False
  let ?w = "w\<lparr>ui_st := (ui_st w)\<lparr>oui_started := True\<rparr>\<rparr>"
  assume inv: "order_screen_inv w"
  have "snd (spendable_effect srv p n ord w) = snd (openChannel srv p n ord ?w)"
    using False by (auto simp: spendable_effect_def effect_simps)
  then show ?thesis
    using inv False openChannel_guards [of srv p n ord ?w]
      costsD [OF openChannel_costs [of "''/api/channels''" srv p n ord], of ?w]
      costsD [OF openChannel_costs [of "''/api/lsp-orders''" srv p n ord], of ?w]
    by (simp add: order_screen_inv_def)
qed (simp add: spendable_effect_def ret_def)

lemma request_invoice_inv: "order_screen_inv w \<Longrightarrow> order_screen_inv (snd (request_invoice cs ord w))"
  by (auto simp: request_invoice_def something_wrong_def effect_simps order_screen_inv_def)

lemma answers_inv:
  "order_screen_inv w \<Longrightarrow> order_screen_inv (snd (lsp_answer a w))"
  "order_screen_inv w \<Longrightarrow> order_screen_inv (snd (pay_answer a w))"
  "order_screen_inv w \<Longrightarrow> order_screen_inv (snd (pay_click w))"
  by (auto simp: lsp_answer_def pay_answer_def pay_click_def something_wrong_def effect_simps
           order_screen_inv_def Let_def split: sum.splits option.splits)

lemma screen_step_inv: "order_screen_inv w \<Longrightarrow> order_screen_inv (screen_step srv w e)"
  by (cases e)
     (auto simp: spendable_effect_inv request_invoice_inv answers_inv ChannelOpening_def useWaitForNewChannel_def
           split: order_screen.splits option.splits, auto simp: order_screen_inv_def)

interpretation order_screen: invariant_machine "screen_step srv" order_screen_inv for srv
  by unfold_locales (rule screen_step_inv)

section \<open>Properties\<close>

text \<open>The machine over a sequence of events.\<close>

definition run_screen :: "server \<Rightarrow> order_ui ui \<Rightarrow> order_event list \<Rightarrow> order_ui ui" where
  "run_screen srv = foldl (screen_step srv)"

definition fresh_screen :: "ChannelOrderStore \<Rightarrow> order_ui ui" where
  "fresh_screen st = \<lparr>ui_st = mount_order_screen st False, ui_log = []\<rparr>"

definition order_in :: "order_ui ui \<Rightarrow> NewChannelOrder option" where
  "order_in w = cos_order (oui_store (ui_st w))"

lemma run_screen_snoc [simp]: "run_screen srv w (es @ [e]) = screen_step srv (run_screen srv w es) e"
  by (simp add: run_screen_def)

lemma run_screen_Nil [simp]: "run_screen srv w [] = w"
  by (simp add: run_screen_def)

lemma step_order:
  "order_in w = Some a \<Longrightarrow> \<exists>b. order_in (screen_step srv w e) = Some b \<and> order_flow e a b"
  using screen_step_flows [of e w srv] by (simp add: flows_def order_in_def)

lemma run_order:
  assumes "order_in w = Some a"
  shows "\<exists>b. order_in (run_screen srv w es) = Some b \<and> same_terms a b"
proof (induction es rule: rev_induct)
  case (snoc e es)
  then obtain b where b: "order_in (run_screen srv w es) = Some b" "same_terms a b" by blast
  from step_order [OF b(1), of srv e] b(2) show ?case
    by (auto dest: flow_terms intro: same_terms_trans)
qed (simp add: assms)

text \<open>C1: A channel is opened at most once per page load and bought at most once per visit.
  Whatever the events, the answers of the server, the polled data and their order, the screen
  posts to \<open>/api/channels\<close> at most once and to \<open>/api/lsp-orders\<close> at most once.\<close>

theorem at_most_one_channel:
  "posts_to ''/api/channels'' (ui_log (run_screen srv (fresh_screen st) es)) \<le> 1 \<and>
   posts_to ''/api/lsp-orders'' (ui_log (run_screen srv (fresh_screen st) es)) \<le> 1"
proof -
  have "order_screen_inv (fresh_screen st)" by (simp add: order_screen_inv_def fresh_screen_def)
  then have "order_screen_inv (run_screen srv (fresh_screen st) es)"
    unfolding run_screen_def by (rule order_screen.run_inv)
  then show ?thesis
    by (auto simp: order_screen_inv_def elim!: order_trans)
qed

text \<open>C2: The screen refines the order's state machine. Every step of the screen moves the
  stored order by one transition of \<open>order_flow\<close> that the step's data justify; so it never
  changes what the user asked for (amount, peer, payment method, visibility), however many
  events follow.\<close>

theorem screen_refines_order_flow:
  assumes "order_in w = Some a"
  shows "(\<exists>b. order_in (screen_step srv w e) = Some b \<and> order_flow e a b) \<and>
         (\<exists>c. order_in (run_screen srv w es) = Some c \<and> ord_amountSat c = ord_amountSat a \<and>
            ord_pubkey c = ord_pubkey a \<and> ord_paymentMethod c = ord_paymentMethod a \<and>
            ord_isPublic c = ord_isPublic a \<and> ord_host c = ord_host a \<and>
            ord_lspIdentifier c = ord_lspIdentifier a \<and> ord_prevChannelIds c = ord_prevChannelIds a)"
proof
  obtain c where c: "order_in (run_screen srv w es) = Some c" "same_terms a c"
    using run_order [OF assms] by blast
  then show "\<exists>c. order_in (run_screen srv w es) = Some c \<and> ord_amountSat c = ord_amountSat a \<and>
      ord_pubkey c = ord_pubkey a \<and> ord_paymentMethod c = ord_paymentMethod a \<and>
      ord_isPublic c = ord_isPublic a \<and> ord_host c = ord_host a \<and>
      ord_lspIdentifier c = ord_lspIdentifier a \<and> ord_prevChannelIds c = ord_prevChannelIds a"
    by (cases a; cases c) (simp add: same_terms_def)
qed (rule step_order [OF assms])

definition sample_channel :: Channel where
  "sample_channel =
     \<lparr>ch_localBalanceSat = 240000, ch_localBalanceMsat = 240000000, ch_localSpendableBalanceSat = 237500,
      ch_localSpendableBalanceMsat = 237500000, ch_remoteBalanceSat = 10000, ch_remoteBalanceMsat = 10000000,
      ch_remotePubkey = ''02ab'', ch_id = ''c1'', ch_fundingTxId = ''tx1'', ch_fundingTxVout = 0,
      ch_active = True, ch_public = False, ch_confirmations = Some 6, ch_confirmationsRequired = Some 3,
      ch_forwardingFeeBaseMsat = 1000, ch_forwardingFeeProportionalMillionths = 0,
      ch_unspendablePunishmentReserveSat = 2500, ch_counterpartyUnspendablePunishmentReserveSat = 2500,
      ch_error = None, ch_status = ChOnline, ch_isOutbound = True\<rparr>"

definition opening_screen :: "order_ui ui" where
  "opening_screen =
     fresh_screen \<lparr>cos_order = Some (sample_order\<lparr>ord_status := Some OOpening, ord_fundingTxId := Some ''tx1''\<rparr>),
                   cos_storage = Map.empty\<rparr>"

lemma opening_screen_order [simp]:
  "order_in opening_screen = Some (sample_order\<lparr>ord_status := Some OOpening, ord_fundingTxId := Some ''tx1''\<rparr>)"
  by (simp add: order_in_def opening_screen_def fresh_screen_def mount_order_screen_def)

theorem screen_refines_order_flow_witness:
  "\<exists>b. order_in (screen_step no_answer opening_screen (EvOpening (Some [sample_channel]))) = Some b \<and>
     order_flow (EvOpening (Some [sample_channel]))
       (sample_order\<lparr>ord_status := Some OOpening, ord_fundingTxId := Some ''tx1''\<rparr>) b"
  using screen_refines_order_flow [OF opening_screen_order, of no_answer "EvOpening (Some [sample_channel])" "[]"]
  by blast

text \<open>What justifies success: the polled channels of some event held an active channel with the
  order's funding transaction.\<close>

definition justified :: "order_event list \<Rightarrow> NewChannelOrder \<Rightarrow> bool" where
  "justified es a =
     (ord_status a = Some OSuccess \<longrightarrow>
        (\<exists>cs c. EvOpening (Some cs) \<in> set es \<and> c \<in> set cs \<and> ch_active c \<and>
           ord_fundingTxId a = Some (ch_fundingTxId c)))"

lemma flow_justified: "order_flow e a b \<Longrightarrow> justified es a \<Longrightarrow> justified (es @ [e]) b"
  by (induction rule: order_flow.induct) (auto simp: justified_def)

text \<open>C16: Success means an active channel. If an order that is not finished becomes finished, then
  an active channel with exactly the order's funding transaction was among the channels polled
  by one of the events; and while an order is opening it always names a funding transaction.\<close>

theorem success_means_active_channel:
  assumes "order_in w = Some a" and "ord_status a \<noteq> Some OSuccess" and "opening_has_tx a"
    and "order_in (run_screen srv w es) = Some b"
  shows "(ord_status b = Some OSuccess \<longrightarrow>
            (\<exists>cs c. EvOpening (Some cs) \<in> set es \<and> c \<in> set cs \<and> ch_active c \<and>
               ord_fundingTxId b = Some (ch_fundingTxId c))) \<and>
         (ord_status b = Some OOpening \<longrightarrow> truthy_str (ord_fundingTxId b))"
proof -
  have "\<exists>b. order_in (run_screen srv w es) = Some b \<and> justified es b \<and> opening_has_tx b"
  proof (induction es rule: rev_induct)
    case Nil
    then show ?case using assms(1-3) by (auto simp: justified_def)
  next
    case (snoc e es)
    then obtain c where c: "order_in (run_screen srv w es) = Some c" "justified es c" "opening_has_tx c"
      by blast
    from step_order [OF c(1), of srv e] c(2,3) show ?case
      by (auto dest: flow_justified flow_opening_has_tx)
  qed
  then show ?thesis using assms(4) by (auto simp: justified_def opening_has_tx_def)
qed

theorem success_means_active_channel_witness:
  "\<exists>cs c. EvOpening (Some cs) \<in> set [EvOpening (Some [sample_channel])] \<and> c \<in> set cs \<and> ch_active c \<and>
     Some ''tx1'' = Some (ch_fundingTxId c)"
proof -
  let ?a = "sample_order\<lparr>ord_status := Some OOpening, ord_fundingTxId := Some ''tx1''\<rparr>"
  have run: "order_in (run_screen no_answer opening_screen [EvOpening (Some [sample_channel])])
      = Some (?a\<lparr>ord_status := Some OSuccess\<rparr>)"
    by (simp add: run_screen_def order_in_def opening_screen_def fresh_screen_def mount_order_screen_def
          current_screen_def CurrentChannelOrder_def ChannelOpening_def opening_channel_def sample_channel_def)
  show ?thesis
    using success_means_active_channel [OF opening_screen_order _ _ run]
    by (simp add: opening_has_tx_def)
qed

text \<open>A payment's answer that arrives late sets the order back. While a payment is in flight
  the channel can appear and become active, which finishes the order; the answer to the
  payment then sets the status to \<open>paid\<close> again, whatever it was, and the screen waits for a
  new channel.\<close>

lemma late_payment_sets_back:
  assumes "oui_inflight (ui_st w) > 0" and "order_in w = Some a"
  shows "order_in (screen_step srv w (EvPayAnswer (Inr r))) = Some (a\<lparr>ord_status := Some OPaid\<rparr>) \<and>
         current_screen (screen_step srv w (EvPayAnswer (Inr r))) = PaidLightning"
  using assms by (simp add: order_in_def pay_answer_state current_screen_def CurrentChannelOrder_def)

definition sample_balances :: BalancesResponse where
  "sample_balances =
     \<lparr>bal_onchain = \<lparr>ob_spendableSat = 60000, ob_totalSat = 60000, ob_reservedSat = 25000,
        ob_pendingBalancesFromChannelClosuresSat = 0, ob_pendingBalancesDetails = [],
        ob_pendingSweepBalancesDetails = []\<rparr>,
      bal_lightning = \<lparr>lb_totalSpendableSat = 5000, lb_totalSpendableMsat = 5000000,
        lb_totalReceivableSat = 9000, lb_totalReceivableMsat = 9000000,
        lb_nextMaxSpendableSat = 5000, lb_nextMaxSpendableMsat = 5000000,
        lb_nextMaxReceivableSat = 9000, lb_nextMaxReceivableMsat = 9000000,
        lb_nextMaxSpendableMPPSat = 5000, lb_nextMaxSpendableMPPMsat = 5000000,
        lb_nextMaxReceivableMPPSat = 9000, lb_nextMaxReceivableMPPMsat = 9000000\<rparr>\<rparr>"

definition lightning_order :: NewChannelOrder where
  "lightning_order =
     empty_order\<lparr>ord_paymentMethod := Some PMLightning, ord_lspType := Some LSPS1,
       ord_lspIdentifier := Some ''lsp'', ord_amountSat := Some ''1000000'', ord_isPublic := Some False,
       ord_status := Some OPay, ord_prevChannelIds := Some []\<rparr>"

text \<open>A run that pays, sees the channel become active, and only then gets the payment's answer.\<close>

definition paying_run :: "order_event list" where
  "paying_run =
     [EvRequestInvoice (Some []),
      EvLspAnswer (Inr (Some (JObj [(''invoice'', JStr ''lnbc1''), (''invoiceAmountSat'', JNum 100)]))),
      EvPayClick (Some sample_balances),
      EvWaitNew (Some [sample_channel]),
      EvOpening (Some [sample_channel])]"

definition lightning_screen :: "order_ui ui" where
  "lightning_screen = fresh_screen \<lparr>cos_order = Some lightning_order, cos_storage = Map.empty\<rparr>"

lemmas run_sample_simps =
  run_screen_def paying_run_def lightning_screen_def fresh_screen_def mount_order_screen_def
  current_screen_def CurrentChannelOrder_def lightning_order_def empty_order_def sample_balances_def
  sample_channel_def

lemma paying_run_ends:
  "oui_inflight (ui_st (run_screen no_answer lightning_screen paying_run)) = 1 \<and>
   order_in (run_screen no_answer lightning_screen paying_run) =
     Some (lightning_order\<lparr>ord_status := Some OSuccess, ord_fundingTxId := Some ''tx1''\<rparr>)"
  by (simp add: run_sample_simps order_in_def request_invoice_def lsp_answer_def pay_click_def effect_simps
        lsp_order_response_def shows_pay_button_def canPayInternally_def useWaitForNewChannel_def
        new_channel_def ChannelOpening_def opening_channel_def jget_def jget_str_def jget_int_def json_truthy_def
        update_order_def updateOrder_def setOrder_def merge_order_def status_update_def opening_update_def)

lemma late_payment_sets_back_witness:
  "current_screen (run_screen no_answer lightning_screen paying_run) = SuccessScreen \<and>
   current_screen (run_screen no_answer lightning_screen (paying_run @ [EvPayAnswer (Inr None)])) = PaidLightning"
proof -
  let ?w = "run_screen no_answer lightning_screen paying_run"
  have inflight: "oui_inflight (ui_st ?w) > 0" using paying_run_ends by simp
  from late_payment_sets_back [OF inflight conjunct2 [OF paying_run_ends], of no_answer None]
  show ?thesis
    using paying_run_ends by (simp add: current_screen_def CurrentChannelOrder_def order_in_def)
qed

section \<open>The deposit\<close>

lemma ceil_10000_bounds:
  assumes "ceil_10000 (Fin r) = Fin q"
  shows "r \<le> q" "q < r + 10000" "\<exists>k::int. q = of_int (k * 10000)"
proof -
  have q: "q = of_int (\<lceil>r / 10000\<rceil>) * 10000" using assms by (simp add: ceil_10000_def)
  have "r / 10000 \<le> of_int \<lceil>r / 10000\<rceil>" "of_int \<lceil>r / 10000\<rceil> < r / 10000 + 1"
    by linarith+
  then show "r \<le> q" "q < r + 10000" unfolding q by linarith+
  show "\<exists>k::int. q = of_int (k * 10000)" unfolding q by (intro exI [of _ "\<lceil>r / 10000\<rceil>"]) simp
qed

text \<open>C20: The deposit that is asked for is enough, round and minimal. When an on-chain order of
  amount \<open>a\<close> has to be topped up and the data are there, the recommended deposit is a whole
  positive multiple of 10000 satoshis; together with the on-chain balance it covers the channel,
  the estimated fee and the missing anchor reserves, and exceeds that by less than 10000; and
  after the deposit the screen no longer asks for one.\<close>

theorem topup_covers_the_channel:
  assumes "PayBitcoinChannelOrder (Some b) ord = Inr Topup"
    and "PayBitcoinChannelOrderTopup channels (Some b) addr utxos (Some fee) ord
           = Inr (TopupAsk unspent rec link)"
    and "num_amount ord = Fin a" and "0 < fee"
  shows "\<exists>k::int. 0 < k \<and> rec = Fin (of_int (k * 10000)) \<and>
           a + of_int (200 * fee + anchor_reserve channels (ob_reservedSat (bal_onchain b)))
             \<le> of_int (ob_totalSat (bal_onchain b) + k * 10000) \<and>
           of_int (ob_totalSat (bal_onchain b) + k * 10000)
             < a + of_int (200 * fee + anchor_reserve channels (ob_reservedSat (bal_onchain b)) + 10000) \<and>
           PayBitcoinChannelOrder
             (Some (b\<lparr>bal_onchain := (bal_onchain b)\<lparr>ob_totalSat := ob_totalSat (bal_onchain b) + k * 10000\<rparr>\<rparr>))
             ord \<noteq> Inr Topup"
proof -
  let ?R = "anchor_reserve channels (ob_reservedSat (bal_onchain b))" and ?T = "ob_totalSat (bal_onchain b)"
  let ?m = "a + of_int (200 * fee + ?R - ?T)"
  have pm: "ord_paymentMethod ord = Some PMOnchain" and small: "of_int ?T \<le> a"
    using assms(1,3) by (auto simp: PayBitcoinChannelOrder_def split: if_splits)
  have rec: "rec = ceil_10000 (Fin ?m)"
    using assms(2,3) by (auto simp: PayBitcoinChannelOrderTopup_def Let_def useEstimatedTransactionFeeSat_def
        add_num_def split: if_splits)
  then obtain q where q: "ceil_10000 (Fin ?m) = Fin q" by (simp add: ceil_10000_def)
  from ceil_10000_bounds [OF q] obtain k :: int where k: "q = of_int (k * 10000)"
    and lo: "?m \<le> of_int (k * 10000)" and hi: "of_int (k * 10000) < ?m + 10000" by auto
  have R: "0 \<le> ?R" by (simp add: anchor_reserve_def Let_def)
  have "0 < ?m" using small assms(4) R by simp
  then have k0: "0 < k" using lo by (simp add: order_less_le_trans)
  have cover: "a + of_int (200 * fee + ?R) \<le> of_int (?T + k * 10000)"
    and tight: "of_int (?T + k * 10000) < a + of_int (200 * fee + ?R + 10000)"
    using lo hi by simp_all
  have "(0::rat) < of_int (200 * fee + ?R)" using assms(4) R by simp
  then have "int_gt (?T + k * 10000) (num_amount ord)" using cover assms(3) by simp
  with pm k0 rec q k cover tight show ?thesis
    by (intro exI [of _ k]) (simp add: PayBitcoinChannelOrder_def)
qed

lemma shown_amounts [js_simps]: "show_nat 250000 = ''250000''" "show_nat 200000 = ''200000''" "show_nat 1000000 = ''1000000''"
  by (simp_all add: show_nat.simps js_simps)

lemma amount_of_sample: "num_amount sample_order = Fin 250000"
  using js_Number_show_nat [of 250000] shown_amounts by (simp add: num_amount_def sample_order_def)

theorem topup_covers_the_channel_witness:
  "\<exists>k::int. 0 < k \<and> (Fin 200000 :: jsnum) = Fin (of_int (k * 10000))"
proof -
  have up: "\<lceil>97 / 5 :: rat\<rceil> = 20" by (rule ceiling_unique) simp_all
  have ask: "PayBitcoinChannelOrderTopup None (Some sample_balances) (Some ''bc1q'') None (Some 20) sample_order
       = Inr (TopupAsk 0 (Fin 200000) ''https://getalby.com/topup?address=bc1q&receive_amount=200000'')"
    using amount_of_sample shown_amounts up
    by (simp add: PayBitcoinChannelOrderTopup_def Let_def useEstimatedTransactionFeeSat_def add_num_def
        ceil_10000_def anchor_reserve_def sample_balances_def sample_order_def show_int_def)
  have "PayBitcoinChannelOrder (Some sample_balances) sample_order = Inr Topup"
    using amount_of_sample by (simp add: PayBitcoinChannelOrder_def sample_balances_def sample_order_def)
  from topup_covers_the_channel [OF this ask amount_of_sample] show ?thesis by auto
qed

section \<open>Opening the channel\<close>

definition known_peer :: "Peer list \<Rightarrow> NewChannelOrder \<Rightarrow> bool" where
  "known_peer ps ord = (\<exists>p \<in> set ps. Some (peer_nodeId p) = ord_pubkey ord)"

lemma known_peer_ex: "list_ex (\<lambda>p. Some (peer_nodeId p) = ord_pubkey ord) ps = known_peer ps ord"
  by (simp add: known_peer_def list_ex_iff)

lemma openChannel_known:
  assumes "ord_paymentMethod ord = Some PMOnchain" and "known_peer ps ord"
  shows "openChannel srv (Some ps) nd ord w =
           (let req = EFetch ''POST'' ''/api/channels'' (Some (open_channel_json ord));
                failed = (\<lambda>e. (Inr (), w\<lparr>ui_log := ui_log w @
                   [req, EToastError ''Something went wrong'' (Some (error_text e))]\<rparr>))
            in (case srv (ui_log w) ''POST'' ''/api/channels'' (Some (open_channel_json ord)) of
                  Inl e \<Rightarrow> failed e
                | Inr res \<Rightarrow>
                    (case Option.bind res (jget_str ''fundingTxId'') of
                       Some (c # cs) \<Rightarrow>
                         (Inr (), w\<lparr>ui_st := update_order (opening_update (c # cs)) (ui_st w),
                                   ui_log := ui_log w @ [req,
                                     EToast ''Successfully published channel opening transaction'' None]\<rparr>)
                     | _ \<Rightarrow> failed ''No funding txid in response'')))"
  using assms
  by (simp add: openChannel_def publish_channel_def json_post_def effect_simps known_peer_ex Let_def
      truthy_str_def split: sum.split option.split list.split)

lemma connectPeer_unreachable:
  assumes "\<forall>l b. isl (srv l ''POST'' ''/api/peers'' b)"
  shows "isl (fst (connectPeer srv nd pk h w))"
  using assms unfolding connectPeer_def json_post_def effect_simps Let_def
  by (auto split: sum.splits prod.splits) (metis sum.disc(2))+

lemma openChannel_unreachable:
  assumes "\<not> known_peer ps ord" and "\<forall>l b. isl (srv l ''POST'' ''/api/peers'' b)"
  shows "ui_st (snd (openChannel srv (Some ps) nd ord w)) = ui_st w \<and>
         posts_to ''/api/channels'' (ui_log (snd (openChannel srv (Some ps) nd ord w)))
           \<le> posts_to ''/api/channels'' (ui_log w)"
proof -
  let ?c = "connectPeer srv nd (ord_pubkey ord) (ord_host ord) w"
  obtain e w' where c: "?c = (Inl e, w')"
    using connectPeer_unreachable [of srv nd "ord_pubkey ord" "ord_host ord" w] assms(2)
    by (cases ?c) (auto simp: isl_def)
  have "ui_st w' = ui_st w" "posts_to ''/api/channels'' (ui_log w') \<le> posts_to ''/api/channels'' (ui_log w)"
    using movesD [OF connectPeer_state, of w srv nd "ord_pubkey ord" "ord_host ord"]
      costsD [OF connectPeer_costs, of "''/api/channels''" srv nd "ord_pubkey ord" "ord_host ord" w] c
    by simp_all
  with c assms(1) show ?thesis
    by (simp add: openChannel_def effect_simps known_peer_ex)
qed

text \<open>Opening a channel on every outcome. For a connected peer the one request is the channel
  opening with the order's public key and amount; a response with a funding transaction stores
  it with status \<open>opening\<close>, any other response or an error leaves the order alone and is shown.
  For a peer that is not connected and cannot be reached no channel opening is requested and the
  order stays as it is.\<close>

lemma openChannel_outcomes:
  assumes "ord_paymentMethod ord = Some PMOnchain"
  shows "(known_peer ps ord \<longrightarrow>
           (let req = EFetch ''POST'' ''/api/channels'' (Some (open_channel_json ord));
                failed = (\<lambda>e. (Inr (), w\<lparr>ui_log := ui_log w @
                   [req, EToastError ''Something went wrong'' (Some (error_text e))]\<rparr>))
            in openChannel srv (Some ps) nd ord w =
               (case srv (ui_log w) ''POST'' ''/api/channels'' (Some (open_channel_json ord)) of
                  Inl e \<Rightarrow> failed e
                | Inr res \<Rightarrow>
                    (case Option.bind res (jget_str ''fundingTxId'') of
                       Some (c # cs) \<Rightarrow>
                         (Inr (), w\<lparr>ui_st := update_order (opening_update (c # cs)) (ui_st w),
                                   ui_log := ui_log w @ [req,
                                     EToast ''Successfully published channel opening transaction'' None]\<rparr>)
                     | _ \<Rightarrow> failed ''No funding txid in response'')))) \<and>
         (\<not> known_peer ps ord \<and> (\<forall>l b. isl (srv l ''POST'' ''/api/peers'' b)) \<longrightarrow>
            ui_st (snd (openChannel srv (Some ps) nd ord w)) = ui_st w \<and>
            posts_to ''/api/channels'' (ui_log (snd (openChannel srv (Some ps) nd ord w)))
              \<le> posts_to ''/api/channels'' (ui_log w))"
  using openChannel_known [OF assms, of ps srv nd w] openChannel_unreachable [of ps ord srv nd w]
  by (simp add: Let_def)

lemma openChannel_outcomes_witness:
  "ui_log (snd (openChannel no_answer (Some [\<lparr>peer_nodeId = ''02ab'', peer_address = ''h:1'',
       peer_isPersisted = True, peer_isConnected = True\<rparr>]) None sample_order opening_screen)) =
     [EFetch ''POST'' ''/api/channels'' (Some (open_channel_json sample_order)),
      EToastError ''Something went wrong'' (Some ''Error: No funding txid in response'')]"
proof -
  have "ord_paymentMethod sample_order = Some PMOnchain" by (simp add: sample_order_def)
  moreover have "known_peer [\<lparr>peer_nodeId = ''02ab'', peer_address = ''h:1'', peer_isPersisted = True,
      peer_isConnected = True\<rparr>] sample_order"
    by (simp add: known_peer_def sample_order_def)
  ultimately show ?thesis
    using openChannel_outcomes [of sample_order "[\<lparr>peer_nodeId = ''02ab'', peer_address = ''h:1'',
        peer_isPersisted = True, peer_isConnected = True\<rparr>]" opening_screen no_answer None]
    by (simp add: Let_def no_answer_def opening_screen_def fresh_screen_def error_text_def)
qed

end
