(* ===== verification/NewChannel.thy ===== *)
theory NewChannel imports ChannelOrder
begin

text \<open>
  The two forms that create a channel order: \<open>screens/channels/IncreaseOutgoingCapacity.tsx\<close>
  (on-chain) and \<open>screens/channels/IncreaseIncomingCapacity.tsx\<close> (bought from an LSP). A
  form is a record; its inputs, effects and submit handlers are functions on it. An effect
  that React runs after a state change is composed with the change.
\<close>

section \<open>Peers as keys of the select box\<close>

fun network_str :: "Network \<Rightarrow> string" where
  "network_str NetBitcoin = ''bitcoin''"
| "network_str NetTestnet = ''testnet''"
| "network_str NetSignet = ''signet''"

definition peer_json :: "RecommendedChannelPeer \<Rightarrow> json" where
  "peer_json p =
     JObj ([(''network'', JStr (network_str (rcp_network p))), (''image'', JStr (rcp_image p)),
            (''name'', JStr (rcp_name p)), (''minimumChannelSizeSat'', JNum (rcp_minimumChannelSizeSat p)),
            (''maximumChannelSizeSat'', JNum (rcp_maximumChannelSizeSat p)), (''note'', JStr (rcp_note p)),
            (''publicChannelsAllowed'', JBool (rcp_publicChannelsAllowed p)),
            (''description'', JStr (rcp_description p))] @
           (case rcp_method p of
              OnchainPeer k h \<Rightarrow>
                [(''paymentMethod'', JStr ''onchain''), (''pubkey'', JStr k), (''host'', JStr h)]
            | ViaLightning l \<Rightarrow>
                [(''paymentMethod'', JStr ''lightning''), (''type'', JStr (lsp_str (lp_type l))),
                 (''identifier'', JStr (lp_identifier l)), (''contactUrl'', JStr (lp_contactUrl l))] @
                opt_member ''terms'' (map_option JStr (lp_terms l)) @
                opt_member ''pubkey'' (map_option JStr (lp_pubkey l)) @
                opt_member ''maximumChannelExpiryBlocks'' (map_option JNum (lp_maximumChannelExpiryBlocks l)) @
                opt_member ''feeTotalSat1m'' (map_option JNum (lp_feeTotalSat1m l)) @
                opt_member ''feeTotalSat2m'' (map_option JNum (lp_feeTotalSat2m l)) @
                opt_member ''feeTotalSat3m'' (map_option JNum (lp_feeTotalSat3m l)) @
                opt_member ''nodeAddress'' (map_option JStr (lp_nodeAddress l))))"

definition getPeerKey :: "RecommendedChannelPeer \<Rightarrow> string" where
  "getPeerKey p = json_stringify (peer_json p)"

definition peer_payment :: "RecommendedChannelPeer \<Rightarrow> PaymentMethod" where
  "peer_payment p = (case rcp_method p of OnchainPeer _ _ \<Rightarrow> PMOnchain | ViaLightning _ \<Rightarrow> PMLightning)"

definition is_lsps1 :: "RecommendedChannelPeer \<Rightarrow> bool" where
  "is_lsps1 p = (case rcp_method p of ViaLightning l \<Rightarrow> lp_type l = LSPS1 | OnchainPeer _ _ \<Rightarrow> False)"

definition find_peer :: "Network \<Rightarrow> NewChannelOrder \<Rightarrow> RecommendedChannelPeer list \<Rightarrow> RecommendedChannelPeer option" where
  "find_peer network ord ps =
     List.find (\<lambda>p. rcp_network p = network \<and> Some (peer_payment p) = ord_paymentMethod ord) ps"

definition all_public :: "Channel list \<Rightarrow> bool" where
  "all_public channels = (channels \<noteq> [] \<and> list_all ch_public channels)"

section \<open>The on-chain form\<close>

record outgoing_form =
  of_order :: NewChannelOrder
  of_selectedPeer :: "RecommendedChannelPeer option"
  of_showConfirmModal :: bool
  of_store :: ChannelOrderStore

definition outgoing_presets :: "int list" where
  "outgoing_presets = [250000, 500000, 1000000]"

definition init_outgoing :: "Channel list \<Rightarrow> ChannelOrderStore \<Rightarrow> outgoing_form" where
  "init_outgoing channels st =
     \<lparr>of_order = empty_order\<lparr>ord_paymentMethod := Some PMOnchain, ord_status := Some OPay,
        ord_amountSat := Some (show_int (outgoing_presets ! 0)),
        ord_isPublic := Some (all_public channels)\<rparr>,
      of_selectedPeer = None, of_showConfirmModal = False, of_store = st\<rparr>"

definition custom_option :: "Network \<Rightarrow> RecommendedChannelPeer" where
  "custom_option network =
     \<lparr>rcp_network = network, rcp_image = [], rcp_name = ''Custom'', rcp_minimumChannelSizeSat = 0,
      rcp_maximumChannelSizeSat = 0, rcp_note = [], rcp_publicChannelsAllowed = True,
      rcp_description = [], rcp_method = OnchainPeer [] []\<rparr>"

definition outgoing_suggestions ::
    "Network \<Rightarrow> RecommendedChannelPeer list option \<Rightarrow> RecommendedChannelPeer list" where
  "outgoing_suggestions network sugg =
     (case sugg of
        None \<Rightarrow> [custom_option network]
      | Some ps \<Rightarrow> filter (\<lambda>p. peer_payment p \<noteq> PMLightning) ps @ [custom_option network])"

text \<open>The effect on \<open>selectedPeer\<close>.\<close>

definition outgoing_apply_peer :: "outgoing_form \<Rightarrow> outgoing_form" where
  "outgoing_apply_peer f =
     (case of_selectedPeer f of
        None \<Rightarrow> f
      | Some p \<Rightarrow>
          (case rcp_method p of
             ViaLightning _ \<Rightarrow> f
           | OnchainPeer k h \<Rightarrow>
               if ord_paymentMethod (of_order f) = Some PMOnchain
               then f\<lparr>of_order := (of_order f)\<lparr>ord_pubkey := Some k, ord_host := Some h,
                        ord_isPublic := (if rcp_publicChannelsAllowed p then ord_isPublic (of_order f)
                                         else Some False)\<rparr>\<rparr>
               else f))"

definition outgoing_select :: "RecommendedChannelPeer option \<Rightarrow> outgoing_form \<Rightarrow> outgoing_form" where
  "outgoing_select p f = outgoing_apply_peer (f\<lparr>of_selectedPeer := p\<rparr>)"

datatype outgoing_event =
    OutSuggestions "RecommendedChannelPeer list option"
  | OutPickPeer string "RecommendedChannelPeer list option"
  | OutTogglePublic
  | OutAmount string
  | OutPubkeyInput string
  | OutHostInput string
  | OutNodeDetails "MempoolNode option"
  | OutSubmit
  | OutCancel
  | OutConfirm "Channel list"

definition set_host :: "string \<Rightarrow> outgoing_form \<Rightarrow> outgoing_form" where
  "set_host h f = f\<lparr>of_order := (of_order f)\<lparr>ord_paymentMethod := Some PMOnchain, ord_host := Some h\<rparr>\<rparr>"

definition set_pubkey :: "string \<Rightarrow> outgoing_form \<Rightarrow> outgoing_form" where
  "set_pubkey k f = f\<lparr>of_order := (of_order f)\<lparr>ord_paymentMethod := Some PMOnchain, ord_pubkey := Some k\<rparr>\<rparr>"

text \<open>The input \<open>pubkey@host\<close>.\<close>

definition pubkey_input :: "string \<Rightarrow> outgoing_form \<Rightarrow> outgoing_form" where
  "pubkey_input value f =
     (let parts = split_on CHR ''@'' (trim value); g = set_pubkey (parts ! 0) f
      in if length parts > 1 then set_host (parts ! 1) g else g)"

definition node_details_effect :: "MempoolNode option \<Rightarrow> outgoing_form \<Rightarrow> outgoing_form" where
  "node_details_effect nodeDetails f =
     (let socketAddress = map_option (\<lambda>d. hd (split_on CHR '','' (mn_sockets d))) nodeDetails
      in if truthy_str socketAddress then set_host (the socketAddress) f else f)"

definition unconfirmed_opening :: "Channel \<Rightarrow> bool" where
  "unconfirmed_opening c =
     (ch_status c = ChOpening \<and> ch_isOutbound c \<and> \<not> truthy_int (ch_confirmations c))"

definition already_opening :: string where
  "already_opening =
     ''You already are opening a channel which has not been confirmed yet. Please wait for one block confirmation.''"

definition handleConfirmSubmit :: "Channel list \<Rightarrow> (outgoing_form, unit) act" where
  "handleConfirmSubmit channels =
     tryCatch
       (andDo (require (\<not> list_ex unconfirmed_opening channels) already_opening)
       (andDo (setS (\<lambda>f. f\<lparr>of_store := setOrder (of_order f) (of_store f)\<rparr>))
       (andDo (setS (\<lambda>f. f\<lparr>of_showConfirmModal := False\<rparr>))
              (emit (ENavigate ''/channels/order'')))))
       (\<lambda>e. andDo (emit (EToastError ''Something went wrong'' (Some (error_text e))))
                  (setS (\<lambda>f. f\<lparr>of_showConfirmModal := False\<rparr>)))"

fun outgoing_step :: "Network \<Rightarrow> outgoing_form ui \<Rightarrow> outgoing_event \<Rightarrow> outgoing_form ui" where
  "outgoing_step net w (OutSuggestions sugg) =
     w\<lparr>ui_st := outgoing_select (find_peer net (of_order (ui_st w)) (outgoing_suggestions net sugg)) (ui_st w)\<rparr>"
| "outgoing_step net w (OutPickPeer key sugg) =
     w\<lparr>ui_st := outgoing_select
         (List.find (\<lambda>p. getPeerKey p = key) (outgoing_suggestions net sugg)) (ui_st w)\<rparr>"
| "outgoing_step net w OutTogglePublic =
     (case of_selectedPeer (ui_st w) of
        Some p \<Rightarrow>
          if \<not> rcp_publicChannelsAllowed p then w
          else w\<lparr>ui_st := (ui_st w)\<lparr>of_order := (of_order (ui_st w))
                  \<lparr>ord_isPublic := Some (ord_isPublic (of_order (ui_st w)) \<noteq> Some True)\<rparr>\<rparr>\<rparr>
      | None \<Rightarrow> w\<lparr>ui_st := (ui_st w)\<lparr>of_order := (of_order (ui_st w))
                  \<lparr>ord_isPublic := Some (ord_isPublic (of_order (ui_st w)) \<noteq> Some True)\<rparr>\<rparr>\<rparr>)"
| "outgoing_step net w (OutAmount value) =
     w\<lparr>ui_st := (ui_st w)\<lparr>of_order := (of_order (ui_st w))\<lparr>ord_amountSat := Some (trim value)\<rparr>\<rparr>\<rparr>"
| "outgoing_step net w (OutPubkeyInput value) = w\<lparr>ui_st := pubkey_input value (ui_st w)\<rparr>"
| "outgoing_step net w (OutHostInput value) = w\<lparr>ui_st := set_host (trim value) (ui_st w)\<rparr>"
| "outgoing_step net w (OutNodeDetails d) = w\<lparr>ui_st := node_details_effect d (ui_st w)\<rparr>"
| "outgoing_step net w OutSubmit = w\<lparr>ui_st := (ui_st w)\<lparr>of_showConfirmModal := True\<rparr>\<rparr>"
| "outgoing_step net w OutCancel = w\<lparr>ui_st := (ui_st w)\<lparr>of_showConfirmModal := False\<rparr>\<rparr>"
| "outgoing_step net w (OutConfirm channels) =
     (if of_showConfirmModal (ui_st w) then snd (handleConfirmSubmit channels w) else w)"

definition openImmediately :: "BalancesResponse \<Rightarrow> NewChannelOrder \<Rightarrow> bool" where
  "openImmediately b ord =
     (truthy_str (ord_amountSat ord) \<and> ord_paymentMethod ord = Some PMOnchain \<and>
      int_gt (ob_spendableSat (bal_onchain b)) (num_amount ord))"

section \<open>The Lightning form\<close>

record incoming_form =
  if_order :: NewChannelOrder
  if_showAdvanced :: bool
  if_selectedPeer :: "RecommendedChannelPeer option"
  if_store :: ChannelOrderStore

definition incoming_presets :: "int list" where
  "incoming_presets = [1000000, 2000000, 3000000]"

definition init_incoming :: "Channel list \<Rightarrow> ChannelOrderStore \<Rightarrow> incoming_form" where
  "init_incoming channels st =
     \<lparr>if_order = empty_order\<lparr>ord_paymentMethod := Some PMLightning, ord_status := Some OPay,
        ord_amountSat := Some (show_int (incoming_presets ! 0)),
        ord_prevChannelIds := Some (map ch_id channels),
        ord_isPublic := Some (all_public channels)\<rparr>,
      if_showAdvanced = False, if_selectedPeer = None, if_store = st\<rparr>"

definition incoming_suggestions ::
    "RecommendedChannelPeer list option \<Rightarrow> RecommendedChannelPeer list option" where
  "incoming_suggestions = map_option (filter (\<lambda>p. peer_payment p = PMLightning \<and> is_lsps1 p))"

definition incoming_apply_peer :: "incoming_form \<Rightarrow> incoming_form" where
  "incoming_apply_peer f =
     (case if_selectedPeer f of
        None \<Rightarrow> f
      | Some p \<Rightarrow>
          (case rcp_method p of
             OnchainPeer _ _ \<Rightarrow> f
           | ViaLightning l \<Rightarrow>
               if ord_paymentMethod (if_order f) = Some PMLightning
               then f\<lparr>if_order := (if_order f)\<lparr>ord_lspType := Some (lp_type l),
                        ord_lspIdentifier := Some (lp_identifier l),
                        ord_isPublic := (if rcp_publicChannelsAllowed p then ord_isPublic (if_order f)
                                         else Some False)\<rparr>\<rparr>
               else f))"

definition incoming_select :: "RecommendedChannelPeer option \<Rightarrow> incoming_form \<Rightarrow> incoming_form" where
  "incoming_select p f = incoming_apply_peer (f\<lparr>if_selectedPeer := p\<rparr>)"

text \<open>\<open>parseInt(order.amountSat || "0")\<close>.\<close>

definition parsed_amount :: "NewChannelOrder \<Rightarrow> int option" where
  "parsed_amount ord = js_parseInt (or_str (ord_amountSat ord) ''0'')"

definition ok_partner :: "Network \<Rightarrow> Channel list \<Rightarrow> NewChannelOrder \<Rightarrow> RecommendedChannelPeer \<Rightarrow> bool" where
  "ok_partner network channels ord p =
     ((case parsed_amount ord of
         None \<Rightarrow> False
       | Some a \<Rightarrow> a \<ge> rcp_minimumChannelSizeSat p \<and> a \<le> rcp_maximumChannelSizeSat p) \<and>
      rcp_network p = network \<and> peer_payment p = PMLightning \<and> is_lsps1 p \<and>
      truthy_str (rcp_pubkey p) \<and>
      (rcp_publicChannelsAllowed p \<or> ord_isPublic ord \<noteq> Some True) \<and>
      \<not> list_ex (\<lambda>c. Some (ch_remotePubkey c) = rcp_pubkey p) channels)"

definition bestPartner ::
    "Network \<Rightarrow> Channel list \<Rightarrow> NewChannelOrder \<Rightarrow> RecommendedChannelPeer list option \<Rightarrow>
     RecommendedChannelPeer option" where
  "bestPartner network channels ord sugg =
     (case sugg of
        None \<Rightarrow> None
      | Some ps \<Rightarrow> (case filter (ok_partner network channels ord) ps of [] \<Rightarrow> None | p # _ \<Rightarrow> Some p))"

text \<open>\<open>onSubmit\<close>: an early return after the toast ends the handler.\<close>

definition incoming_submit ::
    "Network \<Rightarrow> Channel list \<Rightarrow> RecommendedChannelPeer list option \<Rightarrow> (incoming_form, unit) act" where
  "incoming_submit network channels sugg =
     andThen (getS id)
     (\<lambda>f. tryCatch
       (if if_showAdvanced f
        then andDo (setS (\<lambda>g. g\<lparr>if_store := setOrder (if_order f) (if_store g)\<rparr>))
                   (emit (ENavigate ''/channels/order''))
        else
          andDo (require (sugg \<noteq> None) ''Channel Peer suggestions not loaded'')
          (andDo (require (truthy_int (parsed_amount (if_order f))) ''No amount set'')
             (case bestPartner network channels (if_order f) sugg of
                None \<Rightarrow>
                  emit (EToastError ''No channel partner found''
                    (Some ''No ideal channel partner found. Please choose from the advanced options to continue''))
              | Some p \<Rightarrow>
                  (case rcp_method p of
                     OnchainPeer _ _ \<Rightarrow> throw ''Unexpected partner payment method''
                   | ViaLightning l \<Rightarrow>
                       andDo (setS (\<lambda>g. g\<lparr>if_store := setOrder
                                ((if_order f)\<lparr>ord_paymentMethod := Some PMLightning,
                                   ord_lspType := Some (lp_type l),
                                   ord_lspIdentifier := Some (lp_identifier l)\<rparr>) (if_store g)\<rparr>))
                             (emit (ENavigate ''/channels/order''))))))
       (\<lambda>e. emit (EToastError ''Something went wrong'' (Some (error_text e)))))"

text \<open>The price shown for the three preset sizes.\<close>

definition estimatedChannelPrice :: "RecommendedChannelPeer option \<Rightarrow> NewChannelOrder \<Rightarrow> int option" where
  "estimatedChannelPrice partner ord =
     (case partner of
        None \<Rightarrow> None
      | Some p \<Rightarrow>
          (case rcp_method p of
             OnchainPeer _ _ \<Rightarrow> None
           | ViaLightning l \<Rightarrow>
               if ord_amountSat ord = Some ''1000000'' then lp_feeTotalSat1m l
               else if ord_amountSat ord = Some ''2000000'' then lp_feeTotalSat2m l
               else if ord_amountSat ord = Some ''3000000'' then lp_feeTotalSat3m l
               else None))"

datatype incoming_event =
    InSuggestions "RecommendedChannelPeer list option"
  | InPickPeer string "RecommendedChannelPeer list option"
  | InTogglePublic
  | InAmount string
  | InAdvanced
  | InSubmit "Channel list" "RecommendedChannelPeer list option"

text \<open>The select box and the check box are only there in the advanced form.\<close>

fun incoming_step :: "Network \<Rightarrow> incoming_form ui \<Rightarrow> incoming_event \<Rightarrow> incoming_form ui" where
  "incoming_step net w (InSuggestions sugg) =
     (case incoming_suggestions sugg of
        None \<Rightarrow> w
      | Some ps \<Rightarrow> w\<lparr>ui_st := incoming_select (find_peer net (if_order (ui_st w)) ps) (ui_st w)\<rparr>)"
| "incoming_step net w (InPickPeer key sugg) =
     (case incoming_suggestions sugg of
        None \<Rightarrow> w
      | Some ps \<Rightarrow>
          if \<not> if_showAdvanced (ui_st w) then w
          else w\<lparr>ui_st := incoming_select (List.find (\<lambda>p. getPeerKey p = key) ps) (ui_st w)\<rparr>)"
| "incoming_step net w InTogglePublic =
     (case if_selectedPeer (ui_st w) of
        Some p \<Rightarrow>
          if \<not> if_showAdvanced (ui_st w) \<or> \<not> rcp_publicChannelsAllowed p then w
          else w\<lparr>ui_st := (ui_st w)\<lparr>if_order := (if_order (ui_st w))
                  \<lparr>ord_isPublic := Some (ord_isPublic (if_order (ui_st w)) \<noteq> Some True)\<rparr>\<rparr>\<rparr>
      | None \<Rightarrow>
          if \<not> if_showAdvanced (ui_st w) then w
          else w\<lparr>ui_st := (ui_st w)\<lparr>if_order := (if_order (ui_st w))
                  \<lparr>ord_isPublic := Some (ord_isPublic (if_order (ui_st w)) \<noteq> Some True)\<rparr>\<rparr>\<rparr>)"
| "incoming_step net w (InAmount value) =
     w\<lparr>ui_st := (ui_st w)\<lparr>if_order := (if_order (ui_st w))\<lparr>ord_amountSat := Some (trim value)\<rparr>\<rparr>\<rparr>"
| "incoming_step net w InAdvanced =
     (if if_showAdvanced (ui_st w) then w
      else w\<lparr>ui_st := (ui_st w)\<lparr>if_showAdvanced := \<not> if_showAdvanced (ui_st w)\<rparr>\<rparr>)"
| "incoming_step net w (InSubmit channels sugg) =
     snd (incoming_submit net channels (incoming_suggestions sugg) w)"

section \<open>Invariants of the forms\<close>

definition outgoing_ok :: "outgoing_form \<Rightarrow> bool" where
  "outgoing_ok f =
     (ord_status (of_order f) = Some OPay \<and> ord_paymentMethod (of_order f) = Some PMOnchain \<and>
      ord_amountSat (of_order f) \<noteq> None \<and>
      (case of_selectedPeer f of
         None \<Rightarrow> True
       | Some p \<Rightarrow> peer_payment p = PMOnchain \<and>
           (rcp_publicChannelsAllowed p \<or> ord_isPublic (of_order f) \<noteq> Some True)))"

lemma outgoing_suggestions_onchain:
  "p \<in> set (outgoing_suggestions net sugg) \<Longrightarrow> peer_payment p = PMOnchain"
  by (auto simp: outgoing_suggestions_def custom_option_def peer_payment_def
           split: option.splits PeerMethod.splits)

lemma outgoing_select_ok:
  "outgoing_ok f \<Longrightarrow> (\<And>q. p = Some q \<Longrightarrow> peer_payment q = PMOnchain) \<Longrightarrow> outgoing_ok (outgoing_select p f)"
  by (cases p) (auto simp: outgoing_ok_def outgoing_select_def outgoing_apply_peer_def peer_payment_def
                     split: PeerMethod.splits)

lemma outgoing_input_ok:
  "outgoing_ok f \<Longrightarrow> outgoing_ok (set_host h f)"
  "outgoing_ok f \<Longrightarrow> outgoing_ok (set_pubkey h f)"
  "outgoing_ok f \<Longrightarrow> outgoing_ok (pubkey_input v f)"
  "outgoing_ok f \<Longrightarrow> outgoing_ok (node_details_effect d f)"
  by (auto simp: outgoing_ok_def set_host_def set_pubkey_def pubkey_input_def node_details_effect_def Let_def
           split: option.splits)

lemma confirm_keeps_form:
  "moves (\<lambda>f g. outgoing_ok f \<longrightarrow> outgoing_ok g) (handleConfirmSubmit channels)"
  unfolding handleConfirmSubmit_def
  by (intro moves_intros) (auto simp: reflp_def transp_def outgoing_ok_def split: option.splits)

lemma find_peer_in: "find_peer net ord ps = Some p \<Longrightarrow> p \<in> set ps"
  by (auto simp: find_peer_def dest: find_Some_iff)

lemma outgoing_step_ok: "outgoing_ok (ui_st w) \<Longrightarrow> outgoing_ok (ui_st (outgoing_step net w e))"
proof (cases e)
  case (OutConfirm channels)
  then show "outgoing_ok (ui_st w) \<Longrightarrow> ?thesis" using movesD [OF confirm_keeps_form, of w channels] by simp
next
  case OutTogglePublic
  then show "outgoing_ok (ui_st w) \<Longrightarrow> ?thesis" by (auto simp: outgoing_ok_def split: option.splits)
qed (auto simp: outgoing_input_ok intro!: outgoing_select_ok
          dest!: find_peer_in find_Some_iff outgoing_suggestions_onchain,
      auto simp: outgoing_ok_def split: option.splits)

interpretation outgoing: invariant_machine "outgoing_step net" "\<lambda>w. outgoing_ok (ui_st w)" for net
  by unfold_locales (rule outgoing_step_ok)

lemma init_outgoing_ok: "outgoing_ok (init_outgoing channels st)"
  by (simp add: outgoing_ok_def init_outgoing_def)

definition incoming_ok :: "incoming_form \<Rightarrow> bool" where
  "incoming_ok f =
     (ord_status (if_order f) = Some OPay \<and> ord_paymentMethod (if_order f) = Some PMLightning \<and>
      (case if_selectedPeer f of
         None \<Rightarrow> True
       | Some p \<Rightarrow>
           (case rcp_method p of
              OnchainPeer _ _ \<Rightarrow> False
            | ViaLightning l \<Rightarrow>
                ord_lspType (if_order f) = Some (lp_type l) \<and>
                ord_lspIdentifier (if_order f) = Some (lp_identifier l) \<and>
                (rcp_publicChannelsAllowed p \<or> ord_isPublic (if_order f) \<noteq> Some True))))"

lemma incoming_select_ok:
  "incoming_ok f \<Longrightarrow> (\<And>q. p = Some q \<Longrightarrow> peer_payment q = PMLightning) \<Longrightarrow> incoming_ok (incoming_select p f)"
  by (cases p) (auto simp: incoming_ok_def incoming_select_def incoming_apply_peer_def peer_payment_def
                     split: PeerMethod.splits)

lemma incoming_suggestions_lightning:
  "incoming_suggestions sugg = Some ps \<Longrightarrow> p \<in> set ps \<Longrightarrow> peer_payment p = PMLightning \<and> is_lsps1 p"
  by (auto simp: incoming_suggestions_def)

lemma incoming_submit_form:
  "if_order (ui_st (snd (incoming_submit net channels sugg w))) = if_order (ui_st w) \<and>
   if_selectedPeer (ui_st (snd (incoming_submit net channels sugg w))) = if_selectedPeer (ui_st w)"
  by (simp add: incoming_submit_def effect_simps split: option.splits PeerMethod.splits)

lemma incoming_step_ok: "incoming_ok (ui_st w) \<Longrightarrow> incoming_ok (ui_st (incoming_step net w e))"
proof (cases e)
  case (InSubmit channels sugg)
  then show "incoming_ok (ui_st w) \<Longrightarrow> ?thesis"
    using incoming_submit_form [of net channels "incoming_suggestions sugg" w]
    by (auto simp: incoming_ok_def split: option.splits PeerMethod.splits)
next
  case InTogglePublic
  then show "incoming_ok (ui_st w) \<Longrightarrow> ?thesis"
    by (auto simp: incoming_ok_def split: option.splits PeerMethod.splits)
next
  case (InSuggestions sugg)
  then show "incoming_ok (ui_st w) \<Longrightarrow> ?thesis"
    by (auto split: option.split intro!: incoming_select_ok
             dest!: find_peer_in dest: incoming_suggestions_lightning)
next
  case (InPickPeer k sugg)
  then show "incoming_ok (ui_st w) \<Longrightarrow> ?thesis"
    by (auto split: option.split intro!: incoming_select_ok
             dest!: find_Some_iff dest: incoming_suggestions_lightning)
qed (auto simp: incoming_ok_def split: option.splits PeerMethod.splits)

interpretation incoming: invariant_machine "incoming_step net" "\<lambda>w. incoming_ok (ui_st w)" for net
  by unfold_locales (rule incoming_step_ok)

lemma init_incoming_ok: "incoming_ok (init_incoming channels st)"
  by (simp add: incoming_ok_def init_incoming_def)

section \<open>Properties\<close>

definition outgoing_start :: "Channel list \<Rightarrow> ChannelOrderStore \<Rightarrow> outgoing_form ui" where
  "outgoing_start channels st = \<lparr>ui_st = init_outgoing channels st, ui_log = []\<rparr>"

definition run_outgoing :: "Network \<Rightarrow> Channel list \<Rightarrow> ChannelOrderStore \<Rightarrow> outgoing_event list \<Rightarrow> outgoing_form ui" where
  "run_outgoing net channels st es = foldl (outgoing_step net) (outgoing_start channels st) es"

lemma confirm_blocked:
  "list_ex unconfirmed_opening channels \<Longrightarrow>
   of_store (ui_st (snd (handleConfirmSubmit channels w))) = of_store (ui_st w)"
  by (simp add: handleConfirmSubmit_def effect_simps)

lemma confirm_stores:
  "\<not> list_ex unconfirmed_opening channels \<Longrightarrow>
   cos_order (of_store (ui_st (snd (handleConfirmSubmit channels w)))) = Some (of_order (ui_st w)) \<and>
   ui_log (snd (handleConfirmSubmit channels w)) = ui_log w @ [ENavigate ''/channels/order'']"
  by (simp add: handleConfirmSubmit_def effect_simps setOrder_def)

text \<open>C36: What the on-chain form can submit. After any inputs, choices of peers and polled data,
  confirming stores the form's order and goes to the order page, which then shows the payment
  with on-chain funds; the order never asks for a public channel of a selected peer that does not
  take public channels. While an own channel opening is unconfirmed, confirming stores nothing.\<close>

theorem outgoing_order_submitted:
  assumes "of_showConfirmModal (ui_st (run_outgoing net cs st es))"
  shows "(\<not> list_ex unconfirmed_opening channels \<longrightarrow>
            (\<exists>ord. cos_order (of_store (ui_st (run_outgoing net cs st (es @ [OutConfirm channels])))) = Some ord \<and>
               ord = of_order (ui_st (run_outgoing net cs st es)) \<and>
               CurrentChannelOrder (Some ord) = PayBitcoin ord \<and>
               (\<forall>p. of_selectedPeer (ui_st (run_outgoing net cs st es)) = Some p \<and> ord_isPublic ord = Some True \<longrightarrow>
                  rcp_publicChannelsAllowed p) \<and>
               last (ui_log (run_outgoing net cs st (es @ [OutConfirm channels]))) = ENavigate ''/channels/order'')) \<and>
         (list_ex unconfirmed_opening channels \<longrightarrow>
            of_store (ui_st (run_outgoing net cs st (es @ [OutConfirm channels]))) = of_store (ui_st (run_outgoing net cs st es)))"
proof -
  let ?v = "run_outgoing net cs st es"
  have ok: "outgoing_ok (ui_st ?v)"
    unfolding run_outgoing_def using outgoing.run_inv [of "outgoing_start cs st" net es]
    by (simp add: outgoing_start_def init_outgoing_ok)
  have step: "run_outgoing net cs st (es @ [OutConfirm channels]) = snd (handleConfirmSubmit channels ?v)"
    using assms by (simp add: run_outgoing_def)
  show ?thesis
    unfolding step using ok confirm_stores [of channels ?v] confirm_blocked [of channels ?v]
    by (auto simp: outgoing_ok_def CurrentChannelOrder_def view_simps simp del: ChannelOrderInternal.simps)
qed

theorem outgoing_order_submitted_witness:
  "cos_order (of_store (ui_st (run_outgoing NetBitcoin [] \<lparr>cos_order = None, cos_storage = Map.empty\<rparr>
       ([OutSuggestions None, OutPubkeyInput ''02ab@host:9735'', OutSubmit] @ [OutConfirm []])))) \<noteq> None"
proof -
  have "of_showConfirmModal (ui_st (run_outgoing NetBitcoin [] \<lparr>cos_order = None, cos_storage = Map.empty\<rparr>
       [OutSuggestions None, OutPubkeyInput ''02ab@host:9735'', OutSubmit]))" by (simp add: run_outgoing_def)
  from outgoing_order_submitted [OF this, of "[]"] show ?thesis by auto
qed



lemma bestPartner_Some:
  "bestPartner net channels ord sugg = Some p \<Longrightarrow>
   \<exists>ps. sugg = Some ps \<and> p \<in> set ps \<and> ok_partner net channels ord p"
proof -
  assume "bestPartner net channels ord sugg = Some p"
  then obtain ps rest where "sugg = Some ps" "filter (ok_partner net channels ord) ps = p # rest"
    by (auto simp: bestPartner_def split: option.splits list.splits)
  from this(2) have "p \<in> set (filter (ok_partner net channels ord) ps)" by simp
  then have "p \<in> set ps" "ok_partner net channels ord p" by simp_all
  with \<open>sugg = Some ps\<close> show ?thesis by blast
qed

text \<open>The simple Lightning form only buys from a suitable partner. Whatever the form's state,
  submitting it without the advanced options either leaves the stored order alone or stores an
  order for one of the suggested LSPs that is on the right network, accepts the amount, is not
  already a channel partner and accepts a public channel if one is asked for; amount, visibility and
  the identifiers of the present channels are those of the form.\<close>

lemma incoming_order_suits:
  assumes "\<not> if_showAdvanced (ui_st w)"
  shows "if_store (ui_st (snd (incoming_submit net channels sugg w))) = if_store (ui_st w) \<or>
         (\<exists>ps p l a ord. sugg = Some ps \<and> p \<in> set ps \<and> rcp_method p = ViaLightning l \<and>
            cos_order (if_store (ui_st (snd (incoming_submit net channels sugg w)))) = Some ord \<and>
            ord_lspType ord = Some LSPS1 \<and> ord_lspIdentifier ord = Some (lp_identifier l) \<and>
            rcp_network p = net \<and> parsed_amount ord = Some a \<and>
            rcp_minimumChannelSizeSat p \<le> a \<and> a \<le> rcp_maximumChannelSizeSat p \<and>
            (ord_isPublic ord = Some True \<longrightarrow> rcp_publicChannelsAllowed p) \<and>
            (\<forall>c \<in> set channels. Some (ch_remotePubkey c) \<noteq> rcp_pubkey p) \<and>
            ord_amountSat ord = ord_amountSat (if_order (ui_st w)) \<and>
            ord_isPublic ord = ord_isPublic (if_order (ui_st w)) \<and>
            ord_prevChannelIds ord = ord_prevChannelIds (if_order (ui_st w)))"
proof (cases "bestPartner net channels (if_order (ui_st w)) sugg")
  case None
  with assms show ?thesis by (simp add: incoming_submit_def effect_simps)
next
  case (Some p)
  then obtain ps where ps: "sugg = Some ps" "p \<in> set ps" "ok_partner net channels (if_order (ui_st w)) p"
    using bestPartner_Some by blast
  then obtain l where l: "rcp_method p = ViaLightning l" "lp_type l = LSPS1"
    by (auto simp: ok_partner_def is_lsps1_def split: PeerMethod.splits)
  show ?thesis
  proof (cases "truthy_int (parsed_amount (if_order (ui_st w)))")
    case True
    then obtain a where "parsed_amount (if_order (ui_st w)) = Some a" by (cases "parsed_amount (if_order (ui_st w))") auto
    with True Some ps l assms show ?thesis
      by (intro disjI2 exI [of _ ps] exI [of _ p] exI [of _ l] exI [of _ a])
         (auto simp: incoming_submit_def effect_simps setOrder_def ok_partner_def parsed_amount_def list_ex_iff)
  next
    case False
    with assms ps(1) show ?thesis by (simp add: incoming_submit_def effect_simps)
  qed
qed

definition sample_lsp :: RecommendedChannelPeer where
  "sample_lsp =
     \<lparr>rcp_network = NetBitcoin, rcp_image = [], rcp_name = ''LSP'', rcp_minimumChannelSizeSat = 200000,
      rcp_maximumChannelSizeSat = 5000000, rcp_note = [], rcp_publicChannelsAllowed = False,
      rcp_description = [],
      rcp_method = ViaLightning \<lparr>lp_identifier = ''lsp'', lp_contactUrl = [], lp_terms = None,
        lp_pubkey = Some ''03cd'', lp_maximumChannelExpiryBlocks = None, lp_feeTotalSat1m = Some 9000,
        lp_feeTotalSat2m = None, lp_feeTotalSat3m = None, lp_type = LSPS1, lp_nodeAddress = None\<rparr>\<rparr>"

definition incoming_sample :: "incoming_form ui" where
  "incoming_sample =
     \<lparr>ui_st = init_incoming [sample_channel] \<lparr>cos_order = None, cos_storage = Map.empty\<rparr>, ui_log = []\<rparr>"

lemma incoming_order_suits_witness:
  "\<exists>ord. cos_order (if_store (ui_st (snd (incoming_submit NetBitcoin [] (Some [sample_lsp]) incoming_sample))))
      = Some ord \<and> ord_prevChannelIds ord = Some [''c1'']"
proof -
  have simple: "\<not> if_showAdvanced (ui_st incoming_sample)"
    by (simp add: incoming_sample_def init_incoming_def)
  have "parsed_amount (if_order (ui_st incoming_sample)) = Some 1000000"
    using js_parseInt_show_nat [of 1000000]
    by (simp add: parsed_amount_def incoming_sample_def init_incoming_def incoming_presets_def show_int_def
        shown_amounts)
  then have "if_store (ui_st (snd (incoming_submit NetBitcoin [] (Some [sample_lsp]) incoming_sample)))
      \<noteq> if_store (ui_st incoming_sample)"
    using simple
    by (simp add: incoming_submit_def effect_simps bestPartner_def ok_partner_def sample_lsp_def peer_payment_def
        is_lsps1_def rcp_pubkey_def setOrder_def)
       (simp add: incoming_sample_def init_incoming_def all_public_def sample_channel_def)
  then show ?thesis
    using incoming_order_suits [OF simple, of NetBitcoin "[]" "Some [sample_lsp]"]
    by (auto simp: incoming_sample_def init_incoming_def sample_channel_def)
qed

end
