(* ===== verification/Hooks.thy ===== *)
theory Hooks imports Stores "HOL-Library.Multiset"
begin

text \<open>
  The hooks of \<open>src/frontend/src/hooks/\<close>. A hook that only fetches is the call it makes of
  \<open>useSWR\<close>: the key (\<open>None\<close>: nothing is fetched) and the options it sets, in milliseconds.
  Hooks that compute are functions of the fetched data, and hooks with state of their own are
  actions on a record. The locale's comparison of strings, the parser of dates, the clock and
  the comparison of version numbers are arguments.
\<close>

section \<open>Fetching hooks\<close>

record swr_call =
  swr_key :: "string option"
  swr_refreshInterval :: "int option"
  swr_dedupingInterval :: "int option"

definition swr :: "string option \<Rightarrow> int option \<Rightarrow> swr_call" where
  "swr key refresh =
     \<lparr>swr_key = key, swr_refreshInterval = refresh, swr_dedupingInterval = None\<rparr>"

definition poll_every :: "int \<Rightarrow> bool \<Rightarrow> int option" where
  "poll_every ms poll = (if poll then Some ms else None)"

definition useAlbyInfo :: swr_call where
  "useAlbyInfo = (swr (Some ''/api/alby/info'') None)\<lparr>swr_dedupingInterval := Some (5 * 60 * 1000)\<rparr>"

definition useAlbyMe :: "InfoResponse option \<Rightarrow> swr_call" where
  "useAlbyMe info =
     (swr (case info of Some i \<Rightarrow> if info_albyAccountConnected i then Some ''/api/alby/me'' else None
           | None \<Rightarrow> None) None)\<lparr>swr_dedupingInterval := Some (5 * 60 * 1000)\<rparr>"

definition albyMe_isLoading :: "InfoResponse option \<Rightarrow> bool \<Rightarrow> bool \<Rightarrow> bool" where
  "albyMe_isLoading info isInfoLoading isMeLoading =
     (isInfoLoading \<or>
      (case info of Some i \<Rightarrow> if info_albyAccountConnected i then isMeLoading else False | None \<Rightarrow> False))"

definition useApp :: "int option \<Rightarrow> bool \<Rightarrow> swr_call" where
  "useApp id' poll =
     swr (if truthy_int id' then Some (''/api/v2/apps/'' @ show_int (the id')) else None) (poll_every 3000 poll)"

definition useBalances :: "bool \<Rightarrow> swr_call" where
  "useBalances poll = swr (Some ''/api/balances'') (poll_every 10000 poll)"

definition useBitcoinRate :: "string option \<Rightarrow> swr_call" where
  "useBitcoinRate currency =
     swr (if truthy_str currency \<and> currency \<noteq> Some ''SATS''
          then Some (''/api/alby/rates/'' @ encodeURIComponent (the currency)) else None) None"

definition useCapabilities :: swr_call where
  "useCapabilities = swr (Some ''/api/wallet/capabilities'') None"

definition useChannelPeerSuggestions :: swr_call where
  "useChannelPeerSuggestions = swr (Some ''/api/channels/suggestions'') None"

definition useChannels :: "bool \<Rightarrow> swr_call" where
  "useChannels poll = swr (Some ''/api/channels'') (poll_every 3000 poll)"

definition useForwards :: swr_call where
  "useForwards = swr (Some ''/api/forwards'') None"

definition useHealthCheck :: "bool \<Rightarrow> swr_call" where
  "useHealthCheck poll = swr (Some ''/api/health'') (poll_every (5 * 60 * 1000) poll)"

definition useLSPChannelOffer :: swr_call where
  "useLSPChannelOffer = swr (Some ''/api/channel-offer'') None"

datatype mempool_poll = NoPoll | Poll bool | PollEvery int

definition useMempoolApi :: "string option \<Rightarrow> mempool_poll \<Rightarrow> swr_call" where
  "useMempoolApi endpoint poll =
     swr (if truthy_str endpoint then Some (''/api/mempool?endpoint='' @ the endpoint) else None)
         (case poll of PollEvery n \<Rightarrow> Some n | Poll b \<Rightarrow> poll_every 10000 b | NoPoll \<Rightarrow> None)"

definition useNodeConnectionInfo :: swr_call where
  "useNodeConnectionInfo = swr (Some ''/api/node/connection-info'') None"

definition useNodeDetails :: "string option \<Rightarrow> swr_call" where
  "useNodeDetails nodePubkey =
     (swr (if truthy_str nodePubkey
           then Some (''/api/mempool?endpoint=/v1/lightning/nodes/'' @ the nodePubkey) else None) None)
     \<lparr>swr_dedupingInterval := Some 600000\<rparr>"

definition useOnchainTransactions :: swr_call where
  "useOnchainTransactions = swr (Some ''/api/node/transactions'') (Some 30000)"

definition usePeers :: "bool \<Rightarrow> swr_call" where
  "usePeers poll = swr (Some ''/api/peers'') (poll_every 3000 poll)"

definition useAutoSwapsConfig :: swr_call where
  "useAutoSwapsConfig = swr (Some ''/api/autoswap'') None"

datatype swap_direction = SwapDirIn | SwapDirOut

fun direction_str :: "swap_direction \<Rightarrow> string" where
  "direction_str SwapDirIn = ''in''"
| "direction_str SwapDirOut = ''out''"

definition useSwapInfo :: "swap_direction \<Rightarrow> swr_call" where
  "useSwapInfo direction = swr (Some (''/api/swaps/'' @ direction_str direction @ ''/info'')) None"

definition useSwap :: "string option \<Rightarrow> bool \<Rightarrow> swr_call" where
  "useSwap swapId poll =
     swr (if truthy_str swapId then Some (''/api/swaps/'' @ the swapId) else None) (poll_every 3000 poll)"

definition useTransaction :: "string \<Rightarrow> bool \<Rightarrow> swr_call" where
  "useTransaction paymentHash poll =
     swr (if paymentHash \<noteq> [] then Some (''/api/transactions/'' @ paymentHash) else None) (poll_every 3000 poll)"

section \<open>The info hook\<close>

record info_hook =
  ih_call :: swr_call
  ih_hasChannelManagement :: "bool option"
  ih_hasMnemonic :: "bool option"
  ih_hasNodeBackup :: "bool option"

definition useInfo :: "InfoResponse option \<Rightarrow> bool \<Rightarrow> info_hook" where
  "useInfo info poll =
     (let config = map_option (\<lambda>i. backendTypeConfigs (info_backendType i)) info
      in \<lparr>ih_call = swr (Some ''/api/info'') (poll_every 3000 poll),
          ih_hasChannelManagement = map_option btc_hasChannelManagement config,
          ih_hasMnemonic = map_option btc_hasMnemonic config,
          ih_hasNodeBackup = map_option btc_hasNodeBackup config\<rparr>)"

section \<open>Transactions\<close>

definition tx_type_str :: "TxType \<Rightarrow> string" where
  "tx_type_str t = (case t of Incoming \<Rightarrow> ''incoming'' | Outgoing \<Rightarrow> ''outgoing'')"

definition hasActiveTransactionFilters :: "TransactionFilters \<Rightarrow> bool" where
  "hasActiveTransactionFilters f =
     (truthy_str (tf_searchTerm f) \<or> tf_type f \<noteq> None \<or> nullish (tf_minAmountSat f) 0 > 0 \<or>
      tf_hideFailed f = Some True)"

definition set_when :: "bool \<Rightarrow> string \<Rightarrow> string \<Rightarrow> params \<Rightarrow> params" where
  "set_when c k v ps = (if c then params_set ps k v else ps)"

definition transactions_params ::
    "int option \<Rightarrow> int \<Rightarrow> int \<Rightarrow> TransactionFilters option \<Rightarrow> params" where
  "transactions_params appId limit page filters =
     (let offset = (page - 1) * limit;
          p0 = [(''limit'', show_int limit), (''offset'', show_int offset)];
          p1 = set_when (truthy_int appId) ''appId'' (show_int (the appId)) p0;
          search = Option.bind filters tf_searchTerm;
          p2 = set_when (truthy_str search) ''search'' (the search) p1;
          ty = Option.bind filters tf_type;
          p3 = set_when (ty \<noteq> None) ''type'' (tx_type_str (the ty)) p2;
          mn = Option.bind filters tf_minAmountSat;
          p4 = set_when (truthy_int mn \<and> the mn > 0) ''minAmountSat'' (show_int (the mn)) p3
      in set_when (Option.bind filters tf_hideFailed = Some True) ''hideFailed'' ''true'' p4)"

definition getTransactionsUrl ::
    "int option \<Rightarrow> int \<Rightarrow> int \<Rightarrow> TransactionFilters option \<Rightarrow> string" where
  "getTransactionsUrl appId limit page filters =
     ''/api/transactions?'' @ params_to_string (transactions_params appId limit page filters)"

definition useTransactions ::
    "int option \<Rightarrow> bool \<Rightarrow> int \<Rightarrow> int \<Rightarrow> TransactionFilters option \<Rightarrow> swr_call" where
  "useTransactions appId poll limit page filters =
     swr (Some (getTransactionsUrl appId limit page filters)) (poll_every 10000 poll)"

section \<open>Apps\<close>

record app_filters =
  af_name :: "string option"
  af_appStoreAppId :: "string option"
  af_unused :: "bool option"
  af_subWallets :: "bool option"

datatype app_order = ByLastUsed | ByLastSettled | ByCreated

fun app_order_str :: "app_order \<Rightarrow> string" where
  "app_order_str ByLastUsed = ''last_used_at''"
| "app_order_str ByLastSettled = ''last_settled_transaction''"
| "app_order_str ByCreated = ''created_at''"

definition no_app_filters :: app_filters where
  "no_app_filters = \<lparr>af_name = None, af_appStoreAppId = None, af_unused = None, af_subWallets = None\<rparr>"

definition app_filters_json :: "app_filters \<Rightarrow> json" where
  "app_filters_json f =
     JObj (opt_member ''name'' (map_option JStr (af_name f)) @
           opt_member ''appStoreAppId'' (map_option JStr (af_appStoreAppId f)) @
           opt_member ''unused'' (map_option JBool (af_unused f)) @
           opt_member ''subWallets'' (map_option JBool (af_subWallets f)))"

text \<open>The URL is put together as text: nothing in it is encoded.\<close>

definition apps_url :: "int \<Rightarrow> int \<Rightarrow> app_filters option \<Rightarrow> app_order option \<Rightarrow> string" where
  "apps_url limit page filters orderBy =
     ''/api/apps?limit='' @ show_int limit @ ''&offset='' @ show_int ((page - 1) * limit) @
     ''&filters='' @ json_stringify (app_filters_json (nullish filters no_app_filters)) @
     ''&order_by='' @ (case orderBy of None \<Rightarrow> [] | Some x \<Rightarrow> app_order_str x)"

definition useApps ::
    "int option \<Rightarrow> int option \<Rightarrow> app_filters option \<Rightarrow> app_order option \<Rightarrow> bool \<Rightarrow> swr_call" where
  "useApps limit page filters orderBy isEnabled =
     swr (if isEnabled
          then Some (apps_url (nullish limit LIST_APPS_LIMIT) (nullish page 1) filters orderBy)
          else None) None"

text \<open>\<open>filter((v, i, a) => a.findIndex((value) => value.id === v.id) === i)\<close>.\<close>

definition first_with_id :: "App list \<Rightarrow> nat \<Rightarrow> bool" where
  "first_with_id a i = (\<not> list_ex (\<lambda>x. app_id x = app_id (a ! i)) (take i a))"

definition dedupe_apps :: "App list \<Rightarrow> App list" where
  "dedupe_apps a = map (\<lambda>i. a ! i) (filter (first_with_id a) [0..<length a])"

definition useAppsForAppStoreApp :: "ListAppsResponse option \<Rightarrow> ListAppsResponse option \<Rightarrow> App list option" where
  "useAppsForAppStoreApp byId byName =
     (case (byId, byName) of
        (Some x, Some y) \<Rightarrow> Some (dedupe_apps (lar_apps x @ lar_apps y))
      | _ \<Rightarrow> None)"

definition useUnusedApps :: "int option \<Rightarrow> swr_call" where
  "useUnusedApps limit =
     useApps limit None (Some (no_app_filters\<lparr>af_unused := Some True, af_subWallets := Some False\<rparr>)) None True"

section \<open>Currencies\<close>

text \<open>A stable sort by a comparison function.\<close>

fun insert_cmp :: "('a \<Rightarrow> 'a \<Rightarrow> int) \<Rightarrow> 'a \<Rightarrow> 'a list \<Rightarrow> 'a list" where
  "insert_cmp c x [] = [x]"
| "insert_cmp c x (y # ys) = (if c x y \<le> 0 then x # y # ys else y # insert_cmp c x ys)"

definition sort_cmp :: "('a \<Rightarrow> 'a \<Rightarrow> int) \<Rightarrow> 'a list \<Rightarrow> 'a list" where
  "sort_cmp c xs = foldr (insert_cmp c) xs []"

definition by_priority :: "(string \<Rightarrow> string \<Rightarrow> int) \<Rightarrow> Currency \<Rightarrow> Currency \<Rightarrow> int" where
  "by_priority localeCompare a b =
     (let priorityDiff = cur_priority a - cur_priority b
      in if priorityDiff \<noteq> 0 then priorityDiff else localeCompare (cur_iso_code a) (cur_iso_code b))"

definition useCurrencies ::
    "(string \<Rightarrow> string \<Rightarrow> int) \<Rightarrow> Currency list option \<Rightarrow> bool \<Rightarrow> (string \<times> string) list" where
  "useCurrencies localeCompare ratesData includeSats =
     (case ratesData of
        None \<Rightarrow> []
      | Some rates \<Rightarrow>
          (let listed = filter (\<lambda>c. cur_iso_code c \<noteq> ''BTC'') rates;
               pair = (\<lambda>c. (cur_iso_code c, cur_name c))
           in if includeSats
              then (''SATS'', ''sats'') # map pair (sort_cmp (by_priority localeCompare) listed)
              else sort_cmp (\<lambda>a b. localeCompare (snd a) (snd b)) (map pair listed)))"

section \<open>The onboarding checklist\<close>

record ChecklistItem =
  ci_title :: string
  ci_description :: string
  ci_checked :: bool
  ci_to :: string
  ci_disabled :: bool

definition checklist_item :: "string \<Rightarrow> string \<Rightarrow> bool \<Rightarrow> string \<Rightarrow> ChecklistItem" where
  "checklist_item title description checked to =
     \<lparr>ci_title = title, ci_description = description, ci_checked = checked, ci_to = to, ci_disabled = False\<rparr>"

record onboarding_data =
  od_albyMe :: "AlbyMe option"
  od_apps :: "ListAppsResponse option"
  od_balances :: "BalancesResponse option"
  od_channels :: "Channel list option"
  od_info :: "InfoResponse option"
  od_nodeConnectionInfo :: "NodeConnectionInfo option"
  od_transactions :: "ListTransactionsResponse option"

definition onboarding_isLoading :: "onboarding_data \<Rightarrow> bool" where
  "onboarding_isLoading d =
     (od_apps d = None \<or> od_balances d = None \<or> od_channels d = None \<or> od_info d = None \<or>
      od_nodeConnectionInfo d = None \<or> od_transactions d = None \<or>
      (case od_info d of Some i \<Rightarrow> info_albyAccountConnected i \<and> od_albyMe d = None | None \<Rightarrow> False))"

text \<open>\<open>parse_date\<close> is \<open>new Date(s).getTime()\<close>, \<open>None\<close> for \<open>NaN\<close>.\<close>

definition onboarding_items :: "(string \<Rightarrow> int option) \<Rightarrow> int \<Rightarrow> onboarding_data \<Rightarrow> ChecklistItem list" where
  "onboarding_items parse_date now d =
     (let info = the (od_info d);
          hasChannelManagement = btc_hasChannelManagement (backendTypeConfigs (info_backendType info));
          hasMnemonic = btc_hasMnemonic (backendTypeConfigs (info_backendType info));
          isLinked = (case od_albyMe d of
                        Some m \<Rightarrow> me_keysend_pubkey m = nci_pubkey (the (od_nodeConnectionInfo d))
                      | None \<Rightarrow> False);
          hasChannel = (\<not> hasChannelManagement \<or> the (od_channels d) \<noteq> []);
          hasBackedUp = (hasMnemonic \<and> info_nextBackupReminder info \<noteq> [] \<and>
                         (case parse_date (info_nextBackupReminder info) of
                            Some t \<Rightarrow> t > now | None \<Rightarrow> False));
          hasCustomApp =
            (List.find (\<lambda>x. app_name x \<noteq> ALBY_ACCOUNT_APP_NAME) (lar_apps (the (od_apps d))) \<noteq> None);
          hasFundsOrTransaction =
            (ltr_totalCount (the (od_transactions d)) > 0 \<or>
             lb_totalSpendableSat (bal_lightning (the (od_balances d))) > 0)
      in (if hasChannelManagement \<and>
             \<not> (info_jitChannelsEnabled info \<and> truthy_str (info_jitChannelsLiquiditySource info))
          then [checklist_item ''Open your first channel''
                  ''Establish a new Lightning channel to enable fast and low-fee Bitcoin transactions.''
                  hasChannel ''/channels/first''] else []) @
         (if info_albyAccountConnected info
          then [checklist_item ''Link to your Alby Account''
                  ''Link your lightning address & other apps to this Hub.''
                  isLinked ''/apps?tab=connected-apps''] else []) @
         [checklist_item ''Receive your first payment''
                  ''Add funds to your wallet to start using it.''
                  hasFundsOrTransaction ''/wallet'',
          checklist_item ''Connect your first app''
                  ''Seamlessly connect apps and integrate your wallet with other apps from your Hub.''
                  hasCustomApp ''/apps?tab=app-store''] @
         (if hasMnemonic then [checklist_item ''Backup your keys''
                  ''Secure your keys by creating a backup to ensure you don't lose access.''
                  hasBackedUp ''/settings/backup''] else []))"

text \<open>\<open>item !== nextStep\<close> compares objects, that is positions in the list.\<close>

definition next_step :: "ChecklistItem list \<Rightarrow> nat option" where
  "next_step items = List.find (\<lambda>i. \<not> ci_checked (items ! i)) [0..<length items]"

definition enable_next :: "ChecklistItem list \<Rightarrow> ChecklistItem list" where
  "enable_next items =
     map (\<lambda>i. (items ! i)\<lparr>ci_disabled := (Some i \<noteq> next_step items)\<rparr>) [0..<length items]"

definition useOnboardingData ::
    "(string \<Rightarrow> int option) \<Rightarrow> int \<Rightarrow> onboarding_data \<Rightarrow> bool \<times> ChecklistItem list" where
  "useOnboardingData parse_date now d =
     (if onboarding_isLoading d then (True, [])
      else (False, enable_next (onboarding_items parse_date now d)))"

section \<open>Hooks with state\<close>

text \<open>The update banner. \<open>compare_ge a b\<close> is \<open>compare(a, b, ">=")\<close> of compare-versions.\<close>

record banner_state =
  bs_showBanner :: bool
  bs_isDismissed :: bool

definition init_banner :: banner_state where
  "init_banner = \<lparr>bs_showBanner = False, bs_isDismissed = False\<rparr>"

definition banner_effect ::
    "(string \<Rightarrow> string \<Rightarrow> bool) \<Rightarrow> InfoResponse option \<Rightarrow> AlbyInfo option \<Rightarrow> AlbyMe option \<Rightarrow>
     banner_state \<Rightarrow> banner_state" where
  "banner_effect compare_ge info albyInfo albyMe s =
     (case (info, albyInfo) of
        (Some i, Some a) \<Rightarrow>
          if info_hideUpdateBanner i \<or> bs_isDismissed s then s
          else
            (let vssMigrationRequired =
                   info_oauthRedirect i \<and>
                   (case albyMe of Some m \<Rightarrow> includes_str ''buzz'' (me_plan_code m) | None \<Rightarrow> False) \<and>
                   info_vssSupported i \<and> \<not> info_ldkVssEnabled i;
                 upToDate =
                   info_version i \<noteq> [] \<and> starts_with ''v'' (info_version i) \<and>
                   compare_ge (drop 1 (info_version i)) (ai_latestVersion a)
             in s\<lparr>bs_showBanner := (\<not> upToDate \<or> vssMigrationRequired)\<rparr>)
      | _ \<Rightarrow> s)"

definition dismissBanner :: "banner_state \<Rightarrow> banner_state" where
  "dismissBanner s = s\<lparr>bs_isDismissed := True, bs_showBanner := False\<rparr>"

datatype banner_event =
  BannerData "InfoResponse option" "AlbyInfo option" "AlbyMe option" | BannerDismiss

fun banner_step :: "(string \<Rightarrow> string \<Rightarrow> bool) \<Rightarrow> banner_state \<Rightarrow> banner_event \<Rightarrow> banner_state" where
  "banner_step compare_ge s (BannerData info a m) = banner_effect compare_ge info a m s"
| "banner_step compare_ge s BannerDismiss = dismissBanner s"

text \<open>The keyboard shortcut of the command palette.\<close>

definition command_palette_key :: "string \<Rightarrow> bool \<Rightarrow> bool \<Rightarrow> bool \<Rightarrow> bool" where
  "command_palette_key key metaKey ctrlKey isOpen =
     (if key = ''k'' \<and> (metaKey \<or> ctrlKey) then \<not> isOpen else isOpen)"

text \<open>
  Notifications of received payments. \<open>latestTx !== prevTransaction\<close> compares objects: SWR hands out
  a new object exactly when a response differs from the one it holds, so the data comes with the
  number of that response, and the state is the transaction seen last with its number.
\<close>

definition notify_effect ::
    "(int \<Rightarrow> string) \<Rightarrow> (nat \<times> ListTransactionsResponse) option \<Rightarrow> InfoResponse option \<Rightarrow>
     ((nat \<times> Transaction) option, unit) act" where
  "notify_effect numberFormat data info =
     (case (data, info) of
        (Some (v, d), Some i) \<Rightarrow>
          (case ltr_transactions d of
             [] \<Rightarrow> ret ()
           | latestTx # _ \<Rightarrow>
               andThen (getS id)
                 (\<lambda>prev.
                    if map_option fst prev = Some v then ret ()
                    else andDo
                      (whenD (prev \<noteq> None \<and> tx_type latestTx = Incoming)
                        (emit (EToast ''Payment received''
                           (Some (formatBitcoinAmount numberFormat (tx_amountMsat latestTx)
                              (info_bitcoinDisplayFormat i) True)))))
                      (setS (\<lambda>_. Some (v, latestTx)))))
      | _ \<Rightarrow> ret ())"

section \<open>Hooks that send requests\<close>

text \<open>The state of each of these hooks is its busy flag.\<close>

definition busy :: "bool \<Rightarrow> (bool, unit) act" where
  "busy b = setS (\<lambda>_. b)"

text \<open>\<open>message.replace("500 ", "")\<close>: the first occurrence.\<close>

fun remove_first :: "string \<Rightarrow> string \<Rightarrow> string" where
  "remove_first p [] = []"
| "remove_first p (c # s) =
     (if starts_with p (c # s) then drop (length p) (c # s) else c # remove_first p s)"

definition app_key :: "int \<Rightarrow> string" where
  "app_key id' = ''/api/v2/apps/'' @ show_int id'"

definition createLightningAddress :: "server \<Rightarrow> App option \<Rightarrow> string \<Rightarrow> (bool, unit) act" where
  "createLightningAddress srv app intendedLightningAddress =
     andDo
       (tryCatch
         (andDo (require (app \<noteq> None) ''app not found'')
         (andDo (busy True)
         (andDo (api srv ''POST'' ''/api/lightning-addresses''
                   (Some (JObj [(''address'', JStr intendedLightningAddress),
                                (''appId'', JNum (app_id (the app)))])))
         (andDo (emit (EMutate (app_key (app_id (the app)))))
                (toast ''Successfully created lightning address'')))))
         (\<lambda>e. emit (EToastError ''Failed to create lightning address'' (Some (remove_first ''500 '' e)))))
       (busy False)"

definition deleteLightningAddress :: "server \<Rightarrow> App option \<Rightarrow> (bool, unit) act" where
  "deleteLightningAddress srv app =
     andDo
       (tryCatch
         (andDo (require (app \<noteq> None) ''app not found'')
         (andDo (busy True)
         (andDo (api srv ''DELETE'' (''/api/lightning-addresses/'' @ show_int (app_id (the app))) None)
         (andDo (emit (EMutate (app_key (app_id (the app)))))
                (toast ''Successfully deleted lightning address'')))))
         (\<lambda>e. emit (EToastError ''Failed to delete lightning address'' (Some e))))
       (busy False)"

definition deleteApp :: "server \<Rightarrow> App \<Rightarrow> (bool, unit) act \<Rightarrow> (bool, unit) act" where
  "deleteApp srv app onSuccess =
     andDo (busy True)
       (finally_do
         (tryCatch
           (andDo (api srv ''DELETE'' (''/api/apps/'' @ app_appPubkey app) None)
           (andDo (toast ''Connection deleted'') onSuccess))
           (\<lambda>e. emit (EToastError ''Failed to delete connection'' (Some e))))
         (busy False))"

datatype LinkStatus = SharedNode | ThisNode | OtherNode | Unlinked

definition linkStatus :: "AlbyMe option \<Rightarrow> NodeConnectionInfo option \<Rightarrow> LinkStatus option" where
  "linkStatus me nodeConnectionInfo =
     (case (me, nodeConnectionInfo) of
        (Some m, Some n) \<Rightarrow>
          Some (if me_keysend_pubkey m = nci_pubkey n then ThisNode
                else if me_shared_node m then SharedNode
                else if me_keysend_pubkey m \<noteq> [] then OtherNode
                else Unlinked)
      | _ \<Rightarrow> None)"

definition linkAccount :: "server \<Rightarrow> int \<Rightarrow> BudgetRenewalType \<Rightarrow> (bool, unit) act" where
  "linkAccount srv budget renewal =
     finally_do
       (tryCatch
         (andDo (busy True)
         (andDo (api srv ''POST'' ''/api/alby/link-account''
                   (Some (JObj [(''budget'', JNum budget), (''renewal'', JStr (renewal_str renewal))])))
         (andDo (emit (EMutate ''/api/alby/me''))
         (andDo (emit (EMutate ''/api/apps''))
                (toast ''Your Alby Hub has successfully been linked to your Alby Account'')))))
         (\<lambda>e. emit (EToastError ''Your Alby Hub couldn't be linked to your Alby Account''
                      (Some ''Did you already link another Alby Hub?''))))
       (busy False)"

definition migrateLDKStorage :: "server \<Rightarrow> string \<Rightarrow> (bool, unit) act" where
  "migrateLDKStorage srv to =
     andDo
       (tryCatch
         (andDo (busy True)
         (andDo (api srv ''POST'' ''/api/node/migrate-storage'' (Some (JObj [(''to'', JStr to)])))
         (andDo (emit (EMutate ''/api/info''))
                (toast ''Please unlock your hub''))))
         (\<lambda>e. emit (EToastError (''Could not start hub storage migration: '' @ error_text e) None)))
       (busy False)"

text \<open>\<open>getNewAddress\<close>: the result is the address, undefined after an error.\<close>

definition getNewAddress :: "server \<Rightarrow> (bool, string option) act" where
  "getNewAddress srv =
     andDo (busy True)
       (finally_do
         (tryCatch
           (andThen (api srv ''POST'' ''/api/wallet/new-address'' None)
             (\<lambda>res.
                (let address = (case res of Some (JStr a) \<Rightarrow> Some a | _ \<Rightarrow> None)
                 in andDo (require (truthy_str address) ''No address in response'')
                    (andDo (emit (EMutate ''/api/wallet/address''))
                           (ret address)))))
           (\<lambda>e. andDo (emit (EToastError ''Failed to request a new address'' (Some (error_text e))))
                      (ret None)))
         (busy False))"

definition loadingAddress :: "bool \<Rightarrow> string option \<Rightarrow> bool" where
  "loadingAddress isLoading data = (isLoading \<or> \<not> truthy_str data)"

definition REQUEST_WALLET_SYNC_INTERVAL :: int where "REQUEST_WALLET_SYNC_INTERVAL = 30000"

definition sync_wallet_tick :: "server \<Rightarrow> ('s, unit) act" where
  "sync_wallet_tick srv = tryCatch (andDo (api srv ''POST'' ''/api/wallet/sync'' None) (ret ())) (\<lambda>e. ret ())"

text \<open>
  Registering the protocol handler once per browser session: the state is the session
  storage, \<open>None\<close> when the browser denies access to it, and the handlers registered.
\<close>

definition PROTOCOL_STORAGE_KEY :: string where
  "PROTOCOL_STORAGE_KEY = ''bitcoin-protocol-handler-registered''"

definition strip_trailing_slash :: "string \<Rightarrow> string" where
  "strip_trailing_slash s = (if s \<noteq> [] \<and> last s = CHR ''/'' then butlast s else s)"

definition handler_url :: "string \<Rightarrow> string \<Rightarrow> string" where
  "handler_url origin basePath =
     origin @ strip_trailing_slash basePath @ ''/wallet/send?bip21=%s''"

record protocol_state =
  ps_session :: "storage option"
  ps_handlers :: "(string \<times> string) list"

definition useRegisterProtocolHandler ::
    "bool \<Rightarrow> bool \<Rightarrow> bool \<Rightarrow> string \<Rightarrow> string \<Rightarrow> protocol_state \<Rightarrow> protocol_state" where
  "useRegisterProtocolHandler httpMode supported accepted origin basePath s =
     (if \<not> httpMode \<or> \<not> supported then s
      else (case ps_session s of
              None \<Rightarrow> s
            | Some session \<Rightarrow>
                if truthy_str (storage_getItem session PROTOCOL_STORAGE_KEY) then s
                else if \<not> accepted then s
                else s\<lparr>ps_handlers := ps_handlers s @ [(''bitcoin'', handler_url origin basePath)],
                       ps_session := Some (storage_setItem session PROTOCOL_STORAGE_KEY ''true'')\<rparr>))"

section \<open>Lemmas\<close>

lemma params_get_set_when [simp]:
  "params_get (set_when c k v ps) j = (if c \<and> j = k then Some v else params_get ps j)"
  by (simp add: set_when_def params_get_set)

lemma transactions_params_get:
  fixes appId limit page f
  defines "ps \<equiv> transactions_params appId limit page (Some f)"
  shows "params_get ps ''limit'' = Some (show_int limit)"
    "params_get ps ''offset'' = Some (show_int ((page - 1) * limit))"
    "params_get ps ''appId'' = (if truthy_int appId then Some (show_int (the appId)) else None)"
    "params_get ps ''search'' = nonempty (tf_searchTerm f)"
    "params_get ps ''type'' = map_option tx_type_str (tf_type f)"
    "params_get ps ''minAmountSat'' =
       (if nullish (tf_minAmountSat f) 0 > 0 then Some (show_int (the (tf_minAmountSat f))) else None)"
    "params_get ps ''hideFailed'' = (if tf_hideFailed f = Some True then Some ''true'' else None)"
  unfolding ps_def transactions_params_def
  by (cases "tf_type f"; cases "tf_minAmountSat f"; cases "tf_searchTerm f";
      simp add: Let_def nonempty_def params_get_def [of "[_, _]"])+

lemma find_index_first:
  "List.find P [0..<n] = Some i \<longleftrightarrow> i < n \<and> P i \<and> (\<forall>j < i. \<not> P j)"
  by (auto simp: List.find_Some_iff)

lemma length_enable_next [simp]: "length (enable_next items) = length items"
  by (simp add: enable_next_def)

lemma nth_enable_next:
  "i < length items \<Longrightarrow> enable_next items ! i = (items ! i)\<lparr>ci_disabled := (Some i \<noteq> next_step items)\<rparr>"
  by (simp add: enable_next_def)

lemma next_step_iff:
  "i < length items \<Longrightarrow>
   Some i = next_step items \<longleftrightarrow> \<not> ci_checked (items ! i) \<and> (\<forall>j < i. ci_checked (items ! j))"
  by (auto simp: next_step_def find_index_first eq_commute [of "Some i"])

lemma first_with_id_iff:
  "i < length a \<Longrightarrow> first_with_id a i \<longleftrightarrow> (\<forall>j < i. app_id (a ! j) \<noteq> app_id (a ! i))"
  by (auto simp: first_with_id_def list_ex_iff simp flip: nth_image)

lemma dedupe_ids: "distinct (map app_id (dedupe_apps a))"
proof -
  have "inj_on (\<lambda>i. app_id (a ! i)) (set (filter (first_with_id a) [0..<length a]))"
  proof (rule inj_onI)
    fix i j
    assume "i \<in> set (filter (first_with_id a) [0..<length a])" "j \<in> set (filter (first_with_id a) [0..<length a])"
      and eq: "app_id (a ! i) = app_id (a ! j)"
    then have "first_with_id a i" "first_with_id a j" "i < length a" "j < length a" by auto
    then have "\<not> i < j" "\<not> j < i"
      using eq by (auto simp: first_with_id_iff)
    then show "i = j" by simp
  qed
  then show ?thesis by (simp add: dedupe_apps_def comp_def distinct_map)
qed

lemma dedupe_complete: "app_id ` set (dedupe_apps a) = app_id ` set a"
proof
  show "app_id ` set a \<subseteq> app_id ` set (dedupe_apps a)"
  proof
    fix k assume "k \<in> app_id ` set a"
    then obtain i where i: "i < length a" "app_id (a ! i) = k" by (auto simp: in_set_conv_nth)
    define m where "m = (LEAST i. i < length a \<and> app_id (a ! i) = k)"
    have m: "m < length a" "app_id (a ! m) = k" and least: "\<And>j. j < m \<Longrightarrow> \<not> (j < length a \<and> app_id (a ! j) = k)"
      using LeastI [of "\<lambda>i. i < length a \<and> app_id (a ! i) = k" i] i not_less_Least
      unfolding m_def by (blast, blast, blast)
    have "first_with_id a m"
      using m least by (auto simp: first_with_id_iff)
    with m have "a ! m \<in> set (dedupe_apps a)" by (auto simp: dedupe_apps_def)
    with m(2) show "k \<in> app_id ` set (dedupe_apps a)" by blast
  qed
qed (auto simp: dedupe_apps_def)

lemma insert_cmp_set: "mset (insert_cmp c x ys) = add_mset x (mset ys)"
  by (induction ys) auto

lemma sort_cmp_mset [simp]: "mset (sort_cmp c xs) = mset xs"
  by (induction xs) (simp_all add: sort_cmp_def insert_cmp_set)

lemma insert_cmp_sorted:
  assumes "\<And>a b. c a b \<le> 0 \<Longrightarrow> f a \<le> (f b :: int)" and "\<And>a b. \<not> c a b \<le> 0 \<Longrightarrow> f b \<le> f a"
  shows "sorted (map f ys) \<Longrightarrow> sorted (map f (insert_cmp c x ys))"
proof (induction ys)
  case (Cons y ys)
  have "set (insert_cmp c x ys) = insert x (set ys)"
    using insert_cmp_set [of c x ys] by (metis set_mset_add_mset_insert set_mset_mset)
  with Cons assms show ?case by (fastforce intro: order_trans)
qed simp

lemma sort_cmp_sorted:
  assumes "\<And>a b. c a b \<le> 0 \<Longrightarrow> f a \<le> (f b :: int)" and "\<And>a b. \<not> c a b \<le> 0 \<Longrightarrow> f b \<le> f a"
  shows "sorted (map f (sort_cmp c xs))"
  by (induction xs) (simp_all add: sort_cmp_def insert_cmp_sorted [OF assms])

section \<open>Properties\<close>

text \<open>The transactions URL says what was asked. Decoding the query of \<open>getTransactionsUrl\<close> gives
  the limit, the offset of the page and, for each filter, exactly its value (any search text
  included) when it is set and nothing otherwise; so a filter is shown as active exactly when the
  request filters by something.\<close>

lemma getTransactionsUrl_decodes:
  "\<exists>q. getTransactionsUrl appId limit page (Some f) = ''/api/transactions?'' @ q \<and>
     params_get (parse_params q) ''limit'' = Some (show_int limit) \<and>
     params_get (parse_params q) ''offset'' = Some (show_int ((page - 1) * limit)) \<and>
     params_get (parse_params q) ''search'' = nonempty (tf_searchTerm f) \<and>
     params_get (parse_params q) ''type'' = map_option tx_type_str (tf_type f) \<and>
     params_get (parse_params q) ''minAmountSat'' =
       (if nullish (tf_minAmountSat f) 0 > 0 then Some (show_int (the (tf_minAmountSat f))) else None) \<and>
     (hasActiveTransactionFilters f \<longleftrightarrow>
        (\<exists>k \<in> {''search'', ''type'', ''minAmountSat'', ''hideFailed''}. params_get (parse_params q) k \<noteq> None))"
  by (intro exI [of _ "params_to_string (transactions_params appId limit page (Some f))"])
     (auto simp: getTransactionsUrl_def transactions_params_get hasActiveTransactionFilters_def nonempty_def
        truthy_str_def split: option.splits)

text \<open>The checklist enables exactly the next step. Once loaded, it has two to five items with
  distinct titles, and an item is enabled exactly when it is unchecked and every item before it is
  checked; so at most one is enabled, and none only when all are checked.\<close>

lemma onboarding_enables_next:
  assumes "\<not> onboarding_isLoading d"
  shows "\<exists>items. useOnboardingData parse_date now d = (False, items) \<and>
           2 \<le> length items \<and> length items \<le> 5 \<and> distinct (map ci_title items) \<and>
           (\<forall>i < length items. \<not> ci_disabled (items ! i) \<longleftrightarrow>
              \<not> ci_checked (items ! i) \<and> (\<forall>j < i. ci_checked (items ! j))) \<and>
           ((\<forall>i < length items. ci_disabled (items ! i)) \<longleftrightarrow> (\<forall>i < length items. ci_checked (items ! i)))"
proof -
  let ?base = "onboarding_items parse_date now d"
  let ?items = "enable_next ?base"
  have shape: "2 \<le> length ?base" "length ?base \<le> 5" "distinct (map ci_title ?base)"
    by (auto simp: onboarding_items_def Let_def checklist_item_def)
  have titles: "map ci_title ?items = map ci_title ?base"
    by (rule nth_equalityI) (simp_all add: nth_enable_next)
  have checked: "ci_checked (?items ! i) = ci_checked (?base ! i)" if "i < length ?base" for i
    using that by (simp add: nth_enable_next)
  have enabled: "\<not> ci_disabled (?items ! i) \<longleftrightarrow>
      \<not> ci_checked (?items ! i) \<and> (\<forall>j < i. ci_checked (?items ! j))" if i: "i < length ?base" for i
    using i checked by (auto simp: nth_enable_next next_step_iff)
  have "(\<forall>i < length ?base. ci_checked (?items ! i))" if "\<forall>i < length ?base. ci_disabled (?items ! i)"
  proof (intro allI impI)
    fix i show "i < length ?base \<Longrightarrow> ci_checked (?items ! i)"
    proof (induction i rule: less_induct)
      case (less i)
      then show ?case using that enabled [of i] by auto
    qed
  qed
  with enabled have all: "(\<forall>i < length ?base. ci_disabled (?items ! i)) \<longleftrightarrow>
      (\<forall>i < length ?base. ci_checked (?items ! i))" by blast
  show ?thesis
    using assms shape titles enabled all
    by (intro exI [of _ ?items]) (simp add: useOnboardingData_def)
qed

definition sample_info :: InfoResponse where
  "sample_info =
     \<lparr>info_backendType = LDK, info_setupCompleted = False, info_oauthRedirect = False,
      info_albyAccountConnected = False, info_ldkVssEnabled = False, info_ldkVssUrl = [],
      info_vssSupported = False, info_databaseType = [], info_running = False,
      info_albyAuthUrl = [], info_nextBackupReminder = [], info_albyUserIdentifier = [],
      info_network = Some NetBitcoin, info_version = ''v1.20.0'', info_relays = [],
      info_unlocked = False, info_enableAdvancedSetup = False, info_startupState = [],
      info_startupError = [], info_startupErrorTime = [], info_autoUnlockPasswordSupported = False,
      info_autoUnlockPasswordEnabled = False, info_currency = [], info_nodeAlias = [],
      info_mempoolUrl = [], info_bitcoinDisplayFormat = Sats, info_chainDataSourceType = None,
      info_chainDataSourceAddress = None, info_jitChannelsLiquiditySource = None, info_jitChannelsMinPaymentSizeMsat = None,
      info_jitChannelsMaxPaymentSizeMsat = None, info_jitChannelsEnabled = False, info_hideUpdateBanner = False,
      info_supportsBolt12 = False, info_nodeMigrationFileCreated = False\<rparr>"

definition sample_onboarding :: onboarding_data where
  "sample_onboarding =
     \<lparr>od_albyMe = None,
      od_apps = Some \<lparr>lar_apps = [], lar_totalCount = 0, lar_totalBalanceSat = None, lar_totalBalanceMsat = None\<rparr>,
      od_balances = Some \<lparr>bal_onchain = \<lparr>ob_spendableSat = 0, ob_totalSat = 0, ob_reservedSat = 0,
          ob_pendingBalancesFromChannelClosuresSat = 0, ob_pendingBalancesDetails = [],
          ob_pendingSweepBalancesDetails = []\<rparr>,
        bal_lightning = \<lparr>lb_totalSpendableSat = 0, lb_totalSpendableMsat = 0,
          lb_totalReceivableSat = 0, lb_totalReceivableMsat = 0,
          lb_nextMaxSpendableSat = 0, lb_nextMaxSpendableMsat = 0,
          lb_nextMaxReceivableSat = 0, lb_nextMaxReceivableMsat = 0,
          lb_nextMaxSpendableMPPSat = 0, lb_nextMaxSpendableMPPMsat = 0,
          lb_nextMaxReceivableMPPSat = 0, lb_nextMaxReceivableMPPMsat = 0\<rparr>\<rparr>,
      od_channels = Some [], od_info = Some sample_info,
      od_nodeConnectionInfo = Some \<lparr>nci_pubkey = ''02'', nci_address = [], nci_port = 9735\<rparr>,
      od_transactions = Some \<lparr>ltr_transactions = [], ltr_totalCount = 0\<rparr>\<rparr>"

lemma onboarding_enables_next_witness:
  "\<exists>items. useOnboardingData (\<lambda>s. None) 0 sample_onboarding = (False, items) \<and> 2 \<le> length items \<and>
     (\<forall>i < length items. \<not> ci_disabled (items ! i) \<longleftrightarrow>
        \<not> ci_checked (items ! i) \<and> (\<forall>j < i. ci_checked (items ! j)))"
proof -
  have "\<not> onboarding_isLoading sample_onboarding"
    by (simp add: onboarding_isLoading_def sample_onboarding_def sample_info_def)
  from onboarding_enables_next [OF this, of "\<lambda>s. None" 0] show ?thesis by blast
qed

text \<open>An app store app's connections are listed once. Joining the connections found by app store id
  with those found by name keeps every connection, none twice.\<close>

lemma apps_deduplicated:
  "\<exists>as. useAppsForAppStoreApp (Some x) (Some y) = Some as \<and> distinct (map app_id as) \<and>
     app_id ` set as = app_id ` set (lar_apps x) \<union> app_id ` set (lar_apps y) \<and>
     set as \<subseteq> set (lar_apps x) \<union> set (lar_apps y)"
proof -
  let ?a = "lar_apps x @ lar_apps y"
  have "set (dedupe_apps ?a) \<subseteq> set ?a" by (auto simp: dedupe_apps_def simp del: set_append)
  then show ?thesis
    using dedupe_ids [of ?a] dedupe_complete [of ?a]
    by (intro exI [of _ "dedupe_apps ?a"]) (auto simp: useAppsForAppStoreApp_def image_Un)
qed

text \<open>The app filter is not encoded. For an app name with an ampersand the query that is sent no
  longer carries the filter: what the server decodes is cut at the ampersand.\<close>

lemma apps_filter_cut:
  "\<exists>q. apps_url 20 1 (Some (no_app_filters\<lparr>af_name := Some ''A&B''\<rparr>)) None = ''/api/apps?'' @ q \<and>
     params_get (parse_params q) ''filters'' = Some ([CHR ''{'', CHR 0x22] @ ''name'' @ [CHR 0x22, CHR '':'', CHR 0x22, CHR ''A'']) \<and>
     params_get (parse_params q) ''filters''
       \<noteq> Some (json_stringify (app_filters_json (no_app_filters\<lparr>af_name := Some ''A&B''\<rparr>)))"
proof -
  let ?f = "no_app_filters\<lparr>af_name := Some ''A&B''\<rparr>"
  let ?q = "drop 10 (apps_url 20 1 (Some ?f) None)"
  have q: "apps_url 20 1 (Some ?f) None = ''/api/apps?'' @ ?q"
    by code_simp
  have "params_get (parse_params ?q) ''filters'' = Some ([CHR ''{'', CHR 0x22] @ ''name'' @ [CHR 0x22, CHR '':'', CHR 0x22, CHR ''A''])"
    by code_simp
  moreover have "json_stringify (app_filters_json ?f) = [CHR ''{'', CHR 0x22] @ ''name'' @ [CHR 0x22, CHR '':'', CHR 0x22, CHR ''A'', CHR ''&'', CHR ''B'', CHR 0x22, CHR ''}'']"
    by code_simp
  ultimately show ?thesis using q by (intro exI [of _ ?q]) simp
qed

definition actions_of_hooks ::
    "server \<Rightarrow> App option \<Rightarrow> string \<Rightarrow> App \<Rightarrow> (bool, unit) act \<Rightarrow> int \<Rightarrow> BudgetRenewalType \<Rightarrow> (bool, unit) act list" where
  "actions_of_hooks srv app text' target onSuccess budget renewal =
     [createLightningAddress srv app text', deleteLightningAddress srv app, deleteApp srv target onSuccess,
      linkAccount srv budget renewal, migrateLDKStorage srv text',
      andDo (getNewAddress srv) (ret ())]"

text \<open>No action is left busy. For every server, app and input, and whatever is thrown on the way,
  creating and deleting a lightning address, deleting an app (whatever its continuation does),
  linking the account, migrating the storage and asking for a new address return normally with
  the busy flag cleared.\<close>

lemma actions_clear_busy:
  assumes "m \<in> set (actions_of_hooks srv app text' target onSuccess budget renewal)"
  shows "fst (m w) = Inr () \<and> \<not> ui_st (snd (m w))"
proof -
  have "fst (deleteApp srv target onSuccess w) = Inr () \<and> \<not> ui_st (snd (deleteApp srv target onSuccess w))"
    by (auto simp: deleteApp_def busy_def effect_simps split: sum.splits prod.splits)
  moreover have "fst (createLightningAddress srv app text' w) = Inr () \<and>
      \<not> ui_st (snd (createLightningAddress srv app text' w))"
    "fst (deleteLightningAddress srv app w) = Inr () \<and> \<not> ui_st (snd (deleteLightningAddress srv app w))"
    "fst (linkAccount srv budget renewal w) = Inr () \<and> \<not> ui_st (snd (linkAccount srv budget renewal w))"
    "fst (migrateLDKStorage srv text' w) = Inr () \<and> \<not> ui_st (snd (migrateLDKStorage srv text' w))"
    "fst (andDo (getNewAddress srv) (ret ()) w) = Inr () \<and> \<not> ui_st (snd (andDo (getNewAddress srv) (ret ()) w))"
    by (auto simp: createLightningAddress_def deleteLightningAddress_def linkAccount_def migrateLDKStorage_def
        getNewAddress_def busy_def effect_simps Let_def split: sum.splits prod.splits option.splits json.splits)
  ultimately show ?thesis using assms by (auto simp: actions_of_hooks_def)
qed

definition sample_app :: App where
  "sample_app =
     \<lparr>app_id = 1, app_name = ''Shop'', app_description = [], app_appPubkey = ''02'', app_uniqueWalletPubkey = False,
      app_walletPubkey = ''03'', app_createdAt = ''2026'', app_updatedAt = ''2026'', app_lastUsedAt = None,
      app_lastSettledTransactionAt = None, app_expiresAt = None, app_isolated = False, app_balanceSat = 0,
      app_balanceMsat = 0, app_scopes = [get_info], app_maxAmountSat = 0, app_maxAmountMsat = 0,
      app_budgetUsageSat = 0, app_budgetUsageMsat = 0, app_budgetRenewal = Never, app_metadata = None\<rparr>"

lemma actions_clear_busy_witness:
  "fst (linkAccount (\<lambda>l m u b. Inl ''500 down'') 100000 Monthly \<lparr>ui_st = False, ui_log = []\<rparr>) = Inr () \<and>
   \<not> ui_st (snd (linkAccount (\<lambda>l m u b. Inl ''500 down'') 100000 Monthly \<lparr>ui_st = False, ui_log = []\<rparr>))"
  by (rule actions_clear_busy [of _ "\<lambda>l m u b. Inl ''500 down''" None "[]" sample_app "ret ()" 100000 Monthly]) (simp add: actions_of_hooks_def)

text \<open>A payment is announced when the response changes. The effect shows the toast exactly when an
  earlier response was seen, the new response is another one, and its latest transaction is
  incoming; so an edit of the labels of a payment received before announces it again.\<close>

lemma notify_exactly_on_change:
  assumes "ltr_transactions d = t # ts"
  shows "notify_effect fmt (Some (v, d)) (Some i) w =
           (Inr (), (if map_option fst (ui_st w) = Some v then w
                     else if ui_st w \<noteq> None \<and> tx_type t = Incoming
                     then w\<lparr>ui_st := Some (v, t), ui_log := ui_log w @ [EToast ''Payment received''
                            (Some (formatBitcoinAmount fmt (tx_amountMsat t) (info_bitcoinDisplayFormat i) True))]\<rparr>
                     else w\<lparr>ui_st := Some (v, t)\<rparr>))"
  using assms by (cases w) (auto simp: notify_effect_def effect_simps)

definition sample_tx :: Transaction where
  "sample_tx =
     \<lparr>tx_id = 1, tx_type = Incoming, tx_state = Settled, tx_appId = None, tx_invoice = [], tx_description = [],
      tx_descriptionHash = [], tx_preimage = None, tx_paymentHash = ''ab'', tx_amountSat = 21, tx_amountMsat = 21000,
      tx_feesPaidSat = 0, tx_feesPaidMsat = 0, tx_updatedAt = ''2026'', tx_createdAt = ''2026'', tx_settledAt = None,
      tx_metadata = None, tx_boostagram = None, tx_failureReason = []\<rparr>"

lemma notify_exactly_on_change_witness:
  "ui_log (snd (notify_effect group_en (Some (2, \<lparr>ltr_transactions = [sample_tx\<lparr>tx_updatedAt := ''2027''\<rparr>], ltr_totalCount = 1\<rparr>))
     (Some sample_info) \<lparr>ui_st = Some (1, sample_tx), ui_log = []\<rparr>)) = [EToast ''Payment received'' (Some ''21 sats'')]"
proof -
  have "formatBitcoinAmount group_en 21000 Sats True = ''21 sats''" by code_simp
  then show ?thesis
    using notify_exactly_on_change [of "\<lparr>ltr_transactions = [sample_tx\<lparr>tx_updatedAt := ''2027''\<rparr>], ltr_totalCount = 1\<rparr>"
        "sample_tx\<lparr>tx_updatedAt := ''2027''\<rparr>" "[]" group_en 2 sample_info "\<lparr>ui_st = Some (1, sample_tx), ui_log = []\<rparr>"]
    by (simp add: sample_tx_def sample_info_def)
qed

definition banner_ok :: "banner_state \<Rightarrow> bool" where
  "banner_ok s = (bs_isDismissed s \<longrightarrow> \<not> bs_showBanner s)"

interpretation banner: invariant_machine "banner_step compare_ge" banner_ok for compare_ge
proof
  fix s e
  show "banner_ok s \<Longrightarrow> banner_ok (banner_step compare_ge s e)"
    by (cases e) (auto simp: banner_ok_def banner_effect_def dismissBanner_def Let_def split: option.splits)
qed

lemma banner_stays_dismissed: "bs_isDismissed s \<Longrightarrow> bs_isDismissed (foldl (banner_step compare_ge) s es)"
proof (induction es arbitrary: s)
  case (Cons e es)
  have "bs_isDismissed (banner_step compare_ge s e)"
    using Cons.prems by (cases e) (auto simp: banner_effect_def dismissBanner_def Let_def split: option.splits)
  then show ?case using Cons.IH by simp
qed simp

text \<open>A dismissed update banner stays away. After it was dismissed once, no sequence of new data and
  dismissals shows the banner again.\<close>

lemma banner_dismissed_for_good:
  assumes "BannerDismiss \<in> set es"
  shows "\<not> bs_showBanner (foldl (banner_step compare_ge) init_banner es)"
proof -
  obtain xs ys where es: "es = xs @ BannerDismiss # ys" using assms by (meson split_list)
  let ?s = "dismissBanner (foldl (banner_step compare_ge) init_banner xs)"
  have "banner_ok init_banner" by (simp add: banner_ok_def init_banner_def)
  then have "banner_ok (foldl (banner_step compare_ge) init_banner es)" by (rule banner.run_inv)
  moreover have "bs_isDismissed (foldl (banner_step compare_ge) init_banner es)"
    using banner_stays_dismissed [of ?s compare_ge ys] by (simp add: es dismissBanner_def)
  ultimately show ?thesis by (simp add: banner_ok_def)
qed

lemma banner_dismissed_for_good_witness:
  "\<not> bs_showBanner (foldl (banner_step (\<lambda>a b. False)) init_banner
     [BannerDismiss, BannerData (Some sample_info) (Some \<lparr>ai_latestVersion = ''2.0.0'', ai_latestReleaseNotes = []\<rparr>) None])"
  by (rule banner_dismissed_for_good) simp

text \<open>The currency list with satoshis. It starts with satoshis, then holds every currency of the
  rates but bitcoin exactly once per rate, in ascending order of priority.\<close>

lemma currencies_by_priority:
  "\<exists>cs. useCurrencies localeCompare (Some rates) True = (''SATS'', ''sats'') # map (\<lambda>c. (cur_iso_code c, cur_name c)) cs \<and>
     mset cs = mset (filter (\<lambda>c. cur_iso_code c \<noteq> ''BTC'') rates) \<and> sorted (map cur_priority cs)"
  by (intro exI [of _ "sort_cmp (by_priority localeCompare) (filter (\<lambda>c. cur_iso_code c \<noteq> ''BTC'') rates)"] conjI
        sort_cmp_sorted)
     (auto simp: useCurrencies_def Let_def by_priority_def split: if_splits)

definition register_all :: "string \<Rightarrow> (bool \<times> bool \<times> bool \<times> string) list \<Rightarrow> protocol_state \<Rightarrow> protocol_state" where
  "register_all origin loads s =
     foldl (\<lambda>t (h, p, a, b). useRegisterProtocolHandler h p a origin b t) s loads"

lemma register_step_once:
  assumes "ps_handlers s = [] \<or> length (ps_handlers s) = 1 \<and>
      (\<exists>st. ps_session s = Some st \<and> truthy_str (storage_getItem st PROTOCOL_STORAGE_KEY))"
  shows "ps_handlers (useRegisterProtocolHandler h p a ori b s) = [] \<or>
      length (ps_handlers (useRegisterProtocolHandler h p a ori b s)) = 1 \<and>
      (\<exists>st. ps_session (useRegisterProtocolHandler h p a ori b s) = Some st \<and>
         truthy_str (storage_getItem st PROTOCOL_STORAGE_KEY))"
  using assms by (auto simp: useRegisterProtocolHandler_def split: option.splits)

text \<open>The protocol handler is registered at most once per browser session, however many pages are
  loaded with whatever settings, and never without session storage.\<close>

lemma protocol_handler_once:
  "length (ps_handlers (register_all origin loads \<lparr>ps_session = Some Map.empty, ps_handlers = []\<rparr>)) \<le> 1 \<and>
   ps_handlers (register_all origin loads \<lparr>ps_session = None, ps_handlers = []\<rparr>) = []"
proof -
  have "ps_handlers s = [] \<or> length (ps_handlers s) = 1 \<and>
      (\<exists>st. ps_session s = Some st \<and> truthy_str (storage_getItem st PROTOCOL_STORAGE_KEY)) \<Longrightarrow>
    length (ps_handlers (register_all origin loads s)) \<le> 1" for s
  proof (induction loads arbitrary: s)
    case (Cons l loads)
    obtain h p a b where "l = (h, p, a, b)" by (cases l)
    with Cons.IH [OF register_step_once [OF Cons.prems]] show ?case by (simp add: register_all_def)
  qed (auto simp: register_all_def)
  moreover have "ps_session s = None \<Longrightarrow> register_all origin loads s = s" for s
    by (induction loads) (auto simp: register_all_def useRegisterProtocolHandler_def)
  ultimately show ?thesis by simp
qed

end
