(* ===== verification/CurrencyInput.thy ===== *)
theory CurrencyInput imports Hooks
begin

text \<open>
  \<open>components/CurrencyInputField.tsx\<close>: the amount field that is typed in satoshis, in
  bitcoin or in a fiat currency and always reports satoshis as text to its parent. The state
  is that of the component together with the parent's value; the number of fraction digits of a
  currency and the formatters of \<open>Intl\<close> are arguments. Amounts and rates are exact rationals
  here.
\<close>

section \<open>Formatting\<close>

datatype CurrencyInputMode = BitcoinMode | FiatMode
datatype BitcoinDenomination = DenomSats | DenomBtc

definition SATS_PER_BTC :: rat where "SATS_PER_BTC = 100000000"

definition getNumericValue :: "string \<Rightarrow> rat" where
  "getNumericValue value = fin_or 0 (js_Number value)"

text \<open>\<open>new Intl.NumberFormat("en-US", { currency, style: "currency" })\<close>: \<open>None\<close> when it throws.\<close>

definition getCurrencyFractionDigits :: "(string \<Rightarrow> nat option) \<Rightarrow> string \<Rightarrow> nat" where
  "getCurrencyFractionDigits intl_digits currency = nullish (intl_digits currency) 2"

definition getCurrencySymbol :: "(string \<Rightarrow> string option) \<Rightarrow> string \<Rightarrow> string" where
  "getCurrencySymbol intl_symbol currency = or_str (intl_symbol currency) currency"

definition formatFiatValue ::
    "(string \<Rightarrow> rat \<Rightarrow> string) \<Rightarrow> string \<Rightarrow> rat option \<Rightarrow> string option \<Rightarrow> string option" where
  "formatFiatValue intl_format amountSat rate currency =
     (if nullish rate 0 = 0 \<or> \<not> truthy_str currency then None
      else Some (intl_format (the currency) ((getNumericValue amountSat / SATS_PER_BTC) * the rate)))"

definition formatFiatInput :: "(string \<Rightarrow> nat option) \<Rightarrow> string \<Rightarrow> rat \<Rightarrow> string \<Rightarrow> string" where
  "formatFiatInput intl_digits amountSat rate currency =
     (let fractionDigits = getCurrencyFractionDigits intl_digits currency;
          amountFiat = (getNumericValue amountSat / SATS_PER_BTC) * rate
      in if amountFiat = 0 then [] else to_fixed fractionDigits amountFiat)"

definition formatBtcDisplay :: "string \<Rightarrow> string" where
  "formatBtcDisplay amountSat = to_fixed 8 (getNumericValue amountSat / SATS_PER_BTC)"

definition formatBtcInput :: "string \<Rightarrow> string" where
  "formatBtcInput amountSat =
     (let amount = getNumericValue amountSat
      in if amount = 0 then [] else to_fixed 8 (amount / SATS_PER_BTC))"

text \<open>The amount and its unit.\<close>

definition formatBitcoinValueParts ::
    "(int \<Rightarrow> string) \<Rightarrow> string \<Rightarrow> BitcoinDisplayFormat option \<Rightarrow> BitcoinDenomination \<Rightarrow> string \<times> string" where
  "formatBitcoinValueParts numberFormat amountSat displayFormat denomination =
     (if denomination = DenomBtc then (formatBtcDisplay amountSat, ''BTC'')
      else
        (let formattedAmount = numberFormat \<lfloor>getNumericValue amountSat\<rfloor>
         in if displayFormat = Some BITCOIN_DISPLAY_FORMAT_BIP177 then (formattedAmount, btc_sign)
            else (formattedAmount, ''sats'')))"

definition formatBitcoinValue ::
    "(int \<Rightarrow> string) \<Rightarrow> string \<Rightarrow> BitcoinDisplayFormat option \<Rightarrow> BitcoinDenomination \<Rightarrow> string" where
  "formatBitcoinValue numberFormat amountSat displayFormat denomination =
     (let (amount, u) = formatBitcoinValueParts numberFormat amountSat displayFormat denomination
      in if u = btc_sign then u @ amount else amount @ '' '' @ u)"

section \<open>The field\<close>

record currency_env =
  ce_currency :: "string option"
  ce_rate :: "rat option"
  ce_rateError :: bool
  ce_disabled :: bool
  ce_digits :: "string \<Rightarrow> nat option"

record currency_input =
  cf_mode :: CurrencyInputMode
  cf_fiatValue :: string
  cf_denomination :: BitcoinDenomination
  cf_btcValue :: string
  cf_valueSat :: string

definition init_field :: "string \<Rightarrow> currency_input" where
  "init_field valueSat =
     \<lparr>cf_mode = BitcoinMode, cf_fiatValue = [], cf_denomination = DenomSats, cf_btcValue = [],
      cf_valueSat = valueSat\<rparr>"

definition field_currency :: "currency_env \<Rightarrow> string" where
  "field_currency env = or_str (ce_currency env) ''USD''"

definition field_rate :: "currency_env \<Rightarrow> rat" where
  "field_rate env = nullish (ce_rate env) 0"

definition canUseFiat :: "currency_env \<Rightarrow> bool" where
  "canUseFiat env = (field_currency env \<noteq> ''SATS'' \<and> field_rate env \<noteq> 0 \<and> \<not> ce_rateError env)"

definition inputValue :: "currency_input \<Rightarrow> string" where
  "inputValue s =
     (if cf_mode s = FiatMode then cf_fiatValue s
      else if cf_denomination s = DenomBtc then cf_btcValue s else cf_valueSat s)"

text \<open>The two effects; each runs when a value it depends on has changed.\<close>

definition field_effects :: "currency_input \<Rightarrow> currency_input \<Rightarrow> currency_input" where
  "field_effects old s =
     (let changed = (cf_mode old \<noteq> cf_mode s \<or> cf_valueSat old \<noteq> cf_valueSat s);
          s1 = (if changed \<and> cf_mode s = FiatMode \<and> cf_valueSat s = [] then s\<lparr>cf_fiatValue := []\<rparr> else s)
      in if (changed \<or> cf_denomination old \<noteq> cf_denomination s) \<and> cf_mode s1 = BitcoinMode \<and>
            cf_denomination s1 = DenomBtc \<and> cf_valueSat s1 = []
         then s1\<lparr>cf_btcValue := []\<rparr> else s1)"

definition handleToggleMode :: "currency_env \<Rightarrow> currency_input \<Rightarrow> currency_input" where
  "handleToggleMode env s =
     (if ce_disabled env then s
      else if cf_mode s = BitcoinMode then
        (if \<not> canUseFiat env then s
         else s\<lparr>cf_fiatValue := formatFiatInput (ce_digits env) (cf_valueSat s) (field_rate env) (field_currency env),
                cf_mode := FiatMode\<rparr>)
      else
        (let s1 = (if cf_denomination s = DenomBtc then s\<lparr>cf_btcValue := formatBtcInput (cf_valueSat s)\<rparr> else s)
         in s1\<lparr>cf_mode := BitcoinMode\<rparr>))"

definition handleAlternateValueClick :: "currency_env \<Rightarrow> currency_input \<Rightarrow> currency_input" where
  "handleAlternateValueClick env s =
     (if ce_disabled env \<or> cf_mode s = FiatMode \<or> \<not> canUseFiat env then s else handleToggleMode env s)"

definition handleToggleBitcoinDenomination :: "currency_env \<Rightarrow> currency_input \<Rightarrow> currency_input" where
  "handleToggleBitcoinDenomination env s =
     (if ce_disabled env then s
      else if cf_denomination s = DenomBtc then s\<lparr>cf_denomination := DenomSats\<rparr>
      else s\<lparr>cf_btcValue := formatBtcInput (cf_valueSat s), cf_denomination := DenomBtc\<rparr>)"

text \<open>\<open>Math.max(0, Math.round(x)).toString()\<close>, for the amounts below 10^21 that print without exponent.\<close>

definition sat_text :: "rat \<Rightarrow> string" where
  "sat_text x = show_int (max 0 (js_round x))"

text \<open>The value that is reported for a text typed in BTC.\<close>

definition report_btc :: "string \<Rightarrow> string" where
  "report_btc nextValue =
     (if nextValue = [] then []
      else (case js_Number nextValue of Fin amountBtc \<Rightarrow> sat_text (amountBtc * SATS_PER_BTC) | _ \<Rightarrow> []))"

definition report_fiat :: "rat \<Rightarrow> string \<Rightarrow> string" where
  "report_fiat rate nextValue =
     (if nextValue = [] \<or> rate = 0 then []
      else (case js_Number nextValue of
              Fin amountFiat \<Rightarrow> sat_text ((amountFiat / rate) * SATS_PER_BTC) | _ \<Rightarrow> []))"

definition handleChangeMode :: "currency_env \<Rightarrow> string \<Rightarrow> (currency_input, unit) act" where
  "handleChangeMode env value =
     (let nextValue = trim value
      in andThen (getS id)
        (\<lambda>s.
           if cf_mode s = BitcoinMode then
             (if cf_denomination s \<noteq> DenomBtc \<and> includes_str ''.'' nextValue then
                andDo (setS (\<lambda>t. t\<lparr>cf_denomination := DenomBtc\<rparr>))
                (andDo (setS (\<lambda>t. t\<lparr>cf_btcValue := nextValue\<rparr>))
                (andDo (toast ''Switched to BTC for decimal amount'')
                       (setS (\<lambda>t. t\<lparr>cf_valueSat := report_btc nextValue\<rparr>))))
              else if cf_denomination s = DenomBtc then
                andDo (setS (\<lambda>t. t\<lparr>cf_btcValue := nextValue\<rparr>))
                      (setS (\<lambda>t. t\<lparr>cf_valueSat := report_btc nextValue\<rparr>))
              else setS (\<lambda>t. t\<lparr>cf_valueSat := nextValue\<rparr>))
           else
             andDo (setS (\<lambda>t. t\<lparr>cf_fiatValue := nextValue\<rparr>))
                   (setS (\<lambda>t. t\<lparr>cf_valueSat := report_fiat (field_rate env) nextValue\<rparr>))))"

datatype mode_bound = NoBound | NumBound rat | TextBound string

definition getModeBound :: "currency_env \<Rightarrow> currency_input \<Rightarrow> int option \<Rightarrow> mode_bound" where
  "getModeBound env s amountSat =
     (case amountSat of
        None \<Rightarrow> NoBound
      | Some a \<Rightarrow>
          if cf_mode s \<noteq> FiatMode then
            (if cf_denomination s = DenomBtc then NumBound (of_int a / SATS_PER_BTC) else NumBound (of_int a))
          else if field_rate env = 0 then NumBound (of_int a)
          else TextBound (to_fixed (getCurrencyFractionDigits (ce_digits env) (field_currency env))
                            ((of_int a / SATS_PER_BTC) * field_rate env)))"

text \<open>A parent only ever resets the value to the empty text while the field is shown.\<close>

datatype field_event =
    FieldType string | FieldToggleMode | FieldAlternate | FieldToggleDenomination | FieldReset

definition field_step :: "currency_input ui \<Rightarrow> currency_env \<times> field_event \<Rightarrow> currency_input ui" where
  "field_step w ev =
     (let (env, e) = ev;
          w' = (case e of
                  FieldType value \<Rightarrow> if ce_disabled env then w else snd (handleChangeMode env value w)
                | FieldToggleMode \<Rightarrow> w\<lparr>ui_st := handleToggleMode env (ui_st w)\<rparr>
                | FieldAlternate \<Rightarrow> w\<lparr>ui_st := handleAlternateValueClick env (ui_st w)\<rparr>
                | FieldToggleDenomination \<Rightarrow> w\<lparr>ui_st := handleToggleBitcoinDenomination env (ui_st w)\<rparr>
                | FieldReset \<Rightarrow> w\<lparr>ui_st := (ui_st w)\<lparr>cf_valueSat := []\<rparr>\<rparr>)
      in w'\<lparr>ui_st := field_effects (ui_st w) (ui_st w')\<rparr>)"

section \<open>Lemmas\<close>

lemma js_round_0 [simp]: "js_round 0 = 0"
  using js_round_of_int [of 0] by simp

lemma num_show_int: "0 \<le> i \<Longrightarrow> getNumericValue (show_int i) = of_int i"
  by (simp add: getNumericValue_def js_Number_show_int fin_or_def)

lemma num_Nil [simp]: "getNumericValue [] = 0"
proof -
  have "js_Number [] = Fin 0" by (simp add: js_Number_def trim_def trim_start_def)
  then show ?thesis by (simp add: getNumericValue_def fin_or_def)
qed

lemma num_sat_text [simp]: "getNumericValue (sat_text x) = of_int (max 0 (js_round x))"
  unfolding sat_text_def by (rule num_show_int) simp

text \<open>The whole, non-negative satoshis that a number of satoshis or a text in BTC stands for.\<close>

definition sats_of :: "rat \<Rightarrow> int" where
  "sats_of r = max 0 (js_round r)"

definition btc_sats :: "string \<Rightarrow> int" where
  "btc_sats t = sats_of (getNumericValue t * SATS_PER_BTC)"

lemma sats_of_simps [simp]: "sats_of 0 = 0" "0 \<le> i \<Longrightarrow> sats_of (of_int i) = i"
  using js_round_of_int [of 0] by (simp_all add: sats_of_def)

lemma sats_of_neg: "r \<le> 0 \<Longrightarrow> sats_of r = 0"
  unfolding sats_of_def js_round_def by (simp add: max_def) linarith

lemma btc_sats_Nil [simp]: "btc_sats [] = 0"
  by (simp add: btc_sats_def)

lemma report_btc_sats: "getNumericValue (report_btc t) = of_int (btc_sats t)"
  by (cases "js_Number t") (simp_all add: report_btc_def btc_sats_def sats_of_def, simp_all add: getNumericValue_def fin_or_def)

lemma minus_not_space: "\<not> is_space CHR ''-''"
  by (simp add: is_space_def)

lemma js_Number_negative:
  "js_Number (CHR ''-'' # to_fixed_abs f n) = Fin (- (of_nat n / 10 ^ f))"
proof -
  let ?t = "to_fixed_abs f n"
  note shape = to_fixed_abs_shape [of f n]
  have tr: "trim (CHR ''-'' # ?t) = CHR ''-'' # ?t"
    using shape by (simp add: trim_id minus_not_space digit_not_space)
  have "?t \<noteq> ''Infinity''"
  proof
    assume "?t = ''Infinity''"
    with shape have "is_digit CHR ''I''" by simp
    then show False by (simp add: is_digit_def)
  qed
  with shape show ?thesis
    by (simp add: js_Number_def tr scan_sign_def signed_def starts_with_def)
qed

lemma btc_sats_formatBtcInput: "btc_sats (formatBtcInput v) = sats_of (getNumericValue v)"
proof -
  let ?a = "getNumericValue v"
  consider "?a = 0" | "0 < ?a" | "?a < 0" by linarith
  then show ?thesis
  proof cases
    case 1
    then show ?thesis by (simp add: formatBtcInput_def)
  next
    case 2
    have nn: "0 \<le> js_round ?a" using 2 by (simp add: js_round_def)
    have "formatBtcInput v = to_fixed_abs 8 (nat (js_round ?a))"
      using 2 by (simp add: formatBtcInput_def to_fixed_def SATS_PER_BTC_def)
    then have "getNumericValue (formatBtcInput v) = of_int (js_round ?a) / 10 ^ 8"
      using nn by (simp add: getNumericValue_def to_fixed_abs_Number fin_or_def)
    then show ?thesis using nn by (simp add: btc_sats_def SATS_PER_BTC_def) (simp add: sats_of_def)
  next
    case 3
    have "formatBtcInput v = CHR ''-'' # to_fixed_abs 8 (nat (js_round (- ?a)))"
      using 3 by (simp add: formatBtcInput_def to_fixed_def SATS_PER_BTC_def)
    then have "getNumericValue (formatBtcInput v) \<le> 0"
      by (simp add: getNumericValue_def js_Number_negative fin_or_def)
    then show ?thesis using 3 by (simp add: btc_sats_def sats_of_neg SATS_PER_BTC_def)
  qed
qed

text \<open>The invariant of the field: what is shown in BTC is what was reported in satoshis.\<close>

definition field_ok :: "currency_input \<Rightarrow> bool" where
  "field_ok s =
     (cf_mode s = BitcoinMode \<and> cf_denomination s = DenomBtc \<longrightarrow>
        btc_sats (cf_btcValue s) = sats_of (getNumericValue (cf_valueSat s)))"

lemma field_effects_ok: "field_ok s \<Longrightarrow> field_ok (field_effects old s)"
  by (auto simp: field_ok_def field_effects_def Let_def)

lemma toggle_ok:
  "field_ok s \<Longrightarrow> field_ok (handleToggleMode env s)"
  "field_ok s \<Longrightarrow> field_ok (handleAlternateValueClick env s)"
  "field_ok s \<Longrightarrow> field_ok (handleToggleBitcoinDenomination env s)"
  by (auto simp: field_ok_def handleToggleMode_def handleAlternateValueClick_def
      handleToggleBitcoinDenomination_def btc_sats_formatBtcInput Let_def)

lemma change_ok: "field_ok (ui_st w) \<Longrightarrow> field_ok (ui_st (snd (handleChangeMode env v w)))"
  by (auto simp: field_ok_def handleChangeMode_def effect_simps Let_def report_btc_sats)
     (auto simp: btc_sats_def sats_of_def)

lemma reset_ok:
  "field_ok s \<Longrightarrow> field_ok (field_effects s (s\<lparr>cf_valueSat := []\<rparr>))"
  by (auto simp: field_ok_def field_effects_def Let_def)

lemma field_step_ok: "field_ok (ui_st w) \<Longrightarrow> field_ok (ui_st (field_step w ev))"
  by (cases ev; cases "snd ev")
     (auto simp: field_step_def Let_def toggle_ok change_ok reset_ok field_effects_ok)

interpretation field: invariant_machine field_step "\<lambda>w. field_ok (ui_st w)"
  by unfold_locales (rule field_step_ok)

lemma init_field_ok [simp]: "field_ok (init_field v)"
  by (simp add: field_ok_def init_field_def)

lemma report_shape:
  "report_btc t = [] \<or> (\<exists>n. report_btc t = show_nat n)"
  "report_fiat r t = [] \<or> (\<exists>n. report_fiat r t = show_nat n)"
  by (auto simp: report_btc_def report_fiat_def sat_text_def show_int_nonneg split: jsnum.splits)

lemma field_effects_valueSat [simp]: "cf_valueSat (field_effects old s) = cf_valueSat s"
  by (simp add: field_effects_def Let_def)

lemma toggle_valueSat [simp]:
  "cf_valueSat (handleToggleMode env s) = cf_valueSat s"
  "cf_valueSat (handleAlternateValueClick env s) = cf_valueSat s"
  "cf_valueSat (handleToggleBitcoinDenomination env s) = cf_valueSat s"
  by (simp_all add: handleToggleMode_def handleAlternateValueClick_def handleToggleBitcoinDenomination_def Let_def)

section \<open>Properties\<close>

definition field_start :: "string \<Rightarrow> currency_input ui" where
  "field_start v = \<lparr>ui_st = init_field v, ui_log = []\<rparr>"

text \<open>C22: In BTC the field shows what it reports. After any sequence of typing, switching between
  satoshis, BTC and fiat, changes of rate and currency, and resets by the parent, whenever the
  field shows BTC the shown text, in satoshis, is the reported value (whole and non-negative).\<close>

theorem field_shows_what_it_reports:
  "cf_mode (ui_st (foldl field_step (field_start v) evs)) \<noteq> BitcoinMode \<or>
   cf_denomination (ui_st (foldl field_step (field_start v) evs)) \<noteq> DenomBtc \<or>
   btc_sats (inputValue (ui_st (foldl field_step (field_start v) evs))) =
     sats_of (getNumericValue (cf_valueSat (ui_st (foldl field_step (field_start v) evs))))"
proof -
  have "field_ok (ui_st (field_start v))" by (simp add: field_start_def)
  then have "field_ok (ui_st (foldl field_step (field_start v) evs))" by (rule field.run_inv)
  then show ?thesis by (auto simp: field_ok_def inputValue_def)
qed

definition sample_env :: currency_env where
  "sample_env = \<lparr>ce_currency = Some ''EUR'', ce_rate = Some 50000, ce_rateError = False,
     ce_disabled = False, ce_digits = (\<lambda>c. Some 2)\<rparr>"

theorem field_shows_what_it_reports_witness:
  "btc_sats (inputValue (ui_st (foldl field_step (field_start []) [(sample_env, FieldType ''0.5'')]))) =
     sats_of (getNumericValue (cf_valueSat (ui_st (foldl field_step (field_start []) [(sample_env, FieldType ''0.5'')]))))"
proof -
  let ?s = "ui_st (foldl field_step (field_start []) [(sample_env, FieldType ''0.5'')])"
  have t: "trim ''0.5'' = ''0.5''" "includes_str ''.'' ''0.5''" by code_simp+
  have "cf_mode ?s = BitcoinMode" "cf_denomination ?s = DenomBtc"
    using t by (simp_all add: field_step_def field_start_def init_field_def sample_env_def handleChangeMode_def
        effect_simps field_effects_def Let_def)
  with field_shows_what_it_reports [of "[]" "[(sample_env, FieldType ''0.5'')]"] show ?thesis by blast
qed

text \<open>What is reported. Switching the mode or the denomination never changes the reported value;
  typing in BTC or fiat reports the empty text or a whole number of satoshis in digits, and typing
  in satoshis without a decimal point reports the trimmed text itself.\<close>

lemma field_reports_satoshis:
  "cf_valueSat (ui_st (field_step w (env, FieldToggleMode))) = cf_valueSat (ui_st w) \<and>
   cf_valueSat (ui_st (field_step w (env, FieldToggleDenomination))) = cf_valueSat (ui_st w) \<and>
   (\<not> ce_disabled env \<longrightarrow>
      (if cf_mode (ui_st w) = BitcoinMode \<and> cf_denomination (ui_st w) = DenomSats \<and> \<not> includes_str ''.'' (trim t)
       then cf_valueSat (ui_st (field_step w (env, FieldType t))) = trim t
       else cf_valueSat (ui_st (field_step w (env, FieldType t))) = [] \<or>
            (\<exists>n. cf_valueSat (ui_st (field_step w (env, FieldType t))) = show_nat n)))"
proof -
  have d: "cf_denomination (ui_st w) = DenomSats \<longleftrightarrow> cf_denomination (ui_st w) \<noteq> DenomBtc"
    by (cases "cf_denomination (ui_st w)") simp_all
  show ?thesis
    using report_shape(1) [of "trim t"] report_shape(2) [of "field_rate env" "trim t"]
    by (simp add: field_step_def handleChangeMode_def effect_simps Let_def d)
qed

lemma field_reports_satoshis_witness:
  "cf_valueSat (ui_st (field_step (field_start []) (sample_env, FieldType '' 21 ''))) = ''21''"
proof -
  have t: "trim '' 21 '' = ''21''" "\<not> includes_str ''.'' ''21''" by code_simp+
  show ?thesis
    using field_reports_satoshis [of "field_start []" sample_env "'' 21 ''"] t
    by (simp add: field_start_def init_field_def sample_env_def)
qed

text \<open>A fiat amount is rounded to the nearest satoshi. A non-negative amount typed in fiat is
  reported as a number of satoshis whose value at the same rate differs from the amount by at most
  half a satoshi.\<close>

lemma fiat_rounds_to_nearest:
  assumes "0 < rate" and "js_Number t = Fin f" and "0 \<le> f" and "t \<noteq> []"
  shows "\<bar>getNumericValue (report_fiat rate t) / SATS_PER_BTC * rate - f\<bar> \<le> rate / SATS_PER_BTC / 2"
proof -
  let ?x = "f / rate * SATS_PER_BTC"
  have x: "0 \<le> ?x" using assms by (simp add: SATS_PER_BTC_def)
  have n: "getNumericValue (report_fiat rate t) = of_int (js_round ?x)"
    using assms x by (simp add: report_fiat_def) (simp add: js_round_def max_def)
  have "\<bar>of_int (js_round ?x) - ?x\<bar> \<le> 1 / 2"
    unfolding js_round_def by linarith
  then have "\<bar>of_int (js_round ?x) - ?x\<bar> * (rate / SATS_PER_BTC) \<le> 1 / 2 * (rate / SATS_PER_BTC)"
    by (rule mult_right_mono) (use assms in \<open>simp add: SATS_PER_BTC_def\<close>)
  moreover have "\<bar>of_int (js_round ?x) - ?x\<bar> * (rate / SATS_PER_BTC) =
      \<bar>of_int (js_round ?x) / SATS_PER_BTC * rate - f\<bar>"
    using assms(1) by (simp add: SATS_PER_BTC_def flip: abs_mult_pos) (simp add: field_simps)
  ultimately show ?thesis unfolding n by simp
qed

lemma fiat_rounds_to_nearest_witness:
  "\<bar>getNumericValue (report_fiat 50000 ''10'') / SATS_PER_BTC * 50000 - 10\<bar> \<le> 50000 / SATS_PER_BTC / 2"
proof -
  have "show_nat 10 = ''10''" by (simp add: show_nat.simps js_simps)
  then have "js_Number ''10'' = Fin 10" using js_Number_show_nat [of 10] by simp
  from fiat_rounds_to_nearest [OF _ this, of 50000] show ?thesis by simp
qed

end
