(* ===== verification/Permissions.thy ===== *)
theory Permissions imports Effects
begin

text \<open>
  The permission editor of a connection: \<open>components/Scopes.tsx\<close> (groups of scopes and single
  scopes), \<open>components/Permissions.tsx\<close> (budget and expiry switches),
  \<open>components/BudgetAmountSelect.tsx\<close>, \<open>components/BudgetRenewalSelect.tsx\<close> and
  \<open>components/ExpirySelect.tsx\<close>. Dates are milliseconds; what \<open>Date\<close> and \<open>dayjs\<close> compute from
  them in the local time zone is an argument.
\<close>

section \<open>Scopes\<close>

datatype ScopeGroup = FullAccess | ReadOnly | Isolated | Custom

definition scopeGroups :: "ScopeGroup list" where
  "scopeGroups = [FullAccess, ReadOnly, Isolated, Custom]"

fun scopeGroupIconMap :: "ScopeGroup \<Rightarrow> LucideIcon" where
  "scopeGroupIconMap FullAccess = ArrowDownUpIcon"
| "scopeGroupIconMap ReadOnly = MoveDownIcon"
| "scopeGroupIconMap Isolated = BrickWallIcon"
| "scopeGroupIconMap Custom = SquarePenIcon"

fun scopeGroupTitle :: "ScopeGroup \<Rightarrow> string" where
  "scopeGroupTitle FullAccess = ''Full Access''"
| "scopeGroupTitle ReadOnly = ''Read Only''"
| "scopeGroupTitle Isolated = ''Isolated App''"
| "scopeGroupTitle Custom = ''Custom''"

fun scopeGroupDescriptions :: "ScopeGroup \<Rightarrow> string" where
  "scopeGroupDescriptions FullAccess = ''Send and receive payments''"
| "scopeGroupDescriptions ReadOnly = ''Receive payments and view history''"
| "scopeGroupDescriptions Isolated = ''Separate wallet with isolated balance''"
| "scopeGroupDescriptions Custom = ''Define specific permissions''"

definition fullAccessScopes :: "WalletCapabilities \<Rightarrow> Scope list" where
  "fullAccessScopes caps = cap_scopes caps"

definition readOnlyScopes :: "WalletCapabilities \<Rightarrow> Scope list" where
  "readOnlyScopes caps = filter (\<lambda>scope. scope \<in> set READ_ONLY_SCOPES) (cap_scopes caps)"

definition isolatedScopes :: "WalletCapabilities \<Rightarrow> Scope list" where
  "isolatedScopes caps =
     (let isolated = [pay_invoice, get_balance, get_info, make_invoice, lookup_invoice,
                      list_transactions, notifications]
      in filter (\<lambda>scope. scope \<in> set isolated) (cap_scopes caps))"

definition initial_group :: "WalletCapabilities \<Rightarrow> Scope list \<Rightarrow> bool \<Rightarrow> ScopeGroup" where
  "initial_group caps scopes isolated =
     (if isolated \<and> length scopes = length (isolatedScopes caps) \<and>
         list_all (\<lambda>scope. scope \<in> set (isolatedScopes caps)) scopes then Isolated
      else if length scopes = length (fullAccessScopes caps) \<and>
         list_all (\<lambda>scope. scope \<in> set (fullAccessScopes caps)) scopes then FullAccess
      else if length scopes = length (readOnlyScopes caps) \<and>
         list_all (\<lambda>readOnlyScope. readOnlyScope \<in> set scopes) (readOnlyScopes caps) then ReadOnly
      else Custom)"

text \<open>The scopes and the isolation that a group stands for.\<close>

fun handleScopeGroupChange :: "WalletCapabilities \<Rightarrow> ScopeGroup \<Rightarrow> Scope list \<times> bool" where
  "handleScopeGroupChange caps FullAccess = (fullAccessScopes caps, False)"
| "handleScopeGroupChange caps ReadOnly = (readOnlyScopes caps, False)"
| "handleScopeGroupChange caps Isolated = (isolatedScopes caps, True)"
| "handleScopeGroupChange caps Custom = ([], False)"

definition handleScopeChange :: "Scope list \<Rightarrow> Scope \<Rightarrow> Scope list" where
  "handleScopeChange scopes scope =
     (if scope \<in> set scopes then filter (\<lambda>existing. existing \<noteq> scope) scopes
      else scopes @ [scope])"

section \<open>The editor's state\<close>

text \<open>
  The permissions belong to the parent; the other fields are the group shown by \<open>Scopes\<close>, the
  two switches of \<open>Permissions\<close>, the text in the budget input (while it is mounted) and the days
  remembered by the expiry selection.
\<close>

record perm_ui =
  pu_permissions :: AppPermissions
  pu_scopeGroup :: ScopeGroup
  pu_showBudgetOptions :: bool
  pu_showExpiryOptions :: bool
  pu_budgetInput :: string
  pu_expiryDays :: "int option"

text \<open>The local calendar at the time of an event.\<close>

record calendar =
  cal_now :: int
  cal_setEndOfDay :: "int \<Rightarrow> int"
  cal_addYear :: "int \<Rightarrow> int"
  cal_endOfDayAfter :: "int \<Rightarrow> int \<Rightarrow> int"
  cal_diffDays :: "int \<Rightarrow> int \<Rightarrow> int"

definition daysFromNow :: "calendar \<Rightarrow> int option \<Rightarrow> int option" where
  "daysFromNow cal date = map_option (\<lambda>d. cal_diffDays cal d (cal_now cal)) date"

definition budget_text :: "int \<Rightarrow> string" where
  "budget_text valueSat = (if valueSat \<noteq> 0 then show_int valueSat else [])"

definition init_perm_ui :: "calendar \<Rightarrow> WalletCapabilities \<Rightarrow> AppPermissions \<Rightarrow> perm_ui" where
  "init_perm_ui cal caps p =
     \<lparr>pu_permissions = p,
      pu_scopeGroup = initial_group caps (perm_scopes p) (perm_isolated p),
      pu_showBudgetOptions = (pay_invoice \<in> set (perm_scopes p) \<and> perm_maxAmountSat p > 0),
      pu_showExpiryOptions = (perm_expiresAt p \<noteq> None),
      pu_budgetInput = budget_text (perm_maxAmountSat p),
      pu_expiryDays = daysFromNow cal (perm_expiresAt p)\<rparr>"

definition handlePermissionsChange :: "(AppPermissions \<Rightarrow> AppPermissions) \<Rightarrow> perm_ui \<Rightarrow> perm_ui" where
  "handlePermissionsChange changed s = s\<lparr>pu_permissions := changed (pu_permissions s)\<rparr>"

definition onScopesChanged :: "Scope list \<Rightarrow> bool \<Rightarrow> perm_ui \<Rightarrow> perm_ui" where
  "onScopesChanged scopes isolated =
     handlePermissionsChange (\<lambda>p. p\<lparr>perm_scopes := scopes, perm_isolated := isolated\<rparr>)"

definition handleBudgetMaxAmountSatChange :: "int \<Rightarrow> perm_ui \<Rightarrow> perm_ui" where
  "handleBudgetMaxAmountSatChange amountSat =
     handlePermissionsChange (\<lambda>p. p\<lparr>perm_maxAmountSat := amountSat\<rparr>)"

definition handleBudgetRenewalChange :: "BudgetRenewalType \<Rightarrow> perm_ui \<Rightarrow> perm_ui" where
  "handleBudgetRenewalChange budgetRenewal =
     handlePermissionsChange (\<lambda>p. p\<lparr>perm_budgetRenewal := budgetRenewal\<rparr>)"

definition handleExpiryChange :: "int option \<Rightarrow> perm_ui \<Rightarrow> perm_ui" where
  "handleExpiryChange expiryDate =
     handlePermissionsChange (\<lambda>p. p\<lparr>perm_expiresAt := expiryDate\<rparr>)"

definition budget_switch :: "bool \<Rightarrow> perm_ui \<Rightarrow> perm_ui" where
  "budget_switch checked s =
     (if checked
      then handleBudgetMaxAmountSatChange DEFAULT_APP_BUDGET_SATS
             (handleBudgetRenewalChange DEFAULT_APP_BUDGET_RENEWAL s)
      else handleBudgetMaxAmountSatChange 0 (handleBudgetRenewalChange Never s))
     \<lparr>pu_showBudgetOptions := checked\<rparr>"

definition expiry_switch :: "calendar \<Rightarrow> bool \<Rightarrow> perm_ui \<Rightarrow> perm_ui" where
  "expiry_switch cal checked s =
     (if checked
      then handleExpiryChange (Some (cal_setEndOfDay cal (cal_addYear cal (cal_now cal)))) s
      else handleExpiryChange None s)
     \<lparr>pu_showExpiryOptions := checked\<rparr>"

section \<open>The selections\<close>

definition budget_options :: "int option \<Rightarrow> (string \<times> int) list \<Rightarrow> (string \<times> int) list" where
  "budget_options minAmountSat opts =
     filter (\<lambda>(budget, sat). \<not> truthy_int minAmountSat \<or> sat \<ge> the minAmountSat) opts"

definition parse_budget :: "string \<Rightarrow> int" where
  "parse_budget value = (case js_parseInt value of Some n \<Rightarrow> if n > 0 then n else 0 | None \<Rightarrow> 0)"

definition type_budget :: "string \<Rightarrow> perm_ui \<Rightarrow> perm_ui" where
  "type_budget value s =
     handleBudgetMaxAmountSatChange (parse_budget value) (s\<lparr>pu_budgetInput := value\<rparr>)"

definition isPreset :: "int option \<Rightarrow> bool" where
  "isPreset expiryDays = (\<exists>d. expiryDays = Some d \<and> d \<in> snd ` set expiryOptions)"

definition choose_expiry :: "calendar \<Rightarrow> int \<Rightarrow> perm_ui \<Rightarrow> perm_ui" where
  "choose_expiry cal days s =
     (handleExpiryChange (Some (cal_endOfDayAfter cal (cal_now cal) days)) s)\<lparr>pu_expiryDays := Some days\<rparr>"

definition pick_date :: "calendar \<Rightarrow> int option \<Rightarrow> perm_ui \<Rightarrow> perm_ui" where
  "pick_date cal date s =
     (case date of
        None \<Rightarrow> s
      | Some d \<Rightarrow>
          (let date' = cal_setEndOfDay cal d
           in (handleExpiryChange (Some date') s)\<lparr>pu_expiryDays := daysFromNow cal (Some date')\<rparr>))"

section \<open>Mounting, effects and events\<close>

definition budget_mounted :: "perm_ui \<Rightarrow> bool" where
  "budget_mounted s = (pay_invoice \<in> set (perm_scopes (pu_permissions s)) \<and> pu_showBudgetOptions s)"

text \<open>
  After each event: the budget input starts from the value when it is mounted and follows the
  value when that changes; the expiry selection computes its days when it is mounted.
\<close>

definition perm_effects :: "calendar \<Rightarrow> perm_ui \<Rightarrow> perm_ui \<Rightarrow> perm_ui" where
  "perm_effects cal before s =
     (let v = perm_maxAmountSat (pu_permissions s);
          s1 = (if \<not> budget_mounted before \<or> v \<noteq> perm_maxAmountSat (pu_permissions before)
                then s\<lparr>pu_budgetInput := budget_text v\<rparr> else s)
      in if pu_showExpiryOptions s1 \<and> \<not> pu_showExpiryOptions before
         then s1\<lparr>pu_expiryDays := daysFromNow cal (perm_expiresAt (pu_permissions s1))\<rparr> else s1)"

datatype perm_event =
    ChooseGroup ScopeGroup | ToggleScope Scope | ToggleIsolated
  | BudgetSwitch bool | ChooseRenewal BudgetRenewalType | ChooseBudget string | TypeBudget string
  | ExpirySwitch bool | ChooseExpiry string | PickDate "int option"

text \<open>A control that is not shown cannot be used.\<close>

definition perm_shown :: "WalletCapabilities \<Rightarrow> perm_ui \<Rightarrow> perm_event \<Rightarrow> bool" where
  "perm_shown caps s e =
     (case e of
        ChooseGroup g \<Rightarrow> True
      | ToggleScope scope \<Rightarrow> pu_scopeGroup s = Custom \<and> scope \<in> set (cap_scopes caps)
      | ToggleIsolated \<Rightarrow> pu_scopeGroup s = Custom
      | BudgetSwitch _ \<Rightarrow> pay_invoice \<in> set (perm_scopes (pu_permissions s))
      | ChooseRenewal r \<Rightarrow> budget_mounted s \<and> r \<in> set validBudgetRenewals
      | ChooseBudget b \<Rightarrow> budget_mounted s \<and> b \<in> fst ` set (budget_options None budgetOptionsSat)
      | TypeBudget _ \<Rightarrow> budget_mounted s
      | ExpirySwitch _ \<Rightarrow> True
      | ChooseExpiry x \<Rightarrow> pu_showExpiryOptions s \<and> x \<in> fst ` set expiryOptions
      | PickDate _ \<Rightarrow> pu_showExpiryOptions s)"

definition perm_handler :: "calendar \<Rightarrow> WalletCapabilities \<Rightarrow> perm_event \<Rightarrow> perm_ui \<Rightarrow> perm_ui" where
  "perm_handler cal caps e s =
     (case e of
        ChooseGroup g \<Rightarrow>
          (let (scopes, isolated) = handleScopeGroupChange caps g
           in onScopesChanged scopes isolated (s\<lparr>pu_scopeGroup := g\<rparr>))
      | ToggleScope scope \<Rightarrow>
          onScopesChanged (handleScopeChange (perm_scopes (pu_permissions s)) scope)
            (perm_isolated (pu_permissions s)) s
      | ToggleIsolated \<Rightarrow>
          onScopesChanged (perm_scopes (pu_permissions s)) (\<not> perm_isolated (pu_permissions s)) s
      | BudgetSwitch checked \<Rightarrow> budget_switch checked s
      | ChooseRenewal r \<Rightarrow> handleBudgetRenewalChange r s
      | ChooseBudget b \<Rightarrow> handleBudgetMaxAmountSatChange (the (map_of budgetOptionsSat b)) s
      | TypeBudget value \<Rightarrow> type_budget value s
      | ExpirySwitch checked \<Rightarrow> expiry_switch cal checked s
      | ChooseExpiry x \<Rightarrow> choose_expiry cal (the (map_of expiryOptions x)) s
      | PickDate d \<Rightarrow> pick_date cal d s)"

definition perm_step :: "WalletCapabilities \<Rightarrow> perm_ui \<Rightarrow> calendar \<times> perm_event \<Rightarrow> perm_ui" where
  "perm_step caps s ev =
     (let (cal, e) = ev
      in if perm_shown caps s e then perm_effects cal s (perm_handler cal caps e s) else s)"

lemmas perm_change_defs =
  handlePermissionsChange_def onScopesChanged_def handleBudgetMaxAmountSatChange_def
  handleBudgetRenewalChange_def handleExpiryChange_def

section \<open>Scopes: what a group stands for\<close>

lemma group_scopes_distinct:
  "distinct (cap_scopes caps) \<Longrightarrow> distinct (fst (handleScopeGroupChange caps g))"
  by (cases g) (simp_all add: fullAccessScopes_def readOnlyScopes_def isolatedScopes_def)

lemma group_scopes_subset: "set (fst (handleScopeGroupChange caps g)) \<subseteq> set (cap_scopes caps)"
  by (cases g) (auto simp: fullAccessScopes_def readOnlyScopes_def isolatedScopes_def)

lemma read_only_no_payment: "pay_invoice \<notin> set (readOnlyScopes caps)"
  by (simp add: readOnlyScopes_def READ_ONLY_SCOPES_def)

lemma isolated_no_signing: "set (isolatedScopes caps) \<inter> {sign_message, superuser} = {}"
  by (auto simp: isolatedScopes_def)

lemma same_length_subset:
  assumes "distinct xs" "distinct ys" "length xs = length ys" "set xs \<subseteq> set ys"
  shows "set xs = set ys"
  using assms by (metis card_subset_eq distinct_card finite_set)

text \<open>The group that is shown says which scopes are granted.\<close>

definition group_ok :: "WalletCapabilities \<Rightarrow> ScopeGroup \<Rightarrow> Scope list \<Rightarrow> bool \<Rightarrow> bool" where
  "group_ok caps g scopes isolated =
     (g = Custom \<or> set scopes = set (fst (handleScopeGroupChange caps g)) \<and> (g = Isolated \<longrightarrow> isolated))"

lemma initial_group_ok:
  assumes "distinct (cap_scopes caps)" and "distinct scopes"
  shows "group_ok caps (initial_group caps scopes isolated) scopes isolated"
proof -
  have d: "distinct (isolatedScopes caps)" "distinct (fullAccessScopes caps)" "distinct (readOnlyScopes caps)"
    using assms(1) by (simp_all add: isolatedScopes_def fullAccessScopes_def readOnlyScopes_def)
  note eq = same_length_subset [OF assms(2) d(1)] same_length_subset [OF assms(2) d(2)]
    same_length_subset [OF d(3) assms(2)]
  show ?thesis
    using eq by (auto simp: group_ok_def initial_group_def list_all_iff subset_iff)
qed

definition scopes_ok :: "WalletCapabilities \<Rightarrow> Scope set \<Rightarrow> perm_ui \<Rightarrow> bool" where
  "scopes_ok caps asked s =
     (distinct (perm_scopes (pu_permissions s)) \<and>
      set (perm_scopes (pu_permissions s)) \<subseteq> asked \<union> set (cap_scopes caps) \<and>
      group_ok caps (pu_scopeGroup s) (perm_scopes (pu_permissions s)) (perm_isolated (pu_permissions s)))"

lemma effects_keep [simp]:
  "pu_permissions (perm_effects cal b s) = pu_permissions s"
  "pu_scopeGroup (perm_effects cal b s) = pu_scopeGroup s"
  "pu_showBudgetOptions (perm_effects cal b s) = pu_showBudgetOptions s"
  "pu_showExpiryOptions (perm_effects cal b s) = pu_showExpiryOptions s"
  by (simp_all add: perm_effects_def Let_def)

lemma handler_scopes:
  assumes "distinct (cap_scopes caps)" and "scopes_ok caps asked s" and "perm_shown caps s e"
  shows "scopes_ok caps asked (perm_handler cal caps e s)"
proof (cases e)
  case (ChooseGroup g)
  with assms(1) group_scopes_subset [of caps g] show ?thesis
    by (cases g)
       (auto simp: perm_handler_def scopes_ok_def group_ok_def perm_change_defs fullAccessScopes_def
          readOnlyScopes_def isolatedScopes_def)
next
  case (ToggleScope x)
  with assms show ?thesis
    by (auto simp: perm_handler_def perm_shown_def scopes_ok_def group_ok_def perm_change_defs
        handleScopeChange_def)
next
  case (PickDate d)
  with assms show ?thesis
    by (cases d) (simp_all add: perm_handler_def scopes_ok_def perm_change_defs pick_date_def Let_def)
qed (use assms in \<open>simp_all add: perm_handler_def perm_shown_def scopes_ok_def group_ok_def perm_change_defs budget_switch_def
       type_budget_def expiry_switch_def choose_expiry_def\<close>)

interpretation editor_scopes: invariant_machine "perm_step caps"
    "\<lambda>s. distinct (cap_scopes caps) \<and> scopes_ok caps asked s" for caps asked
proof
  fix s :: perm_ui and ev :: "calendar \<times> perm_event"
  assume a: "distinct (cap_scopes caps) \<and> scopes_ok caps asked s"
  obtain cal e where ev: "ev = (cal, e)" by (cases ev)
  have "scopes_ok caps asked (perm_handler cal caps e s)" if "perm_shown caps s e"
    using a that by (simp add: handler_scopes)
  with a show "distinct (cap_scopes caps) \<and> scopes_ok caps asked (perm_step caps s ev)"
    by (simp add: ev perm_step_def scopes_ok_def)
qed

lemma init_scopes_ok:
  "distinct (cap_scopes caps) \<Longrightarrow> distinct (perm_scopes p) \<Longrightarrow>
   scopes_ok caps (set (perm_scopes p)) (init_perm_ui cal caps p)"
  by (simp add: scopes_ok_def init_perm_ui_def initial_group_ok)

section \<open>Budget and expiry: what the switches stand for\<close>

lemma parse_budget_Nil [simp]: "parse_budget [] = 0"
  by code_simp

lemma parse_budget_text: "0 \<le> v \<Longrightarrow> parse_budget (budget_text v) = v"
proof (cases "v = 0")
  case False
  assume "0 \<le> v"
  with False show ?thesis by (simp add: budget_text_def show_int_nonneg parse_budget_def)
qed (simp add: budget_text_def)

definition budget_ok :: "perm_ui \<Rightarrow> bool" where
  "budget_ok s =
     (0 \<le> perm_maxAmountSat (pu_permissions s) \<and>
      (\<not> pu_showBudgetOptions s \<longrightarrow> perm_maxAmountSat (pu_permissions s) = 0) \<and>
      (budget_mounted s \<longrightarrow> parse_budget (pu_budgetInput s) = perm_maxAmountSat (pu_permissions s)) \<and>
      (pu_showExpiryOptions s \<longleftrightarrow> perm_expiresAt (pu_permissions s) \<noteq> None))"

text \<open>Before the effects run, the input may lag behind a value that has just changed.\<close>

definition budget_lags :: "perm_ui \<Rightarrow> perm_ui \<Rightarrow> bool" where
  "budget_lags before s =
     (0 \<le> perm_maxAmountSat (pu_permissions s) \<and>
      (\<not> pu_showBudgetOptions s \<longrightarrow> perm_maxAmountSat (pu_permissions s) = 0) \<and>
      (perm_maxAmountSat (pu_permissions s) = perm_maxAmountSat (pu_permissions before) \<and> budget_mounted before \<longrightarrow>
         parse_budget (pu_budgetInput s) = perm_maxAmountSat (pu_permissions s)) \<and>
      (pu_showExpiryOptions s \<longleftrightarrow> perm_expiresAt (pu_permissions s) \<noteq> None))"

lemma effects_settle: "budget_lags before s \<Longrightarrow> budget_ok (perm_effects cal before s)"
  by (auto simp: budget_lags_def budget_ok_def perm_effects_def budget_mounted_def parse_budget_text Let_def)

lemma budget_option_pos: "b \<in> fst ` set budgetOptionsSat \<Longrightarrow> 0 \<le> the (map_of budgetOptionsSat b)"
  by (auto simp: budgetOptionsSat_def)

lemma budget_options_all [simp]: "budget_options None opts = opts"
  by (simp add: budget_options_def)

lemma parse_budget_nonneg [simp]: "0 \<le> parse_budget v"
  by (simp add: parse_budget_def split: option.splits)

lemma handler_budget:
  assumes "budget_ok s" and "perm_shown caps s e"
  shows "budget_lags s (perm_handler cal caps e s)"
proof (cases e)
  case (PickDate d)
  with assms show ?thesis
    by (cases d)
       (auto simp: perm_handler_def perm_shown_def budget_ok_def budget_lags_def perm_change_defs pick_date_def Let_def)
next
  case (ChooseGroup g)
  with assms show ?thesis
    by (cases g) (auto simp: perm_handler_def budget_ok_def budget_lags_def perm_change_defs)
next
  case (ChooseBudget b)
  with assms show ?thesis
    by (auto simp: perm_handler_def perm_shown_def budget_ok_def budget_lags_def perm_change_defs budget_mounted_def
        intro: budget_option_pos)
next
  case (BudgetSwitch c)
  with assms show ?thesis
    by (cases c; cases "pu_showBudgetOptions s")
       (auto simp: perm_handler_def perm_shown_def budget_ok_def budget_lags_def perm_change_defs budget_switch_def
          budget_mounted_def DEFAULT_APP_BUDGET_SATS_def)
qed (use assms in \<open>auto simp: perm_handler_def perm_shown_def budget_ok_def budget_lags_def perm_change_defs
       type_budget_def expiry_switch_def choose_expiry_def budget_mounted_def\<close>)

interpretation editor_budget: invariant_machine "perm_step caps" budget_ok for caps
proof
  fix s :: perm_ui and ev :: "calendar \<times> perm_event"
  assume a: "budget_ok s"
  obtain cal e where ev: "ev = (cal, e)" by (cases ev)
  show "budget_ok (perm_step caps s ev)"
    using a by (auto simp: ev perm_step_def intro: effects_settle handler_budget)
qed

lemma init_budget_ok:
  "0 \<le> perm_maxAmountSat p \<Longrightarrow> pay_invoice \<in> set (perm_scopes p) \<Longrightarrow> budget_ok (init_perm_ui cal caps p)"
  by (auto simp: budget_ok_def init_perm_ui_def parse_budget_text)

section \<open>Properties\<close>

text \<open>A node that supports everything, and a receive-only connection with the default budget.\<close>

definition sample_caps :: WalletCapabilities where
  "sample_caps =
     \<lparr>cap_methods = [M_get_info, M_get_balance, M_make_invoice, M_pay_invoice, M_lookup_invoice,
        M_list_transactions, M_sign_message, M_pay_keysend],
      cap_scopes = [pay_invoice, get_balance, get_info, make_invoice, lookup_invoice, list_transactions,
        sign_message, notifications],
      cap_notificationTypes = [payment_received, payment_sent]\<rparr>"

definition sample_perms :: "Scope list \<Rightarrow> AppPermissions" where
  "sample_perms scopes =
     \<lparr>perm_scopes = scopes, perm_maxAmountSat = DEFAULT_APP_BUDGET_SATS,
      perm_budgetRenewal = DEFAULT_APP_BUDGET_RENEWAL, perm_expiresAt = None, perm_isolated = False\<rparr>"

definition sample_calendar :: calendar where
  "sample_calendar =
     \<lparr>cal_now = 1000, cal_setEndOfDay = (\<lambda>t. t - t mod 86400000 + 86399000), cal_addYear = (\<lambda>t. t + 31536000000),
      cal_endOfDayAfter = (\<lambda>t d. t + d * 86400000), cal_diffDays = (\<lambda>a b. (a - b) div 86400000)\<rparr>"



text \<open>The switches show the limits that are set. For a connection that may pay from the start,
  through any use of the editor: with the budget switch off no budget is set, while the budget input
  is shown its text denotes the budget, and the expiry switch is on exactly when an expiry is set.\<close>

lemma switches_show_limits:
  assumes "pay_invoice \<in> set (perm_scopes p)" and "0 \<le> perm_maxAmountSat p"
    and "s = foldl (perm_step caps) (init_perm_ui cal caps p) evs"
  shows "(\<not> pu_showBudgetOptions s \<longrightarrow> perm_maxAmountSat (pu_permissions s) = 0) \<and>
    (budget_mounted s \<longrightarrow> parse_budget (pu_budgetInput s) = perm_maxAmountSat (pu_permissions s)) \<and>
    (pu_showExpiryOptions s \<longleftrightarrow> perm_expiresAt (pu_permissions s) \<noteq> None)"
  using editor_budget.run_inv [of "init_perm_ui cal caps p" caps evs] init_budget_ok [OF assms(2,1), of cal caps] assms(3)
  by (simp add: budget_ok_def)

lemma switches_show_limits_witness:
  "perm_maxAmountSat (pu_permissions (foldl (perm_step sample_caps)
     (init_perm_ui sample_calendar sample_caps (sample_perms [pay_invoice]))
     [(sample_calendar, BudgetSwitch False)])) = 0"
proof -
  let ?s = "foldl (perm_step sample_caps) (init_perm_ui sample_calendar sample_caps (sample_perms [pay_invoice]))
     [(sample_calendar, BudgetSwitch False)]"
  have "\<not> pu_showBudgetOptions ?s"
    by (simp add: perm_step_def perm_shown_def perm_handler_def init_perm_ui_def sample_perms_def budget_switch_def)
  then show ?thesis
    using switches_show_limits [OF _ _ refl, of "sample_perms [pay_invoice]" sample_caps sample_calendar
        "[(sample_calendar, BudgetSwitch False)]"]
    by (simp add: sample_perms_def DEFAULT_APP_BUDGET_SATS_def)
qed

text \<open>A budget can be set and not shown. When the requested scopes do not include payments and the
  wallet supports them, choosing Full Access leaves the budget switch off although the budget that
  came with the request, 100000 sats by default, still limits the connection.\<close>

lemma budget_hidden_after_read_only:
  assumes "pay_invoice \<notin> set (perm_scopes p)" and "pay_invoice \<in> set (cap_scopes caps)"
  shows "\<exists>s. s = perm_step caps (init_perm_ui cal caps p) (cal, ChooseGroup FullAccess) \<and>
     pay_invoice \<in> set (perm_scopes (pu_permissions s)) \<and> \<not> pu_showBudgetOptions s \<and>
     perm_maxAmountSat (pu_permissions s) = perm_maxAmountSat p"
  using assms by (simp add: perm_step_def perm_shown_def perm_handler_def init_perm_ui_def perm_change_defs fullAccessScopes_def)

lemma budget_hidden_after_read_only_witness:
  "\<exists>s. s = perm_step sample_caps (init_perm_ui sample_calendar sample_caps (sample_perms [get_info]))
         (sample_calendar, ChooseGroup FullAccess) \<and>
     \<not> pu_showBudgetOptions s \<and> perm_maxAmountSat (pu_permissions s) = 100000"
  using budget_hidden_after_read_only [of "sample_perms [get_info]" sample_caps sample_calendar]
  by (simp add: sample_perms_def sample_caps_def DEFAULT_APP_BUDGET_SATS_def)

end
