(* ===== verification/NewApp.thy ===== *)
theory NewApp imports Permissions RequestLayer LibUtils
begin

text \<open>
  Creating a connection: \<open>screens/apps/NewApp.tsx\<close>. The page reads a deep link's query, derives the
  requested permissions, lets the user edit them and sends one request. The app store table
  (\<open>components/connections/SuggestedAppData.tsx\<close>), the URL parser behind \<open>safeReturnToUrl\<close>, the
  calendar and the stepper's navigation are arguments.
\<close>

section \<open>The app store entries\<close>

record AppStoreApp =
  asa_id :: string
  asa_title :: string
  asa_playLink :: "string option"
  asa_appleLink :: "string option"
  asa_zapStoreLink :: "string option"
  asa_chromeLink :: "string option"
  asa_firefoxLink :: "string option"
  asa_superuser :: "bool option"
  asa_readonly :: "bool option"

definition isInstallable :: "AppStoreApp option \<Rightarrow> bool" where
  "isInstallable app =
     (case app of None \<Rightarrow> False
      | Some a \<Rightarrow> truthy_str (asa_appleLink a) \<or> truthy_str (asa_playLink a) \<or> truthy_str (asa_zapStoreLink a) \<or>
          truthy_str (asa_chromeLink a) \<or> truthy_str (asa_firefoxLink a))"

section \<open>What the deep link asks for\<close>

definition qget :: "params \<Rightarrow> string \<Rightarrow> string" where
  "qget q k = nullish (params_get q k) []"

definition appStoreApp :: "AppStoreApp list \<Rightarrow> params \<Rightarrow> AppStoreApp option" where
  "appStoreApp store q = find (\<lambda>app. asa_id app = qget q ''app'') store"

text \<open>\<open>new Set(xs)\<close> in insertion order.\<close>

definition js_set :: "'a list \<Rightarrow> 'a list" where
  "js_set xs = rev (remdups (rev xs))"

fun notification_str :: "Nip47NotificationType \<Rightarrow> string" where
  "notification_str payment_received = ''payment_received''"
| "notification_str payment_sent = ''payment_sent''"

definition requested_methods :: "WalletCapabilities \<Rightarrow> params \<Rightarrow> string list" where
  "requested_methods caps q =
     (if qget q ''request_methods'' \<noteq> [] then split_on CHR '' '' (qget q ''request_methods'')
      else map method_str (cap_methods caps))"

definition requested_notifications :: "WalletCapabilities \<Rightarrow> params \<Rightarrow> string list" where
  "requested_notifications caps q =
     (if qget q ''notification_types'' \<noteq> [] then split_on CHR '' '' (qget q ''notification_types'')
      else if qget q ''request_methods'' \<noteq> [] then []
      else map notification_str (cap_notificationTypes caps))"

definition unsupported_methods :: "WalletCapabilities \<Rightarrow> params \<Rightarrow> string list" where
  "unsupported_methods caps q =
     filter (\<lambda>m. m \<notin> set (map method_str (cap_methods caps))) (js_set (requested_methods caps q))"

definition unsupported_notifications :: "WalletCapabilities \<Rightarrow> params \<Rightarrow> string list" where
  "unsupported_notifications caps q =
     filter (\<lambda>t. t \<notin> set (map notification_str (cap_notificationTypes caps)))
       (js_set (requested_notifications caps q))"

definition scopes_of_methods :: "string list \<Rightarrow> string list \<Rightarrow> bool \<Rightarrow> Scope list" where
  "scopes_of_methods methods notificationTypes isolated =
     (let has = (\<lambda>m. m \<in> set methods)
      in (if has ''pay_invoice'' \<or> has ''pay_keysend'' \<or> has ''multi_pay_invoice'' \<or> has ''multi_pay_keysend''
          then [pay_invoice] else []) @
         (if has ''get_info'' then [get_info] else []) @
         (if has ''get_balance'' then [get_balance] else []) @
         (if has ''make_invoice'' \<or> has ''make_hold_invoice'' \<or> has ''settle_hold_invoice'' \<or>
             has ''cancel_hold_invoice'' then [make_invoice] else []) @
         (if has ''lookup_invoice'' then [lookup_invoice] else []) @
         (if has ''list_transactions'' then [list_transactions] else []) @
         (if has ''sign_message'' \<and> \<not> isolated then [sign_message] else []) @
         (if notificationTypes \<noteq> [] then [notifications] else []))"

text \<open>The initial scopes and the error that replaces the page (the later one wins).\<close>

definition initialScopes ::
    "AppStoreApp list \<Rightarrow> WalletCapabilities \<Rightarrow> params \<Rightarrow> Scope list \<times> string option" where
  "initialScopes store caps q =
     (if Option.bind (appStoreApp store q) asa_readonly = Some True \<and> qget q ''request_methods'' = []
      then (filter (\<lambda>scope. scope \<in> set READ_ONLY_SCOPES) (cap_scopes caps), None)
      else
        (let badMethods = unsupported_methods caps q;
             badTypes = unsupported_notifications caps q
         in (scopes_of_methods (requested_methods caps q) (requested_notifications caps q)
               (qget q ''isolated'' = ''true''),
             if badTypes \<noteq> []
             then Some (''This app requests notification types not supported by your wallet: '' @
                        join_with CHR '','' badTypes)
             else if badMethods \<noteq> []
             then Some (''This app requests methods not supported by your wallet: '' @ join_with CHR '','' badMethods)
             else None)))"

definition parseExpiresParam :: "calendar \<Rightarrow> string \<Rightarrow> int option" where
  "parseExpiresParam cal expiresParam =
     (case js_parseInt expiresParam of
        Some t \<Rightarrow> Some (cal_setEndOfDay cal (t * 1000))
      | None \<Rightarrow> None)"

definition valid_renewal :: "string option \<Rightarrow> BudgetRenewalType option" where
  "valid_renewal s = find (\<lambda>r. s = Some (renewal_str r)) validBudgetRenewals"

text \<open>
  \<open>parseInt\<close> of a malformed amount is \<open>NaN\<close>, which the page treats as 0 wherever it reads the
  amount (\<open>NaN > 0\<close> is false, \<open>NaN || 0\<close> is 0, \<open>NaN ? ... : ""\<close> is the empty text): it is 0 here.
\<close>

definition initial_max_amount :: "string \<Rightarrow> int" where
  "initial_max_amount msat =
     (if msat \<noteq> [] then (case js_parseInt msat of Some n \<Rightarrow> n div 1000 | None \<Rightarrow> 0)
      else DEFAULT_APP_BUDGET_SATS)"

definition initial_permissions ::
    "calendar \<Rightarrow> AppStoreApp list \<Rightarrow> WalletCapabilities \<Rightarrow> params \<Rightarrow> AppPermissions" where
  "initial_permissions cal store caps q =
     \<lparr>perm_scopes = fst (initialScopes store caps q),
      perm_maxAmountSat = initial_max_amount (qget q ''max_amount''),
      perm_budgetRenewal =
        (case valid_renewal (params_get q ''budget_renewal'') of
           Some r \<Rightarrow> r
         | None \<Rightarrow> if qget q ''max_amount'' \<noteq> [] then Never else DEFAULT_APP_BUDGET_RENEWAL),
      perm_expiresAt = parseExpiresParam cal (qget q ''expires_at''),
      perm_isolated = (qget q ''isolated'' = ''true'')\<rparr>"

section \<open>The page\<close>

datatype app_step = StepInstall | StepConfigure | StepFinalize

record new_app =
  na_name :: string
  na_superuser :: bool
  na_dialog :: bool
  na_unlockPassword :: string
  na_perm :: perm_ui
  na_loading :: bool
  na_response :: "json option"
  na_step :: app_step

text \<open>What does not change while the page is open.\<close>

record new_app_env =
  ne_store :: "AppStoreApp list"
  ne_caps :: WalletCapabilities
  ne_query :: params
  ne_parse_url :: "string \<Rightarrow> (string \<times> string) option"
  ne_toISO :: "int \<Rightarrow> string option"
  ne_opener :: bool

definition ne_app :: "new_app_env \<Rightarrow> AppStoreApp option" where
  "ne_app env = appStoreApp (ne_store env) (ne_query env)"

definition ne_returnTo :: "new_app_env \<Rightarrow> string" where
  "ne_returnTo env = nullish (safeReturnToUrl (ne_parse_url env) (params_get (ne_query env) ''return_to'')) []"

definition app_steps :: "new_app_env \<Rightarrow> app_step list" where
  "app_steps env =
     (if ne_app env \<noteq> None then [StepInstall] else []) @ [StepConfigure] @
     (if ne_returnTo env \<noteq> [] then [] else [StepFinalize])"

definition init_new_app :: "calendar \<Rightarrow> new_app_env \<Rightarrow> new_app" where
  "init_new_app cal env =
     \<lparr>na_name = or_str (if truthy_str (params_get (ne_query env) ''name'') then params_get (ne_query env) ''name''
                        else params_get (ne_query env) ''c'')
                 (case ne_app env of Some a \<Rightarrow> asa_title a | None \<Rightarrow> []),
      na_superuser = (Option.bind (ne_app env) asa_superuser = Some True),
      na_dialog = False, na_unlockPassword = [],
      na_perm = init_perm_ui cal (ne_caps env) (initial_permissions cal (ne_store env) (ne_caps env) (ne_query env)),
      na_loading = False, na_response = None,
      na_step = hd (app_steps env)\<rparr>"

text \<open>The request; \<open>toISOString\<close> throws on a date it cannot print.\<close>

definition create_request :: "new_app_env \<Rightarrow> new_app \<Rightarrow> string option \<Rightarrow> CreateAppRequest" where
  "create_request env s expires =
     (let p = pu_permissions (na_perm s)
      in \<lparr>car_name = na_name s, car_pubkey = Some (qget (ne_query env) ''pubkey''),
          car_maxAmountSat = Some (perm_maxAmountSat p), car_maxAmountMsat = None,
          car_budgetRenewal = Some (perm_budgetRenewal p), car_expiresAt = expires,
          car_scopes = perm_scopes p @ (if na_superuser s then [superuser] else []),
          car_returnTo = Some (ne_returnTo env), car_isolated = Some (perm_isolated p),
          car_metadata = Some \<lparr>meta_app_store_app_id = map_option asa_id (ne_app env),
                                meta_lud16 = None, meta_rest = []\<rparr>,
          car_unlockPassword = Some (na_unlockPassword s)\<rparr>)"

definition expires_iso :: "new_app_env \<Rightarrow> new_app \<Rightarrow> (new_app, string option) act" where
  "expires_iso env s =
     (case perm_expiresAt (pu_permissions (na_perm s)) of
        None \<Rightarrow> ret None
      | Some t \<Rightarrow> (case ne_toISO env t of Some d \<Rightarrow> ret (Some d) | None \<Rightarrow> throw ''Invalid time value''))"

text \<open>The details of the success event; \<open>relayUrls[0]\<close> throws when there are no URLs at all.\<close>

definition nwc_details :: "json \<Rightarrow> (new_app, (string \<times> json) list) act" where
  "nwc_details res =
     (case jget ''relayUrls'' res of
        Some (JArr urls) \<Rightarrow>
          ret (opt_member ''relayUrl'' (case urls of u # _ \<Rightarrow> Some u | [] \<Rightarrow> None) @ [(''relayUrls'', JArr urls)] @
               opt_member ''walletPubkey'' (jget ''walletPubkey'' res) @ opt_member ''lud16'' (jget ''lud16'' res))
      | _ \<Rightarrow> throw ''Cannot read properties of undefined'')"

definition finish_create :: "new_app_env \<Rightarrow> (new_app, unit) act \<Rightarrow> json \<Rightarrow> (new_app, bool) act" where
  "finish_create env nextFunc res =
     andThen (nwc_details res) (\<lambda>detail.
     andDo (emit (EMessage (JObj detail)))
     (andDo (whenD (ne_opener env) (emit (EMessage (JObj ((''type'', JStr ''nwc:success'') # detail)))))
     (case safeReturnToUrl (ne_parse_url env) (jget_str ''returnTo'' res) of
        Some url \<Rightarrow>
          if url \<noteq> [] then andDo (emit (ELocation url)) (ret True)
          else andDo (toast ''App created'') (andDo (setS (\<lambda>s. s\<lparr>na_response := Some res\<rparr>)) (andDo nextFunc (ret False)))
      | None \<Rightarrow>
          andDo (toast ''App created'') (andDo (setS (\<lambda>s. s\<lparr>na_response := Some res\<rparr>)) (andDo nextFunc (ret False))))))"

text \<open>The value tells whether the handler returned before resetting \<open>loading\<close>.\<close>

definition handleCreateApp :: "server \<Rightarrow> new_app_env \<Rightarrow> (new_app, unit) act \<Rightarrow> (new_app, unit) act" where
  "handleCreateApp srv env nextFunc =
     andThen (getS id) (\<lambda>s.
       if perm_scopes (pu_permissions (na_perm s)) = [] then toast ''Please specify wallet permissions.''
       else andDo (setS (\<lambda>u. u\<lparr>na_loading := True\<rparr>))
         (andThen
           (tryCatch
             (andThen (expires_iso env s) (\<lambda>expires.
              andThen (createApp srv (create_request env s expires)) (finish_create env nextFunc)))
             (\<lambda>e. andDo (emit (EToastError ''Failed to create app'' (Some e))) (ret False)))
           (\<lambda>returned. whenD (\<not> returned) (setS (\<lambda>u. u\<lparr>na_loading := False\<rparr>)))))"

section \<open>Events\<close>

datatype new_app_event =
    TypeName string | EditPermissions calendar perm_event | ToggleSuperuser
  | SubmitForm | TypePassword string | ConfirmDialog | CancelDialog | GoNext | GoBack

definition next_step_of :: "new_app_env \<Rightarrow> app_step \<Rightarrow> app_step" where
  "next_step_of env st =
     (case st of StepInstall \<Rightarrow> StepConfigure
      | StepConfigure \<Rightarrow> if StepFinalize \<in> set (app_steps env) then StepFinalize else StepConfigure
      | StepFinalize \<Rightarrow> StepFinalize)"

definition prev_step_of :: "new_app_env \<Rightarrow> app_step \<Rightarrow> app_step" where
  "prev_step_of env st =
     (case st of StepConfigure \<Rightarrow> if StepInstall \<in> set (app_steps env) then StepInstall else StepConfigure
      | _ \<Rightarrow> st)"

definition go_next :: "new_app_env \<Rightarrow> (new_app, unit) act" where
  "go_next env = setS (\<lambda>s. s\<lparr>na_step := next_step_of env (na_step s)\<rparr>)"

text \<open>
  The form is shown in the configure step, unless an unsupported request replaced the page. The
  password dialog is modal: while it is open only its own controls can be used. The submit button is
  disabled while a request is under way.
\<close>

definition form_submit :: "server \<Rightarrow> new_app_env \<Rightarrow> (new_app, unit) act" where
  "form_submit srv env =
     andThen (getS na_superuser) (\<lambda>su.
       if su then setS (\<lambda>s. s\<lparr>na_dialog := True\<rparr>) else handleCreateApp srv env (go_next env))"

definition new_app_shown :: "new_app_env \<Rightarrow> new_app \<Rightarrow> new_app_event \<Rightarrow> bool" where
  "new_app_shown env s e =
     (snd (initialScopes (ne_store env) (ne_caps env) (ne_query env)) = None \<and>
      (case e of
         TypeName _ \<Rightarrow> na_step s = StepConfigure \<and> \<not> na_dialog s \<and> ne_app env = None
       | EditPermissions _ _ \<Rightarrow> na_step s = StepConfigure \<and> \<not> na_dialog s
       | ToggleSuperuser \<Rightarrow> na_step s = StepConfigure \<and> \<not> na_dialog s \<and>
           Option.bind (ne_app env) asa_superuser = Some True
       | SubmitForm \<Rightarrow> na_step s = StepConfigure \<and> \<not> na_dialog s \<and> \<not> na_loading s
       | TypePassword _ \<Rightarrow> na_step s = StepConfigure \<and> na_dialog s
       | ConfirmDialog \<Rightarrow> na_step s = StepConfigure \<and> na_dialog s
       | CancelDialog \<Rightarrow> na_step s = StepConfigure \<and> na_dialog s
       | GoNext \<Rightarrow> na_step s = StepInstall
       | GoBack \<Rightarrow> na_step s = StepConfigure \<and> \<not> na_dialog s))"

definition new_app_handler :: "server \<Rightarrow> new_app_env \<Rightarrow> new_app_event \<Rightarrow> (new_app, unit) act" where
  "new_app_handler srv env e =
     (case e of
        TypeName n \<Rightarrow> setS (\<lambda>s. s\<lparr>na_name := n\<rparr>)
      | EditPermissions cal pe \<Rightarrow> setS (\<lambda>s. s\<lparr>na_perm := perm_step (ne_caps env) (na_perm s) (cal, pe)\<rparr>)
      | ToggleSuperuser \<Rightarrow> setS (\<lambda>s. s\<lparr>na_superuser := \<not> na_superuser s\<rparr>)
      | SubmitForm \<Rightarrow> form_submit srv env
      | TypePassword p \<Rightarrow> setS (\<lambda>s. s\<lparr>na_unlockPassword := p\<rparr>)
      | ConfirmDialog \<Rightarrow> handleCreateApp srv env (go_next env)
      | CancelDialog \<Rightarrow> setS (\<lambda>s. s\<lparr>na_dialog := False\<rparr>)
      | GoNext \<Rightarrow> go_next env
      | GoBack \<Rightarrow> setS (\<lambda>s. s\<lparr>na_step := prev_step_of env (na_step s)\<rparr>))"

definition new_app_step :: "server \<Rightarrow> new_app_env \<Rightarrow> new_app ui \<Rightarrow> new_app_event \<Rightarrow> new_app ui" where
  "new_app_step srv env w e =
     (if new_app_shown env (ui_st w) e then snd (new_app_handler srv env e w) else w)"

section \<open>The last step\<close>

datatype finalize_view = FinalizeWaiting | FinalizeGuide

definition finalize_effect :: "int \<Rightarrow> App option \<Rightarrow> ('s, unit) act" where
  "finalize_effect id' app =
     (case Option.bind app app_lastUsedAt of
        Some t \<Rightarrow>
          if t = [] then ret ()
          else andDo (emit (EToast ''Connection established!'' (Some ''You can now use the app with your Alby Hub.'')))
                 (emit (ENavigate (''/apps/'' @ show_int id')))
      | None \<Rightarrow> ret ())"

definition FinalizeConnection :: "json \<Rightarrow> finalize_view" where
  "FinalizeConnection res =
     (if truthy_str (jget_str ''pairingSecretKey'' res) then FinalizeGuide else FinalizeWaiting)"

definition shows_continue_anyway :: "bool \<Rightarrow> App option \<Rightarrow> bool" where
  "shows_continue_anyway timeout app = (timeout \<and> app \<noteq> None)"

section \<open>What a deep link can ask for\<close>

lemma js_set_set [simp]: "set (js_set xs) = set xs"
  by (simp add: js_set_def)

lemma scopes_of_methods_distinct: "distinct (scopes_of_methods ms ns iso')"
  by (simp add: scopes_of_methods_def Let_def)

lemma scopes_of_methods_members:
  "pay_invoice \<in> set (scopes_of_methods ms ns iso') \<longleftrightarrow>
     set ms \<inter> {''pay_invoice'', ''pay_keysend'', ''multi_pay_invoice'', ''multi_pay_keysend''} \<noteq> {}"
  "superuser \<notin> set (scopes_of_methods ms ns iso')"
  "sign_message \<in> set (scopes_of_methods ms ns iso') \<longleftrightarrow> ''sign_message'' \<in> set ms \<and> \<not> iso'"
  by (auto simp: scopes_of_methods_def Let_def)

definition readonly_link :: "AppStoreApp list \<Rightarrow> params \<Rightarrow> bool" where
  "readonly_link store q =
     (Option.bind (appStoreApp store q) asa_readonly = Some True \<and> qget q ''request_methods'' = [])"

lemma initialScopes_distinct: "distinct (cap_scopes caps) \<Longrightarrow> distinct (fst (initialScopes store caps q))"
  by (simp add: initialScopes_def scopes_of_methods_distinct Let_def)

lemma initialScopes_readonly:
  "readonly_link store q \<Longrightarrow> initialScopes store caps q = (readOnlyScopes caps, None)"
  by (simp add: initialScopes_def readonly_link_def readOnlyScopes_def)

lemma initialScopes_requested:
  "\<not> readonly_link store q \<Longrightarrow>
     fst (initialScopes store caps q) =
       scopes_of_methods (requested_methods caps q) (requested_notifications caps q) (qget q ''isolated'' = ''true'')"
  "\<not> readonly_link store q \<Longrightarrow>
     snd (initialScopes store caps q) = None \<longleftrightarrow>
       set (requested_methods caps q) \<subseteq> method_str ` set (cap_methods caps) \<and>
       set (requested_notifications caps q) \<subseteq> notification_str ` set (cap_notificationTypes caps)"
  by (auto simp: initialScopes_def readonly_link_def Let_def unsupported_methods_def unsupported_notifications_def
      filter_empty_conv subset_iff)

text \<open>What a deep link asks for. Its initial scopes allow payments only when a payment method is
  among the requested methods, never app creation, no signing for an isolated app, and only reading
  for a read-only store app that names no methods; the page refuses the link exactly when it asks
  for a method or notification type the wallet lacks.\<close>

lemma deep_link_scopes:
  assumes "distinct (cap_scopes caps)"
  shows "distinct (fst (initialScopes store caps q)) \<and> superuser \<notin> set (fst (initialScopes store caps q)) \<and>
    (if readonly_link store q
     then initialScopes store caps q = (readOnlyScopes caps, None) \<and> pay_invoice \<notin> set (readOnlyScopes caps)
     else (pay_invoice \<in> set (fst (initialScopes store caps q)) \<longleftrightarrow>
             set (requested_methods caps q) \<inter> {''pay_invoice'', ''pay_keysend'', ''multi_pay_invoice'', ''multi_pay_keysend''} \<noteq> {}) \<and>
          (sign_message \<in> set (fst (initialScopes store caps q)) \<longleftrightarrow>
             ''sign_message'' \<in> set (requested_methods caps q) \<and> qget q ''isolated'' \<noteq> ''true'') \<and>
          (snd (initialScopes store caps q) = None \<longleftrightarrow>
             set (requested_methods caps q) \<subseteq> method_str ` set (cap_methods caps) \<and>
             set (requested_notifications caps q) \<subseteq> notification_str ` set (cap_notificationTypes caps)))"
  using assms initialScopes_distinct [OF assms, of store q] read_only_no_payment [of caps]
  by (auto simp: initialScopes_readonly initialScopes_requested scopes_of_methods_members readOnlyScopes_def
      READ_ONLY_SCOPES_def)

lemma deep_link_scopes_witness:
  "pay_invoice \<notin> set (fst (initialScopes [] sample_caps [(''request_methods'', ''get_info make_invoice'')]))"
proof -
  let ?q = "[(''request_methods'', ''get_info make_invoice'')]"
  have "requested_methods sample_caps ?q = [''get_info'', ''make_invoice'']" by code_simp
  moreover have "distinct (cap_scopes sample_caps)" by code_simp
  ultimately show ?thesis
    using deep_link_scopes [of sample_caps "[]" ?q] by (simp add: readonly_link_def appStoreApp_def)
qed

text \<open>The requested budget. A deep link's \<open>max_amount\<close> of \<open>m\<close> millisatoshis becomes a budget of
  \<open>m div 1000\<close> sats; so an amount below 1000 millisatoshis becomes 0, the value the editor sets when
  the budget switch is turned off, and the switch is shown off: no limit.\<close>

lemma deep_link_budget:
  assumes "params_get q ''max_amount'' = Some (show_nat m)"
  shows "perm_maxAmountSat (initial_permissions cal store caps q) = int m div 1000 \<and>
    (m < 1000 \<longrightarrow> perm_maxAmountSat (initial_permissions cal store caps q) = 0 \<and>
       \<not> pu_showBudgetOptions (init_perm_ui cal caps (initial_permissions cal store caps q)))"
  using assms by (simp add: initial_permissions_def initial_max_amount_def qget_def init_perm_ui_def)

lemma deep_link_budget_witness:
  "perm_maxAmountSat (initial_permissions sample_calendar [] sample_caps [(''max_amount'', ''900'')]) = 0"
proof -
  have "''900'' = show_nat 900" by (simp add: show_nat.simps js_simps)
  then show ?thesis
    using deep_link_budget [of "[(''max_amount'', ''900'')]" 900 sample_calendar "[]" sample_caps]
    by (simp add: params_get_def)
qed

section \<open>What the page sends\<close>

text \<open>The requests an action adds, given the page's state when it started.\<close>

definition create_effect :: "new_app_env \<Rightarrow> new_app \<Rightarrow> effect \<Rightarrow> bool" where
  "create_effect env s x =
     (case x of
        EFetch m u b \<Rightarrow> m = ''POST'' \<and> u = ''/api/apps'' \<and> perm_scopes (pu_permissions (na_perm s)) \<noteq> [] \<and>
          (\<exists>expires. b = Some (create_app_json (create_request env s expires)))
      | _ \<Rightarrow> True)"

lemma create_effect_simps [simp]:
  "create_effect env s (EToast t d)" "create_effect env s (EToastError t d)" "create_effect env s (EMessage j)"
  "create_effect env s (ELocation u)"
  by (simp_all add: create_effect_def)

lemma sends_finish_create: "sends (create_effect env s) (finish_create env (go_next env') res)"
  unfolding finish_create_def nwc_details_def go_next_def
  by (auto intro!: sends_intros split: option.splits json.splits)

lemma sends_create:
  assumes "perm_scopes (pu_permissions (na_perm s)) \<noteq> []"
  shows "sends (create_effect env s)
    (andThen (expires_iso env s) (\<lambda>expires. andThen (createApp srv (create_request env s expires)) (finish_create env (go_next env'))))"
  unfolding createApp_def expires_iso_def using assms sends_finish_create [of env s]
  by (auto intro!: sends_intros simp: create_effect_def split: option.splits)

lemma costs_finish_create: "costs u 0 (finish_create env (go_next env') res)"
  unfolding finish_create_def nwc_details_def go_next_def
  by (rule sends_costs) (auto intro!: sends_intros split: option.splits json.splits)

lemma costs_create:
  "costs u 1 (andThen (expires_iso env s) (\<lambda>expires. andThen (createApp srv (create_request env s expires)) (finish_create env (go_next env'))))"
proof -
  have "costs u 0 (expires_iso env s)"
    by (rule sends_costs) (auto simp: expires_iso_def intro!: sends_intros split: option.splits)
  moreover have "costs u 1 (createApp srv r :: (new_app, json) act)" for r
  proof -
    have "costs u 1 (api srv ''POST'' ''/api/apps'' b :: (new_app, json option) act)" for b
      by (rule costs_le [OF costs_basic(15)]) simp
    moreover have "costs u 0 ((case res of Some j \<Rightarrow> if json_truthy j then ret j else throw ''no create app response received''
        | None \<Rightarrow> throw ''no create app response received'') :: (new_app, json) act)" for res
      by (rule sends_costs) (auto intro!: sends_intros split: option.splits)
    ultimately show ?thesis unfolding createApp_def by (rule costs_around)
  qed
  ultimately show ?thesis by (intro costs_around(1,2) costs_finish_create)
qed

lemma handleCreateApp_at:
  "handleCreateApp srv env nf w =
     (if perm_scopes (pu_permissions (na_perm (ui_st w))) = [] then toast ''Please specify wallet permissions.'' w
      else andDo (setS (\<lambda>u. u\<lparr>na_loading := True\<rparr>))
         (andThen
           (tryCatch
             (andThen (expires_iso env (ui_st w)) (\<lambda>expires.
              andThen (createApp srv (create_request env (ui_st w) expires)) (finish_create env nf)))
             (\<lambda>e. andDo (emit (EToastError ''Failed to create app'' (Some e))) (ret False)))
           (\<lambda>returned. whenD (\<not> returned) (setS (\<lambda>u. u\<lparr>na_loading := False\<rparr>)))) w)"
  by (simp add: handleCreateApp_def andThen_def getS_def)

lemma handleCreateApp_log:
  "\<exists>l. ui_log (snd (handleCreateApp srv env (go_next env') w)) = ui_log w @ l \<and> list_all (create_effect env (ui_st w)) l"
proof (cases "perm_scopes (pu_permissions (na_perm (ui_st w))) = []")
  case True
  then show ?thesis by (simp add: handleCreateApp_at toast_def emit_def)
next
  case False
  then show ?thesis
    unfolding handleCreateApp_at if_not_P [OF False]
    by (intro sendsD) (auto intro!: sends_intros sends_create)
qed

lemma handleCreateApp_once: "costs u 1 (handleCreateApp srv env (go_next env'))"
proof -
  let ?tail = "\<lambda>returned. whenD (\<not> returned) (setS (\<lambda>u. u\<lparr>na_loading := False\<rparr>)) :: (new_app, unit) act"
  have "costs u 1 (andDo (setS (\<lambda>u. u\<lparr>na_loading := True\<rparr>)) (andThen
        (tryCatch (andThen (expires_iso env s) (\<lambda>expires. andThen (createApp srv (create_request env s expires)) (finish_create env (go_next env'))))
          (\<lambda>e. andDo (emit (EToastError ''Failed to create app'' (Some e))) (ret False))) ?tail))" for s
    by (intro costs_around(3,2,5) costs_create costs_basic sends_costs) (auto intro!: sends_intros)
  moreover have "costs u 1 (toast t :: (new_app, unit) act)" for t
    by (rule costs_le [OF costs_basic(5)]) simp
  ultimately show ?thesis
    unfolding handleCreateApp_def by (intro costs_around(1) costs_basic) (simp split: if_splits)
qed

text \<open>Creating the app changes neither the permissions nor the dialog.\<close>

definition form_part :: "new_app \<Rightarrow> perm_ui \<times> bool \<times> bool" where
  "form_part s = (na_perm s, na_dialog s, na_superuser s)"

lemma handleCreateApp_keeps: "keeps form_part (handleCreateApp srv env (go_next env'))"
  unfolding handleCreateApp_def expires_iso_def createApp_def finish_create_def nwc_details_def go_next_def
  by (auto intro!: keeps_intros simp: form_part_def split: option.splits json.splits)

section \<open>The page as a machine\<close>

definition page_ok :: "new_app_env \<Rightarrow> Scope set \<Rightarrow> new_app ui \<Rightarrow> bool" where
  "page_ok env asked w =
     (distinct (cap_scopes (ne_caps env)) \<and> scopes_ok (ne_caps env) asked (na_perm (ui_st w)) \<and>
      (na_dialog (ui_st w) \<longrightarrow> na_superuser (ui_st w)))"

lemma page_ok_create:
  "page_ok env asked w \<Longrightarrow> page_ok env asked (snd (handleCreateApp srv env (go_next env') w))"
  using keepsD [OF handleCreateApp_keeps, of srv env env' w] by (simp add: page_ok_def form_part_def)

lemma page_ok_edit:
  "page_ok env asked w \<Longrightarrow>
   scopes_ok (ne_caps env) asked (perm_step (ne_caps env) (na_perm (ui_st w)) ev)"
  using editor_scopes.step_inv [of "ne_caps env" asked "na_perm (ui_st w)" ev] by (simp add: page_ok_def)

interpretation new_app_page: invariant_machine "new_app_step srv env" "page_ok env asked" for srv env asked
proof
  fix w :: "new_app ui" and e
  assume a: "page_ok env asked w"
  show "page_ok env asked (new_app_step srv env w e)"
    using a page_ok_create [OF a, of srv env] page_ok_edit [OF a]
    by (cases e)
       (auto simp: new_app_step_def new_app_shown_def new_app_handler_def effect_defs go_next_def form_submit_def page_ok_def)
qed

definition start_page :: "calendar \<Rightarrow> new_app_env \<Rightarrow> new_app ui" where
  "start_page cal env = \<lparr>ui_st = init_new_app cal env, ui_log = []\<rparr>"

definition link_scopes :: "new_app_env \<Rightarrow> Scope list" where
  "link_scopes env = fst (initialScopes (ne_store env) (ne_caps env) (ne_query env))"

lemma start_page_ok:
  assumes "distinct (cap_scopes (ne_caps env))"
  shows "page_ok env (set (link_scopes env)) (start_page cal env)"
  using assms init_scopes_ok [of "ne_caps env" "initial_permissions cal (ne_store env) (ne_caps env) (ne_query env)" cal]
  by (simp add: page_ok_def start_page_def init_new_app_def initialScopes_distinct initial_permissions_def link_scopes_def)

text \<open>The requests an event adds, given the page before it.\<close>

definition event_effect :: "new_app_env \<Rightarrow> new_app \<Rightarrow> new_app_event \<Rightarrow> effect \<Rightarrow> bool" where
  "event_effect env s e x =
     (case x of
        EFetch m u b \<Rightarrow>
          (\<exists>expires. m = ''POST'' \<and> u = ''/api/apps'' \<and> b = Some (create_app_json (create_request env s expires)) \<and>
             (if e = ConfirmDialog
              then car_scopes (create_request env s expires) = perm_scopes (pu_permissions (na_perm s)) @ [superuser]
              else e = SubmitForm \<and> car_scopes (create_request env s expires) = perm_scopes (pu_permissions (na_perm s)))) \<and>
          perm_scopes (pu_permissions (na_perm s)) \<noteq> []
      | _ \<Rightarrow> True)"

lemma create_event_effect:
  assumes "create_effect env s x" and "e = ConfirmDialog \<and> na_superuser s \<or> e = SubmitForm \<and> \<not> na_superuser s"
  shows "event_effect env s e x"
  using assms by (auto simp: create_effect_def event_effect_def create_request_def Let_def split: effect.splits)

lemma page_requests:
  assumes "page_ok env asked w"
  shows "\<exists>l. ui_log (new_app_step srv env w e) = ui_log w @ l \<and> list_all (event_effect env (ui_st w) e) l \<and>
     posts_to ''/api/apps'' l \<le> 1"
proof (cases "new_app_shown env (ui_st w) e \<and> (e = ConfirmDialog \<or> e = SubmitForm \<and> \<not> na_superuser (ui_st w))")
  case True
  obtain l where l: "ui_log (snd (handleCreateApp srv env (go_next env) w)) = ui_log w @ l"
      "list_all (create_effect env (ui_st w)) l"
    using handleCreateApp_log by blast
  moreover have "posts_to ''/api/apps'' l \<le> 1"
    using costsD [OF handleCreateApp_once, of "''/api/apps''" srv env env w] l(1) by simp
  moreover have "list_all (event_effect env (ui_st w) e) l"
    using True assms l(2)
    by (auto simp: list_all_iff page_ok_def new_app_shown_def intro!: create_event_effect)
  ultimately show ?thesis
    using True by (auto simp: new_app_step_def new_app_handler_def form_submit_def effect_defs)
next
  case False
  then show ?thesis
    by (cases e) (auto simp: new_app_step_def new_app_handler_def form_submit_def go_next_def effect_defs)
qed


definition sample_env' :: new_app_env where
  "sample_env' =
     \<lparr>ne_store = [], ne_caps = sample_caps, ne_query = [(''name'', ''shop''), (''request_methods'', ''get_info'')],
      ne_parse_url = (\<lambda>u. None), ne_toISO = (\<lambda>t. Some ''2026''), ne_opener = False\<rparr>"


lemma json_truthy_JObj [simp]: "json_truthy (JObj members)"
  by (simp add: json_truthy_def)

lemma createApp_run:
  "createApp srv r w =
     (let w' = w\<lparr>ui_log := ui_log w @ [EFetch ''POST'' ''/api/apps'' (Some (create_app_json r))]\<rparr>
      in case srv (ui_log w) ''POST'' ''/api/apps'' (Some (create_app_json r)) of
           Inl e \<Rightarrow> (Inl e, w')
         | Inr None \<Rightarrow> (Inl ''no create app response received'', w')
         | Inr (Some j) \<Rightarrow> if json_truthy j then (Inr j, w') else (Inl ''no create app response received'', w'))"
  by (simp add: createApp_def effect_defs split: sum.splits option.splits)

lemma finish_create_run:
  assumes "jget ''relayUrls'' res = Some (JArr urls)"
  obtains w' where "ui_st w' = ui_st w" and
    "finish_create env nf res w =
       (case safeReturnToUrl (ne_parse_url env) (jget_str ''returnTo'' res) of
          Some (c # url) \<Rightarrow> (Inr True, w'\<lparr>ui_log := ui_log w' @ [ELocation (c # url)]\<rparr>)
        | _ \<Rightarrow> andDo nf (ret False)
                 (w'\<lparr>ui_st := (ui_st w)\<lparr>na_response := Some res\<rparr>, ui_log := ui_log w' @ [EToast ''App created'' None]\<rparr>))"
proof -
  obtain d where d: "\<And>w. nwc_details res w = (Inr d, w)"
    using assms by (simp add: nwc_details_def ret_def)
  define w' where "w' = snd (andDo (emit (EMessage (JObj d)))
     (whenD (ne_opener env) (emit (EMessage (JObj ((''type'', JStr ''nwc:success'') # d))))) w)"
  have "ui_st w' = ui_st w" by (simp add: w'_def effect_defs)
  moreover have "finish_create env nf res w =
       (case safeReturnToUrl (ne_parse_url env) (jget_str ''returnTo'' res) of
          Some (c # url) \<Rightarrow> (Inr True, w'\<lparr>ui_log := ui_log w' @ [ELocation (c # url)]\<rparr>)
        | _ \<Rightarrow> andDo nf (ret False)
                 (w'\<lparr>ui_st := (ui_st w)\<lparr>na_response := Some res\<rparr>, ui_log := ui_log w' @ [EToast ''App created'' None]\<rparr>))"
    by (cases w; cases "ne_opener env"; cases "safeReturnToUrl (ne_parse_url env) (jget_str ''returnTo'' res)")
       (auto simp: finish_create_def andThen_def d w'_def andDo_def emit_def whenD_def ret_def toast_def setS_def
          split: list.split)
  ultimately show thesis by (rule that)
qed

lemma handleCreateApp_run:
  assumes "perm_scopes (pu_permissions (na_perm s)) \<noteq> []" and "perm_expiresAt (pu_permissions (na_perm s)) = None"
  shows "snd (handleCreateApp srv env nf \<lparr>ui_st = s, ui_log = sofar\<rparr>) =
    (case andThen (createApp srv (create_request env s None)) (finish_create env nf)
            \<lparr>ui_st = s\<lparr>na_loading := True\<rparr>, ui_log = sofar\<rparr> of
       (Inl e, w) \<Rightarrow> w\<lparr>ui_st := (ui_st w)\<lparr>na_loading := False\<rparr>,
                       ui_log := ui_log w @ [EToastError ''Failed to create app'' (Some e)]\<rparr>
     | (Inr True, w) \<Rightarrow> w
     | (Inr False, w) \<Rightarrow> w\<lparr>ui_st := (ui_st w)\<lparr>na_loading := False\<rparr>\<rparr>)"
proof -
  let ?m = "andThen (createApp srv (create_request env s None)) (finish_create env nf)"
  obtain r w where m: "?m \<lparr>ui_st = s\<lparr>na_loading := True\<rparr>, ui_log = sofar\<rparr> = (r, w)" by fastforce
  have "andThen (expires_iso env s) (\<lambda>expires. andThen (createApp srv (create_request env s expires)) (finish_create env nf)) = ?m"
    using assms(2) by (simp add: expires_iso_def andThen_def ret_def fun_eq_iff)
  then show ?thesis
    using assms(1) m
    by (cases r) (auto simp: handleCreateApp_at andDo_def setS_def tryCatch_def andThen_def [of "setS f" for f]
        andThen_def [of "tryCatch m h" for m h] andThen_def [of "emit x" for x] emit_def whenD_def ret_def split: bool.splits)
qed

text \<open>What happens when the app is created. With a permission chosen and a printable expiry: when the
  request fails, an error is shown and the form is usable again; when the answer has a web address
  to return to, the browser is sent there and the form stays locked; otherwise the success is shown,
  the answer is kept and the page moves on.\<close>

lemma create_app_outcomes:
  assumes "perm_scopes (pu_permissions (na_perm s)) \<noteq> []" and "perm_expiresAt (pu_permissions (na_perm s)) = None"
    and "answer = srv sofar ''POST'' ''/api/apps'' (Some (create_app_json (create_request env s None)))"
    and "w = snd (handleCreateApp srv env (go_next env) \<lparr>ui_st = s, ui_log = sofar\<rparr>)"
  shows "(\<forall>e. answer = Inl e \<longrightarrow>
            \<not> na_loading (ui_st w) \<and> last (ui_log w) = EToastError ''Failed to create app'' (Some e) \<and>
            na_response (ui_st w) = na_response s \<and> na_step (ui_st w) = na_step s) \<and>
    (\<forall>members urls. answer = Inr (Some (JObj members)) \<and> jget ''relayUrls'' (JObj members) = Some (JArr urls) \<longrightarrow>
       (case safeReturnToUrl (ne_parse_url env) (jget_str ''returnTo'' (JObj members)) of
          Some (c # url) \<Rightarrow> na_loading (ui_st w) \<and> last (ui_log w) = ELocation (c # url) \<and>
            na_response (ui_st w) = na_response s
        | _ \<Rightarrow> \<not> na_loading (ui_st w) \<and> last (ui_log w) = EToast ''App created'' None \<and>
            na_response (ui_st w) = Some (JObj members) \<and> na_step (ui_st w) = next_step_of env (na_step s)))"
proof (intro conjI allI impI)
  let ?b = "Some (create_app_json (create_request env s None))"
  let ?w0 = "\<lparr>ui_st = s\<lparr>na_loading := True\<rparr>, ui_log = sofar @ [EFetch ''POST'' ''/api/apps'' ?b]\<rparr>"
  note run = handleCreateApp_run [OF assms(1,2), of srv env "go_next env" sofar, folded assms(4)]
  fix e
  assume "answer = Inl e"
  then have "w = \<lparr>ui_st = s\<lparr>na_loading := False\<rparr>,
      ui_log = ui_log ?w0 @ [EToastError ''Failed to create app'' (Some e)]\<rparr>"
    using run assms(3) by (simp add: andThen_def createApp_run)
  then show "\<not> na_loading (ui_st w)" "last (ui_log w) = EToastError ''Failed to create app'' (Some e)"
    "na_response (ui_st w) = na_response s" "na_step (ui_st w) = na_step s" by simp_all
next
  let ?b = "Some (create_app_json (create_request env s None))"
  let ?w0 = "\<lparr>ui_st = s\<lparr>na_loading := True\<rparr>, ui_log = sofar @ [EFetch ''POST'' ''/api/apps'' ?b]\<rparr>"
  note run = handleCreateApp_run [OF assms(1,2), of srv env "go_next env" sofar, folded assms(4)]
  fix members urls
  assume a: "answer = Inr (Some (JObj members)) \<and> jget ''relayUrls'' (JObj members) = Some (JArr urls)"
  obtain w' where w': "ui_st w' = ui_st ?w0" and
    fin: "finish_create env (go_next env) (JObj members) ?w0 =
       (case safeReturnToUrl (ne_parse_url env) (jget_str ''returnTo'' (JObj members)) of
          Some (c # url) \<Rightarrow> (Inr True, w'\<lparr>ui_log := ui_log w' @ [ELocation (c # url)]\<rparr>)
        | _ \<Rightarrow> andDo (go_next env) (ret False)
                 (w'\<lparr>ui_st := (ui_st ?w0)\<lparr>na_response := Some (JObj members)\<rparr>,
                     ui_log := ui_log w' @ [EToast ''App created'' None]\<rparr>))"
    by (rule finish_create_run [OF conjunct2 [OF a]])
  have "andThen (createApp srv (create_request env s None)) (finish_create env (go_next env))
      \<lparr>ui_st = s\<lparr>na_loading := True\<rparr>, ui_log = sofar\<rparr> = finish_create env (go_next env) (JObj members) ?w0"
    using a assms(3) by (simp add: andThen_def createApp_run)
  with run have w: "w = (case finish_create env (go_next env) (JObj members) ?w0 of
       (Inl e, w) \<Rightarrow> w\<lparr>ui_st := (ui_st w)\<lparr>na_loading := False\<rparr>,
                       ui_log := ui_log w @ [EToastError ''Failed to create app'' (Some e)]\<rparr>
     | (Inr True, w) \<Rightarrow> w
     | (Inr False, w) \<Rightarrow> w\<lparr>ui_st := (ui_st w)\<lparr>na_loading := False\<rparr>\<rparr>)" by simp
  show "case safeReturnToUrl (ne_parse_url env) (jget_str ''returnTo'' (JObj members)) of
          Some (c # url) \<Rightarrow> na_loading (ui_st w) \<and> last (ui_log w) = ELocation (c # url) \<and>
            na_response (ui_st w) = na_response s
        | _ \<Rightarrow> \<not> na_loading (ui_st w) \<and> last (ui_log w) = EToast ''App created'' None \<and>
            na_response (ui_st w) = Some (JObj members) \<and> na_step (ui_st w) = next_step_of env (na_step s)"
  proof (cases "safeReturnToUrl (ne_parse_url env) (jget_str ''returnTo'' (JObj members))")
    case None
    then show ?thesis
      using fin by (simp add: w andDo_def andThen_def go_next_def setS_def ret_def)
  next
    case (Some url)
    then show ?thesis
      using fin w' by (cases url) (simp_all add: w andDo_def andThen_def go_next_def setS_def ret_def)
  qed
qed

lemma create_app_outcomes_witness:
  "\<exists>s. last (ui_log (snd (handleCreateApp (\<lambda>l m u b. Inl ''no route'') sample_env' (go_next sample_env')
       \<lparr>ui_st = s, ui_log = []\<rparr>))) = EToastError ''Failed to create app'' (Some ''no route'')"
proof -
  let ?s = "\<lparr>na_name = ''shop'', na_superuser = False, na_dialog = False, na_unlockPassword = [],
      na_perm = init_perm_ui sample_calendar sample_caps (sample_perms [get_info]), na_loading = False,
      na_response = None, na_step = StepConfigure\<rparr>"
  show ?thesis
    using create_app_outcomes [OF _ _ refl refl, of ?s "\<lambda>l m u b. Inl ''no route''" "[]" sample_env']
    by (intro exI [of _ ?s]) (simp add: init_perm_ui_def sample_perms_def)
qed

end
