(* ===== verification/SendFlow.thy ===== *)
theory SendFlow imports CurrencyInput RequestLayer
begin

text \<open>
  Sending: \<open>screens/wallet/Send.tsx\<close>, the pages under \<open>screens/wallet/send/\<close> and the alerts they
  show. A page is left by navigating to another one with arguments; that page is a value, kept in
  the state of the page that was left. The invoice decoder, the lightning address client and the
  address validator are third-party code and arguments (\<open>send_env\<close>).
\<close>

section \<open>Third-party values\<close>

record Invoice =
  inv_paymentRequest :: string
  inv_satoshi :: int
  inv_description :: "string option"

record LnUrlPayData =
  lp_identifier :: "string option"
  lp_description :: "string option"
  lp_commentAllowed :: "int option"

record LightningAddress =
  la_address :: string
  la_lnurlpData :: "LnUrlPayData option"

text \<open>
  \<open>sv_decode pr\<close> is \<open>new Invoice({ pr })\<close>, \<open>sv_fetch a\<close> a lightning address after \<open>fetch()\<close>, and
  \<open>sv_requestInvoice a sats comment\<close> the invoice it returns, each \<open>Inl\<close> when it throws.
\<close>

record send_env =
  sv_decode :: "string \<Rightarrow> string + Invoice"
  sv_validAddress :: "string \<Rightarrow> bool"
  sv_fetch :: "string \<Rightarrow> string + LightningAddress"
  sv_requestInvoice :: "LightningAddress \<Rightarrow> int option \<Rightarrow> string \<Rightarrow> string + Invoice"

text \<open>The pages with their location state.\<close>

datatype send_page =
    AtSend
  | AtZeroAmount Invoice
  | AtConfirm Invoice
  | AtLnurlPay LightningAddress
  | AtOnchain string "string option"
  | AtSuccess string Invoice "string option" "string option"
  | AtOnchainSuccess jsnum string
  | AtSwapOut string

fun page_path :: "send_page \<Rightarrow> string" where
  "page_path AtSend = ''/wallet/send''"
| "page_path (AtZeroAmount _) = ''/wallet/send/0-amount''"
| "page_path (AtConfirm _) = ''/wallet/send/confirm-payment''"
| "page_path (AtLnurlPay _) = ''/wallet/send/lnurl-pay''"
| "page_path (AtOnchain _ _) = ''/wallet/send/onchain''"
| "page_path (AtSuccess _ _ _ _) = ''/wallet/send/success''"
| "page_path (AtOnchainSuccess _ _) = ''/wallet/send/onchain-success''"
| "page_path (AtSwapOut swapId) = ''/wallet/swap/out/status/'' @ swapId"

section \<open>Choosing the recipient\<close>

record send_ui =
  su_recipient :: string
  su_loading :: bool
  su_showSwapAlert :: bool
  su_goto :: "send_page option"

definition init_send :: send_ui where
  "init_send = \<lparr>su_recipient = [], su_loading = False, su_showSwapAlert = False, su_goto = None\<rparr>"

definition send_to :: "send_page \<Rightarrow> (send_ui, unit) act" where
  "send_to p = andDo (emit (ENavigate (page_path p))) (setS (\<lambda>s. s\<lparr>su_goto := Some p\<rparr>))"

definition lift_sum :: "string + 'a \<Rightarrow> ('s, 'a) act" where
  "lift_sum r = (case r of Inl e \<Rightarrow> throw e | Inr x \<Rightarrow> ret x)"

text \<open>An invoice without an amount needs one first.\<close>

definition pay_page :: "Invoice \<Rightarrow> send_page" where
  "pay_page invoice = (if inv_satoshi invoice = 0 then AtZeroAmount invoice else AtConfirm invoice)"

text \<open>\<open>bip21.amountSat ? String(bip21.amountSat) : undefined\<close>.\<close>

definition amount_arg :: "jsnum option \<Rightarrow> string option" where
  "amount_arg a =
     (case a of
        Some (Fin r) \<Rightarrow> if r = 0 then None else Some (show_int \<lfloor>r\<rfloor>)
      | Some PosInf \<Rightarrow> Some ''Infinity''
      | Some NegInf \<Rightarrow> Some ''-Infinity''
      | _ \<Rightarrow> None)"

definition handleBip21 :: "send_env \<Rightarrow> string \<Rightarrow> (send_ui, unit) act" where
  "handleBip21 env uri =
     andThen (lift_sum (parseBip21 uri)) (\<lambda>bip21.
       case bip_lightning bip21 of
         Some lightning \<Rightarrow>
           andThen (lift_sum (sv_decode env lightning)) (\<lambda>invoice. send_to (pay_page invoice))
       | None \<Rightarrow>
           if bip_address bip21 = [] \<or> \<not> sv_validAddress env (bip_address bip21)
           then throw ''invalid bitcoin address''
           else send_to (AtOnchain (bip_address bip21) (amount_arg (bip_amountSat bip21))))"

definition bip21_effect :: "send_env \<Rightarrow> string option \<Rightarrow> (send_ui, unit) act" where
  "bip21_effect env uri =
     (if \<not> truthy_str uri then ret ()
      else tryCatch (handleBip21 env (the uri))
             (\<lambda>error. emit (EToastError ''Invalid Bitcoin URI'' (Some (error_text error)))))"

definition type_recipient :: "string \<Rightarrow> send_ui \<Rightarrow> send_ui" where
  "type_recipient value s = s\<lparr>su_recipient := trim value, su_showSwapAlert := False\<rparr>"

definition paste_recipient :: "string \<Rightarrow> send_ui \<Rightarrow> send_ui" where
  "paste_recipient clip s = s\<lparr>su_recipient := trim clip\<rparr>"

definition dispatch_recipient :: "send_env \<Rightarrow> string \<Rightarrow> (send_ui, unit) act" where
  "dispatch_recipient env recipient =
     (let pay = andThen (lift_sum (sv_decode env recipient)) (\<lambda>invoice. send_to (pay_page invoice))
      in if starts_with ''bitcoin:'' (to_lower recipient) then handleBip21 env recipient
         else if sv_validAddress env recipient then send_to (AtOnchain recipient None)
         else if includes_str ''@'' recipient
         then andThen (lift_sum (sv_fetch env recipient))
                (\<lambda>lnAddress. if la_lnurlpData lnAddress \<noteq> None then send_to (AtLnurlPay lnAddress) else pay)
         else pay)"

definition send_onSubmit :: "send_env \<Rightarrow> (send_ui, unit) act" where
  "send_onSubmit env =
     andThen (getS su_recipient) (\<lambda>recipient.
       finally_do
         (tryCatch
           (andDo (setS (\<lambda>s. s\<lparr>su_loading := True\<rparr>)) (dispatch_recipient env recipient))
           (\<lambda>error. andDo (setS (\<lambda>s. s\<lparr>su_showSwapAlert := True\<rparr>))
              (emit (EToastError ''Invalid recipient'' (Some (error_text error))))))
         (setS (\<lambda>s. s\<lparr>su_loading := False\<rparr>)))"

section \<open>Paying an invoice\<close>

record pay_ui =
  py_appId :: "jsnum option"
  py_amountSat :: string
  py_comment :: string
  py_loading :: bool
  py_errorMessage :: string
  py_invoice :: "Invoice option"
  py_goto :: "send_page option"

definition init_pay :: pay_ui where
  "init_pay = \<lparr>py_appId = None, py_amountSat = [], py_comment = [], py_loading = False,
     py_errorMessage = [], py_invoice = None, py_goto = None\<rparr>"

definition pay_to :: "send_page \<Rightarrow> (pay_ui, unit) act" where
  "pay_to p = andDo (emit (ENavigate (page_path p))) (setS (\<lambda>s. s\<lparr>py_goto := Some p\<rparr>))"

text \<open>\<open>fromAppId: appId\<close>: an undefined one is left out, \<open>NaN\<close> is sent as null.\<close>

definition payment_json :: "json option \<Rightarrow> json option \<Rightarrow> jsnum option \<Rightarrow> json" where
  "payment_json amountMsat metadata fromAppId =
     JObj (opt_member ''amountMsat'' amountMsat @ opt_member ''metadata'' metadata @
           opt_member ''fromAppId'' (map_option num_json fromAppId))"

definition payment_url :: "Invoice \<Rightarrow> string" where
  "payment_url invoice = ''/api/payments/'' @ inv_paymentRequest invoice"

definition pay_request :: "server \<Rightarrow> Invoice \<Rightarrow> json \<Rightarrow> (pay_ui, string) act" where
  "pay_request srv invoice payload =
     andThen (api srv ''POST'' (payment_url invoice) (Some payload)) (\<lambda>res.
       case Option.bind res (jget_str ''preimage'') of
         Some (c # preimage) \<Rightarrow> ret (c # preimage)
       | _ \<Rightarrow> throw ''No preimage in response'')"

text \<open>The \<open>try\<close>, \<open>catch\<close> and \<open>finally\<close> that the three pay pages share.\<close>

definition pay_try :: "(pay_ui, unit) act \<Rightarrow> (pay_ui, unit) act" where
  "pay_try body =
     andDo (setS (\<lambda>s. s\<lparr>py_errorMessage := []\<rparr>))
       (finally_do
         (tryCatch body
           (\<lambda>e. andDo (setS (\<lambda>s. s\<lparr>py_errorMessage := error_text e\<rparr>))
              (emit (EToastError ''Failed to send payment'' (Some (error_text e))))))
         (setS (\<lambda>s. s\<lparr>py_loading := False\<rparr>)))"

definition set_paying :: "(pay_ui, unit) act" where
  "set_paying = setS (\<lambda>s. s\<lparr>py_loading := True\<rparr>)"

definition zero_amount_onSubmit :: "server \<Rightarrow> Invoice option \<Rightarrow> (pay_ui, unit) act" where
  "zero_amount_onSubmit srv invoice =
     andThen (getS id) (\<lambda>s. pay_try
       (case invoice of
          None \<Rightarrow> throw ''no invoice set''
        | Some i \<Rightarrow>
            andDo set_paying
            (andThen
              (pay_request srv i
                (payment_json (Some (num_json (scale_num 1000 (js_Number (py_amountSat s))))) None (py_appId s)))
              (\<lambda>preimage.
                andDo (pay_to (AtSuccess preimage i None (Some (py_amountSat s))))
                  (toast ''Successfully paid invoice'')))))"

text \<open>The metadata is what the page was opened with.\<close>

definition confirmPayment :: "server \<Rightarrow> Invoice \<Rightarrow> json option \<Rightarrow> (pay_ui, unit) act" where
  "confirmPayment srv invoice metadata =
     andThen (getS id) (\<lambda>s. pay_try
       (andDo set_paying
         (andThen (pay_request srv invoice (payment_json None metadata (py_appId s)))
           (\<lambda>preimage.
             andDo (pay_to (AtSuccess preimage invoice None None)) (toast ''Successfully paid invoice'')))))"

definition lnurl_metadata :: "string \<Rightarrow> string option \<Rightarrow> json" where
  "lnurl_metadata comment identifier =
     JObj ((if comment \<noteq> [] then [(''comment'', JStr comment)] else []) @
           (if truthy_str identifier
            then [(''recipient_data'', JObj [(''identifier'', JStr (the identifier))])] else []))"

definition lnurl_onSubmit :: "server \<Rightarrow> send_env \<Rightarrow> LightningAddress option \<Rightarrow> (pay_ui, unit) act" where
  "lnurl_onSubmit srv env lnAddress =
     andThen (getS id) (\<lambda>s. pay_try
       (case lnAddress of
          None \<Rightarrow> throw ''no lightning address set''
        | Some a \<Rightarrow>
            andDo set_paying
            (andThen (lift_sum (sv_requestInvoice env a (js_parseInt (py_amountSat s)) (py_comment s))) (\<lambda>invoice.
             andDo (setS (\<lambda>u. u\<lparr>py_invoice := Some invoice\<rparr>))
             (andThen
               (pay_request srv invoice
                 (payment_json None
                   (Some (lnurl_metadata (py_comment s) (Option.bind (la_lnurlpData a) lp_identifier))) (py_appId s)))
               (\<lambda>preimage.
                 andDo (pay_to (AtSuccess preimage invoice (Some (la_address a)) None))
                   (toast ''Successfully paid invoice'')))))))"

text \<open>What each page shows when it is opened, \<open>Inl\<close> when rendering throws.\<close>

datatype page_view = ShowsLoading | ShowsForm | ShowsNothing

definition open_pay_page :: "bool \<Rightarrow> Invoice option \<Rightarrow> string option \<times> (string + page_view)" where
  "open_pay_page balances invoice =
     (if invoice = None then Some (page_path AtSend) else None,
      Inr (if \<not> balances \<or> invoice = None then ShowsLoading else ShowsForm))"

definition open_lnurl_page :: "bool \<Rightarrow> LightningAddress option \<Rightarrow> string option \<times> (string + page_view)" where
  "open_lnurl_page balances lnAddress =
     (case lnAddress of
        None \<Rightarrow> (None, Inl ''Cannot read properties of undefined'')
      | Some a \<Rightarrow> (None, Inr (if \<not> balances then ShowsLoading else ShowsForm)))"

definition open_onchain_page :: "string option \<Rightarrow> string option \<times> (string + page_view)" where
  "open_onchain_page address =
     (if \<not> truthy_str address then (Some (page_path AtSend), Inr ShowsLoading) else (None, Inr ShowsForm))"

section \<open>Sending on-chain\<close>

record RecommendedFees =
  rf_fastestFee :: int
  rf_economyFee :: int
  rf_minimumFee :: int

record onchain_ui =
  oc_isSwap :: bool
  oc_amountSat :: string
  oc_feeRate :: string
  oc_editFee :: bool
  oc_loading :: bool
  oc_goto :: "send_page option"

definition init_onchain :: "string option \<Rightarrow> onchain_ui" where
  "init_onchain amountSat =
     \<lparr>oc_isSwap = False, oc_amountSat = nullish amountSat [], oc_feeRate = [], oc_editFee = False,
      oc_loading = False, oc_goto = None\<rparr>"

definition fee_effect :: "RecommendedFees option \<Rightarrow> onchain_ui \<Rightarrow> onchain_ui" where
  "fee_effect fees s =
     (case fees of
        Some f \<Rightarrow> if rf_fastestFee f \<noteq> 0 then s\<lparr>oc_feeRate := show_int (rf_fastestFee f)\<rparr> else s
      | None \<Rightarrow> s)"

definition onchain_to :: "send_page \<Rightarrow> (onchain_ui, unit) act" where
  "onchain_to p = andDo (emit (ENavigate (page_path p))) (setS (\<lambda>s. s\<lparr>oc_goto := Some p\<rparr>))"

definition redeem_json :: "string \<Rightarrow> jsnum \<Rightarrow> jsnum \<Rightarrow> json" where
  "redeem_json toAddress amountSat feeRate =
     JObj [(''toAddress'', JStr toAddress), (''amountSat'', num_json amountSat), (''feeRate'', num_json feeRate)]"

definition not_enough :: string where
  "not_enough = ''You currently don't have enough sats to pay for an on-chain transaction. Consider swapping from Lightning Balance.''"

definition onchain_onSubmit :: "server \<Rightarrow> BalancesResponse option \<Rightarrow> string \<Rightarrow> (onchain_ui, unit) act" where
  "onchain_onSubmit srv balances address =
     andThen (getS id) (\<lambda>s.
       finally_do
         (tryCatch
           (case balances of
              None \<Rightarrow> ret ()
            | Some b \<Rightarrow>
                andDo (require (ob_spendableSat (bal_onchain b) > ONCHAIN_DUST_SATS) not_enough)
                (andDo (setS (\<lambda>u. u\<lparr>oc_loading := True\<rparr>))
                (andThen
                  (api srv ''POST'' ''/api/wallet/redeem-onchain-funds''
                    (Some (redeem_json address (js_Number (oc_amountSat s)) (js_Number (oc_feeRate s)))))
                  (\<lambda>response.
                    case Option.bind response (jget_str ''txId'') of
                      Some (c # txId) \<Rightarrow>
                        andDo (onchain_to (AtOnchainSuccess (js_Number (oc_amountSat s)) (c # txId)))
                          (toast ''Successfully broadcasted transaction'')
                    | _ \<Rightarrow> throw ''No address in response''))))
           (\<lambda>e. emit (EToastError ''Failed to send payment'' (Some (error_text e)))))
         (setS (\<lambda>u. u\<lparr>oc_loading := False\<rparr>)))"

definition swap_form_onSubmit :: "server \<Rightarrow> string \<Rightarrow> (onchain_ui, unit) act" where
  "swap_form_onSubmit srv address =
     andThen (getS id) (\<lambda>s.
       finally_do
         (tryCatch
           (andDo (setS (\<lambda>u. u\<lparr>oc_loading := True\<rparr>))
             (andThen
               (api srv ''POST'' ''/api/swaps/out''
                 (Some (JObj [(''swapAmountSat'', num_json (js_Number (oc_amountSat s))), (''destination'', JStr address)])))
               (\<lambda>response.
                 case response of
                   Some j \<Rightarrow>
                     if json_truthy j
                     then andDo (onchain_to (AtSwapOut (nullish (jget_str ''swapId'' j) ''undefined''))) (toast ''Initiated swap'')
                     else throw ''Error swapping out''
                 | None \<Rightarrow> throw ''Error swapping out'')))
           (\<lambda>e. emit (EToastError ''Failed to send payment'' (Some (error_text e)))))
         (setS (\<lambda>u. u\<lparr>oc_loading := False\<rparr>)))"

definition small_onchain_alert :: "string \<Rightarrow> bool" where
  "small_onchain_alert amountSat =
     (amountSat \<noteq> [] \<and> (case js_Number amountSat of Fin r \<Rightarrow> r < 10000 | NegInf \<Rightarrow> True | _ \<Rightarrow> False))"

section \<open>Alerts\<close>

definition maxSpendableMsat :: "LightningBalanceResponse \<Rightarrow> rat" where
  "maxSpendableMsat l =
     max (of_int (lb_nextMaxSpendableMPPMsat l) - max (1 / 100 * of_int (lb_nextMaxSpendableMPPMsat l)) 10000) 0"

definition insufficient_alert :: "bool \<Rightarrow> BalancesResponse option \<Rightarrow> jsnum \<Rightarrow> bool" where
  "insufficient_alert hasChannelManagement balances amountSat =
     (case balances of
        None \<Rightarrow> False
      | Some b \<Rightarrow> hasChannelManagement \<and>
          (case scale_num 1000 amountSat of
             Fin r \<Rightarrow> r > maxSpendableMsat (bal_lightning b) | PosInf \<Rightarrow> True | _ \<Rightarrow> False))"

definition anchor_reserve_alert :: "BalancesResponse option \<Rightarrow> Channel list option \<Rightarrow> jsnum \<Rightarrow> bool" where
  "anchor_reserve_alert balances channels amountSat =
     (case (balances, channels) of
        (Some b, Some cs) \<Rightarrow>
          cs \<noteq> [] \<and>
          (case amountSat of
             Fin r \<Rightarrow> r \<noteq> 0 \<and> r > of_int (ob_spendableSat (bal_onchain b) - int (length cs) * 25000)
           | PosInf \<Rightarrow> True | _ \<Rightarrow> False)
      | _ \<Rightarrow> False)"

definition mempool_fees :: "(string \<times> int) list" where
  "mempool_fees = [(''EXTREMELY HIGH'', 200), (''very high'', 150), (''high'', 100), (''moderately high'', 50)]"

definition mempool_alert :: "bool \<Rightarrow> int option \<Rightarrow> string option" where
  "mempool_alert info fee =
     (if \<not> info \<or> \<not> truthy_int fee then None
      else map_option fst (find (\<lambda>(label, limit). the fee \<ge> limit) mempool_fees))"

definition pending_payment_alert :: "(string \<Rightarrow> int) \<Rightarrow> int \<Rightarrow> bool \<Rightarrow> ListTransactionsResponse option \<Rightarrow> bool" where
  "pending_payment_alert parse_date now loaded data =
     (case data of
        None \<Rightarrow> False
      | Some d \<Rightarrow> loaded \<and>
          list_ex (\<lambda>t. tx_state t = Pending \<and> now - parse_date (tx_createdAt t) < 1000 * 60 * 60 * 24) (ltr_transactions d))"

section \<open>Who pays\<close>

record PayFromOption =
  pf_value :: string
  pf_label :: string
  pf_app :: "App option"

definition LIGHTNING_BALANCE :: string where "LIGHTNING_BALANCE = ''lightning-balance''"
definition LIGHTNING_BALANCE_LABEL :: string where "LIGHTNING_BALANCE_LABEL = ''Lightning Balance''"

definition pay_from_apps :: "(string \<Rightarrow> string \<Rightarrow> int) \<Rightarrow> ListAppsResponse option \<Rightarrow> App list" where
  "pay_from_apps localeCompare appsData =
     sort_cmp (\<lambda>a b. localeCompare (getAppDisplayName (app_name a)) (getAppDisplayName (app_name b)))
       (filter (\<lambda>app. pay_invoice \<in> set (app_scopes app))
         (case appsData of Some d \<Rightarrow> lar_apps d | None \<Rightarrow> []))"

definition pay_from_options :: "(string \<Rightarrow> string \<Rightarrow> int) \<Rightarrow> ListAppsResponse option \<Rightarrow> PayFromOption list" where
  "pay_from_options localeCompare appsData =
     \<lparr>pf_value = LIGHTNING_BALANCE, pf_label = LIGHTNING_BALANCE_LABEL, pf_app = None\<rparr> #
     map (\<lambda>app. \<lparr>pf_value = show_int (app_id app), pf_label = getAppDisplayName (app_name app), pf_app = Some app\<rparr>)
       (pay_from_apps localeCompare appsData)"

definition pay_from_selected :: "PayFromOption list \<Rightarrow> int option \<Rightarrow> PayFromOption option" where
  "pay_from_selected opts appId =
     (if truthy_int appId then find (\<lambda>opt. pf_value opt = show_int (the appId)) opts else None)"

text \<open>Clearing the selection gives \<open>Number(undefined)\<close>.\<close>

definition pay_from_change :: "PayFromOption option \<Rightarrow> jsnum option" where
  "pay_from_change opt =
     (case opt of
        None \<Rightarrow> Some NaN
      | Some x \<Rightarrow> if pf_value x = LIGHTNING_BALANCE then None else Some (js_Number (pf_value x)))"

section \<open>After a payment\<close>

definition open_success_page :: "send_page \<Rightarrow> string option \<times> page_view" where
  "open_success_page p =
     (case p of
        AtSuccess preimage invoice to amountSat \<Rightarrow>
          (if preimage = [] then Some (page_path AtSend) else None, if preimage = [] then ShowsNothing else ShowsForm)
      | _ \<Rightarrow> (Some (page_path AtSend), ShowsNothing))"

text \<open>\<open>(invoice.satoshi || amountSat) * 1000\<close>; the amount typed in the page before is a text.\<close>

definition success_amount_msat :: "Invoice \<Rightarrow> string option \<Rightarrow> jsnum" where
  "success_amount_msat invoice amountSat =
     (if inv_satoshi invoice \<noteq> 0 then Fin (of_int (inv_satoshi invoice * 1000))
      else (case amountSat of Some t \<Rightarrow> scale_num 1000 (js_Number t) | None \<Rightarrow> NaN))"

section \<open>Where a recipient leads\<close>

text \<open>The pages a text can lead to; the invoice may come from a payment URI's lightning parameter.\<close>

definition recipient_page :: "send_env \<Rightarrow> string \<Rightarrow> send_page \<Rightarrow> bool" where
  "recipient_page env r p =
     (let decoded = (\<lambda>i. sv_decode env r = Inr i \<or>
            (\<exists>b pr. parseBip21 r = Inr b \<and> bip_lightning b = Some pr \<and> sv_decode env pr = Inr i))
      in case p of
           AtOnchain a amt \<Rightarrow> sv_validAddress env a \<and>
             (a = r \<and> amt = None \<or>
              (\<exists>b. parseBip21 r = Inr b \<and> a = bip_address b \<and> amt = amount_arg (bip_amountSat b)))
         | AtZeroAmount i \<Rightarrow> inv_satoshi i = 0 \<and> decoded i
         | AtConfirm i \<Rightarrow> inv_satoshi i \<noteq> 0 \<and> decoded i
         | AtLnurlPay a \<Rightarrow> sv_fetch env r = Inr a \<and> la_lnurlpData a \<noteq> None
         | _ \<Rightarrow> False)"

text \<open>What an attempt to go on may do: go to one such page, or throw and go nowhere.\<close>

definition goes_on :: "send_env \<Rightarrow> string \<Rightarrow> (send_ui, unit) act \<Rightarrow> bool" where
  "goes_on env r m =
     (\<forall>w. (\<exists>p. recipient_page env r p \<and>
               m w = (Inr (), w\<lparr>ui_st := (ui_st w)\<lparr>su_goto := Some p\<rparr>, ui_log := ui_log w @ [ENavigate (page_path p)]\<rparr>)) \<or>
          (\<exists>e. m w = (Inl e, w)))"

lemma send_to_run:
  "send_to p w = (Inr (), w\<lparr>ui_st := (ui_st w)\<lparr>su_goto := Some p\<rparr>, ui_log := ui_log w @ [ENavigate (page_path p)]\<rparr>)"
  by (cases w) (simp add: send_to_def effect_defs)

lemma goes_on_send_to: "recipient_page env r p \<Longrightarrow> goes_on env r (send_to p)"
  by (auto simp: goes_on_def send_to_run)

lemma goes_on_throw: "goes_on env r (throw e)"
  by (simp add: goes_on_def throw_def)

lemma goes_on_sum: "(\<And>x. res = Inr x \<Longrightarrow> goes_on env r (f x)) \<Longrightarrow> goes_on env r (andThen (lift_sum res) f)"
  by (cases res) (simp_all add: goes_on_def lift_sum_def andThen_def throw_def ret_def)

lemma goes_on_pay:
  assumes "pr = r \<or> (\<exists>b. parseBip21 r = Inr b \<and> bip_lightning b = Some pr)"
  shows "goes_on env r (andThen (lift_sum (sv_decode env pr)) (\<lambda>i. send_to (pay_page i)))"
proof (rule goes_on_sum)
  fix i
  assume i: "sv_decode env pr = Inr i"
  show "goes_on env r (send_to (pay_page i))"
    by (rule goes_on_send_to) (use i assms in \<open>auto simp: recipient_page_def pay_page_def\<close>)
qed

lemma goes_on_bip21: "goes_on env r (handleBip21 env r)"
  unfolding handleBip21_def
proof (rule goes_on_sum)
  fix b
  assume b: "parseBip21 r = Inr b"
  show "goes_on env r
    (case bip_lightning b of
         Some lightning \<Rightarrow> andThen (lift_sum (sv_decode env lightning)) (\<lambda>invoice. send_to (pay_page invoice))
       | None \<Rightarrow>
           if bip_address b = [] \<or> \<not> sv_validAddress env (bip_address b) then throw ''invalid bitcoin address''
           else send_to (AtOnchain (bip_address b) (amount_arg (bip_amountSat b))))"
    using b by (auto simp: recipient_page_def split: option.split intro!: goes_on_throw goes_on_send_to goes_on_pay)
qed

lemma goes_on_dispatch: "goes_on env r (dispatch_recipient env r)"
  unfolding dispatch_recipient_def Let_def
  by (auto intro!: goes_on_bip21 goes_on_send_to goes_on_sum [of "sv_fetch env r"] goes_on_pay simp: recipient_page_def)


definition sample_send_env :: send_env where
  "sample_send_env =
     \<lparr>sv_decode = (\<lambda>pr. if starts_with ''lnbc'' pr
                        then Inr \<lparr>inv_paymentRequest = pr, inv_satoshi = 21, inv_description = None\<rparr> else Inl ''bad invoice''),
      sv_validAddress = (\<lambda>a. starts_with ''bc1'' a),
      sv_fetch = (\<lambda>a. Inr \<lparr>la_address = a, la_lnurlpData = Some \<lparr>lp_identifier = Some a, lp_description = None, lp_commentAllowed = None\<rparr>\<rparr>),
      sv_requestInvoice = (\<lambda>a sats c. Inr \<lparr>inv_paymentRequest = ''lnbc'', inv_satoshi = nullish sats 0, inv_description = None\<rparr>)\<rparr>"


section \<open>How a payment ends\<close>

text \<open>Paid: the server answered the one request, for this invoice, with the preimage that is shown.\<close>

definition payment_settled :: "server \<Rightarrow> pay_ui ui \<Rightarrow> pay_ui ui \<Rightarrow> bool" where
  "payment_settled srv w w' =
     (\<exists>preimage i to amt body res.
        py_goto (ui_st w') = Some (AtSuccess preimage i to amt) \<and> preimage \<noteq> [] \<and> py_errorMessage (ui_st w') = [] \<and>
        srv (ui_log w) ''POST'' (payment_url i) (Some body) = Inr (Some res) \<and> jget_str ''preimage'' res = Some preimage \<and>
        ui_log w' = ui_log w @ [EFetch ''POST'' (payment_url i) (Some body),
          ENavigate (page_path (AtSuccess preimage i to amt)), EToast ''Successfully paid invoice'' None])"

definition payment_failed :: "pay_ui ui \<Rightarrow> pay_ui ui \<Rightarrow> bool" where
  "payment_failed w w' =
     (\<exists>e sent. py_goto (ui_st w') = py_goto (ui_st w) \<and> py_errorMessage (ui_st w') = error_text e \<and> length sent \<le> 1 \<and>
        ui_log w' = ui_log w @ sent @ [EToastError ''Failed to send payment'' (Some (error_text e))])"

text \<open>What the body of a pay handler may do, from a state \<open>w\<close>.\<close>

definition pays :: "server \<Rightarrow> (pay_ui, unit) act \<Rightarrow> bool" where
  "pays srv m =
     (\<forall>w. case m w of
            (Inr _, w') \<Rightarrow> py_errorMessage (ui_st w) = [] \<longrightarrow> payment_settled srv w w'
          | (Inl e, w') \<Rightarrow> py_goto (ui_st w') = py_goto (ui_st w) \<and>
              (\<exists>sent. length sent \<le> 1 \<and> ui_log w' = ui_log w @ sent))"

lemma pay_request_run:
  "pay_request srv i body w =
     (let w' = w\<lparr>ui_log := ui_log w @ [EFetch ''POST'' (payment_url i) (Some body)]\<rparr>
      in case srv (ui_log w) ''POST'' (payment_url i) (Some body) of
           Inl e \<Rightarrow> (Inl e, w')
         | Inr res \<Rightarrow> (case Option.bind res (jget_str ''preimage'') of
                        Some (c # preimage) \<Rightarrow> (Inr (c # preimage), w')
                      | _ \<Rightarrow> (Inl ''No preimage in response'', w')))"
  by (simp add: pay_request_def effect_defs split: sum.splits option.splits list.splits)

lemma pays_request:
  "pays srv (andThen (pay_request srv i body)
     (\<lambda>preimage. andDo (pay_to (AtSuccess preimage i to amt)) (toast ''Successfully paid invoice'')))"
  unfolding pays_def
proof
  fix w :: "pay_ui ui"
  let ?m = "andThen (pay_request srv i body)
     (\<lambda>preimage. andDo (pay_to (AtSuccess preimage i to amt)) (toast ''Successfully paid invoice''))"
  show "case ?m w of
            (Inr _, w') \<Rightarrow> py_errorMessage (ui_st w) = [] \<longrightarrow> payment_settled srv w w'
          | (Inl e, w') \<Rightarrow> py_goto (ui_st w') = py_goto (ui_st w) \<and>
              (\<exists>sent. length sent \<le> 1 \<and> ui_log w' = ui_log w @ sent)"
  proof (cases "srv (ui_log w) ''POST'' (payment_url i) (Some body)")
    case (Inl e)
    then show ?thesis by (simp add: andThen_def pay_request_run)
  next
    case (Inr res)
    show ?thesis
    proof (cases "Option.bind res (jget_str ''preimage'')")
      case None
      with Inr show ?thesis by (simp add: andThen_def pay_request_run)
    next
      case (Some pre)
      with Inr show ?thesis
        by (cases pre)
           (auto simp: andThen_def pay_request_run pay_to_def andDo_def emit_def setS_def toast_def payment_settled_def
              bind_eq_Some_conv)
    qed
  qed
qed

lemma pays_throw: "pays srv (throw e)"
  by (auto simp: pays_def throw_def)

lemma pays_after:
  assumes "pays srv m" and "\<And>s. py_goto (f s) = py_goto s \<and> py_errorMessage (f s) = py_errorMessage s"
  shows "pays srv (andDo (setS f) m)"
  unfolding pays_def
proof
  fix w :: "pay_ui ui"
  show "case andDo (setS f) m w of
            (Inr _, w') \<Rightarrow> py_errorMessage (ui_st w) = [] \<longrightarrow> payment_settled srv w w'
          | (Inl e, w') \<Rightarrow> py_goto (ui_st w') = py_goto (ui_st w) \<and>
              (\<exists>sent. length sent \<le> 1 \<and> ui_log w' = ui_log w @ sent)"
    using assms(1)[unfolded pays_def, rule_format, of "w\<lparr>ui_st := f (ui_st w)\<rparr>"] assms(2)
    by (auto simp: andDo_def andThen_def setS_def payment_settled_def split: prod.splits sum.splits)
qed

lemma pays_sum: "(\<And>x. res = Inr x \<Longrightarrow> pays srv (f x)) \<Longrightarrow> pays srv (andThen (lift_sum res) f)"
  by (cases res) (simp_all add: pays_def lift_sum_def andThen_def throw_def ret_def)

lemma pay_try_ends:
  assumes "pays srv m"
  shows "fst (pay_try m w) = Inr () \<and> \<not> py_loading (ui_st (snd (pay_try m w))) \<and>
    (payment_settled srv w (snd (pay_try m w)) \<or> payment_failed w (snd (pay_try m w)))"
proof -
  let ?w = "w\<lparr>ui_st := (ui_st w)\<lparr>py_errorMessage := []\<rparr>\<rparr>"
  obtain r w' where m: "m ?w = (r, w')" by fastforce
  then show ?thesis
    using assms[unfolded pays_def, rule_format, of ?w]
    by (cases r)
       (auto simp: pay_try_def andDo_def andThen_def setS_def finally_do_def tryCatch_def emit_def
          payment_settled_def payment_failed_def)
qed

text \<open>The three handlers that pay.\<close>

definition pay_actions ::
    "server \<Rightarrow> send_env \<Rightarrow> Invoice option \<Rightarrow> Invoice \<Rightarrow> json option \<Rightarrow> LightningAddress option \<Rightarrow> (pay_ui, unit) act list" where
  "pay_actions srv env zero i metadata lnAddress =
     [zero_amount_onSubmit srv zero, confirmPayment srv i metadata, lnurl_onSubmit srv env lnAddress]"

lemma actions_pay:
  assumes "m \<in> set (pay_actions srv env zero i metadata lnAddress)"
  shows "\<exists>body. pays srv body \<and> m w = pay_try body w"
proof -
  have 1: "pays srv (case zero of None \<Rightarrow> throw ''no invoice set''
        | Some i \<Rightarrow> andDo set_paying (andThen (pay_request srv i (b i))
              (\<lambda>preimage. andDo (pay_to (AtSuccess preimage i None (Some amt))) (toast ''Successfully paid invoice''))))" for b amt
    by (auto split: option.split simp: set_paying_def intro!: pays_throw pays_after pays_request)
  have 2: "pays srv (andDo set_paying (andThen (pay_request srv i b)
           (\<lambda>preimage. andDo (pay_to (AtSuccess preimage i None None)) (toast ''Successfully paid invoice''))))" for b
    by (auto simp: set_paying_def intro!: pays_after pays_request)
  have 3: "pays srv (case lnAddress of None \<Rightarrow> throw ''no lightning address set''
        | Some a \<Rightarrow> andDo set_paying (andThen (lift_sum (res a)) (\<lambda>invoice.
             andDo (setS (\<lambda>u. u\<lparr>py_invoice := Some invoice\<rparr>))
             (andThen (pay_request srv invoice (b a))
               (\<lambda>preimage. andDo (pay_to (AtSuccess preimage invoice (Some (la_address a)) None)) (toast ''Successfully paid invoice''))))))"
    for res b
    by (auto split: option.split simp: set_paying_def intro!: pays_throw pays_after pays_sum pays_request)
  have "\<exists>body. pays srv body \<and> zero_amount_onSubmit srv zero w = pay_try body w"
    unfolding zero_amount_onSubmit_def getS_then by (rule exI, rule conjI [OF 1 refl])
  moreover have "\<exists>body. pays srv body \<and> confirmPayment srv i metadata w = pay_try body w"
    unfolding confirmPayment_def getS_then by (rule exI, rule conjI [OF 2 refl])
  moreover have "\<exists>body. pays srv body \<and> lnurl_onSubmit srv env lnAddress w = pay_try body w"
    unfolding lnurl_onSubmit_def getS_then by (rule exI, rule conjI [OF 3 refl])
  ultimately show ?thesis using assms by (auto simp: pay_actions_def)
qed

text \<open>C3: How a payment ends. Paying an amountless invoice, a confirmed invoice or a lightning address
  always ends, with the button usable again, in one of two ways: the success page is opened, with a
  preimage that the server gave in answer to the one payment request, for exactly the invoice that is
  shown; or at most one request was sent, the page is kept and the error is shown on it.\<close>

theorem payment_ends:
  assumes "m \<in> set (pay_actions srv env zero i metadata lnAddress)"
  shows "fst (m w) = Inr () \<and> \<not> py_loading (ui_st (snd (m w))) \<and>
    (payment_settled srv w (snd (m w)) \<or> payment_failed w (snd (m w)))"
  using actions_pay [OF assms, of w] pay_try_ends by metis

theorem payment_ends_witness:
  "fst (confirmPayment no_answer \<lparr>inv_paymentRequest = ''lnbc1'', inv_satoshi = 21, inv_description = None\<rparr> None
     \<lparr>ui_st = init_pay, ui_log = []\<rparr>) = Inr ()"
  using payment_ends [of "confirmPayment no_answer \<lparr>inv_paymentRequest = ''lnbc1'', inv_satoshi = 21, inv_description = None\<rparr> None"
      no_answer sample_send_env None "\<lparr>inv_paymentRequest = ''lnbc1'', inv_satoshi = 21, inv_description = None\<rparr>" None None
      "\<lparr>ui_st = init_pay, ui_log = []\<rparr>"]
  by (simp add: pay_actions_def)

section \<open>Amounts\<close>

lemma exponent_text: "js_Number ''1e3'' = Fin 1000" "js_parseInt ''1e3'' = Some 1" "trim ''1e3'' = ''1e3''"
  "includes_str ''.'' ''1e3'' = False"
  by code_simp+

text \<open>Two pages read the same amount differently. The amount field passes the text 1e3 on unchanged
  and shows its value, 1000 sats; paying an amountless invoice then pays 1000 sats, but paying a
  lightning address asks for an invoice of 1 sat and pays that.\<close>

lemma exponent_amount_read_twice:
  assumes "sv_requestInvoice env a (Some 1) [] = Inr i" and "\<not> ce_disabled fe"
  shows "cf_valueSat (ui_st (field_step (field_start []) (fe, FieldType ''1e3''))) = ''1e3'' \<and>
    getNumericValue ''1e3'' = 1000 \<and>
    (\<exists>body. EFetch ''POST'' (payment_url z) (Some body) \<in>
       set (ui_log (snd (zero_amount_onSubmit srv (Some z) \<lparr>ui_st = init_pay\<lparr>py_amountSat := ''1e3''\<rparr>, ui_log = []\<rparr>))) \<and>
       jget ''amountMsat'' body = Some (JNum 1000000)) \<and>
    (\<exists>body. EFetch ''POST'' (payment_url i) (Some body) \<in>
       set (ui_log (snd (lnurl_onSubmit srv env (Some a) \<lparr>ui_st = init_pay\<lparr>py_amountSat := ''1e3''\<rparr>, ui_log = []\<rparr>))))"
proof (intro conjI)
  show "cf_valueSat (ui_st (field_step (field_start []) (fe, FieldType ''1e3''))) = ''1e3''"
    using assms(2)
    by (simp add: field_step_def field_start_def init_field_def handleChangeMode_def exponent_text effect_simps
        field_effects_def Let_def starts_with_def)
  show "getNumericValue ''1e3'' = 1000"
    by (simp add: getNumericValue_def exponent_text fin_or_def)
  let ?z = "zero_amount_onSubmit srv (Some z) \<lparr>ui_st = init_pay\<lparr>py_amountSat := ''1e3''\<rparr>, ui_log = []\<rparr>"
  let ?b = "payment_json (Some (JNum 1000000)) None None"
  have "EFetch ''POST'' (payment_url z) (Some ?b) \<in> set (ui_log (snd ?z))"
    by (auto simp: zero_amount_onSubmit_def pay_try_def init_pay_def exponent_text pay_request_def scale_num_def num_json_def
        set_paying_def pay_to_def effect_simps split: sum.splits option.splits list.splits)
  moreover have "jget ''amountMsat'' ?b = Some (JNum 1000000)"
    by (simp add: payment_json_def jget_def opt_member_def)
  ultimately show "\<exists>body. EFetch ''POST'' (payment_url z) (Some body) \<in> set (ui_log (snd ?z)) \<and>
       jget ''amountMsat'' body = Some (JNum 1000000)" by blast
  show "\<exists>body. EFetch ''POST'' (payment_url i) (Some body) \<in>
       set (ui_log (snd (lnurl_onSubmit srv env (Some a) \<lparr>ui_st = init_pay\<lparr>py_amountSat := ''1e3''\<rparr>, ui_log = []\<rparr>)))"
    using assms(1)
    by (auto simp: lnurl_onSubmit_def pay_try_def init_pay_def exponent_text pay_request_def lift_sum_def set_paying_def
        pay_to_def effect_simps split: sum.splits option.splits list.splits)
qed

lemma exponent_amount_read_twice_witness:
  "inv_satoshi (\<lparr>inv_paymentRequest = ''lnbc'', inv_satoshi = 1, inv_description = None\<rparr> :: Invoice) = 1 \<and>
   (\<exists>body. EFetch ''POST'' ''/api/payments/lnbc'' (Some body) \<in>
       set (ui_log (snd (lnurl_onSubmit no_answer sample_send_env (Some \<lparr>la_address = ''a@b'', la_lnurlpData = None\<rparr>)
         \<lparr>ui_st = init_pay\<lparr>py_amountSat := ''1e3''\<rparr>, ui_log = []\<rparr>))))"
proof -
  let ?i = "\<lparr>inv_paymentRequest = ''lnbc'', inv_satoshi = 1, inv_description = None\<rparr> :: Invoice"
  let ?a = "\<lparr>la_address = ''a@b'', la_lnurlpData = None\<rparr> :: LightningAddress"
  have "sv_requestInvoice sample_send_env ?a (Some 1) [] = Inr ?i" and "\<not> ce_disabled sample_env"
    by (simp_all add: sample_send_env_def sample_env_def)
  from exponent_amount_read_twice [OF this, of ?i no_answer]
  have "\<exists>body. EFetch ''POST'' (payment_url ?i) (Some body) \<in>
       set (ui_log (snd (lnurl_onSubmit no_answer sample_send_env (Some ?a)
         \<lparr>ui_st = init_pay\<lparr>py_amountSat := ''1e3''\<rparr>, ui_log = []\<rparr>)))" by blast
  then show ?thesis by (simp add: payment_url_def)
qed

section \<open>Opening the pages\<close>

lemma pages_opened_directly:
  "open_pay_page balances None = (Some ''/wallet/send'', Inr ShowsLoading)"
  "open_onchain_page None = (Some ''/wallet/send'', Inr ShowsLoading)"
  "\<exists>e. open_lnurl_page balances None = (None, Inl e)"
  by (simp_all add: open_pay_page_def open_onchain_page_def open_lnurl_page_def)

section \<open>On-chain payments\<close>

lemma onchain_no_request_at_dust:
  assumes "ob_spendableSat (bal_onchain b) \<le> ONCHAIN_DUST_SATS"
  shows "ui_log (snd (onchain_onSubmit srv (Some b) address w)) =
    ui_log w @ [EToastError ''Failed to send payment'' (Some (error_text not_enough))]"
  using assms by (simp add: onchain_onSubmit_def effect_simps)

lemma onchain_submit_once: "costs u 1 (onchain_onSubmit srv balances address)"
proof -
  have req: "costs u 1 (api srv ''POST'' v b :: (onchain_ui, json option) act)" for v b
    by (rule costs_le [OF costs_basic(15)]) simp
  have tail: "costs u 0 (case Option.bind response (jget_str ''txId'') of
        Some (c # txId) \<Rightarrow> andDo (onchain_to (AtOnchainSuccess n (c # txId))) (toast ''Successfully broadcasted transaction'')
      | _ \<Rightarrow> throw ''No address in response'')" for response n
    by (rule sends_costs) (auto simp: onchain_to_def intro!: sends_intros split: option.splits list.splits)
  have "costs u 1 (case balances of None \<Rightarrow> ret () | Some b \<Rightarrow>
       andDo (require c not_enough) (andDo (setS f) (andThen (api srv ''POST'' v body) (\<lambda>response.
         case Option.bind response (jget_str ''txId'') of
           Some (c # txId) \<Rightarrow> andDo (onchain_to (AtOnchainSuccess n (c # txId))) (toast ''Successfully broadcasted transaction'')
         | _ \<Rightarrow> throw ''No address in response''))))" if "balances = Some b'" for c f v body n b'
    unfolding that option.case by (intro costs_around(3,2) req tail costs_basic)
  then show ?thesis
    unfolding onchain_onSubmit_def
    by (cases balances) (auto intro!: costs_around(1,5,6) costs_basic sends_costs intro: costs_le [OF costs_basic(1)])
qed

end
