(* ===== verification/SwapFlow.thy ===== *)
theory SwapFlow imports CurrencyInput RequestLayer
begin

text \<open>
  Swaps between the lightning and the on-chain balance: \<open>screens/wallet/swap/index.tsx\<close> (both
  forms), \<open>AutoSwap.tsx\<close>, \<open>SwapInStatus.tsx\<close>, \<open>SwapOutStatus.tsx\<close>, and the flow and the button for
  other currencies (\<open>components/FixedFloatSwapInFlow.tsx\<close>, \<open>components/FixedFloatButton.tsx\<close>).
\<close>

section \<open>The page and its tabs\<close>

definition initial_tab :: "params \<Rightarrow> string" where
  "initial_tab searchParams = or_str (params_get searchParams ''type'') ''in''"

text \<open>The new tab, and the query that replaces the old one when the tab was taken from it.\<close>

definition tab_effect :: "params \<Rightarrow> string \<Rightarrow> string \<times> params" where
  "tab_effect searchParams tab =
     (case params_get searchParams ''type'' of
        Some (c # t) \<Rightarrow> (c # t, [])
      | _ \<Rightarrow> (tab, searchParams))"

section \<open>Swapping in\<close>

datatype swap_from = FromInternal | FromExternal | FromCrypto

record swap_in_ui =
  sif_swapFrom :: swap_from
  sif_swapAmountSat :: string
  sif_loading :: bool
  sif_cryptoTransaction :: "json option"
  sif_goto :: "string option"

definition init_swap_in :: swap_in_ui where
  "init_swap_in = \<lparr>sif_swapFrom = FromExternal, sif_swapAmountSat = [], sif_loading = False,
     sif_cryptoTransaction = None, sif_goto = None\<rparr>"

text \<open>A parsed integer in a request body; \<open>NaN\<close> is sent as null.\<close>

definition int_json :: "int option \<Rightarrow> json" where
  "int_json n = (case n of Some i \<Rightarrow> JNum i | None \<Rightarrow> JNull)"

definition crypto_invoice_json :: "string \<Rightarrow> json" where
  "crypto_invoice_json swapAmountSat =
     JObj [(''amountMsat'', JNum (nullish (js_parseInt swapAmountSat) 0 * 1000)),
           (''description'', JStr ''Fixed Float swap'')]"

definition fixed_float_url :: "string \<Rightarrow> string" where
  "fixed_float_url invoice =
     ''https://ff.io/?to=BTCLN&address='' @ encodeURIComponent invoice @ ''&ref=qnnjvywb''"

definition crypto_swap :: "server \<Rightarrow> string \<Rightarrow> (swap_in_ui, unit) act" where
  "crypto_swap srv amount =
     andThen (api srv ''POST'' ''/api/invoices'' (Some (crypto_invoice_json amount))) (\<lambda>tx.
       case tx of
         Some t \<Rightarrow>
           (case jget_str ''invoice'' t of
              Some (c # invoice) \<Rightarrow>
                andDo (setS (\<lambda>s. s\<lparr>sif_cryptoTransaction := Some t\<rparr>))
                (andDo (openLink (fixed_float_url (c # invoice))) (toast ''Initiated swap''))
            | _ \<Rightarrow> throw ''Failed to create invoice'')
       | None \<Rightarrow> throw ''Failed to create invoice'')"

definition boltz_swap_in :: "server \<Rightarrow> string \<Rightarrow> bool \<Rightarrow> (swap_in_ui, unit) act" where
  "boltz_swap_in srv amount internal =
     andThen (api srv ''POST'' ''/api/swaps/in'' (Some (JObj [(''swapAmountSat'', int_json (js_parseInt amount))])))
       (\<lambda>res. case res of
          Some j \<Rightarrow>
            if json_truthy j
            then (let url = ''/wallet/swap/in/status/'' @ nullish (jget_str ''swapId'' j) ''undefined'' @
                            (if internal then ''?internal=true'' else [])
                  in andDo (emit (ENavigate url))
                       (andDo (setS (\<lambda>s. s\<lparr>sif_goto := Some url\<rparr>)) (toast ''Initiated swap'')))
            else throw ''Error swapping in''
        | None \<Rightarrow> throw ''Error swapping in'')"

definition swap_in_onSubmit :: "server \<Rightarrow> (swap_in_ui, unit) act" where
  "swap_in_onSubmit srv =
     andThen (getS id) (\<lambda>s.
       finally_do
         (tryCatch
           (andDo (setS (\<lambda>u. u\<lparr>sif_loading := True\<rparr>))
             (if sif_swapFrom s = FromCrypto then crypto_swap srv (sif_swapAmountSat s)
              else boltz_swap_in srv (sif_swapAmountSat s) (sif_swapFrom s = FromInternal)))
           (\<lambda>error. emit (EToastError ''Failed to initiate swap'' (Some error))))
         (setS (\<lambda>u. u\<lparr>sif_loading := False\<rparr>)))"

definition reset_crypto :: "swap_in_ui \<Rightarrow> swap_in_ui" where
  "reset_crypto s = s\<lparr>sif_cryptoTransaction := None, sif_swapAmountSat := []\<rparr>"

text \<open>The bounds of the amount field.\<close>

definition receivable_99 :: "BalancesResponse \<Rightarrow> rat" where
  "receivable_99 b = of_int (lb_totalReceivableSat (bal_lightning b)) * (99 / 100)"

definition swap_in_min :: "SwapInfo \<Rightarrow> swap_from \<Rightarrow> int option" where
  "swap_in_min info from = (if from \<noteq> FromCrypto then Some (si_minAmountSat info) else None)"

definition swap_in_max :: "SwapInfo \<Rightarrow> BalancesResponse \<Rightarrow> bool \<Rightarrow> swap_from \<Rightarrow> rat option" where
  "swap_in_max info b hasChannelManagement from =
     (if from = FromCrypto then (if hasChannelManagement then Some (receivable_99 b) else None)
      else
        (let m1 = of_int (si_maxAmountSat info);
             m2 = (if from = FromInternal then min m1 (of_int (ob_spendableSat (bal_onchain b))) else m1)
         in Some (if hasChannelManagement then min m2 (receivable_99 b) else m2)))"

definition low_receiving_alert :: "BalancesResponse \<Rightarrow> bool \<Rightarrow> string \<Rightarrow> bool" where
  "low_receiving_alert b hasChannelManagement swapAmountSat =
     (hasChannelManagement \<and>
      (case js_parseInt (if swapAmountSat = [] then ''0'' else swapAmountSat) of
         Some n \<Rightarrow> of_int (n * 1000) \<ge> (8 / 10 :: rat) * of_int (lb_totalReceivableMsat (bal_lightning b))
       | None \<Rightarrow> False))"

section \<open>Swapping out\<close>

record swap_out_ui =
  sof_isInternalSwap :: bool
  sof_swapAmountSat :: string
  sof_destination :: string
  sof_loading :: bool
  sof_goto :: "string option"

definition init_swap_out :: swap_out_ui where
  "init_swap_out = \<lparr>sof_isInternalSwap = True, sof_swapAmountSat = [], sof_destination = [], sof_loading = False, sof_goto = None\<rparr>"

definition swap_out_onSubmit :: "server \<Rightarrow> (swap_out_ui, unit) act" where
  "swap_out_onSubmit srv =
     andThen (getS id) (\<lambda>s.
       finally_do
         (tryCatch
           (andDo (setS (\<lambda>u. u\<lparr>sof_loading := True\<rparr>))
             (andThen
               (api srv ''POST'' ''/api/swaps/out''
                 (Some (JObj [(''swapAmountSat'', int_json (js_parseInt (sof_swapAmountSat s))),
                              (''destination'', JStr (sof_destination s))])))
               (\<lambda>res. case res of
                  Some j \<Rightarrow>
                    if json_truthy j
                    then (let url = ''/wallet/swap/out/status/'' @ nullish (jget_str ''swapId'' j) ''undefined''
                          in andDo (emit (ENavigate url))
                               (andDo (setS (\<lambda>u. u\<lparr>sof_goto := Some url\<rparr>)) (toast ''Initiated swap'')))
                    else throw ''Error swapping out''
                | None \<Rightarrow> throw ''Error swapping out'')))
           (\<lambda>error. emit (EToastError ''Failed to initiate swap'' (Some error))))
         (setS (\<lambda>u. u\<lparr>sof_loading := False\<rparr>)))"

definition swap_out_toggle :: "swap_out_ui \<Rightarrow> swap_out_ui" where
  "swap_out_toggle s = s\<lparr>sof_destination := [], sof_isInternalSwap := \<not> sof_isInternalSwap s\<rparr>"

definition swap_out_paste :: "string \<Rightarrow> swap_out_ui \<Rightarrow> swap_out_ui" where
  "swap_out_paste clip s = s\<lparr>sof_destination := trim clip\<rparr>"

definition swap_out_max :: "SwapInfo \<Rightarrow> BalancesResponse \<Rightarrow> int" where
  "swap_out_max info b = min (si_maxAmountSat info) (lb_totalSpendableSat (bal_lightning b))"

section \<open>Automatic swaps\<close>

record auto_swap_ui =
  as_isInternalSwap :: bool
  as_balanceThresholdSat :: string
  as_swapAmountSat :: string
  as_destination :: string
  as_isXpub :: bool
  as_unlockPassword :: string
  as_showDialog :: bool
  as_loading :: bool

definition init_auto_swap :: auto_swap_ui where
  "init_auto_swap = \<lparr>as_isInternalSwap = True, as_balanceThresholdSat = [], as_swapAmountSat = [],
     as_destination = [], as_isXpub = False, as_unlockPassword = [], as_showDialog = False, as_loading = False\<rparr>"

text \<open>\<open>a > b\<close> on numbers: false when one of them is \<open>NaN\<close>.\<close>

definition num_gt :: "jsnum \<Rightarrow> jsnum \<Rightarrow> bool" where
  "num_gt a b =
     (case (a, b) of
        (Fin x, Fin y) \<Rightarrow> x > y
      | (PosInf, Fin _) \<Rightarrow> True | (PosInf, NegInf) \<Rightarrow> True | (Fin _, NegInf) \<Rightarrow> True
      | _ \<Rightarrow> False)"

definition auto_swap_json :: "auto_swap_ui \<Rightarrow> string option \<Rightarrow> json" where
  "auto_swap_json s password =
     JObj ([(''swapAmountSat'', int_json (js_parseInt (as_swapAmountSat s))),
            (''balanceThresholdSat'', int_json (js_parseInt (as_balanceThresholdSat s))),
            (''destination'', JStr (as_destination s))] @
           opt_member ''destinationType''
             (if \<not> as_isInternalSwap s then Some (JStr (if as_isXpub s then ''xpub'' else ''address'')) else None) @
           opt_member ''unlockPassword'' (map_option JStr password))"

definition submitAutoSwap :: "server \<Rightarrow> string option \<Rightarrow> (auto_swap_ui, unit) act" where
  "submitAutoSwap srv password =
     andThen (getS id) (\<lambda>s.
       finally_do
         (tryCatch
           (andDo (setS (\<lambda>u. u\<lparr>as_loading := True\<rparr>))
           (andThen (api srv ''POST'' ''/api/autoswap'' (Some (auto_swap_json s password))) (\<lambda>_.
            andDo (setS (\<lambda>u. u\<lparr>as_unlockPassword := [], as_showDialog := False\<rparr>))
            (andDo (toast ''Auto swap enabled successfully'') (emit (EMutate ''/api/autoswap''))))))
           (\<lambda>error. emit (EToast ''Failed to save auto swap settings'' (Some error))))
         (setS (\<lambda>u. u\<lparr>as_loading := False\<rparr>)))"

definition auto_swap_onSubmit :: "server \<Rightarrow> (auto_swap_ui, unit) act" where
  "auto_swap_onSubmit srv =
     andThen (getS id) (\<lambda>s.
       if num_gt (js_Number (as_swapAmountSat s)) (js_Number (as_balanceThresholdSat s))
       then toast ''Balance threshold must be greater than or equal to swap amount''
       else if as_isXpub s \<and> \<not> as_isInternalSwap s then setS (\<lambda>u. u\<lparr>as_showDialog := True\<rparr>)
       else submitAutoSwap srv None)"

definition onConfirmUnlockPassword :: "server \<Rightarrow> (auto_swap_ui, unit) act" where
  "onConfirmUnlockPassword srv = andThen (getS as_unlockPassword) (\<lambda>p. submitAutoSwap srv (Some p))"

datatype auto_swap_event =
    AsThreshold string | AsAmount string | AsToggleDestination | AsXpub bool | AsDestination string | AsPaste string
  | AsSubmit | AsPassword string | AsConfirm | AsDialogClosed

text \<open>The dialog is modal; its button needs a password, and no button works while a request runs.\<close>

definition auto_swap_shown :: "auto_swap_ui \<Rightarrow> auto_swap_event \<Rightarrow> bool" where
  "auto_swap_shown s e =
     (case e of
        AsPassword _ \<Rightarrow> as_showDialog s
      | AsConfirm \<Rightarrow> as_showDialog s \<and> as_unlockPassword s \<noteq> [] \<and> \<not> as_loading s
      | AsDialogClosed \<Rightarrow> as_showDialog s
      | AsSubmit \<Rightarrow> \<not> as_showDialog s \<and> \<not> as_loading s
      | AsXpub _ \<Rightarrow> \<not> as_showDialog s \<and> \<not> as_isInternalSwap s
      | AsDestination _ \<Rightarrow> \<not> as_showDialog s \<and> \<not> as_isInternalSwap s
      | AsPaste _ \<Rightarrow> \<not> as_showDialog s \<and> \<not> as_isInternalSwap s
      | _ \<Rightarrow> \<not> as_showDialog s)"

definition auto_swap_handler :: "server \<Rightarrow> auto_swap_event \<Rightarrow> (auto_swap_ui, unit) act" where
  "auto_swap_handler srv e =
     (case e of
        AsThreshold v \<Rightarrow> setS (\<lambda>s. s\<lparr>as_balanceThresholdSat := v\<rparr>)
      | AsAmount v \<Rightarrow> setS (\<lambda>s. s\<lparr>as_swapAmountSat := v\<rparr>)
      | AsToggleDestination \<Rightarrow> setS (\<lambda>s. s\<lparr>as_destination := [], as_isInternalSwap := \<not> as_isInternalSwap s\<rparr>)
      | AsXpub b \<Rightarrow> setS (\<lambda>s. s\<lparr>as_isXpub := b, as_destination := []\<rparr>)
      | AsDestination v \<Rightarrow> setS (\<lambda>s. s\<lparr>as_destination := v\<rparr>)
      | AsPaste v \<Rightarrow> setS (\<lambda>s. s\<lparr>as_destination := trim v\<rparr>)
      | AsSubmit \<Rightarrow> auto_swap_onSubmit srv
      | AsPassword p \<Rightarrow> setS (\<lambda>s. s\<lparr>as_unlockPassword := p\<rparr>)
      | AsConfirm \<Rightarrow> onConfirmUnlockPassword srv
      | AsDialogClosed \<Rightarrow> setS (\<lambda>s. s\<lparr>as_showDialog := False, as_unlockPassword := []\<rparr>))"

definition auto_swap_step :: "server \<Rightarrow> auto_swap_ui ui \<Rightarrow> auto_swap_event \<Rightarrow> auto_swap_ui ui" where
  "auto_swap_step srv w e =
     (if auto_swap_shown (ui_st w) e then snd (auto_swap_handler srv e w) else w)"

definition onDeactivate :: "server \<Rightarrow> (bool, unit) act" where
  "onDeactivate srv =
     finally_do
       (tryCatch
         (andDo (busy True)
         (andDo (api srv ''DELETE'' ''/api/autoswap'' None)
         (andDo (toast ''Deactivated auto swap successfully'') (emit (EMutate ''/api/autoswap'')))))
         (\<lambda>error. emit (EToastError ''Deactivating auto swaps failed'' (Some error))))
       (busy False)"

definition shows_active_config :: "AutoSwapConfig \<Rightarrow> bool" where
  "shows_active_config c = asc_enabled c"

definition shown_destination :: "AutoSwapConfig \<Rightarrow> string" where
  "shown_destination c = (if asc_destination c \<noteq> [] then asc_destination c else ''On-chain Balance'')"

section \<open>The status of a swap in\<close>

record swap_in_status =
  sis_isPaying :: bool
  sis_paidWithAlbyHub :: bool

definition init_swap_in_status :: swap_in_status where
  "init_swap_in_status = \<lparr>sis_isPaying = False, sis_paidWithAlbyHub = False\<rparr>"

definition lockup_json :: "SwapIn \<Rightarrow> json" where
  "lockup_json swap = JObj [(''toAddress'', JStr (sw_lockupAddress swap)), (''amountSat'', JNum (sw_sendAmountSat swap))]"

definition payWithAlbyHub :: "server \<Rightarrow> SwapIn option \<Rightarrow> (swap_in_status, unit) act" where
  "payWithAlbyHub srv swap =
     andDo (setS (\<lambda>s. s\<lparr>sis_isPaying := True\<rparr>))
       (tryCatch
         (case swap of
            None \<Rightarrow> throw ''swap not loaded''
          | Some x \<Rightarrow>
              andThen (api srv ''POST'' ''/api/wallet/redeem-onchain-funds'' (Some (lockup_json x)))
                (\<lambda>response. require (truthy_str (Option.bind response (jget_str ''txId''))) ''No address in response''))
         (\<lambda>error. andDo (emit (EToastError ''Failed to redeem onchain funds'' (Some (error_text error))))
            (setS (\<lambda>s. s\<lparr>sis_isPaying := False\<rparr>))))"

definition paying_effect :: "SwapIn option \<Rightarrow> swap_in_status \<Rightarrow> swap_in_status" where
  "paying_effect swap s =
     (if sis_isPaying s \<and> truthy_str (Option.bind swap sw_lockupTxId) then s\<lparr>sis_isPaying := False\<rparr> else s)"

definition awaits_deposit :: "SwapIn \<Rightarrow> bool" where
  "awaits_deposit x = (swi_state x = SwapPending \<and> \<not> truthy_str (sw_lockupTxId x))"

definition redeem_effect :: "server \<Rightarrow> bool \<Rightarrow> SwapIn option \<Rightarrow> (swap_in_status, unit) act" where
  "redeem_effect srv isInternalSwap swap =
     andThen (getS sis_paidWithAlbyHub) (\<lambda>current.
       if isInternalSwap \<and> (\<exists>x. swap = Some x \<and> awaits_deposit x) \<and> \<not> current
       then andDo (setS (\<lambda>s. s\<lparr>sis_paidWithAlbyHub := True\<rparr>)) (payWithAlbyHub srv swap)
       else ret ())"

definition swap_in_status_step ::
    "server \<Rightarrow> bool \<Rightarrow> swap_in_status ui \<Rightarrow> SwapIn option \<Rightarrow> swap_in_status ui" where
  "swap_in_status_step srv isInternalSwap w swap =
     snd (redeem_effect srv isInternalSwap swap (w\<lparr>ui_st := paying_effect swap (ui_st w)\<rparr>))"

definition swap_in_statusText :: "bool \<Rightarrow> SwapIn \<Rightarrow> string" where
  "swap_in_statusText isInternalSwap x =
     (case swi_state x of
        SwapSuccess \<Rightarrow> ''Swap Successful''
      | SwapFailed \<Rightarrow> ''Swap Failed''
      | SwapRefunded \<Rightarrow> ''Swap Refunded''
      | SwapPending \<Rightarrow>
          if truthy_str (sw_lockupTxId x) then ''Waiting for confirmation''
          else if isInternalSwap then ''Depositing on-chain funds'' else ''Waiting for deposit'')"

section \<open>The status of a swap out\<close>

text \<open>A swap out is never refunded, so its table has no text for that.\<close>

definition swap_out_statusText :: "SwapOut \<Rightarrow> string option" where
  "swap_out_statusText x =
     (case swo_state x of
        SwapSuccess \<Rightarrow> Some ''Swap Successful''
      | SwapFailed \<Rightarrow> Some ''Swap Failed''
      | SwapPending \<Rightarrow>
          Some (if truthy_str (sw_lockupTxId x) then ''Waiting for confirmation'' else ''Making lightning payment'')
      | SwapRefunded \<Rightarrow> None)"

section \<open>Other currencies\<close>

definition fixed_float_button :: "string option \<Rightarrow> string option \<Rightarrow> string option \<Rightarrow> string" where
  "fixed_float_button address from to =
     (let p1 = set_when (truthy_str from) ''from'' (the from) [(''ref'', ''qnnjvywb'')];
          p2 = set_when (truthy_str to) ''to'' (the to) p1;
          p3 = set_when (truthy_str address) ''address'' (the address) p2
      in ''https://ff.io/?'' @ params_to_string p3)"

datatype crypto_view = CryptoForm | CryptoWaiting | CryptoReceived

definition FixedFloatSwapInFlow :: "bool \<Rightarrow> bool \<Rightarrow> crypto_view" where
  "FixedFloatSwapInFlow has_transaction paymentDone =
     (if \<not> has_transaction then CryptoForm else if \<not> paymentDone then CryptoWaiting else CryptoReceived)"

definition payment_done_effect :: "string option \<Rightarrow> bool \<Rightarrow> bool" where
  "payment_done_effect settledAt paymentDone = (truthy_str settledAt \<or> paymentDone)"

section \<open>The deposit of a swap in\<close>

definition deposit :: "SwapIn \<Rightarrow> effect" where
  "deposit x = EFetch ''POST'' ''/api/wallet/redeem-onchain-funds'' (Some (lockup_json x))"

text \<open>The polled swaps whose deposit the page is waited for.\<close>

definition awaited :: "SwapIn option list \<Rightarrow> SwapIn list" where
  "awaited polls = filter awaits_deposit (List.map_filter id polls)"

lemma payWithAlbyHub_run:
  "fetches (ui_log (snd (payWithAlbyHub srv (Some x) w))) = fetches (ui_log w) @ [deposit x]"
  "sis_paidWithAlbyHub (ui_st (snd (payWithAlbyHub srv (Some x) w))) = sis_paidWithAlbyHub (ui_st w)"
  by (auto simp: payWithAlbyHub_def deposit_def effect_simps split: sum.splits prod.splits)

lemma swap_in_step_run:
  "swap_in_status_step srv internal w p =
     (if internal \<and> awaited [p] \<noteq> [] \<and> \<not> sis_paidWithAlbyHub (ui_st w)
      then snd (payWithAlbyHub srv (Some (the p))
             (w\<lparr>ui_st := (paying_effect p (ui_st w))\<lparr>sis_paidWithAlbyHub := True\<rparr>\<rparr>))
      else w\<lparr>ui_st := paying_effect p (ui_st w)\<rparr>)"
  unfolding swap_in_status_step_def redeem_effect_def getS_then
  by (cases p) (simp_all add: paying_effect_def andDo_def andThen_def setS_def ret_def awaited_def List.map_filter_def)

lemma swap_in_step_facts:
  "fetches (ui_log (swap_in_status_step srv internal w p)) = fetches (ui_log w) @
     (if internal \<and> awaited [p] \<noteq> [] \<and> \<not> sis_paidWithAlbyHub (ui_st w) then [deposit (the p)] else [])"
  "sis_paidWithAlbyHub (ui_st (swap_in_status_step srv internal w p)) =
     (sis_paidWithAlbyHub (ui_st w) \<or> internal \<and> awaited [p] \<noteq> [])"
  by (auto simp: swap_in_step_run payWithAlbyHub_run paying_effect_def)

lemma awaited_snoc: "awaited (ps @ [p]) = awaited ps @ awaited [p]"
  by (cases p) (simp_all add: awaited_def List.map_filter_def)

lemma awaited_one: "awaited [p] \<noteq> [] \<Longrightarrow> awaited [p] = [the p]"
  by (cases p) (simp_all add: awaited_def List.map_filter_def split: if_splits)

lemma swap_in_run:
  "fetches (ui_log (foldl (swap_in_status_step srv internal) \<lparr>ui_st = init_swap_in_status, ui_log = []\<rparr> polls)) =
     (if internal then map deposit (take 1 (awaited polls)) else []) \<and>
   sis_paidWithAlbyHub (ui_st (foldl (swap_in_status_step srv internal) \<lparr>ui_st = init_swap_in_status, ui_log = []\<rparr> polls)) =
     (internal \<and> awaited polls \<noteq> [])"
proof (induction polls rule: rev_induct)
  case (snoc p ps)
  then show ?case
    by (cases "awaited [p] = []")
       (auto simp: swap_in_step_facts(1)[of _ _ "foldl _ _ _"] swap_in_step_facts(2) awaited_snoc Suc_le_eq dest: awaited_one)
qed (simp add: init_swap_in_status_def awaited_def)

text \<open>C4: The deposit of a swap in. However often the swap is polled, with whatever answers, the page
  of an internal swap deposits exactly once, for the first poll that shows a pending swap without a
  lock-up transaction, to that swap's address and with its amount; the page of any other swap never
  deposits. The guard lives in the page: a page opened again while no lock-up transaction is known yet
  deposits again.\<close>

theorem swap_in_deposits_once:
  "fetches (ui_log (foldl (swap_in_status_step srv internal) \<lparr>ui_st = init_swap_in_status, ui_log = []\<rparr> polls)) =
     (if internal then map deposit (take 1 (awaited polls)) else [])"
  by (rule conjunct1 [OF swap_in_run])

section \<open>The password of an automatic swap\<close>

text \<open>A request for an extended public key carries a password, and no other request does.\<close>

definition password_iff_xpub :: "effect \<Rightarrow> bool" where
  "password_iff_xpub e =
     (case e of
        EFetch m u (Some body) \<Rightarrow>
          m = ''POST'' \<and> u = ''/api/autoswap'' \<and>
          (case jget ''unlockPassword'' body of
             None \<Rightarrow> jget ''destinationType'' body \<noteq> Some (JStr ''xpub'')
           | Some p \<Rightarrow> p \<noteq> JStr [] \<and> jget ''destinationType'' body = Some (JStr ''xpub''))
      | EFetch m u None \<Rightarrow> False
      | _ \<Rightarrow> True)"

definition dialog_ok :: "auto_swap_ui \<Rightarrow> bool" where
  "dialog_ok s = (as_showDialog s \<longrightarrow> as_isXpub s \<and> \<not> as_isInternalSwap s)"

lemma auto_swap_json_fields:
  "jget ''destinationType'' (auto_swap_json s p) =
     (if as_isInternalSwap s then None else Some (JStr (if as_isXpub s then ''xpub'' else ''address'')))"
  "jget ''unlockPassword'' (auto_swap_json s p) = map_option JStr p"
  by (auto simp: auto_swap_json_def opt_member_def jget_def split: option.splits)

lemma submitAutoSwap_run:
  "\<exists>l. ui_log (snd (submitAutoSwap srv p w)) =
       ui_log w @ EFetch ''POST'' ''/api/autoswap'' (Some (auto_swap_json (ui_st w) p)) # l \<and> fetches l = []"
  "\<not> as_loading (ui_st (snd (submitAutoSwap srv p w)))"
  "dialog_ok (ui_st w) \<Longrightarrow> dialog_ok (ui_st (snd (submitAutoSwap srv p w)))"
  by (auto simp: submitAutoSwap_def getS_then dialog_ok_def effect_simps split: sum.splits prod.splits)

definition auto_swap_inv :: "auto_swap_ui ui \<Rightarrow> bool" where
  "auto_swap_inv w = (dialog_ok (ui_st w) \<and> list_all password_iff_xpub (fetches (ui_log w)) \<and> \<not> as_loading (ui_st w))"

lemma submit_inv:
  assumes "auto_swap_inv w" and "case p of None \<Rightarrow> as_isInternalSwap (ui_st w) \<or> \<not> as_isXpub (ui_st w)
      | Some q \<Rightarrow> q \<noteq> [] \<and> as_isXpub (ui_st w) \<and> \<not> as_isInternalSwap (ui_st w)"
  shows "auto_swap_inv (snd (submitAutoSwap srv p w))"
  using assms submitAutoSwap_run(1) [of srv p w] submitAutoSwap_run(2) [of srv p w] submitAutoSwap_run(3) [of w srv p]
  by (auto simp: auto_swap_inv_def password_iff_xpub_def auto_swap_json_fields split: option.splits)

lemma auto_swap_inv_basic:
  assumes "auto_swap_inv w"
  shows "auto_swap_inv (snd (setS f w)) = (dialog_ok (f (ui_st w)) \<and> \<not> as_loading (f (ui_st w)))"
    and "auto_swap_inv (snd (toast t w))"
  using assms by (simp_all add: auto_swap_inv_def setS_def toast_def emit_def)

lemma auto_swap_step_inv:
  assumes "auto_swap_inv w"
  shows "auto_swap_inv (auto_swap_step srv w e)"
proof -
  have ok: "dialog_ok (ui_st w)" "\<not> as_loading (ui_st w)" using assms by (simp_all add: auto_swap_inv_def)
  have submit: "auto_swap_inv (snd (auto_swap_onSubmit srv w))" if "\<not> as_showDialog (ui_st w)"
    unfolding auto_swap_onSubmit_def getS_then
    using submit_inv [OF assms, of None srv]
    by (auto simp: auto_swap_inv_basic [OF assms] dialog_ok_def ok(2))
  have confirm: "auto_swap_inv (snd (onConfirmUnlockPassword srv w))"
    if "as_showDialog (ui_st w)" "as_unlockPassword (ui_st w) \<noteq> []"
    unfolding onConfirmUnlockPassword_def getS_then using that ok
    by (intro submit_inv [OF assms]) (simp add: dialog_ok_def)
  show ?thesis
    using ok by (cases e) (auto simp: auto_swap_step_def auto_swap_handler_def auto_swap_shown_def auto_swap_inv_basic [OF assms]
        assms submit confirm dialog_ok_def)
qed

interpretation auto_swap: invariant_machine "auto_swap_step srv" auto_swap_inv for srv
  by unfold_locales (rule auto_swap_step_inv)

text \<open>Automatic swaps. After any use of the form and its dialog, and whatever the server answers,
  every request to set up automatic swaps carries a password, a nonempty one, exactly if its destination
  is an extended public key; the dialog is open only for such a destination; and the form is never left
  busy.\<close>

lemma password_only_for_xpub:
  "list_all password_iff_xpub (fetches (ui_log (foldl (auto_swap_step srv) \<lparr>ui_st = init_auto_swap, ui_log = []\<rparr> events))) \<and>
   dialog_ok (ui_st (foldl (auto_swap_step srv) \<lparr>ui_st = init_auto_swap, ui_log = []\<rparr> events)) \<and>
   \<not> as_loading (ui_st (foldl (auto_swap_step srv) \<lparr>ui_st = init_auto_swap, ui_log = []\<rparr> events))"
proof -
  have "auto_swap_inv \<lparr>ui_st = init_auto_swap, ui_log = []\<rparr>"
    by (simp add: auto_swap_inv_def init_auto_swap_def dialog_ok_def)
  from auto_swap.run_inv [OF this, of srv events] show ?thesis by (simp add: auto_swap_inv_def)
qed

end
