(* ===== verification/Onchain.thy ===== *)
theory Onchain imports SendFlow SwapFlow
begin

text \<open>
  On-chain deposits and withdrawals: \<open>components/ReceiveToOnchain.tsx\<close> and
  \<open>screens/onchain/DepositBitcoin.tsx\<close>, which watch the outputs of an address and share their
  effects, and \<open>screens/wallet/WithdrawOnchainFunds.tsx\<close>.
\<close>

section \<open>Watching an address for a deposit\<close>

text \<open>The start time is the content of a ref; 0 until the page is mounted.\<close>

record deposit_watch =
  dw_txId :: string
  dw_confirmedAmountSat :: "int option"
  dw_pendingAmountSat :: "int option"
  dw_startTime :: int

definition init_watch :: deposit_watch where
  "init_watch = \<lparr>dw_txId = [], dw_confirmedAmountSat = None, dw_pendingAmountSat = None, dw_startTime = 0\<rparr>"

text \<open>The clock is in milliseconds.\<close>

definition mount_effect :: "int \<Rightarrow> deposit_watch \<Rightarrow> deposit_watch" where
  "mount_effect now s = (if dw_startTime s = 0 then s\<lparr>dw_startTime := now div 1000\<rparr> else s)"

definition utxo_effect :: "MempoolUtxo list option \<Rightarrow> deposit_watch \<Rightarrow> deposit_watch" where
  "utxo_effect mempoolAddressUtxos s =
     (let utxos = nullish mempoolAddressUtxos []
      in if utxos = [] \<or> dw_startTime s = 0 then s
         else if dw_txId s \<noteq> [] then
           (case find (\<lambda>utxo. mu_txid utxo = dw_txId s) utxos of
              Some utxo \<Rightarrow>
                if mus_confirmed (mu_status utxo)
                then s\<lparr>dw_confirmedAmountSat := Some (mu_value utxo), dw_pendingAmountSat := None\<rparr>
                else s
            | None \<Rightarrow> s)
         else
           (case find (\<lambda>utxo. \<not> mus_confirmed (mu_status utxo)) utxos of
              Some unconfirmed \<Rightarrow>
                s\<lparr>dw_txId := mu_txid unconfirmed, dw_pendingAmountSat := Some (mu_value unconfirmed)\<rparr>
            | None \<Rightarrow>
                (case find (\<lambda>utxo. mus_confirmed (mu_status utxo) \<and> truthy_int (mus_block_time (mu_status utxo)) \<and>
                            the (mus_block_time (mu_status utxo)) \<ge> dw_startTime s) utxos of
                   Some confirmed \<Rightarrow>
                     s\<lparr>dw_txId := mu_txid confirmed, dw_confirmedAmountSat := Some (mu_value confirmed),
                       dw_pendingAmountSat := None\<rparr>
                 | None \<Rightarrow> s)))"

text \<open>The transaction id is among the effect's dependencies: when the effect sets it, it runs again.\<close>

definition utxo_effects :: "MempoolUtxo list option \<Rightarrow> deposit_watch \<Rightarrow> deposit_watch" where
  "utxo_effects utxos s =
     (let s1 = utxo_effect utxos s in if dw_txId s1 \<noteq> dw_txId s then utxo_effect utxos s1 else s1)"

datatype deposit_view =
    DepositLoading | DepositSuccess int string | DepositPending "int option" string | DepositAddress string

definition deposit_view :: "string option \<Rightarrow> deposit_watch \<Rightarrow> deposit_view" where
  "deposit_view onchainAddress s =
     (if \<not> truthy_str onchainAddress then DepositLoading
      else if truthy_int (dw_confirmedAmountSat s) then DepositSuccess (the (dw_confirmedAmountSat s)) (dw_txId s)
      else if dw_txId s \<noteq> [] then DepositPending (dw_pendingAmountSat s) (dw_txId s)
      else DepositAddress (the onchainAddress))"

text \<open>The polled key: without an address nothing is polled.\<close>

definition utxo_key :: "string option \<Rightarrow> swr_call" where
  "utxo_key onchainAddress =
     useMempoolApi (if truthy_str onchainAddress then Some (''/address/'' @ the onchainAddress @ ''/utxo'') else None)
       (PollEvery 3000)"

text \<open>
  The page: the address, the outputs polled for it and the requests for a new address that are
  on their way. A response for an address that is no longer shown goes to that address's cache
  entry, so a poll is always one of the present address.
\<close>

record deposit_page =
  dp_watch :: deposit_watch
  dp_address :: "string option"
  dp_utxos :: "MempoolUtxo list option"
  dp_requests :: nat

definition open_deposit_page :: "int \<Rightarrow> string option \<Rightarrow> deposit_page" where
  "open_deposit_page now address =
     \<lparr>dp_watch = mount_effect now init_watch, dp_address = address, dp_utxos = None, dp_requests = 0\<rparr>"

datatype deposit_event =
    DepositAddressLoaded string | DepositPoll "MempoolUtxo list" | DepositAnother int
  | DepositNewAddress | DepositNewAddressAnswer

definition show_address :: "string \<Rightarrow> deposit_page \<Rightarrow> deposit_page" where
  "show_address a s = (if dp_address s = Some a then s else s\<lparr>dp_address := Some a, dp_utxos := None\<rparr>)"

definition run_watch :: "(deposit_watch \<Rightarrow> deposit_watch) \<Rightarrow> deposit_page \<Rightarrow> deposit_page" where
  "run_watch f s = s\<lparr>dp_watch := f (dp_watch s)\<rparr>"

definition receiveAnother :: "int \<Rightarrow> deposit_page \<Rightarrow> deposit_page" where
  "receiveAnother now s =
     (let s1 = run_watch (\<lambda>u. u\<lparr>dw_txId := [], dw_confirmedAmountSat := None, dw_pendingAmountSat := None,
                               dw_startTime := now div 1000\<rparr>) s
      in (run_watch (utxo_effects (dp_utxos s1)) s1)\<lparr>dp_requests := Suc (dp_requests s)\<rparr>)"

text \<open>
  A button works in the view that has it: the deposited view has \<open>Receive Another Payment\<close>, the
  address view \<open>New Address\<close>. The request for an address is logged together with its answer.
\<close>

definition deposit_step :: "server \<Rightarrow> deposit_page ui \<Rightarrow> deposit_event \<Rightarrow> deposit_page ui" where
  "deposit_step srv w e =
     (let s = ui_st w; view = deposit_view (dp_address s) (dp_watch s)
      in case e of
           DepositAddressLoaded a \<Rightarrow> w\<lparr>ui_st := show_address a s\<rparr>
         | DepositPoll utxos \<Rightarrow>
             if truthy_str (dp_address s)
             then w\<lparr>ui_st := run_watch (utxo_effects (Some utxos)) (s\<lparr>dp_utxos := Some utxos\<rparr>)\<rparr> else w
         | DepositAnother now \<Rightarrow>
             (case view of DepositSuccess _ _ \<Rightarrow> w\<lparr>ui_st := receiveAnother now s\<rparr> | _ \<Rightarrow> w)
         | DepositNewAddress \<Rightarrow>
             (case view of DepositAddress _ \<Rightarrow> w\<lparr>ui_st := s\<lparr>dp_requests := Suc (dp_requests s)\<rparr>\<rparr> | _ \<Rightarrow> w)
         | DepositNewAddressAnswer \<Rightarrow>
             if dp_requests s = 0 then w
             else (let (r, w') = getNewAddress srv \<lparr>ui_st = True, ui_log = ui_log w\<rparr>;
                       s1 = s\<lparr>dp_requests := dp_requests s - 1\<rparr>
                   in \<lparr>ui_st = (case r of Inr (Some a) \<Rightarrow> show_address a s1 | _ \<Rightarrow> s1),
                       ui_log = ui_log w'\<rparr>))"

section \<open>Buying bitcoin\<close>

text \<open>\<open>screens/onchain/BuyBitcoin.tsx\<close>: the select's options, and the page of the provider that is opened.\<close>

definition SUPPORTED_CURRENCIES :: "(string \<times> string) list" where
  "SUPPORTED_CURRENCIES =
     [(''usd'', ''USD - US Dollar''),
      (''ars'', ''ARS - Argentine Peso''),
      (''aud'', ''AUD - Australian Dollar''),
      (''bgn'', ''BGN - Bulgarian Lev''),
      (''brl'', ''BRL - Brazilian Real''),
      (''cad'', ''CAD - Canadian Dollar''),
      (''chf'', ''CHF - Swiss Franc''),
      (''cop'', ''COP - Colombian Peso''),
      (''czk'', ''CZK - Czech Koruna''),
      (''dkk'', ''DKK - Danish Krone''),
      (''dop'', ''DOP - Dominican Peso''),
      (''egp'', ''EGP - Egyptian Pound''),
      (''eur'', ''EUR - Euro''),
      (''gbp'', ''GBP - Pound Sterling''),
      (''hkd'', ''HKD - Hong Kong Dollar''),
      (''idr'', ''IDR - Indonesian Rupiah''),
      (''ils'', ''ILS - Israeli New Shekel''),
      (''jod'', ''JOD - Jordanian Dollar''),
      (''kes'', ''KES - Kenyan Shilling''),
      (''kwd'', ''KWD - Kuwaiti Dinar''),
      (''lkr'', ''LKR - Sri Lankan Rupee''),
      (''mxn'', ''MXN - Mexican Peso''),
      (''ngn'', ''NGN - Nigerian Naira''),
      (''nok'', ''NOK - Norwegian Krone''),
      (''nzd'', ''NZD - New Zealand Dollar''),
      (''omr'', ''OMR - Omani Rial''),
      (''pen'', ''PEN - Peruvian Sol''),
      (''pln'', ''PLN - Polish Z'' @ [CHR 0xC5, CHR 0x82] @ ''oty''),
      (''ron'', ''RON - Romanian Leu''),
      (''sek'', ''SEK - Swedish Krona''),
      (''thb'', ''THB - Thai Baht''),
      (''try'', ''TRY - Turkish Lira''),
      (''twd'', ''TWD - Taiwan Dollar''),
      (''vnd'', ''VND - Vietnamese Dong''),
      (''zar'', ''ZAR - South African Rand'')]"

definition buy_bitcoin_url :: "string option \<Rightarrow> string \<Rightarrow> string \<Rightarrow> string" where
  "buy_bitcoin_url onchainAddress amount currency =
     ''https://getalby.com/topup?address='' @ nullish onchainAddress ''undefined'' @ ''&amount='' @ amount @
     ''&currency='' @ currency"

definition launch :: "string option \<Rightarrow> string \<Rightarrow> string \<Rightarrow> ('s, unit) act" where
  "launch onchainAddress amount currency = openLink (buy_bitcoin_url onchainAddress amount currency)"

section \<open>Lemmas on deposits\<close>

lemma getNewAddress_nonempty:
  "fst (getNewAddress srv w) \<noteq> Inr (Some [])"
  by (auto simp: getNewAddress_def busy_def effect_simps Let_def split: sum.splits prod.splits option.splits)

text \<open>While a transaction is tracked, a poll that shows it confirmed gives the amount, any other poll nothing.\<close>

definition confirmation :: "string \<Rightarrow> MempoolUtxo list \<Rightarrow> int option" where
  "confirmation t utxos =
     (case find (\<lambda>u. mu_txid u = t) utxos of
        Some u \<Rightarrow> if mus_confirmed (mu_status u) then Some (mu_value u) else None
      | None \<Rightarrow> None)"

lemma utxo_effects_tracking:
  assumes "dw_txId s \<noteq> []" and "dw_startTime s \<noteq> 0"
  shows "utxo_effects (Some utxos) s =
    (case confirmation (dw_txId s) utxos of
       Some v \<Rightarrow> s\<lparr>dw_confirmedAmountSat := Some v, dw_pendingAmountSat := None\<rparr> | None \<Rightarrow> s)"
  using assms
  by (cases "utxos = []")
     (auto simp: utxo_effects_def utxo_effect_def confirmation_def Let_def nullish_def split: option.splits)

definition confirmations :: "string \<Rightarrow> deposit_event list \<Rightarrow> int list" where
  "confirmations t evs =
     List.map_filter (\<lambda>e. case e of DepositPoll utxos \<Rightarrow> confirmation t utxos | _ \<Rightarrow> None) evs"

lemma confirmations_simps [simp]:
  "confirmations t [] = []"
  "confirmations t (es @ ds) = confirmations t es @ confirmations t ds"
  by (simp_all add: confirmations_def List.map_filter_def)

lemma confirmations_one:
  "confirmations t [e] = (case e of DepositPoll utxos \<Rightarrow> (case confirmation t utxos of Some v \<Rightarrow> [v] | None \<Rightarrow> []) | _ \<Rightarrow> [])"
  by (auto simp: confirmations_def List.map_filter_def split: deposit_event.splits option.splits)

definition tracking_event :: "deposit_event \<Rightarrow> bool" where
  "tracking_event e = (case e of DepositAnother _ \<Rightarrow> False | DepositAddressLoaded a \<Rightarrow> a \<noteq> [] | _ \<Rightarrow> True)"

lemma show_address_simps [simp]:
  "dp_watch (show_address a s) = dp_watch s" "dp_address (show_address a s) = Some a"
  "dp_requests (show_address a s) = dp_requests s"
  by (simp_all add: show_address_def)

lemma deposit_step_tracking:
  assumes "dw_txId (dp_watch (ui_st w)) = t" and "t \<noteq> []" and "dw_startTime (dp_watch (ui_st w)) \<noteq> 0"
    and "truthy_str (dp_address (ui_st w))" and "tracking_event e"
  shows "dp_watch (ui_st (deposit_step srv w e)) =
      (if confirmations t [e] = [] then dp_watch (ui_st w)
       else (dp_watch (ui_st w))\<lparr>dw_confirmedAmountSat := Some (last (confirmations t [e])), dw_pendingAmountSat := None\<rparr>)
    \<and> truthy_str (dp_address (ui_st (deposit_step srv w e)))"
  using assms getNewAddress_nonempty [of srv "\<lparr>ui_st = True, ui_log = ui_log w\<rparr>"]
  by (cases e)
     (auto simp: confirmations_one deposit_step_def Let_def tracking_event_def run_watch_def utxo_effects_tracking
       split: option.splits prod.splits deposit_view.splits sum.splits)

lemma deposit_run_tracking:
  assumes "dw_txId (dp_watch (ui_st w)) = t" and "t \<noteq> []" and "dw_startTime (dp_watch (ui_st w)) \<noteq> 0"
    and "truthy_str (dp_address (ui_st w))" and "list_all tracking_event evs"
  shows "dp_watch (ui_st (foldl (deposit_step srv) w evs)) =
      (if confirmations t evs = [] then dp_watch (ui_st w)
       else (dp_watch (ui_st w))\<lparr>dw_confirmedAmountSat := Some (last (confirmations t evs)), dw_pendingAmountSat := None\<rparr>)
    \<and> truthy_str (dp_address (ui_st (foldl (deposit_step srv) w evs)))"
  using assms(5)
proof (induction evs rule: rev_induct)
  case (snoc e es)
  let ?w = "foldl (deposit_step srv) w es"
  have "dw_txId (dp_watch (ui_st ?w)) = t" "dw_startTime (dp_watch (ui_st ?w)) \<noteq> 0" "truthy_str (dp_address (ui_st ?w))"
    "tracking_event e"
    using snoc assms by (auto split: if_splits)
  note step = deposit_step_tracking [OF this(1) assms(2) this(2-4), of srv]
  show ?case using snoc step by (auto simp: last_append)
qed (use assms in simp)

text \<open>C14: A deposit is followed until it is confirmed. Once the page tracks a transaction, and whatever
  polls and new addresses come in, it shows the amount as received exactly when some poll showed
  that transaction confirmed (the amount is that of the last such poll) and goes on waiting
  otherwise. So it waits forever for a transaction that was replaced, or that belongs to an address
  that is no longer shown, whatever else is deposited.\<close>

theorem deposit_followed:
  assumes "deposit_view (dp_address (ui_st w)) (dp_watch (ui_st w)) = DepositPending p t"
    and "dw_startTime (dp_watch (ui_st w)) \<noteq> 0" and "list_all tracking_event evs"
  shows "(let s = ui_st (foldl (deposit_step srv) w evs); received = confirmations t evs
    in deposit_view (dp_address s) (dp_watch s) =
      (if received = [] then DepositPending p t
       else if last received = 0 then DepositPending None t
       else DepositSuccess (last received) t))"
proof -
  have w: "dw_txId (dp_watch (ui_st w)) = t" "t \<noteq> []" "truthy_str (dp_address (ui_st w))"
    "dw_pendingAmountSat (dp_watch (ui_st w)) = p" "\<not> truthy_int (dw_confirmedAmountSat (dp_watch (ui_st w)))"
    using assms(1) by (auto simp: deposit_view_def split: if_splits)
  show ?thesis
    using deposit_run_tracking [OF w(1,2) assms(2) w(3) assms(3), of srv] w
    by (simp add: Let_def deposit_view_def)
qed

definition sample_utxo :: "string \<Rightarrow> bool \<Rightarrow> int \<Rightarrow> MempoolUtxo" where
  "sample_utxo t confirmed v =
     \<lparr>mu_txid = t, mu_vout = 0,
      mu_status = \<lparr>mus_confirmed = confirmed, mus_block_height = None, mus_block_hash = None,
        mus_block_time = (if confirmed then Some 1700000000 else None)\<rparr>,
      mu_value = v\<rparr>"

definition sample_deposit_page :: "deposit_page ui" where
  "sample_deposit_page = \<lparr>ui_st = open_deposit_page 1600000000000 (Some ''bc1q''), ui_log = []\<rparr>"

text \<open>After a deposit was seen, a replacement of it is never shown: the page keeps waiting.\<close>

theorem deposit_followed_witness:
  "(let w = deposit_step no_answer sample_deposit_page (DepositPoll [sample_utxo ''a'' False 5000]);
        s = ui_st (foldl (deposit_step no_answer) w [DepositPoll [sample_utxo ''b'' True 4900]])
    in deposit_view (dp_address s) (dp_watch s)) = DepositPending (Some 5000) ''a''"
proof -
  let ?w = "deposit_step no_answer sample_deposit_page (DepositPoll [sample_utxo ''a'' False 5000])"
  have w: "deposit_view (dp_address (ui_st ?w)) (dp_watch (ui_st ?w)) = DepositPending (Some 5000) ''a''"
      "dw_startTime (dp_watch (ui_st ?w)) \<noteq> 0"
      "confirmations ''a'' [DepositPoll [sample_utxo ''b'' True 4900]] = []"
    by code_simp+
  show ?thesis
    using deposit_followed [OF w(1,2), of "[DepositPoll [sample_utxo ''b'' True 4900]]" no_answer] w(3)
    by (simp add: tracking_event_def Let_def)
qed

text \<open>What a page may show after the outputs \<open>U\<close> were polled, when it was opened at \<open>t0\<close> seconds.\<close>

definition fresh_tx :: "MempoolUtxo set \<Rightarrow> int \<Rightarrow> string \<Rightarrow> bool" where
  "fresh_tx U t0 t =
     (\<exists>u\<in>U. mu_txid u = t \<and>
        (\<not> mus_confirmed (mu_status u) \<or> (\<exists>b. mus_block_time (mu_status u) = Some b \<and> t0 \<le> b)))"

definition seen_amount :: "MempoolUtxo set \<Rightarrow> bool \<Rightarrow> string \<Rightarrow> int \<Rightarrow> bool" where
  "seen_amount U c t v = (\<exists>u\<in>U. mu_txid u = t \<and> mu_value u = v \<and> mus_confirmed (mu_status u) = c)"

definition watch_ok :: "MempoolUtxo set \<Rightarrow> int \<Rightarrow> deposit_watch \<Rightarrow> bool" where
  "watch_ok U t0 s =
     (t0 \<le> dw_startTime s \<and>
      (dw_txId s = [] \<longrightarrow> dw_confirmedAmountSat s = None \<and> dw_pendingAmountSat s = None) \<and>
      (dw_txId s \<noteq> [] \<longrightarrow> fresh_tx U t0 (dw_txId s)) \<and>
      (\<forall>v. dw_confirmedAmountSat s = Some v \<longrightarrow> seen_amount U True (dw_txId s) v) \<and>
      (\<forall>v. dw_pendingAmountSat s = Some v \<longrightarrow> seen_amount U False (dw_txId s) v))"

lemma find_SomeD: "find P xs = Some x \<Longrightarrow> x \<in> set xs \<and> P x"
  by (auto simp: find_Some_iff)

lemma watch_ok_confirmed:
  assumes "watch_ok U t0 s" and "u \<in> U" and "mu_txid u = t" and "t \<noteq> []" and "mus_confirmed (mu_status u)"
    and "fresh_tx U t0 t"
  shows "watch_ok U t0 (s\<lparr>dw_txId := t, dw_confirmedAmountSat := Some (mu_value u), dw_pendingAmountSat := None\<rparr>)"
  using assms by (auto simp: watch_ok_def seen_amount_def)

lemma watch_ok_pending:
  assumes "watch_ok U t0 s" and "dw_txId s = []" and "u \<in> U" and "mu_txid u \<noteq> []"
    and "\<not> mus_confirmed (mu_status u)"
  shows "watch_ok U t0 (s\<lparr>dw_txId := mu_txid u, dw_pendingAmountSat := Some (mu_value u)\<rparr>)"
  using assms by (auto simp: watch_ok_def seen_amount_def fresh_tx_def)

lemma utxo_effect_ok:
  assumes "watch_ok U t0 s" and U: "set (nullish utxos []) \<subseteq> U" and ne: "[] \<notin> mu_txid ` U"
  shows "watch_ok U t0 (utxo_effect utxos s)"
proof -
  let ?us = "nullish utxos []"
  let ?new = "\<lambda>u. mus_confirmed (mu_status u) \<and> truthy_int (mus_block_time (mu_status u)) \<and>
                  the (mus_block_time (mu_status u)) \<ge> dw_startTime s"
  have tracked: "watch_ok U t0 (s\<lparr>dw_confirmedAmountSat := Some (mu_value u), dw_pendingAmountSat := None\<rparr>)"
    if "dw_txId s \<noteq> []" "find (\<lambda>u. mu_txid u = dw_txId s) ?us = Some u" "mus_confirmed (mu_status u)" for u
  proof -
    have "u \<in> U" "mu_txid u = dw_txId s" using find_SomeD [OF that(2)] U by auto
    moreover have "fresh_tx U t0 (dw_txId s)" using that(1) assms(1) by (simp add: watch_ok_def)
    ultimately have "watch_ok U t0 (s\<lparr>dw_txId := dw_txId s, dw_confirmedAmountSat := Some (mu_value u), dw_pendingAmountSat := None\<rparr>)"
      using that by (intro watch_ok_confirmed assms(1)) simp_all
    then show ?thesis by simp
  qed
  have found: "watch_ok U t0 (s\<lparr>dw_txId := mu_txid u, dw_pendingAmountSat := Some (mu_value u)\<rparr>)"
    if "dw_txId s = []" "find (\<lambda>u. \<not> mus_confirmed (mu_status u)) ?us = Some u" for u
  proof -
    have "u \<in> U" "\<not> mus_confirmed (mu_status u)" using find_SomeD [OF that(2)] U by auto
    then show ?thesis using ne that(1) by (intro watch_ok_pending assms(1)) (metis image_eqI)+
  qed
  have old: "watch_ok U t0 (s\<lparr>dw_txId := mu_txid u, dw_confirmedAmountSat := Some (mu_value u), dw_pendingAmountSat := None\<rparr>)"
    if "find ?new ?us = Some u" for u
  proof -
    have u: "u \<in> U" "?new u" using find_SomeD [OF that] U by auto
    then have "fresh_tx U t0 (mu_txid u)"
      using assms(1) unfolding fresh_tx_def watch_ok_def
      by (intro bexI [of _ u]) (cases "mus_block_time (mu_status u)", auto)
    then show ?thesis using u ne by (intro watch_ok_confirmed assms(1)) (auto simp: image_iff)
  qed
  show ?thesis
    using assms(1) tracked found old
    by (simp add: utxo_effect_def Let_def split: option.splits)
qed

lemma utxo_effects_ok:
  "watch_ok U t0 s \<Longrightarrow> set (nullish utxos []) \<subseteq> U \<Longrightarrow> [] \<notin> mu_txid ` U \<Longrightarrow> watch_ok U t0 (utxo_effects utxos s)"
  by (simp add: utxo_effects_def Let_def utxo_effect_ok)

definition polled :: "deposit_event list \<Rightarrow> MempoolUtxo set" where
  "polled evs = (\<Union>e\<in>set evs. case e of DepositPoll utxos \<Rightarrow> set utxos | _ \<Rightarrow> {})"

lemma polled_snoc: "polled (es @ [e]) = polled es \<union> (case e of DepositPoll utxos \<Rightarrow> set utxos | _ \<Rightarrow> {})"
  by (auto simp: polled_def)

lemma watch_ok_mono: "watch_ok U t0 s \<Longrightarrow> U \<subseteq> V \<Longrightarrow> watch_ok V t0 s"
  by (auto simp: watch_ok_def fresh_tx_def seen_amount_def) blast+

text \<open>The clock does not go back before the opening, and transaction ids are not empty.\<close>

definition sane_deposit_event :: "int \<Rightarrow> deposit_event \<Rightarrow> bool" where
  "sane_deposit_event opened e =
     (case e of
        DepositAnother now \<Rightarrow> opened \<le> now
      | DepositPoll utxos \<Rightarrow> list_all (\<lambda>u. mu_txid u \<noteq> []) utxos
      | _ \<Rightarrow> True)"

definition deposit_page_ok :: "MempoolUtxo set \<Rightarrow> int \<Rightarrow> deposit_page \<Rightarrow> bool" where
  "deposit_page_ok U t0 s = (watch_ok U t0 (dp_watch s) \<and> set (nullish (dp_utxos s) []) \<subseteq> U)"

lemma show_address_ok: "deposit_page_ok U t0 s \<Longrightarrow> deposit_page_ok U t0 (show_address a s)"
  by (simp add: deposit_page_ok_def show_address_def nullish_def)

lemma deposit_step_ok:
  assumes ok: "deposit_page_ok U (opened div 1000) (ui_st w)" and e: "sane_deposit_event opened e"
    and ne: "[] \<notin> mu_txid ` U" and U: "(case e of DepositPoll utxos \<Rightarrow> set utxos | _ \<Rightarrow> {}) \<subseteq> U"
  shows "deposit_page_ok U (opened div 1000) (ui_st (deposit_step srv w e))"
proof (cases e)
  case (DepositPoll utxos)
  then show ?thesis
    using ok U utxo_effects_ok [OF _ _ ne, of _ _ "Some utxos"]
    by (simp add: deposit_step_def Let_def deposit_page_ok_def run_watch_def nullish_def)
next
  case (DepositAnother now)
  let ?s = "(dp_watch (ui_st w))\<lparr>dw_txId := [], dw_confirmedAmountSat := None, dw_pendingAmountSat := None,
                               dw_startTime := now div 1000\<rparr>"
  have "watch_ok U (opened div 1000) ?s"
    using DepositAnother e zdiv_mono1 [of opened now 1000] by (simp add: watch_ok_def sane_deposit_event_def)
  then show ?thesis
    using ok DepositAnother utxo_effects_ok [OF _ _ ne, of _ ?s "dp_utxos (ui_st w)"]
    by (simp add: deposit_step_def Let_def deposit_page_ok_def receiveAnother_def run_watch_def split: deposit_view.split)
next
  case DepositNewAddressAnswer
  have "deposit_page_ok U (opened div 1000) ((ui_st w)\<lparr>dp_requests := n\<rparr>)" for n
    using ok by (simp add: deposit_page_ok_def)
  then show ?thesis
    using ok DepositNewAddressAnswer
    by (simp add: deposit_step_def Let_def show_address_ok split: prod.split sum.split option.split)
next
  case (DepositAddressLoaded a)
  then show ?thesis using ok by (simp add: deposit_step_def Let_def show_address_ok)
next
  case DepositNewAddress
  then show ?thesis using ok by (simp add: deposit_step_def Let_def deposit_page_ok_def split: deposit_view.split)
qed

lemma sane_polled:
  assumes "list_all (sane_deposit_event opened) evs"
  shows "[] \<notin> mu_txid ` polled evs"
proof
  assume "[] \<in> mu_txid ` polled evs"
  then obtain u e where u: "mu_txid u = []" "e \<in> set evs" "u \<in> (case e of DepositPoll utxos \<Rightarrow> set utxos | _ \<Rightarrow> {})"
    by (force simp: polled_def)
  then show False
    using assms by (cases e) (auto simp: list_all_iff sane_deposit_event_def)
qed

lemma deposit_run_ok:
  assumes "list_all (sane_deposit_event opened) evs"
  shows "deposit_page_ok (polled evs) (opened div 1000)
    (ui_st (foldl (deposit_step srv) \<lparr>ui_st = open_deposit_page opened address, ui_log = l\<rparr> evs))"
  using assms
proof (induction evs rule: rev_induct)
  case Nil
  show ?case
    by (simp add: deposit_page_ok_def open_deposit_page_def mount_effect_def init_watch_def watch_ok_def nullish_def)
next
  case (snoc e es)
  have ne: "[] \<notin> mu_txid ` polled (es @ [e])"
    by (rule sane_polled [OF snoc.prems])
  moreover have "deposit_page_ok (polled (es @ [e])) (opened div 1000)
      (ui_st (foldl (deposit_step srv) \<lparr>ui_st = open_deposit_page opened address, ui_log = l\<rparr> es))"
    using snoc by (auto simp: deposit_page_ok_def polled_snoc intro: watch_ok_mono)
  ultimately show ?case
    using snoc.prems deposit_step_ok [of "polled (es @ [e])" opened _ e srv] by (simp add: polled_snoc)
qed

lemma view_ok:
  assumes "watch_ok U t0 s"
  shows "case deposit_view a s of
         DepositSuccess v t \<Rightarrow> seen_amount U True t v \<and> fresh_tx U t0 t
       | DepositPending v t \<Rightarrow> fresh_tx U t0 t \<and> (case v of Some p \<Rightarrow> seen_amount U False t p | None \<Rightarrow> True)
       | _ \<Rightarrow> True"
  using assms
  by (cases "dw_txId s = []"; cases "dw_confirmedAmountSat s"; cases "dw_pendingAmountSat s")
     (simp_all add: watch_ok_def deposit_view_def)

text \<open>What the page shows of a deposit is real. After any events, an amount shown as received is that of
  a polled confirmed output of the shown transaction, an amount shown as pending that of an
  unconfirmed one; and the transaction was seen unconfirmed, or in a block not older than the page,
  so a deposit of before is never announced.\<close>

lemma deposit_shown_is_real:
  assumes "list_all (sane_deposit_event opened) evs"
  shows "(let s = ui_st (foldl (deposit_step srv) \<lparr>ui_st = open_deposit_page opened address, ui_log = []\<rparr> evs)
    in case deposit_view (dp_address s) (dp_watch s) of
         DepositSuccess v t \<Rightarrow> seen_amount (polled evs) True t v \<and> fresh_tx (polled evs) (opened div 1000) t
       | DepositPending v t \<Rightarrow> fresh_tx (polled evs) (opened div 1000) t \<and>
           (case v of Some a \<Rightarrow> seen_amount (polled evs) False t a | None \<Rightarrow> True)
       | _ \<Rightarrow> True)"
  unfolding Let_def by (rule view_ok) (use deposit_run_ok [OF assms] in \<open>simp add: deposit_page_ok_def\<close>)

lemma deposit_shown_is_real_witness:
  "seen_amount (polled [DepositPoll [sample_utxo ''a'' True 5000]]) True ''a'' 5000 \<and>
   fresh_tx (polled [DepositPoll [sample_utxo ''a'' True 5000]]) 1600000000 ''a''"
proof -
  let ?evs = "[DepositPoll [sample_utxo ''a'' True 5000]]"
  have v: "deposit_view (dp_address (ui_st (foldl (deposit_step no_answer) sample_deposit_page ?evs)))
      (dp_watch (ui_st (foldl (deposit_step no_answer) sample_deposit_page ?evs))) = DepositSuccess 5000 ''a''"
    by code_simp
  show ?thesis
    using deposit_shown_is_real [of 1600000000000 ?evs no_answer "Some ''bc1q''"] v
    by (simp add: sane_deposit_event_def sample_utxo_def sample_deposit_page_def)
qed

section \<open>Withdrawing\<close>

text \<open>What the page has fetched: the backend, the spendable balance, the fees or that they failed.\<close>

record withdraw_data =
  wdd_backend :: "BackendType option"
  wdd_spendableSat :: "int option"
  wdd_fees :: "RecommendedFees option"
  wdd_mempoolError :: bool

record withdraw_ui =
  wd_isLoading :: bool
  wd_onchainAddress :: string
  wd_amountSat :: string
  wd_feeRate :: string
  wd_sendAll :: bool
  wd_showAdvanced :: bool
  wd_transactionId :: string
  wd_confirmDialogOpen :: bool
  wd_data :: withdraw_data

definition no_withdraw_data :: withdraw_data where
  "no_withdraw_data = \<lparr>wdd_backend = None, wdd_spendableSat = None, wdd_fees = None, wdd_mempoolError = False\<rparr>"

definition init_withdraw :: withdraw_ui where
  "init_withdraw = \<lparr>wd_isLoading = False, wd_onchainAddress = [], wd_amountSat = [], wd_feeRate = [], wd_sendAll = False,
     wd_showAdvanced = False, wd_transactionId = [], wd_confirmDialogOpen = False, wd_data = no_withdraw_data\<rparr>"

text \<open>The two effects run when their dependency has changed.\<close>

definition withdraw_effects :: "withdraw_data \<Rightarrow> withdraw_ui \<Rightarrow> withdraw_ui" where
  "withdraw_effects old s =
     (let new = wd_data s;
          s1 = (if wdd_mempoolError new \<and> \<not> wdd_mempoolError old then s\<lparr>wd_showAdvanced := True\<rparr> else s)
      in if wdd_fees new \<noteq> wdd_fees old
         then (case wdd_fees new of
                 Some f \<Rightarrow> if rf_fastestFee f \<noteq> 0 then s1\<lparr>wd_feeRate := show_int (rf_fastestFee f)\<rparr> else s1
               | None \<Rightarrow> s1)
         else s1)"

definition withdraw_json :: "withdraw_ui \<Rightarrow> json" where
  "withdraw_json s =
     JObj [(''toAddress'', JStr (wd_onchainAddress s)), (''amountSat'', num_json (js_Number (wd_amountSat s))),
           (''sendAll'', JBool (wd_sendAll s)), (''feeRate'', num_json (js_Number (wd_feeRate s)))]"

definition withdraw_check :: "withdraw_ui \<Rightarrow> (withdraw_ui, unit) act" where
  "withdraw_check s =
     andDo (require (wd_onchainAddress s \<noteq> []) ''No onchain address'') (require (wd_feeRate s \<noteq> []) ''No fee rate set'')"

definition redeemFunds :: "server \<Rightarrow> (withdraw_ui, unit) act" where
  "redeemFunds srv =
     andThen (getS id) (\<lambda>s.
       andDo (setS (\<lambda>u. u\<lparr>wd_isLoading := True\<rparr>))
       (andThen
         (tryCatch (andDo (withdraw_check s) (ret True))
           (\<lambda>error. andDo (emit (EToastError ''Something went wrong'' (Some (error_text error)))) (ret False)))
         (\<lambda>checked.
           if \<not> checked then setS (\<lambda>u. u\<lparr>wd_isLoading := False\<rparr>)
           else
             andDo
               (tryCatch
                 (andThen (api srv ''POST'' ''/api/wallet/redeem-onchain-funds'' (Some (withdraw_json s)))
                   (\<lambda>response.
                     case Option.bind response (jget_str ''txId'') of
                       Some (c # txId) \<Rightarrow> setS (\<lambda>u. u\<lparr>wd_transactionId := c # txId\<rparr>)
                     | _ \<Rightarrow> throw ''No address in response''))
                 (\<lambda>error. emit (EToastError ''Failed to redeem onchain funds'' (Some (error_text error)))))
               (setS (\<lambda>u. u\<lparr>wd_isLoading := False\<rparr>)))))"

datatype withdraw_view = WdBroadcasted string | WdLoading | WdNotEnough | WdForm

definition withdraw_view :: "withdraw_ui \<Rightarrow> withdraw_view" where
  "withdraw_view s =
     (let d = wd_data s
      in if wd_transactionId s \<noteq> [] then WdBroadcasted (wd_transactionId s)
         else if wdd_backend d = None \<or> wdd_spendableSat d = None \<or> wdd_fees d = None \<and> \<not> wdd_mempoolError d then WdLoading
         else if the (wdd_spendableSat d) \<le> ONCHAIN_DUST_SATS then WdNotEnough
         else WdForm)"

definition fee_input_shown :: "withdraw_ui \<Rightarrow> bool" where
  "fee_input_shown s = ((wdd_backend (wd_data s) = Some LDK \<or> wdd_backend (wd_data s) = Some LND) \<and> wd_showAdvanced s)"

text \<open>The inputs' \<open>required\<close>, which the browser checks before it submits the form.\<close>

definition withdraw_inputs_valid :: "withdraw_ui \<Rightarrow> bool" where
  "withdraw_inputs_valid s =
     (wd_onchainAddress s \<noteq> [] \<and> (wd_sendAll s \<or> wd_amountSat s \<noteq> []) \<and> (fee_input_shown s \<longrightarrow> wd_feeRate s \<noteq> []))"

text \<open>What the confirmation dialog shows: the address, the amount in msat (\<open>None\<close>: the entire balance), the fee.\<close>

definition confirm_dialog :: "withdraw_ui \<Rightarrow> string \<times> jsnum option \<times> string option" where
  "confirm_dialog s =
     (wd_onchainAddress s,
      if wd_sendAll s then None else Some (scale_num 1000 (js_Number (wd_amountSat s))),
      if wd_feeRate s \<noteq> [] then Some (wd_feeRate s) else None)"

definition withdraw_alert_amount :: "withdraw_ui \<Rightarrow> int \<Rightarrow> jsnum" where
  "withdraw_alert_amount s spendableSat =
     (if wd_sendAll s then Fin (of_int spendableSat) else js_Number (wd_amountSat s))"

datatype withdraw_event =
    WdData withdraw_data | WdAmount string | WdSendAll | WdAddress string | WdFee string | WdLowPriority | WdHighPriority
  | WdAdvanced | WdSubmit | WdDialog bool | WdConfirm

text \<open>Which input and button the page has; the dialog is modal, its button rests while a request runs.\<close>

definition withdraw_shown :: "withdraw_ui \<Rightarrow> withdraw_event \<Rightarrow> bool" where
  "withdraw_shown s e =
     (case e of
        WdData _ \<Rightarrow> True
      | WdConfirm \<Rightarrow> withdraw_view s = WdForm \<and> wd_confirmDialogOpen s \<and> \<not> wd_isLoading s
      | WdDialog _ \<Rightarrow> withdraw_view s = WdForm \<and> wd_confirmDialogOpen s
      | WdAmount _ \<Rightarrow> withdraw_view s = WdForm \<and> \<not> wd_confirmDialogOpen s \<and> \<not> wd_sendAll s
      | WdFee _ \<Rightarrow> withdraw_view s = WdForm \<and> \<not> wd_confirmDialogOpen s \<and> fee_input_shown s
      | WdLowPriority \<Rightarrow> withdraw_view s = WdForm \<and> \<not> wd_confirmDialogOpen s \<and> fee_input_shown s \<and> wdd_fees (wd_data s) \<noteq> None
      | WdHighPriority \<Rightarrow> withdraw_view s = WdForm \<and> \<not> wd_confirmDialogOpen s \<and> fee_input_shown s \<and> wdd_fees (wd_data s) \<noteq> None
      | WdAdvanced \<Rightarrow> withdraw_view s = WdForm \<and> \<not> wd_confirmDialogOpen s \<and> \<not> wd_showAdvanced s \<and>
                      (wdd_backend (wd_data s) = Some LDK \<or> wdd_backend (wd_data s) = Some LND)
      | WdSubmit \<Rightarrow> withdraw_view s = WdForm \<and> \<not> wd_confirmDialogOpen s \<and> withdraw_inputs_valid s
      | _ \<Rightarrow> withdraw_view s = WdForm \<and> \<not> wd_confirmDialogOpen s)"

definition withdraw_handler :: "server \<Rightarrow> withdraw_event \<Rightarrow> (withdraw_ui, unit) act" where
  "withdraw_handler srv e =
     (case e of
        WdData d \<Rightarrow> setS (\<lambda>s. withdraw_effects (wd_data s) (s\<lparr>wd_data := d\<rparr>))
      | WdAmount v \<Rightarrow> setS (\<lambda>s. s\<lparr>wd_amountSat := v\<rparr>)
      | WdSendAll \<Rightarrow> setS (\<lambda>s. s\<lparr>wd_sendAll := \<not> wd_sendAll s\<rparr>)
      | WdAddress v \<Rightarrow> setS (\<lambda>s. s\<lparr>wd_onchainAddress := v\<rparr>)
      | WdFee v \<Rightarrow> setS (\<lambda>s. s\<lparr>wd_feeRate := v\<rparr>)
      | WdLowPriority \<Rightarrow> setS (\<lambda>s. s\<lparr>wd_feeRate := show_int (rf_economyFee (the (wdd_fees (wd_data s))))\<rparr>)
      | WdHighPriority \<Rightarrow> setS (\<lambda>s. s\<lparr>wd_feeRate := show_int (rf_fastestFee (the (wdd_fees (wd_data s))))\<rparr>)
      | WdAdvanced \<Rightarrow> setS (\<lambda>s. s\<lparr>wd_showAdvanced := \<not> wd_showAdvanced s\<rparr>)
      | WdSubmit \<Rightarrow> setS (\<lambda>s. s\<lparr>wd_confirmDialogOpen := True\<rparr>)
      | WdDialog b \<Rightarrow> setS (\<lambda>s. s\<lparr>wd_confirmDialogOpen := b\<rparr>)
      | WdConfirm \<Rightarrow> redeemFunds srv)"

definition withdraw_step :: "server \<Rightarrow> withdraw_ui ui \<Rightarrow> withdraw_event \<Rightarrow> withdraw_ui ui" where
  "withdraw_step srv w e = (if withdraw_shown (ui_st w) e then snd (withdraw_handler srv e w) else w)"

section \<open>Lemmas on withdrawing\<close>

definition withdraw_request :: "withdraw_ui \<Rightarrow> effect" where
  "withdraw_request s = EFetch ''POST'' ''/api/wallet/redeem-onchain-funds'' (Some (withdraw_json s))"

text \<open>The transaction id of the server's answer to the request, empty when there is none.\<close>

definition broadcasted :: "string + json option \<Rightarrow> string" where
  "broadcasted r = (case r of Inr j \<Rightarrow> nullish (Option.bind j (jget_str ''txId'')) [] | Inl _ \<Rightarrow> [])"

definition can_withdraw :: "withdraw_ui \<Rightarrow> bool" where
  "can_withdraw s = (wd_onchainAddress s \<noteq> [] \<and> wd_feeRate s \<noteq> [])"

lemma redeemFunds_run:
  assumes "wd_transactionId (ui_st w) = []"
  shows "fetches (ui_log (snd (redeemFunds srv w))) =
      fetches (ui_log w) @ (if can_withdraw (ui_st w) then [withdraw_request (ui_st w)] else [])"
    and "ui_st (snd (redeemFunds srv w)) =
      (ui_st w)\<lparr>wd_isLoading := False,
        wd_transactionId := (if can_withdraw (ui_st w)
          then broadcasted (srv (ui_log w) ''POST'' ''/api/wallet/redeem-onchain-funds'' (Some (withdraw_json (ui_st w)))) else [])\<rparr>"
proof -
  have "fst (redeemFunds srv w) = Inr () \<and>
    fetches (ui_log (snd (redeemFunds srv w))) =
      fetches (ui_log w) @ (if can_withdraw (ui_st w) then [withdraw_request (ui_st w)] else []) \<and>
    ui_st (snd (redeemFunds srv w)) =
      (ui_st w)\<lparr>wd_isLoading := False,
        wd_transactionId := (if can_withdraw (ui_st w)
          then broadcasted (srv (ui_log w) ''POST'' ''/api/wallet/redeem-onchain-funds'' (Some (withdraw_json (ui_st w)))) else [])\<rparr>"
  proof (cases "can_withdraw (ui_st w)")
    case True
    then show ?thesis
      using assms
      unfolding redeemFunds_def getS_then
      by (auto simp: withdraw_check_def can_withdraw_def withdraw_request_def broadcasted_def effect_defs nullish_def
          split: sum.split option.split list.split)
  next
    case False
    then show ?thesis
      using assms
      unfolding redeemFunds_def getS_then
      by (auto simp: withdraw_check_def can_withdraw_def effect_defs)
  qed
  then show "fetches (ui_log (snd (redeemFunds srv w))) =
      fetches (ui_log w) @ (if can_withdraw (ui_st w) then [withdraw_request (ui_st w)] else [])"
    and "ui_st (snd (redeemFunds srv w)) =
      (ui_st w)\<lparr>wd_isLoading := False,
        wd_transactionId := (if can_withdraw (ui_st w)
          then broadcasted (srv (ui_log w) ''POST'' ''/api/wallet/redeem-onchain-funds'' (Some (withdraw_json (ui_st w)))) else [])\<rparr>"
    by blast+
qed

text \<open>While the dialog is open its address, and its amount unless everything is sent, are not empty.\<close>

definition withdraw_ok :: "withdraw_ui \<Rightarrow> bool" where
  "withdraw_ok s =
     (\<not> wd_isLoading s \<and>
      (wd_confirmDialogOpen s \<longrightarrow> wd_onchainAddress s \<noteq> [] \<and> (wd_sendAll s \<or> wd_amountSat s \<noteq> [])))"

lemma withdraw_effects_keep [simp]:
  "wd_isLoading (withdraw_effects old s) = wd_isLoading s"
  "wd_confirmDialogOpen (withdraw_effects old s) = wd_confirmDialogOpen s"
  "wd_onchainAddress (withdraw_effects old s) = wd_onchainAddress s"
  "wd_sendAll (withdraw_effects old s) = wd_sendAll s"
  "wd_amountSat (withdraw_effects old s) = wd_amountSat s"
  "wd_transactionId (withdraw_effects old s) = wd_transactionId s"
  by (simp_all add: withdraw_effects_def Let_def split: option.split)

lemma form_not_sent: "withdraw_view s = WdForm \<Longrightarrow> wd_transactionId s = []"
  by (simp add: withdraw_view_def Let_def split: if_splits)

lemma withdraw_step_ok: "withdraw_ok (ui_st w) \<Longrightarrow> withdraw_ok (ui_st (withdraw_step srv w e))"
proof (cases e)
  case WdConfirm
  then show "withdraw_ok (ui_st w) \<Longrightarrow> ?thesis"
    using redeemFunds_run(2) [OF form_not_sent, of w srv]
    by (simp add: withdraw_step_def withdraw_shown_def withdraw_handler_def withdraw_ok_def)
qed (auto simp: withdraw_step_def withdraw_shown_def withdraw_handler_def withdraw_ok_def setS_def withdraw_inputs_valid_def)

interpretation withdrawing: invariant_machine "withdraw_step srv" "\<lambda>w. withdraw_ok (ui_st w)" for srv
  by unfold_locales (rule withdraw_step_ok)

definition withdraw_page :: "server \<Rightarrow> withdraw_event list \<Rightarrow> withdraw_ui ui" where
  "withdraw_page srv evs = foldl (withdraw_step srv) \<lparr>ui_st = init_withdraw, ui_log = []\<rparr> evs"

lemma withdraw_page_ok: "withdraw_ok (ui_st (withdraw_page srv evs))"
  unfolding withdraw_page_def by (rule withdrawing.run_inv) (simp add: withdraw_ok_def init_withdraw_def)

lemma withdraw_step_quiet:
  assumes "e \<noteq> WdConfirm"
  shows "fetches (ui_log (withdraw_step srv w e)) = fetches (ui_log w)"
    and "wd_transactionId (ui_st (withdraw_step srv w e)) = wd_transactionId (ui_st w)"
  using assms by (cases e; simp add: withdraw_step_def withdraw_handler_def setS_def)+

text \<open>C6: A withdrawal is exactly what was confirmed. After any use of the page, the next event asks the server
  for a withdrawal exactly when it is the confirmation of the open dialog with a fee rate known; the
  one request has the address, the amount (or everything) and the fee rate that the dialog shows, the
  address is not empty and neither is the amount unless everything is sent. The page shows a
  transaction exactly when the answer names one; no other event sends or changes anything of this.\<close>

theorem withdraw_asks_first:
  "let w = withdraw_page srv evs; s = ui_st w; w' = withdraw_step srv w e;
       url = ''/api/wallet/redeem-onchain-funds''
   in if e = WdConfirm \<and> withdraw_view s = WdForm \<and> wd_confirmDialogOpen s \<and> wd_feeRate s \<noteq> []
      then (case confirm_dialog s of
              (address, amount, Some rate) \<Rightarrow>
                (let body = JObj [(''toAddress'', JStr address), (''amountSat'', num_json (js_Number (wd_amountSat s))),
                                  (''sendAll'', JBool (amount = None)), (''feeRate'', num_json (js_Number rate))]
                 in address \<noteq> [] \<and>
                    (amount = None \<or> amount = Some (scale_num 1000 (js_Number (wd_amountSat s))) \<and> wd_amountSat s \<noteq> []) \<and>
                    fetches (ui_log w') = fetches (ui_log w) @ [EFetch ''POST'' url (Some body)] \<and>
                    wd_transactionId (ui_st w') = broadcasted (srv (ui_log w) ''POST'' url (Some body)))
            | _ \<Rightarrow> False)
      else fetches (ui_log w') = fetches (ui_log w) \<and> wd_transactionId (ui_st w') = wd_transactionId s"
proof -
  let ?w = "withdraw_page srv evs"
  have ok: "\<not> wd_isLoading (ui_st ?w)"
      "wd_confirmDialogOpen (ui_st ?w) \<Longrightarrow> wd_onchainAddress (ui_st ?w) \<noteq> [] \<and> (wd_sendAll (ui_st ?w) \<or> wd_amountSat (ui_st ?w) \<noteq> [])"
    using withdraw_page_ok [of srv evs] by (simp_all add: withdraw_ok_def)
  show ?thesis
  proof (cases "e = WdConfirm \<and> withdraw_shown (ui_st ?w) WdConfirm")
    case True
    then have v: "withdraw_view (ui_st ?w) = WdForm" "wd_confirmDialogOpen (ui_st ?w)" by (simp_all add: withdraw_shown_def)
    note run = redeemFunds_run [OF form_not_sent [OF v(1)], of srv]
    have tx: "wd_transactionId (ui_st ?w) = []" by (rule form_not_sent [OF v(1)])
    show ?thesis
      using True v ok run tx
      by (cases "wd_sendAll (ui_st ?w)")
         (simp_all add: Let_def withdraw_step_def withdraw_handler_def can_withdraw_def confirm_dialog_def
          withdraw_request_def withdraw_json_def)
  next
    case False
    then show ?thesis
      using ok withdraw_step_quiet [of e srv ?w]
      by (cases "e = WdConfirm") (auto simp: Let_def withdraw_step_def withdraw_shown_def)
  qed
qed

end
