(* ===== verification/Receive.thy ===== *)
theory Receive imports SendFlow SwapFlow
begin

text \<open>
  Receiving: \<open>screens/wallet/Receive.tsx\<close> with \<open>components/ReceiveToLightning.tsx\<close>, the pages under
  \<open>screens/wallet/receive/\<close>, and \<open>components/FirstChannelJitAlert.tsx\<close>, which probes whether a
  channel can be obtained just in time.
\<close>

section \<open>The receive page\<close>

definition receive_tab_onchain :: "params \<Rightarrow> bool" where
  "receive_tab_onchain searchParams = (params_get searchParams ''type'' = Some ''onchain'')"

definition receive_loading :: "params \<Rightarrow> InfoResponse option \<Rightarrow> AlbyMe option \<Rightarrow> bool \<Rightarrow> bool" where
  "receive_loading searchParams info me meError =
     (\<not> receive_tab_onchain searchParams \<and>
      (case info of Some i \<Rightarrow> info_albyAccountConnected i | None \<Rightarrow> False) \<and> me = None \<and> \<not> meError)"

definition receive_effect :: "params \<Rightarrow> InfoResponse option \<Rightarrow> AlbyMe option \<Rightarrow> bool \<Rightarrow> ('s, unit) act" where
  "receive_effect searchParams info me meError =
     (if receive_tab_onchain searchParams then ret ()
      else (case info of
              None \<Rightarrow> ret ()
            | Some i \<Rightarrow>
                if receive_loading searchParams info me meError then ret ()
                else if \<not> info_albyAccountConnected i then emit (ENavigate ''/wallet/receive/invoice'')
                else whenD meError
                       (andDo (emit (EToastError ''Failed to load lightning address'' None))
                              (emit (ENavigate ''/wallet/receive/invoice'')))))"

text \<open>The query after the other tab was chosen.\<close>

definition receive_other_tab :: "params \<Rightarrow> params" where
  "receive_other_tab searchParams =
     (if receive_tab_onchain searchParams then [] else [(''type'', ''onchain'')])"

datatype receive_view = ReceiveLoading | ReceiveOnchainTab | ReceiveLightningTab string bool

definition receive_view :: "params \<Rightarrow> InfoResponse option \<Rightarrow> AlbyMe option \<Rightarrow> bool \<Rightarrow> receive_view" where
  "receive_view searchParams info me meError =
     (case info of
        None \<Rightarrow> ReceiveLoading
      | Some i \<Rightarrow>
          if receive_loading searchParams info me meError then ReceiveLoading
          else if receive_tab_onchain searchParams then ReceiveOnchainTab
          else (case me of None \<Rightarrow> ReceiveLoading
                | Some m \<Rightarrow> ReceiveLightningTab (me_lightning_address m) (info_supportsBolt12 i)))"

section \<open>Who receives\<close>

definition receive_to_options :: "(string \<Rightarrow> string \<Rightarrow> int) \<Rightarrow> ListAppsResponse option \<Rightarrow> PayFromOption list" where
  "receive_to_options localeCompare appsData =
     \<lparr>pf_value = LIGHTNING_BALANCE, pf_label = LIGHTNING_BALANCE_LABEL, pf_app = None\<rparr> #
     map (\<lambda>app. \<lparr>pf_value = show_int (app_id app), pf_label = getAppDisplayName (app_name app), pf_app = Some app\<rparr>)
       (sort_cmp (\<lambda>a b. localeCompare (getAppDisplayName (app_name a)) (getAppDisplayName (app_name b)))
         (case appsData of Some d \<Rightarrow> lar_apps d | None \<Rightarrow> []))"

definition receive_to_change :: "PayFromOption option \<Rightarrow> jsnum option" where
  "receive_to_change opt =
     (case opt of
        None \<Rightarrow> None
      | Some x \<Rightarrow> if pf_value x = LIGHTNING_BALANCE then None else Some (js_Number (pf_value x)))"

section \<open>Creating an invoice\<close>

record receive_data =
  rd_info :: "InfoResponse option"
  rd_me :: "AlbyMe option"
  rd_balances :: "BalancesResponse option"
  rd_channels :: "Channel list option"

definition rd_hasChannelManagement :: "receive_data \<Rightarrow> bool" where
  "rd_hasChannelManagement d = (ih_hasChannelManagement (useInfo (rd_info d) False) = Some True)"

definition jitChannelsEnabled :: "receive_data \<Rightarrow> bool" where
  "jitChannelsEnabled d = (case rd_info d of Some i \<Rightarrow> info_jitChannelsEnabled i | None \<Rightarrow> False)"

definition lsps2Source :: "receive_data \<Rightarrow> string option" where
  "lsps2Source d = (if jitChannelsEnabled d then Option.bind (rd_info d) info_jitChannelsLiquiditySource else None)"

text \<open>\<open>Math.ceil(msat / 1000)\<close> and \<open>Math.floor(msat / 1000)\<close>.\<close>

definition lsps2MinimumPaymentSizeSat :: "receive_data \<Rightarrow> int option" where
  "lsps2MinimumPaymentSizeSat d =
     (let m = Option.bind (rd_info d) info_jitChannelsMinPaymentSizeMsat
      in if jitChannelsEnabled d \<and> truthy_int m then Some (- ((- the m) div 1000)) else None)"

definition lsps2MaximumPaymentSizeSat :: "receive_data \<Rightarrow> int option" where
  "lsps2MaximumPaymentSizeSat d =
     (let m = Option.bind (rd_info d) info_jitChannelsMaxPaymentSizeMsat
      in if jitChannelsEnabled d \<and> truthy_int m then Some (the m div 1000) else None)"

definition has_channels :: "receive_data \<Rightarrow> bool" where
  "has_channels d = (nullish (rd_channels d) [] \<noteq> [])"

definition jitMinimumReceiveSat :: "receive_data \<Rightarrow> int option" where
  "jitMinimumReceiveSat d = (if has_channels d then None else lsps2MinimumPaymentSizeSat d)"

definition jitMaximumReceiveSat :: "receive_data \<Rightarrow> int option" where
  "jitMaximumReceiveSat d =
     (if rd_hasChannelManagement d \<and> truthy_str (lsps2Source d) then lsps2MaximumPaymentSizeSat d
      else if \<not> truthy_str (lsps2Source d) \<and> rd_hasChannelManagement d
           then map_option (\<lambda>b. lb_totalReceivableSat (bal_lightning b)) (rd_balances d)
           else None)"

definition totalReceivableMsat :: "receive_data \<Rightarrow> int" where
  "totalReceivableMsat d = (case rd_balances d of Some b \<Rightarrow> lb_totalReceivableMsat (bal_lightning b) | None \<Rightarrow> 0)"

record receive_invoice =
  ri_isLoading :: bool
  ri_jitChannelRequestFailed :: bool
  ri_amountSat :: string
  ri_description :: string
  ri_toAppId :: "jsnum option"
  ri_transaction :: "json option"

definition init_receive_invoice :: receive_invoice where
  "init_receive_invoice = \<lparr>ri_isLoading = False, ri_jitChannelRequestFailed = False, ri_amountSat = [], ri_description = [],
     ri_toAppId = None, ri_transaction = None\<rparr>"

text \<open>\<open>+amountSat * 1000 || transaction?.amountMsat || 0\<close>.\<close>

definition requestedAmountMsat :: "receive_invoice \<Rightarrow> jsnum" where
  "requestedAmountMsat s =
     (case scale_num 1000 (js_Number (ri_amountSat s)) of
        Fin r \<Rightarrow> if r \<noteq> 0 then Fin r
                  else Fin (of_int (nullish (Option.bind (ri_transaction s) (jget_int ''amountMsat'')) 0))
      | NaN \<Rightarrow> Fin (of_int (nullish (Option.bind (ri_transaction s) (jget_int ''amountMsat'')) 0))
      | x \<Rightarrow> x)"

definition isNearReceivingCapacity :: "receive_data \<Rightarrow> receive_invoice \<Rightarrow> bool" where
  "isNearReceivingCapacity d s =
     (rd_hasChannelManagement d \<and>
      (case requestedAmountMsat s of
         Fin r \<Rightarrow> r \<ge> 8 / 10 * of_int (totalReceivableMsat d) | PosInf \<Rightarrow> True | _ \<Rightarrow> False))"

definition isJitReceiveInvoice :: "receive_data \<Rightarrow> receive_invoice \<Rightarrow> bool" where
  "isJitReceiveInvoice d s =
     (rd_hasChannelManagement d \<and> truthy_str (lsps2Source d) \<and>
      (case ri_transaction s of
         Some t \<Rightarrow> (case jget_int ''amountMsat'' t of Some a \<Rightarrow> a > totalReceivableMsat d | None \<Rightarrow> False)
       | None \<Rightarrow> False))"

definition invoice_paid :: "Transaction option \<Rightarrow> bool" where
  "invoice_paid invoiceData = truthy_str (Option.bind invoiceData tx_settledAt)"

definition displayedJitFeeMsat :: "Transaction option \<Rightarrow> receive_invoice \<Rightarrow> int" where
  "displayedJitFeeMsat invoiceData s =
     (if invoice_paid invoiceData then (case invoiceData of Some t \<Rightarrow> tx_feesPaidMsat t | None \<Rightarrow> 0)
      else nullish (Option.bind (ri_transaction s) (jget_int ''feesPaidMsat'')) 0)"

text \<open>\<open>(parseInt(amountSat) || 0) * 1000\<close>; an app id that is undefined is not sent.\<close>

definition create_invoice_json :: "receive_invoice \<Rightarrow> json" where
  "create_invoice_json s =
     JObj ([(''amountMsat'', JNum (nullish (js_parseInt (ri_amountSat s)) 0 * 1000)),
            (''description'', JStr (ri_description s))] @
           opt_member ''toAppId'' (map_option num_json (ri_toAppId s)))"

definition too_small_hint :: "(int \<Rightarrow> string) \<Rightarrow> int \<Rightarrow> string" where
  "too_small_hint fmt minimum =
     [CHR 0x0A, CHR 0x0A] @
     ''This amount is over your receiving capacity and may be too small to open a new Lightning channel. Try receiving at least '' @
     fmt minimum @ '' sats, or lower the amount to fit your current capacity.''"

definition likelyTooSmallForNewChannel :: "receive_data \<Rightarrow> string \<Rightarrow> bool" where
  "likelyTooSmallForNewChannel d amountSat =
     (let requestedAmountSat = nullish (js_parseInt amountSat) 0
      in jitChannelsEnabled d \<and> has_channels d \<and> truthy_int (lsps2MinimumPaymentSizeSat d) \<and>
         requestedAmountSat < the (lsps2MinimumPaymentSizeSat d) \<and> requestedAmountSat * 1000 > totalReceivableMsat d)"

definition invoice_handleSubmit :: "server \<Rightarrow> (int \<Rightarrow> string) \<Rightarrow> receive_data \<Rightarrow> (receive_invoice, unit) act" where
  "invoice_handleSubmit srv fmt d =
     andThen (getS id) (\<lambda>s.
       finally_do
         (tryCatch
           (andDo (setS (\<lambda>u. u\<lparr>ri_isLoading := True\<rparr>))
           (andDo (setS (\<lambda>u. u\<lparr>ri_jitChannelRequestFailed := False\<rparr>))
           (andThen (api srv ''POST'' ''/api/invoices'' (Some (create_invoice_json s)))
             (\<lambda>invoice.
               case invoice of
                 Some t \<Rightarrow>
                   whenD (json_truthy t)
                     (andDo (setS (\<lambda>u. u\<lparr>ri_transaction := Some t, ri_amountSat := [], ri_description := []\<rparr>))
                            (toast ''Successfully created invoice''))
               | None \<Rightarrow> ret ()))))
           (\<lambda>e. andDo
             (emit (EToastError ''Failed to create invoice''
               (Some (error_text e @
                 (if likelyTooSmallForNewChannel d (ri_amountSat s)
                  then too_small_hint fmt (the (lsps2MinimumPaymentSizeSat d)) else [])))))
             (whenD (truthy_str (lsps2Source d)) (setS (\<lambda>u. u\<lparr>ri_jitChannelRequestFailed := True\<rparr>)))))
         (setS (\<lambda>u. u\<lparr>ri_isLoading := False\<rparr>)))"

text \<open>What the browser says when the amount is out of bounds.\<close>

definition invalid_amount_message :: "(int \<Rightarrow> string) \<Rightarrow> receive_data \<Rightarrow> bool \<Rightarrow> bool \<Rightarrow> string" where
  "invalid_amount_message fmt d rangeUnderflow rangeOverflow =
     (if truthy_int (jitMinimumReceiveSat d) \<and> rangeUnderflow
      then ''You need to receive at least '' @ fmt (the (jitMinimumReceiveSat d)) @ '' sats to open your first lightning channel''
      else if truthy_int (jitMaximumReceiveSat d) \<and> rangeOverflow
      then (if truthy_str (lsps2Source d)
            then ''This JIT channel setup supports receiving at most '' @ fmt (the (jitMaximumReceiveSat d)) @ '' sats in a single payment''
            else ''You can receive at most '' @ fmt (the (jitMaximumReceiveSat d)) @ '' sats with your current capacity'')
      else [])"

definition receive_limit_row :: "receive_data \<Rightarrow> int option" where
  "receive_limit_row d =
     (if rd_hasChannelManagement d \<and> \<not> truthy_str (lsps2Source d) \<and> truthy_int (jitMaximumReceiveSat d)
      then jitMaximumReceiveSat d else None)"

datatype invoice_view = InvoiceLoading | InvoiceForm | InvoiceWaiting | InvoicePaid

definition invoice_view :: "receive_data \<Rightarrow> Transaction option \<Rightarrow> receive_invoice \<Rightarrow> invoice_view" where
  "invoice_view d invoiceData s =
     (case (rd_balances d, rd_info d) of
        (Some _, Some i) \<Rightarrow>
          if info_albyAccountConnected i \<and> rd_me d = None then InvoiceLoading
          else if ri_transaction s = None then InvoiceForm
          else if invoice_paid invoiceData then InvoicePaid else InvoiceWaiting
      | _ \<Rightarrow> InvoiceLoading)"

definition create_another_invoice :: "receive_invoice \<Rightarrow> receive_invoice" where
  "create_another_invoice s = s\<lparr>ri_transaction := None\<rparr>"

text \<open>The alerts around the form: low receiving capacity, and the failed just-in-time request.\<close>

definition invoice_alerts :: "receive_data \<Rightarrow> receive_invoice \<Rightarrow> bool \<times> bool" where
  "invoice_alerts d s =
     (\<not> truthy_str (lsps2Source d) \<and> ri_transaction s = None \<and> isNearReceivingCapacity d s,
      ri_transaction s = None \<and> ri_jitChannelRequestFailed s)"

definition show_lightning_address_card :: "receive_data \<Rightarrow> receive_invoice \<Rightarrow> bool" where
  "show_lightning_address_card d s =
     (ri_transaction s = None \<and>
      (\<not> (case rd_info d of Some i \<Rightarrow> info_albyAccountConnected i | None \<Rightarrow> False) \<or>
       \<not> truthy_str (map_option me_lightning_address (rd_me d))))"

section \<open>Receiving from on-chain\<close>

text \<open>
  \<open>ReceiveOnchain.tsx\<close>: bitcoin (\<open>FromExternal\<close>) or another currency (\<open>FromCrypto\<close>). The requests are those
  of swapping in, with the state of that form.
\<close>

definition receive_onchain_onSubmit :: "server \<Rightarrow> (swap_in_ui, unit) act" where
  "receive_onchain_onSubmit srv =
     andThen (getS id) (\<lambda>s.
       finally_do
         (tryCatch
           (andDo (setS (\<lambda>u. u\<lparr>sif_loading := True\<rparr>))
             (if sif_swapFrom s = FromCrypto then crypto_swap srv (sif_swapAmountSat s)
              else boltz_swap_in srv (sif_swapAmountSat s) False))
           (\<lambda>error. emit (EToastError ''Failed to initiate swap'' (Some error))))
         (setS (\<lambda>u. u\<lparr>sif_loading := False\<rparr>)))"

definition receive_fee_rate :: "RecommendedFees option \<Rightarrow> string \<Rightarrow> string" where
  "receive_fee_rate fees feeRate =
     (case fees of Some f \<Rightarrow> if rf_fastestFee f \<noteq> 0 then show_int (rf_fastestFee f) else feeRate | None \<Rightarrow> feeRate)"

definition receive_onchain_loading ::
    "InfoResponse option \<Rightarrow> BalancesResponse option \<Rightarrow> SwapInfo option \<Rightarrow> RecommendedFees option \<Rightarrow> bool \<Rightarrow> bool" where
  "receive_onchain_loading info balances swapInfo fees mempoolError =
     (info = None \<or> balances = None \<or> swapInfo = None \<or> fees = None \<and> \<not> mempoolError)"

definition isCryptoReceiveState :: "swap_in_ui \<Rightarrow> bool" where
  "isCryptoReceiveState s = (sif_swapFrom s = FromCrypto \<and> sif_cryptoTransaction s \<noteq> None)"

definition receive_onchain_max :: "SwapInfo \<Rightarrow> BalancesResponse \<Rightarrow> bool \<Rightarrow> swap_from \<Rightarrow> rat option" where
  "receive_onchain_max info b hasChannelManagement from =
     (if from \<noteq> FromCrypto
      then Some (if hasChannelManagement then min (of_int (si_maxAmountSat info)) (receivable_99 b)
                 else of_int (si_maxAmountSat info))
      else (if hasChannelManagement then Some (receivable_99 b) else None))"

section \<open>Offers\<close>

record receive_offer =
  ro_isLoading :: bool
  ro_description :: string
  ro_offer :: "string option"

definition offer_handleSubmit :: "server \<Rightarrow> (receive_offer, unit) act" where
  "offer_handleSubmit srv =
     andThen (getS id) (\<lambda>s.
       finally_do
         (tryCatch
           (andDo (setS (\<lambda>u. u\<lparr>ro_isLoading := True\<rparr>))
           (andThen (api srv ''POST'' ''/api/offers'' (Some (JObj [(''description'', JStr (ro_description s))])))
             (\<lambda>res.
               (let offer = (case res of Some (JStr t) \<Rightarrow> Some t | _ \<Rightarrow> None)
                in whenD (truthy_str offer)
                     (andDo (setS (\<lambda>u. u\<lparr>ro_offer := offer\<rparr>)) (toast ''Successfully created BOLT-12 offer''))))))
           (\<lambda>e. emit (EToastError ''Failed to create offer'' (Some (error_text e)))))
         (setS (\<lambda>u. u\<lparr>ro_isLoading := False\<rparr>)))"

definition new_offer :: "receive_offer \<Rightarrow> receive_offer" where
  "new_offer s = s\<lparr>ro_description := [], ro_offer := None\<rparr>"

section \<open>Probing for a just-in-time channel\<close>

definition PROBE_TIMEOUT_MS :: int where "PROBE_TIMEOUT_MS = 5000"

definition probe_enabled :: "receive_data \<Rightarrow> bool" where
  "probe_enabled d = (truthy_str (lsps2Source d) \<and> rd_channels d \<noteq> None)"

definition isFirstChannel :: "receive_data \<Rightarrow> bool" where
  "isFirstChannel d = (probe_enabled d \<and> rd_channels d = Some [])"

datatype probe_state = ProbeLoading | ProbeOk | ProbeFailed
datatype probe_request = NoProbe | ProbeInFlight | ProbeAnswered bool

text \<open>
  The state with its two refs, and the run of the effect that is not cancelled yet: when its timer is
  due, and whether it listens to the request. The answer to a request of a run that was left only
  settles the promise in the ref.
\<close>

record jit_probe =
  jp_isJitEnabled :: bool
  jp_minPaymentSizeMsat :: "int option"
  jp_probeState :: probe_state
  jp_deadline :: "int option"
  jp_request :: probe_request
  jp_timer :: "int option"
  jp_listening :: bool

definition init_jit_probe :: jit_probe where
  "init_jit_probe = \<lparr>jp_isJitEnabled = False, jp_minPaymentSizeMsat = None, jp_probeState = ProbeLoading, jp_deadline = None,
     jp_request = NoProbe, jp_timer = None, jp_listening = False\<rparr>"

definition probe_cleanup :: "jit_probe \<Rightarrow> jit_probe" where
  "probe_cleanup s = s\<lparr>jp_timer := None, jp_listening := False\<rparr>"

definition probe_json :: "int \<Rightarrow> json" where
  "probe_json amountMsat = JObj [(''amountMsat'', JNum amountMsat), (''description'', JStr [])]"

text \<open>What a listening run does when the request is answered.\<close>

definition probe_settled :: "bool \<Rightarrow> jit_probe \<Rightarrow> jit_probe" where
  "probe_settled ok s = s\<lparr>jp_timer := None, jp_probeState := (if ok then ProbeOk else ProbeFailed)\<rparr>"

definition probe_listen :: "jit_probe \<Rightarrow> jit_probe" where
  "probe_listen s =
     (let s1 = s\<lparr>jp_listening := True\<rparr>
      in case jp_request s1 of ProbeAnswered ok \<Rightarrow> probe_settled ok s1 | _ \<Rightarrow> s1)"

definition probe_effect :: "int \<Rightarrow> (jit_probe, unit) act" where
  "probe_effect now =
     andThen (getS id) (\<lambda>s.
       if \<not> jp_isJitEnabled s then setS (\<lambda>u. u\<lparr>jp_deadline := None, jp_request := NoProbe\<rparr>)
       else
         (let deadline = nullish (jp_deadline s) (now + PROBE_TIMEOUT_MS)
          in andDo (setS (\<lambda>u. u\<lparr>jp_deadline := Some deadline\<rparr>))
               (if deadline - now \<le> 0 then setS (\<lambda>u. u\<lparr>jp_probeState := ProbeFailed\<rparr>)
                else
                  andDo (setS (\<lambda>u. u\<lparr>jp_timer := Some deadline\<rparr>))
                    (whenD (truthy_int (jp_minPaymentSizeMsat s))
                      (andDo
                        (whenD (jp_request s = NoProbe)
                          (andDo (emit (EFetch ''POST'' ''/api/invoices'' (Some (probe_json (the (jp_minPaymentSizeMsat s))))))
                                 (setS (\<lambda>u. u\<lparr>jp_request := ProbeInFlight\<rparr>))))
                        (setS probe_listen))))))"

datatype probe_event = ProbeData int bool "int option" | ProbeRemount int | ProbeTimer | ProbeAnswer bool

definition probe_step :: "jit_probe ui \<Rightarrow> probe_event \<Rightarrow> jit_probe ui" where
  "probe_step w e =
     (let s = ui_st w
      in case e of
           ProbeData now isJitEnabled minPaymentSizeMsat \<Rightarrow>
             if isJitEnabled = jp_isJitEnabled s \<and> minPaymentSizeMsat = jp_minPaymentSizeMsat s then w
             else snd (probe_effect now
                    (w\<lparr>ui_st := (probe_cleanup s)\<lparr>jp_isJitEnabled := isJitEnabled,
                                                    jp_minPaymentSizeMsat := minPaymentSizeMsat\<rparr>\<rparr>))
         | ProbeRemount now \<Rightarrow> snd (probe_effect now (w\<lparr>ui_st := probe_cleanup s\<rparr>))
         | ProbeTimer \<Rightarrow>
             if jp_timer s = None then w else w\<lparr>ui_st := s\<lparr>jp_timer := None, jp_probeState := ProbeFailed\<rparr>\<rparr>
         | ProbeAnswer ok \<Rightarrow>
             if jp_request s \<noteq> ProbeInFlight then w
             else (let s1 = s\<lparr>jp_request := ProbeAnswered ok\<rparr>
                   in w\<lparr>ui_st := (if jp_listening s then probe_settled ok s1 else s1)\<rparr>))"

datatype probe_alert = NoAlert | CannotReceiveYet | ReceiveUpTo int | FirstPaymentOpensChannel "int option"

definition probe_alert :: "receive_data \<Rightarrow> probe_state \<Rightarrow> probe_alert" where
  "probe_alert d state =
     (if \<not> probe_enabled d \<or> state = ProbeLoading then NoAlert
      else if state = ProbeFailed then
        (if isFirstChannel d then CannotReceiveYet
         else (case rd_balances d of None \<Rightarrow> NoAlert
               | Some b \<Rightarrow> ReceiveUpTo (lb_totalReceivableMsat (bal_lightning b))))
      else if \<not> isFirstChannel d then NoAlert
      else FirstPaymentOpensChannel
             (let m = Option.bind (rd_info d) info_jitChannelsMinPaymentSizeMsat in if truthy_int m then m else None))"

section \<open>The probe runs once and in time\<close>

text \<open>How often, and when last, the page entered the state in which it probes.\<close>

definition entry_step :: "bool \<times> nat \<times> int \<Rightarrow> probe_event \<Rightarrow> bool \<times> nat \<times> int" where
  "entry_step x e =
     (case (x, e) of
        ((jit, n, t), ProbeData now j m) \<Rightarrow> (j, if j \<and> \<not> jit then Suc n else n, if j \<and> \<not> jit then now else t)
      | _ \<Rightarrow> x)"

definition probe_entries :: "probe_event list \<Rightarrow> bool \<times> nat \<times> int" where
  "probe_entries evs = foldl entry_step (False, 0, 0) evs"

definition probe_ok :: "bool \<times> nat \<times> int \<Rightarrow> jit_probe ui \<Rightarrow> bool" where
  "probe_ok x w =
     (let s = ui_st w; (jit, n, t) = x
      in jp_isJitEnabled s = jit \<and>
         (if jit then jp_deadline s = Some (t + PROBE_TIMEOUT_MS) \<and> (jp_probeState s = ProbeLoading \<longrightarrow> jp_timer s = jp_deadline s)
          else jp_deadline s = None \<and> jp_request s = NoProbe) \<and>
         posts_to ''/api/invoices'' (ui_log w) + of_bool (jit \<and> jp_request s = NoProbe) \<le> n)"

lemma probe_effect_run:
  "snd (probe_effect now w) =
     (let s = ui_st w; deadline = nullish (jp_deadline s) (now + PROBE_TIMEOUT_MS)
      in if \<not> jp_isJitEnabled s then w\<lparr>ui_st := s\<lparr>jp_deadline := None, jp_request := NoProbe\<rparr>\<rparr>
         else if deadline \<le> now then w\<lparr>ui_st := s\<lparr>jp_deadline := Some deadline, jp_probeState := ProbeFailed\<rparr>\<rparr>
         else if \<not> truthy_int (jp_minPaymentSizeMsat s)
         then w\<lparr>ui_st := s\<lparr>jp_deadline := Some deadline, jp_timer := Some deadline\<rparr>\<rparr>
         else if jp_request s = NoProbe
         then w\<lparr>ui_st := s\<lparr>jp_deadline := Some deadline, jp_timer := Some deadline, jp_request := ProbeInFlight, jp_listening := True\<rparr>,
                ui_log := ui_log w @ [EFetch ''POST'' ''/api/invoices'' (Some (probe_json (the (jp_minPaymentSizeMsat s))))]\<rparr>
         else w\<lparr>ui_st := probe_listen (s\<lparr>jp_deadline := Some deadline, jp_timer := Some deadline\<rparr>)\<rparr>)"
  unfolding probe_effect_def getS_then
  by (cases "jp_request (ui_st w)")
     (simp_all add: Let_def andDo_def andThen_def setS_def emit_def whenD_def ret_def probe_listen_def)

lemma probe_effect_ok:
  assumes "jp_isJitEnabled (ui_st w) = jit"
    and "jit \<Longrightarrow> nullish (jp_deadline (ui_st w)) (now + PROBE_TIMEOUT_MS) = t + PROBE_TIMEOUT_MS"
    and "posts_to ''/api/invoices'' (ui_log w) + of_bool (jit \<and> jp_request (ui_st w) = NoProbe) \<le> n"
  shows "probe_ok (jit, n, t) (snd (probe_effect now w))"
  using assms
  by (cases "jp_request (ui_st w)")
     (auto simp: probe_ok_def probe_effect_run Let_def probe_listen_def probe_settled_def)

lemma probe_step_ok:
  assumes "probe_ok x w"
  shows "probe_ok (entry_step x e) (probe_step w e)"
proof -
  obtain jit n t where x: "x = (jit, n, t)" by (cases x)
  have w: "jp_isJitEnabled (ui_st w) = jit"
      "jit \<Longrightarrow> jp_deadline (ui_st w) = Some (t + PROBE_TIMEOUT_MS)"
      "\<not> jit \<Longrightarrow> jp_deadline (ui_st w) = None \<and> jp_request (ui_st w) = NoProbe"
      "posts_to ''/api/invoices'' (ui_log w) + of_bool (jit \<and> jp_request (ui_st w) = NoProbe) \<le> n"
    using assms x by (auto simp: probe_ok_def Let_def)
  show ?thesis
  proof (cases e)
    case (ProbeData now j m)
    show ?thesis
    proof (cases "j = jit \<and> m = jp_minPaymentSizeMsat (ui_st w)")
      case True
      then show ?thesis using ProbeData assms x w(1) by (auto simp: probe_step_def Let_def entry_step_def)
    next
      case False
      have "probe_ok (entry_step x e) (snd (probe_effect now
          (w\<lparr>ui_st := (probe_cleanup (ui_st w))\<lparr>jp_isJitEnabled := j, jp_minPaymentSizeMsat := m\<rparr>\<rparr>)))"
        using ProbeData x w unfolding entry_step_def
        by (cases j; cases jit) (simp_all, (intro probe_effect_ok; simp add: probe_cleanup_def nullish_def)+)
      then show ?thesis using False ProbeData w(1) by (auto simp: probe_step_def Let_def)
    qed
  next
    case (ProbeRemount now)
    have "probe_ok (jit, n, t) (snd (probe_effect now (w\<lparr>ui_st := probe_cleanup (ui_st w)\<rparr>)))"
      using w by (intro probe_effect_ok) (simp_all add: probe_cleanup_def nullish_def)
    then show ?thesis using ProbeRemount x by (simp add: probe_step_def Let_def entry_step_def)
  next
    case ProbeTimer
    then show ?thesis using assms x by (auto simp: probe_step_def Let_def entry_step_def probe_ok_def split: if_splits)
  next
    case (ProbeAnswer ok)
    then show ?thesis
      using assms x by (auto simp: probe_step_def Let_def entry_step_def probe_ok_def probe_settled_def split: if_splits)
  qed
qed

definition probe_page :: "probe_event list \<Rightarrow> jit_probe ui" where
  "probe_page evs = foldl probe_step \<lparr>ui_st = init_jit_probe, ui_log = []\<rparr> evs"

interpretation probing: invariant_machine "\<lambda>(x, w) e. (entry_step x e, probe_step w e)" "\<lambda>(x, w). probe_ok x w"
  by unfold_locales (auto intro: probe_step_ok)

lemma probe_page_ok: "probe_ok (probe_entries evs) (probe_page evs)"
proof -
  have "foldl (\<lambda>(x, w) e. (entry_step x e, probe_step w e)) (x, w) evs = (foldl entry_step x evs, foldl probe_step w evs)" for x w
    by (induction evs arbitrary: x w) simp_all
  moreover have "probe_ok (False, 0, 0) \<lparr>ui_st = init_jit_probe, ui_log = []\<rparr>"
    by (simp add: probe_ok_def init_jit_probe_def)
  ultimately show ?thesis
    using probing.run_inv [of "((False, 0, 0), \<lparr>ui_st = init_jit_probe, ui_log = []\<rparr>)" evs]
    by (simp add: probe_entries_def probe_page_def)
qed

text \<open>The probe runs once and in time. Whatever the polls, remounts and answers, the page has requested at
  most one probe invoice for each time it began to probe; and while it shows nothing because it still
  waits, its timer is armed for five seconds after it began, and ends the wait.\<close>

lemma probe_once_and_in_time:
  "let w = probe_page evs; s = ui_st w; (probing, times, began) = probe_entries evs
   in probing = jp_isJitEnabled s \<and> posts_to ''/api/invoices'' (ui_log w) \<le> times \<and>
      (if probing \<and> jp_probeState s = ProbeLoading
       then jp_timer s = Some (began + PROBE_TIMEOUT_MS) \<and> jp_probeState (ui_st (probe_step w ProbeTimer)) = ProbeFailed
       else True)"
  using probe_page_ok [of evs]
  by (cases "probe_entries evs") (auto simp: probe_ok_def Let_def probe_step_def)

text \<open>A probe that succeeded is forgotten: a later change of the minimum payment reports a failure.\<close>

lemma probe_forgotten:
  assumes "jp_isJitEnabled (ui_st w)" and "jp_probeState (ui_st w) = ProbeOk" and "jp_deadline (ui_st w) = Some d"
    and "d \<le> now" and "m \<noteq> jp_minPaymentSizeMsat (ui_st w)"
  shows "jp_probeState (ui_st (probe_step w (ProbeData now True m))) = ProbeFailed"
  using assms by (simp add: probe_step_def Let_def probe_effect_run probe_cleanup_def nullish_def)

section \<open>The amount of an invoice\<close>

lemma whole_text_Number: "list_all is_digit t \<Longrightarrow> js_Number t = Fin (of_nat (digits_val t))"
proof (cases "t = []")
  case False
  assume d: "list_all is_digit t"
  have sp: "span_digits t = (t, [])"
    using d by (simp add: span_digits_def takeWhile_eq_all_conv dropWhile_eq_Nil_conv list_all_iff)
  show ?thesis
  proof (rule js_Number_decimal_text)
    show "list_all (\<lambda>c. is_digit c \<or> c = CHR ''.'') t" using d by (simp add: list_all_iff)
    show "is_digit (hd t)" "is_digit (last t)" using d False by (simp_all add: list_all_iff)
    show "scan_decimal t = Some (of_nat (digits_val t), [])" using False by (simp add: scan_decimal_def sp)
  qed (rule False)
qed (simp add: js_Number_def trim_def trim_start_def)

lemma whole_text_amount:
  assumes "list_all is_digit t"
  shows "nullish (js_parseInt t) 0 = sats_of (getNumericValue t)"
proof (cases "t = []")
  case True
  have "js_parseInt [] = None" by code_simp
  then show ?thesis using True by (simp add: nullish_def)
next
  case False
  then show ?thesis
    using assms sats_of_simps(2) [of "int (digits_val t)"]
    by (simp add: js_parseInt_digits nullish_def getNumericValue_def whole_text_Number fin_or_def)
qed

text \<open>What is typed is a row of digits or, with a point, an amount in BTC.\<close>

definition plain_typing :: "currency_env \<times> field_event \<Rightarrow> bool" where
  "plain_typing ev =
     (case snd ev of FieldType t \<Rightarrow> list_all is_digit (trim t) \<or> includes_str ''.'' (trim t) | _ \<Rightarrow> True)"

lemma reported_digits: "list_all is_digit (report_btc t)" "list_all is_digit (report_fiat r t)"
  using report_shape(1) [of t] report_shape(2) [of r t] by auto

lemma field_step_digits:
  assumes "list_all is_digit (cf_valueSat (ui_st w))" and "plain_typing ev"
  shows "list_all is_digit (cf_valueSat (ui_st (field_step w ev)))"
proof -
  obtain env e where ev: "ev = (env, e)" by (cases ev)
  show ?thesis
  proof (cases e)
    case (FieldType t)
    have "cf_denomination (ui_st w) \<noteq> DenomBtc \<Longrightarrow> cf_denomination (ui_st w) = DenomSats"
      by (cases "cf_denomination (ui_st w)") simp_all
    then show ?thesis
      using assms FieldType ev reported_digits(1) [of "trim t"] reported_digits(2) [of _ "trim t"]
      by (auto simp: field_step_def handleChangeMode_def effect_simps Let_def plain_typing_def)
  qed (use assms ev in \<open>simp_all add: field_step_def\<close>)
qed

lemma field_run_digits:
  "list_all plain_typing evs \<Longrightarrow> list_all is_digit (cf_valueSat (ui_st w)) \<Longrightarrow>
   list_all is_digit (cf_valueSat (ui_st (foldl field_step w evs)))"
  by (induction evs arbitrary: w) (simp_all add: field_step_digits)

lemma invoice_handleSubmit_log:
  "\<exists>l. ui_log (snd (invoice_handleSubmit srv fmt d w)) =
     ui_log w @ EFetch ''POST'' ''/api/invoices'' (Some (create_invoice_json (ui_st w))) # l \<and> fetches l = []"
  unfolding invoice_handleSubmit_def getS_then
  by (auto simp: effect_defs split: sum.splits prod.splits option.splits)

lemma create_invoice_amount:
  "jget_int ''amountMsat'' (create_invoice_json s) = Some (nullish (js_parseInt (ri_amountSat s)) 0 * 1000)"
  by (cases "ri_toAppId s") (simp_all add: create_invoice_json_def jget_int_def jget_def opt_member_def)

text \<open>The text \<open>1e3\<close> in the field: 1000 satoshis are shown and 1 is asked for.\<close>

lemma exponent_asks_for_one:
  "getNumericValue ''1e3'' = 1000"
  "jget_int ''amountMsat'' (create_invoice_json (init_receive_invoice\<lparr>ri_amountSat := ''1e3''\<rparr>)) = Some 1000"
proof -
  have "js_Number ''1e3'' = Fin 1000" "js_parseInt ''1e3'' = Some 1" by code_simp+
  then show "getNumericValue ''1e3'' = 1000"
    and "jget_int ''amountMsat'' (create_invoice_json (init_receive_invoice\<lparr>ri_amountSat := ''1e3''\<rparr>)) = Some 1000"
    by (simp_all add: create_invoice_amount init_receive_invoice_def getNumericValue_def fin_or_def nullish_def)
qed

text \<open>C21: An invoice asks for the amount that is shown. After any use of the amount field in which what is
  typed is digits or has a decimal point, submitting sends one request, whose amount is a thousand
  times the satoshis the field stands for; when the field shows BTC they are the shown text's.
  (A text in scientific notation is read differently: \<open>1e3\<close> is shown as 1000 satoshis and asks for 1.)\<close>

theorem invoice_asks_what_is_shown:
  assumes "list_all plain_typing evs"
  shows "let field = ui_st (foldl field_step (field_start []) evs);
             w = \<lparr>ui_st = s\<lparr>ri_amountSat := cf_valueSat field\<rparr>, ui_log = l\<rparr>;
             sats = (if cf_mode field = BitcoinMode \<and> cf_denomination field = DenomBtc then btc_sats (inputValue field)
                     else sats_of (getNumericValue (cf_valueSat field)))
         in \<exists>body. fetches (ui_log (snd (invoice_handleSubmit srv fmt d w))) =
              fetches l @ [EFetch ''POST'' ''/api/invoices'' (Some body)] \<and>
              jget_int ''amountMsat'' body = Some (sats * 1000)"
proof -
  let ?f = "ui_st (foldl field_step (field_start []) evs)"
  let ?w = "\<lparr>ui_st = s\<lparr>ri_amountSat := cf_valueSat ?f\<rparr>, ui_log = l\<rparr>"
  have "list_all is_digit (cf_valueSat ?f)"
    by (rule field_run_digits [OF assms]) (simp add: field_start_def init_field_def)
  then have n: "nullish (js_parseInt (cf_valueSat ?f)) 0 = sats_of (getNumericValue (cf_valueSat ?f))"
    by (rule whole_text_amount)
  have "field_ok (ui_st (field_start []))" by (simp add: field_start_def)
  then have "field_ok ?f" by (rule field.run_inv)
  then have b: "cf_mode ?f = BitcoinMode \<and> cf_denomination ?f = DenomBtc \<Longrightarrow>
      btc_sats (inputValue ?f) = sats_of (getNumericValue (cf_valueSat ?f))"
    by (simp add: field_ok_def inputValue_def)
  have "jget_int ''amountMsat'' (create_invoice_json (ui_st ?w)) = Some (sats_of (getNumericValue (cf_valueSat ?f)) * 1000)"
    using n by (simp add: create_invoice_amount)
  moreover have "fetches (ui_log (snd (invoice_handleSubmit srv fmt d ?w))) =
      fetches l @ [EFetch ''POST'' ''/api/invoices'' (Some (create_invoice_json (ui_st ?w)))]"
    using invoice_handleSubmit_log [of srv fmt d ?w] by auto
  ultimately show ?thesis
    using b by (auto simp: Let_def)
qed

theorem invoice_asks_what_is_shown_witness:
  "\<exists>body. fetches (ui_log (snd (invoice_handleSubmit no_answer show_int
            \<lparr>rd_info = None, rd_me = None, rd_balances = None, rd_channels = None\<rparr>
            \<lparr>ui_st = init_receive_invoice\<lparr>ri_amountSat := ''21''\<rparr>, ui_log = []\<rparr>))) =
         [EFetch ''POST'' ''/api/invoices'' (Some body)] \<and> jget_int ''amountMsat'' body = Some 21000"
proof -
  let ?evs = "[(sample_env, FieldType ''21'')]"
  let ?f = "ui_st (foldl field_step (field_start []) ?evs)"
  have t: "trim ''21'' = ''21''" "\<not> includes_str ''.'' ''21''" "list_all is_digit ''21''" "js_Number ''21'' = Fin 21"
    by code_simp+
  have f: "cf_denomination ?f = DenomSats" "cf_valueSat ?f = ''21''"
    using t by (simp_all add: field_step_def field_start_def init_field_def sample_env_def handleChangeMode_def
        effect_simps field_effects_def Let_def)
  have v: "sats_of (getNumericValue ''21'') = 21"
    using t sats_of_simps(2) [of 21] by (simp add: getNumericValue_def fin_or_def)
  have "list_all plain_typing ?evs" using t by (simp add: plain_typing_def)
  note invoice_asks_what_is_shown [OF this, of init_receive_invoice "[]" no_answer show_int
      "\<lparr>rd_info = None, rd_me = None, rd_balances = None, rd_channels = None\<rparr>"]
  then show ?thesis unfolding Let_def f v by simp
qed

end
