(* ===== verification/Routes.thy ===== *)
theory Routes imports RequestLayer
begin

text \<open>
  The route table (\<open>routes.tsx\<close>) and the components that redirect: \<open>components/redirects/\<close>, and the
  effects of \<open>screens/Unlock.tsx\<close>, \<open>screens/Welcome.tsx\<close> and \<open>screens/Intro.tsx\<close>. Matching an address
  against the table is the router library's work: the router is an argument, a function from an address
  (path and query) to a page of the table, of which the theorems use only that a literal path leads to
  its page.
\<close>

section \<open>The table\<close>

datatype route =
  Route (rt_path: "string option") (rt_index: bool) (rt_element: "string list")
    (rt_crumb: "string option") (rt_children: "route list")

abbreviation ix :: "string \<Rightarrow> route" where "ix e \<equiv> Route None True [e] None []"
abbreviation pg :: "string \<Rightarrow> string \<Rightarrow> route" where "pg p e \<equiv> Route (Some p) False [e] None []"

definition home_routes :: route where
  "home_routes =
     Route (Some ''home'') False [''DefaultRedirect''] (Some ''Dashboard'')
       [ix ''Home'']"

definition wallet_routes :: route where
  "wallet_routes =
     Route (Some ''wallet'') False [''DefaultRedirect''] (Some ''Wallet'')
       [Route None False [''WalletLayout''] None
          [ix ''Lightning'',
           pg ''onchain'' ''Onchain''],
        Route (Some ''swap'') False [] (Some ''Swap'')
          [ix ''Swap'',
           pg ''out/status/:swapId'' ''SwapOutStatus'',
           pg ''in/status/:swapId'' ''SwapInStatus'',
           pg ''auto'' ''AutoSwap''],
        Route (Some ''receive'') False [] (Some ''Receive'')
          [ix ''Receive'',
           Route (Some ''onchain'') False [''ReceiveOnchain''] (Some ''Receive On-chain'') [],
           Route (Some ''invoice'') False [''ReceiveInvoice''] (Some ''Invoice'') [],
           Route (Some ''offer'') False [''ReceiveOffer''] (Some ''BOLT-12 Offer'') []],
        Route (Some ''send'') False [] (Some ''Send'')
          [ix ''Send'',
           pg ''onchain'' ''OnchainSend'',
           pg ''lnurl-pay'' ''LnurlPay'',
           pg ''0-amount'' ''ZeroAmount'',
           pg ''confirm-payment'' ''ConfirmPayment'',
           pg ''onchain-success'' ''OnchainSuccess'',
           pg ''success'' ''PaymentSuccess''],
        Route (Some ''sign-message'') False [''SignMessage''] (Some ''Sign Message'') [],
        Route (Some ''node-alias'') False [''NodeAlias''] (Some ''Node Alias'') [],
        Route (Some ''withdraw'') False [''WithdrawOnchainFunds''] (Some ''Withdraw On-Chain Balance'') []]"

definition settings_routes :: route where
  "settings_routes =
     Route (Some ''settings'') False [''DefaultRedirect''] (Some ''Settings'')
       [Route (Some '''') False [''SettingsLayout''] None
          [ix ''Settings'',
           Route (Some ''about'') False [''About''] (Some ''About'') [],
           Route (Some ''auto-unlock'') False [''AutoUnlock''] (Some ''Auto Unlock'') [],
           Route (Some ''node'') False [''NodeSettings''] (Some ''Node'') [],
           Route (Some ''change-unlock-password'') False [''ChangeUnlockPassword''] (Some ''Unlock Password'') [],
           Route (Some ''backup'') False [''Backup''] (Some ''Backup'') [],
           pg ''node-migrate'' ''MigrateNode'',
           pg ''alby-account'' ''AlbyAccount'',
           pg ''developer'' ''DeveloperSettings'',
           pg ''debug-tools'' ''DebugTools'']]"

definition apps_routes :: route where
  "apps_routes =
     Route (Some ''apps'') False [''DefaultRedirect''] (Some ''Connections'')
       [ix ''Connections'',
        pg '':id'' ''AppDetails'',
        Route (Some ''new'') False [''NewApp''] (Some ''New App'') [],
        pg ''cleanup'' ''AppsCleanup'']"

definition sub_wallets_routes :: route where
  "sub_wallets_routes =
     Route (Some ''sub-wallets'') False [''DefaultRedirect''] (Some ''Sub-wallets'')
       [ix ''SubwalletList'',
        pg ''new'' ''NewSubwallet'',
        pg ''created'' ''SubwalletCreated'']"

definition internal_apps_routes :: route where
  "internal_apps_routes =
     Route (Some ''internal-apps'') False [''DefaultRedirect''] (Some ''Connections'')
       [pg ''buzzpay'' ''BuzzPay'',
        pg ''simpleboost'' ''SimpleBoost'',
        pg ''lightning-messageboard'' ''LightningMessageboard'',
        pg ''zapplanner'' ''ZapPlanner'',
        pg ''alby-cli-skill'' ''AlbyCliSkill'',
        pg ''tictactoe'' ''Tictactoe'']"

definition appstore_routes :: route where
  "appstore_routes =
     Route (Some ''appstore'') False [''DefaultRedirect''] (Some ''App Store'')
       [pg '':appStoreId'' ''AppStoreDetail'']"

definition channels_routes :: route where
  "channels_routes =
     Route (Some ''channels'') False [''DefaultRedirect''] (Some ''Node'')
       [ix ''Channels'',
        Route (Some ''first'') False [] (Some ''Your First Channel'')
          [ix ''FirstChannel'',
           pg ''opening'' ''OpeningFirstChannel'',
           pg ''opened'' ''OpenedFirstChannel''],
        Route (Some ''auto'') False [] (Some ''New Channel'')
          [ix ''AutoChannel'',
           pg ''opening'' ''OpeningAutoChannel'',
           pg ''opened'' ''OpenedAutoChannel''],
        Route (Some ''outgoing'') False [''IncreaseOutgoingCapacity''] (Some ''Open Channel with On-Chain'') [],
        Route (Some ''incoming'') False [''IncreaseIncomingCapacity''] (Some ''Open Channel with Lightning'') [],
        Route (Some ''order'') False [''CurrentChannelOrder''] (Some ''Current Order'') [],
        Route (Some ''onchain/buy-bitcoin'') False [''BuyBitcoin''] (Some ''Buy Bitcoin'') [],
        Route (Some ''onchain/deposit-bitcoin'') False [''DepositBitcoin''] (Some ''Deposit Bitcoin'') []]"

definition peers_routes :: route where
  "peers_routes =
     Route (Some ''peers'') False [''DefaultRedirect''] (Some ''Peers'')
       [ix ''Peers'',
        Route (Some ''new'') False [''ConnectPeer''] (Some ''Connect Peer'') []]"

definition cards_routes :: route where
  "cards_routes =
     Route (Some ''cards'') False [''DefaultRedirect''] (Some ''Cards'')
       [ix ''Cards'']"

definition setup_routes :: route where
  "setup_routes =
     Route (Some ''setup'') False [''SetupRedirect''] None
       [Route None False [''Navigate''] None [],
        pg ''alby'' ''ConnectAlbyAccount'',
        pg ''auth'' ''AlbyAuthRedirect'',
        pg ''password'' ''SetupPassword'',
        pg ''security'' ''SetupSecurity'',
        Route (Some ''node'') False [] None
          [ix ''SetupNode'',
           pg ''cashu'' ''CashuForm'',
           pg ''phoenix'' ''PhoenixdForm'',
           pg ''lnd'' ''LNDForm'',
           pg ''ldk'' ''LDKForm'',
           pg ''cln'' ''CLNForm'',
           pg ''bark'' ''BarkForm'',
           pg ''preset'' ''PresetNodeForm''],
        pg ''advanced'' ''SetupAdvanced'',
        pg ''import-mnemonic'' ''ImportMnemonic'',
        pg ''node-restore'' ''RestoreNode'',
        pg ''finish'' ''SetupFinish'']"

definition app_routes :: route where
  "app_routes =
     Route (Some ''/'') False [''AppLayout''] (Some ''Home'')
       [ix ''HomeRedirect'',
        home_routes,
        wallet_routes,
        settings_routes,
        apps_routes,
        sub_wallets_routes,
        internal_apps_routes,
        appstore_routes,
        channels_routes,
        peers_routes,
        pg ''support-alby'' ''SupportAlby'',
        Route (Some ''earn'') False [''AlbyEarn''] (Some ''Earn'') [],
        Route (Some ''ai'') False [''AI''] (Some ''AI & Agents'') [],
        cards_routes]"

definition full_screen_routes :: route where
  "full_screen_routes =
     Route None False [''TwoColumnFullScreenLayout''] None
       [Route (Some ''start'') False [''StartRedirect'', ''Start''] None [],
        pg ''alby/account'' ''ConnectAlbyAccount'',
        pg ''alby/auth'' ''AlbyAuthRedirect'',
        pg ''unlock'' ''Unlock'',
        pg ''welcome'' ''Welcome'',
        setup_routes]"

definition routes :: "route list" where
  "routes =
     [app_routes, full_screen_routes,
      pg ''create-node-migration-file-success'' ''CreateNodeMigrationFileSuccess'',
      pg ''intro'' ''Intro'',
      pg ''/*'' ''NotFound'']"

section \<open>The pages of the table\<close>

text \<open>A page: its path, the elements that are rendered around and in it, and its breadcrumbs.\<close>

record page =
  pg_path :: string
  pg_elements :: "string list"
  pg_crumbs :: "string list"

definition join_path :: "string \<Rightarrow> string \<Rightarrow> string" where
  "join_path base p =
     (if p = [] \<or> p = ''/'' then base else if hd p = CHR ''/'' then base @ p else base @ ''/'' @ p)"

fun pages_under :: "page \<Rightarrow> route \<Rightarrow> page list" where
  "pages_under base (Route path ind element crumb children) =
     (let here = \<lparr>pg_path = join_path (pg_path base) (nullish path []),
                  pg_elements = pg_elements base @ element,
                  pg_crumbs = pg_crumbs base @ (case crumb of Some c \<Rightarrow> [c] | None \<Rightarrow> [])\<rparr>
      in if children \<noteq> [] then concat (map (pages_under here) children)
         else if path \<noteq> None \<or> ind
         then [here\<lparr>pg_path := (if pg_path here = [] then ''/'' else pg_path here)\<rparr>] else [])"

definition pages :: "route list \<Rightarrow> page list" where
  "pages rs = concat (map (pages_under \<lparr>pg_path = [], pg_elements = [], pg_crumbs = []\<rparr>) rs)"

definition is_literal :: "page \<Rightarrow> bool" where
  "is_literal p = list_all (\<lambda>c. c \<noteq> CHR '':'' \<and> c \<noteq> CHR ''*'') (pg_path p)"

definition guarded :: "page \<Rightarrow> bool" where
  "guarded p = (''DefaultRedirect'' \<in> set (pg_elements p))"

lemmas route_defs =
  home_routes_def wallet_routes_def settings_routes_def apps_routes_def sub_wallets_routes_def
  internal_apps_routes_def appstore_routes_def channels_routes_def peers_routes_def cards_routes_def
  setup_routes_def app_routes_def full_screen_routes_def routes_def

section \<open>Redirects\<close>

text \<open>Where the user is (path and query), what is stored, and which keys a timer is about to remove.\<close>

record nav =
  nav_at :: string
  nav_storage :: storage
  nav_timers :: "string list"

definition go :: "string \<Rightarrow> nav \<Rightarrow> nav" where
  "go a n = n\<lparr>nav_at := a\<rparr>"

definition account_ok :: "InfoResponse \<Rightarrow> bool" where
  "account_ok info = (info_albyAccountConnected info \<or> info_albyUserIdentifier info = [])"

definition may_enter :: "InfoResponse \<Rightarrow> bool" where
  "may_enter info = (info_running info \<and> info_unlocked info \<and> account_ok info)"

definition DefaultRedirect :: "InfoResponse \<Rightarrow> nav \<Rightarrow> nav option" where
  "DefaultRedirect info n =
     (if may_enter info then None
      else Some (n\<lparr>nav_at := ''/'',
                   nav_storage := storage_setItem (nav_storage n) (localStorageKeys K_returnTo) (nav_at n)\<rparr>))"

definition migration_page :: string where
  "migration_page = ''/create-node-migration-file-success''"

text \<open>The page for a hub in this state when no setup is being returned to.\<close>

definition home_page :: "InfoResponse \<Rightarrow> string option \<Rightarrow> string" where
  "home_page info returnTo =
     (if info_setupCompleted info \<and> info_running info then
        (if info_unlocked info then (if account_ok info then or_str returnTo ''/home'' else ''/alby/auth'') else ''/unlock'')
      else if info_setupCompleted info \<and> \<not> info_running info then ''/start''
      else if info_albyAccountConnected info then ''/welcome''
      else ''/intro'')"

definition HomeRedirect :: "InfoResponse \<Rightarrow> nav \<Rightarrow> nav option" where
  "HomeRedirect info n =
     (if info_nodeMigrationFileCreated info then Some (go migration_page n)
      else
        (let setupReturnTo = storage_getItem (nav_storage n) (localStorageKeys K_setupReturnTo);
             returnTo = storage_getItem (nav_storage n) (localStorageKeys K_returnTo)
         in if \<not> truthy_str setupReturnTo
            then Some (n\<lparr>nav_at := home_page info returnTo,
                         nav_timers := nav_timers n @ (if info_setupCompleted info \<and> may_enter info
                                                       then [localStorageKeys K_returnTo] else [])\<rparr>)
            else Some (n\<lparr>nav_at := the setupReturnTo,
                         nav_timers := nav_timers n @ [localStorageKeys K_setupReturnTo]\<rparr>)))"

definition SetupRedirect :: "InfoResponse \<Rightarrow> nav \<Rightarrow> nav option" where
  "SetupRedirect info n = (if info_setupCompleted info \<and> info_running info then Some (go ''/'' n) else None)"

definition StartRedirect :: "InfoResponse \<Rightarrow> nav \<Rightarrow> nav option" where
  "StartRedirect info n =
     (if info_nodeMigrationFileCreated info then Some (go migration_page n)
      else if info_setupCompleted info \<and> \<not> info_running info
      then (if \<not> info_albyAccountConnected info \<and> info_albyUserIdentifier info \<noteq> [] then Some (go ''/alby/auth'' n) else None)
      else Some (go ''/'' n))"

definition unlock_effect :: "InfoResponse \<Rightarrow> nav \<Rightarrow> nav option" where
  "unlock_effect info n = (if info_running info then None else Some (go ''/'' n))"

definition welcome_effect :: "InfoResponse \<Rightarrow> nav \<Rightarrow> nav option" where
  "welcome_effect info n = (if info_setupCompleted info then Some (go ''/'' n) else None)"

definition redirect :: "InfoResponse \<Rightarrow> nav \<Rightarrow> string \<Rightarrow> nav option" where
  "redirect info n element =
     (if element = ''HomeRedirect'' then HomeRedirect info n
      else if element = ''DefaultRedirect'' then DefaultRedirect info n
      else if element = ''SetupRedirect'' then SetupRedirect info n
      else if element = ''StartRedirect'' then StartRedirect info n
      else if element = ''Unlock'' then unlock_effect info n
      else if element = ''Welcome'' \<or> element = ''Intro'' then welcome_effect info n
      else None)"

type_synonym router = "string \<Rightarrow> page option"

text \<open>One redirect, \<open>None\<close> when the page stays. A page has at most one redirecting element.\<close>

definition hop :: "router \<Rightarrow> InfoResponse \<Rightarrow> nav \<Rightarrow> nav option" where
  "hop router info n =
     (case router (nav_at n) of
        None \<Rightarrow> None
      | Some p \<Rightarrow>
          (case List.map_filter (redirect info n) (pg_elements p) of [] \<Rightarrow> None | m # _ \<Rightarrow> Some m))"

fun settle :: "nat \<Rightarrow> router \<Rightarrow> InfoResponse \<Rightarrow> nav \<Rightarrow> nav" where
  "settle 0 router info n = n"
| "settle (Suc k) router info n = (case hop router info n of None \<Rightarrow> n | Some m \<Rightarrow> settle k router info m)"

text \<open>The timers of the redirects fire.\<close>

definition fire :: "nav \<Rightarrow> nav" where
  "fire n = n\<lparr>nav_storage := foldl storage_removeItem (nav_storage n) (nav_timers n), nav_timers := []\<rparr>"

section \<open>Where the redirects lead\<close>

text \<open>What is used of the router: it leads to pages of the table, a literal path to its page, with any query.\<close>

definition routes_to :: "router \<Rightarrow> bool" where
  "routes_to router =
     ((\<forall>a p. router a = Some p \<longrightarrow> p \<in> set (pages routes)) \<and>
      (\<forall>p \<in> set (pages routes). is_literal p \<longrightarrow>
        router (pg_path p) = Some p \<and> (\<forall>q. router (pg_path p @ ''?'' @ q) = Some p)))"

text \<open>The specification of the entry: the page for a hub in this state.\<close>

definition entry_page :: "InfoResponse \<Rightarrow> string option \<Rightarrow> string" where
  "entry_page info returnTo =
     (if info_nodeMigrationFileCreated info then migration_page
      else if \<not> info_setupCompleted info then (if info_albyAccountConnected info then ''/welcome'' else ''/intro'')
      else if \<not> info_running info then (if account_ok info then ''/start'' else ''/alby/auth'')
      else if \<not> info_unlocked info then ''/unlock''
      else if \<not> account_ok info then ''/alby/auth''
      else or_str returnTo ''/home'')"

definition redirecting :: "string list" where
  "redirecting = [''HomeRedirect'', ''DefaultRedirect'', ''SetupRedirect'', ''StartRedirect'', ''Unlock'', ''Welcome'', ''Intro'']"

text \<open>The redirecting element of a page; the table gives no page two of them.\<close>

definition redirector :: "page \<Rightarrow> string option" where
  "redirector p = List.find (\<lambda>e. e \<in> set redirecting) (pg_elements p)"

lemma one_redirect_per_page:
  "p \<in> set (pages routes) \<Longrightarrow> length (filter (\<lambda>e. e \<in> set redirecting) (pg_elements p)) \<le> 1"
proof -
  have "list_all (\<lambda>p. length (filter (\<lambda>e. e \<in> set redirecting) (pg_elements p)) \<le> 1) (pages routes)"
    by code_simp
  then show "p \<in> set (pages routes) \<Longrightarrow> length (filter (\<lambda>e. e \<in> set redirecting) (pg_elements p)) \<le> 1"
    by (simp add: list_all_iff)
qed

lemma redirect_elsewhere: "e \<notin> set redirecting \<Longrightarrow> redirect info n e = None"
  by (simp add: redirect_def redirecting_def)

lemma first_redirect:
  assumes "length (filter (\<lambda>e. e \<in> set redirecting) es) \<le> 1"
  shows "(case List.map_filter (redirect info n) es of [] \<Rightarrow> None | m # _ \<Rightarrow> Some m) =
    Option.bind (List.find (\<lambda>e. e \<in> set redirecting) es) (redirect info n)"
  using assms
proof (induction es)
  case (Cons e es)
  show ?case
  proof (cases "e \<in> set redirecting")
    case True
    then have "filter (\<lambda>e. e \<in> set redirecting) es = []" using Cons.prems by simp
    then have "List.map_filter (redirect info n) es = []"
      by (auto simp: List.map_filter_def filter_empty_conv redirect_elsewhere)
    then show ?thesis using True by (auto simp: map_filter_simps split: option.splits)
  next
    case False
    then show ?thesis using Cons by (simp add: map_filter_simps redirect_elsewhere)
  qed
qed (simp add: map_filter_simps)

lemma hop_at:
  assumes "routes_to router" and "router (nav_at n) = Some p"
  shows "hop router info n = Option.bind (redirector p) (redirect info n)"
proof -
  have "p \<in> set (pages routes)" using assms by (auto simp: routes_to_def)
  from first_redirect [OF one_redirect_per_page [OF this]] assms(2) show ?thesis by (simp add: hop_def redirector_def)
qed

lemma redirector_cases:
  assumes "redirector p = Some e"
  shows "e = ''HomeRedirect'' \<or> e = ''DefaultRedirect'' \<or> e = ''SetupRedirect'' \<or> e = ''StartRedirect'' \<or>
    e = ''Unlock'' \<or> e = ''Welcome'' \<or> e = ''Intro''"
  using find_Some_iff [OF assms[unfolded redirector_def]] by (auto simp: redirecting_def)

lemma guarded_redirector:
  assumes "guarded p" and "p \<in> set (pages routes)"
  shows "redirector p = Some ''DefaultRedirect''"
proof -
  have "list_all (\<lambda>p. guarded p \<longrightarrow> redirector p = Some ''DefaultRedirect'') (pages routes)" by code_simp
  then show ?thesis using assms by (simp add: list_all_iff)
qed

text \<open>The pages outside \<open>DefaultRedirect\<close>, each with what redirects it.\<close>

lemma unguarded_pages:
  "map (\<lambda>p. (pg_path p, redirector p)) (filter (\<lambda>p. \<not> guarded p) (pages routes)) =
     [(''/'', Some ''HomeRedirect''), (''/support-alby'', None), (''/earn'', None),
      (''/ai'', None), (''/start'', Some ''StartRedirect''), (''/alby/account'', None),
      (''/alby/auth'', None), (''/unlock'', Some ''Unlock''), (''/welcome'', Some ''Welcome''),
      (''/setup/alby'', Some ''SetupRedirect''), (''/setup/auth'', Some ''SetupRedirect''), (''/setup/password'', Some ''SetupRedirect''),
      (''/setup/security'', Some ''SetupRedirect''), (''/setup/node'', Some ''SetupRedirect''), (''/setup/node/cashu'', Some ''SetupRedirect''),
      (''/setup/node/phoenix'', Some ''SetupRedirect''), (''/setup/node/lnd'', Some ''SetupRedirect''), (''/setup/node/ldk'', Some ''SetupRedirect''),
      (''/setup/node/cln'', Some ''SetupRedirect''), (''/setup/node/bark'', Some ''SetupRedirect''), (''/setup/node/preset'', Some ''SetupRedirect''),
      (''/setup/advanced'', Some ''SetupRedirect''), (''/setup/import-mnemonic'', Some ''SetupRedirect''), (''/setup/node-restore'', Some ''SetupRedirect''),
      (''/setup/finish'', Some ''SetupRedirect''), (''/create-node-migration-file-success'', None), (''/intro'', Some ''Intro''),
      (''/*'', None)]"
  by code_simp

text \<open>The pages the redirects name, with what redirects them further.\<close>

definition named_pages :: "(string \<times> string option) list" where
  "named_pages = [(''/'', Some ''HomeRedirect''), (migration_page, None), (''/welcome'', Some ''Welcome''),
     (''/intro'', Some ''Intro''), (''/start'', Some ''StartRedirect''), (''/alby/auth'', None), (''/unlock'', Some ''Unlock''),
     (''/home'', Some ''DefaultRedirect'')]"

lemma named_page:
  assumes "routes_to router" and "(a, r) \<in> set named_pages"
  shows "\<exists>p \<in> set (pages routes). router a = Some p \<and> redirector p = r"
proof -
  have home: "list_ex (\<lambda>p. is_literal p \<and> pg_path p = ''/home'' \<and> redirector p = Some ''DefaultRedirect'') (pages routes)"
    by code_simp
  have "list_all is_literal (filter (\<lambda>p. \<not> guarded p \<and> last (pg_path p) \<noteq> CHR ''*'') (pages routes))"
    by code_simp
  moreover have "set named_pages \<subseteq> insert (''/home'', Some ''DefaultRedirect'')
      (set (map (\<lambda>p. (pg_path p, redirector p)) (filter (\<lambda>p. \<not> guarded p) (pages routes))))"
    unfolding unguarded_pages by (simp add: named_pages_def migration_page_def)
  moreover have "list_all (\<lambda>(a, r). last a \<noteq> CHR ''*'') named_pages"
    by (simp add: named_pages_def migration_page_def)
  ultimately have "\<exists>p \<in> set (pages routes). is_literal p \<and> pg_path p = a \<and> redirector p = r"
    using home assms(2) unfolding list_all_iff list_ex_iff by fastforce
  then show ?thesis using assms(1) unfolding routes_to_def by metis
qed

lemma hop_named:
  assumes "routes_to router" and "(nav_at n, r) \<in> set named_pages"
  shows "hop router info n = Option.bind r (redirect info n)"
  using named_page [OF assms] hop_at [OF assms(1)] by metis

text \<open>What is stored leads back into the guarded part.\<close>

definition returns_ok :: "router \<Rightarrow> storage \<Rightarrow> bool" where
  "returns_ok router st =
     (\<not> truthy_str (storage_getItem st (localStorageKeys K_setupReturnTo)) \<and>
      (case storage_getItem st (localStorageKeys K_returnTo) of
         Some (c # a) \<Rightarrow> (case router (c # a) of Some p \<Rightarrow> guarded p | None \<Rightarrow> False)
       | _ \<Rightarrow> True))"

abbreviation stored_return :: "nav \<Rightarrow> string option" where
  "stored_return n \<equiv> storage_getItem (nav_storage n) (localStorageKeys K_returnTo)"

lemma entry_rests:
  assumes "routes_to router" and "may_enter info \<Longrightarrow> returns_ok router (nav_storage m)"
    and "nav_at n = entry_page info (stored_return m)"
  shows "hop router info n = None"
proof (cases "info_nodeMigrationFileCreated info \<or> \<not> info_setupCompleted info \<or> \<not> may_enter info")
  case True
  then have "nav_at n \<in> {migration_page, ''/welcome'', ''/intro'', ''/start'', ''/alby/auth'', ''/unlock''}"
    using assms(3) by (auto simp: entry_page_def may_enter_def)
  then have "nav_at n \<in> fst ` set named_pages" by (auto simp: named_pages_def)
  then obtain r where r: "(nav_at n, r) \<in> set named_pages" by auto
  show ?thesis
    unfolding hop_named [OF assms(1) r]
    using r True assms(3)
    by (auto simp: named_pages_def redirect_def entry_page_def may_enter_def account_ok_def unlock_effect_def welcome_effect_def
        StartRedirect_def migration_page_def split: if_splits)
next
  case False
  then have at: "nav_at n = or_str (stored_return m) ''/home''"
    using assms(3) by (simp add: entry_page_def may_enter_def)
  obtain p where "router (nav_at n) = Some p" "redirector p = Some ''DefaultRedirect''"
  proof (cases "truthy_str (stored_return m)")
    case True
    then obtain c a where "stored_return m = Some (c # a)"
      by (auto simp: neq_Nil_conv truthy_str_def split: option.splits)
    then show ?thesis
      using that assms(1,2) False at guarded_redirector by (auto simp: returns_ok_def routes_to_def split: option.splits)
  next
    case no: False
    then have "nav_at n = ''/home''" using at by (auto simp: or_str_def truthy_str_def split: option.splits)
    then show ?thesis using that named_page [OF assms(1), of "''/home''"] by (auto simp: named_pages_def)
  qed
  then show ?thesis using hop_at [OF assms(1), of n p info] False
    by (simp add: redirect_def DefaultRedirect_def)
qed

lemma home_redirect_run:
  assumes "\<not> truthy_str (storage_getItem (nav_storage n) (localStorageKeys K_setupReturnTo))"
  shows "\<exists>m. HomeRedirect info n = Some m \<and> nav_storage m = nav_storage n \<and>
    nav_at m = (if info_nodeMigrationFileCreated info then migration_page else home_page info (stored_return n))"
  using assms by (cases "info_nodeMigrationFileCreated info") (simp_all add: HomeRedirect_def go_def Let_def)

lemma home_settles:
  assumes "routes_to router" and "router (nav_at n) = Some p" and "redirector p = Some ''HomeRedirect''"
    and "\<not> truthy_str (storage_getItem (nav_storage n) (localStorageKeys K_setupReturnTo))"
    and "may_enter info \<Longrightarrow> returns_ok router (nav_storage n)"
  shows "nav_at (settle 2 router info n) = entry_page info (stored_return n) \<and>
    nav_storage (settle 2 router info n) = nav_storage n"
proof -
  obtain m where m: "hop router info n = Some m" "nav_storage m = nav_storage n"
      "nav_at m = (if info_nodeMigrationFileCreated info then migration_page else home_page info (stored_return n))"
    using hop_at [OF assms(1,2), of info] assms(3) home_redirect_run [OF assms(4), of info] by (auto simp: redirect_def)
  show ?thesis
  proof (cases "nav_at m = entry_page info (stored_return n)")
    case True
    then have "hop router info m = None" using entry_rests [OF assms(1), of info n m] assms(5) by simp
    then show ?thesis using m True by (simp add: numeral_2_eq_2)
  next
    case False
    then have e: "nav_at m = ''/start'' \<and> \<not> info_nodeMigrationFileCreated info \<and> info_setupCompleted info \<and>
        \<not> info_running info \<and> \<not> account_ok info"
      using m(3) by (auto simp: entry_page_def home_page_def split: if_splits)
    then have "hop router info m = Some (go ''/alby/auth'' m)"
      using hop_named [OF assms(1), of m "Some ''StartRedirect''" info]
      by (auto simp: named_pages_def redirect_def StartRedirect_def account_ok_def)
    then show ?thesis using m(1,2) e by (simp add: numeral_2_eq_2 go_def entry_page_def)
  qed
qed

lemma other_redirect:
  assumes "redirect info n e = Some m" and "e \<noteq> ''HomeRedirect''"
  shows "storage_getItem (nav_storage m) (localStorageKeys K_setupReturnTo) =
      storage_getItem (nav_storage n) (localStorageKeys K_setupReturnTo) \<and>
    (may_enter info \<longrightarrow> nav_storage m = nav_storage n) \<and>
    (nav_at m = ''/'' \<or> nav_at m = entry_page info r \<and> nav_storage m = nav_storage n)"
proof -
  have "DefaultRedirect info n = Some m \<or> SetupRedirect info n = Some m \<or> StartRedirect info n = Some m \<or>
      unlock_effect info n = Some m \<or> welcome_effect info n = Some m"
    using assms by (simp add: redirect_def split: if_split_asm)
  then show ?thesis
  proof (elim disjE)
    assume "DefaultRedirect info n = Some m"
    then show ?thesis by (auto simp: DefaultRedirect_def local.get_set split: if_split_asm)
  next
    assume "StartRedirect info n = Some m"
    then show ?thesis by (auto simp: StartRedirect_def go_def entry_page_def account_ok_def split: if_split_asm)
  qed (auto simp: SetupRedirect_def unlock_effect_def welcome_effect_def go_def split: if_split_asm)
qed

lemma other_hop:
  assumes "routes_to router" and "router (nav_at n) = Some p" and "redirector p \<noteq> Some ''HomeRedirect''"
    and "hop router info n = Some m"
  shows "storage_getItem (nav_storage m) (localStorageKeys K_setupReturnTo) =
      storage_getItem (nav_storage n) (localStorageKeys K_setupReturnTo)"
    and "may_enter info \<Longrightarrow> nav_storage m = nav_storage n"
    and "nav_at m = ''/'' \<or> nav_at m = entry_page info r \<and> nav_storage m = nav_storage n"
proof -
  obtain e where "redirector p = Some e" "redirect info n e = Some m"
    using assms(4) hop_at [OF assms(1,2), of info] by (auto simp: bind_eq_Some_conv)
  then show "storage_getItem (nav_storage m) (localStorageKeys K_setupReturnTo) =
      storage_getItem (nav_storage n) (localStorageKeys K_setupReturnTo)"
    and "may_enter info \<Longrightarrow> nav_storage m = nav_storage n"
    and "nav_at m = ''/'' \<or> nav_at m = entry_page info r \<and> nav_storage m = nav_storage n"
    using other_redirect [of info n e m r] assms(3) by auto
qed

lemma entry_page_cong: "(may_enter info \<Longrightarrow> r = r') \<Longrightarrow> entry_page info r = entry_page info r'"
  by (auto simp: entry_page_def may_enter_def)

lemma settle_run:
  assumes "routes_to router" and "router (nav_at n) = Some p" and "returns_ok router (nav_storage n)"
    and "hop router info n = Some m"
  shows "nav_at (settle 3 router info n) = entry_page info (stored_return n) \<and>
    hop router info (settle 3 router info n) = None \<and>
    nav_storage (settle 3 router info n) = nav_storage m"
proof (cases "redirector p = Some ''HomeRedirect''")
  case True
  have "nav_storage m = nav_storage n"
    using assms(4) hop_at [OF assms(1,2), of info] True by (auto simp: redirect_def HomeRedirect_def go_def Let_def split: if_splits)
  have h: "nav_at (settle 2 router info n) = entry_page info (stored_return n)"
      "nav_storage (settle 2 router info n) = nav_storage n"
    using home_settles [OF assms(1,2) True] assms(3) by (auto simp: returns_ok_def)
  then have "hop router info (settle 2 router info n) = None"
    using entry_rests [OF assms(1), of info n] assms(3) by simp
  moreover have "settle 3 router info n = settle 2 router info n"
    using calculation assms(4) by (auto simp: numeral_3_eq_3 numeral_2_eq_2 split: option.splits)
  ultimately show ?thesis using h \<open>nav_storage m = nav_storage n\<close> by simp
next
  case False
  note o = other_hop [OF assms(1,2) False assms(4)]
  have three: "settle 3 router info n = settle 2 router info m"
    using assms(4) by (simp add: numeral_3_eq_3 numeral_2_eq_2)
  have enter: "may_enter info \<Longrightarrow> returns_ok router (nav_storage m)" using o(2) assms(3) by simp
  have eq: "entry_page info (stored_return m) = entry_page info (stored_return n)"
    by (rule entry_page_cong) (simp add: o(2))
  have "nav_at (settle 2 router info m) = entry_page info (stored_return m) \<and> nav_storage (settle 2 router info m) = nav_storage m"
  proof (cases "nav_at m = ''/''")
    case True
    obtain q where "router ''/'' = Some q" "redirector q = Some ''HomeRedirect''"
      using named_page [OF assms(1), of "''/''"] by (auto simp: named_pages_def)
    then show ?thesis
      using home_settles [OF assms(1), of m q info] True o(1) enter assms(3) by (simp add: returns_ok_def)
  next
    case False
    then have at: "nav_at m = entry_page info (stored_return m)" using o(3) by blast
    then have "hop router info m = None" using entry_rests [OF assms(1), of info m m] enter by simp
    then show ?thesis using at by (simp add: numeral_2_eq_2)
  qed
  moreover from this have "hop router info (settle 2 router info m) = None"
    using entry_rests [OF assms(1), of info m] enter by simp
  ultimately show ?thesis using three eq by simp
qed

text \<open>A router for examples: the literal pages of the table.\<close>

definition table_router :: router where
  "table_router a =
     List.find (\<lambda>p. is_literal p \<and> pg_path p = takeWhile (\<lambda>c. c \<noteq> CHR ''?'') a) (pages routes)"

lemma table_router_ok: "routes_to table_router"
proof -
  have d: "distinct (map pg_path (filter is_literal (pages routes)))"
    and q: "list_all (\<lambda>p. CHR ''?'' \<notin> set (pg_path p)) (pages routes)"
    by code_simp+
  have found: "table_router a = Some p"
    if p: "p \<in> set (pages routes)" "is_literal p" and a: "takeWhile (\<lambda>c. c \<noteq> CHR ''?'') a = pg_path p" for p a
  proof -
    obtain p' where p': "table_router a = Some p'"
      using p a find_None [of "\<lambda>p. is_literal p \<and> pg_path p = takeWhile (\<lambda>c. c \<noteq> CHR ''?'') a" "pages routes"]
      unfolding table_router_def by (metis option.exhaust)
    then have "p' \<in> set (pages routes)" "is_literal p'" "pg_path p' = pg_path p"
      using find_Some_iff a unfolding table_router_def by fastforce+
    then have "p' = p" using d p inj_onD [of pg_path "set (filter is_literal (pages routes))" p' p]
      by (simp add: distinct_map)
    then show ?thesis using p' by simp
  qed
  have "takeWhile (\<lambda>c. c \<noteq> CHR ''?'') (pg_path p) = pg_path p \<and>
      takeWhile (\<lambda>c. c \<noteq> CHR ''?'') (pg_path p @ ''?'' @ r) = pg_path p" if "p \<in> set (pages routes)" for p r
  proof -
    have "\<And>c. c \<in> set (pg_path p) \<Longrightarrow> c \<noteq> CHR ''?''" using q that by (auto simp: list_all_iff)
    then show ?thesis using takeWhile_append2 [of "pg_path p" "\<lambda>c. c \<noteq> CHR ''?''"]
      by (simp add: takeWhile_eq_all_conv)
  qed
  moreover have "p \<in> set (pages routes)" if "table_router a = Some p" for a p
    using that find_Some_iff unfolding table_router_def by fast
  ultimately show ?thesis using found unfolding routes_to_def by blast
qed

text \<open>A hub in the given state; the other fields play no role for the redirects.\<close>

definition hub_info :: "bool \<Rightarrow> bool \<Rightarrow> bool \<Rightarrow> InfoResponse" where
  "hub_info completed running unlocked =
     \<lparr>info_backendType = LDK, info_setupCompleted = completed, info_oauthRedirect = False,
      info_albyAccountConnected = False, info_ldkVssEnabled = False, info_ldkVssUrl = [], info_vssSupported = False,
      info_databaseType = [], info_running = running, info_albyAuthUrl = [], info_nextBackupReminder = [],
      info_albyUserIdentifier = [], info_network = None, info_version = [], info_relays = [], info_unlocked = unlocked,
      info_enableAdvancedSetup = False, info_startupState = [], info_startupError = [], info_startupErrorTime = [],
      info_autoUnlockPasswordSupported = False, info_autoUnlockPasswordEnabled = False, info_currency = [],
      info_nodeAlias = [], info_mempoolUrl = [], info_bitcoinDisplayFormat = Bip177, info_chainDataSourceType = None,
      info_chainDataSourceAddress = None, info_jitChannelsLiquiditySource = None, info_jitChannelsMinPaymentSizeMsat = None,
      info_jitChannelsMaxPaymentSizeMsat = None, info_jitChannelsEnabled = False, info_hideUpdateBanner = False,
      info_supportsBolt12 = False, info_nodeMigrationFileCreated = False\<rparr>"



end
