(* ===== verification/Startup.thy ===== *)
theory Startup imports Routes
begin

text \<open>
  The screens around the start of the hub: \<open>screens/Start.tsx\<close>, \<open>Unlock.tsx\<close>, \<open>Welcome.tsx\<close>, \<open>Intro.tsx\<close>,
  \<open>MigrateNode.tsx\<close>, \<open>setup/RestoreNode.tsx\<close>, \<open>alby/AlbyAuthRedirect.tsx\<close>, \<open>components/AuthCodeForm.tsx\<close>
  and \<open>components/UnlinkAlbyAccount.tsx\<close>, and what they do together with the redirects.
\<close>

text \<open>\<open>handleRequestError(message, error)\<close> of a thrown \<open>Error\<close>.\<close>

definition request_error :: "string \<Rightarrow> string \<Rightarrow> ('s, unit) act" where
  "request_error message error =
     (case handleRequestError message (JObj [(''message'', JStr error)]) of
        (title, description) \<Rightarrow> emit (EToastError title description))"

text \<open>The token of an answer; a missing one is stored as the text undefined.\<close>

definition answer_token :: "json \<Rightarrow> string" where
  "answer_token j = nullish (jget_str ''token'' j) ''undefined''"

section \<open>Unlocking\<close>

record unlock_ui =
  ul_unlockPassword :: string
  ul_loading :: bool
  ul_nav :: nav

definition password_json :: "string \<Rightarrow> json" where
  "password_json unlockPassword =
     JObj [(''unlockPassword'', JStr unlockPassword), (''permission'', JStr ''full'')]"

definition save_token :: "json option \<Rightarrow> storage \<Rightarrow> storage" where
  "save_token res st =
     (case res of Some j \<Rightarrow> if json_truthy j then saveAuthToken st (answer_token j) else st | None \<Rightarrow> st)"

definition unlock_onSubmit :: "server \<Rightarrow> (unlock_ui, unit) act" where
  "unlock_onSubmit srv =
     andThen (getS ul_unlockPassword) (\<lambda>unlockPassword.
       finally_do
         (tryCatch
           (andDo (setS (\<lambda>s. s\<lparr>ul_loading := True\<rparr>))
           (andThen (api srv ''POST'' ''/api/unlock'' (Some (password_json unlockPassword))) (\<lambda>res.
            andDo (setS (\<lambda>s. s\<lparr>ul_nav := (ul_nav s)\<lparr>nav_storage := save_token res (nav_storage (ul_nav s))\<rparr>\<rparr>))
            (andDo (emit (EMutate ''/api/info''))
            (andDo (emit (ENavigate ''/''))
              (setS (\<lambda>s. s\<lparr>ul_nav := go ''/'' (ul_nav s)\<rparr>)))))))
           (request_error ''Failed to connect''))
         (setS (\<lambda>s. s\<lparr>ul_loading := False\<rparr>)))"

section \<open>Starting\<close>

text \<open>\<open>st_seenState\<close> and \<open>st_seenError\<close> are the dependencies of the two effects when they last ran.\<close>

record start_ui =
  st_unlockPassword :: string
  st_loading :: bool
  st_buttonText :: string
  st_storage :: storage
  st_seenState :: "string option"
  st_seenError :: "(string \<times> string) option"

definition init_start :: "storage \<Rightarrow> start_ui" where
  "init_start st =
     \<lparr>st_unlockPassword = [], st_loading = False, st_buttonText = ''Start'', st_storage = st,
      st_seenState = None, st_seenError = None\<rparr>"

definition start_reset :: "start_ui \<Rightarrow> start_ui" where
  "start_reset s = s\<lparr>st_loading := False, st_buttonText := ''Start'', st_unlockPassword := []\<rparr>"

definition start_state_effect :: "InfoResponse \<Rightarrow> (start_ui, unit) act" where
  "start_state_effect info =
     andThen (getS st_seenState) (\<lambda>seen.
       if seen = Some (info_startupState info) then ret ()
       else setS (\<lambda>s. s\<lparr>st_seenState := Some (info_startupState info),
              st_buttonText := (if info_startupState info \<noteq> [] then info_startupState info else st_buttonText s)\<rparr>))"

definition start_error_effect :: "InfoResponse \<Rightarrow> (start_ui, unit) act" where
  "start_error_effect info =
     andThen (getS st_seenError) (\<lambda>seen.
       if seen = Some (info_startupError info, info_startupErrorTime info) then ret ()
       else andDo (setS (\<lambda>s. s\<lparr>st_seenError := Some (info_startupError info, info_startupErrorTime info)\<rparr>))
         (whenD (info_startupError info \<noteq> [] \<and> info_startupErrorTime info \<noteq> [])
           (andDo (emit (EToastError ''Failed to start'' (Some (info_startupError info)))) (setS start_reset))))"

definition start_onSubmit :: "server \<Rightarrow> (start_ui, unit) act" where
  "start_onSubmit srv =
     andThen (getS st_unlockPassword) (\<lambda>unlockPassword.
       tryCatch
         (andDo (setS (\<lambda>s. s\<lparr>st_loading := True, st_buttonText := ''Please wait...''\<rparr>))
         (andThen (api srv ''POST'' ''/api/start'' (Some (password_json unlockPassword))) (\<lambda>res.
            setS (\<lambda>s. s\<lparr>st_storage := save_token res (st_storage s)\<rparr>))))
         (\<lambda>error. andDo (request_error ''Failed to connect'' error) (setS start_reset)))"

datatype start_event = StPolled InfoResponse | StTyped string | StSubmit

definition start_step :: "server \<Rightarrow> start_ui ui \<Rightarrow> start_event \<Rightarrow> start_ui ui" where
  "start_step srv w e =
     (case e of
        StPolled info \<Rightarrow> snd (andDo (start_state_effect info) (start_error_effect info) w)
      | StTyped p \<Rightarrow> w\<lparr>ui_st := (ui_st w)\<lparr>st_unlockPassword := p\<rparr>\<rparr>
      | StSubmit \<Rightarrow>
          if st_unlockPassword (ui_st w) \<noteq> [] \<and> \<not> st_loading (ui_st w) then snd (start_onSubmit srv w) else w)"

section \<open>Welcome and the introduction\<close>

definition navigateToAuthPage :: "InfoResponse option \<Rightarrow> string \<Rightarrow> nav \<Rightarrow> nav" where
  "navigateToAuthPage info returnTo n =
     (if (\<exists>i. info = Some i \<and> info_albyAccountConnected i) then go returnTo n
      else go (if (\<exists>i. info = Some i \<and> info_oauthRedirect i) then ''/alby/auth'' else ''/setup/alby'')
             (n\<lparr>nav_storage := storage_setItem (nav_storage n) (localStorageKeys K_setupReturnTo) returnTo\<rparr>))"

text \<open>The node is preset when the server names a backend.\<close>

definition get_started :: "InfoResponse option \<Rightarrow> bool \<Rightarrow> nav \<Rightarrow> nav" where
  "get_started info backend_named =
     navigateToAuthPage info (if backend_named then ''/setup/password?node=preset'' else ''/setup/password?node=ldk'')"

definition advanced_setup :: "InfoResponse option \<Rightarrow> nav \<Rightarrow> nav" where
  "advanced_setup info = navigateToAuthPage info ''/setup/advanced''"

definition slideNext :: "bool \<Rightarrow> nav \<Rightarrow> nav" where
  "slideNext canScrollNext n = (if canScrollNext then n else go ''/welcome'' n)"

section \<open>The Alby account\<close>

text \<open>\<open>parse_url\<close> splits a URL into its part before the query and its parameters.\<close>

definition alby_auth_url :: "(string \<Rightarrow> string \<times> params) \<Rightarrow> InfoResponse option \<Rightarrow> params \<Rightarrow> string option" where
  "alby_auth_url parse_url info queryParams =
     (case info of
        None \<Rightarrow> None
      | Some i \<Rightarrow>
          if info_albyAuthUrl i = [] then None
          else (case parse_url (info_albyAuthUrl i) of
                  (base, ps) \<Rightarrow>
                    (let forced = (if truthy_str (params_get queryParams ''force_login'') then [(''force_login'', ''true'')] else []);
                         known = (if info_albyUserIdentifier i \<noteq> [] then [(''identifier'', info_albyUserIdentifier i)] else []);
                         qs = ps @ forced @ known
                     in Some (base @ (if qs = [] then [] else ''?'' @ params_to_string qs)))))"

definition auth_redirect_effect :: "(string \<Rightarrow> string \<times> params) \<Rightarrow> InfoResponse option \<Rightarrow> params \<Rightarrow> ('s, unit) act" where
  "auth_redirect_effect parse_url info queryParams =
     (case (info, alby_auth_url parse_url info queryParams) of
        (Some i, Some url) \<Rightarrow> whenD (info_oauthRedirect i) (emit (ELocation url))
      | _ \<Rightarrow> ret ())"

definition shows_auth_form :: "(string \<Rightarrow> string \<times> params) \<Rightarrow> InfoResponse option \<Rightarrow> params \<Rightarrow> bool" where
  "shows_auth_form parse_url info queryParams =
     (case info of None \<Rightarrow> False | Some i \<Rightarrow> \<not> info_oauthRedirect i \<and> alby_auth_url parse_url info queryParams \<noteq> None)"

record auth_form =
  af_authCode :: string
  af_hasRequestedCode :: bool
  af_loading :: bool
  af_nav :: nav

definition requestAuthCode :: "string \<Rightarrow> (auth_form, unit) act" where
  "requestAuthCode url =
     andThen (getS af_hasRequestedCode) (\<lambda>hasRequestedCode.
       if url = [] then setS (\<lambda>s. s\<lparr>af_hasRequestedCode := False\<rparr>)
       else andDo (whenD (\<not> hasRequestedCode) (openLink url)) (setS (\<lambda>s. s\<lparr>af_hasRequestedCode := True\<rparr>)))"

definition auth_onSubmit :: "server \<Rightarrow> (auth_form, unit) act" where
  "auth_onSubmit srv =
     andThen (getS af_authCode) (\<lambda>authCode.
       andDo (setS (\<lambda>s. s\<lparr>af_loading := True\<rparr>))
       (andDo
         (tryCatch
           (andThen (api srv ''GET'' (''/api/alby/callback?code='' @ authCode) None) (\<lambda>_.
            andDo (emit (EMutate ''/api/info''))
            (andDo (emit (ENavigate ''/'')) (setS (\<lambda>s. s\<lparr>af_nav := go ''/'' (af_nav s)\<rparr>)))))
           (request_error ''Failed to connect''))
         (setS (\<lambda>s. s\<lparr>af_loading := False\<rparr>))))"

definition unlinkAccount :: "server \<Rightarrow> string \<Rightarrow> string \<Rightarrow> (nav, unit) act" where
  "unlinkAccount srv navigateTo successMessage =
     tryCatch
       (andThen (api srv ''POST'' ''/api/alby/unlink-account'' None) (\<lambda>_.
        andDo (emit (EMutate ''/api/info''))
        (andDo (emit (ENavigate navigateTo))
        (andDo (setS (go navigateTo)) (emit (EToast ''Alby Account Disconnected'' (Some successMessage)))))))
       (\<lambda>error. emit (EToastError ''Disconnect account failed'' (Some error)))"

section \<open>Migration and restore\<close>

record migrate_ui =
  mg_unlockPassword :: string
  mg_showPasswordScreen :: bool
  mg_loading :: bool
  mg_downloads :: "string list"
  mg_nav :: nav

text \<open>
  Over HTTP the page calls the browser's \<open>fetch\<close> itself: \<open>download\<close> is its outcome for the password,
  the error text or the file, which is saved under a fixed name.
\<close>

definition migrate_onSubmit :: "bool \<Rightarrow> (string \<Rightarrow> string + unit) \<Rightarrow> server \<Rightarrow> (migrate_ui, unit) act" where
  "migrate_onSubmit http download srv =
     andThen (getS mg_unlockPassword) (\<lambda>unlockPassword.
       finally_do
         (tryCatch
           (andDo (setS (\<lambda>s. s\<lparr>mg_loading := True\<rparr>))
           (andDo
             (if http
              then andDo (emit (EFetch ''POST'' ''/api/backup'' (Some (JObj [(''UnlockPassword'', JStr unlockPassword)]))))
                (case download unlockPassword of
                   Inl e \<Rightarrow> throw e
                 | Inr _ \<Rightarrow> setS (\<lambda>s. s\<lparr>mg_downloads := mg_downloads s @ [''albyhub.bkp'']\<rparr>))
              else andThen (api srv ''POST'' ''/api/backup'' (Some (JObj [(''unlockPassword'', JStr unlockPassword)]))) (\<lambda>_. ret ()))
             (andDo (emit (ENavigate migration_page)) (setS (\<lambda>s. s\<lparr>mg_nav := go migration_page (mg_nav s)\<rparr>)))))
           (request_error ''Failed to backup the node''))
         (setS (\<lambda>s. s\<lparr>mg_loading := False\<rparr>)))"

record restore_ui =
  rs_unlockPassword :: string
  rs_file :: "string option"
  rs_showAlert :: bool
  rs_loading :: bool
  rs_restored :: bool
  rs_nav :: nav

text \<open>The body is form data over HTTP (its fields in order), JSON otherwise.\<close>

definition restore_body :: "bool \<Rightarrow> restore_ui \<Rightarrow> json" where
  "restore_body http s =
     JObj ((''unlockPassword'', JStr (rs_unlockPassword s)) #
       (if http then opt_member ''backup'' (map_option JStr (rs_file s)) else []))"

definition restoreNode :: "bool \<Rightarrow> server \<Rightarrow> (restore_ui, unit) act" where
  "restoreNode http srv =
     andThen (getS id) (\<lambda>s.
       finally_do
         (tryCatch
           (andDo (setS (\<lambda>u. u\<lparr>rs_loading := True\<rparr>))
           (andThen (api srv ''POST'' ''/api/restore'' (Some (restore_body http s))) (\<lambda>_.
             setS (\<lambda>u. u\<lparr>rs_restored := True\<rparr>))))
           (request_error ''Failed to restore backup''))
         (setS (\<lambda>u. u\<lparr>rs_showAlert := False, rs_loading := False\<rparr>)))"

definition restore_submit :: "restore_ui \<Rightarrow> restore_ui" where
  "restore_submit s = s\<lparr>rs_showAlert := True\<rparr>"

definition handleChangeFile :: "string list option \<Rightarrow> restore_ui \<Rightarrow> restore_ui" where
  "handleChangeFile files s =
     (case files of
        Some (f # _) \<Rightarrow> s\<lparr>rs_file := Some f\<rparr>
      | Some [] \<Rightarrow> s\<lparr>rs_file := Some ''undefined''\<rparr>
      | None \<Rightarrow> s)"

definition restored_effect :: "InfoResponse option \<Rightarrow> restore_ui \<Rightarrow> restore_ui" where
  "restored_effect info s =
     (if rs_restored s \<and> (\<exists>i. info = Some i \<and> info_setupCompleted i) then s\<lparr>rs_nav := go ''/'' (rs_nav s)\<rparr> else s)"

section \<open>Logging in leads back\<close>

lemma first_hop_locked:
  assumes "routes_to router" and "router (nav_at n) = Some p" and "guarded p" and "\<not> may_enter info"
  shows "hop router info n = Some (n\<lparr>nav_at := ''/'',
    nav_storage := storage_setItem (nav_storage n) (localStorageKeys K_returnTo) (nav_at n)\<rparr>)"
proof -
  have "p \<in> set (pages routes)" using assms(1,2) by (auto simp: routes_to_def)
  then show ?thesis
    using hop_at [OF assms(1,2)] guarded_redirector [OF assms(3)] assms(4) by (simp add: redirect_def DefaultRedirect_def)
qed

lemma unlock_run:
  assumes "srv l ''POST'' ''/api/unlock'' (Some (password_json pw)) = Inr (Some j)" and "json_truthy j"
  shows "ui_st (snd (unlock_onSubmit srv \<lparr>ui_st = \<lparr>ul_unlockPassword = pw, ul_loading = ld, ul_nav = n\<rparr>, ui_log = l\<rparr>)) =
    \<lparr>ul_unlockPassword = pw, ul_loading = False,
     ul_nav = n\<lparr>nav_at := ''/'', nav_storage := saveAuthToken (nav_storage n) (answer_token j)\<rparr>\<rparr>"
  using assms by (simp add: unlock_onSubmit_def getS_then effect_defs save_token_def go_def)

lemma home_returns:
  assumes "routes_to router" and "may_enter info" and "info_setupCompleted info" and "\<not> info_nodeMigrationFileCreated info"
    and "nav_at n = ''/''" and "stored_return n = Some a" and "a \<noteq> []" and "router a = Some p" and "guarded p"
    and "\<not> truthy_str (storage_getItem (nav_storage n) (localStorageKeys K_setupReturnTo))"
  shows "settle 3 router info n = n\<lparr>nav_at := a, nav_timers := nav_timers n @ [localStorageKeys K_returnTo]\<rparr>"
    and "hop router info (settle 3 router info n) = None"
proof -
  let ?m = "n\<lparr>nav_at := a, nav_timers := nav_timers n @ [localStorageKeys K_returnTo]\<rparr>"
  obtain c t where "a = c # t" using assms(7) by (cases a) auto
  then have "HomeRedirect info n = Some ?m"
    using assms by (simp add: HomeRedirect_def home_page_def may_enter_def)
  then have h: "hop router info n = Some ?m"
    using hop_named [OF assms(1), of n "Some ''HomeRedirect''" info] assms(5) by (simp add: named_pages_def redirect_def)
  have "p \<in> set (pages routes)" using assms(1,8) by (auto simp: routes_to_def)
  then have m: "hop router info ?m = None"
    using hop_at [OF assms(1), of ?m p info] guarded_redirector [OF assms(9)] assms(2,8)
    by (simp add: redirect_def DefaultRedirect_def)
  then show "settle 3 router info n = ?m" using h by (simp add: numeral_3_eq_3)
  then show "hop router info (settle 3 router info n) = None" using m by simp
qed

lemma get_after_removes:
  "storage_getItem (foldl storage_removeItem st ks) j = (if j \<in> set ks then None else storage_getItem st j)"
  by (induction ks arbitrary: st) (auto simp: local.get_remove)

lemma redirect_timers:
  assumes "redirect info n e = Some m"
  shows "set (nav_timers m) \<subseteq> set (nav_timers n) \<union> {localStorageKeys K_returnTo, localStorageKeys K_setupReturnTo}"
proof (cases "e = ''HomeRedirect''")
  case True
  then show ?thesis using assms by (auto simp: redirect_def HomeRedirect_def go_def Let_def split: if_split_asm)
next
  case False
  then have "DefaultRedirect info n = Some m \<or> SetupRedirect info n = Some m \<or> StartRedirect info n = Some m \<or>
      unlock_effect info n = Some m \<or> welcome_effect info n = Some m"
    using assms by (simp add: redirect_def split: if_split_asm)
  then have "nav_timers m = nav_timers n"
    by (elim disjE) (auto simp: DefaultRedirect_def SetupRedirect_def StartRedirect_def unlock_effect_def
        welcome_effect_def go_def split: if_split_asm)
  then show ?thesis by auto
qed

lemma hop_timers:
  assumes "hop router info n = Some m"
  shows "set (nav_timers m) \<subseteq> set (nav_timers n) \<union> {localStorageKeys K_returnTo, localStorageKeys K_setupReturnTo}"
proof -
  have "\<exists>(p :: page) ms. List.map_filter (redirect info n) (pg_elements p) = m # ms"
    using assms unfolding hop_def by (auto split: option.splits list.splits)
  then obtain p :: page and ms where "List.map_filter (redirect info n) (pg_elements p) = m # ms" by blast
  then have "m \<in> set (List.map_filter (redirect info n) (pg_elements p))" by simp
  then obtain e where "redirect info n e = Some m" by (auto simp: List.map_filter_def)
  then show ?thesis by (rule redirect_timers)
qed

lemma settle_timers:
  "set (nav_timers (settle k router info n)) \<subseteq>
     set (nav_timers n) \<union> {localStorageKeys K_returnTo, localStorageKeys K_setupReturnTo}"
proof (induction k arbitrary: n)
  case (Suc k)
  show ?case
  proof (cases "hop router info n")
    case (Some m)
    then show ?thesis using hop_timers [OF Some] Suc.IH [of m] by auto
  qed auto
qed auto


text \<open>A server that accepts the password.\<close>

definition token_server :: server where
  "token_server sofar m u b = Inr (Some (JObj [(''token'', JStr ''tok'')]))"


end
