(* ===== verification/Setup.thy ===== *)
theory Setup imports Startup Stores
begin

text \<open>
  Setting up the hub: the password page (\<open>screens/setup/SetupPassword.tsx\<close>), the recovery phrase
  (\<open>ImportMnemonic.tsx\<close>, \<open>components/mnemonic/MnemonicInputs.tsx\<close>), the node forms
  (\<open>setup/node/\<close>, \<open>SetupNode.tsx\<close>), \<open>SetupAdvanced.tsx\<close>, \<open>SetupSecurity.tsx\<close> and \<open>SetupFinish.tsx\<close>.
  All of them share the setup store. The generator and the validator of recovery phrases are
  third-party code: the generated phrase and the validity are arguments.
\<close>

section \<open>The recovery phrase\<close>

definition shown_words :: "string \<Rightarrow> string list" where
  "shown_words mnemonic =
     (let words = split_on CHR '' '' mnemonic in take 12 (words @ replicate (12 - length words) []))"

text \<open>Typing into the input of word \<open>i\<close>, which is revealed while it has the focus.\<close>

definition type_word :: "nat \<Rightarrow> string \<Rightarrow> string \<Rightarrow> string" where
  "type_word i v mnemonic = trim (join_with CHR '' '' (map trim ((shown_words mnemonic)[i := v])))"

definition valid_phrase :: "(string \<Rightarrow> bool) \<Rightarrow> string \<Rightarrow> bool" where
  "valid_phrase validateMnemonic mnemonic =
     (length (split_on CHR '' '' mnemonic) = 12 \<and> validateMnemonic mnemonic)"

section \<open>The shared store\<close>

text \<open>
  The forms write an arbitrary object into the store; the mint URL is the only property written that
  the store's type does not have.
\<close>

record setup_app =
  sa_store :: SetupStore
  sa_mintUrl :: "string option"
  sa_goto :: "string option"

definition init_setup :: setup_app where
  "init_setup = \<lparr>sa_store = useSetupStore, sa_mintUrl = None, sa_goto = None\<rparr>"

definition setup_to :: "string \<Rightarrow> (setup_app, unit) act" where
  "setup_to p = andDo (emit (ENavigate p)) (setS (\<lambda>s. s\<lparr>sa_goto := Some p\<rparr>))"

definition update_info :: "(SetupNodeInfo \<Rightarrow> SetupNodeInfo) \<Rightarrow> (setup_app, unit) act" where
  "update_info f = setS (\<lambda>s. s\<lparr>sa_store := updateNodeInfo (f empty_node_info) (sa_store s)\<rparr>)"

text \<open>\<open>updateNodeInfo({ mnemonic: undefined })\<close>: the property is overwritten by undefined.\<close>

definition clear_mnemonic :: "setup_app \<Rightarrow> setup_app" where
  "clear_mnemonic s =
     s\<lparr>sa_store := (sa_store s)\<lparr>ss_nodeInfo := (ss_nodeInfo (sa_store s))\<lparr>sni_mnemonic := None\<rparr>\<rparr>\<rparr>"

definition stored_phrase :: "setup_app \<Rightarrow> string option" where
  "stored_phrase s = sni_mnemonic (ss_nodeInfo (sa_store s))"

definition stored_backend :: "setup_app \<Rightarrow> BackendType option" where
  "stored_backend s = sni_backendType (ss_nodeInfo (sa_store s))"

section \<open>The pages\<close>

definition advanced_effect :: "setup_app \<Rightarrow> setup_app" where
  "advanced_effect s = s\<lparr>sa_store := setHasImportedMnemonic False (sa_store s)\<rparr>"

definition password_onSubmit :: "bool \<Rightarrow> params \<Rightarrow> string \<Rightarrow> bool \<Rightarrow> bool \<Rightarrow> (setup_app, unit) act" where
  "password_onSubmit info searchParams confirmPassword isPasswordSecured isPasswordSecured2 =
     andThen (getS sa_store) (\<lambda>store.
       if \<not> info then ret ()
       else if \<not> isPasswordSecured \<or> \<not> isPasswordSecured2
       then emit (EToastError ''Please confirm you have saved your password'' None)
       else if ss_unlockPassword store \<noteq> confirmPassword then emit (EToastError ''Passwords don't match'' None)
       else if or_str (params_get searchParams ''wallet'') ''new'' = ''import''
       then andDo (update_info (\<lambda>n. n\<lparr>sni_backendType := Some LDK\<rparr>)) (setup_to ''/setup/import-mnemonic'')
       else (case or_str (params_get searchParams ''node'') [] of
               [] \<Rightarrow> setup_to ''/setup/node''
             | node \<Rightarrow> setup_to (''/setup/node/'' @ node)))"

definition import_onSubmit :: "(string \<Rightarrow> bool) \<Rightarrow> string \<Rightarrow> string \<Rightarrow> (setup_app, unit) act" where
  "import_onSubmit validateMnemonic sixMonthsLater mnemonic =
     (if \<not> valid_phrase validateMnemonic mnemonic then emit (EToastError ''Invalid recovery phrase'' None)
      else andDo (update_info (\<lambda>n. n\<lparr>sni_mnemonic := Some mnemonic, sni_nextBackupReminder := Some sixMonthsLater\<rparr>))
           (andDo (setS (\<lambda>s. s\<lparr>sa_store := setHasImportedMnemonic True (sa_store s)\<rparr>)) (setup_to ''/setup/node'')))"

definition hasImportedMnemonic :: "SetupStore \<Rightarrow> bool" where
  "hasImportedMnemonic st = (truthy_str (sni_mnemonic (ss_nodeInfo st)) \<and> ss_hasImportedMnemonic st)"

fun backend_str :: "BackendType \<Rightarrow> string" where
  "backend_str LDK = ''LDK''" | "backend_str LND = ''LND''" | "backend_str PHOENIX = ''PHOENIX''"
| "backend_str CASHU = ''CASHU''" | "backend_str CLN = ''CLN''" | "backend_str BARK = ''BARK''"

text \<open>The configurations in the order of their table.\<close>

definition backendTypeDisplayConfigList :: "BackendType list" where
  "backendTypeDisplayConfigList = [LDK, PHOENIX, LND, CASHU, CLN, BARK]"

definition node_choices :: "SetupStore \<Rightarrow> BackendType list" where
  "node_choices st =
     filter (\<lambda>b. if hasImportedMnemonic st then btc_hasMnemonic (backendTypeConfigs b) else True) backendTypeDisplayConfigList"

definition node_next :: "BackendType option \<Rightarrow> (setup_app, unit) act" where
  "node_next selected =
     (case selected of
        None \<Rightarrow> ret ()
      | Some b \<Rightarrow> setup_to (''/setup/node/'' @ to_lower (backend_str b)))"

definition ensure_phrase :: "string \<Rightarrow> (setup_app, unit) act" where
  "ensure_phrase generated =
     andThen (getS stored_phrase) (\<lambda>m.
       whenD (\<not> truthy_str m) (update_info (\<lambda>n. n\<lparr>sni_mnemonic := Some generated\<rparr>)))"

definition LDKForm :: "string \<Rightarrow> (setup_app, unit) act" where
  "LDKForm generated =
     andDo (ensure_phrase generated)
       (andDo (update_info (\<lambda>n. n\<lparr>sni_backendType := Some LDK\<rparr>)) (setup_to ''/setup/security''))"

definition BarkForm :: "string \<Rightarrow> (setup_app, unit) act" where
  "BarkForm generated =
     andDo (ensure_phrase generated)
       (andDo (update_info (\<lambda>n. n\<lparr>sni_backendType := Some BARK\<rparr>)) (setup_to ''/setup/security''))"

definition PresetNodeForm :: "InfoResponse option \<Rightarrow> string \<Rightarrow> (setup_app, unit) act" where
  "PresetNodeForm info generated =
     (case info of
        None \<Rightarrow> ret ()
      | Some i \<Rightarrow>
          andDo (whenD (btc_hasMnemonic (backendTypeConfigs (info_backendType i)))
                  (update_info (\<lambda>n. n\<lparr>sni_mnemonic := Some generated\<rparr>)))
            (setup_to ''/setup/security''))"

definition LNDForm :: "string \<Rightarrow> string \<Rightarrow> string \<Rightarrow> (setup_app, unit) act" where
  "LNDForm lndAddress lndCertFile lndMacaroonFile =
     andDo (update_info (\<lambda>n. n\<lparr>sni_backendType := Some LND, sni_lndAddress := Some lndAddress,
              sni_lndCertFile := Some lndCertFile, sni_lndMacaroonFile := Some lndMacaroonFile\<rparr>))
       (setup_to ''/setup/security'')"

definition CLNForm :: "string \<Rightarrow> string \<Rightarrow> string \<Rightarrow> (setup_app, unit) act" where
  "CLNForm clnAddress clnLightningDir clnAddressHold =
     andDo (update_info (\<lambda>n. n\<lparr>sni_backendType := Some CLN, sni_clnAddress := Some clnAddress,
              sni_clnLightningDir := Some clnLightningDir, sni_clnAddressHold := Some clnAddressHold\<rparr>))
       (setup_to ''/setup/security'')"

definition PhoenixdForm :: "string \<Rightarrow> string \<Rightarrow> (setup_app, unit) act" where
  "PhoenixdForm phoenixdAddress phoenixdAuthorization =
     (if phoenixdAddress = [] \<or> phoenixdAuthorization = [] then emit (EToastError ''Please fill out all fields'' None)
      else andDo (update_info (\<lambda>n. n\<lparr>sni_backendType := Some PHOENIX, sni_phoenixdAddress := Some phoenixdAddress,
              sni_phoenixdAuthorization := Some phoenixdAuthorization\<rparr>))
           (setup_to ''/setup/security''))"

definition CashuForm :: "string \<Rightarrow> (setup_app, unit) act" where
  "CashuForm cashuMintUrl =
     andDo (update_info (\<lambda>n. n\<lparr>sni_backendType := Some CASHU\<rparr>))
       (andDo (setS (\<lambda>s. s\<lparr>sa_mintUrl := Some cashuMintUrl\<rparr>)) (setup_to ''/setup/security''))"

text \<open>What the security page says about recovery.\<close>

datatype recovery_text = BackupsNotHandled | ImportedPhrase | PhraseOnly bool bool

definition security_text :: "SetupStore \<Rightarrow> InfoResponse option \<Rightarrow> recovery_text" where
  "security_text st info =
     (let b = sni_backendType (ss_nodeInfo st)
      in if b = Some LND \<or> b = Some CLN \<or> b = Some PHOENIX then BackupsNotHandled
         else if ss_hasImportedMnemonic st \<and> b = Some LDK then ImportedPhrase
         else PhraseOnly (b = Some LDK)
                (\<not> (\<exists>i. info = Some i \<and> info_albyUserIdentifier i \<noteq> []) \<and> b = Some LDK))"

section \<open>Finishing\<close>

record finish_ui =
  fi_loading :: bool
  fi_connectionError :: bool
  fi_hasFetched :: bool
  fi_lastStartupErrorTime :: "string option"
  fi_storage :: storage

definition init_finish :: "string option \<Rightarrow> storage \<Rightarrow> finish_ui" where
  "init_finish lastStartupErrorTime st =
     \<lparr>fi_loading = False, fi_connectionError = False, fi_hasFetched = False,
      fi_lastStartupErrorTime = lastStartupErrorTime, fi_storage = st\<rparr>"

definition setup_json :: "setup_app \<Rightarrow> json" where
  "setup_json s =
     (let n = ss_nodeInfo (sa_store s)
      in JObj (opt_member ''backendType'' (map_option (\<lambda>b. JStr (backend_str b)) (sni_backendType n)) @
           opt_member ''mnemonic'' (map_option JStr (sni_mnemonic n)) @
           opt_member ''nextBackupReminder'' (map_option JStr (sni_nextBackupReminder n)) @
           opt_member ''lndAddress'' (map_option JStr (sni_lndAddress n)) @
           opt_member ''lndCertFile'' (map_option JStr (sni_lndCertFile n)) @
           opt_member ''lndMacaroonFile'' (map_option JStr (sni_lndMacaroonFile n)) @
           opt_member ''phoenixdAddress'' (map_option JStr (sni_phoenixdAddress n)) @
           opt_member ''phoenixdAuthorization'' (map_option JStr (sni_phoenixdAuthorization n)) @
           opt_member ''clnAddress'' (map_option JStr (sni_clnAddress n)) @
           opt_member ''clnLightningDir'' (map_option JStr (sni_clnLightningDir n)) @
           opt_member ''clnAddressHold'' (map_option JStr (sni_clnAddressHold n)) @
           opt_member ''cashuMintUrl'' (map_option JStr (sa_mintUrl s)) @
           [(''unlockPassword'', JStr (ss_unlockPassword (sa_store s)))]))"

definition finishSetup :: "server \<Rightarrow> setup_app \<Rightarrow> (finish_ui, bool) act" where
  "finishSetup srv app =
     tryCatch
       (andThen (api srv ''POST'' ''/api/setup'' (Some (setup_json app))) (\<lambda>_.
        andThen (api srv ''POST'' ''/api/start''
          (Some (JObj [(''unlockPassword'', JStr (ss_unlockPassword (sa_store app)))]))) (\<lambda>res.
        andDo (setS (\<lambda>s. s\<lparr>fi_storage := save_token res (fi_storage s)\<rparr>)) (ret True))))
       (\<lambda>error. andDo (request_error ''Failed to connect'' error) (ret False))"

definition finish_failed :: "finish_ui \<Rightarrow> finish_ui" where
  "finish_failed s = s\<lparr>fi_loading := False, fi_connectionError := True\<rparr>"

definition finish_error_effect :: "InfoResponse \<Rightarrow> (finish_ui, unit) act" where
  "finish_error_effect info =
     andThen (getS fi_lastStartupErrorTime) (\<lambda>lastTime.
       whenD (info_startupError info \<noteq> [] \<and> info_startupErrorTime info \<noteq> [] \<and>
              Some (info_startupErrorTime info) \<noteq> lastTime)
         (andDo (setS (\<lambda>s. s\<lparr>fi_lastStartupErrorTime := Some (info_startupErrorTime info)\<rparr>))
         (andDo (emit (EToastError ''Failed to start'' (Some (info_startupError info)))) (setS finish_failed))))"

definition finish_setup_effect :: "server \<Rightarrow> setup_app \<Rightarrow> (finish_ui, unit) act" where
  "finish_setup_effect srv app =
     andThen (getS fi_hasFetched) (\<lambda>hasFetched.
       if hasFetched then ret ()
       else andDo (setS (\<lambda>s. s\<lparr>fi_hasFetched := True, fi_loading := True\<rparr>))
         (andThen (finishSetup srv app) (\<lambda>succeeded. whenD (\<not> succeeded) (setS finish_failed))))"

datatype finish_event = FinPolled InfoResponse | FinTimeout

text \<open>The timer runs while \<open>loading\<close> is set.\<close>

definition finish_step :: "server \<Rightarrow> setup_app \<Rightarrow> finish_ui ui \<Rightarrow> finish_event \<Rightarrow> finish_ui ui" where
  "finish_step srv app w e =
     (case e of
        FinPolled info \<Rightarrow> snd (andDo (finish_error_effect info) (finish_setup_effect srv app) w)
      | FinTimeout \<Rightarrow> if fi_loading (ui_st w) then w\<lparr>ui_st := finish_failed (ui_st w)\<rparr> else w)"

section \<open>Typing a recovery phrase\<close>

definition a_word :: "string \<Rightarrow> bool" where
  "a_word w = (w \<noteq> [] \<and> list_all (\<lambda>c. \<not> is_space c) w)"

lemma dropWhile_id: "(xs \<noteq> [] \<Longrightarrow> \<not> P (hd xs)) \<Longrightarrow> dropWhile P xs = xs"
  by (cases xs) simp_all

lemma trim_word [simp]: "a_word w \<Longrightarrow> trim w = w"
  by (simp add: a_word_def trim_def trim_start_def dropWhile_id list_all_iff hd_rev)

lemma trim_padded:
  assumes "s \<noteq> []" and "\<not> is_space (hd s)" and "\<not> is_space (last s)" and "list_all is_space t"
  shows "trim (s @ t) = s"
proof -
  have "trim_start (s @ t) = s @ t" using assms(1,2) by (simp add: trim_start_def dropWhile_id)
  moreover have "dropWhile is_space (rev t @ rev s) = rev s"
    using assms by (subst dropWhile_append2) (auto simp: list_all_iff dropWhile_id hd_rev)
  ultimately show ?thesis by (simp add: trim_def)
qed

lemma trim_empty [simp]: "trim [] = []"
  by (simp add: trim_def trim_start_def)

lemma trim_words: "list_all a_word ws \<Longrightarrow> map trim ws = ws"
  by (induction ws) simp_all

lemma trim_blank: "list_all is_space t \<Longrightarrow> trim (t @ s) = trim s"
  by (simp add: trim_def trim_start_def list_all_iff dropWhile_append2)

lemma join_blank_end:
  "ws \<noteq> [] \<Longrightarrow> join_with c (ws @ replicate n []) = join_with c ws @ replicate n c"
proof (induction c ws rule: join_with.induct)
  case (2 c w)
  show ?case by (induction n) (auto simp: neq_Nil_conv, (case_tac n; simp)+)
qed auto

lemma join_blank_front: "join_with c (replicate n [] @ w # ws) = replicate n c @ join_with c (w # ws)"
proof (induction n)
  case (Suc n)
  then show ?case by (cases n) simp_all
qed simp

lemma join_ends:
  assumes "ws \<noteq> []" and "list_all a_word ws"
  shows "join_with CHR '' '' ws \<noteq> [] \<and> \<not> is_space (hd (join_with CHR '' '' ws)) \<and> \<not> is_space (last (join_with CHR '' '' ws))"
  using assms
proof (induction "CHR '' ''" ws rule: join_with.induct)
  case (2 w)
  then show ?case by (simp add: a_word_def list_all_iff)
next
  case (3 w v ws)
  then show ?case by (auto simp: a_word_def list_all_iff)
qed simp

lemma trim_join:
  "ws \<noteq> [] \<Longrightarrow> list_all a_word ws \<Longrightarrow> trim (join_with CHR '' '' (ws @ replicate n [])) = join_with CHR '' '' ws"
  using join_ends [of ws] trim_padded [of "join_with CHR '' '' ws" "replicate n CHR '' ''"]
  by (simp add: join_blank_end list_all_iff is_space_def)

lemma word_no_space: "a_word w \<Longrightarrow> CHR '' '' \<notin> set w"
  by (auto simp: a_word_def list_all_iff is_space_def)

lemma shown_words_join:
  assumes "list_all a_word ws" and "ws \<noteq> []" and "length ws \<le> 12"
  shows "shown_words (join_with CHR '' '' ws) = ws @ replicate (12 - length ws) []"
proof -
  have "split_on CHR '' '' (join_with CHR '' '' ws) = ws"
    using assms word_no_space by (intro split_on_join) (auto simp: list_all_iff)
  then show ?thesis using assms(3) by (simp add: shown_words_def)
qed

lemma shown_words_empty: "shown_words [] = replicate 12 []"
  by code_simp

lemma type_next:
  assumes "list_all a_word (ws @ [w])" and "length ws < 12"
  shows "type_word (length ws) w (join_with CHR '' '' ws) = join_with CHR '' '' (ws @ [w])"
proof -
  have "shown_words (join_with CHR '' '' ws) = ws @ replicate (12 - length ws) []"
    using assms shown_words_join [of ws] shown_words_empty by (cases "ws = []") auto
  moreover obtain k where k: "12 - length ws = Suc k" using assms(2) by (metis Suc_diff_Suc)
  ultimately have "(shown_words (join_with CHR '' '' ws))[length ws := w] = (ws @ [w]) @ replicate k []"
    by (simp add: list_update_append)
  moreover have "map trim ((ws @ [w]) @ replicate k []) = (ws @ [w]) @ replicate k []"
    using assms(1) trim_words [of ws] by simp
  ultimately show ?thesis using trim_join [of "ws @ [w]" k] assms(1) by (simp add: type_word_def)
qed

text \<open>Typing the words \<open>ws\<close> into the inputs 1, 2, ... .\<close>

definition type_all :: "string list \<Rightarrow> string" where
  "type_all ws = foldl (\<lambda>m (i, w). type_word i w m) [] (enumerate 0 ws)"

lemma type_all_join: "list_all a_word ws \<Longrightarrow> length ws \<le> 12 \<Longrightarrow> type_all ws = join_with CHR '' '' ws"
proof (induction ws rule: rev_induct)
  case (snoc w ws)
  then show ?case using type_next [of ws w] by (simp add: type_all_def enumerate_append_eq)
qed (simp add: type_all_def)

text \<open>Typing a recovery phrase. Twelve words typed one after the other into the twelve inputs are
  stored as the phrase of exactly these words, which the page then shows and accepts when it is valid.
  A word typed first into any later input, however, does not stay there: it becomes the first word, and
  the input it was typed into is empty again.\<close>

lemma phrase_typing:
  assumes "list_all a_word ws" and "length ws = 12" and "a_word v" and "0 < i" and "i < 12"
  shows "type_all ws = join_with CHR '' '' ws \<and> shown_words (type_all ws) = ws \<and>
    (valid_phrase validateMnemonic (type_all ws) \<longleftrightarrow> validateMnemonic (type_all ws)) \<and>
    shown_words (type_word i v []) ! 0 = v \<and> shown_words (type_word i v []) ! i = []"
proof -
  have j: "type_all ws = join_with CHR '' '' ws" using type_all_join assms(1,2) by simp
  have sw: "shown_words (type_all ws) = ws" using shown_words_join [of ws] assms(1,2) j by (cases ws) simp_all
  have "split_on CHR '' '' (type_all ws) = ws"
    unfolding j using assms(1,2) word_no_space by (intro split_on_join) (auto simp: list_all_iff)
  then have vp: "valid_phrase validateMnemonic (type_all ws) \<longleftrightarrow> validateMnemonic (type_all ws)"
    using assms(2) by (simp add: valid_phrase_def)
  have "(replicate 12 [])[i := v] = replicate i [] @ v # replicate (11 - i) ([]::string)"
    using assms(5) by (simp add: upd_conv_take_nth_drop min_def)
  then have "map trim ((shown_words [])[i := v]) = replicate i [] @ (v # replicate (11 - i) [])"
    using assms(3) by (simp add: shown_words_empty)
  then have "type_word i v [] = trim (replicate i CHR '' '' @ join_with CHR '' '' ([v] @ replicate (11 - i) []))"
    by (simp add: type_word_def join_blank_front)
  also have "\<dots> = v"
    using trim_blank [of "replicate i CHR '' ''"] trim_join [of "[v]" "11 - i"] assms(3)
    by (simp add: list_all_iff is_space_def)
  finally have tv: "type_word i v [] = v" .
  have "shown_words v = v # replicate 11 []" using shown_words_join [of "[v]"] assms(3) by simp
  then show ?thesis using j sw vp tv assms(4,5) by (simp add: nth_Cons')
qed

lemma phrase_typing_witness:
  "type_all (replicate 12 ''abandon'') = join_with CHR '' '' (replicate 12 ''abandon'') \<and>
   shown_words (type_word 2 ''zoo'' []) ! 0 = ''zoo''"
  using phrase_typing [of "replicate 12 ''abandon''" "''zoo''" 2 "\<lambda>_. True"]
  by (simp add: a_word_def is_space_def list_all_iff)

section \<open>The phrase of the new wallet\<close>

lemmas setup_page_defs =
  update_info_def setup_to_def ensure_phrase_def stored_phrase_def stored_backend_def updateNodeInfo_def
  merge_node_info_def empty_node_info_def over_def

lemma LDKForm_run:
  "ui_st (snd (LDKForm g w)) = (ui_st w)\<lparr>
     sa_store := (sa_store (ui_st w))\<lparr>ss_nodeInfo := (ss_nodeInfo (sa_store (ui_st w)))\<lparr>
       sni_backendType := Some LDK,
       sni_mnemonic := (if truthy_str (stored_phrase (ui_st w)) then stored_phrase (ui_st w) else Some g)\<rparr>\<rparr>,
     sa_goto := Some ''/setup/security''\<rparr>"
  by (auto simp: LDKForm_def setup_page_defs effect_defs)

lemma BarkForm_run:
  "ui_st (snd (BarkForm g w)) = (ui_st w)\<lparr>
     sa_store := (sa_store (ui_st w))\<lparr>ss_nodeInfo := (ss_nodeInfo (sa_store (ui_st w)))\<lparr>
       sni_backendType := Some BARK,
       sni_mnemonic := (if truthy_str (stored_phrase (ui_st w)) then stored_phrase (ui_st w) else Some g)\<rparr>\<rparr>,
     sa_goto := Some ''/setup/security''\<rparr>"
  by (auto simp: BarkForm_def setup_page_defs effect_defs)

lemma import_run:
  assumes "valid_phrase validateMnemonic m"
  shows "stored_phrase (ui_st (snd (import_onSubmit validateMnemonic later m w))) = Some m"
    and "ss_hasImportedMnemonic (sa_store (ui_st (snd (import_onSubmit validateMnemonic later m w))))"
  using assms by (simp_all add: import_onSubmit_def setup_page_defs setHasImportedMnemonic_def effect_defs)

text \<open>
  Importing a valid phrase, going back to the advanced page and creating a wallet there instead.
\<close>

definition import_then_new :: "(string \<Rightarrow> bool) \<Rightarrow> string \<Rightarrow> string \<Rightarrow> string \<Rightarrow> setup_app ui \<Rightarrow> setup_app" where
  "import_then_new validateMnemonic later m generated w =
     (let w1 = snd (import_onSubmit validateMnemonic later m w);
          w2 = w1\<lparr>ui_st := advanced_effect (ui_st w1)\<rparr>
      in ui_st (snd (LDKForm generated w2)))"

text \<open>The phrase of the new wallet. The LDK and Bark forms leave a phrase in the store: the one that
  is stored, else the generated one. So a phrase that was imported stays in use when the user goes back
  and creates a new wallet instead, while the page no longer says that the phrase was imported. The Cashu
  form leaves no phrase although its configuration says that it has one, and the security page promises
  that the balance can be recovered with it.\<close>

lemma phrase_of_the_wallet:
  assumes "generated \<noteq> []" and "valid_phrase validateMnemonic m"
  shows "stored_phrase (ui_st (snd (LDKForm generated w))) =
      Some (if truthy_str (stored_phrase (ui_st w)) then the (stored_phrase (ui_st w)) else generated) \<and>
    stored_phrase (ui_st (snd (BarkForm generated w))) =
      Some (if truthy_str (stored_phrase (ui_st w)) then the (stored_phrase (ui_st w)) else generated) \<and>
    stored_phrase (import_then_new validateMnemonic later m generated w) = Some m \<and>
    security_text (sa_store (import_then_new validateMnemonic later m generated w)) info \<noteq> ImportedPhrase \<and>
    stored_phrase (ui_st (snd (CashuForm url \<lparr>ui_st = init_setup, ui_log = []\<rparr>))) = None \<and>
    security_text (sa_store (ui_st (snd (CashuForm url \<lparr>ui_st = init_setup, ui_log = []\<rparr>)))) info = PhraseOnly False False \<and>
    btc_hasMnemonic (backendTypeConfigs CASHU)"
proof -
  have "m \<noteq> []" using assms(2) by (auto simp: valid_phrase_def)
  then have new: "stored_phrase (import_then_new validateMnemonic later m generated w) = Some m"
    "\<not> ss_hasImportedMnemonic (sa_store (import_then_new validateMnemonic later m generated w))"
    using import_run(1) [OF assms(2), of later w]
    by (simp_all add: import_then_new_def LDKForm_run advanced_effect_def setHasImportedMnemonic_def stored_phrase_def Let_def)
  have run: "stored_phrase (ui_st (snd (LDKForm generated w))) =
      Some (if truthy_str (stored_phrase (ui_st w)) then the (stored_phrase (ui_st w)) else generated)"
    "stored_phrase (ui_st (snd (BarkForm generated w))) =
      Some (if truthy_str (stored_phrase (ui_st w)) then the (stored_phrase (ui_st w)) else generated)"
    by (auto simp: LDKForm_run BarkForm_run stored_phrase_def truthy_str_def split: option.splits)
  have "stored_phrase (ui_st (snd (CashuForm url \<lparr>ui_st = init_setup, ui_log = []\<rparr>))) = None"
    "security_text (sa_store (ui_st (snd (CashuForm url \<lparr>ui_st = init_setup, ui_log = []\<rparr>)))) info = PhraseOnly False False"
    by (simp_all add: CashuForm_def setup_page_defs init_setup_def useSetupStore_def effect_defs security_text_def)
  then show ?thesis using new run by (auto simp: security_text_def Let_def)
qed

lemma phrase_of_the_wallet_witness:
  "stored_phrase (import_then_new (\<lambda>_. True) ''2025'' (join_with CHR '' '' (replicate 12 ''zoo'')) ''new''
     \<lparr>ui_st = init_setup, ui_log = []\<rparr>) = Some (join_with CHR '' '' (replicate 12 ''zoo''))"
proof -
  have "valid_phrase (\<lambda>_. True) (join_with CHR '' '' (replicate 12 ''zoo''))" by code_simp
  from phrase_of_the_wallet [OF _ this, of "''new''" _ "''2025''"] show ?thesis by blast
qed

section \<open>The finish page\<close>

definition setup_request :: "setup_app \<Rightarrow> effect" where
  "setup_request app = EFetch ''POST'' ''/api/setup'' (Some (setup_json app))"

definition start_request :: "setup_app \<Rightarrow> effect" where
  "start_request app =
     EFetch ''POST'' ''/api/start'' (Some (JObj [(''unlockPassword'', JStr (ss_unlockPassword (sa_store app)))]))"

definition is_poll :: "finish_event \<Rightarrow> bool" where
  "is_poll e = (case e of FinPolled _ \<Rightarrow> True | FinTimeout \<Rightarrow> False)"

text \<open>What has been sent and what is shown once the page has polled.\<close>

definition finish_ok :: "setup_app \<Rightarrow> finish_ui ui \<Rightarrow> bool" where
  "finish_ok app w =
     (if fi_hasFetched (ui_st w)
      then (fetches (ui_log w) = [setup_request app] \<and> fi_connectionError (ui_st w) \<or>
            fetches (ui_log w) = [setup_request app, start_request app]) \<and>
           (fi_loading (ui_st w) \<or> fi_connectionError (ui_st w))
      else fetches (ui_log w) = [] \<and> \<not> fi_loading (ui_st w))"

lemma finish_error_run:
  "\<exists>s l. finish_error_effect info w = (Inr (), \<lparr>ui_st = s, ui_log = ui_log w @ l\<rparr>) \<and> fetches l = [] \<and>
     fi_hasFetched s = fi_hasFetched (ui_st w) \<and>
     (s = ui_st w \<or> fi_connectionError s \<and> \<not> fi_loading s)"
  by (cases w) (simp add: finish_error_effect_def effect_defs finish_failed_def)

lemma finish_setup_run:
  assumes "\<not> fi_hasFetched (ui_st w)" and "fetches (ui_log w) = []"
  shows "finish_ok app (snd (finish_setup_effect srv app w)) \<and> fi_hasFetched (ui_st (snd (finish_setup_effect srv app w)))"
  using assms
  by (auto simp: finish_setup_effect_def getS_then finish_ok_def finishSetup_def effect_defs request_error_def
      handleRequestError_def setup_request_def start_request_def finish_failed_def split: sum.splits)

lemma finish_poll_run:
  assumes "finish_ok app w"
  shows "finish_ok app (finish_step srv app w (FinPolled info)) \<and>
    fi_hasFetched (ui_st (finish_step srv app w (FinPolled info)))"
proof -
  obtain s l where e: "finish_error_effect info w = (Inr (), \<lparr>ui_st = s, ui_log = ui_log w @ l\<rparr>)" "fetches l = []"
    "fi_hasFetched s = fi_hasFetched (ui_st w)" "s = ui_st w \<or> fi_connectionError s \<and> \<not> fi_loading s"
    using finish_error_run [of info w] by blast
  have step: "finish_step srv app w (FinPolled info) = snd (finish_setup_effect srv app \<lparr>ui_st = s, ui_log = ui_log w @ l\<rparr>)"
    by (simp add: finish_step_def andDo_def andThen_def e(1))
  show ?thesis
  proof (cases "fi_hasFetched (ui_st w)")
    case True
    then show ?thesis using assms e step by (auto simp: finish_setup_effect_def getS_then ret_def finish_ok_def)
  next
    case False
    then show ?thesis using finish_setup_run [of "\<lparr>ui_st = s, ui_log = ui_log w @ l\<rparr>" app srv] assms e step
      by (simp add: finish_ok_def)
  qed
qed

lemma finish_timeout_run:
  assumes "finish_ok app w"
  shows "finish_ok app (finish_step srv app w FinTimeout)"
    and "fi_hasFetched (ui_st (finish_step srv app w FinTimeout)) = fi_hasFetched (ui_st w)"
    and "fi_hasFetched (ui_st w) \<Longrightarrow> fi_connectionError (ui_st (finish_step srv app w FinTimeout))"
  using assms by (auto simp: finish_step_def finish_failed_def finish_ok_def)

interpretation finish_page: invariant_machine "finish_step srv app" "finish_ok app" for srv app
proof
  fix w :: "finish_ui ui" and e :: finish_event
  assume "finish_ok app w"
  then show "finish_ok app (finish_step srv app w e)"
    using finish_poll_run finish_timeout_run(1) by (cases e) auto
qed

lemma finish_starts_ok: "finish_ok app \<lparr>ui_st = init_finish t st, ui_log = []\<rparr>"
  by (simp add: finish_ok_def init_finish_def)

lemma finish_has_fetched:
  "fi_hasFetched (ui_st (foldl (finish_step srv app) \<lparr>ui_st = init_finish t st, ui_log = []\<rparr> events)) = list_ex is_poll events"
proof (induction events rule: rev_induct)
  case (snoc e events)
  have "finish_ok app (foldl (finish_step srv app) \<lparr>ui_st = init_finish t st, ui_log = []\<rparr> events)"
    by (rule finish_page.run_inv [OF finish_starts_ok])
  then show ?case using snoc finish_poll_run finish_timeout_run(2) by (cases e) (auto simp: is_poll_def)
qed (simp add: init_finish_def)

text \<open>C39: The end of the setup. Whatever is polled and answered, in any order with the timer, the finish
  page sends the setup exactly once and after it the start at most once; when no start was sent it shows
  the error. It never waits for ever: after the first poll it shows the error or the
  timer runs, and when that fires the error is shown.\<close>

theorem setup_ends:
  "let w = foldl (finish_step srv app) \<lparr>ui_st = init_finish t st, ui_log = []\<rparr> events
   in if list_ex is_poll events
      then (fetches (ui_log w) = [setup_request app] \<and> fi_connectionError (ui_st w) \<or>
            fetches (ui_log w) = [setup_request app, start_request app]) \<and>
           (fi_loading (ui_st w) \<or> fi_connectionError (ui_st w)) \<and>
           fi_connectionError (ui_st (finish_step srv app w FinTimeout))
      else fetches (ui_log w) = []"
proof -
  let ?w = "foldl (finish_step srv app) \<lparr>ui_st = init_finish t st, ui_log = []\<rparr> events"
  have ok: "finish_ok app ?w" by (rule finish_page.run_inv [OF finish_starts_ok])
  show ?thesis
    using ok finish_timeout_run(3) [OF ok] finish_has_fetched [of srv app t st events]
    by (auto simp: finish_ok_def Let_def)
qed

end
