(* ===== verification/Node.thy ===== *)
theory Node imports NewChannel Receive
begin

text \<open>
  The node: \<open>screens/channels/Channels.tsx\<close> with the alerts and rows under \<open>components/channels/\<close>, the
  dialogs that close, rebalance and price a channel or clear the routing data
  (\<open>components/*DialogContent.tsx\<close>), and the peers (\<open>screens/peers/\<close>). Fractions are exact rationals.
\<close>

section \<open>The health of the node\<close>

text \<open>The balance of a channel between 0 and 1; a channel without capacity gives \<open>NaN\<close>.\<close>

definition channelCapacityMsat :: "Channel \<Rightarrow> int" where
  "channelCapacityMsat c = ch_localBalanceMsat c + ch_remoteBalanceMsat c"

definition actualBalance :: "Channel \<Rightarrow> rat" where
  "actualBalance c =
     of_int (min (ch_localBalanceMsat c) (ch_remoteBalanceMsat c)) / (of_int (channelCapacityMsat c) / 2)"

definition totalChannelCapacitySat :: "Channel list \<Rightarrow> rat" where
  "totalChannelCapacitySat cs = sum_list (map (\<lambda>c. of_int (channelCapacityMsat c) / 1000) cs)"

definition averageChannelBalance :: "Channel list \<Rightarrow> rat" where
  "averageChannelBalance cs = sum_list (map actualBalance cs) / of_nat (if cs = [] then 1 else length cs)"

definition numUniqueChannelPartners :: "Channel list \<Rightarrow> nat" where
  "numUniqueChannelPartners cs = length (remdups (map ch_remotePubkey cs))"

definition nodeHealth :: "Channel list \<Rightarrow> int" where
  "nodeHealth cs =
     \<lceil>of_nat (numUniqueChannelPartners cs) * (100 / 2) * (min (totalChannelCapacitySat cs) 1000000 / 1000000) *
      (9 / 10 + averageChannelBalance cs * (1 / 10))\<rceil>"

definition getNodeHealth :: "Channel list \<Rightarrow> jsnum" where
  "getNodeHealth cs =
     (if list_ex (\<lambda>c. channelCapacityMsat c = 0) cs then NaN
      else if nodeHealth cs > 95 then Fin 100 else Fin (of_int (nodeHealth cs)))"

section \<open>Channels that stay unconfirmed\<close>

definition needs_check :: "Channel \<Rightarrow> bool" where
  "needs_check c =
     (ch_status c = ChOnline \<and> ch_confirmationsRequired c = Some 0 \<and> \<not> truthy_int (ch_confirmations c))"

text \<open>\<open>dayjs().diff(timestamp * 1000, "hours")\<close>, cut towards 0; the clock is in milliseconds.\<close>

definition hours_since :: "int \<Rightarrow> int \<Rightarrow> int" where
  "hours_since now timestamp =
     (let d = now - timestamp * 1000 in if d \<ge> 0 then d div 3600000 else - ((- d) div 3600000))"

definition no_mempool_message :: string where
  "no_mempool_message = ''Channel transaction not in the mempool yet''"

definition tx_confirmed :: "json \<Rightarrow> ('s, bool) act" where
  "tx_confirmed t =
     (case jget ''status'' t of
        None \<Rightarrow> throw ''Cannot read properties of undefined''
      | Some st \<Rightarrow> ret (case jget ''confirmed'' st of Some j \<Rightarrow> json_truthy j | None \<Rightarrow> False))"

definition first_timestamp :: "json option \<Rightarrow> int option" where
  "first_timestamp r = (case r of Some (JArr (JNum t # _)) \<Rightarrow> Some t | _ \<Rightarrow> None)"

definition check_channel :: "server \<Rightarrow> int \<Rightarrow> Channel \<Rightarrow> ('s, LongUnconfirmedZeroConfChannel option) act" where
  "check_channel srv now c =
     tryCatch
       (andThen (api srv ''GET'' (''/api/mempool?endpoint=/tx/'' @ ch_fundingTxId c) None) (\<lambda>tx.
          case tx of
            None \<Rightarrow> throw ''No response''
          | Some t \<Rightarrow>
              if \<not> json_truthy t then throw ''No response''
              else andThen (tx_confirmed t) (\<lambda>confirmed.
                if confirmed then ret None
                else andThen
                  (api srv ''GET'' (''/api/mempool?endpoint=/v1/transaction-times?txId[]='' @ ch_fundingTxId c) None)
                  (\<lambda>stamps.
                     case first_timestamp stamps of
                       None \<Rightarrow> throw ''No response''
                     | Some timestamp \<Rightarrow>
                         (let unconfirmedHours = hours_since now timestamp
                          in if unconfirmedHours = 0 then ret None
                             else ret (Some \<lparr>luz_id = ch_id c,
                               luz_message = ''Unconfirmed for '' @ show_int unconfirmedHours @ '' hours''\<rparr>))))))
       (\<lambda>e. ret (Some \<lparr>luz_id = ch_id c, luz_message = no_mempool_message\<rparr>))"

fun find_unconfirmed :: "server \<Rightarrow> int \<Rightarrow> Channel list \<Rightarrow> ('s, LongUnconfirmedZeroConfChannel list) act" where
  "find_unconfirmed srv now [] = ret []"
| "find_unconfirmed srv now (c # cs) =
     (if \<not> needs_check c then find_unconfirmed srv now cs
      else andThen (check_channel srv now c) (\<lambda>r.
             andThen (find_unconfirmed srv now cs) (\<lambda>rs.
               ret (case r of Some x \<Rightarrow> x # rs | None \<Rightarrow> rs))))"

text \<open>The state is the list that is shown.\<close>

definition findUnconfirmedChannels ::
    "server \<Rightarrow> int \<Rightarrow> Channel list option \<Rightarrow> (LongUnconfirmedZeroConfChannel list, unit) act" where
  "findUnconfirmedChannels srv now channels =
     (case channels of
        None \<Rightarrow> ret ()
      | Some cs \<Rightarrow> andThen (find_unconfirmed srv now cs) (\<lambda>found. setS (\<lambda>_. found)))"

section \<open>Balances and alerts\<close>

definition low_receiving_channels :: "InfoResponse option \<Rightarrow> Channel list option \<Rightarrow> bool" where
  "low_receiving_channels info channels =
     (nullish channels [] \<noteq> [] \<and>
      \<not> (case info of Some i \<Rightarrow> info_jitChannelsEnabled i \<and> truthy_str (info_jitChannelsLiquiditySource i) | None \<Rightarrow> False) \<and>
      list_all (\<lambda>c. of_int (ch_remoteBalanceMsat c) < of_int (channelCapacityMsat c) * (2 / 10 :: rat)) (nullish channels []))"

definition total_local_msat :: "Channel list option \<Rightarrow> int" where
  "total_local_msat channels = sum_list (map ch_localBalanceMsat (nullish channels []))"

definition total_reserve_msat :: "Channel list option \<Rightarrow> int" where
  "total_reserve_msat channels =
     sum_list (map (\<lambda>c. min (ch_localBalanceMsat c) (ch_unspendablePunishmentReserveSat c * 1000)) (nullish channels []))"

definition low_reserve_warning :: "Channel list option \<Rightarrow> OnchainBalanceResponse \<Rightarrow> bool" where
  "low_reserve_warning channels b = (nullish channels [] \<noteq> [] \<and> ob_reservedSat b + ob_spendableSat b < 25000)"

definition incoming_onchain_msat :: "OnchainBalanceResponse \<Rightarrow> int option" where
  "incoming_onchain_msat b =
     (if ob_totalSat b > ob_spendableSat b then Some ((ob_totalSat b - ob_spendableSat b) * 1000) else None)"

definition can_withdraw_menu :: "BalancesResponse option \<Rightarrow> bool" where
  "can_withdraw_menu balances =
     ((case balances of Some b \<Rightarrow> ob_spendableSat (bal_onchain b) | None \<Rightarrow> 0) > ONCHAIN_DUST_SATS)"

definition connection_uri :: "NodeConnectionInfo \<Rightarrow> string option" where
  "connection_uri n =
     (if nci_address n \<noteq> [] \<and> nci_port n \<noteq> 0
      then Some (nci_pubkey n @ ''@'' @ nci_address n @ '':'' @ show_int (nci_port n)) else None)"

definition pending_closed_alert :: "OnchainBalanceResponse \<Rightarrow> (int \<times> PendingBalancesDetails list) option" where
  "pending_closed_alert b =
     (if ob_pendingBalancesFromChannelClosuresSat b \<le> 0 then None
      else Some (ob_pendingBalancesFromChannelClosuresSat b * 1000,
                 ob_pendingBalancesDetails b @ ob_pendingSweepBalancesDetails b))"

text \<open>The texts of the alarms; reading details of another shape throws, and the kind is shown.\<close>

definition kind_text :: "HealthAlarmKind \<Rightarrow> string" where
  "kind_text k =
     (case k of alby_service \<Rightarrow> ''alby_service'' | node_not_ready \<Rightarrow> ''node_not_ready''
      | channels_offline \<Rightarrow> ''channels_offline'' | nostr_relay_offline \<Rightarrow> ''nostr_relay_offline''
      | vss_no_subscription \<Rightarrow> ''vss_no_subscription'')"

definition incident_text :: "json \<Rightarrow> string" where
  "incident_text j =
     nullish (jget_str ''name'' j) ''undefined'' @ '' ('' @ nullish (jget_str ''status'' j) ''undefined'' @ '')''"

definition join_with :: "string \<Rightarrow> string list \<Rightarrow> string" where
  "join_with sep xs = (case xs of [] \<Rightarrow> [] | x # ys \<Rightarrow> x @ concat (map (\<lambda>y. sep @ y) ys))"

definition getAlarmTitle :: "HealthAlarm \<Rightarrow> string" where
  "getAlarmTitle alarm =
     (case alarm_kind alarm of
        alby_service \<Rightarrow>
          (case alarm_rawDetails alarm of
             Some (JArr js) \<Rightarrow> ''Alby Services: '' @ join_with '', '' (map incident_text js)
           | None \<Rightarrow> ''Alby Services: undefined''
           | Some JNull \<Rightarrow> ''Alby Services: undefined''
           | _ \<Rightarrow> kind_text alby_service)
      | channels_offline \<Rightarrow> ''One or more channels are offline''
      | node_not_ready \<Rightarrow> ''Node is not ready''
      | nostr_relay_offline \<Rightarrow>
          (case alarm_rawDetails alarm of
             Some (JArr js) \<Rightarrow>
               ''Could not connect to relay: '' @
               join_with '', '' (map (\<lambda>j. case j of JStr s \<Rightarrow> s | JNull \<Rightarrow> [] | _ \<Rightarrow> json_stringify j) js)
           | _ \<Rightarrow> kind_text nostr_relay_offline)
      | vss_no_subscription \<Rightarrow>
          ''Your lightning channel data is stored encrypted by Alby's Versioned Storage Service which is a paid feature. '' @
          ''Restart your subscription or send your funds to another wallet as soon as possible.'')"

definition health_alert :: "HealthAlarm list option \<Rightarrow> string list option" where
  "health_alert alarms =
     (case alarms of None \<Rightarrow> None | Some [] \<Rightarrow> None | Some as \<Rightarrow> Some (map getAlarmTitle as))"

text \<open>Sizes of channel monitors: peer, bytes, and whether the node warns.\<close>

definition largest_monitor :: "(string \<times> int \<times> bool) list \<Rightarrow> (string \<times> int \<times> bool) option" where
  "largest_monitor ms = find (\<lambda>(p, bytes, w). find (\<lambda>(q, other, v). other > bytes) ms = None) ms"

definition monitor_alert :: "BackendType option \<Rightarrow> (string \<times> int \<times> bool) list option \<Rightarrow> (string \<times> int) option" where
  "monitor_alert backend sizes =
     (if backend \<noteq> Some LDK then None
      else (case sizes of
              None \<Rightarrow> None
            | Some ms \<Rightarrow>
                (case largest_monitor ms of
                   Some (pubkey, bytes, True) \<Rightarrow> Some (pubkey, bytes div 1000000)
                 | _ \<Rightarrow> None)))"

definition channel_without_peer :: "BackendType option \<Rightarrow> Peer list option \<Rightarrow> Channel list option \<Rightarrow> Channel option" where
  "channel_without_peer backend peers channels =
     (if backend \<noteq> Some LDK then None
      else find (\<lambda>c. \<not> list_ex (\<lambda>p. peer_nodeId p = ch_remotePubkey c) (nullish peers [])) (nullish channels []))"

datatype channel_warning = NoWarning | ChannelError string | StillOpening "int option" "int option" | IsOffline | ReceivingLow

definition ChannelWarning :: "Channel \<Rightarrow> channel_warning" where
  "ChannelWarning c =
     (if truthy_str (ch_error c) then ChannelError (the (ch_error c))
      else if ch_status c = ChOpening then StillOpening (ch_confirmations c) (ch_confirmationsRequired c)
      else if ch_status c = ChOffline then IsOffline
      else if (of_int (ch_localSpendableBalanceMsat c) :: rat) > of_int (channelCapacityMsat c) * (9 / 10) then ReceivingLow
      else NoWarning)"

definition duplicate_channel_alert :: "Channel list option \<Rightarrow> string option \<Rightarrow> bool" where
  "duplicate_channel_alert channels pubkey =
     (truthy_str pubkey \<and> find (\<lambda>c. ch_remotePubkey c = the pubkey) (nullish channels []) \<noteq> None)"

text \<open>\<open>Some True\<close> proposes to swap out, \<open>Some False\<close> to swap in.\<close>

definition SwapAlert :: "Channel list option \<Rightarrow> BalancesResponse option \<Rightarrow> int \<Rightarrow> swap_direction option \<Rightarrow> bool option" where
  "SwapAlert channels balances minChannels swapType =
     (case (channels, balances) of
        (Some cs, Some b) \<Rightarrow>
          if minChannels \<noteq> 0 \<and> int (length cs) < minChannels then None
          else Some (case swapType of
                       Some d \<Rightarrow> d = SwapDirOut
                     | None \<Rightarrow> lb_totalSpendableMsat (bal_lightning b) > lb_totalReceivableMsat (bal_lightning b))
      | _ \<Rightarrow> None)"

section \<open>The list of channels\<close>

text \<open>
  The comparison never says that two channels are equal, so the order of channels with the same
  capacity depends on the browser: its sort is an argument.
\<close>

definition by_capacity :: "Channel \<Rightarrow> Channel \<Rightarrow> int" where
  "by_capacity a b = (if channelCapacityMsat a > channelCapacityMsat b then -1 else 1)"

datatype status_badge = BadgeUnconfirmed string | BadgeOnline | BadgeOpening | BadgeOffline

record channel_row =
  cr_channel :: Channel
  cr_unconfirmed :: "LongUnconfirmedZeroConfChannel option"
  cr_hasMultipleChannels :: bool

definition channel_rows ::
    "((Channel \<Rightarrow> Channel \<Rightarrow> int) \<Rightarrow> Channel list \<Rightarrow> Channel list) \<Rightarrow> Channel list \<Rightarrow>
     LongUnconfirmedZeroConfChannel list \<Rightarrow> channel_row list" where
  "channel_rows js_sort channels longUnconfirmed =
     map (\<lambda>c. \<lparr>cr_channel = c, cr_unconfirmed = find (\<lambda>uc. luz_id uc = ch_id c) longUnconfirmed,
               cr_hasMultipleChannels = length channels > 1\<rparr>)
       (js_sort by_capacity channels)"

definition row_badge :: "channel_row \<Rightarrow> status_badge" where
  "row_badge r =
     (case ch_status (cr_channel r) of
        ChOnline \<Rightarrow> (case cr_unconfirmed r of Some uc \<Rightarrow> BadgeUnconfirmed (luz_message uc) | None \<Rightarrow> BadgeOnline)
      | ChOpening \<Rightarrow> BadgeOpening
      | ChOffline \<Rightarrow> BadgeOffline)"

text \<open>The reserve column: the part that is filled, while it is not full, and the whole.\<close>

definition row_reserve :: "Channel \<Rightarrow> int option \<times> int" where
  "row_reserve c =
     (let reserve = ch_unspendablePunishmentReserveSat c * 1000
      in (if ch_localBalanceMsat c < reserve then Some (min (ch_localBalanceMsat c) reserve) else None, reserve))"

definition offers_rebalance :: "channel_row \<Rightarrow> bool" where
  "offers_rebalance r =
     (ch_status (cr_channel r) = ChOnline \<and>
      ch_remoteBalanceMsat (cr_channel r) > ch_localSpendableBalanceMsat (cr_channel r) \<and> cr_hasMultipleChannels r)"

datatype channel_dialog = CloseChannelDialog | RoutingFeeDialog | RebalanceDialog

text \<open>Opening the swap dialog closes the channel's dialog.\<close>

definition swap_param_effect :: "params \<Rightarrow> channel_dialog option \<Rightarrow> channel_dialog option" where
  "swap_param_effect searchParams dialog =
     (if (''swap'', ''true'') \<in> set searchParams then None else dialog)"

definition menu_choice :: "channel_row \<Rightarrow> channel_dialog \<Rightarrow> channel_dialog option \<Rightarrow> channel_dialog option" where
  "menu_choice r d dialog =
     (case d of
        RebalanceDialog \<Rightarrow> if offers_rebalance r then Some d else dialog
      | RoutingFeeDialog \<Rightarrow> if ch_public (cr_channel r) then Some d else dialog
      | CloseChannelDialog \<Rightarrow> Some d)"

section \<open>Closing a channel\<close>

record close_dialog =
  cd_force :: bool
  cd_step :: int
  cd_fundingTxId :: string

definition open_close_dialog :: "Channel \<Rightarrow> close_dialog" where
  "open_close_dialog channel = \<lparr>cd_force = False, cd_step = (if ch_active channel then 2 else 1), cd_fundingTxId = []\<rparr>"

definition close_url :: "Channel \<Rightarrow> bool \<Rightarrow> string" where
  "close_url channel force =
     ''/api/peers/'' @ ch_remotePubkey channel @ ''/channels/'' @ ch_id channel @ ''?force='' @
     (if force then ''true'' else ''false'')"

definition closeChannel :: "server \<Rightarrow> Channel list option \<Rightarrow> Channel \<Rightarrow> (close_dialog, unit) act" where
  "closeChannel srv channels channel =
     andThen (getS id) (\<lambda>s.
       tryCatch
         (andThen (api srv ''DELETE'' (close_url channel (cd_force s)) None) (\<lambda>response.
            if \<not> (case response of Some j \<Rightarrow> json_truthy j | None \<Rightarrow> False) then throw ''Error closing channel''
            else andDo
              (case find (\<lambda>c. ch_id c = ch_id channel \<and> ch_remotePubkey c = ch_remotePubkey channel) (nullish channels []) of
                 Some closedChannel \<Rightarrow>
                   setS (\<lambda>u. u\<lparr>cd_fundingTxId := ch_fundingTxId closedChannel, cd_step := cd_step s + 1\<rparr>)
               | None \<Rightarrow> ret ())
              (toast ''Successfully closed channel'')))
         (\<lambda>error. emit (EToastError (''Something went wrong: '' @ error_text error) None)))"

text \<open>The channels are those polled last. Every step shows its own buttons.\<close>

datatype close_event = CloseContinue | CloseType | CloseConfirm "Channel list option" | CloseDone

definition close_step :: "server \<Rightarrow> Channel \<Rightarrow> close_dialog ui \<Rightarrow> close_event \<Rightarrow> close_dialog ui" where
  "close_step srv channel w e =
     (let step = cd_step (ui_st w)
      in case e of
           CloseContinue \<Rightarrow> if step = 1 \<or> step = 2 then snd (setS (\<lambda>s. s\<lparr>cd_step := cd_step s + 1\<rparr>) w) else w
         | CloseType \<Rightarrow> if step = 3 then snd (setS (\<lambda>s. s\<lparr>cd_force := \<not> cd_force s\<rparr>) w) else w
         | CloseConfirm channels \<Rightarrow> if step = 3 then snd (closeChannel srv channels channel w) else w
         | CloseDone \<Rightarrow>
             if step = 4 then snd (andDo (emit (EMutate ''/api/channels'')) (emit (EMutate ''/api/balances'')) w) else w)"

section \<open>Rebalancing\<close>

record rebalance_dialog =
  rb_amountSat :: string
  rb_isRebalancing :: bool
  rb_closed :: bool

definition peer_channels :: "string \<Rightarrow> Channel list \<Rightarrow> Channel list" where
  "peer_channels pubkey cs = filter (\<lambda>c. ch_remotePubkey c = pubkey) cs"

text \<open>\<open>Math.min()\<close> and \<open>Math.max()\<close> of nothing are the infinities.\<close>

definition rebalance_min :: "string \<Rightarrow> Channel list \<Rightarrow> jsnum" where
  "rebalance_min pubkey cs =
     (case map ch_localSpendableBalanceSat (peer_channels pubkey cs) of
        [] \<Rightarrow> PosInf
      | x # xs \<Rightarrow> Fin (of_int (max 10000 (foldl min x xs + 1))))"

definition rebalance_max :: "string \<Rightarrow> Channel list \<Rightarrow> jsnum" where
  "rebalance_max pubkey cs =
     (case map ch_remoteBalanceSat (peer_channels pubkey cs) of
        [] \<Rightarrow> NegInf
      | x # xs \<Rightarrow> Fin (of_int (foldl max x xs)))"

definition rebalance_fee_msat :: "string \<Rightarrow> int option" where
  "rebalance_fee_msat amountSat =
     (if amountSat = [] then None
      else map_option (\<lambda>n. \<lfloor>of_int n * (3 / 1000) * (1000 :: rat)\<rfloor>) (js_parseInt amountSat))"

definition rebalance_alerts :: "string \<Rightarrow> Channel list \<Rightarrow> bool \<times> bool" where
  "rebalance_alerts pubkey cs =
     (length (peer_channels pubkey cs) > 1,
      list_ex (\<lambda>c. ch_remotePubkey c \<noteq> pubkey \<and>
          ch_localSpendableBalanceMsat c <
            (case find (\<lambda>d. ch_remotePubkey d = pubkey) cs of Some d \<Rightarrow> ch_localSpendableBalanceMsat d | None \<Rightarrow> 0)) cs)"

definition rebalance_handleSubmit :: "server \<Rightarrow> string \<Rightarrow> bool \<Rightarrow> (rebalance_dialog, unit) act" where
  "rebalance_handleSubmit srv receiveThroughNodePubkey channels =
     andThen (getS id) (\<lambda>s.
       andDo (setS (\<lambda>u. u\<lparr>rb_isRebalancing := True\<rparr>))
       (andDo
         (tryCatch
           (andDo (require channels ''channels not loaded'')
           (andThen
             (api srv ''POST'' ''/api/channels/rebalance''
               (Some (JObj [(''receiveThroughNodePubkey'', JStr receiveThroughNodePubkey),
                            (''amountSat'', int_json (js_parseInt (rb_amountSat s)))])))
             (\<lambda>response.
               case response of
                 Some j \<Rightarrow>
                   if json_truthy j
                   then andDo (emit (EMutate ''/api/channels''))
                     (andDo (emit (EMutate ''/api/balances''))
                     (andDo (toast (''Successfully rebalanced channels. Total fee: '' @
                               (case jget_int ''totalFeeSat'' j of Some n \<Rightarrow> show_int n | None \<Rightarrow> ''undefined'') @ '' sats''))
                            (setS (\<lambda>u. u\<lparr>rb_closed := True\<rparr>))))
                   else throw ''No rebalance response received''
               | None \<Rightarrow> throw ''No rebalance response received'')))
           (\<lambda>error. emit (EToastError (error_text error) None)))
         (setS (\<lambda>u. u\<lparr>rb_isRebalancing := False\<rparr>))))"

section \<open>Routing fees\<close>

record routing_fee_dialog =
  rf_baseFeeSats :: string
  rf_ppm :: string

definition currentBaseFeeSats :: "Channel \<Rightarrow> int" where
  "currentBaseFeeSats channel = ch_forwardingFeeBaseMsat channel div 1000"

definition open_routing_fee :: "Channel \<Rightarrow> routing_fee_dialog" where
  "open_routing_fee channel =
     \<lparr>rf_baseFeeSats = show_int (currentBaseFeeSats channel), rf_ppm = show_int (ch_forwardingFeeProportionalMillionths channel)\<rparr>"

definition channel_url :: "Channel \<Rightarrow> string" where
  "channel_url channel = ''/api/peers/'' @ ch_remotePubkey channel @ ''/channels/'' @ ch_id channel"

definition routing_fee_json :: "routing_fee_dialog \<Rightarrow> json" where
  "routing_fee_json s =
     JObj [(''forwardingFeeBaseMsat'', num_json (scale_num 1000 (js_Number (rf_baseFeeSats s)))),
           (''forwardingFeeProportionalMillionths'', num_json (js_Number (rf_ppm s)))]"

definition updateFee :: "server \<Rightarrow> Channel \<Rightarrow> (routing_fee_dialog, unit) act" where
  "updateFee srv channel =
     andThen (getS id) (\<lambda>s.
       tryCatch
         (andDo (api srv ''PATCH'' (channel_url channel) (Some (routing_fee_json s)))
         (andDo (emit (EMutate ''/api/channels''))
                (toast ''Successfully updated channel'')))
         (\<lambda>error. emit (EToastError ''Something went wrong'' (Some (error_text error)))))"

definition routing_fee_disabled :: "Channel \<Rightarrow> routing_fee_dialog \<Rightarrow> bool" where
  "routing_fee_disabled channel s =
     (nullish (js_parseInt (rf_baseFeeSats s)) 0 = currentBaseFeeSats channel \<and>
      nullish (js_parseInt (rf_ppm s)) 0 = ch_forwardingFeeProportionalMillionths channel)"

section \<open>Clearing the routing data\<close>

definition RESET_KEY_OPTIONS :: "(string \<times> string \<times> string) list" where
  "RESET_KEY_OPTIONS =
     [(''ALL'', ''All'', ''Clears both the scorer, network graph data, and node metrics''),
      (''Scorer'', ''Scorer'', ''Clears the scores/penalties applied to nodes from past payment attempts.''),
      (''NetworkGraph'', ''Network Graph'', ''Clears the cache of nodes on the network''),
      (''NodeMetrics'', ''Node Metrics'',
       ''Clears last sync timestamps to do a full wallet or network graph re-scan when RGS is enabled'')]"

text \<open>The state is the chosen key; the button needs one.\<close>

definition resetRouter :: "server \<Rightarrow> (string option, unit) act" where
  "resetRouter srv =
     andThen (getS id) (\<lambda>resetKey.
       tryCatch
         (andDo (api srv ''POST'' ''/api/reset-router'' (Some (JObj (opt_member ''key'' (map_option JStr resetKey)))))
         (andDo (emit (EMutate ''/api/info''))
                (toast ([CHR 0xF0, CHR 0x9F, CHR 0x8E, CHR 0x89] @ '' Router reset''))))
         (\<lambda>error. emit (EToastError ''Something went wrong'' (Some (error_text error)))))"

section \<open>Peers\<close>

definition hasOpenedChannels :: "Channel list option \<Rightarrow> Peer \<Rightarrow> bool" where
  "hasOpenedChannels channels peer = list_ex (\<lambda>c. ch_remotePubkey c = peer_nodeId peer) (nullish channels [])"

text \<open>The entries of a peer's menu: disconnecting and reconnecting.\<close>

definition peer_menu :: "Channel list option \<Rightarrow> Peer \<Rightarrow> bool \<times> bool" where
  "peer_menu channels peer =
     (channels \<noteq> None \<and> \<not> hasOpenedChannels channels peer, channels \<noteq> None \<and> \<not> peer_isConnected peer)"

definition connect_peer_json :: "string \<Rightarrow> string \<Rightarrow> string \<Rightarrow> json" where
  "connect_peer_json pubkey address port =
     JObj [(''pubkey'', JStr pubkey), (''address'', JStr address), (''port'', num_json (js_Number port))]"

definition reconnect_peer :: "server \<Rightarrow> Peer \<Rightarrow> ('s, unit) act" where
  "reconnect_peer srv peer =
     tryCatch
       (let (address, port) = splitSocketAddress (Some (peer_address peer))
        in andDo (require (address \<noteq> [] \<and> port \<noteq> []) ''host not found'')
             (andDo (json_post srv ''/api/peers'' (connect_peer_json (peer_nodeId peer) address port))
                    (toast ''Peer connected'')))
       (\<lambda>error. emit (EToastError ''Something went wrong'' (Some (error_text error))))"

definition disconnectPeer :: "server \<Rightarrow> Peer \<Rightarrow> ('s, unit) act" where
  "disconnectPeer srv peer =
     tryCatch
       (andDo (api srv ''DELETE'' (''/api/peers/'' @ peer_nodeId peer) None)
       (andDo (emit (EToast ''Successfully disconnected from peer'' (Some (peer_nodeId peer))))
              (emit (EMutate ''/api/peers''))))
       (\<lambda>e. emit (EToastError ''Failed to disconnect peer'' (Some (error_text e))))"

record connect_peer_ui =
  cp_isLoading :: bool
  cp_connectionString :: string

definition open_connect_peer :: "params \<Rightarrow> connect_peer_ui" where
  "open_connect_peer queryParams =
     \<lparr>cp_isLoading = False, cp_connectionString = nullish (params_get queryParams ''peer'') []\<rparr>"

definition connect_returnTo :: "(string \<Rightarrow> (string \<times> string) option) \<Rightarrow> params \<Rightarrow> string" where
  "connect_returnTo parse_url queryParams =
     nullish (safeReturnToUrl parse_url (params_get queryParams ''return_to'')) []"

text \<open>\<open>const [pubkey, socketAddress] = connectionString.split("@")\<close>: what follows a second \<open>@\<close> is dropped.\<close>

definition split_connection :: "string \<Rightarrow> string \<times> string \<times> string" where
  "split_connection connectionString =
     (case split_on CHR ''@'' connectionString of
        pubkey # rest \<Rightarrow>
          (let (address, port) = splitSocketAddress (case rest of a # _ \<Rightarrow> Some a | [] \<Rightarrow> None)
           in (pubkey, address, port))
      | [] \<Rightarrow> ([], [], []))"

definition connect_handleSubmit :: "server \<Rightarrow> string \<Rightarrow> (connect_peer_ui, unit) act" where
  "connect_handleSubmit srv returnTo =
     andThen (getS cp_connectionString) (\<lambda>connectionString.
       andThen
         (tryCatch
           (andDo (require (connectionString \<noteq> []) ''connection details missing'')
             (let (pubkey, address, port) = split_connection connectionString
              in andDo (require (pubkey \<noteq> [] \<and> address \<noteq> [] \<and> port \<noteq> []) ''connection details missing'')
                (andDo (setS (\<lambda>u. u\<lparr>cp_isLoading := True\<rparr>))
                (andDo (json_post srv ''/api/peers'' (connect_peer_json pubkey address port))
                (andDo (toast ''Successfully connected with peer'')
                  (if returnTo \<noteq> [] then andDo (emit (ELocation returnTo)) (ret True)
                   else andDo (setS (\<lambda>u. u\<lparr>cp_connectionString := []\<rparr>))
                          (andDo (emit (ENavigate ''/peers'')) (ret False))))))))
           (\<lambda>e. andDo (emit (EToastError ''Failed to connect peer'' (Some (error_text e)))) (ret False)))
         (\<lambda>returned. if returned then ret () else setS (\<lambda>u. u\<lparr>cp_isLoading := False\<rparr>)))"

section \<open>Lemmas\<close>

subsection \<open>The health\<close>

definition sound_channel :: "Channel \<Rightarrow> bool" where
  "sound_channel c = (0 \<le> ch_localBalanceMsat c \<and> 0 \<le> ch_remoteBalanceMsat c \<and> 0 < channelCapacityMsat c)"

lemma actualBalance_bounds: "sound_channel c \<Longrightarrow> 0 \<le> actualBalance c \<and> actualBalance c \<le> 1"
proof -
  assume c: "sound_channel c"
  let ?m = "of_int (min (ch_localBalanceMsat c) (ch_remoteBalanceMsat c)) :: rat"
    and ?t = "of_int (channelCapacityMsat c) :: rat"
  have "0 \<le> ?m" "0 < ?t" using c by (simp_all add: sound_channel_def)
  moreover have "2 * ?m \<le> ?t" using c by (simp add: sound_channel_def channelCapacityMsat_def min_def)
  ultimately show ?thesis by (simp add: actualBalance_def field_simps)
qed

lemma averageChannelBalance_bounds:
  assumes "list_all sound_channel cs"
  shows "0 \<le> averageChannelBalance cs \<and> averageChannelBalance cs \<le> 1"
proof -
  have b: "0 \<le> sum_list (map actualBalance cs) \<and> sum_list (map actualBalance cs) \<le> of_nat (length cs)"
    using assms by (induction cs) (auto dest!: actualBalance_bounds)
  show ?thesis
    using b by (cases "cs = []") (simp_all add: averageChannelBalance_def divide_le_eq)
qed

lemma totalChannelCapacity_bounds:
  assumes "list_all sound_channel cs"
  shows "0 \<le> totalChannelCapacitySat cs \<and> (cs \<noteq> [] \<longrightarrow> 0 < totalChannelCapacitySat cs)"
proof -
  have "0 \<le> totalChannelCapacitySat cs" if "list_all sound_channel cs" for cs
    using that by (induction cs) (auto simp: totalChannelCapacitySat_def sound_channel_def)
  then show ?thesis
    using assms by (cases cs) (auto simp: totalChannelCapacitySat_def sound_channel_def add_pos_nonneg)
qed

lemma partners_pos: "cs \<noteq> [] \<Longrightarrow> 0 < numUniqueChannelPartners cs"
  by (cases cs) (auto simp: numUniqueChannelPartners_def length_pos_if_in_set)

lemma node_health_run:
  assumes "list_all sound_channel cs"
  shows "0 \<le> nodeHealth cs \<and> (nodeHealth cs = 0 \<longleftrightarrow> cs = []) \<and>
    (2 \<le> numUniqueChannelPartners cs \<and> 1000000 \<le> totalChannelCapacitySat cs \<longrightarrow> 90 \<le> nodeHealth cs)"
proof (cases "cs = []")
  case True
  then show ?thesis by (simp add: nodeHealth_def numUniqueChannelPartners_def)
next
  case False
  let ?n = "of_nat (numUniqueChannelPartners cs) :: rat" and ?m = "min (totalChannelCapacitySat cs) 1000000 / 1000000"
    and ?a = "9 / 10 + averageChannelBalance cs * (1 / 10)"
  have n: "1 \<le> ?n" using partners_pos [OF False] by simp
  have m: "0 < ?m" using totalChannelCapacity_bounds [OF assms] False by simp
  have a: "9 / 10 \<le> ?a" using averageChannelBalance_bounds [OF assms] by simp
  have pos: "0 < ?n * (100 / 2) * ?m * ?a"
    using n m a by (intro mult_pos_pos) linarith+
  have h: "nodeHealth cs = \<lceil>?n * (100 / 2) * ?m * ?a\<rceil>" by (simp add: nodeHealth_def)
  have "0 < nodeHealth cs" using pos unfolding h by simp
  moreover have "90 \<le> nodeHealth cs" if "2 \<le> numUniqueChannelPartners cs" "1000000 \<le> totalChannelCapacitySat cs"
  proof -
    have "100 \<le> ?n * (100 / 2) * ?m" using that by simp
    then have "100 * (9 / 10) \<le> ?n * (100 / 2) * ?m * ?a" using a by (intro mult_mono) simp_all
    then show ?thesis unfolding h by (simp add: le_ceiling_iff)
  qed
  ultimately show ?thesis using False by auto
qed

text \<open>The node's health. For channels with a capacity it is a whole percentage from 0 to 100, 0 exactly for
  a node without channels, never between 96 and 99, and at least 90 with two partners and a million
  satoshis. A channel without capacity makes it \<open>NaN\<close>, which is what the page then shows.\<close>

lemma node_health_bounds:
  assumes "list_all (\<lambda>c. 0 \<le> ch_localBalanceMsat c \<and> 0 \<le> ch_remoteBalanceMsat c) cs"
  shows "if list_ex (\<lambda>c. channelCapacityMsat c = 0) cs then getNodeHealth cs = NaN
    else \<exists>h :: int. getNodeHealth cs = Fin (of_int h) \<and> 0 \<le> h \<and> (h \<le> 95 \<or> h = 100) \<and> (h = 0 \<longleftrightarrow> cs = []) \<and>
      (if 2 \<le> numUniqueChannelPartners cs \<and> 1000000 \<le> totalChannelCapacitySat cs then 90 \<le> h else True)"
proof (cases "list_ex (\<lambda>c. channelCapacityMsat c = 0) cs")
  case True
  then show ?thesis by (simp add: getNodeHealth_def)
next
  case False
  then have "list_all sound_channel cs"
    using assms by (fastforce simp: list_all_iff list_ex_iff sound_channel_def channelCapacityMsat_def)
  note run = node_health_run [OF this]
  show ?thesis
  proof (cases "nodeHealth cs > 95")
    case True
    then show ?thesis using False run by (auto simp: getNodeHealth_def intro!: exI [of _ 100])
  next
    case c: False
    then show ?thesis using False run by (auto simp: getNodeHealth_def intro!: exI [of _ "nodeHealth cs"])
  qed
qed

subsection \<open>Unconfirmed channels\<close>

text \<open>What the two answers of the server say about a channel.\<close>

definition channel_verdict ::
    "(string \<Rightarrow> string + json option) \<Rightarrow> int \<Rightarrow> Channel \<Rightarrow> LongUnconfirmedZeroConfChannel option" where
  "channel_verdict ans now c =
     (let missing = Some \<lparr>luz_id = ch_id c, luz_message = no_mempool_message\<rparr>
      in case ans (''/api/mempool?endpoint=/tx/'' @ ch_fundingTxId c) of
           Inr (Some t) \<Rightarrow>
             (case jget ''status'' t of
                Some st \<Rightarrow>
                  if \<not> json_truthy t then missing
                  else if (case jget ''confirmed'' st of Some j \<Rightarrow> json_truthy j | None \<Rightarrow> False) then None
                  else (case ans (''/api/mempool?endpoint=/v1/transaction-times?txId[]='' @ ch_fundingTxId c) of
                          Inr stamps \<Rightarrow>
                            (case first_timestamp stamps of
                               Some t0 \<Rightarrow>
                                 if hours_since now t0 = 0 then None
                                 else Some \<lparr>luz_id = ch_id c,
                                        luz_message = ''Unconfirmed for '' @ show_int (hours_since now t0) @ '' hours''\<rparr>
                             | None \<Rightarrow> missing)
                        | Inl e \<Rightarrow> missing)
              | None \<Rightarrow> missing)
         | _ \<Rightarrow> missing)"

lemma check_channel_run:
  "\<exists>l. check_channel (\<lambda>_ _ u _. ans u) now c w =
     (Inr (channel_verdict ans now c), w\<lparr>ui_log := ui_log w @ l\<rparr>) \<and>
     list_all (\<lambda>e. \<exists>u. e = EFetch ''GET'' u None) l"
  by (cases w)
     (auto simp: check_channel_def channel_verdict_def tx_confirmed_def effect_defs Let_def
       split: sum.splits option.splits prod.splits)

lemma find_unconfirmed_run:
  "\<exists>l. find_unconfirmed (\<lambda>_ _ u _. ans u) now cs w =
     (Inr (List.map_filter (channel_verdict ans now) (filter needs_check cs)), w\<lparr>ui_log := ui_log w @ l\<rparr>) \<and>
     list_all (\<lambda>e. \<exists>u. e = EFetch ''GET'' u None) l"
proof (induction cs arbitrary: w)
  case Nil
  show ?case by (intro exI [of _ "[]"]) (simp add: ret_def List.map_filter_def)
next
  case (Cons c cs)
  show ?case
  proof (cases "needs_check c")
    case True
    obtain l where l: "check_channel (\<lambda>_ _ u _. ans u) now c w = (Inr (channel_verdict ans now c), w\<lparr>ui_log := ui_log w @ l\<rparr>)"
        "list_all (\<lambda>e. \<exists>u. e = EFetch ''GET'' u None) l"
      using check_channel_run by blast
    obtain k where k: "find_unconfirmed (\<lambda>_ _ u _. ans u) now cs (w\<lparr>ui_log := ui_log w @ l\<rparr>) =
        (Inr (List.map_filter (channel_verdict ans now) (filter needs_check cs)), w\<lparr>ui_log := ui_log w @ l @ k\<rparr>)"
        "list_all (\<lambda>e. \<exists>u. e = EFetch ''GET'' u None) k"
      using Cons.IH [of "w\<lparr>ui_log := ui_log w @ l\<rparr>"] by auto
    show ?thesis
      using True l k
      by (intro exI [of _ "l @ k"]) (auto simp: andThen_def ret_def List.map_filter_def split: option.split)
  qed (use Cons.IH in simp)
qed


subsection \<open>Closing a channel\<close>

definition close_request :: "Channel \<Rightarrow> close_dialog \<Rightarrow> effect" where
  "close_request channel s = EFetch ''DELETE'' (close_url channel (cd_force s)) None"

lemma closeChannel_run:
  "fetches (ui_log (snd (closeChannel srv channels channel w))) = fetches (ui_log w) @ [close_request channel (ui_st w)]"
  "cd_step (ui_st (snd (closeChannel srv channels channel w))) \<in> {cd_step (ui_st w), cd_step (ui_st w) + 1}"
  "cd_force (ui_st (snd (closeChannel srv channels channel w))) = cd_force (ui_st w)"
proof -
  have "fetches (ui_log (snd (closeChannel srv channels channel w))) = fetches (ui_log w) @ [close_request channel (ui_st w)] \<and>
    cd_step (ui_st (snd (closeChannel srv channels channel w))) \<in> {cd_step (ui_st w), cd_step (ui_st w) + 1} \<and>
    cd_force (ui_st (snd (closeChannel srv channels channel w))) = cd_force (ui_st w)"
    unfolding closeChannel_def getS_then
    by (auto simp: close_request_def effect_defs split: sum.split option.split)
  then show "fetches (ui_log (snd (closeChannel srv channels channel w))) = fetches (ui_log w) @ [close_request channel (ui_st w)]"
    "cd_step (ui_st (snd (closeChannel srv channels channel w))) \<in> {cd_step (ui_st w), cd_step (ui_st w) + 1}"
    "cd_force (ui_st (snd (closeChannel srv channels channel w))) = cd_force (ui_st w)"
    by blast+
qed

definition continues :: "close_event list \<Rightarrow> nat" where
  "continues evs = length (filter (\<lambda>e. e = CloseContinue) evs)"

definition close_start :: "Channel \<Rightarrow> int" where
  "close_start channel = (if ch_active channel then 2 else 1)"

definition close_page :: "server \<Rightarrow> Channel \<Rightarrow> close_event list \<Rightarrow> close_dialog ui" where
  "close_page srv channel evs = foldl (close_step srv channel) \<lparr>ui_st = open_close_dialog channel, ui_log = []\<rparr> evs"

lemma close_step_fetches:
  "fetches (ui_log (close_step srv channel w e)) =
     fetches (ui_log w) @
     (case e of CloseConfirm cs \<Rightarrow> if cd_step (ui_st w) = 3 then [close_request channel (ui_st w)] else [] | _ \<Rightarrow> [])"
  by (cases e) (simp_all add: close_step_def Let_def closeChannel_run(1), simp_all add: effect_defs)

lemma close_page_snoc:
  "close_page srv channel (es @ [e]) = close_step srv channel (close_page srv channel es) e"
  by (simp add: close_page_def)

lemma close_page_steps:
  "close_start channel \<le> cd_step (ui_st (close_page srv channel evs)) \<and> cd_step (ui_st (close_page srv channel evs)) \<le> 4 \<and>
   min 3 (cd_step (ui_st (close_page srv channel evs))) \<le> close_start channel + int (continues evs) \<and>
   (cd_step (ui_st (close_page srv channel evs)) < 3 \<longrightarrow> fetches (ui_log (close_page srv channel evs)) = [])"
proof (induction evs rule: rev_induct)
  case Nil
  show ?case by (simp add: close_page_def open_close_dialog_def close_start_def continues_def)
next
  case (snoc e es)
  let ?w = "close_page srv channel es"
  show ?case
  proof (cases e)
    case (CloseConfirm cs)
    then show ?thesis
      using snoc closeChannel_run [of srv cs channel ?w]
      by (auto simp: close_page_snoc close_step_def Let_def continues_def)
  qed (use snoc in \<open>auto simp: close_page_snoc close_step_def Let_def continues_def effect_defs\<close>)
qed

text \<open>C8: A channel is closed only after its confirmations, and as chosen. After any use of the dialog the
  server has been asked to close only if the user has continued once (twice for an inactive channel);
  the next event asks exactly when it is the final button, for this channel of this peer, with force
  exactly when the force close is selected.\<close>

theorem close_channel_asks_first:
  "let w = close_page srv channel evs; w' = close_step srv channel w e;
       needed = (if ch_active channel then 1 else 2)
   in (if continues evs < needed then fetches (ui_log w) = [] else True) \<and>
      fetches (ui_log w') = fetches (ui_log w) @
        (case e of
           CloseConfirm cs \<Rightarrow>
             if cd_step (ui_st w) = 3
             then [EFetch ''DELETE'' (''/api/peers/'' @ ch_remotePubkey channel @ ''/channels/'' @ ch_id channel @ ''?force='' @
                     (if cd_force (ui_st w) then ''true'' else ''false'')) None]
             else []
         | _ \<Rightarrow> [])"
  using close_page_steps [of channel srv evs]
  by (auto simp: Let_def close_step_fetches close_request_def close_url_def close_start_def split: close_event.split)

subsection \<open>Routing fees, rebalancing, peers\<close>

lemma opened_fee_base:
  assumes "0 \<le> ch_forwardingFeeBaseMsat channel"
  shows "jget ''forwardingFeeBaseMsat'' (routing_fee_json ((open_routing_fee channel)\<lparr>rf_ppm := ppm\<rparr>)) =
    Some (JNum (ch_forwardingFeeBaseMsat channel div 1000 * 1000))"
proof -
  have "0 \<le> ch_forwardingFeeBaseMsat channel div 1000" using assms by simp
  moreover have "\<lfloor>of_int k * (1000 :: rat)\<rfloor> = k * 1000" for k :: int
    using floor_of_int [of "k * 1000", where 'a = rat] by simp
  ultimately show ?thesis
    by (simp add: routing_fee_json_def open_routing_fee_def currentBaseFeeSats_def jget_def js_Number_show_int
        scale_num_def num_json_def)
qed

text \<open>The fee of rebalancing that is shown is 0.3 percent, next to a text that says 0.5 percent.\<close>

lemma rebalance_fee_shown: "rebalance_fee_msat (show_nat n) = Some (3 * int n)"
proof -
  have "show_nat n \<noteq> []" by simp
  moreover have "\<lfloor>of_int (int n) * (3 / 1000) * (1000 :: rat)\<rfloor> = 3 * int n"
    using floor_of_int [of "3 * int n", where 'a = rat] by simp
  ultimately show ?thesis by (simp add: rebalance_fee_msat_def)
qed

lemma node_health_bounds_witness:
  "\<exists>h :: int. getNodeHealth [sample_channel\<lparr>ch_localBalanceMsat := 1000, ch_remoteBalanceMsat := 3000\<rparr>] = Fin (of_int h) \<and>
     0 \<le> h \<and> (h \<le> 95 \<or> h = 100)"
  using node_health_bounds [of "[sample_channel\<lparr>ch_localBalanceMsat := 1000, ch_remoteBalanceMsat := 3000\<rparr>]"]
  by (auto simp: channelCapacityMsat_def)

lemma split_on_at:
  "CHR ''@'' \<notin> set p \<Longrightarrow> CHR ''@'' \<notin> set a \<Longrightarrow> split_on CHR ''@'' (p @ CHR ''@'' # a) = [p, a]"
proof -
  have one: "split_on CHR ''@'' a = [a]" if "CHR ''@'' \<notin> set a" for a
    using that by (induction a) auto
  show "CHR ''@'' \<notin> set p \<Longrightarrow> CHR ''@'' \<notin> set a \<Longrightarrow> ?thesis"
    by (induction p) (auto simp: one)
qed

lemma split_connection_parts:
  assumes "CHR ''@'' \<notin> set pubkey" and "CHR ''@'' \<notin> set host" and "host \<noteq> []"
  shows "split_connection (pubkey @ CHR ''@'' # host @ CHR '':'' # show_nat port) = (pubkey, host, show_nat port)"
proof -
  have d: "c \<notin> set (show_nat port)" if "\<not> is_digit c" for c
    using show_nat_all_digits [of port] that by (auto simp: list_all_iff)
  have at: "CHR ''@'' \<notin> set (show_nat port)" and colon: "CHR '':'' \<notin> set (show_nat port)"
    by (rule d, simp add: is_digit_def)+
  then have "CHR ''@'' \<notin> set (host @ CHR '':'' # show_nat port)"
    using assms(2) by simp
  then show ?thesis
    using split_on_at [OF assms(1)] colon assms(3) by (simp add: split_connection_def splitSocketAddress_append)
qed

text \<open>Connecting a peer. A connection string \<open>pubkey@host:port\<close> (the host may have colons) sends one request
  with exactly these parts; then the page goes to the return address if there is one, to the peer list
  otherwise, or stays with the error of the server, ready for another try.\<close>

lemma connect_peer_outcomes:
  assumes "CHR ''@'' \<notin> set pubkey" and "CHR ''@'' \<notin> set host" and "pubkey \<noteq> []" and "host \<noteq> []"
    and "cp_connectionString (ui_st w) = pubkey @ CHR ''@'' # host @ CHR '':'' # show_nat port"
  shows "let body = JObj [(''pubkey'', JStr pubkey), (''address'', JStr host), (''port'', JNum (int port))];
             log = ui_log w @ [EFetch ''POST'' ''/api/peers'' (Some body)]
         in connect_handleSubmit srv returnTo w =
           (case srv (ui_log w) ''POST'' ''/api/peers'' (Some body) of
              Inl e \<Rightarrow> (Inr (), w\<lparr>ui_st := (ui_st w)\<lparr>cp_isLoading := False\<rparr>,
                                ui_log := log @ [EToastError ''Failed to connect peer'' (Some (error_text e))]\<rparr>)
            | Inr _ \<Rightarrow>
                if returnTo \<noteq> []
                then (Inr (), w\<lparr>ui_st := (ui_st w)\<lparr>cp_isLoading := True\<rparr>,
                                ui_log := log @ [EToast ''Successfully connected with peer'' None, ELocation returnTo]\<rparr>)
                else (Inr (), w\<lparr>ui_st := \<lparr>cp_isLoading = False, cp_connectionString = []\<rparr>,
                                ui_log := log @ [EToast ''Successfully connected with peer'' None, ENavigate ''/peers'']\<rparr>))"
proof -
  have p: "split_connection (cp_connectionString (ui_st w)) = (pubkey, host, show_nat port)"
    unfolding assms(5) by (rule split_connection_parts [OF assms(1,2,4)])
  have ne: "cp_connectionString (ui_st w) \<noteq> []" using assms(5) by simp
  have b: "connect_peer_json pubkey host (show_nat port) =
      JObj [(''pubkey'', JStr pubkey), (''address'', JStr host), (''port'', JNum (int port))]"
    by (simp add: connect_peer_json_def num_json_def)
  show ?thesis
    unfolding connect_handleSubmit_def getS_then Let_def p b [symmetric]
    using ne assms(3,4)
    by (cases w) (auto simp: p json_post_def effect_defs split: sum.split)
qed

lemma connect_peer_outcomes_witness:
  "snd (connect_handleSubmit no_answer []
     \<lparr>ui_st = \<lparr>cp_isLoading = False, cp_connectionString = ''02ab@host:9735''\<rparr>, ui_log = []\<rparr>) =
   \<lparr>ui_st = \<lparr>cp_isLoading = False, cp_connectionString = []\<rparr>,
    ui_log = [EFetch ''POST'' ''/api/peers''
        (Some (JObj [(''pubkey'', JStr ''02ab''), (''address'', JStr ''host''), (''port'', JNum 9735)])),
      EToast ''Successfully connected with peer'' None, ENavigate ''/peers'']\<rparr>"
proof -
  let ?w = "\<lparr>ui_st = \<lparr>cp_isLoading = False, cp_connectionString = ''02ab@host:9735''\<rparr>, ui_log = []\<rparr>"
  have a: "CHR ''@'' \<notin> set ''02ab''" "CHR ''@'' \<notin> set ''host''" "''02ab'' \<noteq> []" "''host'' \<noteq> []"
    by code_simp+
  have d: "digit_char 9 = CHR ''9''" "digit_char 7 = CHR ''7''" "digit_char 3 = CHR ''3''" "digit_char 5 = CHR ''5''"
    by code_simp+
  have n: "show_nat 9735 = ''9735''"
    by (simp add: show_nat.simps d)
  have c: "''02ab@host:9735'' = ''02ab'' @ CHR ''@'' # ''host'' @ CHR '':'' # show_nat 9735"
    unfolding n by simp
  have w: "cp_connectionString (ui_st ?w) = ''02ab'' @ CHR ''@'' # ''host'' @ CHR '':'' # show_nat 9735"
    unfolding ui.simps connect_peer_ui.simps by (rule c)
  show ?thesis
    using connect_peer_outcomes [OF a w, of no_answer "[]"]
    by (simp only: Let_def no_answer_def sum.case if_False ui.simps connect_peer_ui.simps simp_thms) simp
qed

end
