(* ===== verification/AutoChannel.thy ===== *)
theory AutoChannel imports Node
begin

text \<open>
  Channels ordered in one step: \<open>screens/channels/first/\<close> (the first channel, paid in the way that is
  configured in the Alby account) and \<open>screens/channels/auto/\<close>, with the pages that wait until the
  channel is open.
\<close>

section \<open>The automatic channel\<close>

record auto_channel =
  ac_isLoading :: bool
  ac_showAdvanced :: bool
  ac_isPublic :: bool
  ac_invoice :: "string option"
  ac_channelSizeSat :: "int option"
  ac_prevChannelIds :: "string list option"
  ac_newChannelId :: "string option"

definition init_auto_channel :: auto_channel where
  "init_auto_channel = \<lparr>ac_isLoading = False, ac_showAdvanced = False, ac_isPublic = False, ac_invoice = None,
     ac_channelSizeSat = None, ac_prevChannelIds = None, ac_newChannelId = None\<rparr>"

definition found_channel :: "string list \<Rightarrow> Channel list \<Rightarrow> string option" where
  "found_channel current channels =
     map_option ch_id (find (\<lambda>c. ch_id c \<notin> set current \<and> ch_fundingTxId c \<noteq> []) channels)"

text \<open>The effect on polled channels; the page that is opened gets the id as its argument.\<close>

definition auto_channels_effect :: "Channel list option \<Rightarrow> (auto_channel, unit) act" where
  "auto_channels_effect channels =
     (case channels of
        None \<Rightarrow> ret ()
      | Some cs \<Rightarrow>
          andThen (getS ac_prevChannelIds) (\<lambda>prev.
            case prev of
              Some current \<Rightarrow>
                (let newChannelId = found_channel current cs
                 in whenD (truthy_str newChannelId)
                      (andDo (emit (ENavigate ''/channels/auto/opening''))
                             (setS (\<lambda>s. s\<lparr>ac_newChannelId := newChannelId\<rparr>))))
            | None \<Rightarrow> setS (\<lambda>s. s\<lparr>ac_prevChannelIds := Some (map ch_id cs)\<rparr>)))"

definition auto_channel_request :: "server \<Rightarrow> bool \<Rightarrow> ('s, json) act" where
  "auto_channel_request srv isPublic =
     andThen (api srv ''POST'' ''/api/alby/auto-channel'' (Some (JObj [(''isPublic'', JBool isPublic)]))) (\<lambda>r.
       case r of
         Some j \<Rightarrow> if json_truthy j then ret j else throw ''unexpected auto channel response''
       | None \<Rightarrow> throw ''unexpected auto channel response'')"

definition auto_openChannel :: "server \<Rightarrow> bool \<Rightarrow> (auto_channel, unit) act" where
  "auto_openChannel srv loaded =
     (if \<not> loaded then ret ()
      else
        andThen (getS ac_isPublic) (\<lambda>isPublic.
          andDo (setS (\<lambda>s. s\<lparr>ac_isLoading := True\<rparr>))
            (tryCatch
              (andThen (auto_channel_request srv isPublic) (\<lambda>j.
                 setS (\<lambda>s. s\<lparr>ac_invoice := jget_str ''invoice'' j, ac_channelSizeSat := jget_int ''channelSizeSat'' j\<rparr>)))
              (\<lambda>e. andDo (setS (\<lambda>s. s\<lparr>ac_isLoading := False\<rparr>))
                     (emit (EToastError ''Something went wrong. Please try again'' None))))))"

datatype order_view = OrderLoading | OrderForm | OrderInvoice string int | OrderBlank

definition auto_channel_view :: "bool \<Rightarrow> auto_channel \<Rightarrow> order_view" where
  "auto_channel_view loaded s =
     (if \<not> loaded then OrderLoading
      else if \<not> truthy_str (ac_invoice s) then OrderForm
      else if truthy_int (ac_channelSizeSat s) then OrderInvoice (the (ac_invoice s)) (the (ac_channelSizeSat s))
      else OrderBlank)"

definition auto_private_alert :: "Channel list option \<Rightarrow> bool \<Rightarrow> bool" where
  "auto_private_alert channels isPublic = list_ex (\<lambda>c. ch_public c \<noteq> isPublic) (nullish channels [])"

datatype auto_channel_event = AcChannels "Channel list" | AcAdvanced | AcPublic | AcOpen

definition auto_channel_step :: "server \<Rightarrow> bool \<Rightarrow> auto_channel ui \<Rightarrow> auto_channel_event \<Rightarrow> auto_channel ui" where
  "auto_channel_step srv info w e =
     (let s = ui_st w; loaded = (info \<and> ac_prevChannelIds s \<noteq> None); shown = (auto_channel_view loaded s = OrderForm)
      in case e of
           AcChannels cs \<Rightarrow> snd (auto_channels_effect (Some cs) w)
         | AcAdvanced \<Rightarrow> if shown \<and> \<not> ac_showAdvanced s then w\<lparr>ui_st := s\<lparr>ac_showAdvanced := True\<rparr>\<rparr> else w
         | AcPublic \<Rightarrow> if shown \<and> ac_showAdvanced s then w\<lparr>ui_st := s\<lparr>ac_isPublic := \<not> ac_isPublic s\<rparr>\<rparr> else w
         | AcOpen \<Rightarrow> if shown \<and> \<not> ac_isLoading s then snd (auto_openChannel srv loaded w) else w)"

section \<open>The pages that wait\<close>

definition opening_auto_channel :: "string option \<Rightarrow> Channel list option \<Rightarrow> Channel option" where
  "opening_auto_channel newChannelId channels =
     find (\<lambda>c. ch_id c \<noteq> [] \<and> Some (ch_id c) = newChannelId) (nullish channels [])"

definition opening_effect :: "string \<Rightarrow> Channel option \<Rightarrow> ('s, unit) act" where
  "opening_effect opened_page channel =
     whenD (case channel of Some c \<Rightarrow> ch_active c | None \<Rightarrow> False) (emit (ENavigate opened_page))"

definition opening_first_channel :: "Channel list option \<Rightarrow> Channel option" where
  "opening_first_channel channels = (case nullish channels [] of c # _ \<Rightarrow> Some c | [] \<Rightarrow> None)"

text \<open>The confirmations that are shown, \<open>None\<close> while loading.\<close>

definition ChannelWaitingForConfirmations :: "Channel option \<Rightarrow> (int \<times> int) option" where
  "ChannelWaitingForConfirmations channel =
     (case channel of
        None \<Rightarrow> None
      | Some c \<Rightarrow>
          if truthy_int (ch_confirmationsRequired c)
          then Some (nullish (ch_confirmations c) 0, the (ch_confirmationsRequired c)) else None)"

section \<open>The first channel\<close>

record first_channel =
  fc_isLoading :: bool
  fc_showAdvanced :: bool
  fc_isPublic :: bool
  fc_invoice :: "string option"
  fc_channelSizeSat :: "int option"
  fc_paymentMethod :: "LSPChannelOfferPaymentMethod option"

definition init_first_channel :: first_channel where
  "init_first_channel = \<lparr>fc_isLoading = False, fc_showAdvanced = False, fc_isPublic = False, fc_invoice = None,
     fc_channelSizeSat = None, fc_paymentMethod = None\<rparr>"

definition first_channels_effect :: "Channel list option \<Rightarrow> (first_channel, unit) act" where
  "first_channels_effect channels =
     whenD (nullish channels [] \<noteq> []) (emit (ENavigate ''/channels/first/opening''))"

definition first_account_effect :: "InfoResponse option \<Rightarrow> (first_channel, unit) act" where
  "first_account_effect info =
     whenD (case info of Some i \<Rightarrow> \<not> info_albyAccountConnected i | None \<Rightarrow> False) (emit (ENavigate ''/channels/incoming''))"

definition first_loaded :: "InfoResponse option \<Rightarrow> Channel list option \<Rightarrow> LSPChannelOffer option \<Rightarrow> bool" where
  "first_loaded info channels lspChannelOffer =
     ((case info of Some i \<Rightarrow> info_albyAccountConnected i | None \<Rightarrow> False) \<and> channels \<noteq> None \<and> lspChannelOffer \<noteq> None)"

definition needs_method :: "LSPChannelOfferPaymentMethod \<Rightarrow> bool" where
  "needs_method m = (m = Card \<or> m = Wallet)"

definition first_openChannel :: "server \<Rightarrow> bool \<Rightarrow> LSPChannelOffer option \<Rightarrow> (first_channel, unit) act" where
  "first_openChannel srv loaded offer =
     (case offer of
        None \<Rightarrow> ret ()
      | Some lsp \<Rightarrow>
          if \<not> loaded then ret ()
          else
            andThen (getS id) (\<lambda>s.
              if needs_method (lco_currentPaymentMethod lsp) \<and> fc_paymentMethod s \<noteq> Some (lco_currentPaymentMethod lsp)
              then emit (EToastError ''Payment method incorrectly configured''
                     (Some (if fc_paymentMethod s \<noteq> None
                            then ''Please switch the payment method and confirm the change in your Alby Account settings''
                            else ''Please choose a payment method'')))
              else
                andDo (setS (\<lambda>s. s\<lparr>fc_isLoading := True\<rparr>))
                  (tryCatch
                    (andThen (auto_channel_request srv (fc_isPublic s)) (\<lambda>j.
                       setS (\<lambda>s. s\<lparr>fc_invoice := jget_str ''invoice'' j, fc_channelSizeSat := jget_int ''channelSizeSat'' j\<rparr>)))
                    (\<lambda>e. andDo (setS (\<lambda>s. s\<lparr>fc_isLoading := False\<rparr>))
                           (emit (EToastError ''Something went wrong. Please try again'' None))))))"

text \<open>Choosing the way that is not configured opens the settings of the account.\<close>

definition choose_method :: "LSPChannelOffer \<Rightarrow> LSPChannelOfferPaymentMethod \<Rightarrow> (first_channel, unit) act" where
  "choose_method offer newPaymentMethod =
     andDo (whenD (newPaymentMethod \<noteq> lco_currentPaymentMethod offer) (openLink ''https://getalby.com/payment_details''))
           (setS (\<lambda>s. s\<lparr>fc_paymentMethod := Some newPaymentMethod\<rparr>))"

definition first_channel_view :: "bool \<Rightarrow> first_channel \<Rightarrow> order_view" where
  "first_channel_view loaded s =
     (if \<not> loaded then OrderLoading
      else if \<not> truthy_str (fc_invoice s) then OrderForm
      else if truthy_int (fc_channelSizeSat s) then OrderInvoice (the (fc_invoice s)) (the (fc_channelSizeSat s))
      else OrderBlank)"

definition open_button :: "(rat \<Rightarrow> string) \<Rightarrow> LSPChannelOffer \<Rightarrow> string" where
  "open_button usd offer =
     (case lco_currentPaymentMethod offer of
        Prepaid \<Rightarrow> ''Review Order''
      | Included \<Rightarrow> ''Open Channel''
      | _ \<Rightarrow> ''Pay '' @ usd (lco_feeTotalUsd offer / 100) @ '' and Open Channel'')"

datatype first_channel_event =
    FcPolled "InfoResponse option" "Channel list option" | FcAdvanced | FcPublic
  | FcMethod LSPChannelOfferPaymentMethod | FcOpen

text \<open>The offer is fetched once. The choice of a method is there unless the channel is paid for already.\<close>

definition first_channel_step ::
    "server \<Rightarrow> LSPChannelOffer \<Rightarrow> first_channel ui \<Rightarrow> first_channel_event \<Rightarrow> first_channel ui" where
  "first_channel_step srv offer w e =
     (let s = ui_st w; shown = (first_channel_view True s = OrderForm)
      in case e of
           FcPolled info channels \<Rightarrow> snd (andDo (first_channels_effect channels) (first_account_effect info) w)
         | FcAdvanced \<Rightarrow> if shown \<and> \<not> fc_showAdvanced s then w\<lparr>ui_st := s\<lparr>fc_showAdvanced := True\<rparr>\<rparr> else w
         | FcPublic \<Rightarrow> if shown \<and> fc_showAdvanced s then w\<lparr>ui_st := s\<lparr>fc_isPublic := \<not> fc_isPublic s\<rparr>\<rparr> else w
         | FcMethod m \<Rightarrow>
             if shown \<and> needs_method (lco_currentPaymentMethod offer) \<and> needs_method m
             then snd (choose_method offer m w) else w
         | FcOpen \<Rightarrow> if shown \<and> \<not> fc_isLoading s then snd (first_openChannel srv True (Some offer) w) else w)"

section \<open>What the pages guarantee\<close>

subsection \<open>The first channel\<close>

definition auto_channel_fetch :: "bool \<Rightarrow> effect" where
  "auto_channel_fetch isPublic = EFetch ''POST'' ''/api/alby/auto-channel'' (Some (JObj [(''isPublic'', JBool isPublic)]))"

definition auto_channel_accepted :: "server \<Rightarrow> effect list \<Rightarrow> bool \<Rightarrow> bool" where
  "auto_channel_accepted srv l isPublic =
     (case srv l ''POST'' ''/api/alby/auto-channel'' (Some (JObj [(''isPublic'', JBool isPublic)])) of
        Inr (Some j) \<Rightarrow> json_truthy j
      | _ \<Rightarrow> False)"

definition method_configured :: "LSPChannelOffer \<Rightarrow> first_channel \<Rightarrow> bool" where
  "method_configured offer s =
     (if needs_method (lco_currentPaymentMethod offer) then fc_paymentMethod s = Some (lco_currentPaymentMethod offer) else True)"

lemma first_openChannel_fetch:
  "fetches (ui_log (snd (first_openChannel srv True (Some offer) w))) =
     fetches (ui_log w) @ (if method_configured offer (ui_st w) then [auto_channel_fetch (fc_isPublic (ui_st w))] else [])"
  "fc_isLoading (ui_st (snd (first_openChannel srv True (Some offer) w))) =
     (if method_configured offer (ui_st w) then auto_channel_accepted srv (ui_log w) (fc_isPublic (ui_st w))
      else fc_isLoading (ui_st w))"
  by (auto simp: first_openChannel_def getS_then method_configured_def auto_channel_request_def auto_channel_fetch_def
      auto_channel_accepted_def effect_defs split: sum.split option.split)

definition first_asks :: "LSPChannelOffer \<Rightarrow> first_channel \<Rightarrow> first_channel_event \<Rightarrow> bool" where
  "first_asks offer s e =
     (e = FcOpen \<and> first_channel_view True s = OrderForm \<and> \<not> fc_isLoading s \<and> method_configured offer s)"

lemma first_channel_step_fetch:
  "fetches (ui_log (first_channel_step srv offer w e)) =
     fetches (ui_log w) @ (if first_asks offer (ui_st w) e then [auto_channel_fetch (fc_isPublic (ui_st w))] else [])"
  "fc_isLoading (ui_st (first_channel_step srv offer w e)) =
     (if first_asks offer (ui_st w) e then auto_channel_accepted srv (ui_log w) (fc_isPublic (ui_st w))
      else fc_isLoading (ui_st w))"
proof -
  have q: "fetches (ui_log (first_channel_step srv offer w e)) = fetches (ui_log w) \<and>
      fc_isLoading (ui_st (first_channel_step srv offer w e)) = fc_isLoading (ui_st w)" if "e \<noteq> FcOpen"
    using that
    by (cases e) (simp_all add: first_channel_step_def Let_def first_channels_effect_def first_account_effect_def
        choose_method_def openLink_def effect_defs)
  show "fetches (ui_log (first_channel_step srv offer w e)) =
     fetches (ui_log w) @ (if first_asks offer (ui_st w) e then [auto_channel_fetch (fc_isPublic (ui_st w))] else [])"
    by (cases "e = FcOpen") (simp_all add: q, simp_all add: first_asks_def first_channel_step_def Let_def first_openChannel_fetch)
  show "fc_isLoading (ui_st (first_channel_step srv offer w e)) =
     (if first_asks offer (ui_st w) e then auto_channel_accepted srv (ui_log w) (fc_isPublic (ui_st w))
      else fc_isLoading (ui_st w))"
    by (cases "e = FcOpen") (simp_all add: q, simp_all add: first_asks_def first_channel_step_def Let_def first_openChannel_fetch)
qed

lemma first_channel_done:
  "fc_isLoading (ui_st w) \<Longrightarrow> fetches (ui_log (foldl (first_channel_step srv offer) w es)) = fetches (ui_log w)"
  by (induction es arbitrary: w) (simp_all add: first_channel_step_fetch first_asks_def)

text \<open>C9: The first channel is ordered once, and only in the way that is paid for. On the page as any events
  left it, the next event sends the one request for a channel, with the visibility that is chosen, exactly
  when it is the button of the form, no request is open, and for an account that pays by card or from the
  wallet this method is the chosen one. An accepted order is the last request of the page, whatever follows;
  a refused one leaves the form ready.\<close>

theorem first_channel_ordered_once:
  "let w = foldl (first_channel_step srv offer) \<lparr>ui_st = init_first_channel, ui_log = []\<rparr> before;
       s = ui_st w;
       method = lco_currentPaymentMethod offer;
       body = JObj [(''isPublic'', JBool (fc_isPublic s))];
       asks = (e = FcOpen \<and> first_channel_view True s = OrderForm \<and> \<not> fc_isLoading s \<and>
               (if method = Card \<or> method = Wallet then fc_paymentMethod s = Some method else True));
       w' = first_channel_step srv offer w e;
       accepted = (asks \<and> (case srv (ui_log w) ''POST'' ''/api/alby/auto-channel'' (Some body) of
                              Inr (Some j) \<Rightarrow> json_truthy j
                            | _ \<Rightarrow> False))
   in fetches (ui_log w') =
        fetches (ui_log w) @ (if asks then [EFetch ''POST'' ''/api/alby/auto-channel'' (Some body)] else []) \<and>
      (if asks then fc_isLoading (ui_st w') = accepted else fc_isLoading (ui_st w') = fc_isLoading s) \<and>
      (if accepted
       then fetches (ui_log (foldl (first_channel_step srv offer) w' after)) = fetches (ui_log w') else True)"
  using first_channel_done [of "first_channel_step srv offer (foldl (first_channel_step srv offer)
      \<lparr>ui_st = init_first_channel, ui_log = []\<rparr> before) e"]
  by (auto simp: Let_def first_channel_step_fetch first_asks_def method_configured_def needs_method_def
      auto_channel_fetch_def auto_channel_accepted_def split: if_splits)

subsection \<open>The automatic channel\<close>

lemma auto_prev_stays:
  "ac_prevChannelIds (ui_st w) = Some ids \<Longrightarrow> ac_prevChannelIds (ui_st (auto_channel_step srv info w e)) = Some ids"
  by (cases e) (auto simp: auto_channel_step_def Let_def auto_channels_effect_def auto_openChannel_def auto_channel_request_def
      getS_then effect_defs split: sum.split option.split)

lemma auto_prev_run:
  "ac_prevChannelIds (ui_st w) = Some ids \<Longrightarrow>
   ac_prevChannelIds (ui_st (foldl (auto_channel_step srv info) w es)) = Some ids"
  by (induction es arbitrary: w) (simp_all add: auto_prev_stays)

definition auto_page :: "server \<Rightarrow> bool \<Rightarrow> Channel list \<Rightarrow> auto_channel_event list \<Rightarrow> auto_channel ui" where
  "auto_page srv info channels evs =
     foldl (auto_channel_step srv info) \<lparr>ui_st = init_auto_channel, ui_log = []\<rparr> (AcChannels channels # evs)"

lemma auto_page_prev: "ac_prevChannelIds (ui_st (auto_page srv info channels evs)) = Some (map ch_id channels)"
  unfolding auto_page_def
  by (simp, rule auto_prev_run) (simp add: auto_channel_step_def auto_channels_effect_def init_auto_channel_def effect_defs)

lemma auto_page_poll:
  "auto_channel_step srv info (auto_page srv info channels evs) (AcChannels cs) =
     (let w = auto_page srv info channels evs; new = found_channel (map ch_id channels) cs
      in if truthy_str new
         then w\<lparr>ui_st := (ui_st w)\<lparr>ac_newChannelId := new\<rparr>, ui_log := ui_log w @ [ENavigate ''/channels/auto/opening'']\<rparr>
         else w)"
  using auto_page_prev [of srv info channels evs]
  by (simp add: auto_channel_step_def Let_def auto_channels_effect_def getS_then effect_defs)

lemma opening_auto_channel_id:
  "i \<noteq> [] \<Longrightarrow> opening_auto_channel (Some i) (Some polled) = find (\<lambda>x. ch_id x = i) polled"
  unfolding opening_auto_channel_def nullish_def option.case
  by (rule arg_cong [of _ _ "\<lambda>P. find P polled"]) auto

lemma opening_effect_log:
  "ui_log (snd (opening_effect page shown v)) =
     ui_log v @ (case shown of Some x \<Rightarrow> if ch_active x then [ENavigate page] else [] | None \<Rightarrow> [])"
  by (cases shown) (simp_all add: opening_effect_def effect_defs)

text \<open>C10: An automatic channel is followed until it is open. The first poll that has a channel which was not
  there when the page was opened, with its funding transaction, leads to the waiting page with the id of
  such a channel; on every later poll that page waits for the channel with this id and goes on exactly when it is active.\<close>

theorem auto_channel_followed:
  assumes "c \<in> set cs" and "ch_id c \<notin> ch_id ` set channels" and "ch_fundingTxId c \<noteq> []"
    and "\<And>d. d \<in> set cs \<Longrightarrow> ch_id d \<noteq> []"
  shows "\<exists>d \<in> set cs. ch_id d \<notin> ch_id ` set channels \<and> ch_fundingTxId d \<noteq> [] \<and>
    (let w = auto_page srv info channels evs;
         w' = auto_channel_step srv info w (AcChannels cs);
         shown = opening_auto_channel (ac_newChannelId (ui_st w')) (Some polled);
         opening = opening_effect ''/channels/auto/opened'' shown v
     in ui_log w' = ui_log w @ [ENavigate ''/channels/auto/opening''] \<and>
        shown = find (\<lambda>x. ch_id x = ch_id d) polled \<and>
        ui_log (snd opening) = ui_log v @
          (case find (\<lambda>x. ch_id x = ch_id d) polled of
             Some x \<Rightarrow> if ch_active x then [ENavigate ''/channels/auto/opened''] else []
           | None \<Rightarrow> []))"
proof -
  let ?P = "\<lambda>c. ch_id c \<notin> set (map ch_id channels) \<and> ch_fundingTxId c \<noteq> []"
  have "find ?P cs \<noteq> None" using assms(1-3) by (auto simp: find_None_iff)
  then obtain d where d: "find ?P cs = Some d" by blast
  then have in_cs: "d \<in> set cs" and P: "?P d"
    by (blast dest: Prelude.find_Some_iff)+
  then have ne: "ch_id d \<noteq> []" using assms(4) by blast
  have f: "found_channel (map ch_id channels) cs = Some (ch_id d)"
    using d by (simp add: found_channel_def)
  have p: "auto_channel_step srv info (auto_page srv info channels evs) (AcChannels cs) =
      (auto_page srv info channels evs)
        \<lparr>ui_st := (ui_st (auto_page srv info channels evs))\<lparr>ac_newChannelId := Some (ch_id d)\<rparr>,
         ui_log := ui_log (auto_page srv info channels evs) @ [ENavigate ''/channels/auto/opening'']\<rparr>"
    using ne by (simp add: auto_page_poll f Let_def truthy_str_def)
  show ?thesis
    using in_cs P ne
    by (intro bexI [of _ d]) (simp_all add: p Let_def opening_effect_log opening_auto_channel_id)
qed

theorem auto_channel_followed_witness:
  "let w = auto_page no_answer True [] [AcAdvanced]
   in ui_log (auto_channel_step no_answer True w (AcChannels [sample_channel])) =
        ui_log w @ [ENavigate ''/channels/auto/opening'']"
proof -
  have n: "ch_id sample_channel \<noteq> []" "ch_fundingTxId sample_channel \<noteq> []"
    by (simp_all add: sample_channel_def)
  have a: "sample_channel \<in> set [sample_channel]" "ch_id sample_channel \<notin> ch_id ` set []"
    by simp_all
  show ?thesis
    using auto_channel_followed [OF a n(2), of no_answer True "[AcAdvanced]" "[]" "\<lparr>ui_st = (), ui_log = []\<rparr>"] n(1)
    unfolding Let_def by auto
qed

end
