(* ===== verification/AppStore.thy ===== *)
theory AppStore imports NewApp Hooks Routes
begin

text \<open>
  The app store: the table of suggested apps (\<open>components/connections/SuggestedAppData.tsx\<close>, without
  the texts of its guides), the list with its categories (\<open>SuggestedApps.tsx\<close>), the page of an entry
  (\<open>screens/appstore/AppStoreDetail.tsx\<close>) and the links it shows, and which entry a connection belongs to.
\<close>

section \<open>Categories\<close>

datatype category =
    CatWalletInterfaces | CatSocialMedia | CatAi | CatMerchantTools | CatAudio | CatBlogging
  | CatPaymentTools | CatShopping | CatNostrTools | CatGames | CatMisc

fun category_id :: "category \<Rightarrow> string" where
  "category_id CatWalletInterfaces = ''wallet-interfaces''"
| "category_id CatSocialMedia = ''social-media''"
| "category_id CatAi = ''ai''"
| "category_id CatMerchantTools = ''merchant-tools''"
| "category_id CatAudio = ''audio''"
| "category_id CatBlogging = ''blogging''"
| "category_id CatPaymentTools = ''payment-tools''"
| "category_id CatShopping = ''shopping''"
| "category_id CatNostrTools = ''nostr-tools''"
| "category_id CatGames = ''games''"
| "category_id CatMisc = ''misc''"

text \<open>Category, title, priority.\<close>

definition appStoreCategories :: "(category \<times> string \<times> int) list" where
  "appStoreCategories =
     [(CatWalletInterfaces, ''Wallet Interfaces'', 1), (CatSocialMedia, ''Social Media'', 2), (CatAi, ''AI'', 20),
      (CatMerchantTools, ''Merchant Tools'', 10), (CatAudio, ''Audio'', 20), (CatBlogging, ''Blogging'', 20),
      (CatPaymentTools, ''Payment Tools'', 10), (CatShopping, ''Shopping'', 30), (CatNostrTools, ''Nostr Tools'', 40),
      (CatGames, ''Games'', 50), (CatMisc, ''Misc'', 100)]"

definition sortedAppStoreCategories :: "(category \<times> string \<times> int) list" where
  "sortedAppStoreCategories = sort_cmp (\<lambda>a b. snd (snd a) - snd (snd b)) appStoreCategories"

section \<open>The table\<close>

text \<open>The logo is the name of the imported image.\<close>

record store_app = AppStoreApp +
  sta_legacyTitles :: "string list option"
  sta_description :: string
  sta_extendedDescription :: string
  sta_logo :: string
  sta_categories :: "category list"
  sta_webLink :: "string option"
  sta_hideConnectionQr :: "bool option"
  sta_internal :: "bool option"
  sta_addedDate :: "string option"

definition app_alby_go :: store_app where
  "app_alby_go =
     \<lparr>asa_id = ''alby-go'', asa_title = ''Alby Go'',
      asa_playLink = Some ''https://play.google.com/store/apps/details?id=com.getalby.mobile'',
      asa_appleLink = Some ''https://apps.apple.com/us/app/alby-go/id6471335774'',
      asa_zapStoreLink = Some ''https://zapstore.dev/download/'', asa_chromeLink = None, asa_firefoxLink = None,
      asa_superuser = Some True, asa_readonly = None, sta_legacyTitles = None,
      sta_description = ''A simple mobile wallet that works great with Alby Hub'',
      sta_extendedDescription = ''Sends and receives payments seamlessly from your Hub'', sta_logo = ''albyGo'',
      sta_categories = [CatWalletInterfaces], sta_webLink = Some ''https://albygo.com'',
      sta_hideConnectionQr = None, sta_internal = None, sta_addedDate = None\<rparr>"

definition app_buzzpay :: store_app where
  "app_buzzpay =
     \<lparr>asa_id = ''buzzpay'', asa_title = ''BuzzPay PoS'', asa_playLink = None, asa_appleLink = None,
      asa_zapStoreLink = None, asa_chromeLink = None, asa_firefoxLink = None, asa_superuser = None,
      asa_readonly = None, sta_legacyTitles = None,
      sta_description = ''Receive-only PoS you can safely share with your employees'',
      sta_extendedDescription = ''Receive-only PoS you can safely share with your employees'',
      sta_logo = ''buzzpay'', sta_categories = [CatMerchantTools],
      sta_webLink = Some ''https://pos.albylabs.com'', sta_hideConnectionQr = None, sta_internal = Some True,
      sta_addedDate = None\<rparr>"

definition app_castamatic :: store_app where
  "app_castamatic =
     \<lparr>asa_id = ''castamatic'', asa_title = ''Castamatic'', asa_playLink = None,
      asa_appleLink = Some ''https://apps.apple.com/us/app/castamatic-podcast-player/id966632553'',
      asa_zapStoreLink = None, asa_chromeLink = None, asa_firefoxLink = None, asa_superuser = None,
      asa_readonly = None, sta_legacyTitles = None,
      sta_description = ''Podcast player with Value4Value support'',
      sta_extendedDescription = ''Castamatic is a feature-rich podcast player for iOS with built-in Value4Value support. Send boosts and stream sats to your favorite podcasters while you listen.'',
      sta_logo = ''castamatic'', sta_categories = [CatAudio], sta_webLink = Some ''https://castamatic.com'',
      sta_hideConnectionQr = None, sta_internal = None, sta_addedDate = Some ''2026-03-12''\<rparr>"

definition app_bitcoin_card_topup :: store_app where
  "app_bitcoin_card_topup =
     \<lparr>asa_id = ''bitcoin-card-topup'', asa_title = ''Bitcoin Card Topup'', asa_playLink = None,
      asa_appleLink = None, asa_zapStoreLink = None, asa_chromeLink = None, asa_firefoxLink = None,
      asa_superuser = None, asa_readonly = None, sta_legacyTitles = None,
      sta_description = ''Top up any crypto debit card instantly with bitcoin'',
      sta_extendedDescription = ''A generic top-up app that swaps Lightning sats to a stablecoin and sends them to your card's deposit address. Works with RedotPay, Freedomia, Nexo, Bybit, and any other card that accepts on-chain crypto deposits.'',
      sta_logo = ''bitcoinCardTopup'', sta_categories = [CatPaymentTools],
      sta_webLink = Some ''https://card.albylabs.com'', sta_hideConnectionQr = None, sta_internal = None,
      sta_addedDate = None\<rparr>"

definition app_2fiat :: store_app where
  "app_2fiat =
     \<lparr>asa_id = ''2fiat'', asa_title = ''2fiat Top up'', asa_playLink = None, asa_appleLink = None,
      asa_zapStoreLink = None, asa_chromeLink = None, asa_firefoxLink = None, asa_superuser = None,
      asa_readonly = None, sta_legacyTitles = None,
      sta_description = ''No-KYC virtual prepaid Mastercard with instant lightning top ups'',
      sta_extendedDescription = ''No-KYC virtual prepaid Mastercard. Anonymous payments, Instant lightning top-ups, Apple & Google Pay ready, Load amounts from $10 to $10,000,  All cards support 3D Secure (3DS), Global usage - pay anywhere Mastercard is accepted.'',
      sta_logo = ''topup2fiat'', sta_categories = [CatPaymentTools],
      sta_webLink = Some ''http://2fiat.com/getalby'', sta_hideConnectionQr = None, sta_internal = None,
      sta_addedDate = None\<rparr>"

definition app_alby_cli_skill :: store_app where
  "app_alby_cli_skill =
     \<lparr>asa_id = ''alby-cli-skill'', asa_title = ''Alby CLI Skill'', asa_playLink = None,
      asa_appleLink = None, asa_zapStoreLink = None, asa_chromeLink = None, asa_firefoxLink = None,
      asa_superuser = None, asa_readonly = None, sta_legacyTitles = None,
      sta_description = ''Skill wrapper that helps AI agents use Alby CLI better'',
      sta_extendedDescription = ''Agent skill for Alby CLI with guided setup for skill-enabled coding agents and AI tooling.'',
      sta_logo = ''albyCli'', sta_categories = [CatAi],
      sta_webLink = Some ''https://github.com/getAlby/alby-cli-skill'', sta_hideConnectionQr = None,
      sta_internal = Some True, sta_addedDate = None\<rparr>"

definition app_payperq :: store_app where
  "app_payperq =
     \<lparr>asa_id = ''payperq'', asa_title = ''PayPerQ'', asa_playLink = None, asa_appleLink = None,
      asa_zapStoreLink = None, asa_chromeLink = None, asa_firefoxLink = None, asa_superuser = None,
      asa_readonly = None, sta_legacyTitles = None, sta_description = ''Pay-Per-Prompt AI Service'',
      sta_extendedDescription = ''Access all of the latest AI models and tools in one place without the need for subscriptions'',
      sta_logo = ''payperq'', sta_categories = [CatAi], sta_webLink = Some ''https://ppq.ai/invite/3f21c1e5'',
      sta_hideConnectionQr = Some True, sta_internal = None, sta_addedDate = None\<rparr>"

definition app_sats4ai :: store_app where
  "app_sats4ai =
     \<lparr>asa_id = ''sats4ai'', asa_title = ''Sats4AI'', asa_playLink = None, asa_appleLink = None,
      asa_zapStoreLink = None, asa_chromeLink = None, asa_firefoxLink = None, asa_superuser = None,
      asa_readonly = None, sta_legacyTitles = None,
      sta_description = ''30+ AI tools paid with lightning micropayments'',
      sta_extendedDescription = (''Access 30+ AI tools including image generation, video, text-to-speech, transcription, and more. No signup, no API keys '' @ [CHR 0xE2, CHR 0x80, CHR 0x94] @ '' just pay per use with lightning.''),
      sta_logo = ''sats4ai'', sta_categories = [CatAi], sta_webLink = Some ''https://sats4ai.com'',
      sta_hideConnectionQr = None, sta_internal = None, sta_addedDate = None\<rparr>"

definition app_simpleboost :: store_app where
  "app_simpleboost =
     \<lparr>asa_id = ''simpleboost'', asa_title = ''SimpleBoost'', asa_playLink = None, asa_appleLink = None,
      asa_zapStoreLink = None, asa_chromeLink = None, asa_firefoxLink = None, asa_superuser = None,
      asa_readonly = None, sta_legacyTitles = None, sta_description = ''Donation widget for your website'',
      sta_extendedDescription = ''Donation widget for your website'', sta_logo = ''simpleboost'',
      sta_categories = [CatMerchantTools], sta_webLink = Some ''https://getalby.github.io/simple-boost/'',
      sta_hideConnectionQr = None, sta_internal = Some True, sta_addedDate = None\<rparr>"

definition app_lightning_messageboard :: store_app where
  "app_lightning_messageboard =
     \<lparr>asa_id = ''lightning-messageboard'', asa_title = ''Lightning Messageboard'', asa_playLink = None,
      asa_appleLink = None, asa_zapStoreLink = None, asa_chromeLink = None, asa_firefoxLink = None,
      asa_superuser = None, asa_readonly = None, sta_legacyTitles = None,
      sta_description = ''Paid messageboard widget for your website'',
      sta_extendedDescription = ''Paid messageboard widget for your website'',
      sta_logo = ''lightningMessageboard'', sta_categories = [CatMerchantTools],
      sta_webLink = Some ''https://github.com/getAlby/lightning-messageboard'', sta_hideConnectionQr = None,
      sta_internal = Some True, sta_addedDate = None\<rparr>"

definition app_lnvps :: store_app where
  "app_lnvps =
     \<lparr>asa_id = ''lnvps'', asa_title = ''LNVPS'', asa_playLink = None, asa_appleLink = None,
      asa_zapStoreLink = None, asa_chromeLink = None, asa_firefoxLink = None, asa_superuser = None,
      asa_readonly = None, sta_legacyTitles = None, sta_description = ''VPS powered by Bitcoin'',
      sta_extendedDescription = ''Run VPS infrastructure with Bitcoin-native billing and automated renewals through Nostr Wallet Connect.'',
      sta_logo = ''lnvps'', sta_categories = [CatMisc], sta_webLink = Some ''https://lnvps.net/?ref=alby'',
      sta_hideConnectionQr = Some True, sta_internal = None, sta_addedDate = None\<rparr>"

definition app_alby_extension :: store_app where
  "app_alby_extension =
     \<lparr>asa_id = ''alby-extension'', asa_title = ''Alby Extension'', asa_playLink = None,
      asa_appleLink = None, asa_zapStoreLink = None,
      asa_chromeLink = Some ''https://chromewebstore.google.com/detail/iokeahhehimjnekafflcihljlcjccdbe'',
      asa_firefoxLink = Some ''https://addons.mozilla.org/en-US/firefox/addon/alby/'', asa_superuser = None,
      asa_readonly = None, sta_legacyTitles = None, sta_description = ''Wallet in your browser'',
      sta_extendedDescription = ''Connect your Hub to lightning-enabled websites and lets you pay seamlessly on the web'',
      sta_logo = ''albyExtension'', sta_categories = [CatWalletInterfaces],
      sta_webLink = Some ''https://getalby.com/products/browser-extension'', sta_hideConnectionQr = Some True,
      sta_internal = None, sta_addedDate = None\<rparr>"

definition app_alby_cli :: store_app where
  "app_alby_cli =
     \<lparr>asa_id = ''alby-cli'', asa_title = ''Alby CLI'', asa_playLink = None, asa_appleLink = None,
      asa_zapStoreLink = None, asa_chromeLink = None, asa_firefoxLink = None, asa_superuser = None,
      asa_readonly = None, sta_legacyTitles = None,
      sta_description = ''Command-line interface for Nostr Wallet Connect with lightning tools'',
      sta_extendedDescription = ''Manage your Alby Hub from the command line. Send and receive payments, create invoices, check your balance, and automate lightning workflows. Built for developers and AI agents.'',
      sta_logo = ''albyCli'', sta_categories = [CatWalletInterfaces],
      sta_webLink = Some ''https://github.com/getAlby/cli'', sta_hideConnectionQr = Some True,
      sta_internal = None, sta_addedDate = None\<rparr>"

definition app_alby_sandbox :: store_app where
  "app_alby_sandbox =
     \<lparr>asa_id = ''alby-sandbox'', asa_title = ''Alby Sandbox'', asa_playLink = None, asa_appleLink = None,
      asa_zapStoreLink = None, asa_chromeLink = None, asa_firefoxLink = None, asa_superuser = None,
      asa_readonly = None, sta_legacyTitles = None,
      sta_description = ''Interactive Lightning payment scenarios for app builders'',
      sta_extendedDescription = ''Explore real-world Lightning and Nostr Wallet Connect flows with guided scenarios, test wallets, and code-oriented examples for app development.'',
      sta_logo = ''albySandbox'', sta_categories = [CatMisc],
      sta_webLink = Some ''https://sandbox.albylabs.com'', sta_hideConnectionQr = None, sta_internal = None,
      sta_addedDate = None\<rparr>"

definition app_damus :: store_app where
  "app_damus =
     \<lparr>asa_id = ''damus'', asa_title = ''Damus'', asa_playLink = None,
      asa_appleLink = Some ''https://apps.apple.com/ca/app/damus/id1628663131'', asa_zapStoreLink = None,
      asa_chromeLink = None, asa_firefoxLink = None, asa_superuser = None, asa_readonly = None,
      sta_legacyTitles = None, sta_description = ''iOS Nostr client'',
      sta_extendedDescription = ''Tip nostr posts and profiles and receive zaps seamlessly with your Hub'',
      sta_logo = ''damus'', sta_categories = [CatSocialMedia],
      sta_webLink = Some ''https://damus.io/?utm_source=getalby'', sta_hideConnectionQr = None,
      sta_internal = None, sta_addedDate = None\<rparr>"

definition app_amethyst :: store_app where
  "app_amethyst =
     \<lparr>asa_id = ''amethyst'', asa_title = ''Amethyst'',
      asa_playLink = Some ''https://play.google.com/store/apps/details?id=com.vitorpamplona.amethyst'',
      asa_appleLink = None, asa_zapStoreLink = None, asa_chromeLink = None, asa_firefoxLink = None,
      asa_superuser = None, asa_readonly = None, sta_legacyTitles = None,
      sta_description = ''Android Nostr client'',
      sta_extendedDescription = ''Tip nostr posts and profiles and receive zaps seamlessly with your Hub'',
      sta_logo = ''amethyst'', sta_categories = [CatSocialMedia],
      sta_webLink = Some ''https://github.com/vitorpamplona/amethyst'', sta_hideConnectionQr = None,
      sta_internal = None, sta_addedDate = None\<rparr>"

definition app_primal :: store_app where
  "app_primal =
     \<lparr>asa_id = ''primal'', asa_title = ''Primal'',
      asa_playLink = Some ''https://play.google.com/store/apps/details?id=net.primal.android'',
      asa_appleLink = Some ''https://apps.apple.com/us/app/primal/id1673134518'', asa_zapStoreLink = None,
      asa_chromeLink = None, asa_firefoxLink = None, asa_superuser = None, asa_readonly = None,
      sta_legacyTitles = None, sta_description = ''Cross-platform social'',
      sta_extendedDescription = ''Tip nostr posts and profiles and receive zaps seamlessly with your Hub'',
      sta_logo = ''primal'', sta_categories = [CatSocialMedia], sta_webLink = Some ''https://primal.net/'',
      sta_hideConnectionQr = None, sta_internal = None, sta_addedDate = None\<rparr>"

definition app_runstr :: store_app where
  "app_runstr =
     \<lparr>asa_id = ''runstr'', asa_title = ''RUNSTR'', asa_playLink = None, asa_appleLink = None,
      asa_zapStoreLink = Some ''https://zapstore.dev/apps/naddr1qvzqqqr7pvpzqcgsy8425f5jwsd3yd4me6j5c64f7g96xr9vuvtv82fag5yf5lg0qqwxxmmd9eskummw09kk7atn9ee82mnnw3ezuurjda4x2cm50etju8'',
      asa_chromeLink = None, asa_firefoxLink = None, asa_superuser = None, asa_readonly = None,
      sta_legacyTitles = None, sta_description = ''Bitcoin-powered fitness competitions'',
      sta_extendedDescription = ''Track workouts, join team competitions, and earn Bitcoin rewards through Lightning payments'',
      sta_logo = ''runstr'', sta_categories = [CatMisc], sta_webLink = Some ''https://www.runstr.club'',
      sta_hideConnectionQr = None, sta_internal = None, sta_addedDate = None\<rparr>"

definition app_sat_sorter :: store_app where
  "app_sat_sorter =
     \<lparr>asa_id = ''sat-sorter'', asa_title = ''Sat Sorter'', asa_playLink = None, asa_appleLink = None,
      asa_zapStoreLink = None, asa_chromeLink = None, asa_firefoxLink = None, asa_superuser = None,
      asa_readonly = Some True, sta_legacyTitles = None, sta_description = ''A Bitcoin Budgeting App'',
      sta_extendedDescription = ''A privacy-first, zero-based budgeting app for Bitcoiners. Connects via NWC for automatic Lightning transaction sync.'',
      sta_logo = ''satsorter'', sta_categories = [CatMisc], sta_webLink = Some ''https://satsorter.com'',
      sta_hideConnectionQr = None, sta_internal = None, sta_addedDate = None\<rparr>"

definition app_zap_stream :: store_app where
  "app_zap_stream =
     \<lparr>asa_id = ''zap-stream'', asa_title = ''Zap Stream'', asa_playLink = None, asa_appleLink = None,
      asa_zapStoreLink = None, asa_chromeLink = None, asa_firefoxLink = None, asa_superuser = None,
      asa_readonly = None, sta_legacyTitles = None, sta_description = ''Stream and stack sats'',
      sta_extendedDescription = ''Tip streamers, zap comments and pay or receive sats for streaming time with your Hub'',
      sta_logo = ''zapstream'', sta_categories = [CatSocialMedia], sta_webLink = Some ''https://zap.stream/'',
      sta_hideConnectionQr = None, sta_internal = None, sta_addedDate = None\<rparr>"

definition app_bitrequest :: store_app where
  "app_bitrequest =
     \<lparr>asa_id = ''bitrequest'', asa_title = ''Bitrequest'',
      asa_playLink = Some ''https://play.google.com/store/apps/details?id=io.bitrequest.app'',
      asa_appleLink = Some ''https://apps.apple.com/us/app/bitrequest/id1484815377'', asa_zapStoreLink = None,
      asa_chromeLink = None, asa_firefoxLink = None, asa_superuser = None, asa_readonly = Some True,
      sta_legacyTitles = None, sta_description = ''Non-custodial payment requests'',
      sta_extendedDescription = ''Open-source, Non-custodial app for creating and sharing cryptocurrency payment requests'',
      sta_logo = ''bitrequest'', sta_categories = [CatMerchantTools],
      sta_webLink = Some ''https://www.bitrequest.io'', sta_hideConnectionQr = None, sta_internal = None,
      sta_addedDate = None\<rparr>"

definition app_btcpay :: store_app where
  "app_btcpay =
     \<lparr>asa_id = ''btcpay'', asa_title = ''BTCPay Server'', asa_playLink = None, asa_appleLink = None,
      asa_zapStoreLink = None, asa_chromeLink = None, asa_firefoxLink = None, asa_superuser = None,
      asa_readonly = Some True, sta_legacyTitles = None, sta_description = ''Bitcoin payment processor'',
      sta_extendedDescription = ''Receive payments directly to your Hub for products you sell online'',
      sta_logo = ''btcpay'', sta_categories = [CatMerchantTools],
      sta_webLink = Some ''https://btcpayserver.org/'', sta_hideConnectionQr = None, sta_internal = None,
      sta_addedDate = None\<rparr>"

definition app_lnbits :: store_app where
  "app_lnbits =
     \<lparr>asa_id = ''lnbits'', asa_title = ''LNbits'', asa_playLink = None, asa_appleLink = None,
      asa_zapStoreLink = None, asa_chromeLink = None, asa_firefoxLink = None, asa_superuser = None,
      asa_readonly = None, sta_legacyTitles = None,
      sta_description = ''Wallet accounts system with extensions'',
      sta_extendedDescription = ''Connect your Alby Hub to LNbits to give extra functionality through plugins such as BOLT cards and lightning vouchers'',
      sta_logo = ''lnbits'', sta_categories = [CatMisc, CatPaymentTools],
      sta_webLink = Some ''https://lnbits.com/'', sta_hideConnectionQr = None, sta_internal = None,
      sta_addedDate = None\<rparr>"

definition app_coracle :: store_app where
  "app_coracle =
     \<lparr>asa_id = ''coracle'', asa_title = ''Coracle.social'', asa_playLink = None, asa_appleLink = None,
      asa_zapStoreLink = None, asa_chromeLink = None, asa_firefoxLink = None, asa_superuser = None,
      asa_readonly = None, sta_legacyTitles = None, sta_description = ''Desktop Nostr client'',
      sta_extendedDescription = ''Tip nostr posts and profiles and receive zaps seamlessly with your Hub'',
      sta_logo = ''coracle'', sta_categories = [CatSocialMedia], sta_webLink = Some ''https://coracle.social/'',
      sta_hideConnectionQr = None, sta_internal = None, sta_addedDate = None\<rparr>"

definition app_nostter :: store_app where
  "app_nostter =
     \<lparr>asa_id = ''nostter'', asa_title = ''Nostter'', asa_playLink = None, asa_appleLink = None,
      asa_zapStoreLink = None, asa_chromeLink = None, asa_firefoxLink = None, asa_superuser = None,
      asa_readonly = None, sta_legacyTitles = None, sta_description = ''Minimalistic, desktop Nostr client'',
      sta_extendedDescription = ''Tip nostr posts and profiles and receive zaps seamlessly with your Hub'',
      sta_logo = ''nostter'', sta_categories = [CatSocialMedia], sta_webLink = Some ''https://nostter.app/'',
      sta_hideConnectionQr = None, sta_internal = None, sta_addedDate = None\<rparr>"

definition app_wavlake :: store_app where
  "app_wavlake =
     \<lparr>asa_id = ''wavlake'', asa_title = ''Wavlake'',
      asa_playLink = Some ''https://play.google.com/store/apps/details?id=com.wavlake.mobile'',
      asa_appleLink = Some ''https://apps.apple.com/us/app/wavlake-social-music-player/id6463653431'',
      asa_zapStoreLink = None, asa_chromeLink = None, asa_firefoxLink = None, asa_superuser = None,
      asa_readonly = None, sta_legacyTitles = None,
      sta_description = ''Turn up the value for your biggest fans'',
      sta_extendedDescription = ''Support artists by paying to upvote music you enjoy with your Hub'',
      sta_logo = ''wavlake'', sta_categories = [CatAudio], sta_webLink = Some ''https://www.wavlake.com/'',
      sta_hideConnectionQr = None, sta_internal = None, sta_addedDate = None\<rparr>"

definition app_fountain :: store_app where
  "app_fountain =
     \<lparr>asa_id = ''fountain'', asa_title = ''Fountain'',
      asa_playLink = Some ''https://play.google.com/store/apps/details?id=fm.fountain.apps'',
      asa_appleLink = Some ''https://apps.apple.com/us/app/fountain-podcast-player/id1576394424'',
      asa_zapStoreLink = None, asa_chromeLink = None, asa_firefoxLink = None, asa_superuser = None,
      asa_readonly = None, sta_legacyTitles = None,
      sta_description = ''Discover millions of podcasts and emerging artists worth supporting'',
      sta_extendedDescription = ''Discover millions of podcasts and emerging artists worth supporting. Powered by RSS, Lightning and Nostr'',
      sta_logo = ''fountain'', sta_categories = [CatAudio], sta_webLink = Some ''https://www.fountain.fm'',
      sta_hideConnectionQr = None, sta_internal = None, sta_addedDate = None\<rparr>"

definition app_wavespace :: store_app where
  "app_wavespace =
     \<lparr>asa_id = ''wavespace'', asa_title = (''wavecard'' @ [CHR 0xC2, CHR 0xAE] @ '' by wave.space''),
      asa_playLink = None, asa_appleLink = None, asa_zapStoreLink = None, asa_chromeLink = None,
      asa_firefoxLink = None, asa_superuser = None, asa_readonly = None, sta_legacyTitles = None,
      sta_description = ''Spend Bitcoin from your AlbyHub at 150M+ merchants worldwide'',
      sta_extendedDescription = (''The world's first Bitcoin VISA Debit Card that allows you to spend BTC globally, anywhere VISA is accepted '' @ [CHR 0xE2, CHR 0x80, CHR 0x93] @ '' straight from the safety of your own NWC-enabled wallet. '' @ [CHR 0xE2, CHR 0x9C, CHR 0xA8] @ '' EXCLUSIVE ALBYHUB SPECIAL'' @ [CHR 0xF0, CHR 0x9F, CHR 0x90, CHR 0x9D] @ '' '' @ [CHR 0xE2, CHR 0x86, CHR 0x92] @ '' Get 21% cashback on your wavecard transactions (up to 10,000 sats) using code '' @ [CHR 0xC2, CHR 0xBB] @ ''AlbyHub'' @ [CHR 0xC2, CHR 0xAB]),
      sta_logo = ''wavespace'', sta_categories = [CatPaymentTools],
      sta_webLink = Some ''https://app.wave.space/?utm_source=albyhub&affiliate=AlbyHub'',
      sta_hideConnectionQr = None, sta_internal = None, sta_addedDate = None\<rparr>"

definition app_snort :: store_app where
  "app_snort =
     \<lparr>asa_id = ''snort'', asa_title = ''Snort'', asa_playLink = None, asa_appleLink = None,
      asa_zapStoreLink = None, asa_chromeLink = None, asa_firefoxLink = None, asa_superuser = None,
      asa_readonly = None, sta_legacyTitles = None, sta_description = ''Web Nostr client'',
      sta_extendedDescription = ''Tip nostr posts and profiles and receive zaps seamlessly with your Hub'',
      sta_logo = ''snort'', sta_categories = [CatSocialMedia], sta_webLink = Some ''https://snort.social/'',
      sta_hideConnectionQr = None, sta_internal = None, sta_addedDate = None\<rparr>"

definition app_habla_news :: store_app where
  "app_habla_news =
     \<lparr>asa_id = ''habla-news'', asa_title = ''Habla News'', asa_playLink = None, asa_appleLink = None,
      asa_zapStoreLink = None, asa_chromeLink = None, asa_firefoxLink = None, asa_superuser = None,
      asa_readonly = None, sta_legacyTitles = None, sta_description = ''Blogging platform'',
      sta_extendedDescription = ''Tip nostr posts and profiles and receive zaps seamlessly with your Hub'',
      sta_logo = ''hablanews'', sta_categories = [CatBlogging], sta_webLink = Some ''https://habla.news/'',
      sta_hideConnectionQr = None, sta_internal = None, sta_addedDate = None\<rparr>"

definition app_iris :: store_app where
  "app_iris =
     \<lparr>asa_id = ''iris'', asa_title = ''Iris'', asa_playLink = None, asa_appleLink = None,
      asa_zapStoreLink = None, asa_chromeLink = None, asa_firefoxLink = None, asa_superuser = None,
      asa_readonly = None, sta_legacyTitles = None,
      sta_description = ''The nostr client for better social networks'',
      sta_extendedDescription = ''Tip nostr posts and profiles and receive zaps seamlessly with your Hub'',
      sta_logo = ''iris'', sta_categories = [CatSocialMedia], sta_webLink = Some ''https://iris.to/'',
      sta_hideConnectionQr = None, sta_internal = None, sta_addedDate = None\<rparr>"

definition app_clams :: store_app where
  "app_clams =
     \<lparr>asa_id = ''clams'', asa_title = ''Clams'', asa_playLink = None, asa_appleLink = None,
      asa_zapStoreLink = None, asa_chromeLink = None, asa_firefoxLink = None, asa_superuser = None,
      asa_readonly = Some True, sta_legacyTitles = None, sta_description = ''Multi wallet accounting tool'',
      sta_extendedDescription = ''Get insights into your transaction history and accounting tools by connecting your Hub'',
      sta_logo = ''clams'', sta_categories = [CatPaymentTools], sta_webLink = Some ''https://clams.tech/'',
      sta_hideConnectionQr = None, sta_internal = None, sta_addedDate = None\<rparr>"

definition app_nostrcheck_server :: store_app where
  "app_nostrcheck_server =
     \<lparr>asa_id = ''nostrcheck-server'', asa_title = ''Nostrcheck Server'', asa_playLink = None,
      asa_appleLink = None, asa_zapStoreLink = None, asa_chromeLink = None, asa_firefoxLink = None,
      asa_superuser = None, asa_readonly = Some True, sta_legacyTitles = None,
      sta_description = ''Sovereign Nostr services'',
      sta_extendedDescription = ''Enable payments to your Hub from users who register or upload and download files'',
      sta_logo = ''nostrcheckserver'', sta_categories = [CatNostrTools],
      sta_webLink = Some ''https://github.com/quentintaranpino/nostrcheck-server'', sta_hideConnectionQr = None,
      sta_internal = None, sta_addedDate = None\<rparr>"

definition app_nostrudel :: store_app where
  "app_nostrudel =
     \<lparr>asa_id = ''nostrudel'', asa_title = ''noStrudel'', asa_playLink = None, asa_appleLink = None,
      asa_zapStoreLink = None, asa_chromeLink = None, asa_firefoxLink = None, asa_superuser = None,
      asa_readonly = None, sta_legacyTitles = None, sta_description = ''Web Nostr client'',
      sta_extendedDescription = ''Tip nostr posts and profiles and receive zaps seamlessly with your Hub'',
      sta_logo = ''nostrudel'', sta_categories = [CatSocialMedia],
      sta_webLink = Some ''https://nostrudel.ninja/'', sta_hideConnectionQr = None, sta_internal = None,
      sta_addedDate = None\<rparr>"

definition app_yakihonne :: store_app where
  "app_yakihonne =
     \<lparr>asa_id = ''yakihonne'', asa_title = ''YakiHonne'',
      asa_playLink = Some ''https://play.google.com/store/apps/details?id=com.yakihonne.yakihonne'',
      asa_appleLink = Some ''https://apps.apple.com/us/app/yakihonne/id6472556189'', asa_zapStoreLink = None,
      asa_chromeLink = None, asa_firefoxLink = None, asa_superuser = None, asa_readonly = None,
      sta_legacyTitles = None, sta_description = ''Your all in one nostr client'',
      sta_extendedDescription = ''Tip nostr posts and profiles and receive zaps seamlessly with your Hub'',
      sta_logo = ''yakihonne'', sta_categories = [CatSocialMedia, CatBlogging],
      sta_webLink = Some ''https://yakihonne.com/'', sta_hideConnectionQr = None, sta_internal = None,
      sta_addedDate = None\<rparr>"

definition app_zapplanner :: store_app where
  "app_zapplanner =
     \<lparr>asa_id = ''zapplanner'', asa_title = ''ZapPlanner'', asa_playLink = None, asa_appleLink = None,
      asa_zapStoreLink = None, asa_chromeLink = None, asa_firefoxLink = None, asa_superuser = None,
      asa_readonly = None, sta_legacyTitles = None, sta_description = ''Schedule payments'',
      sta_extendedDescription = ''Schedule payments to a lightning address'', sta_logo = ''zapplanner'',
      sta_categories = [CatPaymentTools], sta_webLink = Some ''https://zapplanner.albylabs.com/'',
      sta_hideConnectionQr = None, sta_internal = Some True, sta_addedDate = None\<rparr>"

definition app_zapplepay :: store_app where
  "app_zapplepay =
     \<lparr>asa_id = ''zapplepay'', asa_title = ''Zapple Pay'', asa_playLink = None, asa_appleLink = None,
      asa_zapStoreLink = None, asa_chromeLink = None, asa_firefoxLink = None, asa_superuser = None,
      asa_readonly = None, sta_legacyTitles = None, sta_description = ''Zap from any client'',
      sta_extendedDescription = ''ZapplePay will make payments from your Hub to zap posts when you react to them'',
      sta_logo = ''zapplepay'', sta_categories = [CatNostrTools],
      sta_webLink = Some ''https://www.zapplepay.com/'', sta_hideConnectionQr = None, sta_internal = None,
      sta_addedDate = None\<rparr>"

definition app_lume :: store_app where
  "app_lume =
     \<lparr>asa_id = ''lume'', asa_title = ''Lume'', asa_playLink = None, asa_appleLink = None,
      asa_zapStoreLink = None, asa_chromeLink = None, asa_firefoxLink = None, asa_superuser = None,
      asa_readonly = None, sta_legacyTitles = None, sta_description = ''macOS Nostr client'',
      sta_extendedDescription = ''Tip nostr posts and profiles and receive zaps seamlessly with your Hub'',
      sta_logo = ''lume'', sta_categories = [CatSocialMedia], sta_webLink = Some ''https://lume.nu/'',
      sta_hideConnectionQr = None, sta_internal = None, sta_addedDate = None\<rparr>"

definition app_nadanada :: store_app where
  "app_nadanada =
     \<lparr>asa_id = ''nadanada'', asa_title = ''nadanada'', asa_playLink = None, asa_appleLink = None,
      asa_zapStoreLink = None, asa_chromeLink = None, asa_firefoxLink = None, asa_superuser = None,
      asa_readonly = None, sta_legacyTitles = None, sta_description = ''No-KYC eSIM, VPN and phone numbers'',
      sta_extendedDescription = ''Privacy-first eSIM, VPN, and phone numbers with no account required.'',
      sta_logo = ''nadanada'', sta_categories = [CatMisc],
      sta_webLink = Some ''https://nadanada.me?ref=getalby'', sta_hideConnectionQr = None, sta_internal = None,
      sta_addedDate = Some ''2026-04-10''\<rparr>"

definition app_nakapay :: store_app where
  "app_nakapay =
     \<lparr>asa_id = ''nakapay'', asa_title = ''NakaPay'', asa_playLink = None, asa_appleLink = None,
      asa_zapStoreLink = None, asa_chromeLink = None, asa_firefoxLink = None, asa_superuser = None,
      asa_readonly = Some True, sta_legacyTitles = None,
      sta_description = ''Non-custodial Lightning payments for businesses via NWC'',
      sta_extendedDescription = ''Accept Bitcoin Lightning payments directly to your Hub wallet. NakaPay generates invoices that customers pay directly to you - your funds never go through NakaPay (fully non-custodial)'',
      sta_logo = ''nakapay'', sta_categories = [CatMerchantTools],
      sta_webLink = Some ''https://www.nakapay.app'', sta_hideConnectionQr = None, sta_internal = None,
      sta_addedDate = None\<rparr>"

definition app_zappy_bird :: store_app where
  "app_zappy_bird =
     \<lparr>asa_id = ''zappy-bird'', asa_title = ''Zappy Bird'', asa_playLink = None, asa_appleLink = None,
      asa_zapStoreLink = None, asa_chromeLink = None, asa_firefoxLink = None, asa_superuser = None,
      asa_readonly = None, sta_legacyTitles = None, sta_description = ''Lose sats quickly'',
      sta_extendedDescription = ''Makes a payment from your Hub each time your bird flaps its wings'',
      sta_logo = ''zappybird'', sta_categories = [CatGames],
      sta_webLink = Some ''https://rolznz.github.io/zappy-bird/'', sta_hideConnectionQr = None,
      sta_internal = None, sta_addedDate = None\<rparr>"

definition app_tictactoe :: store_app where
  "app_tictactoe =
     \<lparr>asa_id = ''tictactoe'', asa_title = ''Tic Tac Toe'', asa_playLink = None, asa_appleLink = None,
      asa_zapStoreLink = None, asa_chromeLink = None, asa_firefoxLink = None, asa_superuser = None,
      asa_readonly = None, sta_legacyTitles = None,
      sta_description = ''Earn satoshis while playing multiplayer tic-tac-toe. Lightning network fast.'',
      sta_extendedDescription = ''Earn satoshis while playing multiplayer tic-tac-toe. Lightning network fast.'',
      sta_logo = ''tictactoe'', sta_categories = [CatGames], sta_webLink = Some ''https://lntictactoe.com/'',
      sta_hideConnectionQr = None, sta_internal = Some True, sta_addedDate = None\<rparr>"

definition app_nostur :: store_app where
  "app_nostur =
     \<lparr>asa_id = ''nostur'', asa_title = ''Nostur'', asa_playLink = None,
      asa_appleLink = Some ''https://apps.apple.com/us/app/nostur-nostr-client/id1672780508'',
      asa_zapStoreLink = None, asa_chromeLink = None, asa_firefoxLink = None, asa_superuser = None,
      asa_readonly = None, sta_legacyTitles = None, sta_description = ''Social media'',
      sta_extendedDescription = ''Tip nostr posts and profiles and receive zaps seamlessly with your Hub'',
      sta_logo = ''nostur'', sta_categories = [CatSocialMedia], sta_webLink = Some ''https://nostur.com/'',
      sta_hideConnectionQr = None, sta_internal = None, sta_addedDate = None\<rparr>"

definition app_wherostr :: store_app where
  "app_wherostr =
     \<lparr>asa_id = ''wherostr'', asa_title = ''Wherostr'',
      asa_playLink = Some ''https://play.google.com/store/apps/details?id=th.co.mapboss.wherostr.social.wherostr_social&hl=en&pli=1'',
      asa_appleLink = Some ''https://apps.apple.com/us/app/wherostr/id6503808206'', asa_zapStoreLink = None,
      asa_chromeLink = None, asa_firefoxLink = None, asa_superuser = None, asa_readonly = None,
      sta_legacyTitles = None, sta_description = ''Map of notes'',
      sta_extendedDescription = ''Tip nostr posts and profiles and receive zaps seamlessly with your Hub'',
      sta_logo = ''wherostr'', sta_categories = [CatSocialMedia],
      sta_webLink = Some ''https://wherostr.social/'', sta_hideConnectionQr = None, sta_internal = None,
      sta_addedDate = None\<rparr>"

definition app_stackernews :: store_app where
  "app_stackernews =
     \<lparr>asa_id = ''stackernews'', asa_title = ''stacker news'', asa_playLink = None, asa_appleLink = None,
      asa_zapStoreLink = None, asa_chromeLink = None, asa_firefoxLink = None, asa_superuser = None,
      asa_readonly = None, sta_legacyTitles = None, sta_description = ''Like Hacker News but with Bitcoin'',
      sta_extendedDescription = ''Upvote posts with sats and receive sats for your own posts directly in your Hub'',
      sta_logo = ''stackernews'', sta_categories = [CatSocialMedia],
      sta_webLink = Some ''https://stacker.news/'', sta_hideConnectionQr = None, sta_internal = None,
      sta_addedDate = None\<rparr>"

definition app_pullthatupjamie_ai :: store_app where
  "app_pullthatupjamie_ai =
     \<lparr>asa_id = ''pullthatupjamie-ai'', asa_title = ''Pull That Up Jamie!'', asa_playLink = None,
      asa_appleLink = None, asa_zapStoreLink = None, asa_chromeLink = None, asa_firefoxLink = None,
      asa_superuser = None, asa_readonly = None, sta_legacyTitles = None,
      sta_description = ''Instantly pull up anything with private web search + AI'',
      sta_extendedDescription = ''Pay from your Hub to do private AI-powered searches'',
      sta_logo = ''pullthatupjamie'', sta_categories = [CatMisc],
      sta_webLink = Some ''https://www.pullthatupjamie.ai/'', sta_hideConnectionQr = None, sta_internal = None,
      sta_addedDate = None\<rparr>"

definition app_zapstore :: store_app where
  "app_zapstore =
     \<lparr>asa_id = ''zapstore'', asa_title = ''Zapstore'', asa_playLink = None, asa_appleLink = None,
      asa_zapStoreLink = None, asa_chromeLink = None, asa_firefoxLink = None, asa_superuser = None,
      asa_readonly = None, sta_legacyTitles = None,
      sta_description = ''Discover great apps through your social connections'',
      sta_extendedDescription = ''Pay to zap apps and support their creators seamlessly with your Hub'',
      sta_logo = ''zapstore'', sta_categories = [CatMisc], sta_webLink = Some ''https://zapstore.dev/'',
      sta_hideConnectionQr = None, sta_internal = None, sta_addedDate = None\<rparr>"

definition app_zeus :: store_app where
  "app_zeus =
     \<lparr>asa_id = ''zeus'', asa_title = ''ZEUS'',
      asa_playLink = Some ''https://play.google.com/store/apps/details?id=app.zeusln.zeus'',
      asa_appleLink = Some ''https://apps.apple.com/us/app/zeus-wallet/id1456038895'',
      asa_zapStoreLink = Some ''https://zapstore.dev/download/'', asa_chromeLink = None, asa_firefoxLink = None,
      asa_superuser = None, asa_readonly = None, sta_legacyTitles = None,
      sta_description = ''A self-custodial Bitcoin wallet that puts you in control.'',
      sta_extendedDescription = ''Send and receive payments, to and from your Hub, on the go'',
      sta_logo = ''zeus'', sta_categories = [CatWalletInterfaces], sta_webLink = Some ''https://zeusln.com/'',
      sta_hideConnectionQr = None, sta_internal = None, sta_addedDate = None\<rparr>"

definition app_bitrefill :: store_app where
  "app_bitrefill =
     \<lparr>asa_id = ''bitrefill'', asa_title = ''Bitrefill'',
      asa_playLink = Some ''https://play.google.com/store/apps/details?id=com.bitrefill.app&hl=en'',
      asa_appleLink = Some ''https://apps.apple.com/us/app/bitrefill-esims-gift-cards/id1378102623'',
      asa_zapStoreLink = None, asa_chromeLink = None, asa_firefoxLink = None, asa_superuser = None,
      asa_readonly = None, sta_legacyTitles = None, sta_description = ''Live on bitcoin'',
      sta_extendedDescription = ''Buy gift cards and e-sims with no KYC'', sta_logo = ''bitrefill'',
      sta_categories = [CatShopping], sta_webLink = Some ''https://bitrefill.com'', sta_hideConnectionQr = None,
      sta_internal = None, sta_addedDate = None\<rparr>"

definition app_bringin :: store_app where
  "app_bringin =
     \<lparr>asa_id = ''bringin'', asa_title = ''Bringin'',
      asa_playLink = Some ''https://play.google.com/store/apps/details?id=xyz.bringin.client'',
      asa_appleLink = Some ''https://apps.apple.com/in/app/bringin/id1579153016'',
      asa_zapStoreLink = Some ''https://zapstore.dev/download/'', asa_chromeLink = None, asa_firefoxLink = None,
      asa_superuser = None, asa_readonly = None, sta_legacyTitles = None,
      sta_description = ''Spend Bitcoin from your Alby Hub with VISA at 150M+ merchants worldwide'',
      sta_extendedDescription = (''Bringin turns your Alby Hub into a global spending account. Connect once and instantly swap sats into Euro with a linked IBAN and debit card. Spend Bitcoin at 150M+ VISA merchants worldwide, or pay directly with Euro IBAN transfers'' @ [CHR 0xE2, CHR 0x80, CHR 0x94] @ ''all while keeping your funds in self-custody via Alby Hub. Lightning in, real-world payments out.''),
      sta_logo = ''bringin'', sta_categories = [CatPaymentTools], sta_webLink = Some ''https://bringin.xyz'',
      sta_hideConnectionQr = None, sta_internal = None, sta_addedDate = None\<rparr>"

definition app_jumble :: store_app where
  "app_jumble =
     \<lparr>asa_id = ''jumble'', asa_title = ''Jumble'', asa_playLink = None, asa_appleLink = None,
      asa_zapStoreLink = None, asa_chromeLink = None, asa_firefoxLink = None, asa_superuser = None,
      asa_readonly = None, sta_legacyTitles = None,
      sta_description = ''Social media client with Bitcoin Connect'',
      sta_extendedDescription = ''A social media client that uses Bitcoin Connect for seamless wallet integration with your Hub'',
      sta_logo = ''jumble'', sta_categories = [CatSocialMedia], sta_webLink = Some ''https://jumble.social'',
      sta_hideConnectionQr = None, sta_internal = None, sta_addedDate = None\<rparr>"

definition app_takemysats :: store_app where
  "app_takemysats =
     \<lparr>asa_id = ''takemysats'', asa_title = ''Take My Sats'', asa_playLink = None, asa_appleLink = None,
      asa_zapStoreLink = None, asa_chromeLink = None, asa_firefoxLink = None, asa_superuser = None,
      asa_readonly = Some True, sta_legacyTitles = None,
      sta_description = ''Create your online store and accept Bitcoin payments'',
      sta_extendedDescription = ''A Bitcoin e-commerce platform that enables merchants to create online stores and accept Lightning payments directly to your Hub'',
      sta_logo = ''takemysats'', sta_categories = [CatMerchantTools],
      sta_webLink = Some ''https://www.takemysats.com'', sta_hideConnectionQr = None, sta_internal = None,
      sta_addedDate = None\<rparr>"

definition app_tunnelsats :: store_app where
  "app_tunnelsats =
     \<lparr>asa_id = ''tunnelsats'', asa_title = ''TunnelSats'', asa_playLink = None, asa_appleLink = None,
      asa_zapStoreLink = None, asa_chromeLink = None, asa_firefoxLink = None, asa_superuser = None,
      asa_readonly = None, sta_legacyTitles = None, sta_description = ''Privacy Lightning VPN'',
      sta_extendedDescription = ''Secure your lightning node with a dedicated static IP. Automated, non-custodial VPN renewals via Nostr Wallet Connect.'',
      sta_logo = ''tunnelsats'', sta_categories = [CatMisc], sta_webLink = Some ''https://tunnelsats.com'',
      sta_hideConnectionQr = None, sta_internal = None, sta_addedDate = None\<rparr>"

definition app_lendaswap :: store_app where
  "app_lendaswap =
     \<lparr>asa_id = ''lendaswap'', asa_title = ''Satora'', asa_playLink = None, asa_appleLink = None,
      asa_zapStoreLink = None, asa_chromeLink = None, asa_firefoxLink = None, asa_superuser = None,
      asa_readonly = None, sta_legacyTitles = Some [''LendaSwap''],
      sta_description = (''Self-custodial Bitcoin '' @ [CHR 0xE2, CHR 0x86, CHR 0x94] @ '' Stablecoin atomic swaps''),
      sta_extendedDescription = (''Swap between Lightning Bitcoin and stablecoins (USDC, USDT) on Polygon, Arbitrum, and Ethereum. Satora uses your Hub to pay swap invoices and generate receiving invoices '' @ [CHR 0xE2, CHR 0x80, CHR 0x94] @ '' all self-custodial via HTLCs.''),
      sta_logo = ''satoraLogo'', sta_categories = [CatPaymentTools],
      sta_webLink = Some ''https://app.satora.io/?ref=lnds_e3f8dd88_f7db93dbf176'', sta_hideConnectionQr = None,
      sta_internal = None, sta_addedDate = Some ''2026-04-10''\<rparr>"

definition store_table :: "store_app list" where
  "store_table =
     [app_alby_go, app_buzzpay, app_castamatic, app_bitcoin_card_topup, app_2fiat, app_alby_cli_skill,
      app_payperq, app_sats4ai, app_simpleboost, app_lightning_messageboard, app_lnvps, app_alby_extension,
      app_alby_cli, app_alby_sandbox, app_damus, app_amethyst, app_primal, app_runstr,
      app_sat_sorter, app_zap_stream, app_bitrequest, app_btcpay, app_lnbits, app_coracle,
      app_nostter, app_wavlake, app_fountain, app_wavespace, app_snort, app_habla_news,
      app_iris, app_clams, app_nostrcheck_server, app_nostrudel, app_yakihonne, app_zapplanner,
      app_zapplepay, app_lume, app_nadanada, app_nakapay, app_zappy_bird, app_tictactoe,
      app_nostur, app_wherostr, app_stackernews, app_pullthatupjamie_ai, app_zapstore, app_zeus,
      app_bitrefill, app_bringin, app_jumble, app_takemysats, app_tunnelsats, app_lendaswap]"

text \<open>\<open>toUpperCase\<close> of the titles: their only letters outside ASCII have no case.\<close>

definition upper_char :: "char \<Rightarrow> char" where
  "upper_char c = (let n = (of_char c :: nat) in if 97 \<le> n \<and> n \<le> 122 then char_of (n - 32) else c)"

fun text_greater :: "string \<Rightarrow> string \<Rightarrow> bool" where
  "text_greater [] ys = False"
| "text_greater (x # xs) [] = True"
| "text_greater (x # xs) (y # ys) = (if x = y then text_greater xs ys else (of_char y :: nat) < of_char x)"

definition by_title :: "store_app \<Rightarrow> store_app \<Rightarrow> int" where
  "by_title a b = (if text_greater (map upper_char (asa_title a)) (map upper_char (asa_title b)) then 1 else -1)"

definition appStoreApps :: "store_app list" where
  "appStoreApps = sort_cmp by_title store_table"

section \<open>Which entry a connection belongs to\<close>

definition getAppStoreUrl :: "store_app \<Rightarrow> string" where
  "getAppStoreUrl app =
     (if sta_internal app = Some True then ''/internal-apps/'' @ asa_id app else ''/appstore/'' @ asa_id app)"

definition belongs_to :: "string option \<Rightarrow> string \<Rightarrow> store_app \<Rightarrow> bool" where
  "belongs_to appStoreAppId name suggestedApp =
     (asa_id suggestedApp = nullish appStoreAppId [] \<or> includes_str (asa_title suggestedApp) name \<or>
      (case sta_legacyTitles suggestedApp of
         Some titles \<Rightarrow> list_ex (\<lambda>title. includes_str title name) titles
       | None \<Rightarrow> False))"

definition getAppStoreApp :: "App \<Rightarrow> store_app option" where
  "getAppStoreApp app =
     find (belongs_to (Option.bind (app_metadata app) meta_app_store_app_id) (app_name app)) appStoreApps"

section \<open>The list\<close>

definition initial_categories :: "params \<Rightarrow> string list" where
  "initial_categories searchParams =
     (let c = params_get searchParams ''category'' in if truthy_str c then [the c] else [])"

definition toggle_category :: "string \<Rightarrow> string list \<Rightarrow> string list" where
  "toggle_category categoryId current =
     filter (\<lambda>c. c \<noteq> categoryId) current @ (if categoryId \<in> set current then [] else [categoryId])"

definition store_sections :: "string list \<Rightarrow> (string \<times> store_app list) list" where
  "store_sections selectedCategories =
     map (\<lambda>(c, title, priority). (title, filter (\<lambda>app. c \<in> set (sta_categories app)) appStoreApps))
       (filter (\<lambda>(c, title, priority). selectedCategories = [] \<or> category_id c \<in> set selectedCategories)
          sortedAppStoreCategories)"

fun join_texts :: "string \<Rightarrow> string list \<Rightarrow> string" where
  "join_texts sep [] = []"
| "join_texts sep [x] = x"
| "join_texts sep (x # xs) = x @ sep @ join_texts sep xs"

definition store_card_description :: "store_app \<Rightarrow> string" where
  "store_card_description app =
     sta_description app @
     (case sta_legacyTitles app of
        Some (t # ts) \<Rightarrow> '' (Previously '' @ join_texts '', '' (t # ts) @ '')''
      | _ \<Rightarrow> [])"

section \<open>The page of an entry\<close>

definition app_links :: "store_app \<Rightarrow> (string \<times> string) list" where
  "app_links app =
     (let link = (\<lambda>label url. if truthy_str url then [(label, the url)] else [])
      in link ''Website'' (sta_webLink app) @ link ''Play Store'' (asa_playLink app) @
         link ''App Store'' (asa_appleLink app) @ link ''Zapstore'' (asa_zapStoreLink app) @
         link ''Chrome Web Store'' (asa_chromeLink app) @ link ''Firefox Add-Ons'' (asa_firefoxLink app))"

definition AppLinksCard :: "store_app \<Rightarrow> (string \<times> string) list option" where
  "AppLinksCard app = (if app_links app = [] then None else Some (app_links app))"

datatype store_detail = DetailRedirect string | DetailPage store_app

definition AppStoreDetail :: "string \<Rightarrow> store_detail" where
  "AppStoreDetail appStoreId =
     (case find (\<lambda>x. asa_id x = appStoreId) appStoreApps of
        None \<Rightarrow> DetailRedirect ''/apps?tab=app-store''
      | Some app \<Rightarrow>
          if sta_internal app = Some True then DetailRedirect (''/internal-apps/'' @ appStoreId) else DetailPage app)"

definition connected_effect :: "App list option \<Rightarrow> ('s, unit) act" where
  "connected_effect connectedApps =
     (case connectedApps of Some (a # _) \<Rightarrow> emit (ENavigate (''/apps/'' @ show_int (app_id a))) | _ \<Rightarrow> ret ())"

text \<open>The badge of the header: nothing is shown before the connections are loaded.\<close>

definition connections_badge :: "App list option \<Rightarrow> string option option" where
  "connections_badge connectedApps =
     map_option (\<lambda>apps. if apps = [] then None
                        else if length apps > 1 then Some (show_nat (length apps) @ '' Connections'')
                        else Some ''Connected'') connectedApps"

definition connect_link :: "store_app \<Rightarrow> string" where
  "connect_link app = ''/apps/new?app='' @ asa_id app"

definition card_topup_url :: "params \<Rightarrow> string" where
  "card_topup_url q =
     (let provider = params_get q ''provider''
      in if truthy_str provider then ''https://card.albylabs.com?provider='' @ encodeURIComponent (the provider)
         else ''https://card.albylabs.com'')"

section \<open>The tabs of the connections page\<close>

definition initial_tab_of :: "params \<Rightarrow> string" where
  "initial_tab_of searchParams = or_str (params_get searchParams ''tab'') ''app-store''"

text \<open>The effect moves the tab from the address into the state; the other parameters stay.\<close>

definition connections_tab_effect :: "params \<Rightarrow> string \<Rightarrow> params \<times> string" where
  "connections_tab_effect searchParams tab =
     (let t = params_get searchParams ''tab''
      in if truthy_str t then (filter (\<lambda>(k, v). k \<noteq> ''tab'') searchParams, the t) else (searchParams, tab))"

section \<open>Lemmas\<close>

lemma appStoreApps_mset: "mset appStoreApps = mset store_table"
  by (simp add: appStoreApps_def)

lemma store_ids: "distinct (map asa_id store_table)"
  by code_simp

lemma appStoreApps_ids: "distinct (map asa_id appStoreApps)"
proof -
  have "mset (map asa_id appStoreApps) = mset (map asa_id store_table)"
    by (simp only: mset_map appStoreApps_mset)
  then show ?thesis using store_ids mset_eq_imp_distinct_iff by blast
qed

lemma appStoreApps_set: "set appStoreApps = set store_table"
  using appStoreApps_mset by (rule mset_eq_setD)

lemma find_by_key: "distinct (map f xs) \<Longrightarrow> x \<in> set xs \<Longrightarrow> find (\<lambda>y. f y = f x) xs = Some x"
  by (induction xs) auto

lemma internal_entries:
  "map asa_id (filter (\<lambda>app. sta_internal app = Some True) store_table) =
     [''buzzpay'', ''alby-cli-skill'', ''simpleboost'', ''lightning-messageboard'', ''zapplanner'', ''tictactoe'']"
  by code_simp

lemma internal_pages:
  "filter (starts_with ''/internal-apps/'') (map pg_path (pages routes)) =
     map (\<lambda>i. ''/internal-apps/'' @ i)
       [''buzzpay'', ''simpleboost'', ''lightning-messageboard'', ''zapplanner'', ''alby-cli-skill'', ''tictactoe'']"
  by code_simp

lemma store_page: "''/appstore/:appStoreId'' \<in> set (map pg_path (pages routes))"
  by code_simp

lemma store_ids_are_segments:
  "list_all (\<lambda>app. asa_id app \<noteq> [] \<and> CHR ''/'' \<notin> set (asa_id app) \<and> CHR ''?'' \<notin> set (asa_id app) \<and>
     sta_categories app \<noteq> []) store_table"
  by code_simp


section \<open>Connections that are attributed to another entry\<close>

lemma text_greater_trans: "\<not> text_greater x y \<Longrightarrow> \<not> text_greater y z \<Longrightarrow> \<not> text_greater x z"
proof (induction x z arbitrary: y rule: text_greater.induct)
  case (2 a as)
  then show ?case by (cases y) auto
next
  case (3 a as b bs)
  then show ?case by (cases y) (auto split: if_splits)
qed simp

lemma text_greater_total: "\<not> text_greater x y \<or> \<not> text_greater y x"
  by (induction x y rule: text_greater.induct) auto

lemma filter_insert_cmp:
  assumes "\<And>a b d. c a b \<le> 0 \<Longrightarrow> c b d \<le> 0 \<Longrightarrow> c a d \<le> 0" and "sorted_wrt (\<lambda>a b. c a b \<le> 0) ys"
  shows "filter P (insert_cmp c x ys) = (if P x then insert_cmp c x (filter P ys) else filter P ys)"
  using assms(2)
proof (induction ys)
  case (Cons y ys)
  have "insert_cmp c x zs = x # zs" if "\<And>z. z \<in> set zs \<Longrightarrow> c x z \<le> 0" for zs
    using that by (cases zs) auto
  then show ?case using Cons assms(1) by auto
qed simp

lemma sorted_insert_cmp:
  assumes "\<And>a b d. c a b \<le> 0 \<Longrightarrow> c b d \<le> 0 \<Longrightarrow> c a d \<le> 0" and "\<And>a b. c a b \<le> 0 \<or> c b a \<le> 0"
    and "sorted_wrt (\<lambda>a b. c a b \<le> 0) ys"
  shows "sorted_wrt (\<lambda>a b. c a b \<le> 0) (insert_cmp c x ys)"
  using assms(3)
proof (induction ys)
  case (Cons y ys)
  have "set (insert_cmp c x ys) = insert x (set ys)"
    by (induction ys) auto
  then show ?case
  proof (cases "c x y \<le> 0")
    case False
    then have "c y x \<le> 0" using assms(2) by blast
    then show ?thesis
      using Cons False \<open>set (insert_cmp c x ys) = insert x (set ys)\<close> by auto
  qed (use Cons assms(1) in auto)
qed simp

lemma filter_sort_cmp:
  assumes "\<And>a b d. c a b \<le> 0 \<Longrightarrow> c b d \<le> 0 \<Longrightarrow> c a d \<le> 0" and "\<And>a b. c a b \<le> 0 \<or> c b a \<le> 0"
  shows "filter P (sort_cmp c xs) = sort_cmp c (filter P xs)"
proof -
  have s: "sorted_wrt (\<lambda>a b. c a b \<le> 0) (foldr (insert_cmp c) ys [])" for ys
    by (induction ys) (simp_all add: sorted_insert_cmp [OF assms])
  show ?thesis
    unfolding sort_cmp_def by (induction xs) (simp_all add: filter_insert_cmp [OF assms(1) s])
qed

lemma find_hd_filter: "find P xs = (case filter P xs of x # _ \<Rightarrow> Some x | [] \<Rightarrow> None)"
  by (induction xs) auto

lemma getAppStoreApp_by_title:
  "getAppStoreApp app =
     (case sort_cmp by_title
            (filter (belongs_to (Option.bind (app_metadata app) meta_app_store_app_id) (app_name app)) store_table) of
        x # _ \<Rightarrow> Some x
      | [] \<Rightarrow> None)"
proof -
  have le: "by_title a b \<le> 0 \<longleftrightarrow> \<not> text_greater (map upper_char (asa_title a)) (map upper_char (asa_title b))" for a b
    by (simp add: by_title_def)
  have t: "by_title a b \<le> 0 \<Longrightarrow> by_title b d \<le> 0 \<Longrightarrow> by_title a d \<le> 0" for a b d
    unfolding le by (rule text_greater_trans)
  have tot: "by_title a b \<le> 0 \<or> by_title b a \<le> 0" for a b
    unfolding le by (rule text_greater_total)
  have f: "filter P appStoreApps = sort_cmp by_title (filter P store_table)" for P
    unfolding appStoreApps_def by (rule filter_sort_cmp) (fact t tot)+
  show ?thesis
    unfolding getAppStoreApp_def find_hd_filter f ..
qed

text \<open>A connection to the skill is shown as one to the command line tool, whose title begins its name.\<close>

lemma cli_skill_shown_as_cli:
  assumes "app_name app = ''Alby CLI Skill''"
    and "Option.bind (app_metadata app) meta_app_store_app_id = Some ''alby-cli-skill''"
  shows "getAppStoreApp app = Some app_alby_cli"
proof -
  have "filter (belongs_to (Some ''alby-cli-skill'') ''Alby CLI Skill'') store_table = [app_alby_cli_skill, app_alby_cli]
      \<or> filter (belongs_to (Some ''alby-cli-skill'') ''Alby CLI Skill'') store_table = [app_alby_cli, app_alby_cli_skill]"
    by code_simp
  moreover have "by_title app_alby_cli app_alby_cli_skill = -1" "by_title app_alby_cli_skill app_alby_cli = 1"
    by code_simp+
  ultimately show ?thesis
    unfolding getAppStoreApp_by_title assms by (auto simp: sort_cmp_def)
qed

end
