(* ===== verification/AppPage.thy ===== *)
theory AppPage imports AppStore Startup
begin

text \<open>
  The page of a connection (\<open>screens/apps/AppDetails.tsx\<close>): editing it with the permission editor, the
  confirmation when it gains rights, conversion to a sub-wallet, its dialogs. With it the
  usage totals (\<open>components/connections/AppUsage.tsx\<close>), the clean-up of unused connections
  (\<open>screens/apps/AppsCleanup.tsx\<close>) and the cards under \<open>components/connections/\<close>.
\<close>

section \<open>Editing a connection\<close>

text \<open>
  \<open>ap_app\<close> is the connection fetched last. The permissions being edited are those of the editor; the
  editor's own state starts anew whenever the form is mounted.
\<close>

record app_page =
  ap_app :: App
  ap_isEditingPermissions :: bool
  ap_showConfirmDialog :: bool
  ap_showConnectionDetails :: bool
  ap_showDisconnectAppDialog :: bool
  ap_name :: string
  ap_editor :: perm_ui
  ap_savedPermissions :: AppPermissions

record app_page_env =
  ae_caps :: WalletCapabilities
  ae_parse_date :: "string \<Rightarrow> int"
  ae_toISO :: "int \<Rightarrow> string option"

abbreviation ap_permissions :: "app_page \<Rightarrow> AppPermissions" where
  "ap_permissions s \<equiv> pu_permissions (ap_editor s)"

definition app_permissions :: "app_page_env \<Rightarrow> App \<Rightarrow> AppPermissions" where
  "app_permissions env app =
     \<lparr>perm_scopes = app_scopes app, perm_maxAmountSat = app_maxAmountSat app,
      perm_budgetRenewal = app_budgetRenewal app,
      perm_expiresAt = (if truthy_str (app_expiresAt app) then Some (ae_parse_date env (the (app_expiresAt app))) else None),
      perm_isolated = app_isolated app\<rparr>"

definition mount_editor :: "calendar \<Rightarrow> app_page_env \<Rightarrow> app_page \<Rightarrow> app_page" where
  "mount_editor cal env s =
     s\<lparr>ap_isEditingPermissions := True, ap_editor := init_perm_ui cal (ae_caps env) (ap_permissions s)\<rparr>"

text \<open>The effect on the address: the form is open exactly when it has the parameter \<open>edit\<close>.\<close>

definition edit_effect :: "calendar \<Rightarrow> app_page_env \<Rightarrow> params \<Rightarrow> app_page \<Rightarrow> app_page" where
  "edit_effect cal env queryParams s =
     (if params_get queryParams ''edit'' \<noteq> None
      then (if ap_isEditingPermissions s then s else mount_editor cal env s)
      else s\<lparr>ap_isEditingPermissions := False\<rparr>)"

definition open_app_page :: "calendar \<Rightarrow> app_page_env \<Rightarrow> params \<Rightarrow> App \<Rightarrow> app_page" where
  "open_app_page cal env queryParams app =
     edit_effect cal env queryParams
       \<lparr>ap_app = app, ap_isEditingPermissions = False, ap_showConfirmDialog = False,
        ap_showConnectionDetails = False, ap_showDisconnectAppDialog = False, ap_name = app_name app,
        ap_editor = init_perm_ui cal (ae_caps env) (app_permissions env app),
        ap_savedPermissions = app_permissions env app\<rparr>"

definition needsConfirmation :: "App \<Rightarrow> AppPermissions \<Rightarrow> bool" where
  "needsConfirmation app p =
     (app_isolated app \<and> \<not> perm_isolated p \<or>
      pay_invoice \<notin> set (app_scopes app) \<and> pay_invoice \<in> set (perm_scopes p))"

definition update_app_json :: "string \<Rightarrow> AppPermissions \<Rightarrow> string option \<Rightarrow> json" where
  "update_app_json name p expiresAt =
     JObj ([(''name'', JStr name), (''scopes'', scopes_json (perm_scopes p)),
            (''budgetRenewal'', JStr (renewal_str (perm_budgetRenewal p)))] @
           opt_member ''expiresAt'' (map_option JStr expiresAt) @
           [(''updateExpiresAt'', JBool True), (''maxAmountSat'', JNum (perm_maxAmountSat p)),
            (''isolated'', JBool (perm_isolated p))])"

definition app_url :: "App \<Rightarrow> string" where
  "app_url app = ''/api/apps/'' @ app_appPubkey app"

definition iso_expiry :: "app_page_env \<Rightarrow> AppPermissions \<Rightarrow> ('s, string option) act" where
  "iso_expiry env p =
     (case perm_expiresAt p of
        None \<Rightarrow> ret None
      | Some t \<Rightarrow> (case ae_toISO env t of Some d \<Rightarrow> ret (Some d) | None \<Rightarrow> throw ''Invalid time value''))"

definition handleSave :: "server \<Rightarrow> app_page_env \<Rightarrow> (app_page, unit) act" where
  "handleSave srv env =
     andThen (getS id) (\<lambda>s.
       tryCatch
         (andThen (iso_expiry env (ap_permissions s)) (\<lambda>expiresAt.
          andDo (api srv ''PATCH'' (app_url (ap_app s)) (Some (update_app_json (ap_name s) (ap_permissions s) expiresAt)))
          (andDo (emit (EMutate (app_key (app_id (ap_app s)))))
          (andDo (setS (\<lambda>u. u\<lparr>ap_isEditingPermissions := False, ap_savedPermissions := ap_permissions s\<rparr>))
                 (toast ''Successfully updated connection'')))))
         (\<lambda>error. request_error ''Failed to update connection'' error))"

definition form_submit_app :: "server \<Rightarrow> app_page_env \<Rightarrow> (app_page, unit) act" where
  "form_submit_app srv env =
     andThen (getS id) (\<lambda>s.
       if needsConfirmation (ap_app s) (ap_permissions s)
       then setS (\<lambda>u. u\<lparr>ap_showConfirmDialog := True\<rparr>)
       else handleSave srv env)"

definition as_subwallet :: "AppMetadata option \<Rightarrow> AppMetadata" where
  "as_subwallet m =
     (case m of
        Some d \<Rightarrow> d\<lparr>meta_app_store_app_id := Some SUBWALLET_APPSTORE_APP_ID\<rparr>
      | None \<Rightarrow> \<lparr>meta_app_store_app_id = Some SUBWALLET_APPSTORE_APP_ID, meta_lud16 = None, meta_rest = []\<rparr>)"

definition handleConvertToSubwallet :: "server \<Rightarrow> (app_page, unit) act" where
  "handleConvertToSubwallet srv =
     andThen (getS id) (\<lambda>s.
       tryCatch
         (andDo (api srv ''PATCH'' (app_url (ap_app s))
                   (Some (JObj [(''metadata'', metadata_json (as_subwallet (app_metadata (ap_app s))))])))
         (andDo (emit (EMutate (app_key (app_id (ap_app s)))))
                (emit (EToast ''Successfully converted to sub-wallet'' (Some ''This isolated app is now a sub-wallet.'')))))
         (\<lambda>error. request_error ''Failed to convert to sub-wallet'' error))"

section \<open>Its controls\<close>

definition app_store_id :: "App \<Rightarrow> string option" where
  "app_store_id app = Option.bind (app_metadata app) meta_app_store_app_id"

definition offers_conversion :: "App \<Rightarrow> AlbyMe option \<Rightarrow> bool" where
  "offers_conversion app albyMe =
     (app_isolated app \<and> \<not> truthy_str (app_store_id app) \<and>
      (case albyMe of Some m \<Rightarrow> me_plan_code m \<noteq> [] | None \<Rightarrow> False))"

datatype app_page_event =
    AppFetched App | AppAddress calendar params | AppEdit calendar | AppCancelEdit | AppTypeName string
  | AppPerm calendar perm_event | AppSubmit | AppConfirmSave | AppCloseConfirm
  | AppConvert "AlbyMe option" | AppShowDetails | AppShowDisconnect | AppCloseModals

text \<open>The confirmation is there while the change needs one, and is modal.\<close>

definition confirm_open :: "app_page \<Rightarrow> bool" where
  "confirm_open s =
     (ap_isEditingPermissions s \<and> ap_showConfirmDialog s \<and> needsConfirmation (ap_app s) (ap_permissions s))"

definition app_page_shown :: "app_page \<Rightarrow> app_page_event \<Rightarrow> bool" where
  "app_page_shown s e =
     (let viewing = \<not> ap_isEditingPermissions s; form = (ap_isEditingPermissions s \<and> \<not> confirm_open s)
      in case e of
           AppFetched _ \<Rightarrow> True
         | AppAddress _ _ \<Rightarrow> True
         | AppEdit _ \<Rightarrow> viewing
         | AppCancelEdit \<Rightarrow> form
         | AppTypeName _ \<Rightarrow> form \<and> app_name (ap_app s) \<noteq> ALBY_ACCOUNT_APP_NAME
         | AppPerm _ _ \<Rightarrow> form
         | AppSubmit \<Rightarrow> form
         | AppConfirmSave \<Rightarrow> confirm_open s
         | AppCloseConfirm \<Rightarrow> confirm_open s
         | AppConvert albyMe \<Rightarrow> viewing \<and> offers_conversion (ap_app s) albyMe
         | AppShowDetails \<Rightarrow> viewing
         | AppShowDisconnect \<Rightarrow> viewing
         | AppCloseModals \<Rightarrow> viewing)"

definition app_page_handler :: "server \<Rightarrow> app_page_env \<Rightarrow> app_page_event \<Rightarrow> (app_page, unit) act" where
  "app_page_handler srv env e =
     (case e of
        AppFetched app \<Rightarrow> setS (\<lambda>s. s\<lparr>ap_app := app\<rparr>)
      | AppAddress cal q \<Rightarrow> setS (edit_effect cal env q)
      | AppEdit cal \<Rightarrow> setS (mount_editor cal env)
      | AppCancelEdit \<Rightarrow> setS (\<lambda>s. s\<lparr>ap_isEditingPermissions := False\<rparr>)
      | AppTypeName n \<Rightarrow> setS (\<lambda>s. s\<lparr>ap_name := n\<rparr>)
      | AppPerm cal pe \<Rightarrow> setS (\<lambda>s. s\<lparr>ap_editor := perm_step (ae_caps env) (ap_editor s) (cal, pe)\<rparr>)
      | AppSubmit \<Rightarrow> form_submit_app srv env
      | AppConfirmSave \<Rightarrow> handleSave srv env
      | AppCloseConfirm \<Rightarrow> setS (\<lambda>s. s\<lparr>ap_showConfirmDialog := False\<rparr>)
      | AppConvert _ \<Rightarrow> handleConvertToSubwallet srv
      | AppShowDetails \<Rightarrow> setS (\<lambda>s. s\<lparr>ap_showConnectionDetails := True\<rparr>)
      | AppShowDisconnect \<Rightarrow> setS (\<lambda>s. s\<lparr>ap_showDisconnectAppDialog := True\<rparr>)
      | AppCloseModals \<Rightarrow> setS (\<lambda>s. s\<lparr>ap_showConnectionDetails := False, ap_showDisconnectAppDialog := False\<rparr>))"

definition app_page_step :: "server \<Rightarrow> app_page_env \<Rightarrow> app_page ui \<Rightarrow> app_page_event \<Rightarrow> app_page ui" where
  "app_page_step srv env w e =
     (if app_page_shown (ui_st w) e then snd (app_page_handler srv env e w) else w)"

text \<open>The permissions that the page shows: those being edited, otherwise the saved ones.\<close>

definition shown_permissions :: "app_page \<Rightarrow> AppPermissions" where
  "shown_permissions s = (if ap_isEditingPermissions s then ap_permissions s else ap_savedPermissions s)"

definition confirm_warning :: "App \<Rightarrow> AppPermissions \<Rightarrow> string" where
  "confirm_warning app p =
     (if app_isolated app \<and> \<not> perm_isolated p
      then ''Are you sure you wish to remove the isolated status from this connection?''
      else ''Are you sure you wish to give this connection pay permissions?'') @
     '' Warning: This applies to all apps that have this connection secret. '' @
     ''Only change this if you know it is safe to do so, otherwise you could potentially lose all funds'' @
     (if perm_maxAmountSat p \<noteq> 0 then '' up to the specified budget'' else []) @
     (if perm_isolated p then '' that are deposited into this isolated app'' else []) @ ''.''"

section \<open>What an update asks for\<close>

definition expiry_of :: "app_page_env \<Rightarrow> AppPermissions \<Rightarrow> string option option" where
  "expiry_of env p =
     (case perm_expiresAt p of None \<Rightarrow> Some None | Some t \<Rightarrow> map_option Some (ae_toISO env t))"

definition update_requests :: "app_page_env \<Rightarrow> app_page \<Rightarrow> effect list" where
  "update_requests env s =
     (case expiry_of env (ap_permissions s) of
        Some x \<Rightarrow> [EFetch ''PATCH'' (app_url (ap_app s)) (Some (update_app_json (ap_name s) (ap_permissions s) x))]
      | None \<Rightarrow> [])"

definition update_accepted :: "server \<Rightarrow> effect list \<Rightarrow> app_page_env \<Rightarrow> app_page \<Rightarrow> bool" where
  "update_accepted srv l env s =
     (case expiry_of env (ap_permissions s) of
        Some x \<Rightarrow> \<not> isl (srv l ''PATCH'' (app_url (ap_app s)) (Some (update_app_json (ap_name s) (ap_permissions s) x)))
      | None \<Rightarrow> False)"

lemma handleSave_run:
  "fetches (ui_log (snd (handleSave srv env w))) = fetches (ui_log w) @ update_requests env (ui_st w)"
  "ui_st (snd (handleSave srv env w)) =
     (if update_accepted srv (ui_log w) env (ui_st w)
      then (ui_st w)\<lparr>ap_isEditingPermissions := False, ap_savedPermissions := ap_permissions (ui_st w)\<rparr> else ui_st w)"
  unfolding handleSave_def getS_then iso_expiry_def update_requests_def update_accepted_def expiry_of_def
    request_error_def handleRequestError_def
  by (auto simp: effect_defs isl_def split: option.split sum.split)

lemma convert_run:
  "fetches (ui_log (snd (handleConvertToSubwallet srv w))) = fetches (ui_log w) @
     [EFetch ''PATCH'' (app_url (ap_app (ui_st w)))
       (Some (JObj [(''metadata'', metadata_json (as_subwallet (app_metadata (ap_app (ui_st w)))))]))]"
  "ui_st (snd (handleConvertToSubwallet srv w)) = ui_st w"
  unfolding handleConvertToSubwallet_def getS_then request_error_def handleRequestError_def
  by (auto simp: effect_defs split: option.split sum.split)

definition saves :: "app_page \<Rightarrow> app_page_event \<Rightarrow> bool" where
  "saves s e =
     (e = AppConfirmSave \<and> confirm_open s \<or>
      e = AppSubmit \<and> ap_isEditingPermissions s \<and> \<not> needsConfirmation (ap_app s) (ap_permissions s))"

definition converts :: "app_page \<Rightarrow> app_page_event \<Rightarrow> bool" where
  "converts s e =
     (case e of AppConvert albyMe \<Rightarrow> \<not> ap_isEditingPermissions s \<and> offers_conversion (ap_app s) albyMe | _ \<Rightarrow> False)"

lemma setS_run: "snd (setS f w) = w\<lparr>ui_st := f (ui_st w)\<rparr>"
  by (simp add: effect_defs)

lemma app_page_step_fetches:
  "fetches (ui_log (app_page_step srv env w e)) = fetches (ui_log w) @
     (if saves (ui_st w) e then update_requests env (ui_st w)
      else if converts (ui_st w) e
      then [EFetch ''PATCH'' (app_url (ap_app (ui_st w)))
              (Some (JObj [(''metadata'', metadata_json (as_subwallet (app_metadata (ap_app (ui_st w)))))]))]
      else [])"
  by (cases e)
     (simp_all add: app_page_step_def app_page_shown_def app_page_handler_def Let_def saves_def converts_def
        setS_run handleSave_run convert_run form_submit_app_def getS_then confirm_open_def)

lemma edit_effect_keep [simp]:
  "ap_savedPermissions (edit_effect cal env q s) = ap_savedPermissions s"
  "ap_app (edit_effect cal env q s) = ap_app s"
  "ap_permissions (edit_effect cal env q s) = ap_permissions s"
  "ap_savedPermissions (mount_editor cal env s) = ap_savedPermissions s"
  by (simp_all add: edit_effect_def mount_editor_def init_perm_ui_def)

lemma app_page_step_saved:
  "ap_savedPermissions (ui_st (app_page_step srv env w e)) =
     (if saves (ui_st w) e \<and> update_accepted srv (ui_log w) env (ui_st w)
      then ap_permissions (ui_st w) else ap_savedPermissions (ui_st w))"
  by (cases e)
     (simp_all add: app_page_step_def app_page_shown_def app_page_handler_def Let_def saves_def
        setS_run handleSave_run convert_run form_submit_app_def getS_then confirm_open_def)

text \<open>C11: A connection gains rights only after a question, and is updated as shown. Whatever the state of the page,
  an event sends an update exactly when it is the save button of the open confirmation, or the form is
  submitted and the shown permissions neither add payments nor remove the isolation; the request has the
  name and the permissions of the form. What the page shows as saved changes exactly when an update is
  accepted, to what was sent. The only other request is the conversion of an isolated connection that is no store app's.\<close>

theorem app_update_asks_first:
  "let s = ui_st w; app = ap_app s; p = ap_permissions s;
       w' = app_page_step srv env w e;
       gains = (app_isolated app \<and> \<not> perm_isolated p \<or>
                pay_invoice \<notin> set (app_scopes app) \<and> pay_invoice \<in> set (perm_scopes p));
       asked = (e = AppConfirmSave \<and> ap_isEditingPermissions s \<and> ap_showConfirmDialog s \<and> gains);
       plain = (e = AppSubmit \<and> ap_isEditingPermissions s \<and> \<not> gains);
       date = (case perm_expiresAt p of None \<Rightarrow> Some None | Some t \<Rightarrow> map_option Some (ae_toISO env t));
       body = update_app_json (ap_name s) p (the date);
       url = ''/api/apps/'' @ app_appPubkey app;
       accepted = (case srv (ui_log w) ''PATCH'' url (Some body) of Inr _ \<Rightarrow> True | Inl _ \<Rightarrow> False)
   in fetches (ui_log w') = fetches (ui_log w) @
        (if asked \<or> plain then (if date = None then [] else [EFetch ''PATCH'' url (Some body)])
         else (case e of
                 AppConvert albyMe \<Rightarrow>
                   if \<not> ap_isEditingPermissions s \<and> offers_conversion app albyMe
                   then [EFetch ''PATCH'' url (Some (JObj [(''metadata'', metadata_json (as_subwallet (app_metadata app)))]))]
                   else []
               | _ \<Rightarrow> [])) \<and>
      ap_savedPermissions (ui_st w') =
        (if (asked \<or> plain) \<and> \<not> date = None \<and> accepted then p else ap_savedPermissions s)"
proof -
  have s: "saves (ui_st w) e =
      (e = AppConfirmSave \<and> ap_isEditingPermissions (ui_st w) \<and> ap_showConfirmDialog (ui_st w) \<and>
         needsConfirmation (ap_app (ui_st w)) (ap_permissions (ui_st w)) \<or>
       e = AppSubmit \<and> ap_isEditingPermissions (ui_st w) \<and>
         \<not> needsConfirmation (ap_app (ui_st w)) (ap_permissions (ui_st w)))"
    by (auto simp: saves_def confirm_open_def)
  show ?thesis
    unfolding Let_def app_page_step_fetches app_page_step_saved s needsConfirmation_def [symmetric]
      app_url_def [symmetric] expiry_of_def [symmetric] update_requests_def update_accepted_def converts_def
    by (cases e) (auto simp: isl_def split: option.split sum.split)
qed

subsection \<open>The editor on the page\<close>

lemma scopes_ok_wider: "scopes_ok caps A s \<Longrightarrow> A \<subseteq> B \<union> set (cap_scopes caps) \<Longrightarrow> scopes_ok caps B s"
  by (auto simp: scopes_ok_def)

definition app_page_ok :: "app_page_env \<Rightarrow> Scope set \<Rightarrow> app_page \<Rightarrow> bool" where
  "app_page_ok env asked s =
     (distinct (cap_scopes (ae_caps env)) \<and> scopes_ok (ae_caps env) asked (ap_editor s) \<and>
      distinct (perm_scopes (ap_savedPermissions s)) \<and>
      set (perm_scopes (ap_savedPermissions s)) \<subseteq> asked \<union> set (cap_scopes (ae_caps env)))"

lemma mount_ok: "app_page_ok env asked s \<Longrightarrow> app_page_ok env asked (mount_editor cal env s)"
  unfolding app_page_ok_def mount_editor_def
  by (auto simp: scopes_ok_def init_perm_ui_def initial_group_ok)

lemma app_page_ok_fields [simp]:
  "app_page_ok env asked (s\<lparr>ap_app := a\<rparr>) = app_page_ok env asked s"
  "app_page_ok env asked (s\<lparr>ap_isEditingPermissions := b\<rparr>) = app_page_ok env asked s"
  "app_page_ok env asked (s\<lparr>ap_showConfirmDialog := b\<rparr>) = app_page_ok env asked s"
  "app_page_ok env asked (s\<lparr>ap_showConnectionDetails := b\<rparr>) = app_page_ok env asked s"
  "app_page_ok env asked (s\<lparr>ap_showDisconnectAppDialog := b\<rparr>) = app_page_ok env asked s"
  "app_page_ok env asked (s\<lparr>ap_name := n\<rparr>) = app_page_ok env asked s"
  by (simp_all add: app_page_ok_def)

lemma edit_effect_ok: "app_page_ok env asked s \<Longrightarrow> app_page_ok env asked (edit_effect cal env q s)"
  by (simp add: edit_effect_def mount_ok)

lemma handleSave_ok:
  "app_page_ok env asked (ui_st w) \<Longrightarrow> app_page_ok env asked (ui_st (snd (handleSave srv env w)))"
  by (auto simp: handleSave_run app_page_ok_def scopes_ok_def)

interpretation app_details: invariant_machine "app_page_step srv env" "\<lambda>w. app_page_ok env asked (ui_st w)" for srv env asked
proof
  fix w :: "app_page ui" and e
  assume ok: "app_page_ok env asked (ui_st w)"
  show "app_page_ok env asked (ui_st (app_page_step srv env w e))"
  proof (cases e)
    case (AppPerm cal pe)
    have "distinct (cap_scopes (ae_caps env)) \<and> scopes_ok (ae_caps env) asked (perm_step (ae_caps env) (ap_editor (ui_st w)) (cal, pe))"
      by (rule editor_scopes.step_inv) (use ok in \<open>simp add: app_page_ok_def\<close>)
    with ok AppPerm show ?thesis
      by (simp add: app_page_step_def app_page_handler_def setS_run app_page_ok_def)
  qed (use ok in \<open>simp_all add: app_page_step_def app_page_handler_def setS_run handleSave_ok convert_run form_submit_app_def
         getS_then mount_ok edit_effect_ok\<close>)
qed

lemma open_app_page_ok:
  assumes "distinct (cap_scopes (ae_caps env))" and "distinct (app_scopes app)"
  shows "app_page_ok env (set (app_scopes app)) (open_app_page cal env q app)"
  unfolding open_app_page_def
  by (rule edit_effect_ok)
     (use assms in \<open>simp add: app_page_ok_def init_scopes_ok app_permissions_def, simp add: scopes_ok_def init_perm_ui_def initial_group_ok\<close>)

text \<open>The page of a connection never makes up rights. After any use of it, the permissions of the form and
  those shown as saved have no scope twice and none that the connection did not have when the page was opened
  and the node does not offer; and the group that the form shows stands for exactly the scopes it would save
  (with isolation for the isolated group).\<close>

lemma app_rights_as_shown:
  assumes "distinct (cap_scopes (ae_caps env))" and "distinct (app_scopes app)"
  shows "let s = ui_st (foldl (app_page_step srv env) \<lparr>ui_st = open_app_page cal env q app, ui_log = []\<rparr> evs);
             known = set (app_scopes app) \<union> set (cap_scopes (ae_caps env));
             group = pu_scopeGroup (ap_editor s)
         in distinct (perm_scopes (ap_permissions s)) \<and> set (perm_scopes (ap_permissions s)) \<subseteq> known \<and>
            distinct (perm_scopes (ap_savedPermissions s)) \<and> set (perm_scopes (ap_savedPermissions s)) \<subseteq> known \<and>
            (if group = Custom then True
             else set (perm_scopes (ap_permissions s)) = set (fst (handleScopeGroupChange (ae_caps env) group)) \<and>
                  (if group = Isolated then perm_isolated (ap_permissions s) else True))"
proof -
  have "app_page_ok env (set (app_scopes app))
      (ui_st (foldl (app_page_step srv env) \<lparr>ui_st = open_app_page cal env q app, ui_log = []\<rparr> evs))"
    by (rule app_details.run_inv) (simp add: open_app_page_ok [OF assms])
  then show ?thesis
    by (auto simp: Let_def app_page_ok_def scopes_ok_def group_ok_def)
qed

text \<open>Cancelling keeps the edited permissions: the next edit starts from them, and saving would send them.\<close>

lemma cancelled_edits_return:
  assumes "ap_isEditingPermissions (ui_st w)" and "\<not> confirm_open (ui_st w)"
  shows "let w' = foldl (app_page_step srv env) w [AppCancelEdit, AppEdit cal]
         in ap_permissions (ui_st w') = ap_permissions (ui_st w) \<and> ap_name (ui_st w') = ap_name (ui_st w) \<and>
            shown_permissions (ui_st (app_page_step srv env w AppCancelEdit)) = ap_savedPermissions (ui_st w)"
  using assms
  by (simp add: Let_def app_page_step_def app_page_shown_def app_page_handler_def setS_run mount_editor_def
      init_perm_ui_def shown_permissions_def)

text \<open>A confirmed save leaves the flag of the dialog set: the dialog opens by itself the next time rights are added.\<close>

lemma confirmation_flag_stays:
  "confirm_open (ui_st w) \<Longrightarrow> ap_showConfirmDialog (ui_st (app_page_step srv env w AppConfirmSave))"
  by (simp add: app_page_step_def app_page_shown_def app_page_handler_def handleSave_run confirm_open_def)

definition sample_connection :: App where
  "sample_connection =
     \<lparr>app_id = 7, app_name = ''Reader'', app_description = [], app_appPubkey = ''ab12'', app_uniqueWalletPubkey = True,
      app_walletPubkey = ''cd34'', app_createdAt = ''2026-01-01T00:00:00Z'', app_updatedAt = ''2026-01-01T00:00:00Z'',
      app_lastUsedAt = None, app_lastSettledTransactionAt = None, app_expiresAt = None, app_isolated = False,
      app_balanceSat = 0, app_balanceMsat = 0, app_scopes = [get_info, get_balance], app_maxAmountSat = 0,
      app_maxAmountMsat = 0, app_budgetUsageSat = 0, app_budgetUsageMsat = 0, app_budgetRenewal = Never,
      app_metadata = None\<rparr>"

definition sample_page_env :: app_page_env where
  "sample_page_env = \<lparr>ae_caps = sample_caps, ae_parse_date = (\<lambda>d. 0), ae_toISO = (\<lambda>t. None)\<rparr>"

lemma app_rights_as_shown_witness:
  "set (perm_scopes (ap_permissions (ui_st (foldl (app_page_step no_answer sample_page_env)
      \<lparr>ui_st = open_app_page sample_calendar sample_page_env [] sample_connection, ui_log = []\<rparr>
      [AppEdit sample_calendar, AppPerm sample_calendar (ChooseGroup ReadOnly)]))))
   \<subseteq> {get_info, get_balance} \<union> set (cap_scopes sample_caps)"
proof -
  have a: "distinct (cap_scopes (ae_caps sample_page_env))" "distinct (app_scopes sample_connection)"
    by (simp_all add: sample_page_env_def sample_caps_def sample_connection_def)
  have e: "set (app_scopes sample_connection) = {get_info, get_balance}" "ae_caps sample_page_env = sample_caps"
    by (simp_all add: sample_connection_def sample_page_env_def)
  show ?thesis
    using app_rights_as_shown [OF a, of no_answer sample_calendar "[]"
        "[AppEdit sample_calendar, AppPerm sample_calendar (ChooseGroup ReadOnly)]"]
    unfolding Let_def e by blast
qed

end
