(* ===== verification/Connections.thy ===== *)
theory Connections imports AppPage
begin

text \<open>
  The rest of the connections: usage totals (\<open>components/connections/AppUsage.tsx\<close>), the clean-up of
  unused connections (\<open>screens/apps/AppsCleanup.tsx\<close>), the cards and lists under
  \<open>components/connections/\<close>, and sub-wallets (\<open>screens/subwallets/\<close>, \<open>components/IsolatedApp*Dialog.tsx\<close>).
\<close>

section \<open>Usage totals\<close>

record app_usage =
  au_page :: int
  au_allTransactions :: "Transaction list"

definition init_usage :: app_usage where
  "init_usage = \<lparr>au_page = 1, au_allTransactions = []\<rparr>"

text \<open>\<open>filter((v, i, a) => a.findIndex((t) => t.paymentHash === v.paymentHash) === i)\<close>.\<close>

fun first_hashes :: "string list \<Rightarrow> Transaction list \<Rightarrow> Transaction list" where
  "first_hashes seen [] = []"
| "first_hashes seen (t # ts) =
     (if tx_paymentHash t \<in> set seen then first_hashes seen ts
      else t # first_hashes (tx_paymentHash t # seen) ts)"

definition usage_effect :: "Transaction list \<Rightarrow> app_usage \<Rightarrow> app_usage" where
  "usage_effect transactions s =
     (if transactions = [] then s
      else \<lparr>au_page = au_page s + 1,
            au_allTransactions = first_hashes [] (au_allTransactions s @ transactions)\<rparr>)"

text \<open>
  The page fetches the next page after each that was not empty. \<open>fetch\<close> answers the request for a page;
  the fuel bounds how many pages are fetched.
\<close>

fun load_usage :: "nat \<Rightarrow> (int \<Rightarrow> Transaction list) \<Rightarrow> app_usage \<Rightarrow> app_usage option" where
  "load_usage 0 fetch s = None"
| "load_usage (Suc n) fetch s =
     (let transactions = fetch (au_page s)
      in if transactions = [] then Some s else load_usage n fetch (usage_effect transactions s))"

definition totalSpentSat :: "app_usage \<Rightarrow> int" where
  "totalSpentSat s =
     sum_list (map (\<lambda>tx. (tx_amountMsat tx + tx_feesPaidMsat tx) div 1000)
       (filter (\<lambda>tx. tx_type tx = Outgoing \<and> tx_state tx = Settled) (au_allTransactions s)))"

definition totalReceivedSat :: "app_usage \<Rightarrow> int" where
  "totalReceivedSat s =
     sum_list (map tx_amountSat (filter (\<lambda>tx. tx_type tx = Incoming) (au_allTransactions s)))"

text \<open>What is left of the budget, the fee of a renewal, and the part of the bar that is filled.\<close>

record budget_view =
  bv_leftMsat :: int
  bv_leftSat :: int
  bv_maxMsat :: int
  bv_renewal :: "string option"
  bv_percent :: rat

definition budget_percent :: "App \<Rightarrow> rat" where
  "budget_percent app = 100 - of_int (app_budgetUsageSat app * 100) / of_int (app_maxAmountSat app)"

definition renewal_label :: "BudgetRenewalType \<Rightarrow> string option" where
  "renewal_label r = (if r = Never then None else Some (getBudgetRenewalLabel r))"

definition usage_budget :: "App \<Rightarrow> budget_view option" where
  "usage_budget app =
     (if app_maxAmountSat app > 0
      then Some \<lparr>bv_leftMsat = app_maxAmountMsat app - app_budgetUsageMsat app,
                 bv_leftSat = app_maxAmountSat app - app_budgetUsageSat app, bv_maxMsat = app_maxAmountMsat app,
                 bv_renewal = renewal_label (app_budgetRenewal app), bv_percent = budget_percent app\<rparr>
      else None)"

definition is_subwallet :: "App \<Rightarrow> bool" where
  "is_subwallet app = (app_store_id app = Some SUBWALLET_APPSTORE_APP_ID)"

definition app_lud16 :: "App \<Rightarrow> string option" where
  "app_lud16 app = Option.bind (app_metadata app) meta_lud16"

definition has_plan :: "AlbyMe option \<Rightarrow> bool" where
  "has_plan albyMe = (case albyMe of Some m \<Rightarrow> me_plan_code m \<noteq> [] | None \<Rightarrow> False)"

text \<open>The card of an isolated connection: balance, whether it can be decreased, and the lightning address.\<close>

datatype address_card = NoAddressCard | AddressUpgrade | AddressCreate | AddressShown string

definition lightning_address_card :: "App \<Rightarrow> AlbyMe option \<Rightarrow> address_card" where
  "lightning_address_card app albyMe =
     (if \<not> (app_isolated app \<and> is_subwallet app) then NoAddressCard
      else if truthy_str (app_lud16 app) then AddressShown (the (app_lud16 app))
      else if has_plan albyMe then AddressCreate else AddressUpgrade)"

definition isolated_balance :: "App \<Rightarrow> (int \<times> int \<times> bool) option" where
  "isolated_balance app =
     (if app_isolated app then Some (app_balanceMsat app, app_balanceMsat app div 1000, app_balanceMsat app > 0) else None)"

section \<open>Cards\<close>

datatype connection_info =
    InfoIsolated string int
  | InfoBudget string int rat int "string option"
  | InfoSpent int bool
  | InfoReadOnly "string list" bool

definition AppCardConnectionInfo :: "string \<Rightarrow> bool \<Rightarrow> App \<Rightarrow> connection_info" where
  "AppCardConnectionInfo budgetRemainingText readonly c =
     (if app_isolated c
      then InfoIsolated (if is_subwallet c then ''Sub-wallet'' else ''Isolated App'') (app_balanceMsat c)
      else if app_maxAmountSat c > 0
      then InfoBudget budgetRemainingText (app_maxAmountMsat c - app_budgetUsageMsat c) (budget_percent c)
             (app_maxAmountMsat c) (renewal_label (app_budgetRenewal c))
      else if pay_invoice \<in> set (app_scopes c) then InfoSpent (app_budgetUsageMsat c) (\<not> readonly)
      else InfoReadOnly
             (''Share wallet information'' #
              (if make_invoice \<in> set (app_scopes c) then [''Receive payments''] else []) @
              (if list_transactions \<in> set (app_scopes c) then [''Read transaction history''] else []))
             (\<not> readonly))"

text \<open>Dates are milliseconds; \<open>dayjs(undefined)\<close> is never looked at.\<close>

datatype notice = NoNotice | NoticeExpired | NoticeExpiresSoon

definition AppCardNotice :: "(string \<Rightarrow> int) \<Rightarrow> (int \<Rightarrow> int \<Rightarrow> int) \<Rightarrow> int \<Rightarrow> App \<Rightarrow> notice" where
  "AppCardNotice parse_date addDays now app =
     (if \<not> truthy_str (app_expiresAt app) then NoNotice
      else (let expiresAt = parse_date (the (app_expiresAt app))
            in if expiresAt < now then NoticeExpired
               else if now < expiresAt \<and> expiresAt < addDays now 7 then NoticeExpiresSoon
               else NoNotice))"

datatype link_button = LinkDialog | LinkedHere | LinkedElsewhere | NoLinkButton

definition link_button_of :: "App option \<Rightarrow> LinkStatus option \<Rightarrow> link_button" where
  "link_button_of albyAccountApp status =
     (if albyAccountApp = None \<or> status = Some SharedNode \<or> status = Some Unlinked then LinkDialog
      else if status = Some ThisNode then LinkedHere
      else if status = Some OtherNode then LinkedElsewhere
      else NoLinkButton)"

text \<open>The linking dialog starts with 250000 sats a week; its options and its minimum.\<close>

definition link_budgets :: "(string \<times> int) list" where
  "link_budgets = budget_options (Some 25000) [(''250k'', 250000), (''500k'', 500000), (''1M'', 1000000)]"

record link_form =
  lf_maxAmountSat :: int
  lf_budgetRenewal :: BudgetRenewalType

definition init_link_form :: link_form where
  "init_link_form = \<lparr>lf_maxAmountSat = 250000, lf_budgetRenewal = Weekly\<rparr>"

definition link_onSubmit :: "server \<Rightarrow> link_form \<Rightarrow> (bool, unit) act" where
  "link_onSubmit srv f = linkAccount srv (lf_maxAmountSat f) (lf_budgetRenewal f)"

text \<open>What the card of a new connection says, and whether it offers to go on without it.\<close>

definition connect_card_state :: "App \<Rightarrow> bool \<Rightarrow> string \<times> bool" where
  "connect_card_state app timeout =
     (if truthy_str (app_lastUsedAt app) then (''App connected'', False)
      else (''Waiting for app to connect'', timeout))"

definition shows_qr :: "store_app option \<Rightarrow> bool" where
  "shows_qr entry = (\<not> (case entry of Some a \<Rightarrow> sta_hideConnectionQr a = Some True | None \<Rightarrow> False))"

section \<open>The list of connections\<close>

text \<open>While the next page loads the previous one stays; its data outlives the page.\<close>

definition shown_apps :: "ListAppsResponse option \<Rightarrow> ListAppsResponse option \<Rightarrow> ListAppsResponse option" where
  "shown_apps prevAppsData appsData = (case appsData of Some d \<Rightarrow> Some d | None \<Rightarrow> prevAppsData)"

definition otherApps :: "ListAppsResponse \<Rightarrow> App list" where
  "otherApps d =
     filter (\<lambda>app. app_store_id app \<noteq> Some SUBWALLET_APPSTORE_APP_ID)
       (filter (\<lambda>app. app_name app \<noteq> ALBY_ACCOUNT_APP_NAME) (lar_apps d))"

definition after_disconnect :: "App \<Rightarrow> string" where
  "after_disconnect app = (if is_subwallet app then ''/sub-wallets'' else ''/apps?tab=connected-apps'')"

definition DisconnectApp :: "server \<Rightarrow> App \<Rightarrow> (bool, unit) act" where
  "DisconnectApp srv app = deleteApp srv app (emit (ENavigate (after_disconnect app)))"

definition disconnect_text :: "App \<Rightarrow> string" where
  "disconnect_text app =
     ''Connected apps will no longer be able to use this connection.'' @
     (if app_isolated app
      then '' No funds will be lost during this process, the balance will remain in your wallet.'' else []) @
     (if is_subwallet app \<and> truthy_str (app_lud16 app)
      then ''This sub-wallet has a lightning address ('' @ the (app_lud16 app) @ '') that will also be deleted.'' else [])"

section \<open>Clean-up\<close>

record cleanup =
  cu_appIndex :: "nat option"
  cu_skippedCount :: nat
  cu_deletedCount :: nat
  cu_appsToReview :: "App list option"

definition init_cleanup :: cleanup where
  "init_cleanup = \<lparr>cu_appIndex = None, cu_skippedCount = 0, cu_deletedCount = 0, cu_appsToReview = None\<rparr>"

definition used_at :: "(string \<Rightarrow> int) \<Rightarrow> App \<Rightarrow> int" where
  "used_at parse_date a = (if truthy_str (app_lastUsedAt a) then parse_date (the (app_lastUsedAt a)) else 0)"

definition cleanup_effect :: "(string \<Rightarrow> int) \<Rightarrow> App list option \<Rightarrow> cleanup \<Rightarrow> cleanup" where
  "cleanup_effect parse_date unusedApps s =
     (case unusedApps of
        None \<Rightarrow> s
      | Some apps \<Rightarrow>
          if cu_appIndex s = None
          then s\<lparr>cu_appIndex := Some 0,
                 cu_appsToReview := Some (sort_cmp (\<lambda>a b. used_at parse_date a - used_at parse_date b) apps)\<rparr>
          else s)"

definition currentApp :: "cleanup \<Rightarrow> App option" where
  "currentApp s =
     (case (cu_appsToReview s, cu_appIndex s) of
        (Some apps, Some i) \<Rightarrow> if i < length apps then Some (apps ! i) else None
      | _ \<Rightarrow> None)"

definition advance_index :: "cleanup \<Rightarrow> cleanup" where
  "advance_index s = s\<lparr>cu_appIndex := map_option Suc (cu_appIndex s)\<rparr>"

text \<open>The busy flag of \<open>useDeleteApp\<close> is not read here: the state of its action is dropped.\<close>

definition delete_current :: "server \<Rightarrow> App \<Rightarrow> (cleanup, unit) act" where
  "delete_current srv app w =
     (let v = snd (deleteApp srv app (ret ()) \<lparr>ui_st = False, ui_log = ui_log w\<rparr>)
      in (Inr (), w\<lparr>ui_log := ui_log v\<rparr>))"

datatype cleanup_event = CleanupData "App list option" | CleanupSkip | CleanupDelete

definition cleanup_step :: "(string \<Rightarrow> int) \<Rightarrow> server \<Rightarrow> cleanup ui \<Rightarrow> cleanup_event \<Rightarrow> cleanup ui" where
  "cleanup_step parse_date srv w e =
     (case e of
        CleanupData apps \<Rightarrow> snd (setS (cleanup_effect parse_date apps) w)
      | CleanupSkip \<Rightarrow>
          (case currentApp (ui_st w) of
             None \<Rightarrow> w
           | Some a \<Rightarrow> snd (setS (\<lambda>s. (advance_index s)\<lparr>cu_skippedCount := Suc (cu_skippedCount s)\<rparr>) w))
      | CleanupDelete \<Rightarrow>
          (case currentApp (ui_st w) of
             None \<Rightarrow> w
           | Some a \<Rightarrow>
               snd (andDo (delete_current srv a)
                      (setS (\<lambda>s. (advance_index s)\<lparr>cu_deletedCount := Suc (cu_deletedCount s)\<rparr>)) w)))"

definition cleanup_progress :: "cleanup \<Rightarrow> (nat \<times> nat \<times> nat \<times> nat) option" where
  "cleanup_progress s =
     (case (cu_appsToReview s, cu_appIndex s) of
        (Some apps, Some i) \<Rightarrow> Some (i, length apps, cu_skippedCount s, cu_deletedCount s)
      | _ \<Rightarrow> None)"

section \<open>Sub-wallets\<close>

text \<open>The dialogs that move funds into (\<open>True\<close>) or out of a sub-wallet.\<close>

record transfer_dialog =
  td_amountSat :: string
  td_description :: string
  td_loading :: bool
  td_open :: bool

definition transfer_json :: "bool \<Rightarrow> int \<Rightarrow> transfer_dialog \<Rightarrow> json" where
  "transfer_json into appId s =
     JObj [(if into then ''toAppId'' else ''fromAppId'', JNum appId), (''amountSat'', num_json (js_Number (td_amountSat s))),
           (''description'', JStr (td_description s))]"

definition show_num :: "jsnum \<Rightarrow> string" where
  "show_num x = (case x of Fin r \<Rightarrow> show_int \<lfloor>r\<rfloor> | PosInf \<Rightarrow> ''Infinity'' | NegInf \<Rightarrow> ''-Infinity'' | NaN \<Rightarrow> ''NaN'')"

definition transfer_onSubmit :: "server \<Rightarrow> bool \<Rightarrow> int \<Rightarrow> (transfer_dialog, unit) act" where
  "transfer_onSubmit srv into appId =
     andThen (getS id) (\<lambda>s.
       andDo (setS (\<lambda>u. u\<lparr>td_loading := True\<rparr>))
       (andDo
         (tryCatch
           (andDo (api srv ''POST'' ''/api/transfers'' (Some (transfer_json into appId s)))
           (andDo (emit (EMutate (app_key appId)))
           (andDo (toast ((if into then ''Successfully increased balance by '' else ''Successfully reduced balance by '') @
                     show_num (js_Number (td_amountSat s)) @ '' sats''))
                  (setS (\<lambda>u. u\<lparr>td_open := False, td_amountSat := [], td_description := []\<rparr>)))))
           (\<lambda>error. request_error
              (if into then ''Failed to increase sub-wallet balance'' else ''Failed to decrease sub-wallet balance'') error))
         (setS (\<lambda>u. u\<lparr>td_loading := False\<rparr>))))"

text \<open>A new sub-wallet; the number of those there are is that of the list fetched last.\<close>

record new_subwallet =
  ns_name :: string
  ns_isLoading :: bool

definition subwallet_request :: "string \<Rightarrow> CreateAppRequest" where
  "subwallet_request name =
     \<lparr>car_name = name, car_pubkey = None, car_maxAmountSat = None, car_maxAmountMsat = None, car_budgetRenewal = None,
      car_expiresAt = None,
      car_scopes = [get_balance, get_info, list_transactions, lookup_invoice, make_invoice, notifications, pay_invoice],
      car_returnTo = None, car_isolated = Some True,
      car_metadata = Some \<lparr>meta_app_store_app_id = Some SUBWALLET_APPSTORE_APP_ID, meta_lud16 = None, meta_rest = []\<rparr>,
      car_unlockPassword = None\<rparr>"

definition subwallet_limit :: "AlbyMe option \<Rightarrow> int \<Rightarrow> bool" where
  "subwallet_limit albyMe totalCount = (\<not> has_plan albyMe \<and> totalCount \<ge> MAX_FREE_SUBWALLETS)"

definition subwallet_handleSubmit :: "server \<Rightarrow> AlbyMe option \<Rightarrow> int \<Rightarrow> (new_subwallet, unit) act" where
  "subwallet_handleSubmit srv albyMe totalCount =
     andThen (getS ns_name) (\<lambda>name.
       andDo (setS (\<lambda>u. u\<lparr>ns_isLoading := True\<rparr>))
       (andDo
         (tryCatch
           (andDo (require (\<not> subwallet_limit albyMe totalCount)
                     ''Max limit reached. Please upgrade to Pro to create more sub-wallets.'')
           (andThen (createApp srv (subwallet_request name)) (\<lambda>createAppResponse.
              andDo (emit (ENavigate ''/sub-wallets/created''))
                    (toast (''New sub-wallet created for '' @ name)))))
           (\<lambda>error. request_error ''Failed to create app'' error))
         (setS (\<lambda>u. u\<lparr>ns_isLoading := False\<rparr>))))"

text \<open>The page after the creation. The proposed address: every run of spaces (of ASCII) is one underscore.\<close>

fun spaces_to_underscore :: "bool \<Rightarrow> string \<Rightarrow> string" where
  "spaces_to_underscore in_run [] = []"
| "spaces_to_underscore in_run (c # cs) =
     (if is_space c then (if in_run then [] else ''_'') @ spaces_to_underscore True cs
      else c # spaces_to_underscore False cs)"

definition address_char :: "char \<Rightarrow> bool" where
  "address_char c =
     (let n = (of_char c :: nat) in 97 \<le> n \<and> n \<le> 122 \<or> 48 \<le> n \<and> n \<le> 57 \<or> c = CHR ''_'')"

definition intended_address :: "string \<Rightarrow> string" where
  "intended_address name = filter address_char (spaces_to_underscore False (trim (to_lower name)))"

definition connectionSecret :: "string \<Rightarrow> App option \<Rightarrow> string" where
  "connectionSecret pairingUri app =
     pairingUri @
     (case Option.bind app app_lud16 of Some l \<Rightarrow> if l = [] then [] else ''&lud16='' @ l | None \<Rightarrow> [])"

definition albyAccountUrl :: "string \<Rightarrow> App option \<Rightarrow> string" where
  "albyAccountUrl pairingUri app = ''https://getalby.com/nwc/new#'' @ connectionSecret pairingUri app"

definition valueTag :: "string \<Rightarrow> NodeConnectionInfo option \<Rightarrow> App option \<Rightarrow> string" where
  "valueTag name nodeConnectionInfo app =
     (let q = [CHR 0x22]
      in ''<podcast:value type='' @ q @ ''lightning'' @ q @ '' method='' @ q @ ''keysend'' @ q @ ''>'' @ [CHR 0x0A] @
         ''    <podcast:valueRecipient name='' @ q @ name @ q @ '' type='' @ q @ ''node'' @ q @ '' address='' @ q @
         (case nodeConnectionInfo of Some n \<Rightarrow> nci_pubkey n | None \<Rightarrow> ''undefined'') @ q @
         '' customKey='' @ q @ ''696969'' @ q @ ''  customValue='' @ q @
         (case app of Some a \<Rightarrow> show_int (app_id a) | None \<Rightarrow> ''undefined'') @ q @
         '' split='' @ q @ ''100'' @ q @ ''/>'' @ [CHR 0x0A] @ ''  </podcast:value>'')"

text \<open>Without a created sub-wallet the page leaves at once; otherwise step 1 is followed by the secrets in step 2.\<close>

definition subwallet_created_redirects :: "string option \<Rightarrow> bool" where
  "subwallet_created_redirects pairingUri = (\<not> truthy_str pairingUri)"

section \<open>The list of sub-wallets\<close>

datatype subwallet_view = SubwalletLoading | SubwalletIntro | SubwalletList bool bool int

text \<open>The list: whether the limit is reached, whether the balances are backed, their sum.\<close>

definition subwallet_view_of ::
    "InfoResponse option \<Rightarrow> ListAppsResponse option \<Rightarrow> BalancesResponse option \<Rightarrow> AlbyMe option \<Rightarrow> bool \<Rightarrow> subwallet_view" where
  "subwallet_view_of info apps balances albyMe albyMeError =
     (case (info, apps, balances) of
        (Some i, Some d, Some b) \<Rightarrow>
          if info_albyAccountConnected i \<and> albyMe = None \<and> \<not> albyMeError then SubwalletLoading
          else if lar_totalCount d = 0 then SubwalletIntro
          else (let total = nullish (lar_totalBalanceMsat d) 0
                in SubwalletList (subwallet_limit albyMe (lar_totalCount d))
                     (total \<le> lb_totalSpendableMsat (bal_lightning b)) total)
      | _ \<Rightarrow> SubwalletLoading)"

section \<open>Lemmas\<close>

subsection \<open>Usage\<close>

lemma first_hashes_distinct:
  "distinct (map tx_paymentHash ts) \<Longrightarrow> set (map tx_paymentHash ts) \<inter> set seen = {} \<Longrightarrow> first_hashes seen ts = ts"
  by (induction ts arbitrary: seen) auto

definition page_of :: "Transaction list \<Rightarrow> int \<Rightarrow> Transaction list" where
  "page_of L page = take 100 (drop (nat ((page - 1) * 100)) L)"

lemma load_usage_from:
  assumes "distinct (map tx_paymentHash L)"
  shows "m \<le> (length L + 99) div 100 \<Longrightarrow> (length L + 99) div 100 < n + m \<Longrightarrow>
    load_usage n (page_of L) \<lparr>au_page = int m + 1, au_allTransactions = take (100 * m) L\<rparr> =
      Some \<lparr>au_page = int ((length L + 99) div 100) + 1, au_allTransactions = L\<rparr>"
proof (induction n arbitrary: m)
  case (Suc n)
  let ?txs = "take 100 (drop (100 * m) L)"
  have f: "page_of L (int m + 1) = ?txs"
    by (simp add: page_of_def nat_mult_distrib mult.commute)
  show ?case
  proof (cases "length L \<le> 100 * m")
    case True
    with Suc.prems have "m = (length L + 99) div 100" by linarith
    with True f show ?thesis by simp
  next
    case False
    have t: "take (100 * m) L @ ?txs = take (100 * (m + 1)) L"
      by (simp add: take_add [symmetric] algebra_simps)
    have "distinct (map tx_paymentHash (take (100 * (m + 1)) L))"
      using assms by (simp add: take_map [symmetric])
    then have "first_hashes [] (take (100 * m) L @ ?txs) = take (100 * (m + 1)) L"
      unfolding t by (rule first_hashes_distinct) simp
    with False have e: "usage_effect ?txs \<lparr>au_page = int m + 1, au_allTransactions = take (100 * m) L\<rparr> =
        \<lparr>au_page = int (m + 1) + 1, au_allTransactions = take (100 * (m + 1)) L\<rparr>"
      by (simp add: usage_effect_def)
    have "load_usage (Suc n) (page_of L) \<lparr>au_page = int m + 1, au_allTransactions = take (100 * m) L\<rparr> =
        load_usage n (page_of L) \<lparr>au_page = int (m + 1) + 1, au_allTransactions = take (100 * (m + 1)) L\<rparr>"
      unfolding load_usage.simps Let_def app_usage.simps f e using False by simp
    then show ?thesis
      using Suc.IH [of "m + 1"] Suc.prems False by simp
  qed
qed simp

text \<open>The usage of a connection counts every payment once. When the server's pages are those of a list of
  payments with different hashes, fetching page after page stops after one more than the pages there are,
  with exactly this list, and the totals are those of the whole list: spent are the settled outgoing payments
  with their fees, each cut to satoshis.\<close>

lemma usage_complete:
  assumes "distinct (map tx_paymentHash L)" and "(length L + 99) div 100 < n"
  shows "\<exists>s. load_usage n (page_of L) init_usage = Some s \<and> au_allTransactions s = L \<and>
    au_page s = int ((length L + 99) div 100) + 1 \<and>
    totalSpentSat s = (\<Sum>tx \<leftarrow> L. if tx_type tx = Outgoing \<and> tx_state tx = Settled
                                 then (tx_amountMsat tx + tx_feesPaidMsat tx) div 1000 else 0) \<and>
    totalReceivedSat s = (\<Sum>tx \<leftarrow> L. if tx_type tx = Incoming then tx_amountSat tx else 0)"
proof -
  have "load_usage n (page_of L) init_usage =
      Some \<lparr>au_page = int ((length L + 99) div 100) + 1, au_allTransactions = L\<rparr>"
    using load_usage_from [OF assms(1), of 0 n] assms(2) by (simp add: init_usage_def)
  then show ?thesis
    by (simp add: totalSpentSat_def totalReceivedSat_def sum_list_map_filter')
qed

lemma usage_complete_witness:
  "\<exists>s. load_usage 1 (page_of []) init_usage = Some s \<and> totalSpentSat s = 0"
  using usage_complete [of "[]" 1] by fastforce

subsection \<open>Clean-up\<close>

text \<open>The decisions among the events: \<open>True\<close> is a deletion.\<close>

definition decisions :: "cleanup_event list \<Rightarrow> bool list" where
  "decisions evs = concat (map (\<lambda>e. case e of CleanupData _ \<Rightarrow> [] | CleanupSkip \<Rightarrow> [False] | CleanupDelete \<Rightarrow> [True]) evs)"

definition review_order :: "(string \<Rightarrow> int) \<Rightarrow> App list \<Rightarrow> App list" where
  "review_order parse_date apps = sort_cmp (\<lambda>a b. used_at parse_date a - used_at parse_date b) apps"

definition deletions :: "App list \<Rightarrow> bool list \<Rightarrow> effect list" where
  "deletions apps ds = map (\<lambda>(a, d). EFetch ''DELETE'' (app_url a) None) (filter snd (zip apps ds))"

lemma delete_current_run:
  "fetches (ui_log (snd (delete_current srv a w))) = fetches (ui_log w) @ [EFetch ''DELETE'' (app_url a) None]"
  "ui_st (snd (delete_current srv a w)) = ui_st w" "\<exists>x. fst (delete_current srv a w) = Inr x"
  by (auto simp: delete_current_def Let_def deleteApp_def busy_def app_url_def effect_defs split: sum.split)

definition cleanup_at :: "App list \<Rightarrow> bool list \<Rightarrow> cleanup ui \<Rightarrow> bool" where
  "cleanup_at apps ds w =
     (length ds \<le> length apps \<and> cu_appsToReview (ui_st w) = Some apps \<and> cu_appIndex (ui_st w) = Some (length ds) \<and>
      cu_skippedCount (ui_st w) = length (filter Not ds) \<and> cu_deletedCount (ui_st w) = length (filter id ds) \<and>
      fetches (ui_log w) = deletions apps ds)"

lemma zip_snoc: "length ds < length apps \<Longrightarrow> zip apps (ds @ [d]) = zip apps ds @ [(apps ! length ds, d)]"
proof (induction ds arbitrary: apps)
  case (Cons x ds)
  then show ?case by (cases apps) auto
qed (auto simp: neq_Nil_conv)

lemma cleanup_choice:
  assumes "currentApp (ui_st w) = Some a"
  shows "fetches (ui_log (cleanup_step parse_date srv w CleanupDelete)) = fetches (ui_log w) @ [EFetch ''DELETE'' (app_url a) None]"
    "ui_st (cleanup_step parse_date srv w CleanupDelete) =
       (advance_index (ui_st w))\<lparr>cu_deletedCount := Suc (cu_deletedCount (ui_st w))\<rparr>"
    "cleanup_step parse_date srv w CleanupSkip =
       w\<lparr>ui_st := (advance_index (ui_st w))\<lparr>cu_skippedCount := Suc (cu_skippedCount (ui_st w))\<rparr>\<rparr>"
  using delete_current_run [of srv a w]
  by (auto simp: cleanup_step_def assms andDo_def andThen_def setS_def split: sum.split prod.split)

lemma cleanup_step_at:
  assumes "cleanup_at apps ds w"
  shows "cleanup_at apps (take (length apps) (ds @ decisions [e])) (cleanup_step parse_date srv w e)"
proof (cases "length ds < length apps")
  case True
  then have cur: "currentApp (ui_st w) = Some (apps ! length ds)"
    using assms by (simp add: cleanup_at_def currentApp_def)
  note c = cleanup_choice [OF cur, of parse_date srv]
  have le: "take (length apps) (ds @ [d]) = ds @ [d]" for d
    using True by simp
  show ?thesis
  proof (cases e)
    case (CleanupData x)
    with assms show ?thesis
      by (cases x) (auto simp: cleanup_at_def cleanup_step_def decisions_def cleanup_effect_def setS_run)
  next
    case CleanupSkip
    with assms True show ?thesis
      by (simp add: cleanup_at_def c decisions_def le deletions_def zip_snoc advance_index_def)
  next
    case CleanupDelete
    with assms True show ?thesis
      by (simp add: cleanup_at_def c decisions_def le deletions_def zip_snoc advance_index_def)
  qed
next
  case False
  then have cur: "currentApp (ui_st w) = None"
    using assms by (simp add: cleanup_at_def currentApp_def)
  show ?thesis
    using assms False
    by (cases e) (auto simp: cleanup_at_def cleanup_step_def cur decisions_def cleanup_effect_def setS_run split: option.split)
qed

lemma decisions_append: "decisions (es @ [e]) = decisions es @ decisions [e]"
  by (simp add: decisions_def)

lemma cleanup_run:
  "cleanup_at apps [] w \<Longrightarrow>
   cleanup_at apps (take (length apps) (decisions evs)) (foldl (cleanup_step parse_date srv) w evs)"
proof (induction evs rule: rev_induct)
  case Nil
  then show ?case by (simp add: decisions_def)
next
  case (snoc e es)
  have "take (length apps) (take (length apps) (decisions es) @ decisions [e]) =
      take (length apps) (decisions (es @ [e]))"
    by (cases "length (decisions es) \<le> length apps") (simp_all add: decisions_append)
  with cleanup_step_at [OF snoc.IH [OF snoc.prems], of e parse_date srv] show ?case
    by simp
qed

text \<open>C12: The clean-up deletes exactly what the user chose. The unused connections are reviewed as they were when the page
  was opened, the longest unused first; after any events, whatever else is polled and whatever the server answers, the
  requests are one deletion, in this order, for each reviewed connection the user chose to delete, and none
  for the others; nothing is asked for after the last, and the counters add up to the reviewed ones.\<close>

theorem cleanup_deletes_chosen:
  "let w = foldl (cleanup_step parse_date srv) \<lparr>ui_st = init_cleanup, ui_log = []\<rparr> (CleanupData (Some apps) # evs);
       order = sort_cmp (\<lambda>a b. used_at parse_date a - used_at parse_date b) apps;
       chosen = take (length apps) (decisions evs)
   in mset order = mset apps \<and> sorted (map (used_at parse_date) order) \<and>
      fetches (ui_log w) = map (\<lambda>(a, d). EFetch ''DELETE'' (''/api/apps/'' @ app_appPubkey a) None) (filter snd (zip order chosen)) \<and>
      cleanup_progress (ui_st w) =
        Some (length chosen, length apps, length (filter Not chosen), length (filter id chosen)) \<and>
      currentApp (ui_st w) = (if length chosen < length apps then Some (order ! length chosen) else None)"
proof -
  let ?o = "review_order parse_date apps"
  let ?w = "\<lparr>ui_st = cleanup_effect parse_date (Some apps) init_cleanup, ui_log = []\<rparr> :: cleanup ui"
  have len: "length ?o = length apps"
    unfolding review_order_def using sort_cmp_mset by (metis size_mset)
  have "cleanup_at ?o [] ?w"
    by (simp add: cleanup_at_def cleanup_effect_def init_cleanup_def deletions_def review_order_def)
  from cleanup_run [OF this, of evs parse_date srv]
  have at: "cleanup_at ?o (take (length apps) (decisions evs))
      (foldl (cleanup_step parse_date srv) \<lparr>ui_st = init_cleanup, ui_log = []\<rparr> (CleanupData (Some apps) # evs))"
    by (simp add: len cleanup_step_def setS_run)
  have s: "sorted (map (used_at parse_date) ?o)"
    unfolding review_order_def by (rule sort_cmp_sorted) auto
  show ?thesis
    using at s len
    by (simp add: Let_def cleanup_at_def deletions_def app_url_def review_order_def [symmetric] cleanup_progress_def
        currentApp_def del: foldl.simps) (simp add: review_order_def)
qed

subsection \<open>Sub-wallets\<close>

text \<open>A sub-wallet is created only within the limit. Without a plan and with the free number of sub-wallets nothing
  is requested and the reason is shown; otherwise one isolated connection with the seven scopes of a
  sub-wallet is requested, and the page goes on or shows the server's error; it always ends ready.\<close>

lemma subwallet_outcomes:
  "snd (subwallet_handleSubmit srv albyMe totalCount w) =
     (let name = ns_name (ui_st w); body = create_app_json (subwallet_request name);
          l = ui_log w @ [EFetch ''POST'' ''/api/apps'' (Some body)];
          done = (ui_st w)\<lparr>ns_isLoading := False\<rparr>;
          failed = (\<lambda>l e. w\<lparr>ui_st := done, ui_log := ui_log (snd (request_error ''Failed to create app'' e \<lparr>ui_st = (), ui_log = l\<rparr>))\<rparr>)
      in if \<not> has_plan albyMe \<and> totalCount \<ge> MAX_FREE_SUBWALLETS
         then failed (ui_log w) ''Max limit reached. Please upgrade to Pro to create more sub-wallets.''
         else (case srv (ui_log w) ''POST'' ''/api/apps'' (Some body) of
                 Inl e \<Rightarrow> failed l e
               | Inr r \<Rightarrow>
                   if (case r of Some j \<Rightarrow> json_truthy j | None \<Rightarrow> False)
                   then w\<lparr>ui_st := done, ui_log := l @ [ENavigate ''/sub-wallets/created'',
                           EToast (''New sub-wallet created for '' @ name) None]\<rparr>
                   else failed l ''no create app response received''))"
  unfolding subwallet_handleSubmit_def getS_then
  by (cases w) (auto simp: Let_def subwallet_limit_def createApp_def request_error_def effect_defs split: sum.split option.split prod.split)

text \<open>A transfer is one request; its dialog closes and is cleared exactly when the request succeeds.\<close>

lemma transfer_outcomes:
  "let s = ui_st w; body = transfer_json into appId s;
       accepted = (case srv (ui_log w) ''POST'' ''/api/transfers'' (Some body) of Inr _ \<Rightarrow> True | Inl _ \<Rightarrow> False);
       w' = snd (transfer_onSubmit srv into appId w)
   in fetches (ui_log w') = fetches (ui_log w) @ [EFetch ''POST'' ''/api/transfers'' (Some body)] \<and>
      ui_st w' = (if accepted then s\<lparr>td_loading := False, td_open := False, td_amountSat := [], td_description := []\<rparr>
                  else s\<lparr>td_loading := False\<rparr>)"
  unfolding transfer_onSubmit_def getS_then
  by (auto simp: Let_def request_error_def effect_defs split: sum.split prod.split)

end
