(* ===== verification/JsPretty.thy ===== *)
theory JsPretty imports JsJson
begin

text \<open>
  \<open>JSON.stringify(value, null, 2)\<close>: the text with line breaks and an indentation of two spaces per level,
  and the proof that it reads back as the value.
\<close>

section \<open>Printing\<close>

definition newline :: "nat \<Rightarrow> string" where
  "newline k = CHR 0x0A # replicate k (CHR '' '')"

fun json_pretty :: "nat \<Rightarrow> json \<Rightarrow> string"
  and pretty_items :: "nat \<Rightarrow> json list \<Rightarrow> string"
  and pretty_members :: "nat \<Rightarrow> (string \<times> json) list \<Rightarrow> string" where
  "json_pretty k JNull = ''null''"
| "json_pretty k (JBool b) = (if b then ''true'' else ''false'')"
| "json_pretty k (JNum i) = show_int i"
| "json_pretty k (JStr s) = quote s"
| "json_pretty k (JArr xs) =
     (if xs = [] then ''[]''
      else CHR ''['' # newline (k + 2) @ pretty_items (k + 2) xs @ newline k @ '']'')"
| "json_pretty k (JObj ms) =
     (if ms = [] then [CHR 0x7B, CHR 0x7D]
      else CHR 0x7B # newline (k + 2) @ pretty_members (k + 2) ms @ newline k @ [CHR 0x7D])"
| "pretty_items k [] = []"
| "pretty_items k [x] = json_pretty k x"
| "pretty_items k (x # y # ys) = json_pretty k x @ CHR '','' # newline k @ pretty_items k (y # ys)"
| "pretty_members k [] = []"
| "pretty_members k [(n, v)] = quote n @ '': '' @ json_pretty k v"
| "pretty_members k ((n, v) # m # ms) =
     quote n @ '': '' @ json_pretty k v @ CHR '','' # newline k @ pretty_members k (m # ms)"

section \<open>White space before a value does not matter\<close>

lemma skip_ws_newline [simp]: "skip_ws (newline k @ s) = skip_ws s"
  by (simp add: newline_def skip_ws_def json_space_def dropWhile_append)

lemma skip_ws_space [simp]: "skip_ws (CHR '' '' # s) = skip_ws s"
  by (simp add: skip_ws_def json_space_def)

lemma closes_newline [simp]: "closes (newline k @ s)"
  by (simp add: newline_def)

lemma p_value_newline [simp]: "p_value n (newline k @ s) = p_value n s"
  by (cases n) simp_all

lemma p_value_space [simp]: "p_value n (CHR '' '' # s) = p_value n s"
  by (cases n) simp_all

lemma p_items_newline [simp]: "p_items n (newline k @ s) = p_items n s"
  by (cases n) simp_all

lemma p_members_newline [simp]: "p_members n (newline k @ s) = p_members n s"
  by (cases n) simp_all

section \<open>Reading it back\<close>

lemma pretty_shape: "\<exists>c t. json_pretty k j = c # t \<and> value_start c"
  using show_int_shape by (cases j) (auto simp: quote_def)

lemma pretty_items_shape: "xs \<noteq> [] \<Longrightarrow> \<exists>c t. pretty_items k xs = c # t \<and> value_start c"
proof -
  assume "xs \<noteq> []"
  then obtain x ys where "xs = x # ys" by (cases xs) auto
  moreover obtain c t where "json_pretty k x = c # t \<and> value_start c" using pretty_shape by blast
  ultimately show ?thesis by (cases ys) auto
qed

lemma p_value_pretty_array:
  assumes "xs \<noteq> []" and "p_items n (pretty_items (k + 2) xs @ newline k @ CHR '']'' # r) = Some (xs, r)"
  shows "p_value (Suc n) (json_pretty k (JArr xs) @ r) = Some (JArr xs, r)"
proof -
  obtain c t where ct: "pretty_items (k + 2) xs = c # t" "value_start c" using pretty_items_shape [OF assms(1)] by blast
  then have "skip_ws (pretty_items (k + 2) xs @ newline k @ CHR '']'' # r) =
      pretty_items (k + 2) xs @ newline k @ CHR '']'' # r" "c \<noteq> CHR '']''"
    using value_start_plain by (auto intro: skip_ws_id)
  then show ?thesis using assms ct
    by (simp add: skip_ws_id [of "CHR ''['' # _"] json_space_def)
qed

lemma p_value_pretty_object:
  assumes "ms \<noteq> []" and "p_members n (pretty_members (k + 2) ms @ newline k @ CHR 0x7D # r) = Some (ms, r)"
  shows "p_value (Suc n) (json_pretty k (JObj ms) @ r) = Some (JObj ms, r)"
proof -
  obtain u where u: "pretty_members (k + 2) ms @ newline k @ CHR 0x7D # r = CHR 0x22 # u"
    using assms(1) by (cases ms rule: remdups_adj.cases) (auto simp: quote_def)
  have "skip_ws (CHR 0x22 # u) = CHR 0x22 # u" by (simp add: skip_ws_id json_space_def)
  then show ?thesis using assms u
    by (simp add: skip_ws_id [of "CHR 0x7B # _"] json_space_def)
qed

lemma p_members_pretty:
  assumes "p_value n (s @ t) = Some (v, t)"
  shows "p_members (Suc n) (quote k @ CHR '':'' # CHR '' '' # s @ t) =
     (case skip_ws t of
        [] \<Rightarrow> None
      | d # t' \<Rightarrow> if d = CHR '','' then map_option (\<lambda>(ms, r). ((k, v) # ms, r)) (p_members n t')
                else if d = CHR 0x7D then Some ([(k, v)], t') else None)"
  using assms
  by (simp add: quote_def skip_ws_id [of "CHR 0x22 # _"] skip_ws_id [of "CHR '':'' # _"] json_space_def unquote_quote)

lemma parse_pretty_aux:
  "length (json_pretty k j) \<le> n \<Longrightarrow> closes r \<Longrightarrow> p_value n (json_pretty k j @ r) = Some (j, r)"
  "xs \<noteq> [] \<Longrightarrow> length (pretty_items k xs) < n \<Longrightarrow>
     p_items n (pretty_items k xs @ newline i @ CHR '']'' # r) = Some (xs, r)"
  "ms \<noteq> [] \<Longrightarrow> length (pretty_members k ms) < n \<Longrightarrow>
     p_members n (pretty_members k ms @ newline i @ CHR 0x7D # r) = Some (ms, r)"
proof (induction k j and k xs and k ms arbitrary: n r and n i r and n i r
    rule: json_pretty_pretty_items_pretty_members.induct)
  case (3 k i)
  obtain c t where "show_int i = c # t" using show_int_shape by blast
  with 3 obtain m where "n = Suc m" by (cases n) auto
  with 3 show ?case by (simp only: json_pretty.simps p_value_number)
next
  case (4 k s)
  then show ?case
    by (cases n) (auto simp: quote_def skip_ws_id [of "CHR 0x22 # _"] json_space_def unquote_quote)
next
  case (5 k xs)
  then obtain m where m: "n = Suc m" by (cases n) (auto split: if_split_asm)
  show ?case
  proof (cases "xs = []")
    case True
    then show ?thesis using m
      by (simp add: skip_ws_id [of "CHR ''['' # _"] skip_ws_id [of "CHR '']'' # _"] json_space_def)
  next
    case False
    then have "p_items m (pretty_items (k + 2) xs @ newline k @ CHR '']'' # r) = Some (xs, r)"
      using "5.IH" "5.prems" m by (simp add: newline_def)
    then show ?thesis unfolding m by (rule p_value_pretty_array [OF False])
  qed
next
  case (6 k ms)
  then obtain m where m: "n = Suc m" by (cases n) (auto split: if_split_asm)
  show ?case
  proof (cases "ms = []")
    case True
    then show ?thesis using m
      by (simp add: skip_ws_id [of "CHR 0x7B # _"] skip_ws_id [of "CHR 0x7D # _"] json_space_def)
  next
    case False
    then have "p_members m (pretty_members (k + 2) ms @ newline k @ CHR 0x7D # r) = Some (ms, r)"
      using "6.IH" "6.prems" m by (simp add: newline_def)
    then show ?thesis unfolding m by (rule p_value_pretty_object [OF False])
  qed
next
  case (8 k x)
  then obtain m where m: "n = Suc m" by (cases n) auto
  with 8 show ?case by (simp add: skip_ws_id [of "CHR '']'' # _"] json_space_def)
next
  case (9 k x y ys)
  then obtain m where m: "n = Suc m" by (cases n) auto
  have "p_value m (json_pretty k x @ CHR '','' # newline k @ pretty_items k (y # ys) @ newline i @ CHR '']'' # r) =
      Some (x, CHR '','' # newline k @ pretty_items k (y # ys) @ newline i @ CHR '']'' # r)"
    using 9 m by simp
  moreover have "p_items m (pretty_items k (y # ys) @ newline i @ CHR '']'' # r) = Some (y # ys, r)"
    using 9 m by simp
  ultimately show ?case
    using m by (simp add: skip_ws_id [of "CHR '','' # _"] json_space_def)
next
  case (11 k a v)
  then obtain m where m: "n = Suc m" by (cases n) auto
  have "p_value m (json_pretty k v @ newline i @ CHR 0x7D # r) = Some (v, newline i @ CHR 0x7D # r)"
    using 11 m by simp
  then show ?case using m p_members_pretty [of m "json_pretty k v" "newline i @ CHR 0x7D # r" v a]
    by (simp add: skip_ws_id [of "CHR 0x7D # _"] json_space_def)
next
  case (12 k a v m' ms)
  then obtain m where m: "n = Suc m" by (cases n) auto
  let ?t = "CHR '','' # newline k @ pretty_members k (m' # ms) @ newline i @ CHR 0x7D # r"
  have "p_value m (json_pretty k v @ ?t) = Some (v, ?t)"
    using 12 m by simp
  moreover have "p_members m (pretty_members k (m' # ms) @ newline i @ CHR 0x7D # r) = Some (m' # ms, r)"
    using 12 m by simp
  ultimately show ?case using m p_members_pretty [of m "json_pretty k v" ?t v a]
    by (simp add: skip_ws_id [of "CHR '','' # _"] json_space_def)
qed (case_tac n; auto simp: skip_ws_id json_space_def starts_with_def split: if_splits)+

lemma json_parse_pretty [simp]: "json_parse (json_pretty 0 j) = Some j"
proof -
  have "p_value (2 * length (json_pretty 0 j) + 1) (json_pretty 0 j @ []) = Some (j, [])"
    by (rule parse_pretty_aux(1)) auto
  then show ?thesis by (simp add: json_parse_def)
qed

end
