(* ===== verification/SettingsPages.thy ===== *)
theory SettingsPages imports Connections
begin

text \<open>
  The settings: their menu and the power button (\<open>components/layouts/SettingsLayout.tsx\<close>), appearance
  (\<open>components/ui/theme-provider.tsx\<close> and \<open>screens/settings/Settings.tsx\<close>), the unlock password, automatic
  unlocking, the recovery phrase and the channel backups (\<open>Backup.tsx\<close> and
  \<open>components/mnemonic/MnemonicDialog.tsx\<close>), the node and account pages and \<open>About.tsx\<close>.
\<close>

section \<open>The layout\<close>

definition settings_menu :: "InfoResponse option \<Rightarrow> (string \<times> string) list" where
  "settings_menu info =
     (let has = (\<lambda>f. case info of Some i \<Rightarrow> f (backendTypeConfigs (info_backendType i)) | None \<Rightarrow> False);
          is = (\<lambda>f. case info of Some i \<Rightarrow> f i | None \<Rightarrow> False)
      in [(''/settings'', ''General''), (''/settings/change-unlock-password'', ''Unlock Password'')] @
         (if is info_autoUnlockPasswordSupported then [(''/settings/auto-unlock'', ''Auto Unlock'')] else []) @
         (if has btc_hasMnemonic then [(''/settings/backup'', ''Backup'')] else []) @
         (if has btc_hasNodeBackup then [(''/settings/node-migrate'', ''Migrate Alby Hub'')] else []) @
         (if is info_albyAccountConnected then [(''/settings/alby-account'', ''Your Alby Account'')] else []) @
         (if is (\<lambda>i. \<not> info_albyAccountConnected i) then [(''/alby/account'', ''Alby Account'')] else []) @
         (if is (\<lambda>i. info_backendType i = LDK) then [(''/settings/node'', ''Node'')] else []) @
         [(''/settings/developer'', ''Developer''), (''/settings/debug-tools'', ''Debug Tools''),
          (''/settings/about'', ''About'')])"

text \<open>Turning the hub off; the state is \<open>shuttingDown\<close>, which disables the button.\<close>

definition shutdown_hub :: "server \<Rightarrow> (bool, unit) act" where
  "shutdown_hub srv =
     andDo (setS (\<lambda>_. True))
       (tryCatch
         (andDo (api srv ''POST'' ''/api/stop'' None)
         (andDo (emit (EMutate ''/api/info''))
         (andDo (setS (\<lambda>_. False))
         (andDo (emit (ENavigate ''/'')) (toast ''Your node has been turned off.'')))))
         (\<lambda>error. emit (EToastError ''Failed to shutdown node'' (Some (error_text error)))))"

section \<open>Appearance\<close>

definition Themes :: "string list" where
  "Themes = [''alby'', ''classic'', ''bitcoin'', ''nostr'', ''matrix'', ''ghibli'', ''claymorphism'']"

definition paidThemes :: "string list" where
  "paidThemes = [''matrix'', ''ghibli'', ''claymorphism'']"

definition theme_key :: string where "theme_key = ''vite-ui-theme''"

definition darkmode_key :: string where "darkmode_key = theme_key @ ''-darkmode''"

text \<open>\<open>tp_classes\<close> is the class list of the document's root element, which outlives the component.\<close>

record theme_provider =
  tp_theme :: string
  tp_darkMode :: string
  tp_isDarkMode :: bool
  tp_storage :: storage
  tp_classes :: "string list"

definition stored_theme :: "storage \<Rightarrow> string" where
  "stored_theme st =
     (case storage_getItem st theme_key of
        Some t \<Rightarrow> if t \<in> set Themes then t else ''alby''
      | None \<Rightarrow> ''alby'')"

definition stored_darkMode :: "storage \<Rightarrow> string" where
  "stored_darkMode st = or_str (storage_getItem st darkmode_key) ''system''"

text \<open>
  \<open>classList.forEach\<close> walks the live list by index while the callback removes from it, so the class
  after a removed one is passed over.
\<close>

function remove_theme_classes :: "nat \<Rightarrow> string list \<Rightarrow> string list" where
  "remove_theme_classes i cl =
     (if i < length cl
      then remove_theme_classes (Suc i)
             (if starts_with ''theme-'' (cl ! i) then take i cl @ drop (Suc i) cl else cl)
      else cl)"
  by pat_completeness auto
termination by (relation "measure (\<lambda>(i, cl). length cl - i)") auto

definition class_add :: "string \<Rightarrow> string list \<Rightarrow> string list" where
  "class_add c cl = (if c \<in> set cl then cl else cl @ [c])"

definition class_remove :: "string \<Rightarrow> string list \<Rightarrow> string list" where
  "class_remove c cl = filter (\<lambda>d. d \<noteq> c) cl"

text \<open>The effect on \<open>[theme, darkMode]\<close>; \<open>sys\<close> is the preference of the operating system at that moment.\<close>

definition theme_effect :: "bool \<Rightarrow> theme_provider \<Rightarrow> theme_provider" where
  "theme_effect sys s =
     (let cl = class_add (''theme-'' @ tp_theme s) (remove_theme_classes 0 (tp_classes s));
          prefersDark = (if tp_darkMode s = ''system'' then sys else tp_darkMode s = ''dark'')
      in s\<lparr>tp_isDarkMode := prefersDark,
           tp_classes := (if prefersDark then class_add ''dark'' cl else class_remove ''dark'' cl)\<rparr>)"

text \<open>The class attribute of the document as it is served.\<close>

definition document_classes :: "string list" where "document_classes = [''min-h-screen'']"

definition mount_theme :: "bool \<Rightarrow> storage \<Rightarrow> string list \<Rightarrow> theme_provider" where
  "mount_theme sys st cl =
     theme_effect sys
       \<lparr>tp_theme = stored_theme st, tp_darkMode = stored_darkMode st, tp_isDarkMode = False,
        tp_storage = st, tp_classes = cl\<rparr>"

definition set_theme :: "bool \<Rightarrow> string \<Rightarrow> theme_provider \<Rightarrow> theme_provider" where
  "set_theme sys t s =
     (let s' = s\<lparr>tp_storage := storage_setItem (tp_storage s) theme_key t, tp_theme := t\<rparr>
      in if t = tp_theme s then s' else theme_effect sys s')"

definition set_darkMode :: "bool \<Rightarrow> string \<Rightarrow> theme_provider \<Rightarrow> theme_provider" where
  "set_darkMode sys m s =
     (let s' = s\<lparr>tp_storage := storage_setItem (tp_storage s) darkmode_key m, tp_darkMode := m\<rparr>
      in if m = tp_darkMode s then s' else theme_effect sys s')"

section \<open>The general page\<close>

record general_ui =
  gu_theme :: theme_provider
  gu_showUpgradeDialog :: bool

definition darkModes :: "string list" where
  "darkModes = [''light'', ''dark'', ''system'']"

definition theme_locked :: "AlbyMe option \<Rightarrow> string \<Rightarrow> bool" where
  "theme_locked albyMe t = (t \<in> set paidThemes \<and> \<not> has_plan albyMe)"

definition pick_theme :: "AlbyMe option \<Rightarrow> bool \<Rightarrow> string \<Rightarrow> (general_ui, unit) act" where
  "pick_theme albyMe sys t =
     (if theme_locked albyMe t then setS (\<lambda>s. s\<lparr>gu_showUpgradeDialog := True\<rparr>)
      else andDo (setS (\<lambda>s. s\<lparr>gu_theme := set_theme sys t (gu_theme s)\<rparr>)) (toast ''Theme updated.''))"

definition pick_darkMode :: "bool \<Rightarrow> string \<Rightarrow> (general_ui, unit) act" where
  "pick_darkMode sys m =
     andDo (setS (\<lambda>s. s\<lparr>gu_theme := set_darkMode sys m (gu_theme s)\<rparr>)) (toast ''Appearance updated.'')"

definition updateSettings :: "server \<Rightarrow> (string \<times> json) list \<Rightarrow> string \<Rightarrow> string \<Rightarrow> ('s, unit) act" where
  "updateSettings srv payload successMessage errorMessage =
     tryCatch
       (andDo (api srv ''PATCH'' ''/api/settings'' (Some (JObj payload)))
       (andDo (emit (EMutate ''/api/info'')) (toast successMessage)))
       (request_error errorMessage)"

definition updateCurrency :: "server \<Rightarrow> string \<Rightarrow> ('s, unit) act" where
  "updateCurrency srv currency =
     updateSettings srv [(''currency'', JStr currency)] (''Currency set to '' @ currency) ''Failed to update currencies''"

definition display_format_str :: "BitcoinDisplayFormat \<Rightarrow> string" where
  "display_format_str f = (case f of Bip177 \<Rightarrow> ''bip177'' | Sats \<Rightarrow> ''sats'')"

definition updateBitcoinDisplayFormat :: "server \<Rightarrow> BitcoinDisplayFormat \<Rightarrow> ('s, unit) act" where
  "updateBitcoinDisplayFormat srv f =
     updateSettings srv [(''bitcoinDisplayFormat'', JStr (display_format_str f))]
       ''Bitcoin display format updated'' ''Failed to update bitcoin display format''"

text \<open>The events of the page; a reload keeps only the browser's storage.\<close>

datatype general_event =
    GenTheme "AlbyMe option" bool string | GenMode bool string | GenUpgrade bool
  | GenCurrency string | GenFormat BitcoinDisplayFormat | GenReload bool

definition general_handler :: "server \<Rightarrow> general_event \<Rightarrow> (general_ui, unit) act" where
  "general_handler srv e =
     (case e of
        GenTheme albyMe sys t \<Rightarrow> whenD (t \<in> set Themes) (pick_theme albyMe sys t)
      | GenMode sys m \<Rightarrow> whenD (m \<in> set darkModes) (pick_darkMode sys m)
      | GenUpgrade b \<Rightarrow> setS (\<lambda>s. s\<lparr>gu_showUpgradeDialog := b\<rparr>)
      | GenCurrency c \<Rightarrow> updateCurrency srv c
      | GenFormat f \<Rightarrow> updateBitcoinDisplayFormat srv f
      | GenReload sys \<Rightarrow>
          setS (\<lambda>s. \<lparr>gu_theme = mount_theme sys (tp_storage (gu_theme s)) document_classes, gu_showUpgradeDialog = False\<rparr>))"

definition general_step :: "server \<Rightarrow> general_ui ui \<Rightarrow> general_event \<Rightarrow> general_ui ui" where
  "general_step srv w e = snd (general_handler srv e w)"

definition open_general :: "bool \<Rightarrow> storage \<Rightarrow> general_ui ui" where
  "open_general sys st =
     \<lparr>ui_st = \<lparr>gu_theme = mount_theme sys st document_classes, gu_showUpgradeDialog = False\<rparr>, ui_log = []\<rparr>"

section \<open>The appearance is the one picked last\<close>

abbreviation theme_class :: "string \<Rightarrow> bool" where "theme_class \<equiv> starts_with ''theme-''"

declare remove_theme_classes.simps [simp del]

lemma theme_class_theme [simp]: "theme_class (''theme-'' @ t)" and not_theme_class [simp]: "\<not> theme_class ''dark''"
  by (simp_all add: starts_with_def)

lemmas theme_class_Cons [simp] = theme_class_theme [simplified append_Cons append_Nil]

lemma remove_theme_classes_one:
  "length (filter theme_class (drop i cl)) \<le> 1 \<Longrightarrow>
   remove_theme_classes i cl = take i cl @ filter (\<lambda>c. \<not> theme_class c) (drop i cl)"
proof (induction i cl rule: remove_theme_classes.induct)
  case (1 i cl)
  show ?case
  proof (cases "i < length cl")
    case True
    then have d: "drop i cl = cl ! i # drop (Suc i) cl" by (simp add: Cons_nth_drop_Suc)
    show ?thesis
    proof (cases "theme_class (cl ! i)")
      case th: True
      let ?cl = "take i cl @ drop (Suc i) cl"
      have none: "filter theme_class (drop (Suc i) cl) = []" using "1.prems" th d by simp
      then have all: "filter (\<lambda>c. \<not> theme_class c) (drop (Suc i) cl) = drop (Suc i) cl"
        by (auto simp: filter_empty_conv intro: filter_True)
      have dd: "drop (Suc i) ?cl = drop 1 (drop (Suc i) cl)" using True by simp
      have n2: "filter theme_class (drop (Suc i) ?cl) = []"
        using none unfolding dd filter_empty_conv by (meson in_set_dropD)
      then have "remove_theme_classes (Suc i) ?cl = take (Suc i) ?cl @ filter (\<lambda>c. \<not> theme_class c) (drop (Suc i) ?cl)"
        using "1.IH" True th by simp
      also have "filter (\<lambda>c. \<not> theme_class c) (drop (Suc i) ?cl) = drop (Suc i) ?cl"
        using n2 by (auto simp: filter_empty_conv intro: filter_True)
      finally show ?thesis using True th all d append_take_drop_id [of "Suc 0" "drop (Suc i) cl"]
        by (subst remove_theme_classes.simps) simp
    next
      case False
      then have "length (filter theme_class (drop (Suc i) cl)) \<le> 1" using "1.prems" d by simp
      then show ?thesis using "1.IH" True False d
        by (subst remove_theme_classes.simps) (simp add: take_Suc_conv_app_nth)
    qed
  qed (subst remove_theme_classes.simps, simp)
qed

definition theme_ok :: "theme_provider \<Rightarrow> bool" where
  "theme_ok s =
     (filter theme_class (tp_classes s) = [''theme-'' @ tp_theme s] \<and>
      (''dark'' \<in> set (tp_classes s)) = tp_isDarkMode s \<and>
      stored_theme (tp_storage s) = tp_theme s \<and> stored_darkMode (tp_storage s) = tp_darkMode s)"

lemma theme_effect_ok:
  assumes "length (filter theme_class (tp_classes s)) \<le> 1"
    and "stored_theme (tp_storage s) = tp_theme s" and "stored_darkMode (tp_storage s) = tp_darkMode s"
  shows "theme_ok (theme_effect sys s)"
proof -
  let ?cl = "filter (\<lambda>c. \<not> theme_class c) (tp_classes s)"
  have r: "remove_theme_classes 0 (tp_classes s) = ?cl"
    using remove_theme_classes_one [of 0 "tp_classes s"] assms(1) by simp
  have new: "''theme-'' @ tp_theme s \<notin> set ?cl" by simp
  show ?thesis
    using assms(2,3) new
    by (auto simp: theme_ok_def theme_effect_def r Let_def class_add_def class_remove_def conj_commute starts_with_def)
qed

lemma theme_effect_keeps [simp]:
  "tp_theme (theme_effect sys s) = tp_theme s" "tp_darkMode (theme_effect sys s) = tp_darkMode s"
  "tp_storage (theme_effect sys s) = tp_storage s"
  by (simp_all add: theme_effect_def Let_def)

lemma theme_storage [simp]:
  "t \<in> set Themes \<Longrightarrow> stored_theme (storage_setItem st theme_key t) = t"
  "stored_theme (storage_setItem st darkmode_key m) = stored_theme st"
  "m \<in> set darkModes \<Longrightarrow> stored_darkMode (storage_setItem st darkmode_key m) = m"
  "stored_darkMode (storage_setItem st theme_key t) = stored_darkMode st"
  by (auto simp: stored_theme_def stored_darkMode_def local.get_set theme_key_def darkmode_key_def darkModes_def)

lemma set_theme_ok: "theme_ok s \<Longrightarrow> t \<in> set Themes \<Longrightarrow> theme_ok (set_theme sys t s)"
  unfolding set_theme_def Let_def by (auto intro!: theme_effect_ok) (auto simp: theme_ok_def)

lemma set_darkMode_ok: "theme_ok s \<Longrightarrow> m \<in> set darkModes \<Longrightarrow> theme_ok (set_darkMode sys m s)"
  unfolding set_darkMode_def Let_def by (auto intro!: theme_effect_ok) (auto simp: theme_ok_def)

lemma mount_theme_ok: "theme_ok (mount_theme sys st document_classes)"
  unfolding mount_theme_def by (rule theme_effect_ok) (simp_all add: document_classes_def starts_with_def)

lemma set_theme_keeps [simp]:
  "tp_theme (set_theme sys t s) = t" "tp_darkMode (set_theme sys t s) = tp_darkMode s"
  "tp_theme (set_darkMode sys m s) = tp_theme s" "tp_darkMode (set_darkMode sys m s) = m"
  by (simp_all add: set_theme_def set_darkMode_def Let_def)

lemma updateSettings_keeps [simp]: "ui_st (snd (updateSettings srv payload a b w)) = ui_st w"
  by (simp add: updateSettings_def request_error_def handleRequestError_def effect_defs split: sum.split)

text \<open>What the events have picked.\<close>

definition picks_theme :: "string \<Rightarrow> general_event \<Rightarrow> string" where
  "picks_theme t e =
     (case e of GenTheme albyMe sys u \<Rightarrow> if u \<in> set Themes \<and> \<not> theme_locked albyMe u then u else t | _ \<Rightarrow> t)"

definition picks_darkMode :: "string \<Rightarrow> general_event \<Rightarrow> string" where
  "picks_darkMode m e = (case e of GenMode sys k \<Rightarrow> if k \<in> set darkModes then k else m | _ \<Rightarrow> m)"

lemma general_step_theme:
  assumes "theme_ok (gu_theme (ui_st w))"
  shows "theme_ok (gu_theme (ui_st (general_step srv w e)))"
    and "tp_theme (gu_theme (ui_st (general_step srv w e))) = picks_theme (tp_theme (gu_theme (ui_st w))) e"
    and "tp_darkMode (gu_theme (ui_st (general_step srv w e))) = picks_darkMode (tp_darkMode (gu_theme (ui_st w))) e"
  using assms
  by (cases e; simp add: general_step_def general_handler_def pick_theme_def pick_darkMode_def whenD_def andDo_def
        andThen_def setS_def toast_def emit_def ret_def set_theme_ok set_darkMode_ok mount_theme_ok updateCurrency_def
        updateBitcoinDisplayFormat_def picks_theme_def picks_darkMode_def;
      simp add: mount_theme_def theme_ok_def)+

interpretation general: invariant_machine "general_step srv" "\<lambda>w. theme_ok (gu_theme (ui_st w))" for srv
  by unfold_locales (rule general_step_theme)

lemma open_general_ok: "theme_ok (gu_theme (ui_st (open_general sys st)))"
  by (simp add: open_general_def mount_theme_ok)

lemma general_run_theme:
  "theme_ok (gu_theme (ui_st w)) \<Longrightarrow>
   tp_theme (gu_theme (ui_st (foldl (general_step srv) w es))) = foldl picks_theme (tp_theme (gu_theme (ui_st w))) es \<and>
   tp_darkMode (gu_theme (ui_st (foldl (general_step srv) w es))) = foldl picks_darkMode (tp_darkMode (gu_theme (ui_st w))) es"
  by (induction es arbitrary: w) (simp_all add: general_step_theme)

text \<open>The appearance is the one picked last. After any use of the page, reloads included, the theme is
  the last one picked that is free or covered by the plan (otherwise the stored one), the mode the last one
  picked; the document carries exactly the class of that theme, and the class of dark mode exactly when the
  page is dark; and a reload shows the same theme and mode again.\<close>

lemma appearance_picked:
  "let w = foldl (general_step srv) (open_general sys st) es; s = gu_theme (ui_st w);
       r = gu_theme (ui_st (general_step srv w (GenReload sys')))
   in tp_theme s = foldl picks_theme (stored_theme st) es \<and>
      tp_darkMode s = foldl picks_darkMode (stored_darkMode st) es \<and>
      filter (starts_with ''theme-'') (tp_classes s) = [''theme-'' @ tp_theme s] \<and>
      (''dark'' \<in> set (tp_classes s)) = tp_isDarkMode s \<and>
      tp_theme r = tp_theme s \<and> tp_darkMode r = tp_darkMode s"
proof -
  let ?w = "foldl (general_step srv) (open_general sys st) es"
  have ok: "theme_ok (gu_theme (ui_st ?w))" by (rule general.run_inv) (rule open_general_ok)
  have start: "tp_theme (gu_theme (ui_st (open_general sys st))) = stored_theme st"
    "tp_darkMode (gu_theme (ui_st (open_general sys st))) = stored_darkMode st"
    by (simp_all add: open_general_def mount_theme_def)
  show ?thesis
    unfolding Let_def
    using ok general_run_theme [OF open_general_ok, of srv sys st es] general_step_theme [OF ok, of srv "GenReload sys'"]
    unfolding start by (simp add: theme_ok_def picks_theme_def picks_darkMode_def)
qed

section \<open>The unlock password\<close>

record password_change =
  pc_current :: string
  pc_new :: string
  pc_confirm :: string
  pc_loading :: bool

definition change_password_json :: "password_change \<Rightarrow> json" where
  "change_password_json s =
     JObj [(''currentUnlockPassword'', JStr (pc_current s)), (''newUnlockPassword'', JStr (pc_new s))]"

definition change_password_onSubmit :: "server \<Rightarrow> (password_change, unit) act" where
  "change_password_onSubmit srv =
     andThen (getS id) (\<lambda>s.
       finally_do
         (tryCatch
           (andDo (require (pc_new s = pc_confirm s) ''Password confirmation does not match'')
           (andDo (setS (\<lambda>u. u\<lparr>pc_loading := True\<rparr>))
           (andDo (api srv ''PATCH'' ''/api/unlock-password'' (Some (change_password_json s)))
           (andDo (emit (EMutate ''/api/info''))
             (emit (EToast ''Successfully changed password'' (Some ''Please start your node with your new password'')))))))
           (\<lambda>error. emit (EToastError ''Password change failed'' (Some error))))
         (setS (\<lambda>u. u\<lparr>pc_loading := False\<rparr>)))"

definition change_password_enabled :: "password_change \<Rightarrow> bool" where
  "change_password_enabled s = (pc_current s \<noteq> [] \<and> pc_new s \<noteq> [] \<and> pc_confirm s \<noteq> [] \<and> \<not> pc_loading s)"

datatype password_event = PwCurrent string | PwNew string | PwConfirm string | PwSubmit

definition password_step :: "server \<Rightarrow> password_change ui \<Rightarrow> password_event \<Rightarrow> password_change ui" where
  "password_step srv w e =
     (case e of
        PwCurrent p \<Rightarrow> w\<lparr>ui_st := (ui_st w)\<lparr>pc_current := p\<rparr>\<rparr>
      | PwNew p \<Rightarrow> w\<lparr>ui_st := (ui_st w)\<lparr>pc_new := p\<rparr>\<rparr>
      | PwConfirm p \<Rightarrow> w\<lparr>ui_st := (ui_st w)\<lparr>pc_confirm := p\<rparr>\<rparr>
      | PwSubmit \<Rightarrow> if change_password_enabled (ui_st w) then snd (change_password_onSubmit srv w) else w)"

section \<open>Unlocking automatically\<close>

record auto_unlock =
  al_unlockPassword :: string
  al_loading :: bool

definition auto_unlock_onSubmit :: "server \<Rightarrow> (auto_unlock, unit) act" where
  "auto_unlock_onSubmit srv =
     andThen (getS al_unlockPassword) (\<lambda>unlockPassword.
       finally_do
         (tryCatch
           (andDo (setS (\<lambda>u. u\<lparr>al_loading := True\<rparr>))
           (andDo (api srv ''PATCH'' ''/api/auto-unlock'' (Some (JObj [(''unlockPassword'', JStr unlockPassword)])))
           (andDo (emit (EMutate ''/api/info''))
           (andDo (setS (\<lambda>u. u\<lparr>al_unlockPassword := []\<rparr>))
             (toast (''Successfully '' @ (if unlockPassword \<noteq> [] then ''enabled'' else ''disabled'') @ '' auto-unlock''))))))
           (\<lambda>error. emit (EToast ''Auto Unlock change failed'' (Some error))))
         (setS (\<lambda>u. u\<lparr>al_loading := False\<rparr>)))"

datatype auto_unlock_view = AutoUnlockLoading | AutoUnlockUnsupported | AutoUnlockEnable | AutoUnlockDisable

definition auto_unlock_view_of :: "InfoResponse option \<Rightarrow> auto_unlock_view" where
  "auto_unlock_view_of info =
     (case info of
        None \<Rightarrow> AutoUnlockLoading
      | Some i \<Rightarrow>
          if \<not> info_autoUnlockPasswordSupported i then AutoUnlockUnsupported
          else if info_autoUnlockPasswordEnabled i then AutoUnlockDisable else AutoUnlockEnable)"

text \<open>Typing and submitting: the password field, which is required, is only in the form that enables.\<close>

datatype auto_unlock_event = AuType string | AuSubmit

definition auto_unlock_step :: "server \<Rightarrow> auto_unlock ui \<Rightarrow> InfoResponse option \<times> auto_unlock_event \<Rightarrow> auto_unlock ui" where
  "auto_unlock_step srv w e =
     (case e of
        (info, AuType p) \<Rightarrow>
          if auto_unlock_view_of info = AutoUnlockEnable then w\<lparr>ui_st := (ui_st w)\<lparr>al_unlockPassword := p\<rparr>\<rparr> else w
      | (info, AuSubmit) \<Rightarrow>
          if \<not> al_loading (ui_st w) \<and>
             (auto_unlock_view_of info = AutoUnlockDisable \<or>
              auto_unlock_view_of info = AutoUnlockEnable \<and> al_unlockPassword (ui_st w) \<noteq> [])
          then snd (auto_unlock_onSubmit srv w) else w)"

section \<open>Just-in-time channels\<close>

definition setJitChannelsEnabled :: "server \<Rightarrow> bool \<Rightarrow> ('s, unit) act" where
  "setJitChannelsEnabled srv enabled =
     tryCatch
       (andDo (api srv ''PATCH'' ''/api/settings'' (Some (JObj [(''jitChannelsEnabled'', JBool enabled)])))
       (andDo (emit (EMutate ''/api/info''))
         (toast (if enabled then ''Just-in-time channels enabled'' else ''Just-in-time channels disabled''))))
       (request_error ''Failed to update just-in-time channels'')"

datatype node_settings_view = NodeSettingsLoading | NodeSettingsUnsupported | JitSwitch bool bool

text \<open>The switch: whether it is on and whether it is disabled.\<close>

definition node_settings_view_of :: "InfoResponse option \<Rightarrow> node_settings_view" where
  "node_settings_view_of info =
     (case info of
        None \<Rightarrow> NodeSettingsLoading
      | Some i \<Rightarrow>
          if \<not> info_backendType i = LDK then NodeSettingsUnsupported
          else JitSwitch (info_jitChannelsEnabled i)
                 (\<not> truthy_str (info_jitChannelsLiquiditySource i) \<and> \<not> info_jitChannelsEnabled i))"

section \<open>The recovery phrase\<close>

text \<open>
  The page and its dialog. \<open>bk_backedUp\<close> and \<open>bk_backedUp2\<close> are the two boxes of the dialog,
  \<open>bk_private\<close> the box under the password.
\<close>

record backup_ui =
  bk_unlockPassword :: string
  bk_private :: bool
  bk_decryptedMnemonic :: string
  bk_loading :: bool
  bk_isDialogOpen :: bool
  bk_backedUp :: bool
  bk_backedUp2 :: bool

definition init_backup :: backup_ui where
  "init_backup =
     \<lparr>bk_unlockPassword = [], bk_private = False, bk_decryptedMnemonic = [], bk_loading = False,
      bk_isDialogOpen = False, bk_backedUp = False, bk_backedUp2 = False\<rparr>"

definition mnemonic_of :: "json option \<Rightarrow> string" where
  "mnemonic_of result = nullish (Option.bind result (jget_str ''mnemonic'')) []"

definition onSubmitPassword :: "server \<Rightarrow> (backup_ui, unit) act" where
  "onSubmitPassword srv =
     andThen (getS bk_unlockPassword) (\<lambda>unlockPassword.
       finally_do
         (tryCatch
           (andDo (setS (\<lambda>u. u\<lparr>bk_loading := True\<rparr>))
           (andThen (api srv ''POST'' ''/api/mnemonic'' (Some (JObj [(''unlockPassword'', JStr unlockPassword)]))) (\<lambda>result.
             setS (\<lambda>u. u\<lparr>bk_decryptedMnemonic := mnemonic_of result, bk_isDialogOpen := True\<rparr>))))
           (\<lambda>error. emit (EToastError ''Incorrect password'' (Some ''Failed to decrypt recovery phrase.''))))
         (setS (\<lambda>u. u\<lparr>bk_loading := False\<rparr>)))"

text \<open>Finishing the dialog: \<open>sixMonthsLater\<close> is the date as the browser prints it.\<close>

definition finish_backup :: "server \<Rightarrow> string \<Rightarrow> ('s, unit) act" where
  "finish_backup srv sixMonthsLater =
     tryCatch
       (andDo (api srv ''PATCH'' ''/api/backup-reminder'' (Some (JObj [(''nextBackupReminder'', JStr sixMonthsLater)])))
       (andDo (emit (EMutate ''/api/info''))
       (andDo (emit (ENavigate ''/'')) (toast ''Recovery phrase backed up!''))))
       (request_error ''Failed to store back up info'')"

definition shows_second_box :: "InfoResponse option \<Rightarrow> backup_ui \<Rightarrow> bool" where
  "shows_second_box info s =
     (bk_backedUp s \<and> \<not> (case info of Some i \<Rightarrow> info_albyAccountConnected i | None \<Rightarrow> False))"

datatype backup_event =
    BkType string | BkPrivate | BkSubmit | BkBox | BkBox2 | BkFinish string | BkClose

definition backup_allowed :: "InfoResponse option \<Rightarrow> backup_ui \<Rightarrow> backup_event \<Rightarrow> bool" where
  "backup_allowed info s e =
     ((case info of Some i \<Rightarrow> btc_hasMnemonic (backendTypeConfigs (info_backendType i)) | None \<Rightarrow> False) \<and>
      (case e of
         BkType _ \<Rightarrow> \<not> bk_isDialogOpen s
       | BkPrivate \<Rightarrow> \<not> bk_isDialogOpen s \<and> bk_unlockPassword s \<noteq> []
       | BkSubmit \<Rightarrow> \<not> bk_isDialogOpen s \<and> \<not> bk_loading s \<and> bk_unlockPassword s \<noteq> [] \<and> bk_private s
       | BkBox \<Rightarrow> bk_isDialogOpen s
       | BkBox2 \<Rightarrow> bk_isDialogOpen s \<and> shows_second_box info s
       | BkFinish _ \<Rightarrow> bk_isDialogOpen s \<and> bk_backedUp s \<and> (if shows_second_box info s then bk_backedUp2 s else True)
       | BkClose \<Rightarrow> bk_isDialogOpen s))"

text \<open>The box under the password is not kept while the field is empty.\<close>

definition backup_handler :: "server \<Rightarrow> backup_event \<Rightarrow> (backup_ui, unit) act" where
  "backup_handler srv e =
     (case e of
        BkType p \<Rightarrow> setS (\<lambda>s. s\<lparr>bk_unlockPassword := p, bk_private := bk_private s \<and> p \<noteq> []\<rparr>)
      | BkPrivate \<Rightarrow> setS (\<lambda>s. s\<lparr>bk_private := \<not> bk_private s\<rparr>)
      | BkSubmit \<Rightarrow> onSubmitPassword srv
      | BkBox \<Rightarrow> setS (\<lambda>s. s\<lparr>bk_backedUp := \<not> bk_backedUp s\<rparr>)
      | BkBox2 \<Rightarrow> setS (\<lambda>s. s\<lparr>bk_backedUp2 := \<not> bk_backedUp2 s\<rparr>)
      | BkFinish d \<Rightarrow> finish_backup srv d
      | BkClose \<Rightarrow> setS (\<lambda>s. s\<lparr>bk_isDialogOpen := False\<rparr>))"

definition backup_step :: "server \<Rightarrow> backup_ui ui \<Rightarrow> InfoResponse option \<times> backup_event \<Rightarrow> backup_ui ui" where
  "backup_step srv w e =
     (case e of (info, ev) \<Rightarrow> if backup_allowed info (ui_st w) ev then snd (backup_handler srv ev w) else w)"

text \<open>The check of a Cashu wallet when the page is mounted: the state is \<open>mnemonicMatches\<close>.\<close>

definition cashu_check :: "server \<Rightarrow> (bool option, unit) act" where
  "cashu_check srv =
     tryCatch
       (andThen (api srv ''POST'' ''/api/command'' (Some (JObj [(''command'', JStr ''checkmnemonic'')]))) (\<lambda>result.
          setS (\<lambda>_. Option.bind result (jget_bool ''matches''))))
       (\<lambda>error. ret ())"

datatype cashu_view = CashuLoading | CashuNothing | CashuWarning

definition cashu_view_of :: "bool option \<Rightarrow> cashu_view" where
  "cashu_view_of m = (case m of None \<Rightarrow> CashuLoading | Some True \<Rightarrow> CashuNothing | Some False \<Rightarrow> CashuWarning)"

section \<open>Backups of the channels\<close>

datatype channels_backup =
    NoChannelsBackup | LinkAccountBackup | AutomaticBackup | DynamicActive bool | DynamicUpgrade | DynamicOffer

text \<open>
  What the section on channels shows: the link to the account page, the automatic backup, and for a hub
  with versioned storage whether the dynamic one is on (with the badge of the plan), sold or offered.
\<close>

definition channels_backup_of :: "InfoResponse option \<Rightarrow> AlbyMe option \<Rightarrow> channels_backup" where
  "channels_backup_of info me =
     (case info of
        None \<Rightarrow> NoChannelsBackup
      | Some i \<Rightarrow>
          if \<not> btc_hasChannelManagement (backendTypeConfigs (info_backendType i)) then NoChannelsBackup
          else if \<not> info_albyAccountConnected i then LinkAccountBackup
          else if \<not> info_vssSupported i then AutomaticBackup
          else if info_ldkVssEnabled i then DynamicActive (has_plan me)
          else if has_plan me then DynamicOffer else DynamicUpgrade)"

text \<open>The dialog of the offer opens by itself when the address says so; its button starts the migration.\<close>

definition dynamic_effect :: "params \<Rightarrow> bool \<Rightarrow> bool" where
  "dynamic_effect searchParams opened = (if params_get searchParams ''dynamic'' = Some ''true'' then True else opened)"

definition confirm_dynamic :: "server \<Rightarrow> (bool, unit) act" where
  "confirm_dynamic srv = migrateLDKStorage srv ''VSS''"

definition nothing_to_back_up :: "InfoResponse option \<Rightarrow> bool" where
  "nothing_to_back_up info =
     (case info of
        None \<Rightarrow> True
      | Some i \<Rightarrow> \<not> btc_hasMnemonic (backendTypeConfigs (info_backendType i)) \<and>
          \<not> btc_hasChannelManagement (backendTypeConfigs (info_backendType i)) \<and> \<not> info_vssSupported i)"

section \<open>The account\<close>

datatype account_view = AccountLoading | AccountFailed | AccountShown string "string option" "string option" | AccountNothing

definition account_view_of :: "bool \<Rightarrow> bool \<Rightarrow> AlbyMe option \<Rightarrow> account_view" where
  "account_view_of isLoading albyMeError albyMe =
     (if isLoading then AccountLoading
      else if albyMeError then AccountFailed
      else (case albyMe of
              None \<Rightarrow> AccountNothing
            | Some m \<Rightarrow>
                AccountShown (or_str (Some (me_name m)) (me_email m))
                  (if me_name m \<noteq> [] \<and> me_email m \<noteq> [] then Some (me_email m) else None)
                  (if me_lightning_address m \<noteq> [] then Some (me_lightning_address m) else None)))"

definition switch_account :: "server \<Rightarrow> (nav, unit) act" where
  "switch_account srv = unlinkAccount srv ''/alby/auth?force_login=true'' ''Please login with another Alby Account''"

definition disconnect_account :: "server \<Rightarrow> (nav, unit) act" where
  "disconnect_account srv = unlinkAccount srv ''/'' ''Your hub is no longer connected to an Alby Account.''"

section \<open>About\<close>

definition lsps2Pubkey :: "InfoResponse \<Rightarrow> string option" where
  "lsps2Pubkey info =
     (case info_jitChannelsLiquiditySource info of
        Some src \<Rightarrow> if CHR ''@'' \<in> set src then Some (hd (split_on CHR ''@'' src)) else None
      | None \<Rightarrow> None)"

definition lsps2Label :: "InfoResponse \<Rightarrow> string option \<Rightarrow> string option" where
  "lsps2Label info alias =
     (if truthy_str alias then alias
      else (case lsps2Pubkey info of
              Some p \<Rightarrow> if p \<noteq> [] then Some (slice 0 8 p @ ''...'') else info_jitChannelsLiquiditySource info
            | None \<Rightarrow> info_jitChannelsLiquiditySource info))"

definition lsps2MinPaymentSizeSat :: "InfoResponse \<Rightarrow> int option" where
  "lsps2MinPaymentSizeSat info =
     (if truthy_int (info_jitChannelsMinPaymentSizeMsat info)
      then Some (\<lceil>of_int (the (info_jitChannelsMinPaymentSizeMsat info)) / 1000 :: rat\<rceil>) else None)"

definition lsps2MaxPaymentSizeSat :: "InfoResponse \<Rightarrow> int option" where
  "lsps2MaxPaymentSizeSat info =
     (if truthy_int (info_jitChannelsMaxPaymentSizeMsat info)
      then Some (\<lfloor>of_int (the (info_jitChannelsMaxPaymentSizeMsat info)) / 1000 :: rat\<rfloor>) else None)"

definition planName :: "AlbyMe option \<Rightarrow> string" where
  "planName albyMe =
     (let planCode = (case albyMe of Some m \<Rightarrow> me_plan_code m | None \<Rightarrow> [])
      in if starts_with ''buzz_'' planCode then ''Pro Cloud''
         else if starts_with ''pro_'' planCode then ''Pro''
         else if planCode \<noteq> [] then ''Paid'' else ''Free'')"

definition about_loading :: "InfoResponse option \<Rightarrow> AlbyMe option \<Rightarrow> bool \<Rightarrow> bool" where
  "about_loading info albyMe albyMeError =
     (case info of None \<Rightarrow> True | Some i \<Rightarrow> info_albyAccountConnected i \<and> albyMe = None \<and> \<not> albyMeError)"

definition database_label :: "string \<Rightarrow> string" where
  "database_label t = (if t = ''postgres'' then ''PostgreSQL'' else if t = ''sqlite'' then ''SQLite'' else t)"

text \<open>The rows of the page that are text: the label and the value.\<close>

definition about_rows :: "(int \<Rightarrow> string) \<Rightarrow> InfoResponse \<Rightarrow> AlbyMe option \<Rightarrow> string option \<Rightarrow> (string \<times> string) list" where
  "about_rows format info albyMe alias =
     [(''Alby Hub Version'', or_str (Some (info_version info)) ''dev''),
      (''Lightning Node Backend'', btc_title (backendTypeConfigs (info_backendType info)))] @
     (if info_databaseType info \<noteq> [] then [(''Database Storage'', database_label (info_databaseType info))] else []) @
     (if info_backendType info = LDK
      then [(''VSS'', if info_ldkVssEnabled info then ''Enabled ('' @ info_ldkVssUrl info @ '')'' else ''Disabled'')] else []) @
     (if truthy_str (info_chainDataSourceType info)
      then [(''Chain Data Source'', the (info_chainDataSourceType info))] @
           (if truthy_str (info_chainDataSourceAddress info) then [(''Chain Data Source'', the (info_chainDataSourceAddress info))] else [])
      else []) @
     (if truthy_str (info_jitChannelsLiquiditySource info)
      then [(''Just-in-Time channels Liquidity Source LSPS2'', nullish (lsps2Label info alias) []),
            (''Just-in-Time channels Liquidity Source LSPS2'', the (info_jitChannelsLiquiditySource info))] @
           (if truthy_int (lsps2MinPaymentSizeSat info) \<or> truthy_int (lsps2MaxPaymentSizeSat info)
            then [(''JIT payment size: '',
                   (if truthy_int (lsps2MinPaymentSizeSat info) then format (the (lsps2MinPaymentSizeSat info)) else ''?'') @
                   '' - '' @
                   (if truthy_int (lsps2MaxPaymentSizeSat info) then format (the (lsps2MaxPaymentSizeSat info)) else ''?'') @
                   '' sats'')]
            else [])
      else []) @
     map (\<lambda>(url, online). (''Nostr Relays'', url @ (if online then '' online'' else '' offline''))) (info_relays info) @
     (case albyMe of
        Some m \<Rightarrow>
          (if info_albyAccountConnected info
           then (''Connected Alby Account'', or_str (Some (me_email m)) (me_lightning_address m)) #
                (if truthy_str (me_hub_name m) then [(''Alby Hub Name'', the (me_hub_name m))] else [])
           else [])
      | None \<Rightarrow> []) @
     (if info_albyAccountConnected info then [(''Alby Account Plan'', planName albyMe)] else [])"

section \<open>What the pages promise\<close>

lemma change_password_run:
  "snd (change_password_onSubmit srv w) =
     (let s = ui_st w; body = change_password_json s; l = ui_log w @ [EFetch ''PATCH'' ''/api/unlock-password'' (Some body)]
      in \<lparr>ui_st = s\<lparr>pc_loading := False\<rparr>,
          ui_log = (if pc_new s = pc_confirm s
            then (case srv (ui_log w) ''PATCH'' ''/api/unlock-password'' (Some body) of
                    Inr _ \<Rightarrow> l @ [EMutate ''/api/info'',
                      EToast ''Successfully changed password'' (Some ''Please start your node with your new password'')]
                  | Inl error \<Rightarrow> l @ [EToastError ''Password change failed'' (Some error)])
            else ui_log w @ [EToastError ''Password change failed'' (Some ''Password confirmation does not match'')])\<rparr>)"
  by (cases w) (simp add: change_password_onSubmit_def getS_then effect_defs Let_def split: sum.split)

text \<open>A new password is sent only as it was confirmed, and every attempt ends. Submitting the form with
  all three fields filled sends the change exactly when the new password equals its confirmation, with the
  current and the new password as typed; success is announced exactly when the server accepts it, every
  other outcome is an error message; afterwards the fields are as they were and the button is free again.\<close>

lemma password_change_outcomes:
  "let s = ui_st w; w' = password_step srv w PwSubmit; m = ''/api/unlock-password'';
       body = JObj [(''currentUnlockPassword'', JStr (pc_current s)), (''newUnlockPassword'', JStr (pc_new s))];
       refused = (\<lambda>e. EToastError ''Password change failed'' (Some e))
   in if pc_current s = [] \<or> pc_new s = [] \<or> pc_confirm s = [] \<or> pc_loading s then w' = w
      else ui_st w' = s \<and>
        ui_log w' = ui_log w @
          (if pc_new s = pc_confirm s
           then EFetch ''PATCH'' m (Some body) #
             (case srv (ui_log w) ''PATCH'' m (Some body) of
                Inr _ \<Rightarrow> [EMutate ''/api/info'',
                  EToast ''Successfully changed password'' (Some ''Please start your node with your new password'')]
              | Inl e \<Rightarrow> [refused e])
           else [refused ''Password confirmation does not match''])"
  by (auto simp: password_step_def change_password_enabled_def change_password_run Let_def change_password_json_def
      split: sum.split)

lemma onSubmitPassword_run:
  "snd (onSubmitPassword srv w) =
     (let s = ui_st w; body = JObj [(''unlockPassword'', JStr (bk_unlockPassword s))];
          l = ui_log w @ [EFetch ''POST'' ''/api/mnemonic'' (Some body)]
      in case srv (ui_log w) ''POST'' ''/api/mnemonic'' (Some body) of
           Inr r \<Rightarrow> \<lparr>ui_st = s\<lparr>bk_decryptedMnemonic := mnemonic_of r, bk_isDialogOpen := True, bk_loading := False\<rparr>, ui_log = l\<rparr>
         | Inl _ \<Rightarrow> \<lparr>ui_st = s\<lparr>bk_loading := False\<rparr>,
              ui_log = l @ [EToastError ''Incorrect password'' (Some ''Failed to decrypt recovery phrase.'')]\<rparr>)"
  by (cases w) (simp add: onSubmitPassword_def getS_then effect_defs Let_def split: sum.split)

lemma finish_backup_run:
  "ui_st (snd (finish_backup srv d w)) = ui_st w"
  "fetches (ui_log (snd (finish_backup srv d w))) = fetches (ui_log w) @
     [EFetch ''PATCH'' ''/api/backup-reminder'' (Some (JObj [(''nextBackupReminder'', JStr d)]))]"
  "\<exists>l. ui_log (snd (finish_backup srv d w)) = ui_log w @ l"
  by (simp_all add: finish_backup_def request_error_def handleRequestError_def effect_defs split: sum.split)

text \<open>The phrase shown was returned for a password that the server accepted.\<close>

definition phrase_accepted :: "server \<Rightarrow> backup_ui ui \<Rightarrow> bool" where
  "phrase_accepted srv w =
     (\<exists>k l password r. ui_log w = k @ EFetch ''POST'' ''/api/mnemonic'' (Some (JObj [(''unlockPassword'', JStr password)])) # l \<and>
        password \<noteq> [] \<and> srv k ''POST'' ''/api/mnemonic'' (Some (JObj [(''unlockPassword'', JStr password)])) = Inr r \<and>
        bk_decryptedMnemonic (ui_st w) = mnemonic_of r)"

lemma phrase_accepted_later:
  assumes "phrase_accepted srv w" and "ui_log v = ui_log w @ l"
    and "bk_decryptedMnemonic (ui_st v) = bk_decryptedMnemonic (ui_st w)"
  shows "phrase_accepted srv v"
  using assms unfolding phrase_accepted_def by fastforce

definition backup_ok :: "server \<Rightarrow> backup_ui ui \<Rightarrow> bool" where
  "backup_ok srv w =
     ((if bk_isDialogOpen (ui_st w) then phrase_accepted srv w else True) \<and>
      (phrase_accepted srv w \<or> bk_decryptedMnemonic (ui_st w) = []))"

lemma backup_ok_later:
  assumes "backup_ok srv w" and "ui_log v = ui_log w @ l"
    and "bk_decryptedMnemonic (ui_st v) = bk_decryptedMnemonic (ui_st w)"
    and "bk_isDialogOpen (ui_st v) \<Longrightarrow> bk_isDialogOpen (ui_st w)"
  shows "backup_ok srv v"
  using assms phrase_accepted_later [OF _ assms(2,3), of srv] unfolding backup_ok_def by (auto split: if_split_asm)

lemma backup_submit_ok:
  assumes "backup_ok srv w" and "bk_unlockPassword (ui_st w) \<noteq> []"
  shows "backup_ok srv (snd (onSubmitPassword srv w))"
proof (cases "srv (ui_log w) ''POST'' ''/api/mnemonic'' (Some (JObj [(''unlockPassword'', JStr (bk_unlockPassword (ui_st w)))]))")
  case (Inl e)
  show ?thesis
    by (rule backup_ok_later [OF assms(1)]) (simp_all add: onSubmitPassword_run Let_def Inl)
next
  case (Inr r)
  then have "phrase_accepted srv (snd (onSubmitPassword srv w))"
    using assms(2) unfolding phrase_accepted_def by (auto simp: onSubmitPassword_run Let_def)
  then show ?thesis by (simp add: backup_ok_def)
qed

lemma backup_finish_ok: "backup_ok srv w \<Longrightarrow> backup_ok srv (snd (finish_backup srv d w))"
  using finish_backup_run(3) [of srv d w] by (auto intro: backup_ok_later simp: finish_backup_run(1))

lemma backup_step_ok:
  assumes "backup_ok srv w"
  shows "backup_ok srv (backup_step srv w e)"
proof -
  obtain info ev where e: "e = (info, ev)" by (cases e)
  have quiet: "backup_ok srv (backup_step srv w e)" if "ev \<noteq> BkSubmit"
    using that
    by (cases ev) (auto simp: e backup_step_def backup_handler_def backup_allowed_def setS_run assms
        backup_finish_ok [OF assms] intro: backup_ok_later [OF assms])
  show ?thesis
  proof (cases "ev = BkSubmit")
    case True
    then show ?thesis using backup_submit_ok [OF assms] assms
      by (auto simp: e backup_step_def backup_handler_def backup_allowed_def)
  qed (rule quiet)
qed

interpretation backup_page: invariant_machine "backup_step srv" "backup_ok srv" for srv
  by unfold_locales (rule backup_step_ok)

text \<open>C31: The recovery phrase is shown only for an accepted password. After any use of the page, while the
  dialog is open it shows the phrase of an answer that the server gave, without an error, to a request with
  a non-empty password; otherwise no phrase is kept that was not given in that way. Confirming the backup sends the next
  reminder exactly when the dialog is open and the boxes it shows are ticked.\<close>

theorem phrase_needs_password:
  "let w = foldl (backup_step srv) \<lparr>ui_st = init_backup, ui_log = []\<rparr> es; s = ui_st w;
       accepted = (\<exists>k l password r.
         ui_log w = k @ EFetch ''POST'' ''/api/mnemonic'' (Some (JObj [(''unlockPassword'', JStr password)])) # l \<and>
         password \<noteq> [] \<and> srv k ''POST'' ''/api/mnemonic'' (Some (JObj [(''unlockPassword'', JStr password)])) = Inr r \<and>
         bk_decryptedMnemonic s = mnemonic_of r);
       ticked = (bk_isDialogOpen s \<and> bk_backedUp s \<and> (info_albyAccountConnected i \<or> bk_backedUp2 s));
       reminder = EFetch ''PATCH'' ''/api/backup-reminder'' (Some (JObj [(''nextBackupReminder'', JStr d)]))
   in (if bk_isDialogOpen s then accepted else accepted \<or> bk_decryptedMnemonic s = []) \<and>
      fetches (ui_log (backup_step srv w (Some i, BkFinish d))) = fetches (ui_log w) @
        (if btc_hasMnemonic (backendTypeConfigs (info_backendType i)) \<and> ticked then [reminder] else [])"
proof -
  let ?w = "foldl (backup_step srv) \<lparr>ui_st = init_backup, ui_log = []\<rparr> es"
  have ok: "backup_ok srv ?w" by (rule backup_page.run_inv) (simp add: backup_ok_def init_backup_def)
  have finish: "fetches (ui_log (backup_step srv v (Some i, BkFinish d))) = fetches (ui_log v) @
      (if btc_hasMnemonic (backendTypeConfigs (info_backendType i)) \<and>
          bk_isDialogOpen (ui_st v) \<and> bk_backedUp (ui_st v) \<and> (info_albyAccountConnected i \<or> bk_backedUp2 (ui_st v))
       then [EFetch ''PATCH'' ''/api/backup-reminder'' (Some (JObj [(''nextBackupReminder'', JStr d)]))] else [])" for v
    by (auto simp: backup_step_def backup_allowed_def shows_second_box_def backup_handler_def finish_backup_run)
  show ?thesis
    unfolding Let_def finish using ok unfolding backup_ok_def phrase_accepted_def [symmetric] by (auto split: if_split)
qed

text \<open>A failed shutdown leaves the button busy, that is disabled, until the page is left.\<close>

lemma failed_shutdown_stays_busy:
  "srv (ui_log w) ''POST'' ''/api/stop'' None = Inl e \<Longrightarrow> ui_st (snd (shutdown_hub srv w))"
  by (simp add: shutdown_hub_def effect_defs)

text \<open>
  A password typed before another session enables automatic unlocking is sent by the button that
  disables it, and the message says that it was enabled.
\<close>

lemma disable_sends_typed_password:
  assumes "info_autoUnlockPasswordSupported i" and "\<not> info_autoUnlockPasswordEnabled i" and "p \<noteq> []"
  shows "ui_log (auto_unlock_step no_answer
           (auto_unlock_step no_answer \<lparr>ui_st = \<lparr>al_unlockPassword = [], al_loading = False\<rparr>, ui_log = []\<rparr> (Some i, AuType p))
           (Some (i\<lparr>info_autoUnlockPasswordEnabled := True\<rparr>), AuSubmit)) =
     [EFetch ''PATCH'' ''/api/auto-unlock'' (Some (JObj [(''unlockPassword'', JStr p)])), EMutate ''/api/info'',
      EToast ''Successfully enabled auto-unlock'' None]"
  using assms
  by (simp add: auto_unlock_step_def auto_unlock_view_of_def auto_unlock_onSubmit_def getS_then effect_defs no_answer_def)

text \<open>The limits shown on the page lie within the limits of the provider.\<close>

lemma thousand_ceiling: "n \<le> 1000 * \<lceil>of_int n / 1000 :: rat\<rceil>"
proof -
  have "(of_int n :: rat) \<le> of_int (1000 * \<lceil>of_int n / 1000 :: rat\<rceil>)"
    using le_of_int_ceiling [of "of_int n / 1000 :: rat"] by (simp only: of_int_mult of_int_numeral)
  then show ?thesis by (simp only: of_int_le_iff)
qed

lemma thousand_floor: "1000 * \<lfloor>of_int n / 1000 :: rat\<rfloor> \<le> n"
proof -
  have "of_int (1000 * \<lfloor>of_int n / 1000 :: rat\<rfloor>) \<le> (of_int n :: rat)"
    using of_int_floor_le [of "of_int n / 1000 :: rat"] by simp
  then show ?thesis by (simp only: of_int_le_iff)
qed

lemma lsps2_limits_within:
  "lsps2MinPaymentSizeSat info = Some a \<Longrightarrow> the (info_jitChannelsMinPaymentSizeMsat info) \<le> 1000 * a"
  "lsps2MaxPaymentSizeSat info = Some b \<Longrightarrow> 1000 * b \<le> the (info_jitChannelsMaxPaymentSizeMsat info)"
  using thousand_ceiling thousand_floor
  by (auto simp: lsps2MinPaymentSizeSat_def lsps2MaxPaymentSizeSat_def split: if_split_asm)

end
