(* ===== verification/DeveloperPages.thy ===== *)
theory DeveloperPages imports SettingsPages Node JsPretty
begin

text \<open>
  The pages for developers and operators: access tokens (\<open>screens/settings/DeveloperSettings.tsx\<close>), the
  debug tools (\<open>screens/settings/DebugTools.tsx\<close> and the contents of its dialogs), signing a message and
  the node's alias (\<open>screens/wallet/SignMessage.tsx\<close>, \<open>screens/wallet/NodeAlias.tsx\<close>).
\<close>

section \<open>Access tokens\<close>

datatype token_kind = TokenFull | TokenReadonly

definition token_kind_str :: "token_kind \<Rightarrow> string" where
  "token_kind_str k = (case k of TokenFull \<Rightarrow> ''full'' | TokenReadonly \<Rightarrow> ''readonly'')"

record developer_ui =
  dv_token :: "string option"
  dv_tokenPermission :: "token_kind option"
  dv_expiryDays :: string
  dv_unlockPassword :: string
  dv_permission :: token_kind
  dv_showCreateTokenForm :: bool
  dv_loading :: bool

definition init_developer :: developer_ui where
  "init_developer =
     \<lparr>dv_token = None, dv_tokenPermission = None, dv_expiryDays = ''365'', dv_unlockPassword = [],
      dv_permission = TokenFull, dv_showCreateTokenForm = False, dv_loading = False\<rparr>"

definition token_json :: "string \<Rightarrow> string \<Rightarrow> token_kind \<Rightarrow> json" where
  "token_json unlockPassword expiryDays permission =
     JObj [(''unlockPassword'', JStr unlockPassword), (''tokenExpiryDays'', num_json (js_Number expiryDays)),
           (''permission'', JStr (token_kind_str permission))]"

definition createToken :: "server \<Rightarrow> (developer_ui, unit) act" where
  "createToken srv =
     andThen (getS id) (\<lambda>s.
       andDo
         (tryCatch
           (andDo (setS (\<lambda>u. u\<lparr>dv_loading := True\<rparr>))
           (andDo (require (dv_expiryDays s \<noteq> [] \<and> dv_unlockPassword s \<noteq> []) ''Form not filled'')
           (andThen (api srv ''POST'' ''/api/unlock''
                      (Some (token_json (dv_unlockPassword s) (dv_expiryDays s) (dv_permission s)))) (\<lambda>authTokenResponse.
              case authTokenResponse of
                Some j \<Rightarrow>
                  whenD (json_truthy j)
                    (setS (\<lambda>u. u\<lparr>dv_token := jget_str ''token'' j, dv_tokenPermission := Some (dv_permission s)\<rparr>))
              | None \<Rightarrow> ret ()))))
           (\<lambda>error. emit (EToastError ''Something went wrong'' (Some (error_text error)))))
         (setS (\<lambda>u. u\<lparr>dv_loading := False\<rparr>)))"

text \<open>The form is shown over HTTP, once asked for and until there is a token.\<close>

definition token_form_shown :: "developer_ui \<Rightarrow> bool" where
  "token_form_shown s = (dv_showCreateTokenForm s \<and> \<not> truthy_str (dv_token s))"

datatype developer_event = DevConfigure | DevKind token_kind | DevExpiry string | DevPassword string | DevSubmit

text \<open>The password is required by the browser before it submits.\<close>

definition developer_allowed :: "bool \<Rightarrow> developer_ui \<Rightarrow> developer_event \<Rightarrow> bool" where
  "developer_allowed http s e =
     (case e of
        DevConfigure \<Rightarrow> http \<and> \<not> truthy_str (dv_token s) \<and> \<not> dv_showCreateTokenForm s
      | DevSubmit \<Rightarrow> token_form_shown s \<and> \<not> dv_loading s \<and> dv_unlockPassword s \<noteq> []
      | _ \<Rightarrow> token_form_shown s)"

definition developer_handler :: "server \<Rightarrow> developer_event \<Rightarrow> (developer_ui, unit) act" where
  "developer_handler srv e =
     (case e of
        DevConfigure \<Rightarrow> setS (\<lambda>s. s\<lparr>dv_showCreateTokenForm := True\<rparr>)
      | DevKind k \<Rightarrow> setS (\<lambda>s. s\<lparr>dv_permission := k\<rparr>)
      | DevExpiry d \<Rightarrow> setS (\<lambda>s. s\<lparr>dv_expiryDays := d\<rparr>)
      | DevPassword p \<Rightarrow> setS (\<lambda>s. s\<lparr>dv_unlockPassword := p\<rparr>)
      | DevSubmit \<Rightarrow> createToken srv)"

definition developer_step :: "bool \<Rightarrow> server \<Rightarrow> developer_ui ui \<Rightarrow> developer_event \<Rightarrow> developer_ui ui" where
  "developer_step http srv w e =
     (if developer_allowed http (ui_st w) e then snd (developer_handler srv e w) else w)"

text \<open>The headers the page tells the reader to send.\<close>

definition token_headers :: "AlbyMe option \<Rightarrow> (string \<times> string) list" where
  "token_headers albyMe =
     (''Authorization'', ''Bearer YOUR_TOKEN'') #
     (case albyMe of
        Some m \<Rightarrow>
          if truthy_str (me_hub_name m)
          then [(''AlbyHub-Name'', the (me_hub_name m)), (''AlbyHub-Region'', or_str (me_hub_config_region m) ''lax'')]
          else []
      | None \<Rightarrow> [])"

definition token_note :: "developer_ui \<Rightarrow> string" where
  "token_note s =
     (if dv_tokenPermission s = Some TokenReadonly
      then ''This is a read-only token that can view data but cannot perform operations like sending payments. Please keep it secure.''
      else ''This token grants full access to your hub. Please keep it secure.'') @
     '' If you suspect that the token has been compromised, immediately change your unlock password.''"

section \<open>Debug tools\<close>

datatype debug_dialog =
  RefundSwap | GetAppLogs | GetNodeLogs | GetNetworkGraph | ResetRoutingData | CustomNodeCommand

text \<open>
  \<open>dt_dialog\<close> is the content, \<open>dt_open\<close> whether the dialog is open. The fields of the contents:
  the id and the address of the refund, the length of the logs, the nodes, the data to clear, the command.
\<close>

record debug_ui =
  dt_apiResponse :: string
  dt_dialog :: "debug_dialog option"
  dt_open :: bool
  dt_swapId :: string
  dt_address :: string
  dt_isInternal :: bool
  dt_maxLen :: string
  dt_nodeIds :: string
  dt_resetKey :: "string option"
  dt_command :: "string option"

definition init_debug :: debug_ui where
  "init_debug =
     \<lparr>dt_apiResponse = [], dt_dialog = None, dt_open = False, dt_swapId = [], dt_address = [], dt_isInternal = True,
      dt_maxLen = [], dt_nodeIds = [], dt_resetKey = None, dt_command = None\<rparr>"

text \<open>
  The text shown for an answer: its logs, or the answer printed. Without an answer the property of
  undefined throws. An error is printed with its own properties; \<open>own\<close> gives that text.
\<close>

definition debug_text :: "json \<Rightarrow> string" where
  "debug_text data = or_str (jget_str ''logs'' data) (json_pretty 0 data)"

definition no_data_error :: string where
  "no_data_error = ''Cannot read properties of undefined (reading 'logs')''"

definition apiRequest :: "server \<Rightarrow> (string \<Rightarrow> string) \<Rightarrow> string \<Rightarrow> string \<Rightarrow> json option \<Rightarrow> (debug_ui, unit) act" where
  "apiRequest srv own endpoint method requestBody =
     tryCatch
       (andThen (api srv method endpoint requestBody) (\<lambda>data.
          case data of
            Some j \<Rightarrow>
              if j = JNull then throw ''Cannot read properties of null (reading 'logs')''
              else setS (\<lambda>u. u\<lparr>dt_apiResponse := debug_text j\<rparr>)
          | None \<Rightarrow> throw no_data_error))
       (\<lambda>error. setS (\<lambda>u. u\<lparr>dt_apiResponse := own error\<rparr>))"

text \<open>The buttons that send a request at once, and their requests.\<close>

datatype debug_button =
    GetInfo | ListPeers | ListChannels | ListSwaps | SwapMnemonic | NodeStatus | Balances | NodeCommands
  | ExportScores

definition debug_endpoint :: "debug_button \<Rightarrow> string" where
  "debug_endpoint b =
     (case b of
        GetInfo \<Rightarrow> ''/api/info'' | ListPeers \<Rightarrow> ''/api/peers'' | ListChannels \<Rightarrow> ''/api/channels''
      | ListSwaps \<Rightarrow> ''/api/swaps'' | SwapMnemonic \<Rightarrow> ''/api/swaps/mnemonic'' | NodeStatus \<Rightarrow> ''/api/node/status''
      | Balances \<Rightarrow> ''/api/balances'' | NodeCommands \<Rightarrow> ''/api/commands'' | ExportScores \<Rightarrow> ''/api/command'')"

definition debug_request :: "debug_button \<Rightarrow> string \<times> string \<times> json option" where
  "debug_request b =
     (if b = ExportScores then (''POST'', debug_endpoint b, Some (JObj [(''command'', JStr ''export_pathfinding_scores'')]))
      else (''GET'', debug_endpoint b, None))"

definition button_shown :: "InfoResponse option \<Rightarrow> debug_button \<Rightarrow> bool" where
  "button_shown info b =
     (let hasChannelManagement =
            (case info of Some i \<Rightarrow> btc_hasChannelManagement (backendTypeConfigs (info_backendType i)) | None \<Rightarrow> False)
      in if b = ListSwaps \<or> b = SwapMnemonic then hasChannelManagement
         else if b = ExportScores then (case info of Some i \<Rightarrow> info_backendType i = LDK | None \<Rightarrow> False)
         else True)"

definition dialog_shown :: "InfoResponse option \<Rightarrow> debug_dialog \<Rightarrow> bool" where
  "dialog_shown info d =
     (case d of
        RefundSwap \<Rightarrow> (case info of Some i \<Rightarrow> btc_hasChannelManagement (backendTypeConfigs (info_backendType i)) | None \<Rightarrow> False)
      | ResetRoutingData \<Rightarrow>
          (case info of Some i \<Rightarrow> info_backendType i = LDK \<or> info_backendType i = CASHU | None \<Rightarrow> False)
      | _ \<Rightarrow> True)"

definition log_target :: "debug_dialog option \<Rightarrow> string" where
  "log_target d = (if d = Some GetAppLogs then ''app'' else ''node'')"

text \<open>Confirming the dialogs.\<close>

definition refund_json :: "debug_ui \<Rightarrow> json" where
  "refund_json s =
     JObj ((''swapId'', JStr (dt_swapId s)) # (if dt_address s \<noteq> [] then [(''address'', JStr (dt_address s))] else []))"

definition refund_onConfirm :: "server \<Rightarrow> (debug_ui, unit) act" where
  "refund_onConfirm srv =
     andThen (getS id) (\<lambda>s.
       andDo
         (tryCatch
           (andDo (api srv ''POST'' ''/api/swaps/refund'' (Some (refund_json s)))
                  (toast ''Refund transaction broadcasted''))
           (\<lambda>error. emit (EToastError ''Failed to process refund'' (Some (error_text error)))))
         (setS (\<lambda>u. u\<lparr>dt_swapId := []\<rparr>)))"

definition logs_onConfirm :: "server \<Rightarrow> (string \<Rightarrow> string) \<Rightarrow> (debug_ui, unit) act" where
  "logs_onConfirm srv own =
     andThen (getS id) (\<lambda>s.
       andDo (apiRequest srv own (''/api/log/'' @ log_target (dt_dialog s) @ ''?maxLen='' @ dt_maxLen s) ''GET'' None)
             (setS (\<lambda>u. u\<lparr>dt_maxLen := []\<rparr>)))"

definition graph_onConfirm :: "server \<Rightarrow> (string \<Rightarrow> string) \<Rightarrow> (debug_ui, unit) act" where
  "graph_onConfirm srv own =
     andThen (getS dt_nodeIds) (\<lambda>nodeIds.
       andDo (apiRequest srv own (''/api/node/network-graph?nodeIds='' @ nodeIds) ''GET'' None)
             (setS (\<lambda>u. u\<lparr>dt_nodeIds := []\<rparr>)))"

text \<open>The data to clear is the state of the dialog that the node page shares.\<close>

definition reset_onConfirm :: "server \<Rightarrow> (debug_ui, unit) act" where
  "reset_onConfirm srv w =
     (case resetRouter srv \<lparr>ui_st = dt_resetKey (ui_st w), ui_log = ui_log w\<rparr> of
        (r, v) \<Rightarrow> (r, w\<lparr>ui_st := (ui_st w)\<lparr>dt_resetKey := ui_st v\<rparr>, ui_log := ui_log v\<rparr>))"

text \<open>The commands of the last answer, when it is one that lists them.\<close>

definition parsedAvailableCommands :: "string \<Rightarrow> string option" where
  "parsedAvailableCommands availableCommands =
     (case json_parse availableCommands of
        None \<Rightarrow> Some availableCommands
      | Some JNull \<Rightarrow> Some availableCommands
      | Some j \<Rightarrow> map_option (json_pretty 0) (jget ''commands'' j))"

definition stringify_result :: "json option \<Rightarrow> string option" where
  "stringify_result result = map_option json_stringify result"

definition executeCommand :: "server \<Rightarrow> (debug_ui, unit) act" where
  "executeCommand srv =
     andThen (getS dt_command) (\<lambda>command.
       tryCatch
         (andDo (require (truthy_str command) ''No command set'')
         (andThen (api srv ''POST'' ''/api/command'' (Some (JObj [(''command'', JStr (the command))]))) (\<lambda>result.
            andDo (emit (EMutate ''/api/info''))
            (andDo (setS (\<lambda>u. u\<lparr>dt_apiResponse := nullish (stringify_result result) []\<rparr>))
                   (emit (EToast ''Command executed'' (stringify_result result)))))))
         (\<lambda>error. emit (EToastError (''Something went wrong: '' @ error_text error) None)))"

text \<open>
  The contents keep their fields while \<open>dialog\<close> names them, whether the dialog is open or not; both kinds of
  logs share one content. Closing does not reset \<open>dialog\<close>: the test \<open>!open\<close> reads the browser's global function.
\<close>

definition same_content :: "debug_dialog option \<Rightarrow> debug_dialog \<Rightarrow> bool" where
  "same_content cur d = (cur = Some d \<or> cur \<in> {Some GetAppLogs, Some GetNodeLogs} \<and> d \<in> {GetAppLogs, GetNodeLogs})"

definition open_dialog :: "debug_dialog \<Rightarrow> debug_ui \<Rightarrow> debug_ui" where
  "open_dialog d s =
     (let s' = s\<lparr>dt_dialog := Some d, dt_open := True\<rparr>
      in if same_content (dt_dialog s) d then s'
         else s'\<lparr>dt_swapId := [], dt_address := [], dt_isInternal := True, dt_maxLen := [], dt_nodeIds := [],
                 dt_resetKey := None, dt_command := None\<rparr>)"

datatype debug_event =
    DtButton debug_button | DtOpen debug_dialog | DtClose | DtCancel | DtConfirm
  | DtSwapId string | DtToggle | DtAddress string | DtPaste string | DtMaxLen string | DtNodeIds string
  | DtResetKey string | DtCommand string

definition dialog_open :: "debug_ui \<Rightarrow> debug_dialog \<Rightarrow> bool" where
  "dialog_open s d = (dt_open s \<and> dt_dialog s = Some d)"

definition confirm_enabled :: "debug_ui \<Rightarrow> bool" where
  "confirm_enabled s =
     (case dt_dialog s of
        None \<Rightarrow> False
      | Some RefundSwap \<Rightarrow> dt_swapId s \<noteq> [] \<and> (dt_isInternal s \<or> dt_address s \<noteq> [])
      | Some GetNetworkGraph \<Rightarrow> dt_nodeIds s \<noteq> []
      | Some ResetRoutingData \<Rightarrow> truthy_str (dt_resetKey s)
      | Some CustomNodeCommand \<Rightarrow> True
      | Some _ \<Rightarrow> (case js_parseInt (dt_maxLen s) of Some n \<Rightarrow> n \<ge> 1 | None \<Rightarrow> False))"

definition debug_allowed :: "InfoResponse option \<Rightarrow> debug_ui \<Rightarrow> debug_event \<Rightarrow> bool" where
  "debug_allowed info s e =
     (case e of
        DtButton b \<Rightarrow> \<not> dt_open s \<and> button_shown info b
      | DtOpen d \<Rightarrow> \<not> dt_open s \<and> dialog_shown info d
      | DtClose \<Rightarrow> dt_open s
      | DtCancel \<Rightarrow> dt_open s
      | DtConfirm \<Rightarrow> dt_open s \<and> confirm_enabled s
      | DtSwapId _ \<Rightarrow> dialog_open s RefundSwap
      | DtToggle \<Rightarrow> dialog_open s RefundSwap
      | DtAddress _ \<Rightarrow> dialog_open s RefundSwap \<and> \<not> dt_isInternal s
      | DtPaste _ \<Rightarrow> dialog_open s RefundSwap \<and> \<not> dt_isInternal s
      | DtMaxLen _ \<Rightarrow> dialog_open s GetAppLogs \<or> dialog_open s GetNodeLogs
      | DtNodeIds _ \<Rightarrow> dialog_open s GetNetworkGraph
      | DtResetKey k \<Rightarrow> dialog_open s ResetRoutingData \<and> k \<in> set (map fst RESET_KEY_OPTIONS)
      | DtCommand _ \<Rightarrow> dialog_open s CustomNodeCommand)"

definition press_button :: "server \<Rightarrow> (string \<Rightarrow> string) \<Rightarrow> debug_button \<Rightarrow> (debug_ui, unit) act" where
  "press_button srv own b = (case debug_request b of (m, u, body) \<Rightarrow> apiRequest srv own u m body)"

definition confirm_debug :: "server \<Rightarrow> (string \<Rightarrow> string) \<Rightarrow> (debug_ui, unit) act" where
  "confirm_debug srv own =
     andThen (getS dt_dialog) (\<lambda>d.
       andDo (setS (\<lambda>s. s\<lparr>dt_open := False\<rparr>))
         (case d of
            None \<Rightarrow> ret ()
          | Some RefundSwap \<Rightarrow> refund_onConfirm srv
          | Some GetNetworkGraph \<Rightarrow> graph_onConfirm srv own
          | Some ResetRoutingData \<Rightarrow> reset_onConfirm srv
          | Some CustomNodeCommand \<Rightarrow> executeCommand srv
          | Some _ \<Rightarrow> logs_onConfirm srv own))"

definition cancel_dialog :: "debug_ui \<Rightarrow> debug_ui" where
  "cancel_dialog s =
     (let s' = s\<lparr>dt_open := False\<rparr>
      in case dt_dialog s of
           Some ResetRoutingData \<Rightarrow> s'\<lparr>dt_resetKey := None\<rparr>
         | Some CustomNodeCommand \<Rightarrow> s'\<lparr>dt_command := Some []\<rparr>
         | _ \<Rightarrow> s')"

definition debug_handler :: "server \<Rightarrow> (string \<Rightarrow> string) \<Rightarrow> debug_event \<Rightarrow> (debug_ui, unit) act" where
  "debug_handler srv own e =
     (case e of
        DtButton b \<Rightarrow> press_button srv own b
      | DtOpen d \<Rightarrow>
          andDo (whenD (d = CustomNodeCommand) (press_button srv own NodeCommands)) (setS (open_dialog d))
      | DtClose \<Rightarrow> setS (\<lambda>s. s\<lparr>dt_open := False\<rparr>)
      | DtCancel \<Rightarrow> setS cancel_dialog
      | DtConfirm \<Rightarrow> confirm_debug srv own
      | DtSwapId t \<Rightarrow> setS (\<lambda>s. s\<lparr>dt_swapId := trim t\<rparr>)
      | DtToggle \<Rightarrow> setS (\<lambda>s. s\<lparr>dt_address := [], dt_isInternal := \<not> dt_isInternal s\<rparr>)
      | DtAddress t \<Rightarrow> setS (\<lambda>s. s\<lparr>dt_address := t\<rparr>)
      | DtPaste t \<Rightarrow> setS (\<lambda>s. s\<lparr>dt_address := trim t\<rparr>)
      | DtMaxLen t \<Rightarrow> setS (\<lambda>s. s\<lparr>dt_maxLen := trim t\<rparr>)
      | DtNodeIds t \<Rightarrow> setS (\<lambda>s. s\<lparr>dt_nodeIds := trim t\<rparr>)
      | DtResetKey k \<Rightarrow> setS (\<lambda>s. s\<lparr>dt_resetKey := Some k\<rparr>)
      | DtCommand c \<Rightarrow> setS (\<lambda>s. s\<lparr>dt_command := Some c\<rparr>))"

definition debug_step ::
    "server \<Rightarrow> (string \<Rightarrow> string) \<Rightarrow> debug_ui ui \<Rightarrow> InfoResponse option \<times> debug_event \<Rightarrow> debug_ui ui" where
  "debug_step srv own w e =
     (case e of (info, ev) \<Rightarrow> if debug_allowed info (ui_st w) ev then snd (debug_handler srv own ev w) else w)"

section \<open>Signing a message\<close>

record sign_ui =
  sg_isLoading :: bool
  sg_message :: string
  sg_signature :: string
  sg_signatureMessage :: string

definition sign_handleSubmit :: "server \<Rightarrow> (sign_ui, unit) act" where
  "sign_handleSubmit srv =
     andThen (getS sg_message) (\<lambda>message.
       finally_do
         (tryCatch
           (andDo (setS (\<lambda>u. u\<lparr>sg_isLoading := True\<rparr>))
           (andThen (api srv ''POST'' ''/api/wallet/sign-message'' (Some (JObj [(''message'', JStr (trim message))])))
             (\<lambda>signMessageResponse.
              andDo (setS (\<lambda>u. u\<lparr>sg_signatureMessage := message, sg_message := []\<rparr>))
                (case signMessageResponse of
                   Some j \<Rightarrow>
                     whenD (json_truthy j)
                       (andDo (setS (\<lambda>u. u\<lparr>sg_signature := nullish (jget_str ''signature'' j) []\<rparr>))
                              (toast ''Successfully signed message''))
                 | None \<Rightarrow> ret ()))))
           (\<lambda>e. emit (EToastError ''Failed to sign message'' (Some (error_text e)))))
         (setS (\<lambda>u. u\<lparr>sg_isLoading := False\<rparr>)))"

datatype sign_event = SgType string | SgSubmit

definition sign_step :: "server \<Rightarrow> sign_ui ui \<Rightarrow> sign_event \<Rightarrow> sign_ui ui" where
  "sign_step srv w e =
     (case e of
        SgType t \<Rightarrow> w\<lparr>ui_st := (ui_st w)\<lparr>sg_message := t, sg_signature := []\<rparr>\<rparr>
      | SgSubmit \<Rightarrow>
          if sg_message (ui_st w) \<noteq> [] \<and> \<not> sg_isLoading (ui_st w) then snd (sign_handleSubmit srv w) else w)"

text \<open>The card shown: the message and its signature.\<close>

definition signed_card :: "sign_ui \<Rightarrow> (string \<times> string) option" where
  "signed_card s = (if sg_signature s \<noteq> [] then Some (sg_signatureMessage s, sg_signature s) else None)"

section \<open>The node's alias\<close>

record alias_ui =
  nal_nodeAlias :: string
  nal_isLoading :: bool
  nal_seen :: "string option"

text \<open>The effect on \<open>info?.nodeAlias\<close>; \<open>nal_seen\<close> is the value at its last run.\<close>

definition alias_effect :: "InfoResponse option \<Rightarrow> alias_ui \<Rightarrow> alias_ui" where
  "alias_effect info s =
     (let nodeAlias = map_option info_nodeAlias info
      in if nodeAlias = nal_seen s then s
         else (case nodeAlias of
                 Some a \<Rightarrow> s\<lparr>nal_seen := nodeAlias, nal_nodeAlias := a\<rparr>
               | None \<Rightarrow> s\<lparr>nal_seen := nodeAlias\<rparr>))"

definition alias_handleSubmit :: "server \<Rightarrow> AlbyMe option \<Rightarrow> (alias_ui, unit) act" where
  "alias_handleSubmit srv albyMe =
     andThen (getS nal_nodeAlias) (\<lambda>nodeAlias.
       if \<not> has_plan albyMe then emit (EToastError ''Please upgrade to change your node alias'' None)
       else andDo (setS (\<lambda>u. u\<lparr>nal_isLoading := True\<rparr>))
         (finally_do
           (tryCatch
             (andDo (api srv ''POST'' ''/api/node/alias'' (Some (JObj [(''nodeAlias'', JStr nodeAlias)])))
             (andDo (emit (EMutate ''/api/info''))
               (emit (EToast ''Alias changed. Restart your node to apply the change.''
                        (Some ''Your node alias has been updated successfully.'')))))
             (request_error ''Failed to update node alias''))
           (setS (\<lambda>u. u\<lparr>nal_isLoading := False\<rparr>))))"

section \<open>The token is the one asked for\<close>

lemma createToken_run:
  assumes "dv_unlockPassword (ui_st w) \<noteq> []"
  shows "snd (createToken srv w) =
     (let s = ui_st w; body = token_json (dv_unlockPassword s) (dv_expiryDays s) (dv_permission s);
          l = ui_log w @ [EFetch ''POST'' ''/api/unlock'' (Some body)]
      in if dv_expiryDays s = []
         then \<lparr>ui_st = s\<lparr>dv_loading := False\<rparr>,
               ui_log = ui_log w @ [EToastError ''Something went wrong'' (Some ''Error: Form not filled'')]\<rparr>
         else (case srv (ui_log w) ''POST'' ''/api/unlock'' (Some body) of
                 Inr (Some j) \<Rightarrow>
                   \<lparr>ui_st = (if json_truthy j
                      then s\<lparr>dv_token := jget_str ''token'' j, dv_tokenPermission := Some (dv_permission s), dv_loading := False\<rparr>
                      else s\<lparr>dv_loading := False\<rparr>), ui_log = l\<rparr>
               | Inr None \<Rightarrow> \<lparr>ui_st = s\<lparr>dv_loading := False\<rparr>, ui_log = l\<rparr>
               | Inl e \<Rightarrow> \<lparr>ui_st = s\<lparr>dv_loading := False\<rparr>,
                   ui_log = l @ [EToastError ''Something went wrong'' (Some (error_text e))]\<rparr>))"
  using assms
  by (cases w) (simp add: createToken_def getS_then effect_defs Let_def error_text_def split: sum.split option.split)

definition token_given :: "server \<Rightarrow> developer_ui ui \<Rightarrow> bool" where
  "token_given srv w =
     (\<exists>k l password days kind j.
        ui_log w = k @ EFetch ''POST'' ''/api/unlock'' (Some (token_json password days kind)) # l \<and>
        password \<noteq> [] \<and> days \<noteq> [] \<and>
        srv k ''POST'' ''/api/unlock'' (Some (token_json password days kind)) = Inr (Some j) \<and>
        dv_token (ui_st w) = jget_str ''token'' j \<and> dv_tokenPermission (ui_st w) = Some kind)"

definition token_ok :: "server \<Rightarrow> developer_ui ui \<Rightarrow> bool" where
  "token_ok srv w = ((dv_token (ui_st w) = None \<or> token_given srv w) \<and> \<not> dv_loading (ui_st w))"

lemma token_givenI:
  assumes "ui_log w = k @ EFetch ''POST'' ''/api/unlock'' (Some (token_json password days kind)) # l"
    and "password \<noteq> []" and "days \<noteq> []"
    and "srv k ''POST'' ''/api/unlock'' (Some (token_json password days kind)) = Inr (Some j)"
    and "dv_token (ui_st w) = jget_str ''token'' j" and "dv_tokenPermission (ui_st w) = Some kind"
  shows "token_given srv w"
  using assms unfolding token_given_def by blast

lemma token_ok_later:
  assumes "token_ok srv w" and "ui_log v = ui_log w @ l" and "dv_token (ui_st v) = dv_token (ui_st w)"
    and "dv_tokenPermission (ui_st v) = dv_tokenPermission (ui_st w)" and "\<not> dv_loading (ui_st v)"
  shows "token_ok srv v"
  using assms unfolding token_ok_def token_given_def by fastforce

lemma token_submit_ok:
  assumes "token_ok srv w" and "dv_unlockPassword (ui_st w) \<noteq> []"
  shows "token_ok srv (snd (createToken srv w))"
proof -
  let ?s = "ui_st w"
  let ?body = "token_json (dv_unlockPassword ?s) (dv_expiryDays ?s) (dv_permission ?s)"
  show ?thesis
  proof (cases "\<exists>j. dv_expiryDays ?s \<noteq> [] \<and> srv (ui_log w) ''POST'' ''/api/unlock'' (Some ?body) = Inr (Some j) \<and> json_truthy j")
    case True
    then obtain j where j: "dv_expiryDays ?s \<noteq> []" "srv (ui_log w) ''POST'' ''/api/unlock'' (Some ?body) = Inr (Some j)"
      "json_truthy j" by blast
    have "token_given srv (snd (createToken srv w))"
      by (rule token_givenI [where k = "ui_log w" and l = "[]" and password = "dv_unlockPassword ?s"
            and days = "dv_expiryDays ?s" and kind = "dv_permission ?s" and j = j])
        (use j assms(2) in \<open>simp_all add: createToken_run Let_def\<close>)
    moreover have "\<not> dv_loading (ui_st (snd (createToken srv w)))"
      using j assms(2) by (simp add: createToken_run Let_def)
    ultimately show ?thesis by (simp add: token_ok_def)
  next
    case False
    then show ?thesis using assms
      by (auto simp: createToken_run Let_def split: sum.split option.split intro: token_ok_later [OF assms(1)])
  qed
qed

lemma developer_step_ok: "token_ok srv w \<Longrightarrow> token_ok srv (developer_step http srv w e)"
proof -
  assume ok: "token_ok srv w"
  then have "\<not> dv_loading (ui_st w)" by (simp add: token_ok_def)
  then show ?thesis
    by (cases e) (auto simp: developer_step_def developer_handler_def developer_allowed_def setS_run ok
        intro: token_ok_later [OF ok] token_submit_ok [OF ok])
qed

interpretation tokens: invariant_machine "developer_step http srv" "token_ok srv" for http srv
  by unfold_locales (rule developer_step_ok)

text \<open>A shown token is the one that was asked for. After any use of the page the token shown is the one
  the server gave in answer to a request with a password, an expiry and the access the page states for it
  (full or read-only); once there is a token no event asks for another one, and the page is never left loading.\<close>

lemma token_as_asked:
  "let w = foldl (developer_step http srv) \<lparr>ui_st = init_developer, ui_log = []\<rparr> es; s = ui_st w
   in if truthy_str (dv_token s)
      then developer_step http srv w e = w \<and>
        (\<exists>k l password days kind j.
          ui_log w = k @ EFetch ''POST'' ''/api/unlock''
            (Some (JObj [(''unlockPassword'', JStr password), (''tokenExpiryDays'', num_json (js_Number days)),
                         (''permission'', JStr (token_kind_str kind))])) # l \<and>
          password \<noteq> [] \<and> days \<noteq> [] \<and>
          srv k ''POST'' ''/api/unlock''
            (Some (JObj [(''unlockPassword'', JStr password), (''tokenExpiryDays'', num_json (js_Number days)),
                         (''permission'', JStr (token_kind_str kind))])) = Inr (Some j) \<and>
          dv_token s = jget_str ''token'' j \<and> dv_tokenPermission s = Some kind)
      else \<not> dv_loading s"
proof -
  let ?w = "foldl (developer_step http srv) \<lparr>ui_st = init_developer, ui_log = []\<rparr> es"
  have ok: "token_ok srv ?w" by (rule tokens.run_inv) (simp add: token_ok_def init_developer_def)
  have "developer_step http srv ?w e = ?w" if "truthy_str (dv_token (ui_st ?w))"
    using that by (cases e) (auto simp: developer_step_def developer_allowed_def token_form_shown_def)
  then show ?thesis
    using ok unfolding Let_def token_ok_def token_given_def token_json_def by (auto split: if_split)
qed

section \<open>The debug tools show what the server answers\<close>

lemma apiRequest_run:
  "snd (apiRequest srv own u m body w) =
     w\<lparr>ui_st := (ui_st w)\<lparr>dt_apiResponse :=
         (case srv (ui_log w) m u body of
            Inl error \<Rightarrow> own error
          | Inr None \<Rightarrow> own no_data_error
          | Inr (Some j) \<Rightarrow>
              if j = JNull then own ''Cannot read properties of null (reading 'logs')'' else debug_text j)\<rparr>,
       ui_log := ui_log w @ [EFetch m u body]\<rparr>"
  by (cases w) (simp add: apiRequest_def effect_defs split: sum.split option.split)

interpretation pretty_text: codec "json_pretty 0" json_parse
  by unfold_locales simp

text \<open>The debug tools show the server's answer. A button of the page sends its one request; an answer
  without logs is shown as a text that reads back as exactly that answer, logs are shown as they are, an
  error as itself. When the answer lists the node's commands, the dialog for commands shows a text that
  reads back as that list.\<close>

lemma debug_answer_readable:
  "let w' = debug_step srv own w (info, DtButton b); r = debug_request b; m = fst r; u = fst (snd r); body = snd (snd r);
       shown = dt_apiResponse (ui_st w')
   in if button_shown info b \<and> \<not> dt_open (ui_st w)
      then ui_log w' = ui_log w @ [EFetch m u body] \<and>
        (case srv (ui_log w) m u body of
           Inl error \<Rightarrow> shown = own error
         | Inr None \<Rightarrow> shown = own no_data_error
         | Inr (Some j) \<Rightarrow>
             if j = JNull then True
             else if truthy_str (jget_str ''logs'' j) then jget_str ''logs'' j = Some shown
             else json_parse shown = Some j \<and>
               (case jget ''commands'' j of
                  Some c \<Rightarrow> Option.bind (parsedAvailableCommands shown) json_parse = Some c
                | None \<Rightarrow> True))
      else w' = w"
proof -
  have t: "debug_text j = json_pretty 0 j" if "\<not> truthy_str (jget_str ''logs'' j)" for j
    using that by (auto simp: debug_text_def truthy_str_def split: option.splits)
  have l: "jget_str ''logs'' j = Some (debug_text j)" if "truthy_str (jget_str ''logs'' j)" for j
    using that by (auto simp: debug_text_def truthy_str_def or_str_def split: option.splits)
  have p: "Option.bind (parsedAvailableCommands (json_pretty 0 j)) json_parse = Some c" if "jget ''commands'' j = Some c" for j c
    using that by (cases j) (simp_all add: parsedAvailableCommands_def jget_def del: json_pretty.simps)
  obtain m u body where r: "debug_request b = (m, u, body)" by (cases "debug_request b") auto
  have step: "debug_step srv own w (info, DtButton b) =
      (if dt_open (ui_st w) \<or> \<not> button_shown info b then w else snd (apiRequest srv own u m body w))"
    by (simp add: debug_step_def debug_allowed_def debug_handler_def press_button_def r)
  have answer: "if j = JNull then True
      else if truthy_str (jget_str ''logs'' j) then jget_str ''logs'' j = Some (debug_text j)
      else json_parse (debug_text j) = Some j \<and>
        (case jget ''commands'' j of
           Some c \<Rightarrow> Option.bind (parsedAvailableCommands (debug_text j)) json_parse = Some c | None \<Rightarrow> True)" for j
    using l [of j] t [of j] p [of j] by (simp split: option.split)
  show ?thesis
  proof (cases "\<exists>j. srv (ui_log w) m u body = Inr (Some j)")
    case True
    then obtain j where "srv (ui_log w) m u body = Inr (Some j)" by blast
    then show ?thesis
      unfolding step Let_def r fst_conv snd_conv using answer [of j]
      by (cases "jget ''commands'' j"; cases "j = JNull"; cases "truthy_str (jget_str ''logs'' j)")
        (simp_all add: apiRequest_run)
  next
    case False
    then show ?thesis
      unfolding step Let_def r fst_conv snd_conv
      by (simp add: apiRequest_run split: sum.split option.split)
  qed
qed

text \<open>The refund goes where the dialog says: without an address exactly for the balance of the hub.\<close>

definition refund_ok :: "debug_ui \<Rightarrow> bool" where
  "refund_ok s = (if dt_isInternal s then dt_address s = [] else True)"

definition refund_target :: "debug_ui \<Rightarrow> bool \<times> string" where
  "refund_target s = (dt_isInternal s, dt_address s)"

lemma apiRequest_target: "keeps refund_target (apiRequest srv own u m body)"
  by (simp add: keeps_def apiRequest_run refund_target_def)

lemma refund_keeps_target: "keeps refund_target (refund_onConfirm srv)"
  unfolding refund_onConfirm_def
  by (intro keeps_andThen keeps_andDo keeps_tryCatch keeps_basic keeps_setS) (simp add: refund_target_def)

lemma logs_keeps_target: "keeps refund_target (logs_onConfirm srv own)"
  unfolding logs_onConfirm_def
  by (intro keeps_andThen keeps_andDo keeps_basic keeps_setS apiRequest_target) (simp add: refund_target_def)

lemma graph_keeps_target: "keeps refund_target (graph_onConfirm srv own)"
  unfolding graph_onConfirm_def
  by (intro keeps_andThen keeps_andDo keeps_basic keeps_setS apiRequest_target) (simp add: refund_target_def)

lemma reset_keeps_target: "keeps refund_target (reset_onConfirm srv)"
  by (auto simp: keeps_def reset_onConfirm_def refund_target_def split: prod.split)

lemma command_keeps_target: "keeps refund_target (executeCommand srv)"
  unfolding executeCommand_def
  by (intro keeps_andThen keeps_andDo keeps_tryCatch keeps_basic keeps_setS) (simp add: refund_target_def)

lemma confirm_keeps_target: "keeps refund_target (confirm_debug srv own)"
  unfolding confirm_debug_def
  by (intro keeps_andThen keeps_andDo keeps_basic keeps_setS)
    (auto simp: refund_target_def refund_keeps_target logs_keeps_target graph_keeps_target reset_keeps_target
       command_keeps_target split: option.split debug_dialog.split)

lemma confirm_fields:
  "dt_isInternal (ui_st (snd (confirm_debug srv own w))) = dt_isInternal (ui_st w)"
  "dt_address (ui_st (snd (confirm_debug srv own w))) = dt_address (ui_st w)"
  using keepsD [OF confirm_keeps_target, of srv own w] by (simp_all add: refund_target_def)

lemma debug_step_refund_ok:
  assumes "refund_ok (ui_st w)"
  shows "refund_ok (ui_st (debug_step srv own w e))"
proof -
  obtain info ev where e: "e = (info, ev)" by (cases e)
  show ?thesis
  proof (cases ev)
    case (DtOpen d)
    then show ?thesis using assms
      by (auto simp: e debug_step_def debug_handler_def andDo_def whenD_def andThen_def press_button_def apiRequest_def
          effect_defs refund_ok_def open_dialog_def Let_def split: prod.split sum.split option.split)
  next
    case DtConfirm
    then show ?thesis using assms by (auto simp: e debug_step_def debug_handler_def refund_ok_def confirm_fields)
  next
    case (DtButton b)
    then show ?thesis using assms
      by (auto simp: e debug_step_def debug_handler_def press_button_def apiRequest_run refund_ok_def split: prod.split)
  qed (use assms in \<open>auto simp: e debug_step_def debug_handler_def debug_allowed_def setS_run refund_ok_def cancel_dialog_def Let_def
      split: option.split debug_dialog.split\<close>)
qed

interpretation refunds: invariant_machine "debug_step srv own" "\<lambda>w. refund_ok (ui_st w)" for srv own
  by unfold_locales (rule debug_step_refund_ok)


text \<open>Closing the dialog keeps its content, so that what was typed is there when it is opened again.\<close>

lemma closing_keeps_content:
  assumes "dialog_open (ui_st w) RefundSwap" and "dialog_shown info RefundSwap"
  shows "ui_st (debug_step srv own (debug_step srv own w (info, DtCancel)) (info, DtOpen RefundSwap)) = ui_st w"
  using assms
  by (simp add: debug_step_def debug_allowed_def debug_handler_def dialog_open_def cancel_dialog_def open_dialog_def same_content_def
      effect_defs Let_def)

section \<open>Signatures\<close>

text \<open>The signature shown is that of the message without the white space around it, next to the message with it.\<close>

lemma signed_card_run:
  assumes "sg_message (ui_st w) \<noteq> []" and "\<not> sg_isLoading (ui_st w)"
    and "srv (ui_log w) ''POST'' ''/api/wallet/sign-message'' (Some (JObj [(''message'', JStr (trim (sg_message (ui_st w))))])) =
      Inr (Some (JObj [(''signature'', JStr sig)]))" and "sig \<noteq> []"
  shows "signed_card (ui_st (sign_step srv w SgSubmit)) = Some (sg_message (ui_st w), sig)"
  using assms
  by (simp add: sign_step_def sign_handleSubmit_def getS_then effect_defs signed_card_def json_truthy_def jget_str_def jget_def)

end
