(* ===== verification/Transactions.thy ===== *)
theory Transactions imports Connections
begin

text \<open>
  The list of payments: its export as a table (\<open>components/transactions-utils.tsx\<close>), the labels of a payment
  (\<open>TransactionLabels.tsx\<close>), the filter dialog (\<open>TransactionsFilterDialog.tsx\<close>), the pages of the list and what
  a row shows (\<open>TransactionsList.tsx\<close>, \<open>CustomPagination.tsx\<close>, \<open>TransactionItem.tsx\<close>,
  \<open>OnchainTransactionItem.tsx\<close>, \<open>OnchainTransactionsList.tsx\<close>, \<open>PaymentFailedAlert.tsx\<close>).
\<close>

section \<open>The export\<close>

subsection \<open>The table as text\<close>

text \<open>The regular expression for white space followed by one of the characters that start a formula.\<close>

definition formula_start :: "string \<Rightarrow> bool" where
  "formula_start raw =
     (case dropWhile (\<lambda>c. c \<in> {CHR 0x09, CHR 0x0D, CHR '' ''}) raw of
        [] \<Rightarrow> False
      | c # _ \<Rightarrow> c \<in> {CHR ''='', CHR ''+'', CHR ''-'', CHR ''@''})"

definition protect_cell :: "string \<Rightarrow> string" where
  "protect_cell raw = (if formula_start raw then CHR 0x27 # raw else raw)"

definition double_quotes :: "string \<Rightarrow> string" where
  "double_quotes s = concat (map (\<lambda>c. if c = CHR 0x22 then [CHR 0x22, CHR 0x22] else [c]) s)"

definition escapeCsvCell :: "string \<Rightarrow> string" where
  "escapeCsvCell raw = CHR 0x22 # double_quotes (protect_cell raw) @ [CHR 0x22]"

text \<open>The transactions are the objects that the server sent. \<open>Object.keys\<close>, and \<open>new Set\<close> of a list.\<close>

fun first_occurrences :: "'a list \<Rightarrow> 'a list" where
  "first_occurrences [] = []"
| "first_occurrences (x # xs) = x # filter (\<lambda>y. y \<noteq> x) (first_occurrences xs)"

definition object_keys :: "json \<Rightarrow> string list" where
  "object_keys j = (case j of JObj ms \<Rightarrow> first_occurrences (map fst ms) | _ \<Rightarrow> [])"

definition user_labels :: "json \<Rightarrow> json option" where
  "user_labels tx = Option.bind (jget ''metadata'' tx) (jget ''user_labels'')"

definition text_order :: "string \<Rightarrow> string \<Rightarrow> int" where
  "text_order a b = (if text_greater a b then 1 else 0)"

definition userLabelKeys :: "json list \<Rightarrow> string list" where
  "userLabelKeys txs =
     sort_cmp text_order
       (first_occurrences (concat (map (\<lambda>tx. case user_labels tx of Some ls \<Rightarrow> object_keys ls | None \<Rightarrow> []) txs)))"

text \<open>\<open>String(value)\<close>, or the JSON of an object.\<close>

definition cell_text :: "json \<Rightarrow> string" where
  "cell_text v =
     (case v of
        JStr s \<Rightarrow> s
      | JNum i \<Rightarrow> show_int i
      | JBool b \<Rightarrow> (if b then ''true'' else ''false'')
      | _ \<Rightarrow> json_stringify v)"

definition csv_cell_of :: "json option \<Rightarrow> string" where
  "csv_cell_of v = (case v of None \<Rightarrow> [] | Some JNull \<Rightarrow> [] | Some w \<Rightarrow> escapeCsvCell (cell_text w))"

definition label_value :: "json \<Rightarrow> string \<Rightarrow> json option" where
  "label_value tx key = Option.bind (user_labels tx) (jget key)"

fun sep_by :: "char \<Rightarrow> string list \<Rightarrow> string" where
  "sep_by c [] = []"
| "sep_by c [x] = x"
| "sep_by c (x # y # ys) = x @ c # sep_by c (y # ys)"

definition csv_headers :: "json list \<Rightarrow> string list" where
  "csv_headers txs = object_keys (hd txs) @ map (\<lambda>key. ''label_'' @ key) (userLabelKeys txs)"

definition csv_row :: "json list \<Rightarrow> json \<Rightarrow> string list" where
  "csv_row txs tx =
     map (\<lambda>header. csv_cell_of (jget header tx)) (object_keys (hd txs)) @
     map (\<lambda>key. csv_cell_of (label_value tx key)) (userLabelKeys txs)"

definition convertToCSV :: "json list \<Rightarrow> string" where
  "convertToCSV txs =
     (if txs = [] then []
      else sep_by CHR 0x0A (map (sep_by CHR '','') (csv_headers txs # map (csv_row txs) txs)))"

subsection \<open>Reading a table\<close>

text \<open>A reader of tables with quoted cells, against which the export is checked.\<close>

fun csv_quoted :: "string \<Rightarrow> string \<times> string" where
  "csv_quoted [] = ([], [])"
| "csv_quoted (c # s) =
     (if c = CHR 0x22
      then (case s of
              d # s' \<Rightarrow> if d = CHR 0x22 then (case csv_quoted s' of (t, r) \<Rightarrow> (CHR 0x22 # t, r)) else ([], s)
            | [] \<Rightarrow> ([], []))
      else (case csv_quoted s of (t, r) \<Rightarrow> (c # t, r)))"

definition ends_cell :: "char \<Rightarrow> bool" where
  "ends_cell c = (c \<in> {CHR '','', CHR 0x0A})"

definition csv_cell :: "string \<Rightarrow> string \<times> string" where
  "csv_cell s =
     (case s of
        c # s' \<Rightarrow> if c = CHR 0x22 then csv_quoted s' else (takeWhile (Not \<circ> ends_cell) s, dropWhile (Not \<circ> ends_cell) s)
      | [] \<Rightarrow> ([], []))"

lemma csv_quoted_length: "length (snd (csv_quoted s)) \<le> length s"
proof (induction s rule: csv_quoted.induct)
  case (2 c s)
  show ?case
  proof (cases s)
    case Nil
    then show ?thesis by simp
  next
    case (Cons d s')
    have "length (snd (csv_quoted s')) \<le> length s'" if "c = CHR 0x22" "d = CHR 0x22" using 2(1) Cons that by simp
    moreover have "length (snd (csv_quoted s)) \<le> length s" if "c \<noteq> CHR 0x22" using 2(2) that by simp
    ultimately show ?thesis using Cons by (subst csv_quoted.simps) (auto simp: split_beta le_SucI simp del: csv_quoted.simps)
  qed
qed simp

lemma csv_cell_length: "length (snd (csv_cell s)) \<le> length s"
  using csv_quoted_length [of "tl s"]
  by (cases s) (auto simp: csv_cell_def length_dropWhile_le intro: le_SucI)

function csv_rows :: "string \<Rightarrow> string list list" where
  "csv_rows s =
     (case csv_cell s of
        (cell, []) \<Rightarrow> [[cell]]
      | (cell, c # r) \<Rightarrow>
          if c = CHR '','' then (case csv_rows r of row # rows \<Rightarrow> (cell # row) # rows | [] \<Rightarrow> [[cell]])
          else [cell] # csv_rows r)"
  by pat_completeness auto
termination
  by (relation "measure length") (simp_all, (metis Suc_le_lessD csv_cell_length length_Cons snd_conv)+)

declare csv_rows.simps [simp del]

text \<open>What a cell of the text stands for, whatever follows it.\<close>

definition cell_reads :: "string \<Rightarrow> string \<Rightarrow> bool" where
  "cell_reads e v = (\<forall>r. r = [] \<or> ends_cell (hd r) \<longrightarrow> csv_cell (e @ r) = (v, r))"

lemma cell_readsD: "cell_reads e v \<Longrightarrow> csv_cell e = (v, [])" "cell_reads e v \<Longrightarrow> ends_cell c \<Longrightarrow> csv_cell (e @ c # r) = (v, c # r)"
  unfolding cell_reads_def by (metis append_Nil2, metis list.sel(1))

lemma csv_quoted_doubled:
  "r = [] \<or> hd r \<noteq> CHR 0x22 \<Longrightarrow> csv_quoted (double_quotes t @ CHR 0x22 # r) = (t, r)"
  by (induction t) (auto simp: double_quotes_def split: list.split)

lemma escaped_reads: "cell_reads (escapeCsvCell t) (protect_cell t)"
  unfolding cell_reads_def by (auto simp: csv_cell_def escapeCsvCell_def ends_cell_def csv_quoted_doubled)

lemma empty_reads: "cell_reads [] []"
  unfolding cell_reads_def by (auto simp: csv_cell_def ends_cell_def split: list.split)

definition plain_cell :: "string \<Rightarrow> bool" where
  "plain_cell h = list_all (\<lambda>c. c \<notin> {CHR 0x22, CHR '','', CHR 0x0A}) h"

lemma plain_reads:
  assumes "plain_cell h"
  shows "cell_reads h h"
  unfolding cell_reads_def
proof (intro allI impI)
  fix r
  assume r: "r = [] \<or> ends_cell (hd r)"
  have h: "takeWhile (Not \<circ> ends_cell) (h @ r) = h" "dropWhile (Not \<circ> ends_cell) (h @ r) = r"
    using assms r by (cases r; auto simp: plain_cell_def ends_cell_def list_all_iff takeWhile_append dropWhile_append)+
  show "csv_cell (h @ r) = (h, r)"
  proof (cases h)
    case Nil
    then show ?thesis using empty_reads r by (auto simp: cell_reads_def)
  next
    case (Cons c h')
    then have "c \<noteq> CHR 0x22" using assms by (simp add: plain_cell_def)
    then show ?thesis using h Cons by (simp add: csv_cell_def)
  qed
qed

lemma csv_rows_line:
  "list_all2 cell_reads es vs \<Longrightarrow> es \<noteq> [] \<Longrightarrow>
     csv_rows (sep_by CHR '','' es) = [vs] \<and>
     csv_rows (sep_by CHR '','' es @ CHR 0x0A # rest) = vs # csv_rows rest"
proof (induction es vs rule: list_all2_induct)
  case (Cons e es v vs)
  have e: "csv_cell e = (v, [])" "csv_cell (e @ CHR '','' # t) = (v, CHR '','' # t)"
    "csv_cell (e @ CHR 0x0A # t) = (v, CHR 0x0A # t)" for t
    using Cons.hyps(1) by (auto intro: cell_readsD simp: ends_cell_def)
  show ?case
  proof (cases es)
    case Nil
    then show ?thesis using Cons.hyps(2) e
      by (auto simp: csv_rows.simps [of e] csv_rows.simps [of "e @ CHR 0x0A # rest"])
  next
    case (Cons e' es')
    then have "csv_rows (sep_by CHR '','' (e' # es')) = [vs]"
      "csv_rows (sep_by CHR '','' (e' # es') @ CHR 0x0A # rest) = vs # csv_rows rest"
      using Cons.IH by auto
    then show ?thesis using e Cons
      by (simp add: csv_rows.simps [of "e @ CHR '','' # _"])
  qed
qed simp

lemma csv_rows_table:
  "list_all2 (list_all2 cell_reads) ess vss \<Longrightarrow> ess \<noteq> [] \<Longrightarrow> list_all (\<lambda>es. es \<noteq> []) ess \<Longrightarrow>
     csv_rows (sep_by CHR 0x0A (map (sep_by CHR '','') ess)) = vss"
proof (induction ess vss rule: list_all2_induct)
  case (Cons es ess vs vss)
  then show ?case
    using csv_rows_line [of es vs] by (cases ess) auto
qed simp

definition cell_value :: "json option \<Rightarrow> string" where
  "cell_value v = (case v of None \<Rightarrow> [] | Some JNull \<Rightarrow> [] | Some w \<Rightarrow> protect_cell (cell_text w))"

lemma csv_cell_of_reads: "cell_reads (csv_cell_of v) (cell_value v)"
  by (auto simp: csv_cell_of_def cell_value_def empty_reads escaped_reads split: option.split json.split)

lemma protected_cell: "\<not> formula_start (protect_cell t)"
  by (auto simp: protect_cell_def formula_start_def)

lemma formula_start_Nil [simp]: "\<not> formula_start []"
  by (simp add: formula_start_def)

lemma cell_value_protected: "\<not> formula_start (cell_value v)"
  by (auto simp: cell_value_def protected_cell split: option.split json.split)

definition row_values :: "json list \<Rightarrow> json \<Rightarrow> string list" where
  "row_values txs tx =
     map (\<lambda>header. cell_value (jget header tx)) (object_keys (hd txs)) @
     map (\<lambda>key. cell_value (label_value tx key)) (userLabelKeys txs)"

lemma list_all2_maps: "(\<And>x. P (f x) (g x)) \<Longrightarrow> list_all2 P (map f xs) (map g xs)"
  by (simp add: list_all2_conv_all_nth)

lemma csv_row_reads: "list_all2 cell_reads (csv_row txs tx) (row_values txs tx)"
  unfolding csv_row_def row_values_def by (intro list_all2_appendI list_all2_maps csv_cell_of_reads)

lemma csv_headers_read: "list_all plain_cell (csv_headers txs) \<Longrightarrow> list_all2 cell_reads (csv_headers txs) (csv_headers txs)"
  by (auto simp: list_all2_same list_all_iff intro: plain_reads)


text \<open>A comma in the key of a label makes two headers of it.\<close>

lemma label_with_comma:
  "csv_rows (convertToCSV [JObj [(''id'', JNum 7),
     (''metadata'', JObj [(''user_labels'', JObj [(''a,b'', JStr ''x'')])])]]) ! 0 =
     [''id'', ''metadata'', ''label_a'', ''b'']"
  by code_simp

subsection \<open>Fetching all payments\<close>

definition EXPORT_TRANSACTIONS_PAGE_SIZE :: nat where "EXPORT_TRANSACTIONS_PAGE_SIZE = 1000"

definition export_url :: "int option \<Rightarrow> nat \<Rightarrow> string" where
  "export_url appId offset =
     ''/api/transactions?limit='' @ show_nat EXPORT_TRANSACTIONS_PAGE_SIZE @ ''&offset='' @ show_nat offset @
     (if truthy_int appId then ''&appId='' @ show_int (the appId) else [])"

definition ellipsis :: string where "ellipsis = [CHR 0xE2, CHR 0x80, CHR 0xA6]"

text \<open>The transactions of an answer; reading the length of anything else throws.\<close>

definition answer_transactions :: "json option \<Rightarrow> ('s, json list) act" where
  "answer_transactions data =
     (case data of
        None \<Rightarrow> throw ''no list transactions response''
      | Some j \<Rightarrow>
          if \<not> json_truthy j then throw ''no list transactions response''
          else (case jget ''transactions'' j of
                  Some (JArr ts) \<Rightarrow> ret ts
                | _ \<Rightarrow> throw ''data.transactions is not iterable''))"

text \<open>
  The loop, with fuel for the number of pages: the result \<open>None\<close> means that it is still running. The notice is updated on
  every page; \<open>format\<close> prints the count.
\<close>

fun export_loop :: "nat \<Rightarrow> (nat \<Rightarrow> string) \<Rightarrow> server \<Rightarrow> int option \<Rightarrow> nat \<Rightarrow> json list \<Rightarrow> ('s, json list option) act" where
  "export_loop 0 format srv appId offset acc = ret None"
| "export_loop (Suc n) format srv appId offset acc =
     andThen (api srv ''GET'' (export_url appId offset) None) (\<lambda>data.
     andThen (answer_transactions data) (\<lambda>ts.
     andDo (toast (''Exporting '' @ format (length (acc @ ts)) @ '' transactions'' @ ellipsis))
       (if length ts < EXPORT_TRANSACTIONS_PAGE_SIZE then ret (Some (acc @ ts))
        else export_loop n format srv appId (offset + EXPORT_TRANSACTIONS_PAGE_SIZE) (acc @ ts))))"

text \<open>The state is the list of files saved: name and content.\<close>

definition export_filename :: "int option \<Rightarrow> string" where
  "export_filename appId =
     (if truthy_int appId then ''transactions_app_'' @ show_int (the appId) @ ''.csv'' else ''transactions_all.csv'')"

definition handleExportTransactions ::
    "nat \<Rightarrow> (nat \<Rightarrow> string) \<Rightarrow> server \<Rightarrow> int option \<Rightarrow> ((string \<times> string) list, unit) act" where
  "handleExportTransactions fuel format srv appId =
     andDo (toast (''Exporting transactions'' @ ellipsis))
       (tryCatch
         (andThen (export_loop fuel format srv appId 0 []) (\<lambda>result.
            case result of
              None \<Rightarrow> ret ()
            | Some txs \<Rightarrow>
                andDo (setS (\<lambda>files. files @ [(export_filename appId, convertToCSV txs)]))
                      (toast ''Transactions saved to your downloads folder'')))
         (\<lambda>error. emit (EToastError ''Failed to export transactions'' None)))"

text \<open>A server that answers every page from one list.\<close>

definition serves_list :: "server \<Rightarrow> int option \<Rightarrow> json list \<Rightarrow> bool" where
  "serves_list srv appId txs =
     (\<forall>l offset. srv l ''GET'' (export_url appId offset) None =
        Inr (Some (JObj [(''transactions'', JArr (take EXPORT_TRANSACTIONS_PAGE_SIZE (drop offset txs)))])))"

lemma answer_of_list [simp]: "answer_transactions (Some (JObj [(''transactions'', JArr ts)])) w = (Inr ts, w)"
  by (simp add: answer_transactions_def json_truthy_def jget_def ret_def)

lemma export_loop_complete:
  assumes "serves_list srv appId txs"
  shows "length (drop offset txs) div EXPORT_TRANSACTIONS_PAGE_SIZE < n \<Longrightarrow>
    \<exists>l. export_loop n format srv appId offset acc w = (Inr (Some (acc @ drop offset txs)), w\<lparr>ui_log := l\<rparr>) \<and>
      fetches l = fetches (ui_log w) @
        map (\<lambda>i. EFetch ''GET'' (export_url appId (offset + EXPORT_TRANSACTIONS_PAGE_SIZE * i)) None)
          [0..<Suc (length (drop offset txs) div EXPORT_TRANSACTIONS_PAGE_SIZE)]"
proof (induction n arbitrary: offset acc w)
  case (Suc n)
  let ?P = EXPORT_TRANSACTIONS_PAGE_SIZE and ?rest = "drop offset txs"
  have P: "0 < ?P" by (simp add: EXPORT_TRANSACTIONS_PAGE_SIZE_def)
  have srv: "srv (ui_log v) ''GET'' (export_url appId offset) None =
      Inr (Some (JObj [(''transactions'', JArr (take ?P ?rest))]))" for v :: "'a ui"
    using assms by (simp add: serves_list_def)
  show ?case
  proof (cases "length ?rest < ?P")
    case True
    then show ?thesis
      by (auto simp: andThen_def andDo_def api_def srv toast_def emit_def ret_def)
  next
    case False
    let ?w = "w\<lparr>ui_log := ui_log w @ [EFetch ''GET'' (export_url appId offset) None,
        EToast (''Exporting '' @ format (length (acc @ take ?P ?rest)) @ '' transactions'' @ ellipsis) None]\<rparr>"
    have len: "length ?rest div ?P = Suc (length (drop (offset + ?P) txs) div ?P)"
      using False P by (simp add: le_div_geq)
    have "length (drop (offset + ?P) txs) div ?P < n" using Suc.prems len by simp
    from Suc.IH [OF this, of "acc @ take ?P ?rest" ?w] obtain l where
      l: "export_loop n format srv appId (offset + ?P) (acc @ take ?P ?rest) ?w =
          (Inr (Some ((acc @ take ?P ?rest) @ drop (offset + ?P) txs)), ?w\<lparr>ui_log := l\<rparr>)"
        "fetches l = fetches (ui_log ?w) @
          map (\<lambda>i. EFetch ''GET'' (export_url appId (offset + ?P + ?P * i)) None)
            [0..<Suc (length (drop (offset + ?P) txs) div ?P)]" by blast
    have "acc @ take ?P ?rest @ drop (offset + ?P) txs = acc @ ?rest"
      by (metis append_take_drop_id drop_drop add.commute)
    moreover have "map (\<lambda>i. EFetch ''GET'' (export_url appId (offset + ?P * i)) None) [0..<Suc (length ?rest div ?P)] =
      EFetch ''GET'' (export_url appId offset) None #
        map (\<lambda>i. EFetch ''GET'' (export_url appId (offset + ?P + ?P * i)) None) [0..<Suc (length (drop (offset + ?P) txs) div ?P)]"
      unfolding len by (subst upt_conv_Cons) (simp_all add: map_Suc_upt [symmetric] add.assoc del: upt_Suc)
    ultimately show ?thesis using l False
      by (auto simp: andThen_def andDo_def api_def srv toast_def emit_def ret_def min_def)
  qed
qed simp

text \<open>C34: The export ends with every payment. When the server answers each page from one list, the loop ends after
  the pages that cover the list (fuel for one more page than full ones is enough) with one request per page, and
  saves one file with the table of all payments in order; the export of an app is named after it.\<close>

theorem export_complete:
  assumes "serves_list srv appId txs" and "length txs div EXPORT_TRANSACTIONS_PAGE_SIZE < fuel"
  shows "let w' = snd (handleExportTransactions fuel format srv appId w)
    in ui_st w' = ui_st w @
         [(if truthy_int appId then ''transactions_app_'' @ show_int (the appId) @ ''.csv'' else ''transactions_all.csv'',
           convertToCSV txs)] \<and>
       fetches (ui_log w') = fetches (ui_log w) @
         map (\<lambda>i. EFetch ''GET'' (export_url appId (EXPORT_TRANSACTIONS_PAGE_SIZE * i)) None)
           [0..<Suc (length txs div EXPORT_TRANSACTIONS_PAGE_SIZE)]"
proof -
  let ?w = "w\<lparr>ui_log := ui_log w @ [EToast (''Exporting transactions'' @ ellipsis) None]\<rparr>"
  have "length (drop 0 txs) div EXPORT_TRANSACTIONS_PAGE_SIZE < fuel" using assms(2) by simp
  from export_loop_complete [OF assms(1) this, where format = format and acc = "[]" and w = ?w] obtain l where
    "export_loop fuel format srv appId 0 [] ?w = (Inr (Some txs), ?w\<lparr>ui_log := l\<rparr>)"
    "fetches l = fetches (ui_log w) @
       map (\<lambda>i. EFetch ''GET'' (export_url appId (EXPORT_TRANSACTIONS_PAGE_SIZE * i)) None)
         [0..<Suc (length txs div EXPORT_TRANSACTIONS_PAGE_SIZE)]"
    by auto
  then show ?thesis
    by (simp add: handleExportTransactions_def andDo_def andThen_def tryCatch_def toast_def emit_def setS_def
        export_filename_def Let_def del: upt_Suc)
qed

text \<open>A wallet without payments.\<close>

definition empty_list_server :: server where
  "empty_list_server sofar m u b = Inr (Some (JObj [(''transactions'', JArr [])]))"

theorem export_complete_witness:
  "ui_st (snd (handleExportTransactions 1 show_nat empty_list_server None \<lparr>ui_st = [], ui_log = []\<rparr>)) =
     [(''transactions_all.csv'', [])]"
  using export_complete [of empty_list_server None "[]" 1 show_nat "\<lparr>ui_st = [], ui_log = []\<rparr>"]
  by (simp add: serves_list_def empty_list_server_def Let_def convertToCSV_def)

end
