(* ===== verification/TransactionList.thy ===== *)
theory TransactionList imports Transactions
begin

text \<open>
  The list of payments on the screen: the labels of a payment (\<open>components/TransactionLabels.tsx\<close>), the filter
  dialog (\<open>TransactionsFilterDialog.tsx\<close>), the pages of the list (\<open>TransactionsList.tsx\<close>,
  \<open>CustomPagination.tsx\<close>) and what its rows show (\<open>TransactionItem.tsx\<close>, \<open>OnchainTransactionItem.tsx\<close>,
  \<open>OnchainTransactionsList.tsx\<close>, \<open>PaymentFailedAlert.tsx\<close>, \<open>PodcastingInfo.tsx\<close>).
\<close>

section \<open>Labels\<close>

text \<open>
  A label object is the list of its own properties in the order of the language: keys that are array
  indices first, by number, then the others by their insertion. Assigning a string to \<open>__proto__\<close> does nothing.
\<close>

type_synonym labels = "(string \<times> string) list"

definition is_index :: "string \<Rightarrow> bool" where
  "is_index k = (list_all is_digit k \<and> k = show_nat (digits_val k) \<and> digits_val k < 2 ^ 32 - 1)"

definition obj_set :: "string \<Rightarrow> string \<Rightarrow> labels \<Rightarrow> labels" where
  "obj_set k v obj =
     (if k = ''__proto__'' then obj
      else if k \<in> fst ` set obj then map (\<lambda>(j, u). (j, if j = k then v else u)) obj
      else if is_index k
      then takeWhile (\<lambda>(j, u). is_index j \<and> digits_val j < digits_val k) obj @ (k, v) #
           dropWhile (\<lambda>(j, u). is_index j \<and> digits_val j < digits_val k) obj
      else obj @ [(k, v)])"

definition toRows :: "labels option \<Rightarrow> (string \<times> string) list" where
  "toRows ls = (case ls of None \<Rightarrow> [([], [])] | Some [] \<Rightarrow> [([], [])] | Some es \<Rightarrow> es)"

definition add_row :: "labels \<Rightarrow> string \<times> string \<Rightarrow> labels" where
  "add_row obj row =
     (let key = trim (fst row); value = trim (snd row)
      in if key \<noteq> [] \<and> value \<noteq> [] then obj_set key value obj else obj)"

definition rowsToLabels :: "(string \<times> string) list \<Rightarrow> labels" where
  "rowsToLabels rows = foldl add_row [] rows"

text \<open>\<open>lb_initial\<close> is the property the component is rendered with.\<close>

record label_ui =
  lb_initial :: "labels option"
  lb_isEditing :: bool
  lb_loading :: bool
  lb_labels :: labels
  lb_rows :: "(string \<times> string) list"

definition open_labels :: "labels option \<Rightarrow> label_ui" where
  "open_labels initial =
     \<lparr>lb_initial = initial, lb_isEditing = False, lb_loading = False, lb_labels = nullish initial [], lb_rows = toRows initial\<rparr>"

text \<open>The effect on \<open>[initialLabels, isEditing]\<close>.\<close>

definition labels_effect :: "label_ui \<Rightarrow> label_ui" where
  "labels_effect s =
     s\<lparr>lb_labels := nullish (lb_initial s) [],
       lb_rows := (if lb_isEditing s then lb_rows s else toRows (lb_initial s))\<rparr>"

definition startEditing :: "label_ui \<Rightarrow> label_ui" where
  "startEditing s = labels_effect (s\<lparr>lb_rows := toRows (Some (lb_labels s)), lb_isEditing := True\<rparr>)"

definition cancelEditing :: "label_ui \<Rightarrow> label_ui" where
  "cancelEditing s = labels_effect (s\<lparr>lb_rows := toRows (Some (lb_labels s)), lb_isEditing := False\<rparr>)"

definition labels_json :: "labels \<Rightarrow> json" where
  "labels_json ls = JObj [(''labels'', JObj (map (\<lambda>(k, v). (k, JStr v)) ls))]"

definition labels_url :: "int \<Rightarrow> string" where
  "labels_url i = ''/api/transactions/'' @ show_int i @ ''/labels''"

text \<open>After the form is closed the effect runs again, with the labels the list has not fetched yet.\<close>

definition saveLabels :: "server \<Rightarrow> int \<Rightarrow> string \<Rightarrow> (label_ui, unit) act" where
  "saveLabels srv i transactionListKey =
     andThen (getS lb_rows) (\<lambda>rows.
       let nextLabels = rowsToLabels rows
       in andDo (setS (\<lambda>s. s\<lparr>lb_loading := True\<rparr>))
         (finally_do
           (tryCatch
             (andDo (api srv ''PATCH'' (labels_url i) (Some (labels_json nextLabels)))
             (andDo (setS (\<lambda>s. labels_effect
                (s\<lparr>lb_labels := nextLabels, lb_rows := toRows (Some nextLabels), lb_isEditing := False\<rparr>)))
             (andDo (emit (EMutate transactionListKey)) (toast ''Labels saved''))))
             (\<lambda>error. emit (EToastError ''Failed to save labels'' (Some (error_text error)))))
           (setS (\<lambda>s. s\<lparr>lb_loading := False\<rparr>))))"

datatype label_event =
    LbProps "labels option" | LbStart | LbCancel | LbKey nat string | LbValue nat string | LbRemove nat | LbAdd | LbSave

definition label_allowed :: "label_ui \<Rightarrow> label_event \<Rightarrow> bool" where
  "label_allowed s e =
     (case e of
        LbProps _ \<Rightarrow> True
      | LbStart \<Rightarrow> \<not> lb_isEditing s
      | LbCancel \<Rightarrow> lb_isEditing s \<and> \<not> lb_loading s
      | LbSave \<Rightarrow> lb_isEditing s \<and> \<not> lb_loading s
      | _ \<Rightarrow> lb_isEditing s)"

definition label_handler :: "server \<Rightarrow> int \<Rightarrow> string \<Rightarrow> label_event \<Rightarrow> (label_ui, unit) act" where
  "label_handler srv i key e =
     (case e of
        LbProps ls \<Rightarrow> setS (\<lambda>s. labels_effect (s\<lparr>lb_initial := ls\<rparr>))
      | LbStart \<Rightarrow> setS startEditing
      | LbCancel \<Rightarrow> setS cancelEditing
      | LbKey n k \<Rightarrow> setS (\<lambda>s. s\<lparr>lb_rows := (if n < length (lb_rows s) then (lb_rows s)[n := (k, snd (lb_rows s ! n))] else lb_rows s)\<rparr>)
      | LbValue n v \<Rightarrow> setS (\<lambda>s. s\<lparr>lb_rows := (if n < length (lb_rows s) then (lb_rows s)[n := (fst (lb_rows s ! n), v)] else lb_rows s)\<rparr>)
      | LbRemove n \<Rightarrow> setS (\<lambda>s. s\<lparr>lb_rows := take n (lb_rows s) @ drop (Suc n) (lb_rows s)\<rparr>)
      | LbAdd \<Rightarrow> setS (\<lambda>s. s\<lparr>lb_rows := lb_rows s @ [([], [])]\<rparr>)
      | LbSave \<Rightarrow> saveLabels srv i key)"

definition label_step :: "server \<Rightarrow> int \<Rightarrow> string \<Rightarrow> label_ui ui \<Rightarrow> label_event \<Rightarrow> label_ui ui" where
  "label_step srv i key w e = (if label_allowed (ui_st w) e then snd (label_handler srv i key e w) else w)"

subsection \<open>What rows mean\<close>

definition label_before :: "string \<Rightarrow> string \<Rightarrow> bool" where
  "label_before a b = (a \<noteq> b \<and> (is_index b \<longrightarrow> is_index a \<and> digits_val a < digits_val b))"

definition label_row_ok :: "string \<times> string \<Rightarrow> bool" where
  "label_row_ok row =
     (fst row \<noteq> [] \<and> trim (fst row) = fst row \<and> fst row \<noteq> ''__proto__'' \<and> snd row \<noteq> [] \<and> trim (snd row) = snd row)"

definition labels_ok :: "labels \<Rightarrow> bool" where
  "labels_ok ls = (sorted_wrt (\<lambda>a b. label_before (fst a) (fst b)) ls \<and> list_all label_row_ok ls)"

lemma trim_trim [simp]: "trim (trim s) = trim s"
proof (cases "trim s = []")
  case False
  let ?d = "dropWhile is_space s"
  have t: "trim s = rev (dropWhile is_space (rev ?d))" by (simp add: trim_def trim_start_def)
  have ne: "dropWhile is_space (rev ?d) \<noteq> []" using False t by simp
  have "\<not> is_space (last (trim s))" unfolding t using hd_dropWhile [OF ne] ne by (simp add: last_rev)
  moreover have "hd (trim s) = hd ?d"
    unfolding t using takeWhile_dropWhile_id [of is_space "rev ?d"] ne
    by (metis False hd_append2 rev.simps(1) rev_append rev_rev_ident t)
  moreover have "?d \<noteq> []" using ne by (metis dropWhile.simps(1) rev.simps(1))
  then have "\<not> is_space (hd ?d)" by (rule hd_dropWhile)
  ultimately show ?thesis using False by (intro trim_id) auto
next
  case True
  have "trim [] = []" by (simp add: trim_def trim_start_def)
  with True show ?thesis by simp
qed

lemma label_before_trans: "label_before a b \<Longrightarrow> label_before b d \<Longrightarrow> a \<noteq> d \<Longrightarrow> label_before a d"
  by (auto simp: label_before_def)

lemma index_keys: "is_index a \<Longrightarrow> is_index b \<Longrightarrow> digits_val a = digits_val b \<Longrightarrow> a = b"
  unfolding is_index_def by metis

lemma sorted_wrt_insert:
  "sorted_wrt P xs \<Longrightarrow> sorted_wrt P ys \<Longrightarrow> \<forall>x\<in>set xs. \<forall>y\<in>set ys. P x y \<Longrightarrow>
     (\<And>x. x \<in> set xs \<Longrightarrow> P x z) \<Longrightarrow> (\<And>y. y \<in> set ys \<Longrightarrow> P z y) \<Longrightarrow> sorted_wrt P (xs @ z # ys)"
  by (simp add: sorted_wrt_append)

lemma obj_set_ok:
  assumes ok: "labels_ok obj" and new: "label_row_ok (k, v)"
  shows "labels_ok (obj_set k v obj)"
proof -
  have k: "k \<noteq> ''__proto__''" using new by (simp add: label_row_ok_def)
  consider (old) "k \<in> fst ` set obj" | (index) "k \<notin> fst ` set obj" "is_index k" | (last) "k \<notin> fst ` set obj" "\<not> is_index k"
    by blast
  then show ?thesis
  proof cases
    case old
    have "sorted_wrt (\<lambda>a b. label_before (fst a) (fst b)) (map (\<lambda>(j, u). (j, if j = k then v else u)) obj)"
      using ok by (simp add: labels_ok_def sorted_wrt_map split_beta)
    moreover have "label_row_ok (j, if j = k then v else u)" if "(j, u) \<in> set obj" for j u
      using ok new that by (auto simp: labels_ok_def list_all_iff label_row_ok_def)
    then have "list_all label_row_ok (map (\<lambda>(j, u). (j, if j = k then v else u)) obj)"
      by (auto simp: list_all_iff)
    ultimately show ?thesis using k old by (simp add: labels_ok_def obj_set_def)
  next
    case index
    let ?P = "\<lambda>(j, u). is_index j \<and> digits_val j < digits_val k"
    let ?a = "takeWhile ?P obj" and ?b = "dropWhile ?P obj"
    have split: "?a @ ?b = obj" by simp
    have "sorted_wrt (\<lambda>a b. label_before (fst a) (fst b)) (?a @ ?b)" using ok unfolding split by (simp add: labels_ok_def)
    then have sorted: "sorted_wrt (\<lambda>a b. label_before (fst a) (fst b)) ?a" "sorted_wrt (\<lambda>a b. label_before (fst a) (fst b)) ?b"
      "\<forall>x\<in>set ?a. \<forall>y\<in>set ?b. label_before (fst x) (fst y)"
      unfolding sorted_wrt_append by blast+
    have before: "label_before (fst x) k" if "x \<in> set ?a" for x
      using set_takeWhileD [OF that] by (auto simp: label_before_def)
    have after: "label_before k (fst y)" if "y \<in> set ?b" for y
    proof -
      have "?b \<noteq> []" using that by (metis empty_iff empty_set)
      then obtain y0 ys where b: "?b = y0 # ys" by (meson neq_Nil_conv)
      have y0: "\<not> ?P y0" using hd_dropWhile [of ?P obj] b by simp
      have "y = y0 \<or> label_before (fst y0) (fst y)" using that b sorted(2) by auto
      moreover have ne: "fst y0 \<noteq> k" "fst y \<noteq> k"
        using index(1) that b split by (metis (no_types, lifting) in_set_conv_decomp_first imageI list.set_intros(1) set_dropWhileD)+
      moreover have "label_before k (fst y0)"
        using y0 ne(1) index(2) index_keys [of "fst y0" k] by (cases y0) (auto simp: label_before_def not_less le_less)
      ultimately show ?thesis using label_before_trans [of k "fst y0" "fst y"] by metis
    qed
    have rows: "list_all label_row_ok (?a @ ?b)" using ok unfolding split by (simp add: labels_ok_def)
    have "obj_set k v obj = ?a @ (k, v) # ?b" using index k by (simp add: obj_set_def)
    moreover have "sorted_wrt (\<lambda>a b. label_before (fst a) (fst b)) (?a @ (k, v) # ?b)"
      by (rule sorted_wrt_insert [OF sorted]) (simp_all only: fst_conv before after)
    moreover have "list_all label_row_ok (?a @ (k, v) # ?b)" using rows new unfolding list_all_append by simp
    ultimately show ?thesis by (simp only: labels_ok_def simp_thms)
  next
    case last
    have "label_before (fst x) k" if "x \<in> set obj" for x
      using that last by (auto simp: label_before_def)
    then show ?thesis using ok new k last by (simp add: labels_ok_def obj_set_def sorted_wrt_append)
  qed
qed

lemma add_row_ok: "labels_ok obj \<Longrightarrow> trim (fst row) \<noteq> ''__proto__'' \<Longrightarrow> labels_ok (add_row obj row)"
  by (auto simp: add_row_def Let_def intro: obj_set_ok simp: label_row_ok_def)

lemma add_row_proto: "trim (fst row) = ''__proto__'' \<Longrightarrow> add_row obj row = obj"
  by (simp add: add_row_def obj_set_def Let_def)

lemma rowsToLabels_ok: "labels_ok (rowsToLabels rows)"
proof -
  have "labels_ok (foldl add_row obj rows)" if "labels_ok obj" for obj
    using that by (induction rows arbitrary: obj) (auto intro: add_row_ok simp: add_row_proto, metis add_row_ok add_row_proto)
  then show ?thesis by (simp add: rowsToLabels_def labels_ok_def)
qed

lemma obj_set_last:
  assumes "labels_ok (obj @ [(k, v)])"
  shows "obj_set k v obj = obj @ [(k, v)]"
proof -
  have b: "\<forall>x\<in>set obj. label_before (fst x) k" using assms by (simp add: labels_ok_def sorted_wrt_append)
  then have n: "k \<notin> fst ` set obj" by (auto simp: label_before_def)
  have "takeWhile (\<lambda>(j, u). is_index j \<and> digits_val j < digits_val k) obj = obj" if "is_index k"
    using b that by (auto simp: takeWhile_eq_all_conv label_before_def)
  moreover have "dropWhile (\<lambda>(j, u). is_index j \<and> digits_val j < digits_val k) obj = []" if "is_index k"
    using b that by (auto simp: dropWhile_eq_Nil_conv label_before_def)
  ultimately show ?thesis using assms n by (simp add: obj_set_def labels_ok_def label_row_ok_def)
qed

lemma rowsToLabels_id: "labels_ok ls \<Longrightarrow> rowsToLabels ls = ls"
proof (induction ls rule: rev_induct)
  case (snoc row ls)
  then have "labels_ok ls" by (simp add: labels_ok_def sorted_wrt_append)
  then have "rowsToLabels (ls @ [row]) = add_row ls row" using snoc.IH by (simp add: rowsToLabels_def)
  also have "\<dots> = ls @ [row]"
    using snoc.prems obj_set_last [of ls "fst row" "snd row"]
    by (simp add: add_row_def labels_ok_def label_row_ok_def)
  finally show ?case .
qed (simp add: rowsToLabels_def)

lemma rows_of_labels: "labels_ok ls \<Longrightarrow> rowsToLabels (toRows (Some ls)) = ls"
  by (cases ls) (simp_all add: toRows_def rowsToLabels_id, simp add: rowsToLabels_def add_row_def trim_def trim_start_def)

subsection \<open>The last row of a key wins\<close>

definition trimmed_rows :: "(string \<times> string) list \<Rightarrow> (string \<times> string) list" where
  "trimmed_rows rows =
     filter (\<lambda>(k, v). k \<noteq> [] \<and> v \<noteq> []) (map (\<lambda>(k, v). (trim k, trim v)) rows)"

lemma map_of_update_row:
  "map_of (map (\<lambda>(j, u). (j, if j = k then v else u)) obj) i =
     (if i = k \<and> k \<in> fst ` set obj then Some v else map_of obj i)"
  by (induction obj) (simp, force)

lemma map_of_insert_row:
  "k \<notin> fst ` set (xs @ ys) \<Longrightarrow> map_of (xs @ (k, v) # ys) i = (if i = k then Some v else map_of (xs @ ys) i)"
  by (induction xs) auto

lemma map_of_obj_set:
  assumes "k \<noteq> ''__proto__''"
  shows "map_of (obj_set k v obj) i = (if i = k then Some v else map_of obj i)"
proof (cases "k \<in> fst ` set obj")
  case True
  then show ?thesis using assms by (simp add: obj_set_def map_of_update_row)
next
  case False
  let ?P = "\<lambda>(j, u). is_index j \<and> digits_val j < digits_val k"
  have "map_of (takeWhile ?P obj @ (k, v) # dropWhile ?P obj) i = (if i = k then Some v else map_of obj i)"
    using map_of_insert_row [of k "takeWhile ?P obj" "dropWhile ?P obj" v i] False by simp
  moreover have "map_of (obj @ [(k, v)]) i = (if i = k then Some v else map_of obj i)"
    using map_of_insert_row [of k obj "[]" v i] False by simp
  moreover have "obj_set k v obj =
      (if is_index k then takeWhile ?P obj @ (k, v) # dropWhile ?P obj else obj @ [(k, v)])"
    using assms False by (simp add: obj_set_def)
  ultimately show ?thesis by (cases "is_index k") (simp_all only: if_True if_False)
qed

lemma map_of_rowsToLabels:
  "k \<noteq> ''__proto__'' \<Longrightarrow> map_of (rowsToLabels rows) k = map_of (rev (trimmed_rows rows)) k"
proof (induction rows rule: rev_induct)
  case (snoc row rows)
  obtain a b where row: "row = (a, b)" by (cases row)
  have step: "rowsToLabels (rows @ [(a, b)]) = add_row (rowsToLabels rows) (a, b)" by (simp add: rowsToLabels_def)
  show ?case
  proof (cases "trim a = ''__proto__''")
    case True
    then have "add_row (rowsToLabels rows) row = rowsToLabels rows" by (simp add: row add_row_proto)
    then show ?thesis using snoc True by (simp add: step row trimmed_rows_def)
  next
    case False
    then show ?thesis using snoc by (simp add: step row trimmed_rows_def add_row_def Let_def map_of_obj_set)
  qed
qed (simp add: rowsToLabels_def trimmed_rows_def)

lemma proto_is_no_label: "''__proto__'' \<notin> fst ` set (rowsToLabels rows)"
  using rowsToLabels_ok [of rows] by (force simp: labels_ok_def list_all_iff label_row_ok_def)

lemma sorted_labels_distinct: "sorted_wrt (\<lambda>a b. label_before (fst a) (fst b)) ls \<Longrightarrow> distinct (map fst ls)"
  by (induction ls) (auto simp: label_before_def)

lemma saveLabels_run:
  "snd (saveLabels srv i key w) =
     (let s = ui_st w; next' = rowsToLabels (lb_rows s); l = ui_log w @ [EFetch ''PATCH'' (labels_url i) (Some (labels_json next'))]
      in case srv (ui_log w) ''PATCH'' (labels_url i) (Some (labels_json next')) of
           Inr _ \<Rightarrow>
             \<lparr>ui_st = s\<lparr>lb_labels := nullish (lb_initial s) [], lb_rows := toRows (lb_initial s), lb_isEditing := False,
                lb_loading := False\<rparr>, ui_log = l @ [EMutate key, EToast ''Labels saved'' None]\<rparr>
         | Inl e \<Rightarrow> \<lparr>ui_st = s\<lparr>lb_loading := False\<rparr>,
             ui_log = l @ [EToastError ''Failed to save labels'' (Some (error_text e))]\<rparr>)"
  by (cases w) (simp add: saveLabels_def getS_then effect_defs Let_def labels_effect_def split: sum.split)

text \<open>C32: The labels saved are the rows as typed. Saving the form sends one request, whose object has each
  trimmed key once, with the trimmed value of the last row that has this key and neither part empty
  (only the key \<open>__proto__\<close> never arrives); a refused request changes nothing of the form; after an
  accepted one the form is closed and the list asked again, and when the list has the saved labels,
  they are shown, and editing them again starts from rows that mean the same labels.\<close>

theorem labels_saved_as_typed:
  "let s = ui_st w; w' = label_step srv i key w LbSave; sent = rowsToLabels (lb_rows s);
       typed = filter (\<lambda>(k, v). k \<noteq> [] \<and> v \<noteq> []) (map (\<lambda>(k, v). (trim k, trim v)) (lb_rows s));
       url = ''/api/transactions/'' @ show_int i @ ''/labels'';
       body = JObj [(''labels'', JObj (map (\<lambda>(k, v). (k, JStr v)) sent))];
       s'' = startEditing (ui_st (label_step srv i key w' (LbProps (Some sent))))
   in if lb_isEditing s \<and> \<not> lb_loading s
      then fetches (ui_log w') = fetches (ui_log w) @ [EFetch ''PATCH'' url (Some body)] \<and>
        distinct (map fst sent) \<and>
        map_of sent k = (if k = ''__proto__'' then None else map_of (rev typed) k) \<and>
        (case srv (ui_log w) ''PATCH'' url (Some body) of
           Inl e \<Rightarrow> ui_st w' = s
         | Inr _ \<Rightarrow> \<not> lb_isEditing (ui_st w') \<and> EMutate key \<in> set (ui_log w') \<and>
             lb_labels s'' = sent \<and> rowsToLabels (lb_rows s'') = sent)
      else w' = w"
proof -
  have l: "map_of (rowsToLabels rows) k = (if k = ''__proto__'' then None else map_of (rev (trimmed_rows rows)) k)" for rows
    using proto_is_no_label [of rows] by (simp add: map_of_rowsToLabels map_of_eq_None_iff)
  have d: "distinct (map fst (rowsToLabels rows))" for rows
    using rowsToLabels_ok [of rows] sorted_labels_distinct by (auto simp: labels_ok_def)
  have props: "lb_labels (startEditing (ui_st (label_step srv i key v (LbProps (Some ls))))) = ls \<and>
      lb_rows (startEditing (ui_st (label_step srv i key v (LbProps (Some ls))))) = toRows (Some ls)" for v ls
    by (simp add: label_step_def label_allowed_def label_handler_def setS_run startEditing_def labels_effect_def)
  have save: "label_step srv i key w LbSave =
      (if lb_isEditing (ui_st w) \<and> \<not> lb_loading (ui_st w) then snd (saveLabels srv i key w) else w)"
    by (simp add: label_step_def label_allowed_def label_handler_def)
  show ?thesis
    unfolding Let_def save trimmed_rows_def [symmetric] labels_url_def [symmetric] labels_json_def [symmetric]
    by (simp add: props l d rows_of_labels rowsToLabels_ok)
      (simp add: saveLabels_run Let_def props rows_of_labels rowsToLabels_ok split: sum.split)
qed

text \<open>Until the list has answered, a saved change is not shown: the labels are those from before.\<close>

lemma saved_labels_hidden:
  assumes "lb_isEditing (ui_st w)" and "\<not> lb_loading (ui_st w)"
    and "srv (ui_log w) ''PATCH'' (labels_url i) (Some (labels_json (rowsToLabels (lb_rows (ui_st w))))) = Inr r"
  shows "lb_labels (ui_st (label_step srv i key w LbSave)) = nullish (lb_initial (ui_st w)) []"
  using assms by (simp add: label_step_def label_allowed_def label_handler_def saveLabels_run Let_def)

section \<open>Filters\<close>

text \<open>The dialog's fields; a direction of \<open>None\<close> is the choice All.\<close>

record filter_dialog =
  fd_open :: bool
  fd_searchTerm :: string
  fd_type :: "TxType option"
  fd_minAmountSat :: string
  fd_hideFailed :: bool

definition filter_open_effect :: "TransactionFilters \<Rightarrow> filter_dialog \<Rightarrow> filter_dialog" where
  "filter_open_effect filters s =
     (if fd_open s
      then s\<lparr>fd_searchTerm := nullish (tf_searchTerm filters) [], fd_type := tf_type filters,
             fd_minAmountSat := (if truthy_int (tf_minAmountSat filters) then show_int (the (tf_minAmountSat filters)) else []),
             fd_hideFailed := (tf_hideFailed filters = Some True)\<rparr>
      else s)"

definition safe_positive :: "jsnum \<Rightarrow> int option" where
  "safe_positive x =
     (case x of
        Fin r \<Rightarrow> if of_int \<lfloor>r\<rfloor> = r \<and> 0 < \<lfloor>r\<rfloor> \<and> \<lfloor>r\<rfloor> \<le> 2 ^ 53 - 1 then Some \<lfloor>r\<rfloor> else None
      | _ \<Rightarrow> None)"

definition filters_of :: "filter_dialog \<Rightarrow> TransactionFilters" where
  "filters_of s =
     \<lparr>tf_searchTerm = (if trim (fd_searchTerm s) = [] then None else Some (trim (fd_searchTerm s))), tf_type = fd_type s,
      tf_minAmountSat = safe_positive (js_Number (fd_minAmountSat s)), tf_hideFailed = Some (fd_hideFailed s)\<rparr>"

text \<open>The dialog over the store of the filters; \<open>setFilters\<close> makes a new object every time.\<close>

datatype filter_event =
    FdOpen | FdClose | FdSearch string | FdType "TxType option" | FdMin string | FdHide bool | FdApply | FdReset

definition filter_step :: "filter_dialog \<times> TransactionFiltersStore \<Rightarrow> filter_event \<Rightarrow> filter_dialog \<times> TransactionFiltersStore" where
  "filter_step st e =
     (case st of (s, store) \<Rightarrow>
        (case e of
           FdOpen \<Rightarrow> (filter_open_effect (tfs_filters store) (s\<lparr>fd_open := True\<rparr>), store)
         | FdClose \<Rightarrow> (s\<lparr>fd_open := False\<rparr>, store)
         | FdSearch t \<Rightarrow> (s\<lparr>fd_searchTerm := t\<rparr>, store)
         | FdType t \<Rightarrow> (s\<lparr>fd_type := t\<rparr>, store)
         | FdMin t \<Rightarrow> (s\<lparr>fd_minAmountSat := trim t\<rparr>, store)
         | FdHide b \<Rightarrow> (s\<lparr>fd_hideFailed := b\<rparr>, store)
         | FdApply \<Rightarrow> (s\<lparr>fd_open := False\<rparr>, setFilters (filters_of s) store)
         | FdReset \<Rightarrow> (s\<lparr>fd_open := False\<rparr>, setFilters defaultTransactionFilters store)))"

lemma safe_positive_bounds: "safe_positive x = Some n \<Longrightarrow> 0 < n \<and> n \<le> 2 ^ 53 - 1"
  by (auto simp: safe_positive_def split: jsnum.splits if_split_asm)

lemma safe_positive_int: "0 < n \<Longrightarrow> n \<le> 2 ^ 53 - 1 \<Longrightarrow> safe_positive (js_Number (show_int n)) = Some n"
  by (simp add: js_Number_show_int safe_positive_def)

lemma trim_Nil [simp]: "trim [] = []"
  by (simp add: trim_def trim_start_def)

lemma safe_positive_empty [simp]: "safe_positive (js_Number []) = None"
  by (simp add: js_Number_def Let_def safe_positive_def)

lemma filters_reopened:
  "fd_open d \<Longrightarrow> filters_of (filter_open_effect (filters_of s) d) = filters_of s"
proof -
  assume "fd_open d"
  then show ?thesis
    using safe_positive_bounds [of "js_Number (fd_minAmountSat s)"]
    by (cases "safe_positive (js_Number (fd_minAmountSat s))"; cases "trim (fd_searchTerm s) = []")
      (simp_all add: filters_of_def filter_open_effect_def safe_positive_int)
qed

text \<open>The filters applied are the ones shown when the dialog is opened again. Applying the dialog stores the trimmed
  search text, the direction, the minimum when it is a whole positive number below \<open>2 ^ 53\<close>, and the
  box; opening the dialog again, whatever was typed in between, and applying it unchanged stores the same.\<close>

lemma filters_survive_dialog:
  "let (s', store') = filter_step (s, store) FdApply; (d, store1) = filter_step (any_dialog, store') FdOpen;
       n = tf_minAmountSat (tfs_filters store')
   in filter_step (d, store1) FdApply = (d\<lparr>fd_open := False\<rparr>, store') \<and>
      tf_searchTerm (tfs_filters store') = (if trim (fd_searchTerm s) = [] then None else Some (trim (fd_searchTerm s))) \<and>
      tf_type (tfs_filters store') = fd_type s \<and> tf_hideFailed (tfs_filters store') = Some (fd_hideFailed s) \<and>
      (case n of None \<Rightarrow> True | Some m \<Rightarrow> 0 < m \<and> m < 2 ^ 53 \<and> js_Number (fd_minAmountSat s) = Fin (of_int m))"
proof -
  have n: "js_Number t = Fin (of_int m) \<and> 0 < m \<and> m < 2 ^ 53" if "safe_positive (js_Number t) = Some m" for t m
    using that by (auto simp: safe_positive_def split: jsnum.splits if_split_asm)
  have "filters_of (filter_open_effect (filters_of s) (any_dialog\<lparr>fd_open := True\<rparr>)) = filters_of s"
    by (rule filters_reopened) simp
  moreover have "tf_searchTerm (filters_of s) = (if trim (fd_searchTerm s) = [] then None else Some (trim (fd_searchTerm s)))"
    "tf_type (filters_of s) = fd_type s" "tf_hideFailed (filters_of s) = Some (fd_hideFailed s)"
    "tf_minAmountSat (filters_of s) = safe_positive (js_Number (fd_minAmountSat s))"
    by (simp_all add: filters_of_def)
  ultimately show ?thesis
    using n [of "fd_minAmountSat s"]
    by (simp add: filter_step_def setFilters_def Let_def split: option.split)
qed

end
