(* ===== verification/PaymentRows.thy ===== *)
theory PaymentRows imports TransactionList
begin

text \<open>
  The pages and rows of the list of payments: \<open>components/TransactionsList.tsx\<close> with
  \<open>CustomPagination.tsx\<close>, \<open>TransactionItem.tsx\<close>, \<open>PodcastingInfo.tsx\<close>, \<open>PaymentFailedAlert.tsx\<close>,
  \<open>OnchainTransactionsList.tsx\<close> and \<open>OnchainTransactionItem.tsx\<close>, and the menu of the list
  (\<open>TransactionsListMenu.tsx\<close>, \<open>UpgradeDialog.tsx\<close>). The relative and absolute texts of a date and the
  encoders of the third-party library \<open>nostr-tools\<close> are arguments.
\<close>

section \<open>Pages\<close>

text \<open>
  The filters are an object of the store; two objects are the same when one was stored as the other, so an object has the
  number of the call of \<open>setFilters\<close> that stored it. \<open>pl_data\<close> is the answer for the key that is asked for.
\<close>

record payment_list =
  pl_appId :: "int option"
  pl_filters :: "nat \<times> TransactionFilters"
  pl_page :: int
  pl_prevListIdentity :: "int option \<times> nat"
  pl_data :: "ListTransactionsResponse option"

definition transactionListKey :: "payment_list \<Rightarrow> string" where
  "transactionListKey s = getTransactionsUrl (pl_appId s) LIST_TRANSACTIONS_LIMIT (pl_page s) (Some (snd (pl_filters s)))"

definition open_payment_list :: "int option \<Rightarrow> nat \<times> TransactionFilters \<Rightarrow> payment_list" where
  "open_payment_list appId filters =
     \<lparr>pl_appId = appId, pl_filters = filters, pl_page = 1, pl_prevListIdentity = (appId, fst filters), pl_data = None\<rparr>"

text \<open>The page is reset during rendering; the data is the cached answer for the key of the render.\<close>

definition render_list :: "(string \<Rightarrow> ListTransactionsResponse option) \<Rightarrow> payment_list \<Rightarrow> payment_list" where
  "render_list cache s =
     (let s' = (if fst (pl_prevListIdentity s) \<noteq> pl_appId s \<or> snd (pl_prevListIdentity s) \<noteq> fst (pl_filters s)
                then s\<lparr>pl_prevListIdentity := (pl_appId s, fst (pl_filters s)), pl_page := 1\<rparr> else s)
      in s'\<lparr>pl_data := cache (transactionListKey s')\<rparr>)"

definition total_pages :: "int \<Rightarrow> int \<Rightarrow> int" where
  "total_pages totalCount limit = \<lceil>(of_int totalCount :: rat) / of_int limit\<rceil>"

record pagination =
  pg_previous :: bool
  pg_numbers :: "page_item list"
  pg_next :: bool

definition CustomPagination :: "int \<Rightarrow> int \<Rightarrow> int \<Rightarrow> pagination option" where
  "CustomPagination page totalCount limit =
     (let totalPages = total_pages totalCount limit
      in if totalPages \<le> 1 then None
         else Some \<lparr>pg_previous = (page \<noteq> 1), pg_numbers = generatePageNumbers page totalPages, pg_next = (page \<noteq> totalPages)\<rparr>)"

datatype payment_list_view =
    ListLoading
  | ListEmpty string string
  | ListRows "Transaction list" "pagination option"

definition payment_list_view_of :: "string \<Rightarrow> string \<Rightarrow> payment_list \<Rightarrow> payment_list_view" where
  "payment_list_view_of emptyTitle emptyDescription s =
     (case pl_data s of
        None \<Rightarrow> ListLoading
      | Some d \<Rightarrow>
          if ltr_transactions d = []
          then (if hasActiveTransactionFilters (snd (pl_filters s))
                then ListEmpty ''No matching payments'' ''Try changing your filters to see more payments.''
                else ListEmpty emptyTitle emptyDescription)
          else ListRows (ltr_transactions d) (CustomPagination (pl_page s) (ltr_totalCount d) LIST_TRANSACTIONS_LIMIT))"

definition shown_pagination :: "payment_list \<Rightarrow> pagination option" where
  "shown_pagination s = (case payment_list_view_of [] [] s of ListRows _ p \<Rightarrow> p | _ \<Rightarrow> None)"

definition shown_total :: "payment_list \<Rightarrow> int" where
  "shown_total s = (case pl_data s of Some d \<Rightarrow> total_pages (ltr_totalCount d) LIST_TRANSACTIONS_LIMIT | None \<Rightarrow> 1)"

text \<open>
  An event of the list: the properties or the store change, an answer has come, or a click. A link that is switched off with
  \<open>pointer-events-none\<close> takes no click.
\<close>

datatype payment_list_event = PlApp "int option" | PlFilters TransactionFilters | PlAnswer | PlPrevious | PlNumber int | PlNext

definition list_click :: "payment_list \<Rightarrow> payment_list_event \<Rightarrow> int option" where
  "list_click s e =
     (case shown_pagination s of
        None \<Rightarrow> None
      | Some p \<Rightarrow>
          (case e of
             PlPrevious \<Rightarrow> if pg_previous p then Some (pl_page s - 1) else None
           | PlNumber n \<Rightarrow> if Page n \<in> set (pg_numbers p) then Some n else None
           | PlNext \<Rightarrow> if pg_next p then Some (pl_page s + 1) else None
           | _ \<Rightarrow> None))"

definition list_event :: "payment_list \<Rightarrow> payment_list_event \<Rightarrow> payment_list" where
  "list_event s e =
     (case e of
        PlApp appId \<Rightarrow> s\<lparr>pl_appId := appId\<rparr>
      | PlFilters f \<Rightarrow> s\<lparr>pl_filters := (Suc (fst (pl_filters s)), f)\<rparr>
      | PlAnswer \<Rightarrow> s
      | _ \<Rightarrow> (case list_click s e of Some n \<Rightarrow> s\<lparr>pl_page := n\<rparr> | None \<Rightarrow> s))"

definition list_step ::
    "payment_list \<Rightarrow> (string \<Rightarrow> ListTransactionsResponse option) \<times> payment_list_event \<Rightarrow> payment_list" where
  "list_step s ce = render_list (fst ce) (list_event s (snd ce))"

subsection \<open>The page stays in the list\<close>

definition payment_list_ok :: "payment_list \<Rightarrow> bool" where
  "payment_list_ok s = (1 \<le> pl_page s \<and> pl_prevListIdentity s = (pl_appId s, fst (pl_filters s)))"

lemma render_list_ok: "1 \<le> pl_page s \<Longrightarrow> payment_list_ok (render_list cache s)"
  by (cases "pl_prevListIdentity s") (simp add: render_list_def payment_list_ok_def Let_def)

lemma page_numbers_within:
  assumes "Page k \<in> set (generatePageNumbers c t)" and "1 < t" and "1 \<le> c"
  shows "1 \<le> k \<and> k \<le> t"
proof -
  have "Page k \<in> Page ` {page_start c t..page_end c t} \<union> {Page 1, Page t}"
    using assms(1) by (auto simp: generatePageNumbers_def Let_def split: if_split_asm)
  moreover have "1 \<le> page_start c t" "page_end c t \<le> t"
    by (simp_all add: page_start_def page_end_def Let_def)
  ultimately show ?thesis using assms(2) by auto
qed

lemma list_click_page:
  assumes "list_click s e = Some n" and "1 \<le> pl_page s"
  shows "1 \<le> n \<and> (pl_page s \<le> shown_total s \<longrightarrow> n \<le> shown_total s)"
proof -
  obtain d p where d: "pl_data s = Some d" and p: "CustomPagination (pl_page s) (ltr_totalCount d) LIST_TRANSACTIONS_LIMIT = Some p"
    using assms(1)
    by (auto simp: list_click_def shown_pagination_def payment_list_view_of_def split: option.splits if_split_asm)
  let ?t = "total_pages (ltr_totalCount d) LIST_TRANSACTIONS_LIMIT"
  have t: "1 < ?t" and pp: "p = \<lparr>pg_previous = (pl_page s \<noteq> 1), pg_numbers = generatePageNumbers (pl_page s) ?t, pg_next = (pl_page s \<noteq> ?t)\<rparr>"
    using p by (auto simp: CustomPagination_def Let_def split: if_split_asm)
  have "shown_pagination s = Some p \<or> shown_pagination s = None"
    using d p by (simp add: shown_pagination_def payment_list_view_of_def)
  then have "(e = PlPrevious \<and> pl_page s \<noteq> 1 \<and> n = pl_page s - 1) \<or> (e = PlNumber n \<and> Page n \<in> set (generatePageNumbers (pl_page s) ?t)) \<or>
      (e = PlNext \<and> pl_page s \<noteq> ?t \<and> n = pl_page s + 1)"
    using assms(1) by (auto simp: list_click_def pp split: payment_list_event.splits if_split_asm)
  then show ?thesis
    using page_numbers_within [of n "pl_page s" ?t] t assms(2) by (auto simp: shown_total_def d)
qed

lemma list_event_page: "1 \<le> pl_page s \<Longrightarrow> 1 \<le> pl_page (list_event s e)"
  using list_click_page [of s e] by (auto simp: list_event_def split: payment_list_event.split option.split)

lemma list_step_ok: "payment_list_ok s \<Longrightarrow> payment_list_ok (list_step s ce)"
  unfolding list_step_def by (intro render_list_ok list_event_page) (simp add: payment_list_ok_def)

interpretation payment_pages: invariant_machine list_step payment_list_ok
  by unfold_locales (rule list_step_ok)


text \<open>The link to the previous page is switched off for the pointer only: with the keyboard it leads from page 1 to page 0.\<close>

lemma page_zero_by_keyboard:
  "pl_page s = 1 \<Longrightarrow>
   params_get (transactions_params (pl_appId s) LIST_TRANSACTIONS_LIMIT (pl_page s - 1) (Some (snd (pl_filters s)))) ''offset'' =
     Some (show_int (- 20))"
  by (simp add: transactions_params_get LIST_TRANSACTIONS_LIMIT_def)

section \<open>Rows\<close>

text \<open>The encoders of the library; \<open>Inl\<close> is an exception.\<close>

type_synonym nip19_encoder = "string \<Rightarrow> string + string"

definition safeEncode :: "nip19_encoder \<Rightarrow> string \<Rightarrow> string option" where
  "safeEncode encode hex = (case encode hex of Inr n \<Rightarrow> Some n | Inl _ \<Rightarrow> None)"

definition tx_meta :: "(TransactionMetadata \<Rightarrow> 'a option) \<Rightarrow> Transaction \<Rightarrow> 'a option" where
  "tx_meta f tx = Option.bind (tx_metadata tx) f"

definition tx_npub :: "nip19_encoder \<Rightarrow> Transaction \<Rightarrow> string option" where
  "tx_npub npubEncode tx =
     (let pubkey = map_option fst (tx_meta tm_nostr tx)
      in if truthy_str pubkey then safeEncode npubEncode (the pubkey) else None)"

definition tx_payerName :: "Transaction \<Rightarrow> string option" where
  "tx_payerName tx = Option.bind (tx_meta tm_payer_data tx) pd_name"

definition zap_text :: "string \<Rightarrow> string \<Rightarrow> string" where
  "zap_text word npub = ''zap '' @ word @ '' '' @ take 12 npub @ ''...''"

definition lockup_address :: "Swap \<Rightarrow> string" where
  "lockup_address swap = (case swap of InSwap i \<Rightarrow> sw_lockupAddress i | OutSwap q \<Rightarrow> sw_lockupAddress q)"

definition tx_from :: "nip19_encoder \<Rightarrow> Swap option \<Rightarrow> Transaction \<Rightarrow> string option" where
  "tx_from npubEncode swap tx =
     (if tx_type tx = Incoming
      then (if truthy_str (tx_payerName tx) then Some (''from '' @ the (tx_payerName tx))
            else if truthy_str (tx_npub npubEncode tx) then Some (zap_text ''from'' (the (tx_npub npubEncode tx)))
            else map_option (\<lambda>q. ''swap from '' @ lockup_address q) swap)
      else None)"

definition recipientIdentifier :: "Transaction \<Rightarrow> string option" where
  "recipientIdentifier tx = Option.bind (tx_meta tm_recipient_identifier tx) (\<lambda>i. i)"

definition tx_to :: "nip19_encoder \<Rightarrow> Swap option \<Rightarrow> Transaction \<Rightarrow> string option" where
  "tx_to npubEncode swap tx =
     (if tx_type tx = Outgoing
      then (if truthy_str (tx_npub npubEncode tx) then Some (zap_text ''to'' (the (tx_npub npubEncode tx)))
            else (case swap of
                    Some (OutSwap q) \<Rightarrow> Some (''swap to '' @ swo_destinationAddress q)
                  | _ \<Rightarrow>
                      if truthy_str (recipientIdentifier tx)
                      then Some ((if tx_state tx = Failed then ''payment '' else []) @ ''to '' @ the (recipientIdentifier tx))
                      else None))
      else None)"

text \<open>\<open>tags?.find((t) => t[0] === "e")?.[1]\<close>, encoded when there is one.\<close>

definition tx_nevent :: "nip19_encoder \<Rightarrow> Transaction \<Rightarrow> string option" where
  "tx_nevent neventEncode tx =
     (let eventId = Option.bind (tx_meta tm_nostr tx) (\<lambda>n.
                      Option.bind (find (\<lambda>t. t \<noteq> [] \<and> hd t = ''e'') (snd n)) (\<lambda>t. if 1 < length t then Some (t ! 1) else None))
      in if truthy_str eventId then safeEncode neventEncode (the eventId) else None)"

definition payer_note :: "Transaction \<Rightarrow> string option" where
  "payer_note tx = map_option snd (tx_meta tm_offer tx)"

definition shown_description :: "Transaction \<Rightarrow> string" where
  "shown_description tx =
     (if tx_description tx \<noteq> [] then tx_description tx
      else if truthy_str (tx_meta tm_comment tx) then the (tx_meta tm_comment tx)
      else nullish (payer_note tx) [])"

definition typeStateText :: "Transaction \<Rightarrow> string" where
  "typeStateText tx =
     (if tx_type tx = Incoming then ''Received''
      else if tx_state tx = Settled then ''Sent''
      else if tx_state tx = Pending then ''Sending'' else ''Failed'')"

datatype row_icon = XIcon | ArrowUpDownIcon | ArrowUpIcon | ArrowDownUpIcon | ArrowDownIcon

definition row_icon_of :: "Transaction \<Rightarrow> row_icon" where
  "row_icon_of tx =
     (let swapId = tx_meta tm_swap_id tx
      in if tx_state tx = Failed then XIcon
         else if tx_type tx = Outgoing then (if truthy_str swapId then ArrowUpDownIcon else ArrowUpIcon)
         else if truthy_str swapId then ArrowDownUpIcon else ArrowDownIcon)"

text \<open>A payment is coloured by its state first: red, blue, then orange or green.\<close>

datatype row_colour = Red | Blue | Orange | Green

definition row_colour_of :: "Transaction \<Rightarrow> row_colour" where
  "row_colour_of tx =
     (if tx_state tx = Failed then Red
      else if tx_state tx = Pending then Blue
      else if tx_type tx = Outgoing then Orange else Green)"

text \<open>The line of the list: text, who, relative time, number of labels, description, sign and amounts.\<close>

record payment_row =
  pr_text :: string
  pr_icon :: row_icon
  pr_colour :: row_colour
  pr_pulses :: bool
  pr_via :: "string option"
  pr_time :: string
  pr_labels :: "string option"
  pr_description :: string
  pr_amountMsat :: int
  pr_amount :: string
  pr_fiatSat :: int

definition label_count_text :: "nat \<Rightarrow> string option" where
  "label_count_text n = (if 0 < n then Some (show_nat n @ '' label'' @ (if n = 1 then [] else ''s'')) else None)"

definition tx_labels :: "Transaction \<Rightarrow> labels" where
  "tx_labels tx = nullish (tx_meta tm_user_labels tx) []"

text \<open>\<open>FormattedBitcoinAmount\<close> shows nothing before the info is loaded.\<close>

definition FormattedBitcoinAmount :: "(int \<Rightarrow> string) \<Rightarrow> InfoResponse option \<Rightarrow> int \<Rightarrow> string" where
  "FormattedBitcoinAmount fmt info amountMsat =
     (case info of None \<Rightarrow> [] | Some i \<Rightarrow> formatBitcoinAmount fmt amountMsat (info_bitcoinDisplayFormat i) True)"

definition row_sign :: "Transaction \<Rightarrow> string" where
  "row_sign tx = (if tx_type tx = Outgoing then ''-'' else ''+'')"

definition TransactionItem ::
    "nip19_encoder \<Rightarrow> (string \<Rightarrow> string) \<Rightarrow> (int \<Rightarrow> string) \<Rightarrow> InfoResponse option \<Rightarrow> App option \<Rightarrow> Swap option \<Rightarrow>
     Transaction \<Rightarrow> payment_row" where
  "TransactionItem npubEncode fromNow fmt info app swap tx =
     \<lparr>pr_text = typeStateText tx @
        (case tx_from npubEncode swap tx of Some t \<Rightarrow> CHR '' '' # t | None \<Rightarrow> []) @
        (case tx_to npubEncode swap tx of Some t \<Rightarrow> CHR '' '' # t | None \<Rightarrow> []),
      pr_icon = row_icon_of tx, pr_colour = row_colour_of tx, pr_pulses = (tx_state tx = Pending),
      pr_via = map_option (\<lambda>a. typeStateText tx @ '' via '' @ getAppDisplayName (app_name a)) app,
      pr_time = fromNow (tx_updatedAt tx), pr_labels = label_count_text (length (tx_labels tx)),
      pr_description = shown_description tx, pr_amountMsat = tx_amountMsat tx,
      pr_amount = row_sign tx @ FormattedBitcoinAmount fmt info (tx_amountMsat tx), pr_fiatSat = tx_amountSat tx\<rparr>"

subsection \<open>The dialog of a payment\<close>

text \<open>A line of the dialog: its label, its text, where it links to and what its button copies.\<close>

record detail_row =
  dr_label :: string
  dr_text :: string
  dr_link :: "string option"
  dr_copyable :: "string option"

definition plain_row :: "string \<Rightarrow> string \<Rightarrow> detail_row" where
  "plain_row l t = \<lparr>dr_label = l, dr_text = t, dr_link = None, dr_copyable = None\<rparr>"

definition link_row :: "string \<Rightarrow> string \<Rightarrow> string \<Rightarrow> detail_row" where
  "link_row l t u = \<lparr>dr_label = l, dr_text = t, dr_link = Some u, dr_copyable = None\<rparr>"

definition copy_row :: "string \<Rightarrow> string \<Rightarrow> detail_row" where
  "copy_row l t = \<lparr>dr_label = l, dr_text = t, dr_link = None, dr_copyable = Some t\<rparr>"

definition row_if :: "bool \<Rightarrow> detail_row \<Rightarrow> detail_row list" where
  "row_if c r = (if c then [r] else [])"

text \<open>\<open>((fee / amount) * 100).toFixed(2)\<close>; dividing by 0 prints \<open>Infinity\<close>.\<close>

definition fee_percent :: "int \<Rightarrow> int \<Rightarrow> string" where
  "fee_percent fee amount =
     (if amount = 0 then ''Infinity'' else to_fixed 2 (of_int fee / of_int amount * 100))"

definition fee_text :: "(int \<Rightarrow> string) \<Rightarrow> InfoResponse option \<Rightarrow> Transaction \<Rightarrow> string" where
  "fee_text fmt info tx =
     FormattedBitcoinAmount fmt info (tx_feesPaidMsat tx) @
     (if tx_type tx = Outgoing then '' ('' @ fee_percent (tx_feesPaidMsat tx) (tx_amountMsat tx) @ ''%)'' else [])"

definition swap_status_path :: "Transaction \<Rightarrow> string \<Rightarrow> string" where
  "swap_status_path tx swapId =
     ''/wallet/swap/'' @ (if tx_type tx = Incoming then ''in'' else ''out'') @ ''/status/'' @ swapId"

definition payment_dialog_rows ::
    "nip19_encoder \<Rightarrow> nip19_encoder \<Rightarrow> (string \<Rightarrow> string) \<Rightarrow> (int \<Rightarrow> string) \<Rightarrow> InfoResponse option \<Rightarrow> App option \<Rightarrow>
     Swap option \<Rightarrow> Transaction \<Rightarrow> detail_row list" where
  "payment_dialog_rows npubEncode neventEncode dateText fmt info app swap tx =
     (let npub = tx_npub npubEncode tx; nevent = tx_nevent neventEncode tx; to = tx_to npubEncode swap tx;
          swapId = tx_meta tm_swap_id tx
      in (case app of Some a \<Rightarrow> [link_row ''App'' (getAppDisplayName (app_name a)) (''/apps/'' @ show_int (app_id a))] | None \<Rightarrow> []) @
         row_if (truthy_str swapId) (link_row ''Swap Id'' (the swapId) (swap_status_path tx (the swapId))) @
         row_if (truthy_str to) (plain_row ''To'' (the to)) @
         row_if (truthy_str (tx_payerName tx)) (plain_row ''From'' (the (tx_payerName tx))) @
         [plain_row ''Date & Time'' (dateText (tx_updatedAt tx))] @
         row_if (tx_state tx \<noteq> Failed \<and> 0 < tx_feesPaidMsat tx) (plain_row ''Fee'' (fee_text fmt info tx)) @
         row_if (tx_description tx \<noteq> []) (plain_row ''Description'' (tx_description tx)) @
         row_if (truthy_str (tx_meta tm_comment tx)) (plain_row ''Comment'' (the (tx_meta tm_comment tx))) @
         row_if (truthy_str (payer_note tx)) (plain_row ''Payer Note'' (the (payer_note tx))) @
         row_if (truthy_str nevent \<and> truthy_str npub)
           (link_row ''Nostr Zap'' (''from '' @ the npub) (''https://njump.me/'' @ the nevent)))"

text \<open>
  The part that is opened with Details; \<open>metadata_text\<close> is the JSON of the object as it was received.
\<close>

text \<open>\<open>n && <row>\<close> for the number 0 is shown as the text 0.\<close>

definition stray_zero :: detail_row where
  "stray_zero = plain_row [] ''0''"

definition PodcastingInfo :: "(int \<Rightarrow> string) \<Rightarrow> InfoResponse option \<Rightarrow> Boostagram \<Rightarrow> detail_row list" where
  "PodcastingInfo fmt info boost =
     (let opt = (\<lambda>l t. row_if (truthy_str t) (plain_row l (the t)))
      in opt ''Message'' (boost_message boost) @ opt ''Podcast'' (Some (boost_podcast boost)) @
         opt ''Episode'' (boost_episode boost) @ [plain_row ''Action'' ''boost''] @
         (case boost_ts boost of
            None \<Rightarrow> []
          | Some ts \<Rightarrow> if ts = 0 then [stray_zero] else [plain_row ''Timestamp'' (show_int ts)]) @
         (if boost_valueMsatTotal boost = 0 then [stray_zero]
          else [plain_row ''Total amount'' (FormattedBitcoinAmount fmt info (boost_valueMsatTotal boost))]) @
         opt ''Sender'' (Some (boost_senderName boost)) @ opt ''App'' (Some (boost_appName boost)))"

definition payment_details ::
    "(TransactionMetadata \<Rightarrow> string) \<Rightarrow> (int \<Rightarrow> string) \<Rightarrow> InfoResponse option \<Rightarrow> Transaction \<Rightarrow> detail_row list" where
  "payment_details metadata_text fmt info tx =
     (case tx_boostagram tx of Some b \<Rightarrow> PodcastingInfo fmt info b | None \<Rightarrow> []) @
     (case tx_meta tm_offer tx of Some q \<Rightarrow> [copy_row ''BOLT-12 Offer Id'' (fst q)] | None \<Rightarrow> []) @
     row_if (truthy_str (tx_preimage tx)) (copy_row ''Preimage'' (the (tx_preimage tx))) @
     [copy_row ''Hash'' (tx_paymentHash tx), copy_row ''Invoice'' (tx_invoice tx)] @
     row_if (tx_failureReason tx \<noteq> []) (copy_row ''Failure Reason'' (tx_failureReason tx)) @
     (case tx_metadata tx of Some m \<Rightarrow> [copy_row ''Metadata'' (metadata_text m)] | None \<Rightarrow> [])"

record payment_item =
  pi_open :: bool
  pi_showDetails :: bool

datatype payment_item_event = PiOpenChange bool | PiToggleDetails

definition payment_item_step :: "payment_item \<Rightarrow> payment_item_event \<Rightarrow> payment_item" where
  "payment_item_step s e =
     (case e of
        PiOpenChange b \<Rightarrow> (if b then s\<lparr>pi_open := True\<rparr> else s\<lparr>pi_open := False, pi_showDetails := False\<rparr>)
      | PiToggleDetails \<Rightarrow> (if pi_open s then s\<lparr>pi_showDetails := \<not> pi_showDetails s\<rparr> else s))"

definition payment_dialog ::
    "payment_item \<Rightarrow> nip19_encoder \<Rightarrow> nip19_encoder \<Rightarrow> (TransactionMetadata \<Rightarrow> string) \<Rightarrow> (string \<Rightarrow> string) \<Rightarrow> (int \<Rightarrow> string) \<Rightarrow>
     InfoResponse option \<Rightarrow> App option \<Rightarrow> Swap option \<Rightarrow> Transaction \<Rightarrow> (string \<times> detail_row list \<times> bool \<times> labels \<times> detail_row list) option" where
  "payment_dialog s npubEncode neventEncode metadata_text dateText fmt info app swap tx =
     (if pi_open s
      then Some (typeStateText tx @ '' Bitcoin Payment'',
                 payment_dialog_rows npubEncode neventEncode dateText fmt info app swap tx,
                 tx_state tx = Failed, tx_labels tx,
                 (if pi_showDetails s then payment_details metadata_text fmt info tx else []))
      else None)"

text \<open>What a button copies is the text beside it.\<close>

lemma copies_what_is_shown:
  "list_all (\<lambda>r. dr_copyable r = None \<or> dr_copyable r = Some (dr_text r))
     (payment_details metadata_text fmt info tx @
      payment_dialog_rows npubEncode neventEncode dateText fmt info app swap tx)"
  by (auto simp: payment_details_def payment_dialog_rows_def PodcastingInfo_def stray_zero_def row_if_def plain_row_def link_row_def copy_row_def
      Let_def list_all_iff split: option.splits)

text \<open>
  For a zap that was sent, the row says that it went to the key, and the dialog says that it came from the same key.
\<close>

lemma sent_zap_from_itself:
  assumes "tx_type tx = Outgoing" and "tx_npub npubEncode tx = Some npub" and "npub \<noteq> []"
    and "tx_nevent neventEncode tx = Some nevent" and "nevent \<noteq> []"
  shows "tx_to npubEncode swap tx = Some (''zap to '' @ take 12 npub @ ''...'') \<and>
    link_row ''Nostr Zap'' (''from '' @ npub) (''https://njump.me/'' @ nevent) \<in>
      set (payment_dialog_rows npubEncode neventEncode dateText fmt info app swap tx)"
  using assms by (simp add: tx_to_def zap_text_def payment_dialog_rows_def Let_def row_if_def)

lemma zero_amount_percent: "fee_percent fee 0 = ''Infinity''"
  by (simp add: fee_percent_def)

section \<open>Reporting a failed payment\<close>

definition failed_details :: "string \<Rightarrow> string \<Rightarrow> json option \<Rightarrow> json" where
  "failed_details invoice errorMessage channels =
     JObj ([(''invoice'', JStr invoice), (''errorMessage'', JStr errorMessage)] @ opt_member ''channels'' channels)"

text \<open>The state is whether the details are being sent.\<close>

definition sendDetailsToAlby :: "server \<Rightarrow> string \<Rightarrow> string \<Rightarrow> json option \<Rightarrow> (bool, unit) act" where
  "sendDetailsToAlby srv invoice errorMessage channels =
     andDo (setS (\<lambda>_. True))
     (andDo (sendEvent srv ''payment_failed_details'' (Some (failed_details invoice errorMessage channels)))
     (andDo (toast ''Thanks for improving Alby Hub.'') (setS (\<lambda>_. False))))"

text \<open>The details are sent once; the button is free again and the user is thanked also when sending failed.\<close>

lemma sendDetails_run:
  "sendDetailsToAlby srv invoice errorMessage channels w =
     (Inr (), \<lparr>ui_st = False, ui_log = ui_log w @
        [EFetch ''POST'' ''/api/event''
           (Some (JObj [(''event'', JStr ''payment_failed_details''), (''properties'', failed_details invoice errorMessage channels)])),
         EToast ''Thanks for improving Alby Hub.'' None]\<rparr>)"
  by (cases w) (simp add: sendDetailsToAlby_def sendEvent_def effect_defs opt_member_def split: sum.split)

section \<open>On-chain transactions\<close>

definition typeStateLabel :: "OnchainTransaction \<Rightarrow> string" where
  "typeStateLabel tx =
     (if otx_type tx = Outgoing then (if otx_state tx = Confirmed then ''Sent'' else ''Sending'')
      else if otx_state tx = Confirmed then ''Received'' else ''Receiving'')"

record onchain_row =
  or_title :: string
  or_icon :: row_icon
  or_colour :: row_colour
  or_pulses :: bool
  or_time :: string
  or_amount :: string
  or_fiatSat :: int
  or_rows :: "detail_row list"
  or_mempool :: string

text \<open>The dates are printed from milliseconds. Without the info the address of the explorer is the text \<open>undefined\<close>.\<close>

definition OnchainTransactionItem ::
    "(int \<Rightarrow> string) \<Rightarrow> (int \<Rightarrow> string) \<Rightarrow> (int \<Rightarrow> string) \<Rightarrow> InfoResponse option \<Rightarrow> string option \<Rightarrow> OnchainTransaction \<Rightarrow> onchain_row" where
  "OnchainTransactionItem fromNow dateText fmt info mempoolUrl tx =
     \<lparr>or_title = typeStateLabel tx, or_icon = (if otx_type tx = Outgoing then ArrowUpIcon else ArrowDownIcon),
      or_colour = (if otx_state tx = Unconfirmed then Blue else if otx_type tx = Outgoing then Orange else Green),
      or_pulses = (otx_state tx = Unconfirmed), or_time = fromNow (otx_createdAt tx * 1000),
      or_amount = (if otx_type tx = Outgoing then ''-'' else ''+'') @ FormattedBitcoinAmount fmt info (otx_amountSat tx * 1000),
      or_fiatSat = otx_amountSat tx,
      or_rows = [plain_row ''Status'' (if otx_state tx = Unconfirmed then ''Pending'' else ''Confirmed''),
                 plain_row ''Confirmations'' (show_int (otx_numConfirmations tx)),
                 plain_row ''Date & Time'' (dateText (otx_createdAt tx * 1000)),
                 copy_row ''Transaction ID'' (otx_txId tx)],
      or_mempool = nullish mempoolUrl ''undefined'' @ ''/tx/'' @ otx_txId tx\<rparr>"

datatype onchain_list_view = OnchainLoading | OnchainEmpty | OnchainRows "onchain_row list"

definition OnchainTransactionsList ::
    "(int \<Rightarrow> string) \<Rightarrow> (int \<Rightarrow> string) \<Rightarrow> (int \<Rightarrow> string) \<Rightarrow> InfoResponse option \<Rightarrow> OnchainTransaction list option \<Rightarrow> onchain_list_view" where
  "OnchainTransactionsList fromNow dateText fmt info transactions =
     (case transactions of
        None \<Rightarrow> OnchainLoading
      | Some [] \<Rightarrow> OnchainEmpty
      | Some txs \<Rightarrow> OnchainRows (map (OnchainTransactionItem fromNow dateText fmt info (map_option info_mempoolUrl info)) txs))"

lemma mempool_link_before_info:
  "or_mempool (OnchainTransactionItem fromNow dateText fmt None None tx) = ''undefined/tx/'' @ otx_txId tx"
  by (simp add: OnchainTransactionItem_def)

section \<open>The menu of the list\<close>

datatype upgrade_view = UpgradeHidden | UpgradeDialog "string list"

text \<open>The dialog and the element that opens it are there only for a hub without a plan, once that is known.\<close>

definition upgrade_benefits :: "InfoResponse \<Rightarrow> string list" where
  "upgrade_benefits i =
     [''Unlimited sub-wallets''] @ (if info_backendType i = LDK then [''Encrypted remote backups''] else []) @
     [''Custom lightning address'', ''Export transactions'', ''Email notifications'', ''Priority support'']"

definition UpgradeDialog_view :: "InfoResponse option \<Rightarrow> AlbyMe option \<Rightarrow> upgrade_view" where
  "UpgradeDialog_view info albyMe =
     (case info of
        None \<Rightarrow> UpgradeHidden
      | Some i \<Rightarrow>
          if info_albyAccountConnected i \<and> albyMe = None then UpgradeHidden
          else if has_plan albyMe then UpgradeHidden
          else UpgradeDialog (upgrade_benefits i))"

text \<open>A Pro entry of a menu: it runs its action, opens the upgrade dialog, or is not there.\<close>

datatype pro_entry = ProAction | ProUpgrade | ProAbsent

definition ProDropdownMenuItem :: "InfoResponse option \<Rightarrow> AlbyMe option \<Rightarrow> pro_entry" where
  "ProDropdownMenuItem info albyMe =
     (if has_plan albyMe then ProAction
      else (case UpgradeDialog_view info albyMe of UpgradeHidden \<Rightarrow> ProAbsent | UpgradeDialog _ \<Rightarrow> ProUpgrade))"

definition export_click ::
    "InfoResponse option \<Rightarrow> AlbyMe option \<Rightarrow> nat \<Rightarrow> (nat \<Rightarrow> string) \<Rightarrow> server \<Rightarrow> int option \<Rightarrow> ((string \<times> string) list, unit) act" where
  "export_click info albyMe fuel format srv appId =
     (case ProDropdownMenuItem info albyMe of
        ProAction \<Rightarrow> handleExportTransactions fuel format srv appId
      | _ \<Rightarrow> ret ())"

lemma export_only_with_plan:
  "\<not> has_plan albyMe \<Longrightarrow> export_click info albyMe fuel format srv appId w = (Inr (), w)"
  by (cases info) (simp_all add: export_click_def ProDropdownMenuItem_def UpgradeDialog_view_def ret_def)

end
