(* ===== verification/InternalApps.thy ===== *)
theory InternalApps imports PaymentRows
begin

text \<open>
  The apps inside the hub (\<open>screens/internal-apps/\<close>): the forms that create a connection for a widget, a shop, a game
  or an agent (\<open>LightningMessageboard.tsx\<close>, \<open>SimpleBoost.tsx\<close>, \<open>BuzzPay.tsx\<close>, \<open>Tictactoe.tsx\<close>,
  \<open>AlbyCliSkill.tsx\<close>), and the recurring payments of \<open>ZapPlanner.tsx\<close>. Currency conversion and the lookup of a
  lightning address belong to a third-party library and are arguments.
\<close>

section \<open>Forms that create a connection\<close>

text \<open>
  \<open>cf_uri\<close> is what the page keeps of the answer: the pairing URI, or the link made of it. An undefined URI and an empty one
  are both shown as the form.
\<close>

record connect_form =
  ia_name :: string
  ia_isLoading :: bool
  ia_uri :: string
  ia_scriptContent :: string

definition init_connect_form :: connect_form where
  "init_connect_form = \<lparr>ia_name = [], ia_isLoading = False, ia_uri = [], ia_scriptContent = []\<rparr>"

definition pairing_uri :: "json \<Rightarrow> string option" where
  "pairing_uri j = jget_str ''pairingUri'' j"

definition store_metadata :: "string \<Rightarrow> AppMetadata" where
  "store_metadata appId = \<lparr>meta_app_store_app_id = Some appId, meta_lud16 = None, meta_rest = []\<rparr>"

definition isolated_request :: "string \<Rightarrow> Scope list \<Rightarrow> string \<Rightarrow> CreateAppRequest" where
  "isolated_request name scopes appId =
     \<lparr>car_name = name, car_pubkey = None, car_maxAmountSat = None, car_maxAmountMsat = None, car_budgetRenewal = None,
      car_expiresAt = None, car_scopes = scopes, car_returnTo = None, car_isolated = Some True,
      car_metadata = Some (store_metadata appId), car_unlockPassword = None\<rparr>"

definition budget_request :: "string \<Rightarrow> Scope list \<Rightarrow> string \<Rightarrow> CreateAppRequest" where
  "budget_request name scopes appId =
     \<lparr>car_name = name, car_pubkey = None, car_maxAmountSat = Some DEFAULT_APP_BUDGET_SATS, car_maxAmountMsat = None,
      car_budgetRenewal = Some DEFAULT_APP_BUDGET_RENEWAL, car_expiresAt = None, car_scopes = scopes, car_returnTo = None,
      car_isolated = None, car_metadata = Some (store_metadata appId), car_unlockPassword = None\<rparr>"

text \<open>The list of the connections of an app, that is asked for again after one was created.\<close>

definition store_apps_key :: "string \<Rightarrow> string" where
  "store_apps_key appId =
     apps_url LIST_APPS_LIMIT 1 (Some (no_app_filters\<lparr>af_appStoreAppId := Some appId\<rparr>)) None"

text \<open>\<open>done\<close> is what follows a created connection inside the try block, \<open>after\<close> what comes last.\<close>

definition connect_submit ::
    "server \<Rightarrow> CreateAppRequest \<Rightarrow> (string option \<Rightarrow> (connect_form, unit) act) \<Rightarrow> string \<Rightarrow> (connect_form, unit) act \<Rightarrow> (connect_form, unit) act" where
  "connect_submit srv req done failed after =
     andDo (setS (\<lambda>s. s\<lparr>ia_isLoading := True\<rparr>))
     (andDo
        (tryCatch (andThen (createApp srv req) (\<lambda>j. done (pairing_uri j))) (\<lambda>error. request_error failed error))
        (andDo (setS (\<lambda>s. s\<lparr>ia_isLoading := False\<rparr>)) after))"

subsection \<open>Widgets for a web site\<close>

text \<open>The effect on the pairing URI.\<close>

definition dquote :: string where "dquote = [CHR 0x22]"

definition messageboard_script :: "string \<Rightarrow> string" where
  "messageboard_script nwcUri =
     ''<script type='' @ dquote @ ''module'' @ dquote @ '' src='' @ dquote @ ''https://esm.sh/@getalby/lightning-messageboard@latest'' @ dquote @ ''></script>'' @
     [CHR 0x0A] @ ''        <lightning-messageboard nwc-url='' @ dquote @ nwcUri @ dquote @ ''></lightning-messageboard>''"

definition simpleboost_script :: "string \<Rightarrow> string" where
  "simpleboost_script nwcUri =
     ''<script type='' @ dquote @ ''module'' @ dquote @ '' src='' @ dquote @ ''https://esm.sh/simple-boost@latest'' @ dquote @ ''></script>'' @ [CHR 0x0A] @
     ''<simple-boost currency='' @ dquote @ ''usd'' @ dquote @ '' amount='' @ dquote @ ''1.0'' @ dquote @ '' nwc='' @ dquote @ nwcUri @ dquote @ ''>Boost $1.00</simple-boost>''"

definition set_uri :: "(string \<Rightarrow> string) \<Rightarrow> string option \<Rightarrow> connect_form \<Rightarrow> connect_form" where
  "set_uri script uri s =
     (if truthy_str uri then s\<lparr>ia_uri := the uri, ia_scriptContent := script (the uri)\<rparr> else s\<lparr>ia_uri := []\<rparr>)"

definition messageboard_handleSubmit :: "server \<Rightarrow> (connect_form, unit) act" where
  "messageboard_handleSubmit srv =
     andThen (getS ia_name) (\<lambda>name.
       connect_submit srv (isolated_request name [lookup_invoice, make_invoice, list_transactions] ''lightning-messageboard'')
         (\<lambda>uri. andDo (setS (set_uri messageboard_script uri)) (toast ''Lightning Messageboard connection created''))
         ''Failed to create connection'' (ret ()))"

definition simpleboost_handleSubmit :: "server \<Rightarrow> (connect_form, unit) act" where
  "simpleboost_handleSubmit srv =
     andThen (getS ia_name) (\<lambda>name.
       connect_submit srv (isolated_request name [lookup_invoice, make_invoice] ''simpleboost'')
         (\<lambda>uri. andDo (setS (set_uri simpleboost_script uri)) (toast ''Simple Boost connection created''))
         ''Failed to create connection'' (ret ()))"

subsection \<open>Point of sale\<close>

definition base64_char :: "nat \<Rightarrow> char" where
  "base64_char n =
     (''ABCDEFGHIJKLMNOPQRSTUVWXYZabcdefghijklmnopqrstuvwxyz0123456789+/'' ! n)"

text \<open>\<open>btoa\<close> of a text of single bytes.\<close>

fun btoa :: "string \<Rightarrow> string" where
  "btoa (a # b # c # s) =
     (let n = of_char a * 65536 + of_char b * 256 + of_char c
      in map base64_char [n div 262144, n div 4096 mod 64, n div 64 mod 64, n mod 64] @ btoa s)"
| "btoa [a, b] =
     (let n = of_char a * 256 + of_char b
      in map base64_char [n div 1024, n div 16 mod 64, n mod 16 * 4] @ ''='')"
| "btoa [a] = map base64_char [of_char a div 4, of_char a mod 4 * 16] @ ''==''"
| "btoa [] = []"

definition pos_url :: "string \<Rightarrow> string \<Rightarrow> string" where
  "pos_url uri name =
     ''https://pos.albylabs.com/#/?nwc='' @ btoa uri @ ''&label='' @ encodeURIComponent name"

definition buzzpay_handleSubmit :: "server \<Rightarrow> (connect_form, unit) act" where
  "buzzpay_handleSubmit srv =
     andThen (getS ia_name) (\<lambda>name.
       connect_submit srv (isolated_request name [get_info, lookup_invoice, make_invoice] ''buzzpay'')
         (\<lambda>uri. andDo (setS (\<lambda>s. s\<lparr>ia_uri := pos_url (nullish uri ''undefined'') name\<rparr>))
            (andDo (emit (EMutate (store_apps_key ''buzzpay''))) (toast ''BuzzPay PoS connection created'')))
         ''Failed to create PoS connection'' (ret ()))"

subsection \<open>Tic Tac Toe and the skill for agents\<close>

definition tictactoe_link :: "string \<Rightarrow> string" where
  "tictactoe_link uri = ''https://lntictactoe.com/#nwc='' @ encodeURIComponent uri"

text \<open>The effect on the link opens it in a new window; it runs last.\<close>

definition tictactoe_handleSubmit :: "server \<Rightarrow> (connect_form, unit) act" where
  "tictactoe_handleSubmit srv =
     connect_submit srv
       (budget_request (asa_title app_tictactoe) [get_info, lookup_invoice, make_invoice, pay_invoice] ''tictactoe'')
       (\<lambda>uri. andDo (setS (\<lambda>s. s\<lparr>ia_uri := tictactoe_link (nullish uri ''undefined'')\<rparr>))
          (toast ''Tic Tac Toe connection created''))
       ''Failed to create connection''
       (andDo (emit (EMutate (store_apps_key ''tictactoe'')))
              (andThen (getS ia_uri) (\<lambda>u. whenD (u \<noteq> []) (emit (EOpen u)))))"

definition skill_handleSubmit :: "server \<Rightarrow> (connect_form, unit) act" where
  "skill_handleSubmit srv =
     connect_submit srv
       (budget_request (asa_title app_alby_cli_skill)
          [get_info, get_balance, list_transactions, lookup_invoice, make_invoice, notifications, pay_invoice, sign_message]
          ''alby-cli-skill'')
       (\<lambda>uri. andDo (setS (\<lambda>s. s\<lparr>ia_uri := nullish uri []\<rparr>)) (toast ''Alby CLI Skill connection created''))
       ''Failed to create connection'' (ret ())"

subsection \<open>The pages\<close>

datatype internal_app = Messageboard | SimpleBoost | BuzzPay | Tictactoe | AlbyCliSkill

definition internal_submit :: "internal_app \<Rightarrow> server \<Rightarrow> (connect_form, unit) act" where
  "internal_submit a =
     (case a of
        Messageboard \<Rightarrow> messageboard_handleSubmit
      | SimpleBoost \<Rightarrow> simpleboost_handleSubmit
      | BuzzPay \<Rightarrow> buzzpay_handleSubmit
      | Tictactoe \<Rightarrow> tictactoe_handleSubmit
      | AlbyCliSkill \<Rightarrow> skill_handleSubmit)"

definition has_name_field :: "internal_app \<Rightarrow> bool" where
  "has_name_field a = (a \<in> {Messageboard, SimpleBoost, BuzzPay})"

datatype connect_event = IaName string | IaSubmit | IaScript string | IaOpenLink

text \<open>
  The form is shown while there is no URI; its name is required. A link can be opened again, a script be edited.
\<close>

definition connect_allowed :: "internal_app \<Rightarrow> connect_form \<Rightarrow> connect_event \<Rightarrow> bool" where
  "connect_allowed a s e =
     (case e of
        IaName _ \<Rightarrow> has_name_field a \<and> ia_uri s = []
      | IaSubmit \<Rightarrow> ia_uri s = [] \<and> \<not> ia_isLoading s \<and> (has_name_field a \<longrightarrow> ia_name s \<noteq> [])
      | IaScript _ \<Rightarrow> a \<in> {Messageboard, SimpleBoost} \<and> ia_uri s \<noteq> []
      | IaOpenLink \<Rightarrow> a \<in> {BuzzPay, Tictactoe} \<and> ia_uri s \<noteq> [])"

definition connect_handler :: "internal_app \<Rightarrow> server \<Rightarrow> connect_event \<Rightarrow> (connect_form, unit) act" where
  "connect_handler a srv e =
     (case e of
        IaName n \<Rightarrow> setS (\<lambda>s. s\<lparr>ia_name := n\<rparr>)
      | IaSubmit \<Rightarrow> internal_submit a srv
      | IaScript t \<Rightarrow> setS (\<lambda>s. s\<lparr>ia_scriptContent := t\<rparr>)
      | IaOpenLink \<Rightarrow> andThen (getS ia_uri) (\<lambda>u. emit (EOpen u)))"

definition connect_step :: "internal_app \<Rightarrow> server \<Rightarrow> connect_form ui \<Rightarrow> connect_event \<Rightarrow> connect_form ui" where
  "connect_step a srv w e = (if connect_allowed a (ui_st w) e then snd (connect_handler a srv e w) else w)"

subsection \<open>What the connections may do\<close>

definition connect_request :: "internal_app \<Rightarrow> string \<Rightarrow> CreateAppRequest" where
  "connect_request a name =
     (case a of
        Messageboard \<Rightarrow> isolated_request name [lookup_invoice, make_invoice, list_transactions] ''lightning-messageboard''
      | SimpleBoost \<Rightarrow> isolated_request name [lookup_invoice, make_invoice] ''simpleboost''
      | BuzzPay \<Rightarrow> isolated_request name [get_info, lookup_invoice, make_invoice] ''buzzpay''
      | Tictactoe \<Rightarrow> budget_request (asa_title app_tictactoe) [get_info, lookup_invoice, make_invoice, pay_invoice] ''tictactoe''
      | AlbyCliSkill \<Rightarrow> budget_request (asa_title app_alby_cli_skill)
          [get_info, get_balance, list_transactions, lookup_invoice, make_invoice, notifications, pay_invoice, sign_message]
          ''alby-cli-skill'')"

definition connect_result :: "internal_app \<Rightarrow> string \<Rightarrow> string option \<Rightarrow> string" where
  "connect_result a name uri =
     (case a of
        BuzzPay \<Rightarrow> pos_url (nullish uri ''undefined'') name
      | Tictactoe \<Rightarrow> tictactoe_link (nullish uri ''undefined'')
      | _ \<Rightarrow> nullish uri [])"

definition created_with :: "internal_app \<Rightarrow> server \<Rightarrow> connect_form ui \<Rightarrow> string \<Rightarrow> json option" where
  "created_with a srv w name =
     (case srv (ui_log w) ''POST'' ''/api/apps'' (Some (create_app_json (connect_request a name))) of
        Inr (Some j) \<Rightarrow> if json_truthy j then Some j else None
      | _ \<Rightarrow> None)"

lemma internal_submit_run:
  "let w' = snd (internal_submit a srv w); name = ia_name (ui_st w) in
     (\<exists>rest. ui_log w' = ui_log w @ EFetch ''POST'' ''/api/apps'' (Some (create_app_json (connect_request a name))) # rest \<and>
        fetches rest = []) \<and>
     \<not> ia_isLoading (ui_st w') \<and> ia_name (ui_st w') = name \<and>
     ia_uri (ui_st w') = (case created_with a srv w name of
        Some j \<Rightarrow> connect_result a name (pairing_uri j) | None \<Rightarrow> ia_uri (ui_st w))"
  by (cases a)
    (simp_all add: internal_submit_def messageboard_handleSubmit_def simpleboost_handleSubmit_def buzzpay_handleSubmit_def
      tictactoe_handleSubmit_def skill_handleSubmit_def connect_submit_def createApp_def getS_then request_error_def
      handleRequestError_def effect_defs Let_def created_with_def connect_request_def connect_result_def set_uri_def truthy_str_def
      split: sum.split option.split prod.split)

lemma connect_request_facts:
  "car_scopes (connect_request Messageboard n) = [lookup_invoice, make_invoice, list_transactions]"
  "car_scopes (connect_request SimpleBoost n) = [lookup_invoice, make_invoice]"
  "car_scopes (connect_request BuzzPay n) = [get_info, lookup_invoice, make_invoice]"
  "superuser \<notin> set (car_scopes (connect_request a n))"
  "car_isolated (connect_request a n) = (if has_name_field a then Some True else None)"
  "car_maxAmountSat (connect_request a n) = (if has_name_field a then None else Some 100000)"
  "car_budgetRenewal (connect_request a n) = (if has_name_field a then None else Some Monthly)"
  "has_name_field a \<Longrightarrow> car_name (connect_request a n) = n"
  "car_metadata (connect_request a n) = Some (store_metadata (case a of Messageboard \<Rightarrow> ''lightning-messageboard''
     | SimpleBoost \<Rightarrow> ''simpleboost'' | BuzzPay \<Rightarrow> ''buzzpay'' | Tictactoe \<Rightarrow> ''tictactoe'' | AlbyCliSkill \<Rightarrow> ''alby-cli-skill''))"
  "meta_app_store_app_id (store_metadata x) = Some x"
  "\<not> has_name_field Tictactoe" "\<not> has_name_field AlbyCliSkill"
  by (cases a; simp add: connect_request_def isolated_request_def budget_request_def has_name_field_def store_metadata_def
      DEFAULT_APP_BUDGET_SATS_def DEFAULT_APP_BUDGET_RENEWAL_def)+

lemma connect_result_name: "connect_result a (car_name (connect_request a n)) u = connect_result a n u"
  by (cases a) (simp_all add: connect_result_def connect_request_def isolated_request_def)

lemma create_app_json_name: "create_app_json r = create_app_json r' \<Longrightarrow> car_name r = car_name r'"
  by (simp add: create_app_json_def)

definition creates_limited :: "internal_app \<Rightarrow> effect \<Rightarrow> bool" where
  "creates_limited a e =
     (\<exists>name. e = EFetch ''POST'' ''/api/apps'' (Some (create_app_json (connect_request a name))) \<and>
       (has_name_field a \<longrightarrow> name \<noteq> []))"

definition uri_given :: "internal_app \<Rightarrow> server \<Rightarrow> effect list \<Rightarrow> string \<Rightarrow> bool" where
  "uri_given a srv l u =
     (\<exists>k r name j. l = k @ EFetch ''POST'' ''/api/apps'' (Some (create_app_json (connect_request a name))) # r \<and>
       srv k ''POST'' ''/api/apps'' (Some (create_app_json (connect_request a name))) = Inr (Some j) \<and>
       u = connect_result a name (pairing_uri j))"

definition connect_ok :: "internal_app \<Rightarrow> server \<Rightarrow> connect_form ui \<Rightarrow> bool" where
  "connect_ok a srv w =
     (\<not> ia_isLoading (ui_st w) \<and> list_all (creates_limited a) (fetches (ui_log w)) \<and>
      (ia_uri (ui_st w) \<noteq> [] \<longrightarrow> uri_given a srv (ui_log w) (ia_uri (ui_st w))))"

lemma uri_given_later: "uri_given a srv l u \<Longrightarrow> uri_given a srv (l @ l') u"
  unfolding uri_given_def by (metis append.assoc append_Cons)

lemma connect_submit_ok:
  assumes "connect_ok a srv w" and "connect_allowed a (ui_st w) IaSubmit"
  shows "connect_ok a srv (snd (internal_submit a srv w))"
proof -
  let ?w = "snd (internal_submit a srv w)" and ?n = "ia_name (ui_st w)"
  let ?f = "EFetch ''POST'' ''/api/apps'' (Some (create_app_json (connect_request a ?n)))"
  obtain rest where l: "ui_log ?w = ui_log w @ ?f # rest" and none: "fetches rest = []"
    and idle: "\<not> ia_isLoading (ui_st ?w)"
    and uri: "ia_uri (ui_st ?w) = (case created_with a srv w ?n of
        Some j \<Rightarrow> connect_result a ?n (pairing_uri j) | None \<Rightarrow> ia_uri (ui_st w))"
    using internal_submit_run [of a srv w] unfolding Let_def by blast
  have "creates_limited a ?f" using assms(2) by (auto simp: creates_limited_def connect_allowed_def)
  then have "list_all (creates_limited a) (fetches (ui_log ?w))" using assms(1) none by (simp add: l connect_ok_def)
  moreover have "uri_given a srv (ui_log ?w) (ia_uri (ui_st ?w))" if "ia_uri (ui_st ?w) \<noteq> []"
  proof (cases "created_with a srv w ?n")
    case None
    then show ?thesis using that uri assms(2) by (simp add: connect_allowed_def)
  next
    case (Some j)
    then have "srv (ui_log w) ''POST'' ''/api/apps'' (Some (create_app_json (connect_request a ?n))) = Inr (Some j)"
      by (auto simp: created_with_def split: sum.splits option.splits if_split_asm)
    then show ?thesis using Some uri l unfolding uri_given_def by auto
  qed
  ultimately show ?thesis using idle by (simp add: connect_ok_def)
qed

lemma connect_step_ok: "connect_ok a srv w \<Longrightarrow> connect_ok a srv (connect_step a srv w e)"
proof (cases e)
  case IaSubmit
  assume "connect_ok a srv w"
  with IaSubmit show ?thesis using connect_submit_ok [of a srv w] by (simp add: connect_step_def connect_handler_def)
qed (auto simp: connect_step_def connect_handler_def connect_ok_def setS_run getS_then emit_def intro: uri_given_later)

interpretation internal_form: invariant_machine "connect_step a srv" "connect_ok a srv" for a srv
  by unfold_locales (rule connect_step_ok)


end
