(* ===== verification/ZapPlanner.thy ===== *)
theory ZapPlanner imports InternalApps SendFlow
begin

text \<open>
  Recurring payments (\<open>screens/internal-apps/ZapPlanner.tsx\<close>): the form with its currency conversion, and the creation of a
  connection with a budget and of a subscription that pays through it. The conversion rates and the lookup of a lightning
  address belong to the third-party library \<open>lightning-tools\<close>; an answer of a conversion is an event.
\<close>

section \<open>The form\<close>

record recipient =
  rcp_name :: string
  rcp_lightningAddress :: string

definition zap_recipients :: "recipient list" where
  "zap_recipients =
     [\<lparr>rcp_name = ''Alby'', rcp_lightningAddress = SUPPORT_ALBY_LIGHTNING_ADDRESS\<rparr>,
      \<lparr>rcp_name = ''HRF'', rcp_lightningAddress = ''hrf@btcpay.hrf.org''\<rparr>,
      \<lparr>rcp_name = ''OpenSats'', rcp_lightningAddress = ''opensats@vlt.ge''\<rparr>,
      \<lparr>rcp_name = ''Brink'', rcp_lightningAddress = ''bitcoinbrink@zbd.gg''\<rparr>,
      \<lparr>rcp_name = ''Bitcoin For Fairness'', rcp_lightningAddress = ''bffbtc@getalby.com''\<rparr>]"

text \<open>
  \<open>zp_satoshiAmount\<close> is \<open>None\<close> for undefined and for \<open>NaN\<close>, which the code treats alike. \<open>zp_pending\<close> are the
  conversions under way: amount and currency.
\<close>

record zap_planner =
  zp_open :: bool
  zp_isSubmitting :: bool
  zp_recipientName :: string
  zp_recipientLightningAddress :: string
  zp_amount :: string
  zp_comment :: string
  zp_senderName :: string
  zp_frequencyValue :: string
  zp_frequencyUnit :: string
  zp_currency :: string
  zp_currenciesLoading :: bool
  zp_convertedAmount :: string
  zp_satoshiAmount :: "int option"
  zp_pending :: "(string \<times> string) list"

text \<open>The effect that resets the form when it is closed.\<close>

definition reset_zap_form :: "zap_planner \<Rightarrow> zap_planner" where
  "reset_zap_form s =
     s\<lparr>zp_recipientName := [], zp_recipientLightningAddress := [], zp_comment := [], zp_amount := ''5'', zp_senderName := [],
       zp_frequencyValue := ''1'', zp_frequencyUnit := ''months'', zp_currency := ''USD'', zp_convertedAmount := [],
       zp_satoshiAmount := None\<rparr>"

text \<open>\<open>parseInt(s, 10)\<close>.\<close>

definition parse_int10 :: "string \<Rightarrow> int option" where
  "parse_int10 s =
     (let (neg, u) = scan_sign (trim_start s); ds = takeWhile is_digit u
      in if ds = [] then None else Some (if neg then - int (digits_val ds) else int (digits_val ds)))"

text \<open>The effect that converts; satoshis are read at once, the rest is an answer of the library.\<close>

definition convert_zap :: "string \<Rightarrow> string \<Rightarrow> zap_planner \<Rightarrow> zap_planner" where
  "convert_zap amount currency s =
     (if zp_currenciesLoading s then s
      else if amount = [] then s\<lparr>zp_convertedAmount := [], zp_satoshiAmount := None\<rparr>
      else if currency \<noteq> ''SATS'' then s\<lparr>zp_pending := zp_pending s @ [(amount, currency)]\<rparr>
      else s\<lparr>zp_satoshiAmount := parse_int10 amount, zp_pending := zp_pending s @ [(amount, currency)]\<rparr>)"

text \<open>
  The effects after a change from \<open>s\<close> to \<open>t\<close>: the reset, the conversion of the values of this render, and once more when
  the reset has changed them.
\<close>

definition zap_deps :: "zap_planner \<Rightarrow> string \<times> string \<times> bool \<times> bool" where
  "zap_deps s = (zp_amount s, zp_currency s, zp_open s, zp_currenciesLoading s)"

definition zap_effects :: "zap_planner \<Rightarrow> zap_planner \<Rightarrow> zap_planner" where
  "zap_effects s t =
     (if zap_deps t = zap_deps s then t
      else let r = (if zp_open t \<noteq> zp_open s \<and> \<not> zp_open t then reset_zap_form t else t);
               c = convert_zap (zp_amount t) (zp_currency t) r
           in if zap_deps r = zap_deps t then c else convert_zap (zp_amount c) (zp_currency c) c)"

definition zap_set :: "(zap_planner \<Rightarrow> zap_planner) \<Rightarrow> zap_planner \<Rightarrow> zap_planner" where
  "zap_set f s = zap_effects s (f s)"

text \<open>The page as opened: closed dialog, with the reset and the first conversion done.\<close>

definition init_zap_planner :: "bool \<Rightarrow> zap_planner" where
  "init_zap_planner loading =
     (let s = reset_zap_form \<lparr>zp_open = False, zp_isSubmitting = False, zp_recipientName = [], zp_recipientLightningAddress = [],
        zp_amount = [], zp_comment = [], zp_senderName = [], zp_frequencyValue = ''1'', zp_frequencyUnit = ''months'',
        zp_currency = ''USD'', zp_currenciesLoading = loading, zp_convertedAmount = [], zp_satoshiAmount = None, zp_pending = []\<rparr>
      in convert_zap (zp_amount s) (zp_currency s) s)"

section \<open>Creating a recurring payment\<close>

text \<open>\<open>parseFloat(amount) === parseInt(amount)\<close>.\<close>

definition whole_number :: "string \<Rightarrow> bool" where
  "whole_number amount =
     (case js_parseInt amount of Some i \<Rightarrow> js_parseFloat amount = Fin (of_int i) | None \<Rightarrow> False)"

definition periodsPerMonth :: "string \<Rightarrow> int \<Rightarrow> rat option" where
  "periodsPerMonth unit rawFreq =
     (if unit = ''days'' then Some (31 / of_int rawFreq)
      else if unit = ''weeks'' then Some (31 / 7 / of_int rawFreq)
      else if unit = ''months'' then Some 1 else None)"

definition zap_max_amount :: "int \<Rightarrow> rat \<Rightarrow> int" where
  "zap_max_amount satoshiAmount periods =
     (let rawSpend = of_int satoshiAmount * of_int \<lceil>periods\<rceil> :: rat
      in \<lceil>(rawSpend * (101 / 100) + 10) * (13 / 10)\<rceil>)"

definition zap_metadata :: "string \<Rightarrow> AppMetadata" where
  "zap_metadata address =
     \<lparr>meta_app_store_app_id = Some ''zapplanner'', meta_lud16 = None, meta_rest = [(''recipient_lightning_address'', JStr address)]\<rparr>"

definition zap_request :: "zap_planner \<Rightarrow> int \<Rightarrow> CreateAppRequest" where
  "zap_request s maxAmountSat =
     \<lparr>car_name = ''ZapPlanner - '' @ zp_recipientName s, car_pubkey = None, car_maxAmountSat = Some maxAmountSat,
      car_maxAmountMsat = None, car_budgetRenewal = Some Monthly, car_expiresAt = None, car_scopes = [pay_invoice],
      car_returnTo = None, car_isolated = Some False, car_metadata = Some (zap_metadata (zp_recipientLightningAddress s)),
      car_unlockPassword = None\<rparr>"

definition cron_expression :: string where "cron_expression = ''0 0 1 * *''"

definition subscription_json :: "zap_planner \<Rightarrow> string option \<Rightarrow> json" where
  "subscription_json s pairingUri =
     JObj ([(''recipientLightningAddress'', JStr (zp_recipientLightningAddress s)),
            (''message'', JStr (if zp_comment s \<noteq> [] then zp_comment s else ''ZapPlanner payment from Alby Hub'')),
            (''payerData'', JStr (json_stringify
               (JObj (if zp_senderName s \<noteq> [] then [(''name'', JStr (zp_senderName s))] else []))))] @
           opt_member ''nostrWalletConnectUrl'' (map_option JStr pairingUri) @
           (if zp_frequencyUnit s \<noteq> ''months''
            then [(''sleepDuration'', JStr (zp_frequencyValue s @ '' '' @ zp_frequencyUnit s))]
            else [(''cronExpression'', JStr cron_expression)]) @
           [(''currency'', JStr (zp_currency s)),
            (''amount'', case js_parseInt (zp_amount s) of Some i \<Rightarrow> JNum i | None \<Rightarrow> JNull)])"

definition subscriptions_url :: string where "subscriptions_url = ''https://zapplanner.albylabs.com/api/subscriptions''"

text \<open>
  The request to the other server goes through \<open>fetch\<close>; \<open>Inl\<close> is a failed or refused request with the message that is
  thrown. A subscription id is any truthy value of the answer.
\<close>

definition subscription_id :: "json option \<Rightarrow> ('s, json) act" where
  "subscription_id res =
     (case Option.bind res (jget ''subscriptionId'') of
        Some i \<Rightarrow> if json_truthy i then ret i else throw ''no subscription ID in create subscription response''
      | None \<Rightarrow> throw ''no subscription ID in create subscription response'')"

definition zap_update_json :: "zap_planner \<Rightarrow> json \<Rightarrow> json" where
  "zap_update_json s subscriptionId =
     JObj [(''metadata'', metadata_json ((zap_metadata (zp_recipientLightningAddress s))
        \<lparr>meta_rest := [(''recipient_lightning_address'', JStr (zp_recipientLightningAddress s)),
                       (''zapplanner_subscription_id'', subscriptionId)]\<rparr>))]"

text \<open>The checks, in the order of the code; the result is the budget.\<close>

definition zap_budget :: "(string \<Rightarrow> string + bool) \<Rightarrow> zap_planner \<Rightarrow> string + int" where
  "zap_budget fetchAddress s =
     (if zp_amount s = [] \<or> \<not> whole_number (zp_amount s) then Inl ''Amount must be a whole number''
      else (case zp_satoshiAmount s of
              None \<Rightarrow> Inl ''Invalid amount''
            | Some sats \<Rightarrow>
                if sats = 0 then Inl ''Invalid amount''
                else (case parse_int10 (zp_frequencyValue s) of
                        None \<Rightarrow> Inl ''Invalid frequency''
                      | Some rawFreq \<Rightarrow>
                          if rawFreq < 1 then Inl ''Invalid frequency''
                          else if zp_frequencyUnit s = ''months'' \<and> rawFreq \<noteq> 1
                          then Inl ''Only once per month is supported, use weeks instead''
                          else (case fetchAddress (zp_recipientLightningAddress s) of
                                  Inl e \<Rightarrow> Inl e
                                | Inr found \<Rightarrow>
                                    if \<not> found then Inl ''invalid recipient lightning address''
                                    else (case periodsPerMonth (zp_frequencyUnit s) rawFreq of
                                            None \<Rightarrow> Inl ''Unsupported frequency unit''
                                          | Some p \<Rightarrow> Inr (zap_max_amount sats p))))))"

definition zap_toast :: "zap_planner \<Rightarrow> (zap_planner, unit) act" where
  "zap_toast s =
     emit (EToast ''Created subscription''
       (Some (if zp_frequencyUnit s = ''months'' then ''Payment will be made at the start of each month''
              else ''The first payment is scheduled immediately.'')))"

definition create_zap :: "server \<Rightarrow> zap_planner \<Rightarrow> int \<Rightarrow> (zap_planner, unit) act" where
  "create_zap srv s maxAmountSat =
     andThen (createApp srv (zap_request s maxAmountSat)) (\<lambda>app.
     andThen (api srv ''POST'' subscriptions_url (Some (subscription_json s (pairing_uri app)))) (\<lambda>res.
     andThen (subscription_id res) (\<lambda>subscriptionId.
     andDo (api srv ''PATCH'' (''/api/apps/'' @ nullish (jget_str ''pairingPublicKey'' app) ''undefined'')
              (Some (zap_update_json s subscriptionId)))
     (andDo (zap_toast s)
     (andDo (emit (EMutate (store_apps_key ''zapplanner''))) (setS (zap_set (\<lambda>u. u\<lparr>zp_open := False\<rparr>))))))))"

definition zap_handleSubmit :: "server \<Rightarrow> (string \<Rightarrow> string + bool) \<Rightarrow> (zap_planner, unit) act" where
  "zap_handleSubmit srv fetchAddress =
     andThen (getS (\<lambda>s. s)) (\<lambda>s.
       andDo (setS (\<lambda>u. u\<lparr>zp_isSubmitting := True\<rparr>))
         (finally_do
           (tryCatch (andThen (lift_sum (zap_budget fetchAddress s)) (create_zap srv s))
              (\<lambda>error. request_error ''Failed to create app'' error))
           (setS (\<lambda>u. u\<lparr>zp_isSubmitting := False\<rparr>))))"

section \<open>The page\<close>

datatype conversion = ConvFailed | ConvSats int | ConvFiat string

datatype zap_event =
    ZpOpen bool | ZpSupport recipient | ZpRecipient string | ZpAddress string | ZpAmount string | ZpCurrency string
  | ZpFrequency string | ZpUnit string | ZpComment string | ZpSender string | ZpCurrencies bool | ZpAnswer nat conversion | ZpSubmit

definition zap_allowed :: "zap_planner \<Rightarrow> zap_event \<Rightarrow> bool" where
  "zap_allowed s e =
     (case e of
        ZpOpen _ \<Rightarrow> True
      | ZpCurrencies _ \<Rightarrow> True
      | ZpSupport r \<Rightarrow> \<not> zp_open s \<and> r \<in> set zap_recipients
      | ZpAnswer n c \<Rightarrow> n < length (zp_pending s) \<and>
          (case c of ConvFailed \<Rightarrow> True | ConvSats _ \<Rightarrow> snd (zp_pending s ! n) \<noteq> ''SATS'' | ConvFiat _ \<Rightarrow> snd (zp_pending s ! n) = ''SATS'')
      | ZpCurrency _ \<Rightarrow> zp_open s \<and> \<not> zp_currenciesLoading s
      | ZpUnit u \<Rightarrow> zp_open s \<and> u \<in> {''days'', ''weeks'', ''months''}
      | ZpSubmit \<Rightarrow> zp_open s \<and> \<not> zp_isSubmitting s \<and> zp_recipientName s \<noteq> [] \<and> zp_recipientLightningAddress s \<noteq> []
      | _ \<Rightarrow> zp_open s)"

text \<open>An answer is shown although the amount may have changed since; \<open>fmt\<close> prints the satoshis.\<close>

definition zap_answer :: "(int \<Rightarrow> string) \<Rightarrow> nat \<Rightarrow> conversion \<Rightarrow> zap_planner \<Rightarrow> zap_planner" where
  "zap_answer fmt n c s =
     (let t = s\<lparr>zp_pending := take n (zp_pending s) @ drop (Suc n) (zp_pending s)\<rparr>
      in case c of
           ConvFailed \<Rightarrow> t\<lparr>zp_convertedAmount := ''--''\<rparr>
         | ConvSats sats \<Rightarrow> t\<lparr>zp_satoshiAmount := Some sats, zp_convertedAmount := ''~'' @ fmt sats @ '' sats''\<rparr>
         | ConvFiat x \<Rightarrow> t\<lparr>zp_convertedAmount := ''~'' @ x\<rparr>)"

definition zap_change :: "zap_event \<Rightarrow> zap_planner \<Rightarrow> zap_planner" where
  "zap_change e s =
     (case e of
        ZpOpen b \<Rightarrow> s\<lparr>zp_open := b\<rparr>
      | ZpSupport r \<Rightarrow> s\<lparr>zp_recipientName := rcp_name r, zp_recipientLightningAddress := rcp_lightningAddress r, zp_open := True\<rparr>
      | ZpRecipient t \<Rightarrow> s\<lparr>zp_recipientName := t\<rparr>
      | ZpAddress t \<Rightarrow> s\<lparr>zp_recipientLightningAddress := t\<rparr>
      | ZpAmount t \<Rightarrow> s\<lparr>zp_amount := t\<rparr>
      | ZpCurrency t \<Rightarrow> s\<lparr>zp_currency := t\<rparr>
      | ZpFrequency t \<Rightarrow> s\<lparr>zp_frequencyValue := t\<rparr>
      | ZpUnit t \<Rightarrow> s\<lparr>zp_frequencyUnit := t\<rparr>
      | ZpComment t \<Rightarrow> s\<lparr>zp_comment := t\<rparr>
      | ZpSender t \<Rightarrow> s\<lparr>zp_senderName := t\<rparr>
      | ZpCurrencies b \<Rightarrow> s\<lparr>zp_currenciesLoading := b\<rparr>
      | _ \<Rightarrow> s)"

definition zap_step ::
    "(int \<Rightarrow> string) \<Rightarrow> server \<Rightarrow> (string \<Rightarrow> string + bool) \<Rightarrow> zap_planner ui \<Rightarrow> zap_event \<Rightarrow> zap_planner ui" where
  "zap_step fmt srv fetchAddress w e =
     (if \<not> zap_allowed (ui_st w) e then w
      else (case e of
              ZpSubmit \<Rightarrow> snd (zap_handleSubmit srv fetchAddress w)
            | ZpAnswer n c \<Rightarrow> w\<lparr>ui_st := zap_answer fmt n c (ui_st w)\<rparr>
            | _ \<Rightarrow> w\<lparr>ui_st := zap_set (zap_change e) (ui_st w)\<rparr>))"

text \<open>The link of a created payment.\<close>

definition zap_view_link :: "App \<Rightarrow> string option" where
  "zap_view_link app =
     (case Option.bind (app_metadata app) (\<lambda>m. map_of (meta_rest m) ''zapplanner_subscription_id'') of
        Some i \<Rightarrow> if json_truthy i then Some (''https://zapplanner.albylabs.com/subscriptions/'' @ cell_text i) else None
      | None \<Rightarrow> None)"

section \<open>The budget covers the payments\<close>

lemma reserve_mono: "a \<le> b \<Longrightarrow> (a * (101 / 100) + 10) * (13 / 10) \<le> (b * (101 / 100) + 10) * (13 / 10)" for a b :: rat
  by (intro mult_right_mono add_right_mono) simp_all


section \<open>What a submission does\<close>

lemma request_error_log [simp]: "request_error t e v = (Inr (), v\<lparr>ui_log := ui_log v @ [EToastError t (Some e)]\<rparr>)"
  by (simp add: request_error_def handleRequestError_def isErrorWithMessage_def emit_def jget_def jget_str_def split: prod.split)

lemma zap_submit_run:
  "snd (zap_handleSubmit srv fetchAddress w) =
     (let s = ui_st w; busy = w\<lparr>ui_st := s\<lparr>zp_isSubmitting := True\<rparr>\<rparr>; idle = (\<lambda>v. v\<lparr>ui_st := (ui_st v)\<lparr>zp_isSubmitting := False\<rparr>\<rparr>);
          failed = (\<lambda>v e. idle (v\<lparr>ui_log := ui_log v @ [EToastError ''Failed to create app'' (Some e)]\<rparr>))
      in case zap_budget fetchAddress s of
           Inl e \<Rightarrow> failed busy e
         | Inr m \<Rightarrow> (case create_zap srv s m busy of (Inl e, v) \<Rightarrow> failed v e | (Inr _, v) \<Rightarrow> idle v))"
  by (cases w) (simp add: zap_handleSubmit_def getS_then effect_defs Let_def lift_sum_def split: sum.split prod.split)

lemma zap_effects_submitting [simp]:
  "zp_isSubmitting (zap_set f s) = zp_isSubmitting (f s)" "zp_open (zap_set (zp_open_update (\<lambda>_. b)) s) = b"
  by (simp_all add: zap_set_def zap_effects_def Let_def convert_zap_def reset_zap_form_def)


text \<open>
  When the conversion of a changed amount fails, the satoshis of the former amount stay: here the subscription is for 50
  dollars and the budget for 5.
\<close>

lemma stale_conversion:
  "let s = ui_st (foldl (zap_step (\<lambda>_. []) no_answer (\<lambda>_. Inr True)) \<lparr>ui_st = init_zap_planner False, ui_log = []\<rparr>
        [ZpOpen True, ZpAnswer 0 (ConvSats 5000), ZpAmount ''50'', ZpAnswer 1 ConvFailed])
   in zp_amount s = ''50'' \<and> zp_satoshiAmount s = Some 5000 \<and>
      zap_budget (\<lambda>_. Inr True) s = Inr (zap_max_amount 5000 1)"
  by code_simp

end
