(* ===== verification/HomePage.thy ===== *)
theory HomePage imports ZapPlanner
begin

text \<open>
  The home page (\<open>screens/Home.tsx\<close>, \<open>components/home/widgets/\<close>): the message board, the stories, what the other widgets
  show. The message board is reached through a wallet connection of the third-party library \<open>@getalby/sdk\<close>: the
  answers of its client are arguments.
\<close>

section \<open>The message board\<close>

record board_message =
  bm_name :: "string option"
  bm_message :: string
  bm_amountSat :: int
  bm_created_at :: int

datatype board_tab = LatestTab | TopTab

text \<open>\<open>sort\<close> with \<open>b.created_at - a.created_at\<close> or \<open>b.amountSat - a.amountSat\<close>.\<close>

definition getSortedMessages :: "board_message list \<Rightarrow> board_tab \<Rightarrow> board_message list" where
  "getSortedMessages messages tab =
     (case tab of
        LatestTab \<Rightarrow> sort_cmp (\<lambda>a b. bm_created_at b - bm_created_at a) messages
      | TopTab \<Rightarrow> sort_cmp (\<lambda>a b. bm_amountSat b - bm_amountSat a) messages)"

record board_ui =
  mb_messageText :: string
  mb_senderName :: string
  mb_amountSat :: string
  mb_messages :: "board_message list option"
  mb_isLoading :: bool
  mb_isSubmitting :: bool
  mb_dialogOpen :: bool
  mb_isOpen :: bool
  mb_currentTab :: board_tab

definition init_board :: board_ui where
  "init_board =
     \<lparr>mb_messageText = [], mb_senderName = [], mb_amountSat = [], mb_messages = None, mb_isLoading = False,
      mb_isSubmitting = False, mb_dialogOpen = False, mb_isOpen = False, mb_currentTab = LatestTab\<rparr>"

text \<open>A transaction as the client gives it: description, name of the payer, millisatoshis, time.\<close>

record nwc_transaction =
  nt_description :: string
  nt_payerName :: "string option"
  nt_amount :: int
  nt_created_at :: int

definition message_of :: "nwc_transaction \<Rightarrow> board_message" where
  "message_of t =
     \<lparr>bm_name = nt_payerName t, bm_message = nt_description t, bm_amountSat = nt_amount t div 1000,
      bm_created_at = nt_created_at t\<rparr>"

text \<open>
  The client: its answer to the n-th call for transactions from an offset (at most ten), and the invoice it makes for an
  amount, a text and a name.
\<close>

record nwc_client =
  nc_list :: "nat \<Rightarrow> nat \<Rightarrow> string + nwc_transaction list"
  nc_makeInvoice :: "jsnum \<Rightarrow> string \<Rightarrow> string \<Rightarrow> string + string"

text \<open>
  The loop of \<open>loadMessages\<close>, with fuel: after an error the same page is asked for again, a second later, without an end.
  The result \<open>None\<close> means that it is still running.
\<close>

fun load_messages :: "nat \<Rightarrow> nwc_client \<Rightarrow> nat \<Rightarrow> nat \<Rightarrow> board_message list option \<Rightarrow> board_message list option option" where
  "load_messages 0 client call offset messages = None"
| "load_messages (Suc n) client call offset messages =
     (case nc_list client call offset of
        Inl error \<Rightarrow> load_messages n client (Suc call) offset messages
      | Inr ts \<Rightarrow>
          if ts = [] then Some messages
          else load_messages n client (Suc call) (offset + length ts) (Some (nullish messages [] @ map message_of ts)))"

definition loadMessages :: "nat \<Rightarrow> nwc_client \<Rightarrow> nat \<Rightarrow> board_ui \<Rightarrow> board_ui" where
  "loadMessages fuel client call s =
     (case load_messages fuel client call 0 (mb_messages s) of
        Some ms \<Rightarrow> s\<lparr>mb_messages := ms, mb_isLoading := False\<rparr>
      | None \<Rightarrow> s\<lparr>mb_isLoading := True\<rparr>)"

text \<open>The effect on \<open>[hasLoadedMessages, isOpen]\<close>.\<close>

definition board_open_effect :: "nat \<Rightarrow> nwc_client \<Rightarrow> nat \<Rightarrow> board_ui \<Rightarrow> board_ui" where
  "board_open_effect fuel client call s =
     (if mb_isOpen s \<and> mb_messages s = None then loadMessages fuel client call s else s)"

definition topPlaceSat :: "board_message list option \<Rightarrow> int" where
  "topPlaceSat messages = foldl max 1000 (map (\<lambda>m. bm_amountSat m + 1) (nullish messages []))"

definition js_less :: "jsnum \<Rightarrow> rat \<Rightarrow> bool" where
  "js_less x y = (case x of Fin r \<Rightarrow> r < y | NegInf \<Rightarrow> True | _ \<Rightarrow> False)"

definition js_times :: "jsnum \<Rightarrow> rat \<Rightarrow> jsnum" where
  "js_times x y = (case x of Fin r \<Rightarrow> Fin (r * y) | _ \<Rightarrow> x)"

definition board_handleSubmit :: "nat \<Rightarrow> server \<Rightarrow> nwc_client \<Rightarrow> nat \<Rightarrow> (board_ui, unit) act" where
  "board_handleSubmit fuel srv client call =
     andThen (getS (\<lambda>s. s)) (\<lambda>s.
       if js_less (js_Number (mb_amountSat s)) 1000
       then emit (EToastError ''Amount too low'' (Some ''Minimum payment is 1000 sats''))
       else andDo (setS (\<lambda>u. u\<lparr>mb_isSubmitting := True\<rparr>))
         (andDo
           (tryCatch
             (andThen (lift_sum (nc_makeInvoice client (js_times (js_Number (mb_amountSat s)) 1000) (mb_messageText s) (mb_senderName s)))
               (\<lambda>invoice.
                 andThen (api srv ''POST'' (''/api/payments/'' @ invoice) None) (\<lambda>response.
                 andDo (require (truthy_str (Option.bind response (jget_str ''preimage''))) ''No preimage in response'')
                 (andDo (setS (\<lambda>u. loadMessages fuel client call (u\<lparr>mb_messageText := []\<rparr>)))
                 (andDo (toast ''Successfully sent message'') (setS (\<lambda>u. u\<lparr>mb_dialogOpen := False\<rparr>)))))))
             (\<lambda>error. emit (EToastError ''Something went wrong'' (Some (error_text error)))))
           (setS (\<lambda>u. u\<lparr>mb_isSubmitting := False\<rparr>))))"

datatype board_event =
    MbToggle | MbTab board_tab | MbText string | MbOpenDialog | MbDialog bool | MbName string | MbAmount string | MbTop | MbSubmit

definition board_allowed :: "board_ui \<Rightarrow> board_event \<Rightarrow> bool" where
  "board_allowed s e =
     (case e of
        MbToggle \<Rightarrow> True
      | MbTab _ \<Rightarrow> mb_isOpen s
      | MbText _ \<Rightarrow> mb_isOpen s \<or> mb_dialogOpen s
      | MbOpenDialog \<Rightarrow> mb_isOpen s \<and> mb_messageText s \<noteq> []
      | MbDialog b \<Rightarrow> mb_dialogOpen s \<and> \<not> b
      | MbSubmit \<Rightarrow> mb_dialogOpen s \<and> \<not> mb_isSubmitting s \<and> mb_amountSat s \<noteq> []
      | _ \<Rightarrow> mb_dialogOpen s)"

definition board_handler :: "nat \<Rightarrow> server \<Rightarrow> nwc_client \<Rightarrow> nat \<Rightarrow> board_event \<Rightarrow> (board_ui, unit) act" where
  "board_handler fuel srv client call e =
     (case e of
        MbToggle \<Rightarrow> setS (\<lambda>s. board_open_effect fuel client call (s\<lparr>mb_isOpen := \<not> mb_isOpen s\<rparr>))
      | MbTab t \<Rightarrow> setS (\<lambda>s. s\<lparr>mb_currentTab := t\<rparr>)
      | MbText t \<Rightarrow> setS (\<lambda>s. s\<lparr>mb_messageText := t\<rparr>)
      | MbOpenDialog \<Rightarrow> setS (\<lambda>s. s\<lparr>mb_dialogOpen := True\<rparr>)
      | MbDialog b \<Rightarrow> setS (\<lambda>s. s\<lparr>mb_dialogOpen := b\<rparr>)
      | MbName t \<Rightarrow> setS (\<lambda>s. s\<lparr>mb_senderName := t\<rparr>)
      | MbAmount t \<Rightarrow> setS (\<lambda>s. s\<lparr>mb_amountSat := t\<rparr>)
      | MbTop \<Rightarrow> setS (\<lambda>s. s\<lparr>mb_amountSat := show_int (topPlaceSat (mb_messages s))\<rparr>)
      | MbSubmit \<Rightarrow> board_handleSubmit fuel srv client call)"

text \<open>
  An event with the number of calls the client has had. The loading an event starts has ended before the next event, as when
  nothing is pressed while it runs.
\<close>

definition board_step :: "nat \<Rightarrow> server \<Rightarrow> nwc_client \<Rightarrow> board_ui ui \<Rightarrow> nat \<times> board_event \<Rightarrow> board_ui ui" where
  "board_step fuel srv client w ce =
     (if board_allowed (ui_st w) (snd ce) then snd (board_handler fuel srv client (fst ce) (snd ce) w) else w)"

definition shown_messages :: "board_ui \<Rightarrow> (string \<times> string \<times> int) list" where
  "shown_messages s =
     map (\<lambda>m. (bm_message m, or_str (bm_name m) ''Anonymous'', bm_amountSat m * 1000))
       (getSortedMessages (nullish (mb_messages s) []) (mb_currentTab s))"

subsection \<open>The top place\<close>

lemma foldl_max_upper: "a \<le> foldl max a xs \<and> (\<forall>x\<in>set xs. x \<le> foldl max a xs)" for a :: int
  by (induction xs arbitrary: a) (auto, metis max.bounded_iff, metis max.bounded_iff)

lemma topPlace_upper: "1000 \<le> topPlaceSat messages" "m \<in> set (nullish messages []) \<Longrightarrow> bm_amountSat m < topPlaceSat messages"
proof -
  show "1000 \<le> topPlaceSat messages" using foldl_max_upper by (simp add: topPlaceSat_def)
  assume "m \<in> set (nullish messages [])"
  then have "bm_amountSat m + 1 \<in> set (map (\<lambda>m. bm_amountSat m + 1) (nullish messages []))" by auto
  then show "bm_amountSat m < topPlaceSat messages" using foldl_max_upper [of 1000 "map (\<lambda>m. bm_amountSat m + 1) (nullish messages [])"]
    unfolding topPlaceSat_def by (meson add1_zle_eq)
qed

lemma sort_cmp_set: "set (sort_cmp c xs) = set xs"
  by (metis mset_eq_setD sort_cmp_mset)

lemma sorted_top:
  assumes "\<And>m. m \<in> set ms \<Longrightarrow> bm_amountSat m < bm_amountSat new"
  shows "hd (getSortedMessages (ms @ [new]) TopTab) = new"
proof -
  let ?s = "getSortedMessages (ms @ [new]) TopTab"
  have set: "set ?s = insert new (set ms)" by (simp add: getSortedMessages_def sort_cmp_set)
  have "sorted (map (\<lambda>m. - bm_amountSat m) ?s)"
    by (auto simp: getSortedMessages_def intro!: sort_cmp_sorted)
  moreover obtain x xs where s: "?s = x # xs" using set by (cases ?s) auto
  ultimately have "\<forall>y\<in>set ?s. bm_amountSat y \<le> bm_amountSat x" by auto
  then have "bm_amountSat new \<le> bm_amountSat x" using set by blast
  then have "x = new" using set assms [of x] s by fastforce
  then show ?thesis by (simp add: s)
qed

text \<open>The Top button buys the top place. After it is pressed, confirming the payment makes an invoice for exactly the
  shown number of satoshis, with the typed text and name, and pays it once; the number is at least 1000, and a
  message with it comes first among the messages shown by amount.\<close>

lemma top_button_buys_top_place:
  "let s = ui_st w; top = topPlaceSat (mb_messages s); w1 = board_step fuel srv client w (call, MbTop);
       w2 = board_step fuel srv client w1 (call, MbSubmit);
       new = \<lparr>bm_name = n, bm_message = t, bm_amountSat = top, bm_created_at = c\<rparr>
   in hd (getSortedMessages (nullish (mb_messages s) [] @ [new]) TopTab) = new \<and> 1000 \<le> top \<and>
      (if mb_dialogOpen s \<and> \<not> mb_isSubmitting s
       then mb_amountSat (ui_st w1) = show_int top \<and> fetches (ui_log w2) = fetches (ui_log w) @
         (case nc_makeInvoice client (Fin (of_int (top * 1000))) (mb_messageText s) (mb_senderName s) of
            Inl _ \<Rightarrow> [] | Inr invoice \<Rightarrow> [EFetch ''POST'' (''/api/payments/'' @ invoice) None])
       else True)"
proof -
  have one: "board_step fuel srv client w (call, MbTop) = w\<lparr>ui_st := (ui_st w)\<lparr>mb_amountSat := show_int (topPlaceSat (mb_messages (ui_st w)))\<rparr>\<rparr>"
    if "mb_dialogOpen (ui_st w)"
    using that by (simp add: board_step_def board_allowed_def board_handler_def setS_run)
  have ne: "show_int x \<noteq> []" for x by (simp add: show_int_def show_nat_nonempty)
  have n: "js_Number (show_int (topPlaceSat m)) = Fin (of_int (topPlaceSat m))" for m
    using topPlace_upper(1) [of m] by (simp add: js_Number_show_int)
  have low: "\<not> topPlaceSat m < 1000" for m
    using topPlace_upper(1) [of m] by simp
  show ?thesis
    unfolding Let_def
    by (auto simp: one sorted_top topPlace_upper board_step_def board_allowed_def board_handler_def board_handleSubmit_def getS_then
      ne n low js_less_def js_times_def lift_sum_def effect_defs split: sum.split)
qed

subsection \<open>Loading ends\<close>

text \<open>A client that serves one list ten at a time, and fails at the given calls.\<close>

definition serves :: "nwc_transaction list \<Rightarrow> nat list \<Rightarrow> nat \<Rightarrow> nat \<Rightarrow> string + nwc_transaction list" where
  "serves l fails call offset = (if call \<in> set fails then Inl ''timeout'' else Inr (take 10 (drop offset l)))"

lemma later_fails: "call \<in> set fails \<Longrightarrow> length (filter (\<lambda>f. Suc call \<le> f) fails) < length (filter (\<lambda>f. call \<le> f) fails)"
proof (induction fails)
  case (Cons f fails)
  have "length (filter (\<lambda>f. Suc call \<le> f) fails) \<le> length (filter (\<lambda>f. call \<le> f) fails)" by (induction fails) auto
  with Cons show ?case by auto
qed simp

lemma later_fails_le: "length (filter (\<lambda>f. Suc call \<le> f) fails) \<le> length (filter (\<lambda>f. call \<le> f) fails)"
  by (induction fails) auto

lemma load_messages_all:
  assumes "nc_list client = serves l fails"
  shows "length (drop offset l) + length (filter (\<lambda>f. call \<le> f) fails) < n \<Longrightarrow>
    load_messages n client call offset messages =
      Some (if drop offset l = [] then messages else Some (nullish messages [] @ map message_of (drop offset l)))"
proof (induction n arbitrary: call offset messages)
  case (Suc n)
  show ?case
  proof (cases "call \<in> set fails")
    case True
    then show ?thesis using Suc later_fails [OF True] by (simp add: assms serves_def)
  next
    case False
    show ?thesis
    proof (cases "drop offset l = []")
      case True
      then show ?thesis using False by (simp add: assms serves_def)
    next
      case more: False
      let ?ts = "take 10 (drop offset l)"
      have rest: "drop (offset + length ?ts) l = drop 10 (drop offset l)"
        by (cases "length l - offset \<le> 10") (simp_all add: min_def add.commute)
      have "length (drop (offset + length ?ts) l) < length (drop offset l)" using more unfolding rest by (simp only: length_drop) simp
      then have fuel: "length (drop (offset + length ?ts) l) + length (filter (\<lambda>f. Suc call \<le> f) fails) < n"
        using Suc.prems later_fails_le [of call fails] by linarith
      have step: "load_messages (Suc n) client call offset messages =
          load_messages n client (Suc call) (offset + length ?ts) (Some (nullish messages [] @ map message_of ?ts))"
        using False more by (simp add: assms serves_def)
      have whole: "map message_of (drop offset l) = map message_of ?ts @ map message_of (drop (offset + length ?ts) l)"
        unfolding rest map_append [symmetric] append_take_drop_id ..
      have res: "(if drop (offset + length ?ts) l = [] then Some (nullish messages [] @ map message_of ?ts)
            else Some (nullish (Some (nullish messages [] @ map message_of ?ts)) [] @ map message_of (drop (offset + length ?ts) l))) =
          Some (nullish messages [] @ map message_of (drop offset l))"
        unfolding whole by (cases "drop (offset + length ?ts) l = []")
          (simp_all only: if_True if_False list.map append_Nil2 append_assoc nullish_simps simp_thms)
      show ?thesis unfolding step Suc.IH [OF fuel] res using more by (simp only: if_False)
    qed
  qed
qed simp

text \<open>C27: Loading the messages ends with all of them. However many of the calls fail, when the client serves one list of
  transactions, ten at a time, the loop ends after at most one call for each transaction, each failure and the empty page, and every transaction is
  a message once, in order, after those that were there.\<close>

theorem messages_all_loaded:
  "loadMessages (Suc (length l + length fails)) \<lparr>nc_list = serves l fails, nc_makeInvoice = mk\<rparr> call s =
     s\<lparr>mb_messages := (if l = [] then mb_messages s else Some (nullish (mb_messages s) [] @ map message_of l)), mb_isLoading := False\<rparr>"
proof -
  have "length (drop 0 l) + length (filter (\<lambda>f. call \<le> f) fails) < Suc (length l + length fails)"
    by (simp add: less_Suc_eq_le)
  from load_messages_all [OF _ this, of "\<lparr>nc_list = serves l fails, nc_makeInvoice = mk\<rparr>" "mb_messages s"]
  show ?thesis by (simp add: loadMessages_def del: load_messages.simps)
qed

text \<open>The list is loaded again after a message was sent, without being cleared: every message is shown twice.\<close>

lemma messages_doubled:
  assumes "nc_list client = serves l []" and "l \<noteq> []" and "length l < n"
  shows "mb_messages (loadMessages n client c2 (loadMessages n client c1 (s\<lparr>mb_messages := None\<rparr>))) =
    Some (map message_of l @ map message_of l)"
  using load_messages_all [OF assms(1), of 0 c1 n None] load_messages_all [OF assms(1), of 0 c2 n "Some (map message_of l)"] assms(2,3)
  by (simp add: loadMessages_def)

text \<open>A text that is not a number is not below the minimum, and is sent as the amount.\<close>

lemma text_amount_passes: "js_Number ''ten'' = NaN \<and> \<not> js_less (js_Number ''ten'') 1000 \<and> js_times (js_Number ''ten'') 1000 = NaN"
  by code_simp

section \<open>Stories\<close>

record story_cta =
  sc_label :: string
  sc_url :: string
  sc_openInNewTab :: bool

record story =
  sto_id :: string
  sto_title :: string
  sto_avatar :: string
  sto_videoId :: "string option"
  sto_cta :: "story_cta option"

text \<open>A story of the answer has a number as its id.\<close>

definition stories_of :: "bool \<Rightarrow> (int \<times> string \<times> string \<times> string option \<times> story_cta option) list option \<Rightarrow> story list" where
  "stories_of failed data =
     (case data of
        None \<Rightarrow> []
      | Some xs \<Rightarrow>
          if failed then []
          else map (\<lambda>(n, title, avatar, video, cta).
                 \<lparr>sto_id = show_int n, sto_title = title, sto_avatar = avatar, sto_videoId = video, sto_cta = cta\<rparr>) xs)"

definition youTubeEmbedUrl :: "string \<Rightarrow> string" where
  "youTubeEmbedUrl videoId = ''https://www.youtube-nocookie.com/embed/'' @ videoId @ ''?autoplay=1&rel=0''"

text \<open>The viewed ids are a set in the order of insertion.\<close>

definition encode_ids :: "string list \<Rightarrow> string" where
  "encode_ids ids = json_stringify (JArr (map JStr ids))"

definition decode_ids :: "string \<Rightarrow> string list option" where
  "decode_ids raw =
     (case json_parse raw of
        Some (JArr xs) \<Rightarrow> Some (List.map_filter (\<lambda>x. case x of JStr s \<Rightarrow> Some s | _ \<Rightarrow> None) xs)
      | _ \<Rightarrow> None)"

definition stories_key :: string where "stories_key = localStorageKeys K_homeStoriesViewed"

definition loadViewedStoryIds :: "storage \<Rightarrow> string list" where
  "loadViewedStoryIds st =
     (case storage_getItem st stories_key of
        None \<Rightarrow> []
      | Some raw \<Rightarrow> if raw = [] then [] else (case decode_ids raw of Some ids \<Rightarrow> js_set ids | None \<Rightarrow> []))"

definition persistViewedStoryIds :: "string list \<Rightarrow> storage \<Rightarrow> storage" where
  "persistViewedStoryIds ids st = storage_setItem st stories_key (encode_ids ids)"

record stories_ui =
  su_storage :: storage
  su_viewedIds :: "string list"
  su_activeStory :: "story option"

definition mount_stories :: "storage \<Rightarrow> stories_ui" where
  "mount_stories st = \<lparr>su_storage = st, su_viewedIds = loadViewedStoryIds st, su_activeStory = None\<rparr>"

definition markStoryViewed :: "string \<Rightarrow> stories_ui \<Rightarrow> stories_ui" where
  "markStoryViewed storyId s =
     (if storyId \<in> set (su_viewedIds s) then s
      else (let ids = su_viewedIds s @ [storyId]
            in s\<lparr>su_viewedIds := ids, su_storage := persistViewedStoryIds ids (su_storage s)\<rparr>))"

text \<open>A click on a story, closing its dialog, a reload of the page, and a write of another part of the hub.\<close>

datatype stories_event = StClick story | StClose | StReload | StOther string string

definition stories_step :: "stories_ui \<Rightarrow> stories_event \<Rightarrow> stories_ui" where
  "stories_step s e =
     (case e of
        StClick x \<Rightarrow> (markStoryViewed (sto_id x) s)\<lparr>su_activeStory := Some x\<rparr>
      | StClose \<Rightarrow> s\<lparr>su_activeStory := None\<rparr>
      | StReload \<Rightarrow> mount_stories (su_storage s)
      | StOther k v \<Rightarrow> if k = stories_key then s else s\<lparr>su_storage := storage_setItem (su_storage s) k v\<rparr>)"

text \<open>The card: hidden without a story; each story with its picture and whether it was viewed.\<close>

definition StoriesWidget_card :: "bool \<Rightarrow> story list \<Rightarrow> stories_ui \<Rightarrow> (string + (string \<times> string \<times> bool) list) option" where
  "StoriesWidget_card isLoading stories s =
     (if \<not> isLoading \<and> stories = [] then None
      else Some (if isLoading then Inl ''Loading stories...''
                 else Inr (map (\<lambda>x. (sto_title x, sto_avatar x, sto_id x \<in> set (su_viewedIds s))) stories)))"

text \<open>What the dialog of a story shows: its video, and a link, in the app or in a new window. Without a video it is empty.\<close>

datatype story_link = InApp string string | NewTab string string

definition story_dialog :: "stories_ui \<Rightarrow> (string \<times> string \<times> story_link option) option option" where
  "story_dialog s =
     (case su_activeStory s of
        None \<Rightarrow> None
      | Some x \<Rightarrow> Some (case sto_videoId x of
                     None \<Rightarrow> None
                   | Some v \<Rightarrow> if v = [] then None
                       else Some (youTubeEmbedUrl v, sto_title x,
                              map_option (\<lambda>c. if sc_openInNewTab c then NewTab (sc_url c) (sc_label c) else InApp (sc_url c) (sc_label c)) (sto_cta x))))"

lemma map_filter_strings [simp]: "List.map_filter (\<lambda>x. case x of JStr s \<Rightarrow> Some s | _ \<Rightarrow> None) (map JStr ids) = ids"
  by (induction ids) (simp_all add: List.map_filter_simps)

lemma decode_encode_ids: "decode_ids (encode_ids ids) = Some ids"
  unfolding encode_ids_def decode_ids_def json_parse_stringify by simp

interpretation viewed_stories: persisted_value storage_getItem storage_setItem storage_removeItem encode_ids decode_ids stories_key
  by unfold_locales (rule decode_encode_ids)

lemma js_set_distinct: "distinct (js_set xs)" "distinct xs \<Longrightarrow> js_set xs = xs" "set (js_set xs) = set xs"
  by (simp_all add: js_set_def distinct_remdups_id)

definition stories_ok :: "stories_ui \<Rightarrow> bool" where
  "stories_ok s = (distinct (su_viewedIds s) \<and> loadViewedStoryIds (su_storage s) = su_viewedIds s)"

lemma persisted_load: "distinct ids \<Longrightarrow> loadViewedStoryIds (persistViewedStoryIds ids st) = ids"
proof -
  assume "distinct ids"
  moreover have "encode_ids ids \<noteq> []" unfolding encode_ids_def by (rule stringify_nonempty)
  moreover have "decode_ids (encode_ids ids) = Some ids" by (rule decode_encode_ids)
  ultimately show ?thesis
    by (simp add: loadViewedStoryIds_def persistViewedStoryIds_def js_set_distinct)
qed

lemma stories_step_ok: "stories_ok s \<Longrightarrow> stories_ok (stories_step s e)"
  by (cases e) (auto simp: stories_step_def stories_ok_def markStoryViewed_def Let_def persisted_load mount_stories_def
      loadViewedStoryIds_def [of "storage_setItem _ _ _"] local.get_set_other loadViewedStoryIds_def [symmetric])

interpretation stories_page: invariant_machine stories_step stories_ok
  by unfold_locales (rule stories_step_ok)

lemma mounted_stories_ok: "stories_ok (mount_stories st)"
  by (simp add: stories_ok_def mount_stories_def loadViewedStoryIds_def js_set_distinct split: option.split)

lemma viewed_stay: "stories_ok s \<Longrightarrow> i \<in> set (su_viewedIds s) \<Longrightarrow> i \<in> set (su_viewedIds (foldl stories_step s es))"
proof (induction es rule: rev_induct)
  case (snoc e es)
  let ?s = "foldl stories_step s es"
  have "stories_ok ?s" using snoc.prems(1) by (rule stories_page.run_inv)
  then have ids: "loadViewedStoryIds (su_storage ?s) = su_viewedIds ?s" by (simp add: stories_ok_def)
  have "i \<in> set (su_viewedIds ?s)" using snoc by simp
  then have "i \<in> set (su_viewedIds (stories_step ?s e))"
    using ids by (cases e) (auto simp: stories_step_def markStoryViewed_def Let_def mount_stories_def)
  then show ?case by simp
qed simp

text \<open>A viewed story stays viewed. Whatever was stored before, a story that was clicked is marked as viewed after any further
  clicks, writes of other parts of the hub and reloads of the page, and a reload changes none of the marks (the storage takes the writes).\<close>

lemma viewed_stories_stay:
  "let s = foldl stories_step (mount_stories st) es; s' = foldl stories_step (stories_step s (StClick x)) es'
   in sto_id x \<in> set (su_viewedIds s') \<and> distinct (su_viewedIds s') \<and>
      su_viewedIds (stories_step s' StReload) = su_viewedIds s'"
proof -
  let ?s = "foldl stories_step (mount_stories st) es"
  have ok: "stories_ok (stories_step ?s (StClick x))"
    by (intro stories_step_ok stories_page.run_inv mounted_stories_ok)
  moreover have "sto_id x \<in> set (su_viewedIds (stories_step ?s (StClick x)))"
    by (simp add: stories_step_def markStoryViewed_def Let_def)
  moreover have "stories_ok (foldl stories_step (stories_step ?s (StClick x)) es')"
    using ok by (rule stories_page.run_inv)
  ultimately show ?thesis
    unfolding Let_def using viewed_stay by (auto simp: stories_ok_def stories_step_def mount_stories_def)
qed

text \<open>A story with a link and without a video opens an empty dialog: the link is not shown.\<close>

lemma story_without_video:
  "sto_videoId x = None \<Longrightarrow> story_dialog (stories_step s (StClick x)) = Some None"
  by (simp add: stories_step_def story_dialog_def)

section \<open>The other widgets\<close>

text \<open>\<open>sine\<close> is \<open>Math.sin\<close>, whose value is a double and so a rational number.\<close>

definition seededRandom :: "(int \<Rightarrow> rat) \<Rightarrow> int \<Rightarrow> rat" where
  "seededRandom sine seed = (let x = sine seed * 10000 in x - of_int \<lfloor>x\<rfloor>)"

definition app_of_the_day_apps :: "store_app list" where
  "app_of_the_day_apps = filter (\<lambda>a. asa_id a \<notin> {''alby-go'', ''zapplanner''}) appStoreApps"

definition app_of_the_day :: "(int \<Rightarrow> rat) \<Rightarrow> int \<Rightarrow> store_app" where
  "app_of_the_day sine now =
     (let daysSinceEpoch = now div (1000 * 60 * 60 * 24);
          todayIndex = \<lfloor>seededRandom sine daysSinceEpoch * of_nat (length app_of_the_day_apps)\<rfloor>
      in app_of_the_day_apps ! nat todayIndex)"

lemma app_of_the_day_exists: "app_of_the_day sine now \<in> set app_of_the_day_apps"
proof -
  let ?r = "seededRandom sine (now div (1000 * 60 * 60 * 24))" and ?n = "length app_of_the_day_apps"
  have "app_buzzpay \<in> set app_of_the_day_apps"
    by (simp add: app_of_the_day_apps_def appStoreApps_set store_table_def app_buzzpay_def)
  then have n: "0 < (of_nat ?n :: rat)" by (auto intro: length_pos_if_in_set)
  have r: "0 \<le> ?r" "?r < 1" unfolding seededRandom_def Let_def by linarith+
  then have "?r * of_nat ?n < of_nat ?n" using n by (simp add: mult_less_cancel_right2)
  moreover have "0 \<le> ?r * of_nat ?n" using r(1) n by simp
  ultimately have "nat \<lfloor>?r * of_nat ?n\<rfloor> < ?n" by (simp add: floor_less_iff nat_less_iff)
  then show ?thesis unfolding app_of_the_day_def Let_def by (rule nth_mem)
qed

text \<open>\<open>localeCompare\<close> compares the dates as texts; the newest three entries.\<close>

definition new_arrivals :: "(string \<Rightarrow> string \<Rightarrow> int) \<Rightarrow> store_app list" where
  "new_arrivals localeCompare =
     take 3 (sort_cmp (\<lambda>a b. localeCompare (the (sta_addedDate b)) (the (sta_addedDate a)))
       (filter (\<lambda>a. truthy_str (sta_addedDate a)) appStoreApps))"

definition support_widget_shown :: "InfoResponse option \<Rightarrow> AlbyMe option \<Rightarrow> bool \<Rightarrow> ListAppsResponse option \<Rightarrow> bool" where
  "support_widget_shown info albyMe albyMeError supportAlbyApps =
     (case info of
        None \<Rightarrow> False
      | Some i \<Rightarrow>
          \<not> (info_albyAccountConnected i \<and> albyMe = None \<and> \<not> albyMeError) \<and> \<not> has_plan albyMe \<and>
          \<not> (case supportAlbyApps of Some d \<Rightarrow> lar_apps d \<noteq> [] | None \<Rightarrow> False))"

text \<open>Title, notes, and the address of the update.\<close>

definition whats_new :: "(string \<Rightarrow> string \<Rightarrow> bool) \<Rightarrow> InfoResponse option \<Rightarrow> AlbyInfo option \<Rightarrow> (string \<times> string \<times> string option) option" where
  "whats_new compare_ge info albyInfo =
     (case (info, albyInfo) of
        (Some i, Some a) \<Rightarrow>
          if ai_latestReleaseNotes a = [] \<or> info_hideUpdateBanner i then None
          else (let upToDate = info_version i \<noteq> [] \<and> starts_with ''v'' (info_version i) \<and>
                      compare_ge (drop 1 (info_version i)) (ai_latestVersion a)
                in Some (''What's New in '' @ (if upToDate then ''your '' else []) @ ''Alby Hub?'', ai_latestReleaseNotes a,
                     if upToDate then None else Some (''https://getalby.com/update/hub?version='' @ info_version i)))
      | _ \<Rightarrow> None)"

definition node_status :: "Channel list option \<Rightarrow> Peer list option \<Rightarrow> ((nat \<times> nat) \<times> nat \<times> nat) option" where
  "node_status channels peers =
     (case (channels, peers) of
        (Some cs, Some ps) \<Rightarrow>
          Some ((length (filter ch_active cs), length cs), length (filter peer_isConnected ps), length ps)
      | _ \<Rightarrow> None)"

text \<open>\<open>parse_date\<close> is \<open>new Date(s).getTime()\<close>.\<close>

definition used_apps :: "(string \<Rightarrow> int) \<Rightarrow> ListAppsResponse option \<Rightarrow> App list" where
  "used_apps parse_date appsData =
     (let used = filter (\<lambda>x. truthy_str (app_lastSettledTransactionAt x)) (case appsData of Some d \<Rightarrow> lar_apps d | None \<Rightarrow> [])
      in sort_cmp (\<lambda>a b. parse_date (nullish (app_lastSettledTransactionAt b) []) - parse_date (nullish (app_lastSettledTransactionAt a) [])) used)"

text \<open>The row of a recently used app: name, last amount with its sign, when it was used, and the link.\<close>

definition recently_used_row ::
    "(string \<Rightarrow> string) \<Rightarrow> (int \<Rightarrow> string) \<Rightarrow> InfoResponse option \<Rightarrow> Transaction list option \<Rightarrow> App \<Rightarrow> string \<times> string option \<times> string \<times> string" where
  "recently_used_row fromNow fmt info transactions app =
     (getAppDisplayName (app_name app),
      (case transactions of Some (tx # _) \<Rightarrow> Some (row_sign tx @ FormattedBitcoinAmount fmt info (tx_amountMsat tx)) | _ \<Rightarrow> None),
      (if truthy_str (app_lastSettledTransactionAt app) then fromNow (the (app_lastSettledTransactionAt app)) else ''never''),
      ''/apps/'' @ show_int (app_id app))"

definition onchain_fees :: "(int \<times> int \<times> int \<times> int) option \<Rightarrow> (string \<times> string) list" where
  "onchain_fees fees =
     (case fees of
        None \<Rightarrow> []
      | Some (fastestFee, halfHourFee, economyFee, minimumFee) \<Rightarrow>
          map (\<lambda>(t, v). (t, show_int v @ '' sat/vB''))
            [(''No priority'', minimumFee), (''Low priority'', economyFee), (''Medium priority'', halfHourFee), (''High priority'', fastestFee)])"

definition forwards_widget :: "(int \<Rightarrow> string) \<Rightarrow> InfoResponse option \<Rightarrow> GetForwardsResponse option \<Rightarrow> (string \<times> string) list" where
  "forwards_widget fmt info forwards =
     (case forwards of
        None \<Rightarrow> []
      | Some f \<Rightarrow>
          [(''Fees Earned'', FormattedBitcoinAmount fmt info (gfr_totalFeeEarnedMsat f)),
           (''Total Routed'', FormattedBitcoinAmount fmt info (gfr_outboundAmountForwardedMsat f)),
           (''Transactions Routed'', show_int (gfr_numForwards f))])"

definition block_height :: "int list option \<Rightarrow> int option" where
  "block_height heights = (case heights of Some (h # _) \<Rightarrow> Some h | _ \<Rightarrow> None)"

datatype home_widget =
    OnboardingChecklist | StoriesWidget | WhatsNewWidget | LatestUsedAppsWidget | NewArrivalsWidget | AppOfTheDayWidget
  | SupportAlbyWidget | LightningMessageboardWidget | NodeStatusWidget | BlockHeightWidget | OnchainFeesWidget | ForwardsWidget

text \<open>The widgets in their order; \<open>None\<close> while the page is loading.\<close>

definition Home :: "InfoResponse option \<Rightarrow> BalancesResponse option \<Rightarrow> bool \<Rightarrow> home_widget list option" where
  "Home info balances isNerd =
     (if info = None \<or> balances = None then None
      else Some ([OnboardingChecklist, StoriesWidget, WhatsNewWidget, LatestUsedAppsWidget, NewArrivalsWidget, AppOfTheDayWidget,
                  SupportAlbyWidget, LightningMessageboardWidget] @
                 (if isNerd then [NodeStatusWidget, BlockHeightWidget, OnchainFeesWidget, ForwardsWidget] else [])))"

end
