(* ===== verification/Navigation.thy ===== *)
theory Navigation imports HomePage SettingsPages
begin

text \<open>
  The frame around the pages: side bar with its hint and account menu, command palette, banner, checklist, layouts
  (\<open>components/AppSidebar.tsx\<close>, \<open>SidebarHint.tsx\<close>, \<open>CommandPalette.tsx\<close>, \<open>Banner.tsx\<close>, \<open>components/layouts/\<close>,
  \<open>screens/wallet/OnboardingChecklist.tsx\<close>): where every link leads, and when a hint is shown.
\<close>

section \<open>Side bar\<close>

definition isPathActive :: "string \<Rightarrow> string \<Rightarrow> bool" where
  "isPathActive pathname url = (pathname = url \<or> starts_with (url @ ''/'') pathname)"

text \<open>Title, address, badge.\<close>

definition navMain :: "(string \<times> string \<times> string option) list" where
  "navMain =
     [(''Home'', ''/home'', None), (''Wallet'', ''/wallet'', None), (''Sub-wallets'', ''/sub-wallets'', None),
      (''Connections'', ''/apps'', None), (''AI & Agents'', ''/ai'', None), (''Cards'', ''/cards'', Some ''NEW'')]"

definition navSecondary :: "bool option \<Rightarrow> (string \<times> string) list" where
  "navSecondary hasChannelManagement =
     (if hasChannelManagement = Some True then [(''Node'', ''/channels'')] else []) @
     [(''Settings'', ''/settings''), (''Earn'', ''/earn'')]"

text \<open>The entries with whether each is marked as the current one, then the link to the help pages.\<close>

definition AppSidebar_menu :: "string \<Rightarrow> bool option \<Rightarrow> (string \<times> string \<times> bool) list" where
  "AppSidebar_menu pathname hasChannelManagement =
     map (\<lambda>(title, url). (title, url, isPathActive pathname url))
       (map (\<lambda>(title, url, _). (title, url)) navMain @ navSecondary hasChannelManagement)"

definition help_link :: "string \<times> string" where "help_link = (''Help'', ''https://support.getalby.com'')"

text \<open>Logging out; the state is the browser's storage.\<close>

definition logout :: "bool \<Rightarrow> (storage, unit) act" where
  "logout httpMode =
     andDo (setS deleteAuthToken)
       (andDo (emit (EMutate ''/api/info''))
         (if httpMode then emit (ELocation ''/logout'') else emit (ENavigate ''/'')))"

text \<open>The footer: name and address of the account with its badge, or the name of the hub without one.\<close>

definition sidebar_footer :: "InfoResponse option \<Rightarrow> AlbyMe option \<Rightarrow> string \<times> string \<times> bool" where
  "sidebar_footer info albyMe =
     (if (case info of Some i \<Rightarrow> info_albyAccountConnected i | None \<Rightarrow> False)
      then (case albyMe of
              Some m \<Rightarrow> (or_str (Some (me_name m)) (me_email m), me_lightning_address m, me_plan_code m \<noteq> [])
            | None \<Rightarrow> ([], [], False))
      else (''My Alby Hub'', [], False))"

datatype account_entry = AccountLink string string | UpgradeToPro | LogOut

definition account_menu :: "InfoResponse option \<Rightarrow> AlbyMe option \<Rightarrow> bool \<Rightarrow> account_entry list" where
  "account_menu info albyMe httpMode =
     [if (case info of Some i \<Rightarrow> info_albyAccountConnected i | None \<Rightarrow> False)
      then AccountLink ''/settings/alby-account'' ''Alby Account Settings''
      else AccountLink ''/alby/account'' ''Connect Alby Account''] @
     (if has_plan albyMe then [] else [UpgradeToPro]) @
     (if httpMode then [LogOut] else [])"

text \<open>The red dot: a link to the node page.\<close>

definition HealthIndicator :: "HealthResponse option \<Rightarrow> string option" where
  "HealthIndicator health =
     (case health of None \<Rightarrow> None | Some h \<Rightarrow> if health_alarms h = [] then None else Some ''/channels'')"

subsection \<open>The hint\<close>

text \<open>
  A date of the local calendar: the number of the month since year 0, the day of the month and the milliseconds of the
  day. Its text (\<open>toString\<close>) and the reading of a text are arguments.
\<close>

record local_date =
  ld_month :: int
  ld_day :: int
  ld_ms :: int

definition date_le :: "local_date \<Rightarrow> local_date \<Rightarrow> bool" where
  "date_le a b =
     (ld_month a < ld_month b \<or> ld_month a = ld_month b \<and>
      (ld_day a < ld_day b \<or> ld_day a = ld_day b \<and> ld_ms a \<le> ld_ms b))"

text \<open>\<open>new Date(year, month + (0 or 1), 21)\<close>: December is followed by January of the next year.\<close>

definition next21st :: "local_date \<Rightarrow> local_date" where
  "next21st now = \<lparr>ld_month = ld_month now + (if ld_day now \<ge> 21 then 1 else 0), ld_day = 21, ld_ms = 0\<rparr>"

definition hidden_key :: string where "hidden_key = localStorageKeys K_supportAlbySidebarHintHiddenUntil"

record hint_ui =
  hi_hiddenUntil :: "string option"
  hi_storage :: storage

definition mount_hint :: "storage \<Rightarrow> hint_ui" where
  "mount_hint st = \<lparr>hi_hiddenUntil = storage_getItem st hidden_key, hi_storage = st\<rparr>"

definition close_hint :: "(local_date \<Rightarrow> string) \<Rightarrow> local_date \<Rightarrow> (hint_ui, unit) act" where
  "close_hint date_text now =
     (let next = date_text (next21st now)
      in andDo (setS (\<lambda>s. s\<lparr>hi_storage := storage_setItem (hi_storage s) hidden_key next, hi_hiddenUntil := Some next\<rparr>))
           (toast ''No worries, we'll remind you again!''))"

datatype sidebar_hint = ChannelHint | SetupHint rat int int | SupportHint

definition hint_link :: "sidebar_hint \<Rightarrow> string \<times> string" where
  "hint_link h =
     (case h of
        ChannelHint \<Rightarrow> (''View Channel'', ''/channels/order'')
      | SetupHint _ _ _ \<Rightarrow> (''See Next Steps'', ''/home'')
      | SupportHint \<Rightarrow> (''Become a Supporter'', ''/support-alby''))"

text \<open>A text that is no date is \<open>NaN\<close>, and nothing is after it.\<close>

definition hidden_over :: "(string \<Rightarrow> local_date option) \<Rightarrow> local_date \<Rightarrow> string option \<Rightarrow> bool" where
  "hidden_over parse_date now hiddenUntil =
     (\<not> truthy_str hiddenUntil \<or> (case parse_date (the hiddenUntil) of Some d \<Rightarrow> date_le d now | None \<Rightarrow> False))"

definition SidebarHint ::
    "(string \<Rightarrow> local_date option) \<Rightarrow> string \<Rightarrow> NewChannelOrder option \<Rightarrow> bool \<times> ChecklistItem list \<Rightarrow> ListAppsResponse option \<Rightarrow>
     AlbyMe option \<Rightarrow> local_date \<Rightarrow> hint_ui \<Rightarrow> sidebar_hint option" where
  "SidebarHint parse_date pathname order onboarding supportAlbyApps albyMe now s =
     (let (isLoading, checklistItems) = onboarding;
          openItems = filter (\<lambda>x. \<not> ci_checked x) checklistItems;
          done = int (length checklistItems) - int (length openItems);
          showSupport = ((case supportAlbyApps of Some d \<Rightarrow> lar_apps d = [] | None \<Rightarrow> False) \<and> \<not> has_plan albyMe)
      in if \<not> starts_with ''/channels/'' pathname \<and> (case order of Some ord \<Rightarrow> ord_status ord \<noteq> Some OPay | None \<Rightarrow> False)
         then Some ChannelHint
         else if \<not> starts_with ''/home'' pathname \<and> \<not> starts_with ''/channels/order'' pathname \<and>
                 \<not> starts_with ''/channels/first'' pathname \<and> \<not> isLoading \<and> openItems \<noteq> []
         then Some (SetupHint (of_int done / of_nat (length checklistItems) * 100) done (int (length checklistItems)))
         else if \<not> starts_with ''/support-alby'' pathname \<and> showSupport \<and> hidden_over parse_date now (hi_hiddenUntil s)
         then Some SupportHint
         else None)"

subsection \<open>The checklist of the home page\<close>

text \<open>Each item with its title, its description while it is not checked, and the link of an item that is to be done now.\<close>

definition OnboardingChecklist_card :: "bool \<times> ChecklistItem list \<Rightarrow> (string \<times> bool \<times> string option \<times> string option) list option" where
  "OnboardingChecklist_card onboarding =
     (let (isLoading, items) = onboarding
      in if isLoading \<or> List.find (\<lambda>x. \<not> ci_checked x) items = None then None
         else Some (map (\<lambda>x. (ci_title x, ci_checked x, if ci_checked x then None else Some (ci_description x),
                  if ci_checked x \<or> ci_disabled x then None else Some (ci_to x))) items))"

section \<open>Command palette\<close>

definition palette_commands :: "(string \<times> (string \<times> string) list) list" where
  "palette_commands =
     [(''Navigation'',
        [(''Home'', ''/home''), (''Wallet'', ''/wallet''), (''Connected Apps'', ''/apps?tab=connected-apps''),
         (''Sub-wallets'', ''/sub-wallets''), (''Node'', ''/channels''), (''Peers'', ''/peers''), (''App Store'', ''/apps?tab=app-store'')]),
      (''Wallet Actions'',
        [(''Send Payment'', ''/wallet/send''), (''Receive Payment'', ''/wallet/receive''), (''Swap'', ''/wallet/swap''),
         (''Auto Swap'', ''/wallet/swap/auto''), (''Create Invoice'', ''/wallet/receive/invoice''),
         (''Receive On-chain'', ''/wallet/receive?type=onchain''), (''Sign Message'', ''/wallet/sign-message'')]),
      (''Settings'',
        [(''Settings'', ''/settings''), (''Backup'', ''/settings/backup''), (''Alby Account'', ''/settings/alby-account''),
         (''About'', ''/settings/about''), (''Developer Settings'', ''/settings/developer'')]),
      (''Quick Actions'',
        [(''Connect New App'', ''/apps/new''), (''Create Sub-wallet'', ''/sub-wallets/new''), (''Open Channel'', ''/channels/incoming''),
         (''Connect Peer'', ''/peers/new'')])]"

text \<open>The group of the found connections, only while the answer to the search has one.\<close>

definition palette_groups :: "ListAppsResponse option \<Rightarrow> (string \<times> (string \<times> string) list) list" where
  "palette_groups found =
     palette_commands @
     (case found of
        Some d \<Rightarrow> if lar_apps d = [] then []
                  else [(''Connected Apps'', map (\<lambda>a. (app_name a, ''/apps/'' @ show_int (app_id a))) (lar_apps d))]
      | None \<Rightarrow> [])"

text \<open>The state with the commands whose timer (1 ms) still runs.\<close>

record palette_ui =
  cp_open :: bool
  cp_searchText :: string
  cp_timers :: "string list"

definition palette_search :: "palette_ui \<Rightarrow> swr_call" where
  "palette_search s = useApps None None (Some (no_app_filters\<lparr>af_name := Some (cp_searchText s)\<rparr>)) None (cp_searchText s \<noteq> [])"

definition runCommand :: "string \<Rightarrow> palette_ui \<Rightarrow> palette_ui" where
  "runCommand url s = s\<lparr>cp_open := False, cp_searchText := [], cp_timers := cp_timers s @ [url]\<rparr>"

datatype palette_event = CpKey string bool bool | CpOpen bool | CpType string | CpSelect nat nat | CpTimer

definition palette_step :: "palette_ui ui \<Rightarrow> ListAppsResponse option \<times> palette_event \<Rightarrow> palette_ui ui" where
  "palette_step w fe =
     (let s = ui_st w; groups = palette_groups (fst fe) in
      case snd fe of
        CpKey key metaKey ctrlKey \<Rightarrow> w\<lparr>ui_st := s\<lparr>cp_open := command_palette_key key metaKey ctrlKey (cp_open s)\<rparr>\<rparr>
      | CpOpen b \<Rightarrow> w\<lparr>ui_st := s\<lparr>cp_open := b\<rparr>\<rparr>
      | CpType t \<Rightarrow> if cp_open s then w\<lparr>ui_st := s\<lparr>cp_searchText := t\<rparr>\<rparr> else w
      | CpSelect g i \<Rightarrow>
          if cp_open s \<and> g < length groups \<and> i < length (snd (groups ! g))
          then w\<lparr>ui_st := runCommand (snd (snd (groups ! g) ! i)) s\<rparr>
          else w
      | CpTimer \<Rightarrow>
          (case cp_timers s of
             [] \<Rightarrow> w
           | url # urls \<Rightarrow> \<lparr>ui_st = s\<lparr>cp_timers := urls\<rparr>, ui_log = ui_log w @ [ENavigate url]\<rparr>))"

section \<open>Layouts\<close>

text \<open>The banner: the title and where it leads; \<open>Inl\<close> is a page, \<open>Inr\<close> another site.\<close>

definition Banner :: "InfoResponse option \<Rightarrow> AlbyInfo option \<Rightarrow> AlbyMe option \<Rightarrow> (string \<times> string \<times> (string + string)) option" where
  "Banner info albyInfo albyMe =
     (case (info, albyInfo) of
        (Some i, Some a) \<Rightarrow>
          if info_oauthRedirect i \<and> (case albyMe of Some m \<Rightarrow> includes_str ''buzz'' (me_plan_code m) | None \<Rightarrow> False) \<and>
             info_vssSupported i \<and> \<not> info_ldkVssEnabled i
          then Some (''Enable Dynamic Channels Backup'', ''Upgrade your channel backups now'', Inl ''/settings/backup?dynamic=true'')
          else Some (''Update Available'', ai_latestReleaseNotes a, Inr (''https://getalby.com/update/hub?version='' @ info_version i))
      | _ \<Rightarrow> None)"

text \<open>The bar of the wallet: nothing before \<open>info\<close> and the balances are there.\<close>

definition wallet_links :: "bool \<Rightarrow> (string \<times> string) list" where
  "wallet_links hasChannelManagement =
     (if hasChannelManagement then [(''Swap'', ''/wallet/swap'')] else []) @ [(''Recurring'', ''/internal-apps/zapplanner'')]"

definition WalletLayout_bar :: "InfoResponse option \<Rightarrow> BalancesResponse option \<Rightarrow> (string \<times> string) list option" where
  "WalletLayout_bar info balances =
     (case (info, balances) of
        (Some i, Some _) \<Rightarrow>
          Some (wallet_links (btc_hasChannelManagement (backendTypeConfigs (info_backendType i))) @ [(''Buy'', ''https://www.getalby.com/topup'')])
      | _ \<Rightarrow> None)"

text \<open>The menu of the wallet; filtering and exporting only for lightning payments.\<close>

definition WalletActionsMenu :: "bool \<Rightarrow> bool \<Rightarrow> string list" where
  "WalletActionsMenu hasChannelManagement isOnchain =
     map fst (wallet_links hasChannelManagement) @ [''Buy''] @
     (if isOnchain then [] else [''Filter Transactions'', ''Export Transactions''])"

text \<open>The receive limit in the head of the receive pages; \<open>None\<close> while loading.\<close>

definition ReceiveLayout_limit :: "bool option \<Rightarrow> BalancesResponse option \<Rightarrow> Channel list option \<Rightarrow> int option option" where
  "ReceiveLayout_limit hasChannelManagement balances channels =
     (case (balances, channels) of
        (Some b, Some _) \<Rightarrow>
          Some (if hasChannelManagement = Some True then Some (lb_totalReceivableMsat (bal_lightning b)) else None)
      | _ \<Rightarrow> None)"

definition AppHeader_title :: "string option \<Rightarrow> string option" where
  "AppHeader_title pageTitle = (if truthy_str pageTitle then Some (the pageTitle @ '' '' @ [CHR 0xC2, CHR 0xB7] @ '' Alby Hub'') else None)"

section \<open>Every link has a page\<close>

definition literal_paths :: "string list" where
  "literal_paths = map pg_path (filter is_literal (pages routes))"

definition static_link :: "string \<Rightarrow> bool" where
  "static_link a = (takeWhile (\<lambda>c. c \<noteq> CHR ''?'') a \<in> set literal_paths)"

lemma static_link_page:
  assumes "static_link a" and "routes_to router"
  shows "\<exists>p. router a = Some p \<and> pg_path p = takeWhile (\<lambda>c. c \<noteq> CHR ''?'') a"
proof -
  obtain p where p: "p \<in> set (pages routes)" "is_literal p" "pg_path p = takeWhile (\<lambda>c. c \<noteq> CHR ''?'') a"
    using assms(1) unfolding static_link_def literal_paths_def by auto
  have "a = pg_path p \<or> (\<exists>q. a = pg_path p @ ''?'' @ q)"
  proof (cases "dropWhile (\<lambda>c. c \<noteq> CHR ''?'') a")
    case Nil
    then show ?thesis using takeWhile_dropWhile_id [of "\<lambda>c. c \<noteq> CHR ''?''" a] by (metis append_Nil2 p(3))
  next
    case (Cons c q)
    then have "c = CHR ''?''" using hd_dropWhile [of "\<lambda>c. c \<noteq> CHR ''?''" a] by simp
    then show ?thesis using takeWhile_dropWhile_id [of "\<lambda>c. c \<noteq> CHR ''?''" a] Cons by (metis append_Cons append_Nil p(3))
  qed
  then have "router a = Some p" using assms(2) p(1,2) unfolding routes_to_def by blast
  then show ?thesis using p(3) by blast
qed

definition frame_links :: "string list" where
  "frame_links =
     map (fst \<circ> snd) navMain @ map snd (navSecondary (Some True)) @ map snd (concat (map snd palette_commands)) @
     map snd (wallet_links True) @ map (snd \<circ> hint_link) [ChannelHint, SetupHint 0 0 0, SupportHint] @
     [''/settings/alby-account'', ''/alby/account'', ''/settings/backup?dynamic=true'', ''/channels/first'',
      ''/settings'', ''/settings/change-unlock-password'', ''/settings/auto-unlock'', ''/settings/node-migrate'', ''/settings/node'',
      ''/settings/debug-tools'']"

definition all_within :: "string list \<Rightarrow> string list \<Rightarrow> bool" where
  "all_within ps as = list_all (\<lambda>a. a \<in> set ps) as"

lemma frame_paths_within: "all_within literal_paths (map (takeWhile (\<lambda>c. c \<noteq> CHR ''?'')) frame_links)"
  by code_simp

lemma frame_link_page:
  assumes "u \<in> set frame_links" and "routes_to router"
  shows "case router u of Some p \<Rightarrow> pg_path p = takeWhile (\<lambda>c. c \<noteq> CHR ''?'') u | None \<Rightarrow> False"
proof -
  have "static_link u"
    using frame_paths_within assms(1) unfolding all_within_def static_link_def by (auto simp: list_all_iff)
  from static_link_page [OF this assms(2)] show ?thesis by auto
qed

definition account_links :: "account_entry list \<Rightarrow> string list" where
  "account_links es = List.map_filter (\<lambda>e. case e of AccountLink u _ \<Rightarrow> Some u | _ \<Rightarrow> None) es"

lemma frame_links_complete:
  "set (map (fst \<circ> snd) (AppSidebar_menu pathname has)) \<subseteq> set frame_links"
  "set (account_links (account_menu info albyMe http)) \<subseteq> set frame_links"
  "set (map snd (concat (map snd palette_commands))) \<subseteq> set frame_links"
  "set (map fst (settings_menu info)) \<subseteq> set frame_links"
  "set (map ci_to (onboarding_items parse_date t d)) \<subseteq> set frame_links"
  "set (map snd (wallet_links c)) \<subseteq> set frame_links"
  "set [snd (hint_link h)] \<subseteq> set frame_links"
proof -
  show "set (map (fst \<circ> snd) (AppSidebar_menu pathname has)) \<subseteq> set frame_links"
    by (cases "has = Some True") (simp_all add: AppSidebar_menu_def navMain_def navSecondary_def frame_links_def)
  show "set (account_links (account_menu info albyMe http)) \<subseteq> set frame_links"
    by (simp add: account_links_def account_menu_def List.map_filter_simps frame_links_def)
  show "set (map snd (concat (map snd palette_commands))) \<subseteq> set frame_links"
    unfolding frame_links_def by auto
  show "set (map fst (settings_menu info)) \<subseteq> set frame_links"
    by (auto simp: settings_menu_def Let_def palette_commands_def frame_links_def)
  show "set (map ci_to (onboarding_items parse_date t d)) \<subseteq> set frame_links"
    by (auto simp: onboarding_items_def checklist_item_def Let_def palette_commands_def navMain_def frame_links_def)
  show "set (map snd (wallet_links c)) \<subseteq> set frame_links"
    by (cases c) (simp_all add: wallet_links_def frame_links_def)
  show "set [snd (hint_link h)] \<subseteq> set frame_links"
    by (cases h) (simp_all add: hint_link_def frame_links_def)
qed



section \<open>The closed hint\<close>

lemma next21st_after:
  "\<not> date_le (next21st now) now"
  "ld_day d = 21 \<Longrightarrow> ld_ms d = 0 \<Longrightarrow> \<not> date_le d now \<Longrightarrow> date_le (next21st now) d" if "0 \<le> ld_ms now"
  using that by (auto simp: date_le_def next21st_def)

text \<open>A closed hint stays away until the 21st. When the user closes the hint to support the project, also after a reload it is
  hidden exactly as long as the next 21st of a month at midnight has not come, which is after the moment of closing
  and not after any other 21st that is; then it is shown wherever it would be shown to a user who never closed it.\<close>

lemma hint_closed_until_21st:
  assumes "parse_date (date_text (next21st now)) = Some (next21st now)" and "date_text (next21st now) \<noteq> []"
  shows "let s = ui_st (snd (close_hint date_text now w)); s' = mount_hint (hi_storage s); u = next21st now;
      hint = SidebarHint parse_date pathname order onboarding supportAlbyApps albyMe later
    in (hint s' = Some SupportHint) = (hint (mount_hint Map.empty) = Some SupportHint \<and> date_le u later) \<and> hint s = hint s' \<and>
       (if 0 \<le> ld_ms now
        then \<not> date_le u now \<and> (if ld_day d = 21 \<and> ld_ms d = 0 \<and> \<not> date_le d now then date_le u d else True)
        else True)"
  using assms next21st_after(1) [of now] next21st_after(2) [of now d]
  by (auto simp: close_hint_def effect_defs mount_hint_def SidebarHint_def hidden_over_def local.get_set_same storage_getItem_def [of Map.empty] Let_def split: prod.splits)

end
