(* ===== verification/Agents.thy ===== *)
theory Agents imports ZapPlanner
begin

text \<open>
  The page for AI agents (\<open>screens/ai/AI.tsx\<close>) and the page for supporting the project
  (\<open>screens/alby/SupportAlby.tsx\<close>): the connection an agent gets and how it is asked for, the prompts, the donation.
\<close>

section \<open>Agents\<close>

text \<open>\<open>ag_mcp\<close> tells whether the agent has instructions for the web; they are markup.\<close>

record agent =
  ag_id :: string
  ag_name :: string
  ag_description :: string
  ag_setupUrl :: string
  ag_mcp :: bool

definition mk_agent :: "string \<Rightarrow> string \<Rightarrow> string \<Rightarrow> bool \<Rightarrow> agent" where
  "mk_agent i n d mcp = \<lparr>ag_id = i, ag_name = n, ag_description = d, ag_setupUrl = [], ag_mcp = mcp\<rparr>"

definition agents :: "agent list" where
  "agents =
     [mk_agent ''openclaw'' ''OpenClaw'' ''Open-source personal AI assistant'' False,
      mk_agent ''hermes'' ''Hermes'' ''Self-improving open-source AI agent by Nous Research'' False,
      mk_agent ''cursor'' ''Cursor'' ''AI-powered code editor'' False,
      mk_agent ''claude'' ''Claude'' ''Anthropic's AI assistant (Code, Web & Desktop)'' True,
      mk_agent ''gemini'' ''Gemini CLI'' ''Google's open-source AI agent for the terminal'' False,
      mk_agent ''codex'' ''Codex'' ''OpenAI's coding agent'' False,
      mk_agent ''cline'' ''Cline'' ''AI coding assistant for VS Code'' False,
      mk_agent ''goose'' ''Goose'' ''Local AI agent by Block for automating engineering tasks'' False,
      mk_agent ''opencode'' ''OpenCode'' ''Terminal-based AI coding assistant'' False,
      mk_agent ''pi'' ''Pi'' ''Minimal terminal coding agent, great for local LLMs'' False]"

record ai_ui =
  ai_selectedAgent :: "string option"
  ai_heroDismissed :: bool
  ai_storage :: storage

definition hero_dismissed :: "storage \<Rightarrow> storageKey \<Rightarrow> bool" where
  "hero_dismissed st k = (storage_getItem st (localStorageKeys k) = Some ''true'')"

definition mount_ai :: "storage \<Rightarrow> ai_ui" where
  "mount_ai st = \<lparr>ai_selectedAgent = None, ai_heroDismissed = hero_dismissed st K_aiHeroDismissed, ai_storage = st\<rparr>"

definition ai_dismissHero :: "ai_ui \<Rightarrow> ai_ui" where
  "ai_dismissHero s =
     s\<lparr>ai_heroDismissed := True, ai_storage := storage_setItem (ai_storage s) (localStorageKeys K_aiHeroDismissed) ''true''\<rparr>"

definition selectedAgentData :: "ai_ui \<Rightarrow> agent option" where
  "selectedAgentData s = Option.bind (ai_selectedAgent s) (\<lambda>i. List.find (\<lambda>a. ag_id a = i) agents)"

definition other_agent :: agent where "other_agent = mk_agent ''other'' ''your agent'' [] False"

text \<open>The agent whose prompt is shown, and the page its button leads to.\<close>

definition shown_agent :: "ai_ui \<Rightarrow> agent option" where
  "shown_agent s =
     (if truthy_str (ai_selectedAgent s) \<and> (case selectedAgentData s of Some a \<Rightarrow> ag_setupUrl a = [] | None \<Rightarrow> True)
      then Some (nullish (selectedAgentData s) other_agent) else None)"

definition ai_handleConnect :: "ai_ui \<Rightarrow> ('s, unit) act" where
  "ai_handleConnect s =
     (case selectedAgentData s of
        Some a \<Rightarrow> whenD (ag_setupUrl a \<noteq> []) (emit (ENavigate (ag_setupUrl a)))
      | None \<Rightarrow> ret ())"

text \<open>\<open>BASE_URL.replace(/\/$/, "")\<close> and the prompt.\<close>

definition hub_url :: "string \<Rightarrow> string \<Rightarrow> string" where
  "hub_url origin baseUrl = origin @ (if baseUrl \<noteq> [] \<and> last baseUrl = CHR ''/'' then butlast baseUrl else baseUrl)"

definition genericPrompt :: "string \<Rightarrow> string \<Rightarrow> string" where
  "genericPrompt origin baseUrl =
     ''Run '' @ [CHR 0x60] @ ''npx -y skills add getAlby/payments-skill -y'' @ [CHR 0x60] @
     '' and connect to my Alby Hub wallet at '' @ hub_url origin baseUrl"

subsection \<open>The connection of an agent on the web\<close>

text \<open>\<open>agentName.toLowerCase().replace(/\s+/g, "-")\<close>.\<close>

fun dashes :: "bool \<Rightarrow> string \<Rightarrow> string" where
  "dashes _ [] = []"
| "dashes after (c # s) =
     (if is_space c then (if after then dashes True s else CHR ''-'' # dashes True s) else c # dashes False s)"

definition agent_request :: "string \<Rightarrow> CreateAppRequest" where
  "agent_request agentName =
     budget_request agentName
       [get_info, get_balance, list_transactions, lookup_invoice, make_invoice, notifications, pay_invoice, sign_message]
       (dashes False (to_lower agentName))"

record mcp_ui =
  mcp_isLoading :: bool
  mcp_mcpUrl :: string
  mcp_createdAppId :: "int option"

definition init_mcp :: mcp_ui where "init_mcp = \<lparr>mcp_isLoading = False, mcp_mcpUrl = [], mcp_createdAppId = None\<rparr>"

definition mcp_url :: "string option \<Rightarrow> string" where
  "mcp_url pairingUri = ''https://mcp.getalby.com/mcp?nwc='' @ encodeURIComponent (nullish pairingUri ''undefined'')"

definition handleCreateConnection :: "server \<Rightarrow> string \<Rightarrow> (mcp_ui, unit) act" where
  "handleCreateConnection srv agentName =
     andThen (getS (\<lambda>s. mcp_isLoading s \<or> mcp_mcpUrl s \<noteq> [])) (\<lambda>skip.
       if skip then ret ()
       else andDo (setS (\<lambda>s. s\<lparr>mcp_isLoading := True\<rparr>))
         (andDo
           (tryCatch
             (andThen (createApp srv (agent_request agentName)) (\<lambda>j.
                andDo (setS (\<lambda>s. s\<lparr>mcp_mcpUrl := mcp_url (pairing_uri j), mcp_createdAppId := jget_int ''id'' j\<rparr>))
                  (toast ''Connection created'')))
             (\<lambda>error. request_error ''Failed to create connection'' error))
           (setS (\<lambda>s. s\<lparr>mcp_isLoading := False\<rparr>))))"

text \<open>
  The effect runs when the component is mounted and whenever \<open>handleCreateConnection\<close> is another function, that is after
  each change of \<open>isLoading\<close> or \<open>mcpUrl\<close>. The run after \<open>isLoading\<close> became true does nothing; the one after the answer
  finds the state the answer left. \<open>mcp_rounds n\<close> is the state after the answers of \<open>n\<close> runs.
\<close>

primrec mcp_rounds :: "nat \<Rightarrow> server \<Rightarrow> string \<Rightarrow> mcp_ui ui \<Rightarrow> mcp_ui ui" where
  "mcp_rounds 0 srv agentName w = w"
| "mcp_rounds (Suc n) srv agentName w = snd (handleCreateConnection srv agentName (mcp_rounds n srv agentName w))"

datatype mcp_view = McpCreating | McpRetry | McpReady string "string option"

text \<open>The secret is masked; \<open>Retry\<close> is shown between an answer and the next run of the effect.\<close>

definition mcp_view_of :: "mcp_ui \<Rightarrow> mcp_view" where
  "mcp_view_of s =
     (if mcp_isLoading s then McpCreating
      else if mcp_mcpUrl s = [] then McpRetry
      else McpReady (''https://mcp.getalby.com/mcp?nwc='' @ concat (replicate 20 [CHR 0xE2, CHR 0x80, CHR 0xA2]))
             (if truthy_int (mcp_createdAppId s) then Some (''/apps/'' @ show_int (the (mcp_createdAppId s))) else None))"

subsection \<open>Prompts\<close>

record inspiration =
  ic_label :: string
  ic_prompts :: "string list"
  ic_skill :: "(string \<times> string \<times> string) option"

definition getInspirationCategories :: "bool \<Rightarrow> inspiration list" where
  "getInspirationCategories hasChannelManagement =
    [
     \<lparr>ic_label = ''Wallet'',
      ic_prompts = [''send $5 to hub@getalby.com for coffee'',
        ''how much is $10 in sats right now?'',
        ''make an invoice for 50,000 sats''],
      ic_skill = None\<rparr>,
     \<lparr>ic_label = ''Shopping'',
      ic_prompts = [''buy a $25 Netflix gift card on bitrefill.com'',
        ''get me an eSIM with 5GB of data for my trip to Portugal on bitrefill.com'',
        ''what gift cards are available in the US on bitrefill.com?''],
      ic_skill = Some (''Run '' @ [CHR 0x60] @ ''npx -y skills add bitrefill/agents -y'' @ [CHR 0x60] @ '' to install the Bitrefill Skill'',
        ''Bitrefill Skill'', ''https://bitrefill.com/agents'')\<rparr>,
     \<lparr>ic_label = ''Creative'',
      ic_prompts = [''generate a watercolor painting of a mountain cabin at sunset on ppq.ai'',
        ''generate a cool bitcoin logo on ppq.ai and print it on a t-shirt on unhuman.store'',
        ''create a logo for my coffee shop using ppq.ai image generation''],
      ic_skill = None\<rparr>,
     \<lparr>ic_label = ''Services'',
      ic_prompts = [''search podcasts for discussions about bitcoin scaling'',
        ''set up an anonymous email address on lnemail.net'',
        ''buy the domain my-awesome-project.dev on unhuman.domains'',
        ''spin up a VPS with 2 cores and 4GB RAM on lnvps.net''],
      ic_skill = None\<rparr>,
     \<lparr>ic_label = ''Automation'',
      ic_prompts = [''read payouts.csv and send 1,000 sats to each lightning address'',
        ''calculate how much I spent this month and break it down by day'',
        ''export all my transactions from the last 12 months as a CSV''],
      ic_skill = None\<rparr>,
     \<lparr>ic_label = ''Build Apps'',
      ic_prompts = [''build an AI image generator that charges 500 sats per image'',
        ''create a file converter that charges 50 sats per conversion'',
        ''build a blog where readers unlock articles for 50 sats each''],
      ic_skill = Some (''Run '' @ [CHR 0x60] @ ''npx -y skills add getAlby/builder-skill -y'' @ [CHR 0x60] @ '' to install the Builder Skill'',
        ''Builder Skill'', ''https://github.com/getAlby/builder-skill'')\<rparr>,
     \<lparr>ic_label = ''Alby Hub'',
      ic_prompts = [''create a sub-wallet for my mum'',
        ''setup a new alby hub on my VPS'',
        ''give me an on-chain deposit address'',
        ''create a new app connection with a 21,000 sat monthly budget'',
        ''list all my app connections and their budgets'',
        ''make a read-only connection I can share with my accountant'',
        ''revoke the connection called '' @ [CHR 0x22] @ ''old laptop'' @ [CHR 0x22]] @
        (if hasChannelManagement then [''open a channel with 2M sats to ACINQ's node'',
          ''show me my channels and their balances'',
          ''what's my node's connection info?''] else []),
      ic_skill = Some (''Run '' @ [CHR 0x60] @ ''npx -y skills add getAlby/hub-skill -y'' @ [CHR 0x60] @ '' to install the Alby Hub Skill'',
        ''Alby Hub Skill'', ''https://github.com/getAlby/hub-skill'')\<rparr>]"

text \<open>A prompt is typed character by character, stands, and is followed by the next one.\<close>

record rotating =
  rp_index :: nat
  rp_charCount :: nat
  rp_isTyping :: bool

definition init_rotating :: rotating where "init_rotating = \<lparr>rp_index = 0, rp_charCount = 0, rp_isTyping = True\<rparr>"

text \<open>One timer (30 ms while typing, 3 s at the end), and the change of the state the typing effect makes itself.\<close>

definition rotate_step :: "string list \<Rightarrow> rotating \<Rightarrow> rotating" where
  "rotate_step prompts s =
     (if rp_isTyping s
      then (if length (prompts ! rp_index s) \<le> rp_charCount s then s\<lparr>rp_isTyping := False\<rparr>
            else s\<lparr>rp_charCount := rp_charCount s + 1\<rparr>)
      else s\<lparr>rp_index := (rp_index s + 1) mod length prompts, rp_charCount := 0, rp_isTyping := True\<rparr>)"

definition typed_text :: "string list \<Rightarrow> rotating \<Rightarrow> string" where
  "typed_text prompts s = take (rp_charCount s) (prompts ! rp_index s)"

section \<open>The donation\<close>

record donation =
  dn_amountSat :: string
  dn_senderName :: string
  dn_isSubmitting :: bool
  dn_open :: bool

definition init_donation :: donation where
  "init_donation = \<lparr>dn_amountSat = [], dn_senderName = [], dn_isSubmitting = False, dn_open = False\<rparr>"

text \<open>\<open>Number(amountSat)\<close> when it is an integer of at least 1.\<close>

definition donation_sats :: "string \<Rightarrow> int option" where
  "donation_sats amount =
     (case js_Number amount of
        Fin r \<Rightarrow> if of_int \<lfloor>r\<rfloor> = r \<and> 1 \<le> r then Some \<lfloor>r\<rfloor> else None
      | _ \<Rightarrow> None)"

definition donation_max_amount :: "int \<Rightarrow> int" where
  "donation_max_amount sats = \<lfloor>(of_int sats * (101 / 100) + 10) * (13 / 10) :: rat\<rfloor>"

definition donation_request :: "int \<Rightarrow> CreateAppRequest" where
  "donation_request maxAmountSat =
     \<lparr>car_name = SUPPORT_ALBY_CONNECTION_NAME, car_pubkey = None, car_maxAmountSat = Some maxAmountSat,
      car_maxAmountMsat = None, car_budgetRenewal = Some Monthly, car_expiresAt = None, car_scopes = [pay_invoice],
      car_returnTo = None, car_isolated = Some False, car_metadata = Some (zap_metadata SUPPORT_ALBY_LIGHTNING_ADDRESS),
      car_unlockPassword = None\<rparr>"

definition donation_subscription :: "int \<Rightarrow> string \<Rightarrow> string option \<Rightarrow> json" where
  "donation_subscription sats senderName pairingUri =
     JObj ([(''recipientLightningAddress'', JStr SUPPORT_ALBY_LIGHTNING_ADDRESS), (''amount'', JNum sats),
            (''message'', JStr ''ZapPlanner payment from Alby Hub''),
            (''payerData'', JStr (json_stringify
               (JObj (if senderName \<noteq> [] then [(''name'', JStr senderName)] else []))))] @
           opt_member ''nostrWalletConnectUrl'' (map_option JStr pairingUri) @
           [(''cronExpression'', JStr cron_expression)])"

definition donation_update :: "json \<Rightarrow> json" where
  "donation_update subscriptionId =
     JObj [(''metadata'', metadata_json ((zap_metadata SUPPORT_ALBY_LIGHTNING_ADDRESS)
        \<lparr>meta_rest := [(''recipient_lightning_address'', JStr SUPPORT_ALBY_LIGHTNING_ADDRESS),
                       (''zapplanner_subscription_id'', subscriptionId)]\<rparr>))]"

definition create_donation :: "server \<Rightarrow> int \<Rightarrow> string \<Rightarrow> ('s, unit) act" where
  "create_donation srv sats senderName =
     andThen (createApp srv (donation_request (donation_max_amount sats))) (\<lambda>app.
     andThen (api srv ''POST'' subscriptions_url (Some (donation_subscription sats senderName (pairing_uri app)))) (\<lambda>res.
     andThen (subscription_id res) (\<lambda>subscriptionId.
     andDo (api srv ''PATCH'' (''/api/apps/'' @ nullish (jget_str ''pairingPublicKey'' app) ''undefined'')
              (Some (donation_update subscriptionId)))
     (andDo (emit (EToast ''Thank you for becoming a supporter'' (Some ''Payment will be made at the start of each month'')))
       (emit (ENavigate ''/''))))))"

definition donation_handleSubmit :: "(int \<Rightarrow> string) \<Rightarrow> server \<Rightarrow> InfoResponse option \<Rightarrow> (donation, unit) act" where
  "donation_handleSubmit fmt srv info =
     (case info of
        None \<Rightarrow> ret ()
      | Some i \<Rightarrow>
          andThen (getS (\<lambda>s. s)) (\<lambda>s.
            andDo (setS (\<lambda>u. u\<lparr>dn_isSubmitting := True\<rparr>))
              (finally_do
                (tryCatch
                  (case donation_sats (dn_amountSat s) of
                     None \<Rightarrow> throw ''Invalid amount''
                   | Some sats \<Rightarrow>
                       if sats < 1000
                       then emit (EToastError ''Amount too low''
                              (Some (''Minimum payment is '' @ formatBitcoinAmount fmt (1000 * 1000) (info_bitcoinDisplayFormat i) True)))
                       else create_donation srv sats (dn_senderName s))
                  (\<lambda>error. request_error ''Failed to create app'' error))
                (setS (\<lambda>u. u\<lparr>dn_isSubmitting := False\<rparr>)))))"

datatype donation_event = DnOpen bool | DnAmount string | DnPreset string | DnName string | DnSubmit

definition donation_allowed :: "donation \<Rightarrow> donation_event \<Rightarrow> bool" where
  "donation_allowed s e =
     (case e of
        DnOpen b \<Rightarrow> b \<noteq> dn_open s
      | DnPreset t \<Rightarrow> dn_open s \<and> t \<in> {''3000'', ''6000'', ''10000''}
      | DnSubmit \<Rightarrow> dn_open s \<and> \<not> dn_isSubmitting s \<and> dn_amountSat s \<noteq> []
      | _ \<Rightarrow> dn_open s)"

definition donation_handler :: "(int \<Rightarrow> string) \<Rightarrow> server \<Rightarrow> InfoResponse option \<Rightarrow> donation_event \<Rightarrow> (donation, unit) act" where
  "donation_handler fmt srv info e =
     (case e of
        DnOpen b \<Rightarrow> setS (\<lambda>s. s\<lparr>dn_open := b\<rparr>)
      | DnAmount t \<Rightarrow> setS (\<lambda>s. s\<lparr>dn_amountSat := t\<rparr>)
      | DnPreset t \<Rightarrow> setS (\<lambda>s. s\<lparr>dn_amountSat := t\<rparr>)
      | DnName t \<Rightarrow> setS (\<lambda>s. s\<lparr>dn_senderName := t\<rparr>)
      | DnSubmit \<Rightarrow> donation_handleSubmit fmt srv info)"

definition donation_step :: "(int \<Rightarrow> string) \<Rightarrow> server \<Rightarrow> donation ui \<Rightarrow> InfoResponse option \<times> donation_event \<Rightarrow> donation ui" where
  "donation_step fmt srv w ie =
     (if donation_allowed (ui_st w) (snd ie) then snd (donation_handler fmt srv (fst ie) (snd ie) w) else w)"

section \<open>Properties\<close>

lemma budget_shape:
  "car_scopes (agent_request a) = [get_info, get_balance, list_transactions, lookup_invoice, make_invoice, notifications, pay_invoice, sign_message]"
  "car_maxAmountSat (agent_request a) = Some 100000" "car_budgetRenewal (agent_request a) = Some Monthly"
  by (simp_all add: agent_request_def budget_request_def DEFAULT_APP_BUDGET_SATS_def DEFAULT_APP_BUDGET_RENEWAL_def)

abbreviation agent_fetch :: "string \<Rightarrow> effect" where
  "agent_fetch a \<equiv> EFetch ''POST'' ''/api/apps'' (Some (create_app_json (agent_request a)))"

definition mcp_ok :: "server \<Rightarrow> string \<Rightarrow> nat \<Rightarrow> mcp_ui ui \<Rightarrow> bool" where
  "mcp_ok srv a n w =
     (list_all (\<lambda>e. e = agent_fetch a) (fetches (ui_log w)) \<and> \<not> mcp_isLoading (ui_st w) \<and>
      (if mcp_mcpUrl (ui_st w) = [] then length (fetches (ui_log w)) = n
       else length (fetches (ui_log w)) \<le> n \<and>
         (\<exists>k j. ui_log w = k @ [agent_fetch a, EToast ''Connection created'' None] \<and>
            srv k ''POST'' ''/api/apps'' (Some (create_app_json (agent_request a))) = Inr (Some j) \<and> json_truthy j \<and>
            mcp_mcpUrl (ui_st w) = mcp_url (pairing_uri j))))"

lemma mcp_url_nonempty: "mcp_url u \<noteq> []"
  by (simp add: mcp_url_def)

lemma create_when_connected: "mcp_mcpUrl (ui_st w) \<noteq> [] \<Longrightarrow> snd (handleCreateConnection srv a w) = w"
  by (simp add: handleCreateConnection_def getS_then effect_defs)

lemma mcp_round_ok:
  assumes "mcp_ok srv a n w"
  shows "mcp_ok srv a (Suc n) (snd (handleCreateConnection srv a w))"
proof (cases "mcp_mcpUrl (ui_st w) = []")
  case False
  then show ?thesis using assms by (simp add: create_when_connected mcp_ok_def)
next
  case True
  then have w: "\<not> mcp_isLoading (ui_st w)" "list_all (\<lambda>e. e = agent_fetch a) (fetches (ui_log w))" "length (fetches (ui_log w)) = n"
    using assms by (simp_all add: mcp_ok_def)
  note run = True w handleCreateConnection_def getS_then createApp_def effect_defs mcp_ok_def mcp_url_nonempty
  show ?thesis
  proof (cases "\<exists>j. srv (ui_log w) ''POST'' ''/api/apps'' (Some (create_app_json (agent_request a))) = Inr (Some j) \<and> json_truthy j")
    case True
    then obtain j where "srv (ui_log w) ''POST'' ''/api/apps'' (Some (create_app_json (agent_request a))) = Inr (Some j)" "json_truthy j"
      by blast
    then show ?thesis by (auto simp: run)
  next
    case False
    then show ?thesis
      by (cases "srv (ui_log w) ''POST'' ''/api/apps'' (Some (create_app_json (agent_request a)))")
        (auto simp: run split: option.split)
  qed
qed


lemma failing_server_asked_forever:
  "(\<And>l b. srv l ''POST'' ''/api/apps'' b = Inl e) \<Longrightarrow>
   length (fetches (ui_log (mcp_rounds n srv a \<lparr>ui_st = init_mcp, ui_log = []\<rparr>))) = n \<and>
   mcp_view_of (ui_st (mcp_rounds n srv a \<lparr>ui_st = init_mcp, ui_log = []\<rparr>)) = McpRetry"
proof (induction n)
  case (Suc n)
  then show ?case
    by (cases "mcp_rounds n srv a \<lparr>ui_st = init_mcp, ui_log = []\<rparr>")
      (auto simp: handleCreateConnection_def getS_then createApp_def effect_defs mcp_view_of_def split: if_splits)
qed (simp add: init_mcp_def mcp_view_of_def)

lemma typing_run:
  assumes "k \<le> length (prompts ! i)"
  shows "(rotate_step prompts ^^ k) \<lparr>rp_index = i, rp_charCount = 0, rp_isTyping = True\<rparr> = \<lparr>rp_index = i, rp_charCount = k, rp_isTyping = True\<rparr>"
  using assms by (induction k) (simp_all add: rotate_step_def)

text \<open>Every prompt is typed out, and the next one follows.\<close>

lemma prompts_rotate:
  fixes prompts i
  defines "n \<equiv> length (prompts ! i)" and "s \<equiv> \<lparr>rp_index = i, rp_charCount = 0, rp_isTyping = True\<rparr>"
  shows "typed_text prompts ((rotate_step prompts ^^ n) s) = prompts ! i \<and>
    (rotate_step prompts ^^ (n + 2)) s = \<lparr>rp_index = (i + 1) mod length prompts, rp_charCount = 0, rp_isTyping = True\<rparr>"
proof -
  have "(rotate_step prompts ^^ n) s = \<lparr>rp_index = i, rp_charCount = n, rp_isTyping = True\<rparr>"
    unfolding s_def n_def by (rule typing_run) simp
  then show ?thesis by (simp add: typed_text_def n_def rotate_step_def)
qed

lemma donation_floor: "1000 \<le> sats \<Longrightarrow> sats + max (sats div 100) 10 \<le> donation_max_amount sats"
proof -
  assume a: "1000 \<le> sats"
  have "sats div 100 * 100 \<le> sats" by (simp add: minus_mod_eq_div_mult [symmetric])
  then have d: "max (sats div 100) 10 * 100 \<le> sats" using a by (auto simp: max_def)
  have "(of_int (sats + max (sats div 100) 10) * 100 :: rat) = of_int (100 * sats + max (sats div 100) 10 * 100)" by simp
  also have "\<dots> \<le> of_int (101 * sats)" unfolding of_int_le_iff using d by linarith
  finally have "(of_int (sats + max (sats div 100) 10) :: rat) \<le> (of_int sats * (101 / 100) + 10) * (13 / 10)"
    using a by simp
  then show ?thesis unfolding donation_max_amount_def by (simp add: le_floor_iff)
qed

lemma donation_submit_run:
  assumes "donation_allowed (ui_st w) DnSubmit"
  shows "donation_step fmt srv w (Some i, DnSubmit) =
    (let idle = (\<lambda>v. v\<lparr>ui_st := (ui_st v)\<lparr>dn_isSubmitting := False\<rparr>\<rparr>); fail = (\<lambda>v t e. idle (v\<lparr>ui_log := ui_log v @ [EToastError t (Some e)]\<rparr>));
         busy = w\<lparr>ui_st := (ui_st w)\<lparr>dn_isSubmitting := True\<rparr>\<rparr>
     in case donation_sats (dn_amountSat (ui_st w)) of
          None \<Rightarrow> fail busy ''Failed to create app'' ''Invalid amount''
        | Some n \<Rightarrow>
            if n < 1000 then fail busy ''Amount too low'' (''Minimum payment is '' @ formatBitcoinAmount fmt 1000000 (info_bitcoinDisplayFormat i) True)
            else (case create_donation srv n (dn_senderName (ui_st w)) busy of
                    (Inl e, v) \<Rightarrow> fail v ''Failed to create app'' e | (Inr _, v) \<Rightarrow> idle v))"
  using assms
  by (cases w) (simp add: donation_step_def donation_handler_def donation_handleSubmit_def getS_then effect_defs Let_def
      split: sum.split prod.split option.split)

text \<open>A donation is what was typed. Confirming it asks for nothing when the text is not a whole number of at least 1000
  satoshis. Otherwise it asks for a connection that may only pay, with a monthly budget that covers the payment and its fee; if
  that is created, for a monthly subscription of exactly the number of satoshis to the project, paid by it; and if that has
  an id, for the id to be kept. The user is thanked and led home exactly when all three are accepted, and the form is never left busy.\<close>

lemma donation_as_typed:
  "let s = ui_st w; w' = donation_step fmt srv w (Some i, DnSubmit); l = fetches (ui_log w); l' = fetches (ui_log w');
       thanked = (ENavigate ''/'' = last (ui_log w'))
   in if donation_allowed s DnSubmit
      then \<not> dn_isSubmitting (ui_st w') \<and>
        (case donation_sats (dn_amountSat s) of
           None \<Rightarrow> l' = l \<and> \<not> thanked
         | Some n \<Rightarrow>
             if n < 1000 then l' = l \<and> \<not> thanked
             else let app = create_app_json (donation_request (donation_max_amount n)); create = EFetch ''POST'' ''/api/apps'' (Some app)
               in n + max (n div 100) 10 \<le> donation_max_amount n \<and>
                 (case srv (ui_log w) ''POST'' ''/api/apps'' (Some app) of
                   Inr (Some j) \<Rightarrow>
                     if json_truthy j
                     then let sub = donation_subscription n (dn_senderName s) (pairing_uri j); subscribe = EFetch ''POST'' subscriptions_url (Some sub);
                              url = ''/api/apps/'' @ nullish (jget_str ''pairingPublicKey'' j) ''undefined''
                          in case srv (ui_log w @ [create]) ''POST'' subscriptions_url (Some sub) of
                               Inr (Some r) \<Rightarrow>
                                 (case jget ''subscriptionId'' r of
                                    Some d \<Rightarrow>
                                      if json_truthy d
                                      then l' = l @ [create, subscribe, EFetch ''PATCH'' url (Some (donation_update d))] \<and>
                                        thanked = (case srv (ui_log w @ [create, subscribe]) ''PATCH'' url (Some (donation_update d)) of Inr _ \<Rightarrow> True | Inl _ \<Rightarrow> False)
                                      else l' = l @ [create, subscribe] \<and> \<not> thanked
                                  | None \<Rightarrow> l' = l @ [create, subscribe] \<and> \<not> thanked)
                             | _ \<Rightarrow> l' = l @ [create, subscribe] \<and> \<not> thanked
                     else l' = l @ [create] \<and> \<not> thanked
                 | _ \<Rightarrow> l' = l @ [create] \<and> \<not> thanked))
      else w' = w"
proof (cases "donation_allowed (ui_st w) DnSubmit")
  case True
  note run = donation_submit_run [OF True] True Let_def create_donation_def createApp_def subscription_id_def effect_defs
  show ?thesis
  proof (cases "donation_sats (dn_amountSat (ui_st w))")
    case (Some n)
    show ?thesis
    proof (cases "n < 1000")
      case False
      let ?app = "create_app_json (donation_request (donation_max_amount n))"
      have n: "n + max (n div 100) 10 \<le> donation_max_amount n" using donation_floor False by simp
      show ?thesis
      proof (cases "srv (ui_log w) ''POST'' ''/api/apps'' (Some ?app)")
        case first: (Inr res)
        show ?thesis
        proof (cases "\<exists>j. res = Some j \<and> json_truthy j")
          case True
          then obtain j where j: "res = Some j" "json_truthy j" by blast
          let ?sub = "donation_subscription n (dn_senderName (ui_st w)) (pairing_uri j)"
          let ?l = "ui_log w @ [EFetch ''POST'' ''/api/apps'' (Some ?app)]"
          show ?thesis
          proof (cases "srv ?l ''POST'' subscriptions_url (Some ?sub)")
            case second: (Inr r)
            show ?thesis
            proof (cases "Option.bind r (jget ''subscriptionId'')")
              case None
              then show ?thesis using Some False n first j second by (cases r) (simp_all add: run)
            next
              case some: (Some d)
              then obtain r' where r: "r = Some r'" "jget ''subscriptionId'' r' = Some d" by (cases r) auto
              show ?thesis using Some False n first j second r
                by (cases "json_truthy d") (simp_all add: run split: sum.split)
            qed
          qed (use Some False n first j in \<open>simp add: run\<close>)
        next
          case none: False
          then show ?thesis using Some False n first by (cases res) (auto simp: run)
        qed
      qed (use Some False n in \<open>simp add: run\<close>)
    qed (use Some in \<open>simp add: run\<close>)
  qed (simp add: run)
qed (simp add: donation_step_def Let_def)

end
