(* ===== verification/Cards.thy ===== *)
theory Cards imports Agents AppStore
begin

text \<open>
  The page for debit cards (\<open>screens/cards/Cards.tsx\<close>): the table of providers with its filters, and the dialog that leads to
  the form for a new connection with the entry of the app store, the provider and the name.
\<close>

section \<open>Providers\<close>

datatype region = RegionGlobal | RegionUS | RegionEU | RegionUK | RegionLATAM | RegionAfrica | RegionAsia

datatype card_feature = ApplePay | GooglePay | SelfCustody | LightningNative | NoKYC

datatype card_network = Visa | Mastercard

datatype card_type = PhysicalCard | VirtualCard | BothCards

text \<open>The logo is left out.\<close>

record provider =
  pv_id :: string
  pv_name :: string
  pv_url :: string
  pv_initials :: string
  pv_networks :: "card_network list"
  pv_cardType :: card_type
  pv_regions :: "region list"
  pv_applePay :: bool
  pv_googlePay :: bool
  pv_selfCustody :: bool
  pv_lightningNative :: bool
  pv_kyc :: bool
  pv_timeToGet :: string
  pv_cardCost :: string
  pv_fees :: string
  pv_appStoreId :: "string option"

definition providers :: "provider list" where
  "providers = [
     \<lparr>pv_id = ''redotpay'', pv_name = ''RedotPay'',
      pv_url = ''https://wap.redotpay.com/en/invite/?referralId=qr1a5'',
      pv_initials = ''RP'', pv_networks = [Visa], pv_cardType = VirtualCard, pv_regions = [RegionGlobal],
      pv_applePay = True, pv_googlePay = True, pv_selfCustody = False, pv_lightningNative = False, pv_kyc = True,
      pv_timeToGet = ''<10 minutes'', pv_cardCost = ''$10'', pv_fees = ''~2.2% + FX'', pv_appStoreId = Some ''bitcoin-card-topup''\<rparr>,
     \<lparr>pv_id = ''2fiat'', pv_name = ''2fiat'',
      pv_url = ''https://2fiat.com/getalby'',
      pv_initials = ''2F'', pv_networks = [Mastercard], pv_cardType = VirtualCard, pv_regions = [RegionGlobal],
      pv_applePay = True, pv_googlePay = True, pv_selfCustody = False, pv_lightningNative = True, pv_kyc = False,
      pv_timeToGet = ''Instant'', pv_cardCost = ''$50'', pv_fees = ''~6.8% top-up + $0.50'', pv_appStoreId = Some ''2fiat''\<rparr>,
     \<lparr>pv_id = ''freedomia'', pv_name = ''Freedomia'',
      pv_url = ''https://www.freedomia.io/a/getalby'',
      pv_initials = ''FR'', pv_networks = [Visa], pv_cardType = VirtualCard, pv_regions = [RegionGlobal],
      pv_applePay = False, pv_googlePay = True, pv_selfCustody = False, pv_lightningNative = True, pv_kyc = False,
      pv_timeToGet = ''Instant'', pv_cardCost = (''$5'' @ [CHR 0xE2, CHR 0x80, CHR 0x93] @ ''30 / mo''), pv_fees = (''1.3'' @ [CHR 0xE2, CHR 0x80, CHR 0x93] @ ''4.3%''), pv_appStoreId = Some ''bitcoin-card-topup''\<rparr>,
     \<lparr>pv_id = ''solvocard'', pv_name = ''Solvocard'',
      pv_url = ''https://www.solvocard.com/auth/sign-up?ref=77CEM87Q'',
      pv_initials = ''SC'', pv_networks = [Visa, Mastercard], pv_cardType = VirtualCard, pv_regions = [RegionGlobal],
      pv_applePay = True, pv_googlePay = True, pv_selfCustody = False, pv_lightningNative = False, pv_kyc = False,
      pv_timeToGet = ''Instant'', pv_cardCost = ''$99'', pv_fees = ''4% deposit + $1 card topup'', pv_appStoreId = Some ''bitcoin-card-topup''\<rparr>,
     \<lparr>pv_id = ''bringin'', pv_name = ''Bringin'',
      pv_url = ''https://bringin.app'',
      pv_initials = ''BR'', pv_networks = [Visa], pv_cardType = BothCards, pv_regions = [RegionEU],
      pv_applePay = False, pv_googlePay = True, pv_selfCustody = False, pv_lightningNative = True, pv_kyc = True,
      pv_timeToGet = ''Minutes'', pv_cardCost = ([CHR 0xE2, CHR 0x82, CHR 0xAC] @ ''3.49 / mo''), pv_fees = ''1% + 0.5%'', pv_appStoreId = Some ''bringin''\<rparr>,
     \<lparr>pv_id = ''wavespace'', pv_name = ''wavecard by wave.space'',
      pv_url = ''https://app.wave.space/?utm_source=albyhub&affiliate=AlbyHub'',
      pv_initials = ''WS'', pv_networks = [Visa], pv_cardType = BothCards, pv_regions = [RegionEU],
      pv_applePay = False, pv_googlePay = True, pv_selfCustody = False, pv_lightningNative = True, pv_kyc = True,
      pv_timeToGet = ''Minutes'', pv_cardCost = ([CHR 0xE2, CHR 0x82, CHR 0xAC] @ ''2.99 / '' @ [CHR 0xE2, CHR 0x82, CHR 0xAC] @ ''29.99''), pv_fees = ''1% + 0.5%'', pv_appStoreId = Some ''wavespace''\<rparr>]"

section \<open>The page\<close>

text \<open>\<open>None\<close> is the choice of all regions.\<close>

record cards_ui =
  cu_region :: "region option"
  cu_features :: "card_feature list"
  cu_connectOpen :: bool
  cu_heroDismissed :: bool
  cu_storage :: storage

definition mount_cards :: "storage \<Rightarrow> cards_ui" where
  "mount_cards st =
     \<lparr>cu_region = None, cu_features = [], cu_connectOpen = False, cu_heroDismissed = hero_dismissed st K_cardsHeroDismissed,
      cu_storage = st\<rparr>"

definition cards_dismissHero :: "cards_ui \<Rightarrow> cards_ui" where
  "cards_dismissHero s =
     s\<lparr>cu_heroDismissed := True, cu_storage := storage_setItem (cu_storage s) (localStorageKeys K_cardsHeroDismissed) ''true''\<rparr>"

text \<open>\<open>upper\<close> is \<open>toUpperCase\<close>.\<close>

definition cardholderName :: "(string \<Rightarrow> string) \<Rightarrow> AlbyMe option \<Rightarrow> InfoResponse option \<Rightarrow> string" where
  "cardholderName upper albyMe info =
     upper (or_str (map_option me_name albyMe) (or_str (map_option info_nodeAlias info) ''Alby Hub User''))"

definition in_region :: "region option \<Rightarrow> provider \<Rightarrow> bool" where
  "in_region region p =
     (case region of
        None \<Rightarrow> True
      | Some r \<Rightarrow> r \<in> set (pv_regions p) \<or> r \<noteq> RegionGlobal \<and> RegionGlobal \<in> set (pv_regions p))"

definition has_feature :: "provider \<Rightarrow> card_feature \<Rightarrow> bool" where
  "has_feature p f =
     (case f of
        ApplePay \<Rightarrow> pv_applePay p
      | GooglePay \<Rightarrow> pv_googlePay p
      | SelfCustody \<Rightarrow> pv_selfCustody p
      | LightningNative \<Rightarrow> pv_lightningNative p
      | NoKYC \<Rightarrow> \<not> pv_kyc p)"

definition filtered_providers :: "cards_ui \<Rightarrow> provider list" where
  "filtered_providers s = filter (\<lambda>p. in_region (cu_region s) p \<and> list_all (has_feature p) (cu_features s)) providers"

text \<open>The features that can be chosen: those some provider has.\<close>

definition offered_features :: "card_feature list" where
  "offered_features =
     filter (\<lambda>f. list_ex (\<lambda>p. has_feature p f) providers) [ApplePay, GooglePay, SelfCustody, LightningNative, NoKYC]"

text \<open>The line above the table, shown while a filter is set.\<close>

definition filter_line :: "cards_ui \<Rightarrow> (nat \<times> nat) option" where
  "filter_line s =
     (if cu_region s \<noteq> None \<or> cu_features s \<noteq> [] then Some (length (filtered_providers s), length providers) else None)"

definition openProvider :: "server \<Rightarrow> provider \<Rightarrow> ('s, unit) act" where
  "openProvider srv p =
     andDo (sendEvent srv ''debit_card_url_clicked'' (Some (JObj [(''name'', JStr (pv_name p)), (''url'', JStr (pv_url p))])))
       (emit (EOpen (pv_url p)))"

section \<open>Connecting a card\<close>

definition topup_id :: string where "topup_id = ''bitcoin-card-topup''"

definition provider_link :: "provider \<Rightarrow> string option" where
  "provider_link p =
     map_option (\<lambda>appId.
       if appId = topup_id
       then ''/apps/new?app='' @ appId @ ''&provider='' @ encodeURIComponent (pv_id p) @
            ''&name='' @ encodeURIComponent (pv_name p @ '' - Bitcoin Card Topup'')
       else ''/apps/new?app='' @ appId) (pv_appStoreId p)"

definition other_card_link :: "string \<Rightarrow> string" where
  "other_card_link cardName = ''/apps/new?app=bitcoin-card-topup&name='' @ encodeURIComponent (cardName @ '' - Bitcoin Card Topup'')"

record card_dialog =
  cd_connectOpen :: bool
  cd_showOtherCardForm :: bool
  cd_otherCardName :: string
  cd_otherCardNameError :: string

definition reset_card_form :: "card_dialog \<Rightarrow> card_dialog" where
  "reset_card_form s = s\<lparr>cd_showOtherCardForm := False, cd_otherCardName := [], cd_otherCardNameError := []\<rparr>"

text \<open>Opening it runs the effect on \<open>open\<close>.\<close>

definition set_connect_open :: "bool \<Rightarrow> card_dialog \<Rightarrow> card_dialog" where
  "set_connect_open b s =
     (let s' = s\<lparr>cd_connectOpen := b\<rparr> in if b \<and> \<not> cd_connectOpen s then reset_card_form s' else s')"

definition handleOtherCardSubmit :: "server \<Rightarrow> (card_dialog, unit) act" where
  "handleOtherCardSubmit srv =
     andThen (getS (\<lambda>s. trim (cd_otherCardName s))) (\<lambda>cardName.
       if cardName = [] then setS (\<lambda>s. s\<lparr>cd_otherCardNameError := ''Enter a card name''\<rparr>)
       else andDo (sendEvent srv ''debit_card_connect'' (Some (JObj [(''name'', JStr cardName)])))
         (andDo (setS (set_connect_open False)) (emit (ENavigate (other_card_link cardName)))))"

definition pick_provider :: "server \<Rightarrow> provider \<Rightarrow> (card_dialog, unit) act" where
  "pick_provider srv p =
     (case provider_link p of
        None \<Rightarrow> ret ()
      | Some url \<Rightarrow>
          andDo (sendEvent srv ''debit_card_connect'' (Some (JObj [(''name'', JStr (pv_name p))])))
            (andDo (setS (set_connect_open False)) (emit (ENavigate url))))"

datatype card_event = CdOpen | CdClose | CdPick nat | CdOther | CdBack | CdType string | CdSubmit

definition card_allowed :: "card_dialog \<Rightarrow> card_event \<Rightarrow> bool" where
  "card_allowed s e =
     (case e of
        CdOpen \<Rightarrow> \<not> cd_connectOpen s
      | CdClose \<Rightarrow> cd_connectOpen s
      | CdPick n \<Rightarrow> cd_connectOpen s \<and> \<not> cd_showOtherCardForm s \<and> n < length providers
      | CdOther \<Rightarrow> cd_connectOpen s \<and> \<not> cd_showOtherCardForm s
      | CdSubmit \<Rightarrow> cd_connectOpen s \<and> cd_showOtherCardForm s \<and> cd_otherCardName s \<noteq> []
      | _ \<Rightarrow> cd_connectOpen s \<and> cd_showOtherCardForm s)"

definition card_handler :: "server \<Rightarrow> card_event \<Rightarrow> (card_dialog, unit) act" where
  "card_handler srv e =
     (case e of
        CdOpen \<Rightarrow> setS (set_connect_open True)
      | CdClose \<Rightarrow> setS (set_connect_open False)
      | CdPick n \<Rightarrow> pick_provider srv (providers ! n)
      | CdOther \<Rightarrow> setS (\<lambda>s. s\<lparr>cd_showOtherCardForm := True\<rparr>)
      | CdBack \<Rightarrow> setS (\<lambda>s. s\<lparr>cd_showOtherCardForm := False\<rparr>)
      | CdType t \<Rightarrow> setS (\<lambda>s. s\<lparr>cd_otherCardName := t, cd_otherCardNameError := []\<rparr>)
      | CdSubmit \<Rightarrow> handleOtherCardSubmit srv)"

definition card_step :: "server \<Rightarrow> card_dialog ui \<Rightarrow> card_event \<Rightarrow> card_dialog ui" where
  "card_step srv w e = (if card_allowed (ui_st w) e then snd (card_handler srv e w) else w)"

section \<open>The links are read back\<close>

lemma decode_component_char: "form_decode (encode_component_char c @ s) = c # form_decode s"
proof -
  have "form_char c = encode_component_char c" if "c \<noteq> CHR '' ''" "c \<notin> set [CHR ''!'', CHR ''~'', CHR 0x27, CHR ''('', CHR '')'']"
    using that by (auto simp: form_char_def encode_component_char_def)
  moreover have "encode_component_char CHR '' '' = percent CHR '' ''" by (simp add: encode_component_char_def is_alnum_def)
  moreover have "form_decode (percent CHR '' '' @ s) = CHR '' '' # form_decode s"
  proof -
    have "percent CHR '' '' = ''%20''" by code_simp
    moreover have "(char_of (32 :: nat) :: char) = CHR '' ''" by code_simp
    ultimately show ?thesis by (simp add: form_decode_def radix_digit_def)
  qed
  ultimately show ?thesis using form_decode_char [of c s]
    by (cases "c = CHR '' ''") (auto simp: encode_component_char_def form_decode_def)
qed

lemma decode_component [simp]: "form_decode (encodeURIComponent s) = s"
  by (induction s) (simp_all add: encodeURIComponent_def decode_component_char, simp add: form_decode_def)

lemma component_delims: "d \<in> set (encodeURIComponent s) \<Longrightarrow> d \<noteq> CHR ''&'' \<and> d \<noteq> CHR ''?''"
proof -
  assume "d \<in> set (encodeURIComponent s)"
  then obtain c where c: "d \<in> set (encode_component_char c)" by (auto simp: encodeURIComponent_def)
  have "is_alnum d \<or> d = CHR ''%'' \<or> d \<in> set [CHR ''-'', CHR ''_'', CHR ''.'', CHR ''!'', CHR ''~'', CHR ''*'', CHR 0x27, CHR ''('', CHR '')'']"
    using c by (auto simp: encode_component_char_def percent_def char_div_less hex_upper_alnum split: if_splits)
  then show ?thesis by (auto simp: is_alnum_def)
qed

definition plain_key :: "string \<Rightarrow> bool" where
  "plain_key k = (list_all (\<lambda>c. c \<notin> set ''=&?+%'') k \<and> k \<noteq> [])"

lemma plain_decode: "list_all (\<lambda>c. c \<notin> set ''=&?+%'') k \<Longrightarrow> form_decode k = k"
  by (induction k) (auto simp: form_decode_def)

lemma query_read:
  assumes "list_all (\<lambda>(k, v). plain_key k) kvs" and "kvs \<noteq> []"
  shows "parse_params (join_with CHR ''&'' (map (\<lambda>(k, v). k @ ''='' @ encodeURIComponent v) kvs)) = kvs"
proof -
  let ?ws = "map (\<lambda>(k, v). k @ ''='' @ encodeURIComponent v) kvs"
  have w: "\<forall>w \<in> set ?ws. CHR ''&'' \<notin> set w \<and> CHR ''?'' \<notin> set w \<and> w \<noteq> []"
    using assms(1) component_delims by (fastforce simp: list_all_iff plain_key_def)
  then have split: "split_on CHR ''&'' (join_with CHR ''&'' ?ws) = ?ws" using assms(2) by (intro split_on_join) auto
  have "CHR ''?'' \<notin> set (join_with CHR ''&'' ?ws)" using w join_with_set by fastforce
  then have start: "\<not> starts_with ''?'' (join_with CHR ''&'' ?ws)" by (auto simp: starts_with_iff)
  have "parse_pair (k @ ''='' @ encodeURIComponent v) = (k, v)" if "(k, v) \<in> set kvs" for k v
  proof -
    have k: "list_all (\<lambda>c. c \<notin> set ''=&?+%'') k" using assms(1) that by (auto simp: list_all_iff plain_key_def)
    then have "CHR ''='' \<notin> set k" by (auto simp: list_all_iff)
    then show ?thesis using plain_decode [OF k] by (simp add: parse_pair_def index_of_append)
  qed
  then have "map parse_pair ?ws = kvs" by (auto intro!: map_idI simp: comp_def)
  moreover have "filter (\<lambda>w. w \<noteq> []) ?ws = ?ws" using w by (intro filter_True) blast
  ultimately show ?thesis unfolding parse_params_def using start split by simp
qed

definition link_query :: "string \<Rightarrow> params" where
  "link_query u = parse_params (drop 1 (dropWhile (\<lambda>c. c \<noteq> CHR ''?'') u))"

lemma other_link_query:
  "link_query (other_card_link t) = [(''app'', topup_id), (''name'', t @ '' - Bitcoin Card Topup'')]"
proof -
  have id: "encodeURIComponent topup_id = topup_id" by code_simp
  have "drop 1 (dropWhile (\<lambda>c. c \<noteq> CHR ''?'') (other_card_link t)) = join_with CHR ''&''
      (map (\<lambda>(k, v). k @ ''='' @ encodeURIComponent v) [(''app'', topup_id), (''name'', t @ '' - Bitcoin Card Topup'')])"
    by (simp add: other_card_link_def id, simp add: topup_id_def)
  then show ?thesis unfolding link_query_def by (simp only:) (rule query_read; simp add: plain_key_def)
qed

definition provider_query :: "provider \<Rightarrow> string \<Rightarrow> params" where
  "provider_query p a =
     (if a = topup_id then [(''app'', a), (''provider'', pv_id p), (''name'', pv_name p @ '' - Bitcoin Card Topup'')] else [(''app'', a)])"

lemma provider_link_query:
  assumes "pv_appStoreId p = Some a" and "encodeURIComponent a = a"
  shows "link_query (the (provider_link p)) = provider_query p a"
proof -
  have "drop 1 (dropWhile (\<lambda>c. c \<noteq> CHR ''?'') (the (provider_link p))) = join_with CHR ''&''
      (map (\<lambda>(k, v). k @ ''='' @ encodeURIComponent v) (provider_query p a))"
    using assms by (auto simp: provider_link_def provider_query_def)
  moreover have "parse_params (join_with CHR ''&'' (map (\<lambda>(k, v). k @ ''='' @ encodeURIComponent v) (provider_query p a))) = provider_query p a"
    by (rule query_read; simp add: plain_key_def provider_query_def)
  ultimately show ?thesis unfolding link_query_def by simp
qed

lemma provider_ids:
  "list_all (\<lambda>p. case pv_appStoreId p of None \<Rightarrow> True
     | Some a \<Rightarrow> encodeURIComponent a = a \<and> a \<in> set (map asa_id store_table)) providers"
  by code_simp

lemma truncate_fields [simp]: "asa_id (AppStoreApp.truncate e) = asa_id e" "asa_title (AppStoreApp.truncate e) = asa_title e"
  by (simp_all add: AppStoreApp.truncate_def)

lemma store_entry:
  assumes "e \<in> set appStoreApps" and "qget q ''app'' = asa_id e"
  shows "appStoreApp (map AppStoreApp.truncate appStoreApps) q = Some (AppStoreApp.truncate e)"
proof -
  have "distinct (map asa_id (map AppStoreApp.truncate appStoreApps))" using appStoreApps_ids by (simp add: comp_def)
  moreover have "AppStoreApp.truncate e \<in> set (map AppStoreApp.truncate appStoreApps)" using assms(1) by simp
  ultimately show ?thesis
    using find_by_key [of asa_id "map AppStoreApp.truncate appStoreApps" "AppStoreApp.truncate e"] assms(2) by (simp add: appStoreApp_def)
qed

lemma page_name:
  assumes "e \<in> set appStoreApps" and "qget q ''app'' = asa_id e" and "params_get q ''c'' = None"
  shows "na_name (init_new_app cal (env\<lparr>ne_store := map AppStoreApp.truncate appStoreApps, ne_query := q\<rparr>)) =
    or_str (params_get q ''name'') (asa_title e)"
  using store_entry [OF assms(1,2)] assms(3)
  by (cases "params_get q ''name''") (auto simp: init_new_app_def ne_app_def)

lemma query_gets:
  "qget (provider_query p a) ''app'' = a" "params_get (provider_query p a) ''c'' = None"
  "params_get (provider_query p a) ''name'' = (if a = topup_id then Some (pv_name p @ '' - Bitcoin Card Topup'') else None)"
  "params_get (provider_query p a) ''provider'' = (if a = topup_id then Some (pv_id p) else None)"
  by (simp_all add: provider_query_def qget_def params_get_def)

lemma or_str_name: "or_str (Some (s @ '' - Bitcoin Card Topup'')) d = s @ '' - Bitcoin Card Topup''"
  by (cases s) simp_all

lemma provider_link_page:
  assumes p: "p \<in> set providers" and u: "provider_link p = Some u"
  shows "\<exists>e. e \<in> set appStoreApps \<and> Some (asa_id e) = pv_appStoreId p \<and> link_query u = provider_query p (asa_id e)"
proof -
  obtain a where a: "pv_appStoreId p = Some a" using u by (auto simp: provider_link_def)
  then have "encodeURIComponent a = a" and "a \<in> set (map asa_id store_table)"
    using provider_ids p by (auto simp: list_all_iff split: option.splits)
  moreover obtain e where "e \<in> set appStoreApps" "asa_id e = a"
    using \<open>a \<in> set (map asa_id store_table)\<close> by (auto simp: appStoreApps_set)
  ultimately show ?thesis using provider_link_query [OF a] u a by auto
qed

lemma topup_entry: "app_bitcoin_card_topup \<in> set appStoreApps" "asa_id app_bitcoin_card_topup = topup_id"
  by (simp_all add: appStoreApps_set store_table_def app_bitcoin_card_topup_def topup_id_def)

lemma provider_nonempty: "list_all (\<lambda>p. pv_id p \<noteq> []) providers"
  by code_simp

text \<open>C29: The links of the card dialog say what was chosen. For every provider of the table the form for a new connection finds, in the query
  of its link, exactly the entry of the app store it names; for a card that is topped up through the common entry its name starts
  as the provider's and the top-up page of that provider is opened, for another one it starts as the title of the entry. For a
  typed card the entry is the common one and the name is the typed one, whatever characters it has.\<close>

theorem card_links_say_what_was_chosen:
  "let store = map AppStoreApp.truncate appStoreApps; page = (\<lambda>u. na_name (init_new_app cal (env\<lparr>ne_store := store, ne_query := link_query u\<rparr>)))
   in list_all (\<lambda>p. case provider_link p of
          None \<Rightarrow> pv_appStoreId p = None
        | Some u \<Rightarrow> \<exists>e. e \<in> set appStoreApps \<and> Some (asa_id e) = pv_appStoreId p \<and>
            appStoreApp store (link_query u) = Some (AppStoreApp.truncate e) \<and>
            (if asa_id e = ''bitcoin-card-topup''
             then page u = pv_name p @ '' - Bitcoin Card Topup'' \<and>
               card_topup_url (link_query u) = ''https://card.albylabs.com?provider='' @ encodeURIComponent (pv_id p)
             else page u = asa_title e)) providers \<and>
      page (other_card_link t) = t @ '' - Bitcoin Card Topup'' \<and>
      card_topup_url (link_query (other_card_link t)) = ''https://card.albylabs.com'' \<and>
      appStoreApp store (link_query (other_card_link t)) = Some (AppStoreApp.truncate app_bitcoin_card_topup)"
proof -
  have other: "link_query (other_card_link t) = [(''app'', topup_id), (''name'', t @ '' - Bitcoin Card Topup'')]"
    by (rule other_link_query)
  have q: "qget (link_query (other_card_link t)) ''app'' = asa_id app_bitcoin_card_topup"
    by (simp add: other qget_def params_get_def topup_entry)
  let ?Q = "\<lambda>p u. \<exists>e. e \<in> set appStoreApps \<and> Some (asa_id e) = pv_appStoreId p \<and>
      appStoreApp (map AppStoreApp.truncate appStoreApps) (link_query u) = Some (AppStoreApp.truncate e) \<and>
      (if asa_id e = ''bitcoin-card-topup''
       then na_name (init_new_app cal (env\<lparr>ne_store := map AppStoreApp.truncate appStoreApps, ne_query := link_query u\<rparr>)) =
           pv_name p @ '' - Bitcoin Card Topup'' \<and>
         card_topup_url (link_query u) = ''https://card.albylabs.com?provider='' @ encodeURIComponent (pv_id p)
       else na_name (init_new_app cal (env\<lparr>ne_store := map AppStoreApp.truncate appStoreApps, ne_query := link_query u\<rparr>)) = asa_title e)"
  have found: "?Q p u"
    if p: "p \<in> set providers" and u: "provider_link p = Some u" for p u
  proof -
    obtain e where e: "e \<in> set appStoreApps" "Some (asa_id e) = pv_appStoreId p" and l: "link_query u = provider_query p (asa_id e)"
      using provider_link_page [OF p u] by blast
    have g: "qget (link_query u) ''app'' = asa_id e" and c: "params_get (link_query u) ''c'' = None" by (simp_all add: l query_gets)
    have n: "params_get (link_query u) ''name'' = (if asa_id e = topup_id then Some (pv_name p @ '' - Bitcoin Card Topup'') else None)"
      and v: "params_get (link_query u) ''provider'' = (if asa_id e = topup_id then Some (pv_id p) else None)"
      by (simp_all add: l query_gets)
    have "pv_id p \<noteq> []" using provider_nonempty p by (simp add: list_all_iff)
    then show ?thesis
      using e by (intro exI [of _ e]) (simp add: store_entry [OF e(1) g] page_name [OF e(1) g c] n v card_topup_url_def or_str_name topup_id_def)
  qed
  have "na_name (init_new_app cal (env\<lparr>ne_store := map AppStoreApp.truncate appStoreApps, ne_query := link_query (other_card_link t)\<rparr>)) =
      t @ '' - Bitcoin Card Topup''"
    using page_name [OF topup_entry(1) q] by (simp add: other params_get_def or_str_name)
  moreover have "card_topup_url (link_query (other_card_link t)) = ''https://card.albylabs.com''"
    by (simp add: other card_topup_url_def params_get_def)
  moreover have "list_all (\<lambda>p. case provider_link p of None \<Rightarrow> pv_appStoreId p = None | Some u \<Rightarrow> ?Q p u) providers"
    unfolding list_all_iff
  proof
    fix p assume p: "p \<in> set providers"
    show "case provider_link p of None \<Rightarrow> pv_appStoreId p = None | Some u \<Rightarrow> ?Q p u"
    proof (cases "provider_link p")
      case None
      then show ?thesis by (simp add: provider_link_def)
    next
      case (Some u)
      from found [OF p Some] show ?thesis unfolding Some option.case .
    qed
  qed
  moreover note store_entry [OF topup_entry(1) q]
  ultimately show ?thesis unfolding Let_def by (intro conjI)
qed

end
